(* ===== verification/Prelude.thy ===== *)
theory Prelude
  imports
    Complex_Main
    "HOL-Library.AList"
    "HOL-Library.Multiset"
    "HOL-Library.List_Lexorder"
    "HOL-Library.Char_ord"
    "HOL-Library.Product_Lexorder"
begin

section \<open>Shared vocabulary: results, dictionaries, loops over lists\<close>

text \<open>
  What every component uses. A Python exception is a value of \<open>py_error\<close> and a call that
  may raise returns a \<open>'a res\<close>. A Python dictionary keeps insertion order and replaces in
  place, which is what \<open>AList.update\<close> does on an association list with distinct keys; the
  locale \<open>dictionary\<close> states the laws its clients use. \<open>py_max_by\<close> is
  \<^verbatim>\<open>max(xs, key=f)\<close>, which returns the first of the largest elements, and
  \<open>sort_key\<close> of the library is \<^verbatim>\<open>sorted(xs, key=f)\<close>: stable, ascending.
\<close>

named_theorems dict_simps "laws of insertion-ordered dictionaries"
named_theorems res_simps "evaluation of results"

subsection \<open>Errors and results\<close>

datatype py_error =
    ValueError string
  | KeyError string
  | TypeError string
  | RuntimeError string
  | TimeoutError string
  | ValidationError string
  | IndexError
  | OverflowError
  | IntegrityError
  | InvalidSpecialistResponse string
  | HTTPException nat string
  | OtherError string

type_synonym 'a res = "py_error + 'a"

definition res_bind :: "'a res \<Rightarrow> ('a \<Rightarrow> 'b res) \<Rightarrow> 'b res" where
  "res_bind r f = (case r of Inl e \<Rightarrow> Inl e | Inr x \<Rightarrow> f x)"

fun map_res :: "('a \<Rightarrow> 'b res) \<Rightarrow> 'a list \<Rightarrow> 'b list res" where
  "map_res f [] = Inr []"
| "map_res f (x # xs) =
     (case f x of
        Inl e \<Rightarrow> Inl e
      | Inr y \<Rightarrow> (case map_res f xs of Inl e \<Rightarrow> Inl e | Inr ys \<Rightarrow> Inr (y # ys)))"

lemma res_bind_simps [simp, res_simps]:
  "res_bind (Inl e) f = Inl e" "res_bind (Inr x) f = f x"
  by (simp_all add: res_bind_def)

lemma res_bind_Inr_iff [res_simps]:
  "res_bind r f = Inr y \<longleftrightarrow> (\<exists>x. r = Inr x \<and> f x = Inr y)"
  by (cases r) auto

lemma res_bind_cong [fundef_cong]:
  "r = r' \<Longrightarrow> (\<And>x. r' = Inr x \<Longrightarrow> f x = g x) \<Longrightarrow> res_bind r f = res_bind r' g"
  by (cases r') auto

lemma map_res_Inr_iff:
  "map_res f xs = Inr ys \<longleftrightarrow> list_all2 (\<lambda>x y. f x = Inr y) xs ys"
proof (induction xs arbitrary: ys)
  case Nil
  then show ?case by (cases ys) auto
next
  case (Cons x xs)
  show ?case
  proof (cases ys)
    case Nil
    then show ?thesis by (simp split: sum.splits)
  next
    case (Cons b bs)
    have "map_res f (x # xs) = Inr (b # bs) \<longleftrightarrow> f x = Inr b \<and> map_res f xs = Inr bs"
      by (simp split: sum.splits)
    with Cons Cons.IH show ?thesis by simp
  qed
qed

lemma map_res_pure: "(\<And>x. x \<in> set xs \<Longrightarrow> f x = Inr (g x)) \<Longrightarrow> map_res f xs = Inr (map g xs)"
  by (induction xs) auto

lemma map_res_length: "map_res f xs = Inr ys \<Longrightarrow> length ys = length xs"
  by (auto simp: map_res_Inr_iff dest: list_all2_lengthD)

subsection \<open>Dictionaries\<close>

type_synonym ('k, 'v) pydict = "('k \<times> 'v) list"

abbreviation dget :: "('k, 'v) pydict \<Rightarrow> 'k \<Rightarrow> 'v option" where
  "dget d k \<equiv> map_of d k"

abbreviation dset :: "('k, 'v) pydict \<Rightarrow> 'k \<Rightarrow> 'v \<Rightarrow> ('k, 'v) pydict" where
  "dset d k v \<equiv> AList.update k v d"

abbreviation dkeys :: "('k, 'v) pydict \<Rightarrow> 'k list" where
  "dkeys d \<equiv> map fst d"

definition dget_or :: "('k, 'v) pydict \<Rightarrow> 'k \<Rightarrow> 'v \<Rightarrow> 'v" where
  "dget_or d k v = (case dget d k of None \<Rightarrow> v | Some w \<Rightarrow> w)"

text \<open>\<^verbatim>\<open>d.update(e)\<close>: the pairs of \<open>e\<close> one after the other.\<close>

definition dmerge :: "('k, 'v) pydict \<Rightarrow> ('k, 'v) pydict \<Rightarrow> ('k, 'v) pydict" where
  "dmerge d e = foldl (\<lambda>acc (k, v). dset acc k v) d e"

text \<open>\<^verbatim>\<open>{k: v for ...}\<close>: a later pair replaces an earlier one in place.\<close>

definition dict_of :: "('k \<times> 'v) list \<Rightarrow> ('k, 'v) pydict" where
  "dict_of ps = dmerge [] ps"

locale dictionary =
  fixes lookup :: "'d \<Rightarrow> 'k \<Rightarrow> 'v option"
    and store :: "'d \<Rightarrow> 'k \<Rightarrow> 'v \<Rightarrow> 'd"
    and keys :: "'d \<Rightarrow> 'k list"
  assumes lookup_store: "lookup (store d k v) k' = (if k' = k then Some v else lookup d k')"
    and keys_store: "keys (store d k v) = (if k \<in> set (keys d) then keys d else keys d @ [k])"
    and lookup_keys: "lookup d k = None \<longleftrightarrow> k \<notin> set (keys d)"
begin

definition store_all :: "'d \<Rightarrow> ('k \<times> 'v) list \<Rightarrow> 'd" where
  "store_all d ps = foldl (\<lambda>acc (k, v). store acc k v) d ps"

lemma lookup_store_same: "lookup (store d k v) k = Some v"
  by (simp add: lookup_store)

lemma store_distinct: "distinct (keys d) \<Longrightarrow> distinct (keys (store d k v))"
  by (simp add: keys_store)

lemma store_all_distinct: "distinct (keys d) \<Longrightarrow> distinct (keys (store_all d ps))"
  by (induction ps arbitrary: d) (auto simp: store_all_def store_distinct)

lemma lookup_store_all:
  "lookup (store_all d ps) k = (case map_of (rev ps) k of Some v \<Rightarrow> Some v | None \<Rightarrow> lookup d k)"
proof (induction ps arbitrary: d)
  case Nil
  then show ?case by (simp add: store_all_def)
next
  case (Cons p ps)
  obtain a b where p: "p = (a, b)" by (cases p)
  have "store_all d (p # ps) = store_all (store d a b) ps"
    by (simp add: store_all_def p)
  then show ?case
    by (simp add: Cons.IH p lookup_store map_add_def split: option.splits)
qed

lemma set_keys_store_all: "set (keys (store_all d ps)) = set (keys d) \<union> fst ` set ps"
proof (induction ps arbitrary: d)
  case Nil
  then show ?case by (simp add: store_all_def)
next
  case (Cons p ps)
  have "store_all d (p # ps) = store_all (store d (fst p) (snd p)) ps"
    by (simp add: store_all_def split_def)
  then show ?case by (simp add: Cons.IH keys_store) blast
qed

end

interpretation od: dictionary dget "\<lambda>d k v. dset d k v" dkeys
  by unfold_locales (auto simp: update_conv' update_keys map_of_eq_None_iff)

lemma dmerge_store_all: "dmerge d e = od.store_all d e"
  by (simp add: dmerge_def od.store_all_def)

lemma dget_dset [simp, dict_simps]:
  "dget (dset d k v) k' = (if k' = k then Some v else dget d k')"
  by (rule od.lookup_store)

lemma distinct_dset [intro, dict_simps]: "distinct (dkeys d) \<Longrightarrow> distinct (dkeys (dset d k v))"
  by (rule od.store_distinct)

lemma distinct_dict_of: "distinct (dkeys (dict_of ps))"
  using od.store_all_distinct [of "[]" ps] by (simp add: dict_of_def dmerge_store_all)

lemma dget_dict_of: "dget (dict_of ps) k = map_of (rev ps) k"
  using od.lookup_store_all [of "[]" ps k]
  by (simp add: dict_of_def dmerge_store_all split: option.splits)

lemma dget_dmerge: "dget (dmerge d e) k = (case map_of (rev e) k of Some v \<Rightarrow> Some v | None \<Rightarrow> dget d k)"
  by (simp add: dmerge_store_all od.lookup_store_all)

lemma dkeys_dict_of: "set (dkeys (dict_of ps)) = fst ` set ps"
  using od.set_keys_store_all [of "[]" ps] by (simp add: dict_of_def dmerge_store_all)

text \<open>\<^verbatim>\<open>d.setdefault(k, []).append(x)\<close> over a list: grouping by a key.\<close>

definition dappend :: "('k, 'v list) pydict \<Rightarrow> 'k \<Rightarrow> 'v \<Rightarrow> ('k, 'v list) pydict" where
  "dappend d k x = dset d k (dget_or d k [] @ [x])"

definition group_by :: "('a \<Rightarrow> 'k) \<Rightarrow> 'a list \<Rightarrow> ('k, 'a list) pydict" where
  "group_by f xs = foldl (\<lambda>d x. dappend d (f x) x) [] xs"

lemma dget_or_group_by_aux:
  "dget_or (foldl (\<lambda>d x. dappend d (f x) x) d xs) k [] =
     dget_or d k [] @ filter (\<lambda>x. f x = k) xs"
  by (induction xs arbitrary: d) (auto simp: dappend_def dget_or_def)

lemma dget_or_group_by: "dget_or (group_by f xs) k [] = filter (\<lambda>x. f x = k) xs"
  using dget_or_group_by_aux [of f "[]" xs k] by (simp add: group_by_def dget_or_def)

lemma group_by_keys_aux:
  "set (dkeys (foldl (\<lambda>d x. dappend d (f x) x) d xs)) = set (dkeys d) \<union> f ` set xs"
proof (induction xs arbitrary: d)
  case Nil
  then show ?case by simp
next
  case (Cons x xs)
  have "set (dkeys (dappend d (f x) x)) = insert (f x) (set (dkeys d))"
    unfolding dappend_def od.keys_store by auto
  with Cons.IH [of "dappend d (f x) x"] show ?case by simp
qed

lemma group_by_keys: "set (dkeys (group_by f xs)) = f ` set xs"
  using group_by_keys_aux [of f "[]" xs] by (simp add: group_by_def)

lemma group_by_distinct: "distinct (dkeys (group_by f xs))"
proof -
  have "distinct (dkeys d) \<Longrightarrow> distinct (dkeys (foldl (\<lambda>d x. dappend d (f x) x) d xs))" for d
    by (induction xs arbitrary: d) (auto simp: dappend_def intro!: distinct_dset)
  from this [of "[]"] show ?thesis by (simp add: group_by_def)
qed

lemma dget_group_by:
  "dget (group_by f xs) k =
     (if k \<in> f ` set xs then Some (filter (\<lambda>x. f x = k) xs) else None)"
proof (cases "dget (group_by f xs) k")
  case None
  then have "k \<notin> f ` set xs" using od.lookup_keys [of "group_by f xs" k] group_by_keys [of f xs] by simp
  with None show ?thesis by (simp del: image_iff)
next
  case (Some v)
  then have "k \<in> f ` set xs" using od.lookup_keys [of "group_by f xs" k] group_by_keys [of f xs] by auto
  with Some show ?thesis using dget_or_group_by [of f xs k] by (simp add: dget_or_def)
qed

subsection \<open>The first of the largest elements\<close>

fun max_from :: "('a \<Rightarrow> 'b::linorder) \<Rightarrow> 'a \<Rightarrow> 'a list \<Rightarrow> 'a" where
  "max_from f b [] = b"
| "max_from f b (x # xs) = max_from f (if f b < f x then x else b) xs"

fun py_max_by :: "('a \<Rightarrow> 'b::linorder) \<Rightarrow> 'a list \<Rightarrow> 'a res" where
  "py_max_by f [] = Inl (ValueError ''max() arg is an empty sequence'')"
| "py_max_by f (x # xs) = Inr (max_from f x xs)"

definition first_max :: "('a \<Rightarrow> 'b::linorder) \<Rightarrow> 'a list \<Rightarrow> 'a \<Rightarrow> bool" where
  "first_max f xs m \<longleftrightarrow>
     (\<exists>ys zs. xs = ys @ m # zs \<and> (\<forall>y \<in> set ys. f y < f m) \<and> (\<forall>z \<in> set zs. f z \<le> f m))"

lemma first_max_keep: "first_max f (b # xs) m \<Longrightarrow> \<not> f b < f x \<Longrightarrow> first_max f (b # x # xs) m"
proof -
  assume "first_max f (b # xs) m" and nb: "\<not> f b < f x"
  then obtain ys zs where *: "b # xs = ys @ m # zs" "\<forall>y \<in> set ys. f y < f m" "\<forall>z \<in> set zs. f z \<le> f m"
    by (auto simp: first_max_def)
  show ?thesis
  proof (cases ys)
    case Nil
    with * nb have "b # x # xs = [] @ m # x # zs" "\<forall>z \<in> set (x # zs). f z \<le> f m" by auto
    then show ?thesis unfolding first_max_def by fastforce
  next
    case (Cons y ys')
    with * nb have "b # x # xs = (b # x # ys') @ m # zs" "\<forall>y \<in> set (b # x # ys'). f y < f m" by auto
    with *(3) show ?thesis unfolding first_max_def by blast
  qed
qed

lemma first_max_step: "first_max f (x # xs) m \<Longrightarrow> f b < f x \<Longrightarrow> first_max f (b # x # xs) m"
proof -
  assume "first_max f (x # xs) m" and b: "f b < f x"
  then obtain ys zs where *: "x # xs = ys @ m # zs" "\<forall>y \<in> set ys. f y < f m" "\<forall>z \<in> set zs. f z \<le> f m"
    by (auto simp: first_max_def)
  have "f x \<le> f m" using * by (cases ys) (auto simp: less_imp_le)
  with b have "f b < f m" by simp
  with * have "b # x # xs = (b # ys) @ m # zs" "\<forall>y \<in> set (b # ys). f y < f m" by auto
  with *(3) show ?thesis unfolding first_max_def by blast
qed

lemma max_from_first_max: "first_max f (b # xs) (max_from f b xs)"
proof (induction xs arbitrary: b)
  case Nil
  have "[b] = [] @ b # []" by simp
  then show ?case unfolding first_max_def by fastforce
next
  case (Cons x xs)
  then show ?case by (cases "f b < f x") (auto intro: first_max_step first_max_keep)
qed

lemma py_max_by_first_max: "py_max_by f xs = Inr m \<Longrightarrow> first_max f xs m"
  using max_from_first_max by (cases xs) auto

lemma py_max_by_in: "py_max_by f xs = Inr m \<Longrightarrow> m \<in> set xs"
  by (drule py_max_by_first_max) (auto simp: first_max_def)

lemma py_max_by_ge: "py_max_by f xs = Inr m \<Longrightarrow> x \<in> set xs \<Longrightarrow> f x \<le> f m"
  by (drule py_max_by_first_max) (auto simp: first_max_def less_imp_le)

lemma py_max_by_nonempty: "xs \<noteq> [] \<Longrightarrow> \<exists>m. py_max_by f xs = Inr m"
  by (cases xs) auto

subsection \<open>Lists\<close>

text \<open>Stability of the library's sort, in the form the components use it.\<close>

lemma sort_key_filter_key: "filter (\<lambda>x. f x = k) (sort_key f xs) = filter (\<lambda>x. f x = k) xs"
  by (rule sort_key_stable)

lemma sort_key_unique:
  assumes "mset xs = mset ys" and "inj_on f (set xs)"
  shows "sort_key f xs = sort_key f ys"
proof (rule properties_for_sort_key)
  show "mset (sort_key f ys) = mset xs" using assms by simp
next
  fix k assume k: "k \<in> set (sort_key f ys)"
  have sets: "set ys = set xs" using assms(1) by (metis mset_eq_setD)
  have m: "mset (filter (\<lambda>x. f k = f x) (sort_key f ys)) = mset (filter (\<lambda>x. f k = f x) xs)"
    using assms(1) by simp
  have same: "z = k" if "z \<in> set (filter (\<lambda>x. f k = f x) xs)" for z
    using that k assms(2) sets by (auto simp: inj_on_def)
  have "filter (\<lambda>x. f k = f x) xs = replicate (length (filter (\<lambda>x. f k = f x) xs)) k"
    using same by (metis replicate_length_same)
  moreover have "filter (\<lambda>x. f k = f x) (sort_key f ys) =
      replicate (length (filter (\<lambda>x. f k = f x) (sort_key f ys))) k"
  proof (rule replicate_length_same [symmetric], rule ballI)
    fix z assume "z \<in> set (filter (\<lambda>x. f k = f x) (sort_key f ys))"
    then have "z \<in> set (filter (\<lambda>x. f k = f x) xs)" using sets by simp
    then show "z = k" by (rule same)
  qed
  moreover have "length (filter (\<lambda>x. f k = f x) (sort_key f ys)) = length (filter (\<lambda>x. f k = f x) xs)"
    using m by (metis size_mset)
  ultimately show "filter (\<lambda>x. f k = f x) (sort_key f ys) = filter (\<lambda>x. f k = f x) xs"
    by simp
qed simp

end
