(* ===== verification/Binary64.thy ===== *)
theory Binary64
  imports Prelude "HOL-Library.Log_Nat"
begin

section \<open>Python floats: IEEE 754 binary64 with round-to-nearest-even\<close>

text \<open>
  A finite Python \<^verbatim>\<open>float\<close> is a rational number that \<open>fl\<close> leaves unchanged: \<open>fl x\<close>
  is the binary64 value nearest to \<open>x\<close> (53 significant bits, exponents down to \<open>-1074\<close>, ties
  to even). Every arithmetic operation of the source is the exact operation followed by
  \<open>fl\<close>, and a decimal literal is \<open>fl\<close> of its decimal value, so \<open>0.1 + 0.2 \<noteq> 0.3\<close> holds in
  the model as in Python (\<open>point_one_plus_point_two\<close> below). Overflow to infinity is not part
  of \<open>fl\<close>: the components that use it work on values of moderate size. The built-in
  \<^verbatim>\<open>round(x, n)\<close> is \<open>py_round\<close>: the exact value of \<open>x\<close> rounded half-even to \<open>n\<close>
  decimals, then to the nearest float. \<open>sum\<close> of floats is not used here.

  The locale \<open>rounding\<close> states what the components rely on (a monotone map that fixes 0 and
  1); both \<open>fl\<close> and \<open>py_round n\<close> are interpretations of it.
\<close>

type_synonym float64 = rat

subsection \<open>Nearest integer, ties to even\<close>

definition round_even :: "rat \<Rightarrow> int" where
  "round_even x = (let f = \<lfloor>x + 1/2\<rfloor> in if of_int f = x + 1/2 \<and> odd f then f - 1 else f)"

lemma round_even_of_int [simp]: "round_even (of_int n) = n"
proof -
  have "\<lfloor>of_int n + 1/2 :: rat\<rfloor> = n" by linarith
  moreover have "of_int n \<noteq> (of_int n + 1/2 :: rat)" by simp
  ultimately show ?thesis unfolding round_even_def Let_def by simp
qed

lemma round_even_numeral [simp]: "round_even 0 = 0" "round_even 1 = 1"
  using round_even_of_int [of 0] round_even_of_int [of 1] by simp_all

lemma round_even_mono: "x \<le> y \<Longrightarrow> round_even x \<le> round_even y"
proof -
  assume xy: "x \<le> y"
  let ?f = "\<lfloor>x + 1/2\<rfloor>" and ?g = "\<lfloor>y + 1/2\<rfloor>"
  have fg: "?f \<le> ?g" using xy by (intro floor_mono) simp
  show ?thesis
  proof (cases "?f = ?g")
    case True
    have "x = y" if "of_int ?g = y + 1/2"
    proof -
      have "of_int ?g \<le> x + 1/2" using of_int_floor_le [of "x + 1/2"] unfolding True .
      with that xy show ?thesis by linarith
    qed
    with True show ?thesis by (auto simp: round_even_def Let_def)
  next
    case False
    with fg have "?f \<le> ?g - 1" by simp
    then show ?thesis by (simp add: round_even_def Let_def)
  qed
qed

lemma round_even_error: "\<bar>of_int (round_even x) - x\<bar> \<le> 1/2"
proof -
  define f where "f = \<lfloor>x + 1/2\<rfloor>"
  have f: "of_int f \<le> x + 1/2" "x + 1/2 < of_int f + 1"
    unfolding f_def by linarith+
  have "round_even x = (if of_int f = x + 1/2 \<and> odd f then f - 1 else f)"
    by (simp only: round_even_def Let_def f_def)
  then have "of_int (round_even x) = (of_int f :: rat) \<or>
      of_int (round_even x) = (of_int f - 1 :: rat) \<and> of_int f = x + 1/2" by auto
  with f show ?thesis by linarith
qed

lemma round_even_minus: "round_even (- x) = - round_even x"
proof (cases "of_int \<lfloor>x + 1/2\<rfloor> = x + 1/2")
  case True
  let ?n = "\<lfloor>x + 1/2\<rfloor>"
  have m: "- x + 1/2 = of_int (1 - ?n)"
    unfolding of_int_diff of_int_1 using True by linarith
  then have "\<lfloor>- x + 1/2\<rfloor> = 1 - ?n" by (simp only: floor_of_int)
  with m have "round_even (- x) = (if odd (1 - ?n) then 1 - ?n - 1 else 1 - ?n)"
    by (simp add: round_even_def Let_def)
  moreover have "round_even x = (if odd ?n then ?n - 1 else ?n)"
    using True by (simp add: round_even_def Let_def)
  ultimately show ?thesis by simp
next
  case False
  let ?n = "\<lfloor>x + 1/2\<rfloor>"
  have lt: "of_int ?n < x + 1/2" using False of_int_floor_le [of "x + 1/2"] by linarith
  have fl: "\<lfloor>- x + 1/2\<rfloor> = - ?n" using lt unfolding floor_eq_iff by (simp, linarith)
  have "of_int (- ?n) \<noteq> - x + 1/2"
  proof
    assume "of_int (- ?n) = - x + 1/2"
    then have "x + 1/2 = of_int ?n + 1" by simp
    then show False by linarith
  qed
  with False fl show ?thesis by (simp add: round_even_def Let_def)
qed

subsection \<open>The binary exponent of a positive rational\<close>

definition ilog2 :: "rat \<Rightarrow> int" where
  "ilog2 x = (let (p, q) = quotient_of x; k = bitlen p - bitlen q in
     if 2 powi k \<le> x then k else k - 1)"

lemma powi_mono2: "m \<le> n \<Longrightarrow> (2 :: rat) powi m \<le> 2 powi n"
  by (rule power_int_increasing) auto

lemma powi_Suc2: "(2 :: rat) powi (n + 1) = 2 * 2 powi n"
  by (simp add: power_int_add)

lemma powi_less_iff: "(2 :: rat) powi m < 2 powi n \<Longrightarrow> m < n"
  using powi_mono2 [of n m] by (meson linorder_not_le)

lemma ilog2_bounds:
  assumes "0 < x"
  shows "2 powi (ilog2 x) \<le> x" and "x < 2 powi (ilog2 x + 1)"
proof -
  obtain p q where pq: "quotient_of x = (p, q)" by (cases "quotient_of x")
  then have q: "0 < q" and x: "x = of_int p / of_int q"
    by (auto simp: quotient_of_denom_pos quotient_of_div)
  with assms have p: "0 < p" by (simp add: zero_less_divide_iff)
  have bnd: "2 powi (bitlen n - 1) \<le> (of_int n :: rat) \<and> (of_int n :: rat) < 2 powi bitlen n"
    if "0 < n" for n :: int
  proof -
    have pos: "0 < bitlen n" using that bitlen_nonneg [of n] bitlen_eq_zero_iff [of n] by linarith
    have b: "2 ^ nat (bitlen n - 1) \<le> n \<and> n < 2 ^ nat (bitlen n)" using bitlen_bounds [OF that] .
    have "of_int (2 ^ nat (bitlen n - 1)) \<le> (of_int n :: rat)"
      and "(of_int n :: rat) < of_int (2 ^ nat (bitlen n))"
      using b by (simp_all only: of_int_le_iff of_int_less_iff)
    with pos show ?thesis by (simp add: power_int_def)
  qed
  define k where "k = bitlen p - bitlen q"
  have up: "x < 2 powi (k + 1)"
  proof -
    have "x < 2 powi bitlen p / of_int q"
      unfolding x using bnd [OF p] q by (intro divide_strict_right_mono) auto
    also have "\<dots> \<le> 2 powi bitlen p / 2 powi (bitlen q - 1)"
      using bnd [OF q] q by (intro divide_left_mono) auto
    also have "\<dots> = 2 powi (bitlen p - (bitlen q - 1))" by (simp add: power_int_diff)
    also have "bitlen p - (bitlen q - 1) = k + 1" by (simp add: k_def)
    finally show ?thesis .
  qed
  have lo: "2 powi (k - 1) \<le> x"
  proof -
    have "k - 1 = bitlen p - 1 - bitlen q" by (simp add: k_def)
    then have "(2 :: rat) powi (k - 1) = 2 powi (bitlen p - 1) / 2 powi bitlen q"
      by (simp add: power_int_diff)
    also have "\<dots> \<le> 2 powi (bitlen p - 1) / of_int q"
      using bnd [OF q] q by (intro divide_left_mono) auto
    also have "\<dots> \<le> x" unfolding x using bnd [OF p] q by (intro divide_right_mono) auto
    finally show ?thesis .
  qed
  have i: "ilog2 x = (if 2 powi k \<le> x then k else k - 1)"
    by (simp add: ilog2_def pq k_def)
  show "2 powi (ilog2 x) \<le> x" using lo by (simp add: i)
  show "x < 2 powi (ilog2 x + 1)" using up by (simp add: i)
qed

lemma ilog2_mono: "0 < x \<Longrightarrow> x \<le> y \<Longrightarrow> ilog2 x \<le> ilog2 y"
  using powi_less_iff [of "ilog2 x" "ilog2 y + 1"] ilog2_bounds [of x] ilog2_bounds [of y] by force

subsection \<open>Rounding to the nearest binary64 value\<close>

definition ulp_exp :: "rat \<Rightarrow> int" where
  "ulp_exp x = max (ilog2 \<bar>x\<bar> - 52) (-1074)"

definition fl :: "rat \<Rightarrow> float64" where
  "fl x = (if x = 0 then 0 else let u = 2 powi (ulp_exp x) in of_int (round_even (x / u)) * u)"

lemma fl_0 [simp]: "fl 0 = 0"
  by (simp add: fl_def)

lemma fl_minus: "fl (- x) = - fl x"
  by (simp add: fl_def ulp_exp_def Let_def round_even_minus)

lemma fl_eq: "fl x = of_int (round_even (x / 2 powi (ulp_exp x))) * 2 powi (ulp_exp x)"
  by (simp add: fl_def Let_def)

lemma ulp_exp_mono: "0 < x \<Longrightarrow> x \<le> y \<Longrightarrow> ulp_exp x \<le> ulp_exp y"
  using ilog2_mono [of x y] by (simp add: ulp_exp_def)

lemma fl_nonneg: "0 \<le> x \<Longrightarrow> 0 \<le> fl x"
  using round_even_mono [of 0 "x / 2 powi (ulp_exp x)"] by (simp add: fl_eq)

lemma fl_mono_pos:
  assumes "0 < x" "x \<le> y"
  shows "fl x \<le> fl y"
proof (cases "ulp_exp x = ulp_exp y")
  case True
  have "round_even (x / 2 powi (ulp_exp x)) \<le> round_even (y / 2 powi (ulp_exp x))"
    using assms by (intro round_even_mono divide_right_mono) auto
  with True show ?thesis unfolding fl_eq by (simp add: mult_right_mono)
next
  case False
  with ulp_exp_mono [OF assms] have lt: "ulp_exp x < ulp_exp y" by simp
  have big: "ulp_exp y = ilog2 y - 52" using lt assms by (auto simp: ulp_exp_def)
  have ylo: "2 powi (ulp_exp y + 52) \<le> y" using ilog2_bounds [of y] assms big by simp
  have "x < 2 powi (ilog2 x + 1)" using ilog2_bounds [of x] assms by simp
  also have "\<dots> \<le> 2 powi (ulp_exp x + 53)" using assms by (intro powi_mono2) (simp add: ulp_exp_def)
  finally have xhi: "x / 2 powi (ulp_exp x) \<le> of_int (2 ^ 53)"
    by (simp add: power_int_add field_simps less_imp_le)
  have "round_even (x / 2 powi (ulp_exp x)) \<le> 2 ^ 53"
    using round_even_mono [OF xhi] by (simp only: round_even_of_int)
  then have "fl x \<le> of_int (2 ^ 53) * 2 powi (ulp_exp x)"
    unfolding fl_eq by (intro mult_right_mono) (simp_all only: of_int_le_iff, simp)
  also have "\<dots> = 2 powi (ulp_exp x + 53)" by (simp add: power_int_add)
  also have "\<dots> \<le> 2 powi (ulp_exp y + 52)" using lt by (intro powi_mono2) simp
  also have "\<dots> = of_int (2 ^ 52) * 2 powi (ulp_exp y)" by (simp add: power_int_add)
  also have "\<dots> \<le> fl y"
  proof -
    have "of_int (2 ^ 52) \<le> y / 2 powi (ulp_exp y)"
      using ylo by (simp add: power_int_add field_simps)
    from round_even_mono [OF this] have "2 ^ 52 \<le> round_even (y / 2 powi (ulp_exp y))"
      by (simp only: round_even_of_int)
    then show ?thesis unfolding fl_eq by (intro mult_right_mono) (simp_all only: of_int_le_iff, simp)
  qed
  finally show ?thesis .
qed

lemma fl_mono: "x \<le> y \<Longrightarrow> fl x \<le> fl y"
proof -
  assume xy: "x \<le> y"
  consider "0 < x" | "x \<le> 0" "0 \<le> y" | "y < 0" by linarith
  then show ?thesis
  proof cases
    case 1
    then show ?thesis using xy by (rule fl_mono_pos)
  next
    case 2
    then have "fl x \<le> 0" using fl_nonneg [of "- x"] by (simp add: fl_minus)
    also have "0 \<le> fl y" using 2 by (simp add: fl_nonneg)
    finally show ?thesis .
  next
    case 3
    then have "fl (- y) \<le> fl (- x)" using xy by (intro fl_mono_pos) auto
    then show ?thesis by (simp add: fl_minus)
  qed
qed

subsection \<open>The values \<open>fl\<close> leaves unchanged\<close>

lemma fl_grid_pos:
  assumes "0 < m" "m < 2 ^ 53" "-1074 \<le> e"
  shows "fl (of_int m * 2 powi e) = of_int m * 2 powi e"
proof -
  define y where "y = (of_int m * 2 powi e :: rat)"
  have y: "0 < y" using assms by (simp add: y_def)
  have "y < of_int (2 ^ 53) * 2 powi e" unfolding y_def using assms
    by (intro mult_strict_right_mono) (simp_all only: of_int_less_iff, simp)
  also have "\<dots> = 2 powi (e + 53)" by (simp add: power_int_add)
  finally have "2 powi (ilog2 y) < (2 :: rat) powi (e + 53)"
    using ilog2_bounds(1) [OF y] by linarith
  then have "ilog2 y < e + 53" by (rule powi_less_iff)
  with assms y have le: "ulp_exp y \<le> e" by (simp add: ulp_exp_def)
  obtain k where k: "e = ulp_exp y + int k" using le by (metis zle_iff_zadd)
  have "y = of_int m * 2 powi (ulp_exp y + int k)" using y_def k by simp
  then have yk: "y = of_int (m * 2 ^ k) * 2 powi (ulp_exp y)"
    by (simp add: power_int_add algebra_simps)
  then have "y / 2 powi (ulp_exp y) = of_int (m * 2 ^ k)" by (simp add: field_simps)
  then have "fl y = of_int (m * 2 ^ k) * 2 powi (ulp_exp y)"
    unfolding fl_eq by (simp only: round_even_of_int)
  then have "fl y = y" using yk by simp
  then show ?thesis by (simp add: y_def)
qed

lemma fl_grid:
  assumes "\<bar>m\<bar> \<le> 2 ^ 53" "-1074 \<le> e"
  shows "fl (of_int m * 2 powi e) = of_int m * 2 powi e"
proof -
  have pos: "fl (of_int n * 2 powi e) = of_int n * 2 powi e" if n: "0 < n" "n \<le> 2 ^ 53" for n
  proof (cases "n = 2 ^ 53")
    case False
    with n assms(2) show ?thesis by (intro fl_grid_pos) auto
  next
    case True
    then have "of_int n * (2 :: rat) powi e = of_int (2 ^ 52) * 2 powi (e + 1)"
      by (simp add: power_int_add)
    with fl_grid_pos [of "2 ^ 52" "e + 1"] assms(2) show ?thesis by simp
  qed
  consider "m = 0" | "0 < m" | "0 < - m" by linarith
  then show ?thesis
  proof cases
    case 1
    then show ?thesis by simp
  next
    case 2
    then show ?thesis using assms(1) by (intro pos) auto
  next
    case 3
    then have "fl (of_int (- m) * 2 powi e) = of_int (- m) * 2 powi e"
      using assms(1) by (intro pos) auto
    then show ?thesis using fl_minus [of "of_int m * 2 powi e"] by simp
  qed
qed

lemma fl_of_int: "\<bar>n\<bar> \<le> 2 ^ 53 \<Longrightarrow> fl (of_int n) = of_int n"
  using fl_grid [of n 0] by simp

lemma fl_1 [simp]: "fl 1 = 1"
  using fl_of_int [of 1] by simp

lemma fl_idem [simp]: "fl (fl x) = fl x"
proof (cases "x = 0")
  case False
  let ?a = "\<bar>x\<bar> / 2 powi (ulp_exp x)"
  have "\<bar>x\<bar> < 2 powi (ilog2 \<bar>x\<bar> + 1)" using ilog2_bounds [of "\<bar>x\<bar>"] False by simp
  also have "\<dots> \<le> 2 powi (ulp_exp x + 53)" by (intro powi_mono2) (simp add: ulp_exp_def)
  finally have "?a \<le> of_int (2 ^ 53)" by (simp add: power_int_add field_simps less_imp_le)
  from round_even_mono [OF this] have hi: "round_even ?a \<le> 2 ^ 53" by (simp only: round_even_of_int)
  have lo: "0 \<le> round_even ?a" using round_even_mono [of 0 ?a] by simp
  have "\<bar>round_even (x / 2 powi (ulp_exp x))\<bar> \<le> 2 ^ 53"
    using hi lo round_even_minus [of "x / 2 powi (ulp_exp x)"] by (cases "0 \<le> x") auto
  then show ?thesis unfolding fl_eq [of x] by (rule fl_grid) (simp add: ulp_exp_def)
qed simp

text \<open>Half an ulp of error, as IEEE 754 asks of every operation.\<close>

lemma fl_error: "\<bar>fl x - x\<bar> \<le> 2 powi (ulp_exp x) / 2"
proof -
  let ?u = "2 powi (ulp_exp x) :: rat"
  have "fl x - x = (of_int (round_even (x / ?u)) - x / ?u) * ?u"
    by (simp add: fl_eq left_diff_distrib)
  then have "\<bar>fl x - x\<bar> = \<bar>of_int (round_even (x / ?u)) - x / ?u\<bar> * ?u"
    by (simp only: abs_mult abs_of_pos zero_less_power_int zero_less_numeral)
  also have "\<dots> \<le> 1/2 * ?u" by (intro mult_right_mono round_even_error) simp
  finally show ?thesis by simp
qed

lemma ulp_exp_small: "\<bar>x\<bar> < 2 ^ 30 \<Longrightarrow> ulp_exp x \<le> - 23"
proof (cases "x = 0")
  case True
  have "ulp_exp 0 \<le> - 23" by code_simp
  then show ?thesis by (simp add: True)
next
  case False
  assume x: "\<bar>x\<bar> < 2 ^ 30"
  have "(2 :: rat) powi (ilog2 \<bar>x\<bar>) < 2 powi 30"
    using ilog2_bounds(1) [of "\<bar>x\<bar>"] False x by (simp add: power_int_def)
  then have "ilog2 \<bar>x\<bar> < 30" by (rule powi_less_iff)
  then show ?thesis by (simp add: ulp_exp_def)
qed

lemma fl_error_small: "\<bar>x\<bar> < 2 ^ 30 \<Longrightarrow> \<bar>fl x - x\<bar> \<le> 1 / 2 ^ 24"
proof -
  assume "\<bar>x\<bar> < 2 ^ 30"
  then have "(2 :: rat) powi ulp_exp x \<le> 2 powi (- 23)" by (intro powi_mono2 ulp_exp_small)
  also have "(2 :: rat) powi (- 23) = 1 / 2 ^ 23" by (simp add: power_int_minus_divide)
  finally show ?thesis using fl_error [of x] by simp
qed

subsection \<open>Operations of the source\<close>

definition fadd :: "float64 \<Rightarrow> float64 \<Rightarrow> float64" where "fadd a b = fl (a + b)"
definition fsub :: "float64 \<Rightarrow> float64 \<Rightarrow> float64" where "fsub a b = fl (a - b)"
definition fmul :: "float64 \<Rightarrow> float64 \<Rightarrow> float64" where "fmul a b = fl (a * b)"
definition fdiv :: "float64 \<Rightarrow> float64 \<Rightarrow> float64" where "fdiv a b = fl (a / b)"

definition py_round :: "nat \<Rightarrow> float64 \<Rightarrow> float64" where
  "py_round n x = fl (of_int (round_even (x * 10 ^ n)) / 10 ^ n)"

lemma point_one_plus_point_two: "fadd (fl (1/10)) (fl (2/10)) \<noteq> fl (3/10)"
  by code_simp

subsection \<open>What the components rely on\<close>

locale rounding =
  fixes rnd :: "rat \<Rightarrow> rat"
  assumes rnd_mono: "x \<le> y \<Longrightarrow> rnd x \<le> rnd y"
    and rnd_0: "rnd 0 = 0"
    and rnd_1: "rnd 1 = 1"
begin

lemma rnd_nonneg: "0 \<le> x \<Longrightarrow> 0 \<le> rnd x"
  using rnd_mono [of 0 x] by (simp add: rnd_0)

lemma rnd_le_1: "x \<le> 1 \<Longrightarrow> rnd x \<le> 1"
  using rnd_mono [of x 1] by (simp add: rnd_1)

lemma rnd_unit: "0 \<le> x \<Longrightarrow> x \<le> 1 \<Longrightarrow> 0 \<le> rnd x \<and> rnd x \<le> 1"
  by (simp add: rnd_nonneg rnd_le_1)

lemma rnd_le_fixed: "x \<le> y \<Longrightarrow> rnd y = y \<Longrightarrow> rnd x \<le> y"
  using rnd_mono [of x y] by simp

lemma rnd_ge_fixed: "y \<le> x \<Longrightarrow> rnd y = y \<Longrightarrow> y \<le> rnd x"
  using rnd_mono [of y x] by simp

lemma rnd_between: "a \<le> x \<Longrightarrow> x \<le> b \<Longrightarrow> rnd a \<le> rnd x \<and> rnd x \<le> rnd b"
  by (simp add: rnd_mono)

end

interpretation b64: rounding fl
  by unfold_locales (simp_all add: fl_mono)

interpretation dec: rounding "py_round n"
proof unfold_locales
  fix x y :: rat assume "x \<le> y"
  then have "round_even (x * 10 ^ n) \<le> round_even (y * 10 ^ n)" by (intro round_even_mono) simp
  then have "of_int (round_even (x * 10 ^ n)) / 10 ^ n \<le> (of_int (round_even (y * 10 ^ n)) / 10 ^ n :: rat)"
    by (intro divide_right_mono) simp_all
  then show "py_round n x \<le> py_round n y" unfolding py_round_def by (rule fl_mono)
next
  show "py_round n 0 = 0" by (simp add: py_round_def)
  have "round_even (10 ^ n) = 10 ^ n" using round_even_of_int [of "10 ^ n"] by simp
  then show "py_round n 1 = 1" by (simp add: py_round_def)
qed

lemma fl_py_round [simp]: "fl (py_round n x) = py_round n x"
  by (simp add: py_round_def)

lemma fadd_mono: "a \<le> a' \<Longrightarrow> b \<le> b' \<Longrightarrow> fadd a b \<le> fadd a' b'"
  unfolding fadd_def by (intro b64.rnd_mono add_mono)

lemma fmul_mono: "0 \<le> a \<Longrightarrow> a \<le> a' \<Longrightarrow> 0 \<le> b \<Longrightarrow> b \<le> b' \<Longrightarrow> fmul a b \<le> fmul a' b'"
  unfolding fmul_def by (intro b64.rnd_mono mult_mono) auto

lemma fsub_mono: "a \<le> a' \<Longrightarrow> b' \<le> b \<Longrightarrow> fsub a b \<le> fsub a' b'"
  unfolding fsub_def by (intro b64.rnd_mono diff_mono)

lemma fdiv_mono: "0 < b \<Longrightarrow> a \<le> a' \<Longrightarrow> fdiv a b \<le> fdiv a' b"
  unfolding fdiv_def by (intro b64.rnd_mono divide_right_mono) auto

lemma fadd_nonneg: "0 \<le> a \<Longrightarrow> 0 \<le> b \<Longrightarrow> 0 \<le> fadd a b"
  unfolding fadd_def by (intro b64.rnd_nonneg) simp

lemma fmul_nonneg: "0 \<le> a \<Longrightarrow> 0 \<le> b \<Longrightarrow> 0 \<le> fmul a b"
  unfolding fmul_def by (intro b64.rnd_nonneg) simp

lemma fmul_unit: "0 \<le> a \<Longrightarrow> a \<le> 1 \<Longrightarrow> 0 \<le> b \<Longrightarrow> b \<le> 1 \<Longrightarrow> 0 \<le> fmul a b \<and> fmul a b \<le> 1"
  unfolding fmul_def by (intro b64.rnd_unit) (simp_all add: mult_le_one)

lemmas float_mono = fadd_mono fmul_mono fsub_mono fdiv_mono dec.rnd_mono b64.rnd_mono
lemmas float_nonneg = fadd_nonneg fmul_nonneg dec.rnd_nonneg b64.rnd_nonneg

end
