(* ===== verification/PyText.thy ===== *)
theory PyText
  imports Binary64
begin

section \<open>Python strings\<close>

text \<open>
  A \<^verbatim>\<open>str\<close> is a \<open>string\<close>: a list of characters, one per code point. The model covers the
  ASCII range, where \<^verbatim>\<open>lower()\<close> changes the 26 capital letters and \<^verbatim>\<open>strip()\<close> drops
  blanks, the controls 9 to 13 and 28 to 31. The operations the source uses are defined here:
  \<open>to_lower\<close>, \<open>strip\<close>, \<open>split_on\<close>, \<open>split1\<close> (\<^verbatim>\<open>split(c, 1)\<close>), \<open>join\<close>, \<open>contains\<close>
  (\<^verbatim>\<open>x in s\<close>), \<open>starts_with\<close>, \<open>remove_prefix\<close>, \<open>str_of_int\<close>, \<open>fmt_fixed n\<close> (the format
  \<^verbatim>\<open>:.nf\<close>), \<open>float_repr\<close> (the shortest decimal that reads back as the same float) and the
  parsers behind \<^verbatim>\<open>int(s, 16)\<close>, \<^verbatim>\<open>int(s)\<close> and \<^verbatim>\<open>float(s)\<close>.
\<close>

subsection \<open>Characters\<close>

definition char_code :: "char \<Rightarrow> nat" where "char_code c = of_char c"

definition lower_char :: "char \<Rightarrow> char" where
  "lower_char c = (if 65 \<le> char_code c \<and> char_code c \<le> 90 then char_of (char_code c + 32) else c)"

definition is_space :: "char \<Rightarrow> bool" where
  "is_space c \<longleftrightarrow> (let n = char_code c in n = 32 \<or> 9 \<le> n \<and> n \<le> 13 \<or> 28 \<le> n \<and> n \<le> 31)"

definition digit_char :: "nat \<Rightarrow> char" where "digit_char d = char_of (48 + d)"

definition is_digit :: "char \<Rightarrow> bool" where
  "is_digit c \<longleftrightarrow> 48 \<le> char_code c \<and> char_code c \<le> 57"

definition hex_value :: "char \<Rightarrow> nat option" where
  "hex_value c = (let n = char_code c in
     if 48 \<le> n \<and> n \<le> 57 then Some (n - 48)
     else if 97 \<le> n \<and> n \<le> 102 then Some (n - 87)
     else if 65 \<le> n \<and> n \<le> 70 then Some (n - 55) else None)"

lemma char_code_char_of [simp]: "n < 256 \<Longrightarrow> char_code (char_of n) = n"
  by (simp add: char_code_def)

lemma lower_char_idem [simp]: "lower_char (lower_char c) = lower_char c"
  by (simp add: lower_char_def)

lemma is_digit_digit_char: "d < 10 \<Longrightarrow> is_digit (digit_char d)"
  by (simp add: is_digit_def digit_char_def)

subsection \<open>Whole strings\<close>

definition to_lower :: "string \<Rightarrow> string" where "to_lower s = map lower_char s"

definition lstrip :: "string \<Rightarrow> string" where "lstrip s = dropWhile is_space s"
definition rstrip :: "string \<Rightarrow> string" where "rstrip s = rev (dropWhile is_space (rev s))"
definition strip :: "string \<Rightarrow> string" where "strip s = rstrip (lstrip s)"

definition starts_with :: "string \<Rightarrow> string \<Rightarrow> bool" where
  "starts_with p s \<longleftrightarrow> take (length p) s = p"

definition remove_prefix :: "string \<Rightarrow> string \<Rightarrow> string" where
  "remove_prefix p s = (if starts_with p s then drop (length p) s else s)"

fun contains :: "string \<Rightarrow> string \<Rightarrow> bool" where
  "contains p [] \<longleftrightarrow> p = []"
| "contains p (c # s) \<longleftrightarrow> starts_with p (c # s) \<or> contains p s"

fun split_on :: "char \<Rightarrow> string \<Rightarrow> string list" where
  "split_on c [] = [[]]"
| "split_on c (x # xs) =
     (if x = c then [] # split_on c xs
      else (case split_on c xs of [] \<Rightarrow> [[x]] | p # ps \<Rightarrow> (x # p) # ps))"

definition split1 :: "char \<Rightarrow> string \<Rightarrow> string \<times> string" where
  "split1 c s = (takeWhile (\<lambda>x. x \<noteq> c) s, drop 1 (dropWhile (\<lambda>x. x \<noteq> c) s))"

fun join :: "string \<Rightarrow> string list \<Rightarrow> string" where
  "join sep [] = []"
| "join sep [x] = x"
| "join sep (x # y # xs) = x @ sep @ join sep (y # xs)"

definition replace_char :: "char \<Rightarrow> char \<Rightarrow> string \<Rightarrow> string" where
  "replace_char a b s = map (\<lambda>c. if c = a then b else c) s"

lemma to_lower_idem [simp]: "to_lower (to_lower s) = to_lower s"
  by (simp add: to_lower_def)

lemma to_lower_append [simp]: "to_lower (s @ t) = to_lower s @ to_lower t"
  by (simp add: to_lower_def)

lemma length_to_lower [simp]: "length (to_lower s) = length s"
  by (simp add: to_lower_def)

lemma to_lower_eq_Nil [simp]: "to_lower s = [] \<longleftrightarrow> s = []"
  by (simp add: to_lower_def)

lemma starts_with_append: "starts_with p (p @ s)"
  by (simp add: starts_with_def)

lemma split_on_nonempty: "split_on c s \<noteq> []"
  by (induction s) (auto split: list.splits)

lemma split_on_free: "p \<in> set (split_on c s) \<Longrightarrow> c \<notin> set p"
  by (induction s arbitrary: p) (auto split: list.splits if_splits)

lemma join_split_on: "join [c] (split_on c s) = s"
proof (induction s)
  case (Cons x xs)
  obtain p ps where ps: "split_on c xs = p # ps" using split_on_nonempty by (metis list.exhaust)
  with Cons show ?case by (cases ps) auto
qed simp

lemma strip_no_space: "strip s \<noteq> [] \<Longrightarrow> \<not> is_space (hd (strip s)) \<and> \<not> is_space (last (strip s))"
proof -
  assume ne: "strip s \<noteq> []"
  let ?r = "dropWhile is_space (rev (lstrip s))"
  have r: "strip s = rev ?r" by (simp add: strip_def rstrip_def)
  with ne have "?r \<noteq> []" by simp
  then have "\<not> is_space (hd ?r)" by (rule hd_dropWhile)
  then have last: "\<not> is_space (last (strip s))" using ne r by (simp add: last_rev)
  have "\<exists>zs. lstrip s = strip s @ zs"
    using takeWhile_dropWhile_id [of is_space "rev (lstrip s)"] unfolding r
    by (metis rev_append rev_rev_ident)
  then have hd: "hd (strip s) = hd (lstrip s)" and l: "dropWhile is_space s \<noteq> []"
    using ne by (auto simp: hd_append lstrip_def simp del: dropWhile_eq_Nil_conv)
  from l have "\<not> is_space (hd (lstrip s))" unfolding lstrip_def by (rule hd_dropWhile)
  with hd last show ?thesis by simp
qed

lemma strip_id_iff: "strip s = s \<longleftrightarrow> s = [] \<or> \<not> is_space (hd s) \<and> \<not> is_space (last s)"
proof
  assume "strip s = s"
  then show "s = [] \<or> \<not> is_space (hd s) \<and> \<not> is_space (last s)"
    using strip_no_space [of s] by auto
next
  assume a: "s = [] \<or> \<not> is_space (hd s) \<and> \<not> is_space (last s)"
  show "strip s = s"
  proof (cases "s = []")
    case True
    then show ?thesis by (simp add: strip_def lstrip_def rstrip_def)
  next
    case False
    with a have "dropWhile is_space s = s" by (cases s) auto
    moreover have "dropWhile is_space (rev s) = rev s"
      using False a by (cases s rule: rev_cases) auto
    ultimately show ?thesis by (simp add: strip_def lstrip_def rstrip_def)
  qed
qed

lemma split1_at: "c \<notin> set a \<Longrightarrow> split1 c (a @ c # b) = (a, b)"
proof -
  assume c: "c \<notin> set a"
  have "takeWhile (\<lambda>x. x \<noteq> c) (a @ c # b) = a"
    using c by (subst takeWhile_append2) auto
  moreover have "dropWhile (\<lambda>x. x \<noteq> c) (a @ c # b) = c # b"
    using c by (subst dropWhile_append2) auto
  ultimately show ?thesis by (simp add: split1_def)
qed

lemma split_on_append: "c \<notin> set a \<Longrightarrow> split_on c (a @ c # b) = a # split_on c b"
  by (induction a) auto

lemma split_on_none: "c \<notin> set a \<Longrightarrow> split_on c a = [a]"
  by (induction a) auto

lemma split_on_join:
  "xs \<noteq> [] \<Longrightarrow> (\<And>x. x \<in> set xs \<Longrightarrow> c \<notin> set x) \<Longrightarrow> split_on c (join [c] xs) = xs"
proof (induction "[c]" xs rule: join.induct)
  case (2 x)
  then show ?case by (simp add: split_on_none)
next
  case (3 x y xs)
  then show ?case by (simp add: split_on_append)
qed simp

lemma strip_empty: "strip s = [] \<longleftrightarrow> (\<forall>c \<in> set s. is_space c)"
proof -
  have "strip s = [] \<longleftrightarrow> dropWhile is_space s = []"
  proof
    assume "strip s = []"
    then have all: "\<forall>c \<in> set (dropWhile is_space s). is_space c"
      by (auto simp: strip_def rstrip_def lstrip_def dest: set_dropWhileD)
    show "dropWhile is_space s = []"
    proof (rule ccontr)
      assume ne: "dropWhile is_space s \<noteq> []"
      then show False using hd_dropWhile [OF ne] all hd_in_set [OF ne] by blast
    qed
  qed (auto simp: strip_def lstrip_def rstrip_def dest: set_dropWhileD)
  then show ?thesis by (simp add: dropWhile_eq_Nil_conv)
qed

subsection \<open>Decimal numerals\<close>

function digits_of :: "int \<Rightarrow> string" where
  "digits_of n =
     (if n < 10 then [digit_char (nat n)] else digits_of (n div 10) @ [digit_char (nat (n mod 10))])"
  by pat_completeness auto
termination
  by (relation "measure nat") auto

declare digits_of.simps [simp del]

definition str_of_int :: "int \<Rightarrow> string" where
  "str_of_int i = (if i < 0 then ''-'' @ digits_of (- i) else digits_of i)"

lemma digits_of_digits: "0 \<le> n \<Longrightarrow> c \<in> set (digits_of n) \<Longrightarrow> is_digit c"
proof (induction n arbitrary: c rule: digits_of.induct)
  case (1 n)
  have m: "nat (n mod 10) < 10" by (simp add: nat_less_iff)
  show ?case
  proof (cases "n < 10")
    case True
    with 1 show ?thesis by (simp add: digits_of.simps [of n] is_digit_digit_char nat_less_iff)
  next
    case False
    with 1 m show ?thesis by (auto simp: digits_of.simps [of n] intro: is_digit_digit_char)
  qed
qed

fun int_of_digits :: "int \<Rightarrow> string \<Rightarrow> int" where
  "int_of_digits acc [] = acc"
| "int_of_digits acc (c # cs) = int_of_digits (acc * 10 + int (char_code c - 48)) cs"

lemma int_of_digits_snoc: "int_of_digits a (s @ [c]) = int_of_digits a s * 10 + int (char_code c - 48)"
  by (induction s arbitrary: a) auto

lemma char_code_digit: "d < 10 \<Longrightarrow> char_code (digit_char d) - 48 = d"
  by (simp add: digit_char_def)

lemma int_of_digits_of: "0 \<le> n \<Longrightarrow> int_of_digits 0 (digits_of n) = n"
proof (induction n rule: digits_of.induct)
  case (1 n)
  have m: "nat (n mod 10) < 10" by (simp add: nat_less_iff)
  show ?case
  proof (cases "n < 10")
    case True
    with 1 show ?thesis by (subst digits_of.simps) (simp add: char_code_digit nat_less_iff)
  next
    case False
    with 1 m show ?thesis by (subst digits_of.simps) (simp add: int_of_digits_snoc char_code_digit)
  qed
qed

lemma minus_not_digit: "\<not> is_digit (CHR ''-'')" and colon_not_digit: "\<not> is_digit (CHR '':'')"
  by (simp_all add: is_digit_def char_code_def)

lemma str_of_int_inj: "str_of_int i = str_of_int j \<Longrightarrow> i = j"
proof -
  assume eq: "str_of_int i = str_of_int j"
  have nm: "0 \<le> n \<Longrightarrow> digits_of n \<noteq> CHR ''-'' # t" for n t
    using digits_of_digits [of n "CHR ''-''"] minus_not_digit by auto
  have inj: "0 \<le> m \<Longrightarrow> 0 \<le> n \<Longrightarrow> digits_of m = digits_of n \<Longrightarrow> m = n" for m n
    by (metis int_of_digits_of)
  show ?thesis
    using eq nm [of i] nm [of j] inj [of i j] inj [of "- i" "- j"]
    by (auto simp: str_of_int_def split: if_splits) (metis linorder_not_less)+
qed

lemma str_of_int_chars: "c \<in> set (str_of_int i) \<Longrightarrow> is_digit c \<or> c = CHR ''-''"
  by (auto simp: str_of_int_def split: if_splits dest: digits_of_digits [rotated])

text \<open>A separator that occurs in neither right-hand part splits a concatenation uniquely.\<close>

lemma append_sep_inj:
  assumes "a @ c # b = a' @ c # b'" "c \<notin> set b" "c \<notin> set b'"
  shows "a = a' \<and> b = b'"
proof -
  have t: "takeWhile (\<lambda>x. x \<noteq> c) (rev u @ c # v) = rev u" if "c \<notin> set u" for u v
    using that by (subst takeWhile_append2) auto
  have "rev b @ c # rev a = rev b' @ c # rev a'" using arg_cong [OF assms(1), of rev] by simp
  then have "takeWhile (\<lambda>x. x \<noteq> c) (rev b @ c # rev a) = takeWhile (\<lambda>x. x \<noteq> c) (rev b' @ c # rev a')"
    by simp
  then have "rev b = rev b'" by (simp only: t assms(2,3) not_False_eq_True)
  with assms(1) show ?thesis by simp
qed

subsection \<open>Fixed-point formatting and the shortest float literal\<close>

definition zero_pad :: "nat \<Rightarrow> string \<Rightarrow> string" where
  "zero_pad n s = replicate (n - length s) (CHR ''0'') @ s"

definition fmt_fixed :: "nat \<Rightarrow> float64 \<Rightarrow> string" where
  "fmt_fixed n x =
     (let r = round_even (\<bar>x\<bar> * 10 ^ n) in
      (if x < 0 then ''-'' else []) @ digits_of (r div 10 ^ n) @
      (if n = 0 then [] else ''.'' @ zero_pad n (digits_of (r mod 10 ^ n))))"

text \<open>
  The decimal exponent \<open>k\<close> with \<open>10 ^ k \<le> x < 10 ^ (k + 1)\<close> for \<open>0 < x\<close>, found from the binary
  exponent: the estimate is off by at most one.
\<close>

definition ilog10 :: "rat \<Rightarrow> int" where
  "ilog10 x = (let k = (ilog2 x * 30103) div 100000 in
     if x < 10 powi k then k - 1 else if 10 powi (k + 1) \<le> x then k + 1 else k)"

text \<open>
  With \<open>n\<close> significant digits: the nearer of the two neighbours on the decimal grid that reads
  back as \<open>x\<close>.
\<close>

definition digits_try :: "rat \<Rightarrow> int \<Rightarrow> nat \<Rightarrow> int option" where
  "digits_try x k n =
     (let u = 10 powi (k + 1 - int n); lo = \<lfloor>x / u\<rfloor>; hi = lo + 1;
          near = (if x / u - of_int lo \<le> 1/2 then [lo, hi] else [hi, lo])
      in List.find (\<lambda>c. fl (of_int c * u) = x) near)"

fun shortest_from :: "rat \<Rightarrow> int \<Rightarrow> nat list \<Rightarrow> int \<times> nat" where
  "shortest_from x k [] = (0, 0)"
| "shortest_from x k (n # ns) =
     (case digits_try x k n of Some c \<Rightarrow> (c, n) | None \<Rightarrow> shortest_from x k ns)"

definition strip_zeros :: "string \<Rightarrow> string" where
  "strip_zeros s = rev (dropWhile (\<lambda>c. c = CHR ''0'') (rev s))"

definition float_repr_pos :: "rat \<Rightarrow> string" where
  "float_repr_pos x =
     (let k = ilog10 x; (c, n) = shortest_from x k [1..<18];
          s = digits_of c; pt = k + int (length s) - int n + 1; d = strip_zeros s
      in if -4 < pt \<and> pt \<le> 16 then
           (if pt \<le> 0 then ''0.'' @ replicate (nat (- pt)) (CHR ''0'') @ d
            else if length d \<le> nat pt then d @ replicate (nat pt - length d) (CHR ''0'') @ ''.0''
            else take (nat pt) d @ ''.'' @ drop (nat pt) d)
         else
           (take 1 d @ (if length d = 1 then [] else ''.'' @ drop 1 d) @ ''e'' @
            (if pt - 1 < 0 then ''-'' else ''+'') @ zero_pad 2 (digits_of \<bar>pt - 1\<bar>)))"

definition float_repr :: "float64 \<Rightarrow> string" where
  "float_repr x = (if x = 0 then ''0.0'' else if x < 0 then ''-'' @ float_repr_pos (- x) else float_repr_pos x)"

lemma float_repr_tenth: "float_repr (fl (1/10)) = ''0.1''"
  by code_simp

subsection \<open>Parsers\<close>

text \<open>Digits of base \<open>b\<close> with single underscores between them, as \<^verbatim>\<open>int()\<close> accepts.\<close>

fun digits_value :: "nat \<Rightarrow> bool \<Rightarrow> int \<Rightarrow> string \<Rightarrow> int option" where
  "digits_value b us acc [] = (if us then None else Some acc)"
| "digits_value b us acc (c # cs) =
     (if c = CHR ''_'' then (if us then None else digits_value b True acc cs)
      else (case hex_value c of
              None \<Rightarrow> None
            | Some d \<Rightarrow> if d < b then digits_value b False (acc * int b + int d) cs else None))"

definition py_int_hex :: "string \<Rightarrow> int res" where
  "py_int_hex s =
     (let t = strip s; neg = starts_with ''-'' t;
          body = (if neg \<or> starts_with ''+'' t then drop 1 t else t);
          prefixed = starts_with ''0x'' body \<or> starts_with ''0X'' body;
          rest = (if prefixed then drop 2 body else body);
          digits = (if prefixed \<and> starts_with ''_'' rest then drop 1 rest else rest)
      in case (if digits = [] \<or> starts_with ''_'' digits then None else digits_value 16 False 0 digits) of
           None \<Rightarrow> Inl (ValueError ''invalid literal for int() with base 16'')
         | Some n \<Rightarrow> Inr (if neg then - n else n))"

definition py_int_dec :: "string \<Rightarrow> int res" where
  "py_int_dec s =
     (let t = strip s; neg = starts_with ''-'' t;
          body = (if neg \<or> starts_with ''+'' t then drop 1 t else t)
      in case (if body = [] \<or> starts_with ''_'' body then None else digits_value 10 False 0 body) of
           None \<Rightarrow> Inl (ValueError ''invalid literal for int() with base 10'')
         | Some n \<Rightarrow> Inr (if neg then - n else n))"

lemmas text_eval = strip_def rstrip_def lstrip_def is_space_def char_code_def hex_value_def
  starts_with_def to_lower_def lower_char_def is_digit_def

end
