(* ===== verification/PyJson.thy ===== *)
theory PyJson
  imports PyText
begin

section \<open>Untyped Python values: JSON trees\<close>

text \<open>
  Where the code handles \<^verbatim>\<open>dict[str, object]\<close> (payloads, run metadata, RPC results), the
  model has a tree \<open>json\<close>. An object is a dictionary in insertion order. A float is finite
  (\<open>Fin\<close>), infinite or not a number, all of which \<^verbatim>\<open>json.loads\<close> can produce.

  \<open>canonical_json\<close> is \<^verbatim>\<open>json.dumps(v, ensure_ascii=False, sort_keys=True,
  separators=(",", ":"), allow_nan=False)\<close> of \<^verbatim>\<open>app/identity/canonical.py\<close>;
  \<open>py_str\<close> is \<^verbatim>\<open>str(v)\<close>, \<open>truthy\<close> is \<^verbatim>\<open>bool(v)\<close>. The lemmas show that the canonical text does
  not depend on the order of the keys of an object.
\<close>

datatype pyfloat = Fin float64 | PosInf | NegInf | NaN

datatype json =
    JNull
  | JBool bool
  | JInt int
  | JFloat pyfloat
  | JStr string
  | JList "json list"
  | JObj "(string \<times> json) list"

type_synonym jobject = "(string, json) pydict"

subsection \<open>Reading a value\<close>

fun truthy :: "json \<Rightarrow> bool" where
  "truthy JNull = False"
| "truthy (JBool b) = b"
| "truthy (JInt i) = (i \<noteq> 0)"
| "truthy (JFloat f) = (f \<noteq> Fin 0)"
| "truthy (JStr s) = (s \<noteq> [])"
| "truthy (JList xs) = (xs \<noteq> [])"
| "truthy (JObj d) = (d \<noteq> [])"

definition jget :: "jobject \<Rightarrow> string \<Rightarrow> json" where
  "jget d k = (case dget d k of None \<Rightarrow> JNull | Some v \<Rightarrow> v)"

text \<open>\<^verbatim>\<open>a or b\<close>\<close>

definition py_or :: "json \<Rightarrow> json \<Rightarrow> json" where
  "py_or a b = (if truthy a then a else b)"

definition as_str :: "json \<Rightarrow> string option" where
  "as_str v = (case v of JStr s \<Rightarrow> Some s | _ \<Rightarrow> None)"

definition is_obj :: "json \<Rightarrow> bool" where
  "is_obj v = (case v of JObj _ \<Rightarrow> True | _ \<Rightarrow> False)"

definition opt_str :: "string option \<Rightarrow> json" where
  "opt_str s = (case s of None \<Rightarrow> JNull | Some t \<Rightarrow> JStr t)"

definition num :: "float64 \<Rightarrow> json" where "num x = JFloat (Fin x)"

definition str_list :: "string list \<Rightarrow> json" where "str_list xs = JList (map JStr xs)"

lemma str_list_inj [simp]: "str_list xs = str_list ys \<longleftrightarrow> xs = ys"
  by (auto simp: str_list_def inj_on_def inj_map_eq_map)

subsection \<open>\<open>str\<close> and \<open>repr\<close>\<close>

definition pyfloat_repr :: "pyfloat \<Rightarrow> string" where
  "pyfloat_repr f =
     (case f of Fin x \<Rightarrow> float_repr x | PosInf \<Rightarrow> ''inf'' | NegInf \<Rightarrow> ''-inf'' | NaN \<Rightarrow> ''nan'')"

definition hex_digit :: "nat \<Rightarrow> char" where
  "hex_digit d = (if d < 10 then char_of (48 + d) else char_of (87 + d))"

definition repr_char :: "char \<Rightarrow> char \<Rightarrow> string" where
  "repr_char quote c =
     (let n = char_code c in
      if c = quote \<or> n = 92 then [char_of (92::nat), c]
      else if n = 10 then [char_of (92::nat), CHR ''n'']
      else if n = 13 then [char_of (92::nat), CHR ''r'']
      else if n = 9 then [char_of (92::nat), CHR ''t'']
      else if n < 32 \<or> 127 \<le> n then [char_of (92::nat), CHR ''x'', hex_digit (n div 16), hex_digit (n mod 16)]
      else [c])"

definition repr_str :: "string \<Rightarrow> string" where
  "repr_str s =
     (let sq = char_of (39::nat); dq = char_of (34::nat);
          q = (if sq \<in> set s \<and> dq \<notin> set s then dq else sq)
      in [q] @ concat (map (repr_char q) s) @ [q])"

fun py_repr :: "json \<Rightarrow> string" and py_reprs :: "json list \<Rightarrow> string list"
  and py_repr_items :: "(string \<times> json) list \<Rightarrow> string list" where
  "py_repr JNull = ''None''"
| "py_repr (JBool b) = (if b then ''True'' else ''False'')"
| "py_repr (JInt i) = str_of_int i"
| "py_repr (JFloat f) = pyfloat_repr f"
| "py_repr (JStr s) = repr_str s"
| "py_repr (JList xs) = ''['' @ join '', '' (py_reprs xs) @ '']''"
| "py_repr (JObj d) = ''{'' @ join '', '' (py_repr_items d) @ ''}''"
| "py_reprs [] = []"
| "py_reprs (v # vs) = py_repr v # py_reprs vs"
| "py_repr_items [] = []"
| "py_repr_items ((k, v) # d) = (repr_str k @ '': '' @ py_repr v) # py_repr_items d"

definition py_str :: "json \<Rightarrow> string" where
  "py_str v = (case v of JStr s \<Rightarrow> s | _ \<Rightarrow> py_repr v)"

lemma py_str_JStr [simp]: "py_str (JStr s) = s"
  by (simp add: py_str_def)

text \<open>\<^verbatim>\<open>str(d.get(key, ""))\<close>\<close>

definition str_get :: "jobject \<Rightarrow> string \<Rightarrow> string" where
  "str_get d k = (case dget d k of None \<Rightarrow> [] | Some v \<Rightarrow> py_str v)"

text \<open>\<^verbatim>\<open>str(exc)\<close>\<close>

definition error_text :: "py_error \<Rightarrow> string" where
  "error_text e =
     (case e of
        ValueError m \<Rightarrow> m | TypeError m \<Rightarrow> m | RuntimeError m \<Rightarrow> m | TimeoutError m \<Rightarrow> m
      | ValidationError m \<Rightarrow> m | InvalidSpecialistResponse m \<Rightarrow> m | OtherError m \<Rightarrow> m
      | KeyError k \<Rightarrow> repr_str k
      | IndexError \<Rightarrow> ''list index out of range''
      | OverflowError \<Rightarrow> ''Python int too large to convert to SQLite INTEGER''
      | IntegrityError \<Rightarrow> ''UNIQUE constraint failed''
      | HTTPException code m \<Rightarrow> str_of_int (int code) @ '': '' @ m)"

subsection \<open>Numbers\<close>

text \<open>
  \<^verbatim>\<open>int(v)\<close> and \<^verbatim>\<open>float(v)\<close> of a value. \<open>pyfloat_of_str\<close> reads a decimal literal: the exact
  rational rounded once.
\<close>

definition py_int_of :: "json \<Rightarrow> int res" where
  "py_int_of v =
     (case v of
        JInt i \<Rightarrow> Inr i
      | JBool b \<Rightarrow> Inr (if b then 1 else 0)
      | JFloat (Fin x) \<Rightarrow> Inr (if 0 \<le> x then \<lfloor>x\<rfloor> else \<lceil>x\<rceil>)
      | JFloat NaN \<Rightarrow> Inl (ValueError ''cannot convert float NaN to integer'')
      | JFloat _ \<Rightarrow> Inl OverflowError
      | JStr s \<Rightarrow> py_int_dec s
      | _ \<Rightarrow> Inl (TypeError ''int() argument''))"

definition float_max :: rat where "float_max = 2 ^ 1024 - 2 ^ 970"

definition pyfloat_of_rat :: "rat \<Rightarrow> pyfloat" where
  "pyfloat_of_rat x = (if float_max \<le> x then PosInf else if x \<le> - float_max then NegInf else Fin (fl x))"

definition unsigned_decimal :: "string \<Rightarrow> rat option" where
  "unsigned_decimal s =
     (let m = takeWhile (\<lambda>c. c \<noteq> CHR ''e'') s; e = drop (length m) s;
          ip = takeWhile (\<lambda>c. c \<noteq> CHR ''.'') m; fp = drop (length ip + 1) m
      in if ip @ fp = [] \<or> \<not> list_all is_digit (ip @ fp) then None
         else let base = of_int (int_of_digits 0 (ip @ fp)) / 10 ^ length fp in
           if e = [] then Some base
           else (case py_int_dec (drop 1 e) of
                   Inl _ \<Rightarrow> None
                 | Inr k \<Rightarrow> Some (base * 10 powi k)))"

definition pyfloat_of_str :: "string \<Rightarrow> pyfloat res" where
  "pyfloat_of_str s =
     (let t = to_lower (strip s); neg = starts_with ''-'' t;
          body = (if neg \<or> starts_with ''+'' t then drop 1 t else t)
      in if body = ''inf'' \<or> body = ''infinity'' then Inr (if neg then NegInf else PosInf)
         else if body = ''nan'' then Inr NaN
         else (case unsigned_decimal body of
                 None \<Rightarrow> Inl (ValueError ''could not convert string to float'')
               | Some x \<Rightarrow> Inr (pyfloat_of_rat (if neg then - x else x))))"

definition py_float_of :: "json \<Rightarrow> pyfloat res" where
  "py_float_of v =
     (case v of
        JFloat f \<Rightarrow> Inr f
      | JInt i \<Rightarrow> if float_max \<le> \<bar>of_int i\<bar> then Inl OverflowError else Inr (Fin (fl (of_int i)))
      | JBool b \<Rightarrow> Inr (Fin (if b then 1 else 0))
      | JStr s \<Rightarrow> pyfloat_of_str s
      | _ \<Rightarrow> Inl (TypeError ''float() argument''))"

subsection \<open>Canonical JSON text\<close>

definition json_char :: "char \<Rightarrow> string" where
  "json_char c =
     (let n = char_code c in
      if n = 34 \<or> n = 92 then [char_of (92::nat), c]
      else if n = 10 then [char_of (92::nat), CHR ''n'']
      else if n = 13 then [char_of (92::nat), CHR ''r'']
      else if n = 9 then [char_of (92::nat), CHR ''t'']
      else if n = 8 then [char_of (92::nat), CHR ''b'']
      else if n = 12 then [char_of (92::nat), CHR ''f'']
      else if n < 32 then [char_of (92::nat), CHR ''u'', CHR ''0'', CHR ''0'', hex_digit (n div 16), hex_digit (n mod 16)]
      else [c])"

definition json_string :: "string \<Rightarrow> string" where
  "json_string s = [char_of (34::nat)] @ concat (map json_char s) @ [char_of (34::nat)]"

definition json_float :: "pyfloat \<Rightarrow> string res" where
  "json_float f =
     (case f of Fin x \<Rightarrow> Inr (float_repr x)
      | _ \<Rightarrow> Inl (ValueError ''Out of range float values are not JSON compliant''))"

fun canonical_json :: "json \<Rightarrow> string res" and canonical_items :: "json list \<Rightarrow> string list res"
  and canonical_fields :: "(string \<times> json) list \<Rightarrow> (string \<times> string) list res" where
  "canonical_json JNull = Inr ''null''"
| "canonical_json (JBool b) = Inr (if b then ''true'' else ''false'')"
| "canonical_json (JInt i) = Inr (str_of_int i)"
| "canonical_json (JFloat f) = json_float f"
| "canonical_json (JStr s) = Inr (json_string s)"
| "canonical_json (JList xs) =
     res_bind (canonical_items xs) (\<lambda>ts. Inr (''['' @ join '','' ts @ '']''))"
| "canonical_json (JObj d) =
     res_bind (canonical_fields d) (\<lambda>kts.
       Inr (''{'' @ join '','' (map (\<lambda>(k, t). json_string k @ '':'' @ t) (sort_key fst kts)) @ ''}''))"
| "canonical_items [] = Inr []"
| "canonical_items (v # vs) =
     res_bind (canonical_json v) (\<lambda>t. res_bind (canonical_items vs) (\<lambda>ts. Inr (t # ts)))"
| "canonical_fields [] = Inr []"
| "canonical_fields ((k, v) # d) =
     res_bind (canonical_json v) (\<lambda>t. res_bind (canonical_fields d) (\<lambda>kts. Inr ((k, t) # kts)))"

lemma canonical_fields_Inr_iff:
  "canonical_fields d = Inr kts \<longleftrightarrow>
     list_all2 (\<lambda>kv kt. fst kt = fst kv \<and> canonical_json (snd kv) = Inr (snd kt)) d kts"
proof (induction d arbitrary: kts)
  case Nil
  then show ?case by (cases kts) auto
next
  case (Cons p d)
  obtain k v where p: "p = (k, v)" by (cases p)
  show ?case
  proof (cases kts)
    case Nil
    then show ?thesis by (simp add: p res_simps)
  next
    case (Cons q qs)
    obtain k' t where q: "q = (k', t)" by (cases q)
    have "canonical_fields (p # d) = Inr (q # qs) \<longleftrightarrow>
        k' = k \<and> canonical_json v = Inr t \<and> canonical_fields d = Inr qs"
      by (auto simp: p q res_simps)
    with Cons.IH Cons show ?thesis by (auto simp: p q)
  qed
qed

lemma canonical_fields_keys: "canonical_fields d = Inr kts \<Longrightarrow> map fst kts = map fst d"
  unfolding canonical_fields_Inr_iff by (induction d kts rule: list_all2_induct) auto

lemma canonical_fields_total:
  "(\<And>k v. (k, v) \<in> set d \<Longrightarrow> \<exists>t. canonical_json v = Inr t) \<Longrightarrow> \<exists>kts. canonical_fields d = Inr kts"
proof (induction d)
  case (Cons p d)
  obtain k v where p: "p = (k, v)" by (cases p)
  obtain t where "canonical_json v = Inr t" using Cons.prems p by fastforce
  moreover obtain kts where "canonical_fields d = Inr kts" using Cons by fastforce
  ultimately show ?case by (simp add: p)
qed simp

text \<open>Only infinities and not-a-number have no canonical text.\<close>

fun finite_json :: "json \<Rightarrow> bool" and finite_items :: "json list \<Rightarrow> bool"
  and finite_fields :: "(string \<times> json) list \<Rightarrow> bool" where
  "finite_json (JFloat f) \<longleftrightarrow> (case f of Fin _ \<Rightarrow> True | _ \<Rightarrow> False)"
| "finite_json (JList xs) \<longleftrightarrow> finite_items xs"
| "finite_json (JObj d) \<longleftrightarrow> finite_fields d"
| "finite_json _ \<longleftrightarrow> True"
| "finite_items [] \<longleftrightarrow> True"
| "finite_items (v # vs) \<longleftrightarrow> finite_json v \<and> finite_items vs"
| "finite_fields [] \<longleftrightarrow> True"
| "finite_fields ((k, v) # d) \<longleftrightarrow> finite_json v \<and> finite_fields d"

lemma canonical_json_total_iff:
  "(\<exists>t. canonical_json v = Inr t) \<longleftrightarrow> finite_json v"
  "(\<exists>ts. canonical_items vs = Inr ts) \<longleftrightarrow> finite_items vs"
  "(\<exists>kts. canonical_fields d = Inr kts) \<longleftrightarrow> finite_fields d"
proof (induction v and vs and d rule: canonical_json_canonical_items_canonical_fields.induct)
  case (4 f)
  then show ?case by (cases f) (simp_all add: json_float_def)
qed (auto simp: res_bind_Inr_iff)

lemma finite_str_list [simp]: "finite_json (str_list xs)"
  by (induction xs) (simp_all add: str_list_def)

lemma finite_opt_str [simp]: "finite_json (opt_str s)"
  by (cases s) (simp_all add: opt_str_def)

lemma finite_num [simp]: "finite_json (num x)"
  by (simp add: num_def)

text \<open>The text of an object depends on its set of fields only, not on their order.\<close>

lemma canonical_fields_set:
  "canonical_fields d = Inr kts \<Longrightarrow>
     set kts = (\<lambda>(k, v). (k, projr (canonical_json v))) ` set d"
proof (induction d arbitrary: kts)
  case (Cons p d)
  obtain k v where p: "p = (k, v)" by (cases p)
  with Cons.prems obtain t ks where
    "canonical_json v = Inr t" "canonical_fields d = Inr ks" "kts = (k, t) # ks"
    by (auto simp: res_simps)
  with Cons.IH p show ?case by simp
qed simp

text \<open>Two dictionaries with the same entries have the same canonical text, whatever order the
  keys were inserted in. Signatures and hashes rest on this.\<close>

theorem canonical_json_order_independent:
  assumes "distinct (map fst d)" "distinct (map fst e)" "set d = set e" "canonical_json (JObj d) = Inr t"
  shows "canonical_json (JObj e) = Inr t"
proof -
  obtain ks where ks: "canonical_fields d = Inr ks" using assms(4) by (auto simp: res_simps)
  have "\<exists>t. canonical_json v = Inr t" if "(k, v) \<in> set e" for k v
  proof -
    have "(k, v) \<in> set d" using that assms(3) by simp
    with ks show ?thesis unfolding canonical_fields_Inr_iff
      by (auto simp: list_all2_conv_all_nth in_set_conv_nth)
  qed
  then obtain ls where ls: "canonical_fields e = Inr ls" using canonical_fields_total by blast
  have sets: "set ks = set ls" using canonical_fields_set [OF ks] canonical_fields_set [OF ls] assms(3) by simp
  have dk: "distinct (map fst ks)" and dl: "distinct (map fst ls)"
    using canonical_fields_keys [OF ks] canonical_fields_keys [OF ls] assms(1,2) by simp_all
  then have "mset ks = mset ls" using sets by (metis distinct_map set_eq_iff_mset_eq_distinct)
  moreover have "inj_on fst (set ks)" using dk by (simp add: distinct_map)
  ultimately have "sort_key fst ks = sort_key fst ls" by (rule sort_key_unique)
  with assms(4) ks ls show ?thesis by simp
qed

lemma canonical_json_order_independent_witness:
  "canonical_json (JObj [(''b'', JList [JBool True, JNull]), (''a'', JStr ''x'')]) =
   canonical_json (JObj [(''a'', JStr ''x''), (''b'', JList [JBool True, JNull])])"
proof -
  obtain t where t: "canonical_json (JObj [(''a'', JStr ''x''), (''b'', JList [JBool True, JNull])]) = Inr t"
    by simp
  have "canonical_json (JObj [(''b'', JList [JBool True, JNull]), (''a'', JStr ''x'')]) = Inr t"
    by (rule canonical_json_order_independent [OF _ _ _ t]) auto
  with t show ?thesis by simp
qed

end
