(* ===== verification/Contracts.thy ===== *)
theory Contracts
  imports PyJson
begin

section \<open>Request and response contracts (app/schemas/contracts.py)\<close>

text \<open>
  One record per pydantic model, with the source's field names behind a two-letter prefix, a
  bool-valued predicate \<open>valid_x\<close> for the field constraints (\<^verbatim>\<open>min_length=1\<close>, \<^verbatim>\<open>ge\<close>, \<^verbatim>\<open>le\<close>,
  \<^verbatim>\<open>gt\<close>, \<^verbatim>\<open>pattern\<close>), and the constructor \<open>make_x\<close>, which raises \<open>ValidationError\<close> when a
  constraint fails, as building the model does. \<open>x_json\<close> is \<^verbatim>\<open>model_dump(mode="json")\<close>: fields in
  declaration order, \<^verbatim>\<open>None\<close> as null. \<open>x_of_json\<close> is \<^verbatim>\<open>model_validate\<close> of a decoded JSON object: a
  string field takes a string, a float field a number, a numeric text or a bool; missing optional
  fields take their default. A float without bounds may be infinite or not a number; the bounds
  exclude both.
\<close>

subsection \<open>Field checks\<close>

definition hex_pattern :: "nat \<Rightarrow> string \<Rightarrow> bool" where
  "hex_pattern n s \<longleftrightarrow>
     starts_with ''0x'' s \<and> length s = n + 2 \<and> list_all (\<lambda>c. hex_value c \<noteq> None) (drop 2 s)"

definition opt_ok :: "('a \<Rightarrow> bool) \<Rightarrow> 'a option \<Rightarrow> bool" where
  "opt_ok p x = (case x of None \<Rightarrow> True | Some v \<Rightarrow> p v)"

abbreviation address_ok :: "string \<Rightarrow> bool" where "address_ok \<equiv> hex_pattern 40"
abbreviation hash_ok :: "string \<Rightarrow> bool" where "hash_ok \<equiv> hex_pattern 64"

definition unit_ok :: "float64 \<Rightarrow> bool" where "unit_ok x \<longleftrightarrow> 0 \<le> x \<and> x \<le> 1"

definition checked :: "string \<Rightarrow> ('a \<Rightarrow> bool) \<Rightarrow> 'a \<Rightarrow> 'a res" where
  "checked name p x = (if p x then Inr x else Inl (ValidationError name))"

lemma checked_Inr_iff [res_simps]: "checked m p x = Inr y \<longleftrightarrow> y = x \<and> p x"
  by (auto simp: checked_def)

lemma checked_ok [simp]: "p x \<Longrightarrow> checked m p x = Inr x"
  by (simp add: checked_def)

subsection \<open>Models\<close>

record thesis_request =
  tr_thesis :: string
  tr_asset :: string
  tr_horizon_days :: int

record scenario_view =
  sv_bull :: pyfloat
  sv_base :: pyfloat
  sv_bear :: pyfloat

record provenance_record =
  pr_node_role :: string
  pr_peer_id :: string
  pr_timestamp :: string

record specialist_response =
  sr_job_id :: string
  sr_node_role :: string
  sr_peer_id :: string
  sr_summary :: string
  sr_scenario_view :: scenario_view
  sr_signals :: "string list"
  sr_risks :: "string list"
  sr_confidence :: float64
  sr_citations :: "string list"
  sr_timestamp :: string
  sr_agent_wallet :: "string option"
  sr_ree_receipt_hash :: "string option"
  sr_receipt_status :: "string option"
  sr_ree_prompt_hash :: "string option"
  sr_ree_tokens_hash :: "string option"
  sr_ree_model_name :: "string option"
  sr_ree_receipt_body :: "jobject option"
  sr_ree_receipt_path :: "string option"

record task_spec =
  ts_job_id :: string
  ts_thesis :: string
  ts_asset :: string
  ts_horizon_days :: int

record agent_identity =
  ai_role :: string
  ai_peer_id :: string
  ai_wallet :: string

record signature_envelope =
  se_signer :: string
  se_task_hash :: string
  se_output_hash :: string
  se_signature :: string
  se_algorithm :: string

record signed_agent_execution =
  sx_task :: task_spec
  sx_identity :: agent_identity
  sx_response :: specialist_response
  sx_signature :: signature_envelope

record verification_attestation =
  va_job_id :: string
  va_node_role :: string
  va_peer_id :: string
  va_status :: string
  va_score :: float64
  va_reasons :: "string list"
  va_signer :: "string option"
  va_agent_wallet :: "string option"
  va_output_hash :: "string option"
  va_ree_receipt_hash :: "string option"
  va_receipt_status :: "string option"
  va_ree_prompt_hash :: "string option"
  va_ree_tokens_hash :: "string option"
  va_ree_model_name :: "string option"
  va_ree_receipt_body :: "jobject option"
  va_ree_receipt_path :: "string option"
  va_verifier :: "string option"
  va_attestation_hash :: "string option"
  va_verifier_signature :: "string option"
  va_signature_algorithm :: "string option"

record memo_evidence_source =
  me_text :: string
  me_source_role :: string
  me_peer_id :: string
  me_output_hash :: "string option"
  me_source_url :: "string option"
  me_retrieved_at :: "string option"
  me_source_hash :: "string option"
  me_source_quality :: "string option"

record final_memo =
  fm_job_id :: string
  fm_normalized_thesis :: string
  fm_scenarios :: scenario_view
  fm_supporting_evidence :: "string list"
  fm_opposing_evidence :: "string list"
  fm_catalysts :: "string list"
  fm_risks :: "string list"
  fm_invalidation_triggers :: "string list"
  fm_confidence_rationale :: string
  fm_provenance :: "provenance_record list"
  fm_evidence_sources :: "memo_evidence_source list"
  fm_verification_attestations :: "verification_attestation list"
  fm_partial :: bool
  fm_partial_reason :: "string option"

subsection \<open>Constraints\<close>

definition valid_thesis_request :: "thesis_request \<Rightarrow> bool" where
  "valid_thesis_request r \<longleftrightarrow> tr_thesis r \<noteq> [] \<and> tr_asset r \<noteq> [] \<and> 0 < tr_horizon_days r"

definition valid_specialist_response :: "specialist_response \<Rightarrow> bool" where
  "valid_specialist_response r \<longleftrightarrow>
     sr_job_id r \<noteq> [] \<and> sr_node_role r \<noteq> [] \<and> sr_peer_id r \<noteq> [] \<and> sr_summary r \<noteq> [] \<and>
     unit_ok (sr_confidence r) \<and> sr_timestamp r \<noteq> [] \<and> opt_ok address_ok (sr_agent_wallet r)"

definition valid_task_spec :: "task_spec \<Rightarrow> bool" where
  "valid_task_spec t \<longleftrightarrow>
     ts_job_id t \<noteq> [] \<and> ts_thesis t \<noteq> [] \<and> ts_asset t \<noteq> [] \<and> 0 < ts_horizon_days t"

definition valid_agent_identity :: "agent_identity \<Rightarrow> bool" where
  "valid_agent_identity i \<longleftrightarrow> ai_role i \<noteq> [] \<and> ai_peer_id i \<noteq> [] \<and> address_ok (ai_wallet i)"

definition valid_signature_envelope :: "signature_envelope \<Rightarrow> bool" where
  "valid_signature_envelope e \<longleftrightarrow>
     address_ok (se_signer e) \<and> hash_ok (se_task_hash e) \<and> hash_ok (se_output_hash e) \<and>
     hex_pattern 130 (se_signature e)"

definition valid_signed_execution :: "signed_agent_execution \<Rightarrow> bool" where
  "valid_signed_execution x \<longleftrightarrow>
     valid_task_spec (sx_task x) \<and> valid_agent_identity (sx_identity x) \<and>
     valid_specialist_response (sx_response x) \<and> valid_signature_envelope (sx_signature x)"

definition valid_attestation :: "verification_attestation \<Rightarrow> bool" where
  "valid_attestation a \<longleftrightarrow>
     va_job_id a \<noteq> [] \<and> va_node_role a \<noteq> [] \<and> va_peer_id a \<noteq> [] \<and>
     (va_status a = ''accepted'' \<or> va_status a = ''rejected'') \<and> unit_ok (va_score a) \<and>
     opt_ok address_ok (va_agent_wallet a)"

definition valid_memo_source :: "memo_evidence_source \<Rightarrow> bool" where
  "valid_memo_source s \<longleftrightarrow> me_text s \<noteq> [] \<and> me_source_role s \<noteq> [] \<and> me_peer_id s \<noteq> []"

definition valid_provenance :: "provenance_record \<Rightarrow> bool" where
  "valid_provenance p \<longleftrightarrow> pr_node_role p \<noteq> [] \<and> pr_peer_id p \<noteq> [] \<and> pr_timestamp p \<noteq> []"

definition valid_final_memo :: "final_memo \<Rightarrow> bool" where
  "valid_final_memo m \<longleftrightarrow>
     fm_job_id m \<noteq> [] \<and> fm_normalized_thesis m \<noteq> [] \<and>
     list_all valid_provenance (fm_provenance m) \<and>
     list_all valid_memo_source (fm_evidence_sources m) \<and>
     list_all valid_attestation (fm_verification_attestations m)"

definition make_task_spec :: "task_spec \<Rightarrow> task_spec res" where
  "make_task_spec = checked ''TaskSpec'' valid_task_spec"

definition make_specialist_response :: "specialist_response \<Rightarrow> specialist_response res" where
  "make_specialist_response = checked ''SpecialistResponse'' valid_specialist_response"

definition make_agent_identity :: "agent_identity \<Rightarrow> agent_identity res" where
  "make_agent_identity = checked ''AgentIdentity'' valid_agent_identity"

definition make_envelope :: "signature_envelope \<Rightarrow> signature_envelope res" where
  "make_envelope = checked ''SignatureEnvelope'' valid_signature_envelope"

definition make_attestation :: "verification_attestation \<Rightarrow> verification_attestation res" where
  "make_attestation = checked ''VerificationAttestation'' valid_attestation"

lemmas make_defs = make_task_spec_def make_specialist_response_def make_agent_identity_def
  make_envelope_def make_attestation_def

subsection \<open>Dumps\<close>

definition opt_obj :: "jobject option \<Rightarrow> json" where
  "opt_obj b = (case b of None \<Rightarrow> JNull | Some d \<Rightarrow> JObj d)"

definition scenario_json :: "scenario_view \<Rightarrow> json" where
  "scenario_json v = JObj
     [(''bull'', JFloat (sv_bull v)), (''base'', JFloat (sv_base v)), (''bear'', JFloat (sv_bear v))]"

definition thesis_request_json :: "thesis_request \<Rightarrow> json" where
  "thesis_request_json r = JObj
     [(''thesis'', JStr (tr_thesis r)), (''asset'', JStr (tr_asset r)),
      (''horizon_days'', JInt (tr_horizon_days r))]"

definition provenance_json :: "provenance_record \<Rightarrow> json" where
  "provenance_json p = JObj
     [(''node_role'', JStr (pr_node_role p)), (''peer_id'', JStr (pr_peer_id p)),
      (''timestamp'', JStr (pr_timestamp p))]"

definition specialist_response_fields :: "specialist_response \<Rightarrow> jobject" where
  "specialist_response_fields r =
     [(''job_id'', JStr (sr_job_id r)), (''node_role'', JStr (sr_node_role r)),
      (''peer_id'', JStr (sr_peer_id r)), (''summary'', JStr (sr_summary r)),
      (''scenario_view'', scenario_json (sr_scenario_view r)),
      (''signals'', str_list (sr_signals r)), (''risks'', str_list (sr_risks r)),
      (''confidence'', num (sr_confidence r)), (''citations'', str_list (sr_citations r)),
      (''timestamp'', JStr (sr_timestamp r)), (''agent_wallet'', opt_str (sr_agent_wallet r)),
      (''ree_receipt_hash'', opt_str (sr_ree_receipt_hash r)),
      (''receipt_status'', opt_str (sr_receipt_status r)),
      (''ree_prompt_hash'', opt_str (sr_ree_prompt_hash r)),
      (''ree_tokens_hash'', opt_str (sr_ree_tokens_hash r)),
      (''ree_model_name'', opt_str (sr_ree_model_name r)),
      (''ree_receipt_body'', opt_obj (sr_ree_receipt_body r)),
      (''ree_receipt_path'', opt_str (sr_ree_receipt_path r))]"

definition specialist_response_json :: "specialist_response \<Rightarrow> json" where
  "specialist_response_json r = JObj (specialist_response_fields r)"

definition task_spec_json :: "task_spec \<Rightarrow> json" where
  "task_spec_json t = JObj
     [(''job_id'', JStr (ts_job_id t)), (''thesis'', JStr (ts_thesis t)),
      (''asset'', JStr (ts_asset t)), (''horizon_days'', JInt (ts_horizon_days t))]"

definition identity_json :: "agent_identity \<Rightarrow> json" where
  "identity_json i = JObj
     [(''role'', JStr (ai_role i)), (''peer_id'', JStr (ai_peer_id i)), (''wallet'', JStr (ai_wallet i))]"

definition envelope_json :: "signature_envelope \<Rightarrow> json" where
  "envelope_json e = JObj
     [(''signer'', JStr (se_signer e)), (''task_hash'', JStr (se_task_hash e)),
      (''output_hash'', JStr (se_output_hash e)), (''signature'', JStr (se_signature e)),
      (''algorithm'', JStr (se_algorithm e))]"

definition signed_execution_json :: "signed_agent_execution \<Rightarrow> json" where
  "signed_execution_json x = JObj
     [(''task'', task_spec_json (sx_task x)), (''identity'', identity_json (sx_identity x)),
      (''response'', specialist_response_json (sx_response x)),
      (''signature'', envelope_json (sx_signature x))]"

definition attestation_verdict_fields :: "verification_attestation \<Rightarrow> jobject" where
  "attestation_verdict_fields a =
     [(''job_id'', JStr (va_job_id a)), (''node_role'', JStr (va_node_role a)),
      (''peer_id'', JStr (va_peer_id a)), (''status'', JStr (va_status a)),
      (''score'', num (va_score a)), (''reasons'', str_list (va_reasons a)),
      (''signer'', opt_str (va_signer a)), (''agent_wallet'', opt_str (va_agent_wallet a)),
      (''output_hash'', opt_str (va_output_hash a)),
      (''ree_receipt_hash'', opt_str (va_ree_receipt_hash a)),
      (''receipt_status'', opt_str (va_receipt_status a)),
      (''ree_prompt_hash'', opt_str (va_ree_prompt_hash a)),
      (''ree_tokens_hash'', opt_str (va_ree_tokens_hash a)),
      (''ree_model_name'', opt_str (va_ree_model_name a)),
      (''ree_receipt_body'', opt_obj (va_ree_receipt_body a)),
      (''ree_receipt_path'', opt_str (va_ree_receipt_path a))]"

definition attestation_fields :: "verification_attestation \<Rightarrow> jobject" where
  "attestation_fields a = attestation_verdict_fields a @
     [(''verifier'', opt_str (va_verifier a)),
      (''attestation_hash'', opt_str (va_attestation_hash a)),
      (''verifier_signature'', opt_str (va_verifier_signature a)),
      (''signature_algorithm'', opt_str (va_signature_algorithm a))]"

definition attestation_json :: "verification_attestation \<Rightarrow> json" where
  "attestation_json a = JObj (attestation_fields a)"

definition memo_source_json :: "memo_evidence_source \<Rightarrow> json" where
  "memo_source_json s = JObj
     [(''text'', JStr (me_text s)), (''source_role'', JStr (me_source_role s)),
      (''peer_id'', JStr (me_peer_id s)), (''output_hash'', opt_str (me_output_hash s)),
      (''source_url'', opt_str (me_source_url s)), (''retrieved_at'', opt_str (me_retrieved_at s)),
      (''source_hash'', opt_str (me_source_hash s)),
      (''source_quality'', opt_str (me_source_quality s))]"

definition final_memo_json :: "final_memo \<Rightarrow> json" where
  "final_memo_json m = JObj
     [(''job_id'', JStr (fm_job_id m)), (''normalized_thesis'', JStr (fm_normalized_thesis m)),
      (''scenarios'', scenario_json (fm_scenarios m)),
      (''supporting_evidence'', str_list (fm_supporting_evidence m)),
      (''opposing_evidence'', str_list (fm_opposing_evidence m)),
      (''catalysts'', str_list (fm_catalysts m)), (''risks'', str_list (fm_risks m)),
      (''invalidation_triggers'', str_list (fm_invalidation_triggers m)),
      (''confidence_rationale'', JStr (fm_confidence_rationale m)),
      (''provenance'', JList (map provenance_json (fm_provenance m))),
      (''evidence_sources'', JList (map memo_source_json (fm_evidence_sources m))),
      (''verification_attestations'', JList (map attestation_json (fm_verification_attestations m))),
      (''partial'', JBool (fm_partial m)), (''partial_reason'', opt_str (fm_partial_reason m))]"

subsection \<open>Validation of decoded JSON\<close>

definition invalid :: "string \<Rightarrow> 'a res" where "invalid name = Inl (ValidationError name)"

definition str_field :: "jobject \<Rightarrow> string \<Rightarrow> string res" where
  "str_field d k = (case dget d k of Some (JStr s) \<Rightarrow> Inr s | _ \<Rightarrow> invalid k)"

definition opt_str_field :: "jobject \<Rightarrow> string \<Rightarrow> string option res" where
  "opt_str_field d k =
     (case dget d k of None \<Rightarrow> Inr None | Some JNull \<Rightarrow> Inr None
      | Some (JStr s) \<Rightarrow> Inr (Some s) | _ \<Rightarrow> invalid k)"

definition opt_obj_field :: "jobject \<Rightarrow> string \<Rightarrow> jobject option res" where
  "opt_obj_field d k =
     (case dget d k of None \<Rightarrow> Inr None | Some JNull \<Rightarrow> Inr None
      | Some (JObj b) \<Rightarrow> Inr (Some b) | _ \<Rightarrow> invalid k)"

definition str_list_field :: "jobject \<Rightarrow> string \<Rightarrow> string list res" where
  "str_list_field d k =
     (case dget d k of None \<Rightarrow> Inr []
      | Some (JList vs) \<Rightarrow>
          map_res (\<lambda>v. case v of JStr s \<Rightarrow> Inr s | _ \<Rightarrow> invalid k) vs
      | _ \<Rightarrow> invalid k)"

definition float_field :: "jobject \<Rightarrow> string \<Rightarrow> pyfloat res" where
  "float_field d k =
     (case dget d k of None \<Rightarrow> invalid k
      | Some v \<Rightarrow> (case py_float_of v of Inl _ \<Rightarrow> invalid k | Inr f \<Rightarrow> Inr f))"

text \<open>A float with both bounds: infinities and not-a-number fail the comparison.\<close>

definition unit_field :: "jobject \<Rightarrow> string \<Rightarrow> float64 res" where
  "unit_field d k =
     res_bind (float_field d k) (\<lambda>f. case f of Fin x \<Rightarrow> checked k unit_ok x | _ \<Rightarrow> invalid k)"

definition int_field :: "jobject \<Rightarrow> string \<Rightarrow> int res" where
  "int_field d k =
     (case dget d k of
        Some (JFloat (Fin x)) \<Rightarrow> if of_int \<lfloor>x\<rfloor> = x then Inr \<lfloor>x\<rfloor> else invalid k
      | Some v \<Rightarrow> (case py_int_of v of Inl _ \<Rightarrow> invalid k | Inr i \<Rightarrow> Inr i)
      | None \<Rightarrow> invalid k)"

definition thesis_request_of_json :: "jobject \<Rightarrow> thesis_request res" where
  "thesis_request_of_json d =
     res_bind (str_field d ''thesis'') (\<lambda>thesis.
     res_bind (str_field d ''asset'') (\<lambda>asset.
     res_bind (int_field d ''horizon_days'') (\<lambda>days.
       checked ''ThesisRequest'' valid_thesis_request
         \<lparr>tr_thesis = thesis, tr_asset = asset, tr_horizon_days = days\<rparr>)))"

definition scenario_of_json :: "jobject \<Rightarrow> scenario_view res" where
  "scenario_of_json d =
     res_bind (float_field d ''bull'') (\<lambda>bull.
     res_bind (float_field d ''base'') (\<lambda>base.
     res_bind (float_field d ''bear'') (\<lambda>bear.
       Inr \<lparr>sv_bull = bull, sv_base = base, sv_bear = bear\<rparr>)))"

definition scenario_field :: "jobject \<Rightarrow> string \<Rightarrow> scenario_view res" where
  "scenario_field d k = (case dget d k of Some (JObj v) \<Rightarrow> scenario_of_json v | _ \<Rightarrow> invalid k)"

definition specialist_response_of_json :: "jobject \<Rightarrow> specialist_response res" where
  "specialist_response_of_json d =
     res_bind (str_field d ''job_id'') (\<lambda>job.
     res_bind (str_field d ''node_role'') (\<lambda>role.
     res_bind (str_field d ''peer_id'') (\<lambda>peer.
     res_bind (str_field d ''summary'') (\<lambda>summary.
     res_bind (scenario_field d ''scenario_view'') (\<lambda>view.
     res_bind (str_list_field d ''signals'') (\<lambda>signals.
     res_bind (str_list_field d ''risks'') (\<lambda>risks.
     res_bind (unit_field d ''confidence'') (\<lambda>confidence.
     res_bind (str_list_field d ''citations'') (\<lambda>citations.
     res_bind (str_field d ''timestamp'') (\<lambda>timestamp.
     res_bind (opt_str_field d ''agent_wallet'') (\<lambda>wallet.
     res_bind (opt_str_field d ''ree_receipt_hash'') (\<lambda>receipt.
     res_bind (opt_str_field d ''receipt_status'') (\<lambda>status.
     res_bind (opt_str_field d ''ree_prompt_hash'') (\<lambda>prompt.
     res_bind (opt_str_field d ''ree_tokens_hash'') (\<lambda>tokens.
     res_bind (opt_str_field d ''ree_model_name'') (\<lambda>model.
     res_bind (opt_obj_field d ''ree_receipt_body'') (\<lambda>body.
     res_bind (opt_str_field d ''ree_receipt_path'') (\<lambda>path.
       make_specialist_response
         \<lparr>sr_job_id = job, sr_node_role = role, sr_peer_id = peer, sr_summary = summary,
          sr_scenario_view = view, sr_signals = signals, sr_risks = risks,
          sr_confidence = confidence, sr_citations = citations, sr_timestamp = timestamp,
          sr_agent_wallet = wallet, sr_ree_receipt_hash = receipt, sr_receipt_status = status,
          sr_ree_prompt_hash = prompt, sr_ree_tokens_hash = tokens, sr_ree_model_name = model,
          sr_ree_receipt_body = body, sr_ree_receipt_path = path\<rparr>))))))))))))))))))"

definition task_spec_of_json :: "jobject \<Rightarrow> task_spec res" where
  "task_spec_of_json d =
     res_bind (str_field d ''job_id'') (\<lambda>job.
     res_bind (str_field d ''thesis'') (\<lambda>thesis.
     res_bind (str_field d ''asset'') (\<lambda>asset.
     res_bind (int_field d ''horizon_days'') (\<lambda>days.
       make_task_spec
         \<lparr>ts_job_id = job, ts_thesis = thesis, ts_asset = asset, ts_horizon_days = days\<rparr>))))"

definition attestation_field_names :: "string list" where
  "attestation_field_names =
     [''job_id'', ''node_role'', ''peer_id'', ''status'', ''score'', ''reasons'', ''signer'',
      ''agent_wallet'', ''output_hash'', ''ree_receipt_hash'', ''receipt_status'',
      ''ree_prompt_hash'', ''ree_tokens_hash'', ''ree_model_name'', ''ree_receipt_body'',
      ''ree_receipt_path'', ''verifier'', ''attestation_hash'', ''verifier_signature'',
      ''signature_algorithm'']"

definition attestation_of_json :: "jobject \<Rightarrow> verification_attestation res" where
  "attestation_of_json d =
     (if \<not> set (dkeys d) \<subseteq> set attestation_field_names then invalid ''extra_forbidden'' else
     res_bind (str_field d ''job_id'') (\<lambda>job.
     res_bind (str_field d ''node_role'') (\<lambda>role.
     res_bind (str_field d ''peer_id'') (\<lambda>peer.
     res_bind (str_field d ''status'') (\<lambda>status.
     res_bind (unit_field d ''score'') (\<lambda>score.
     res_bind (str_list_field d ''reasons'') (\<lambda>reasons.
     res_bind (opt_str_field d ''signer'') (\<lambda>signer.
     res_bind (opt_str_field d ''agent_wallet'') (\<lambda>wallet.
     res_bind (opt_str_field d ''output_hash'') (\<lambda>output.
     res_bind (opt_str_field d ''ree_receipt_hash'') (\<lambda>receipt.
     res_bind (opt_str_field d ''receipt_status'') (\<lambda>rstatus.
     res_bind (opt_str_field d ''ree_prompt_hash'') (\<lambda>prompt.
     res_bind (opt_str_field d ''ree_tokens_hash'') (\<lambda>tokens.
     res_bind (opt_str_field d ''ree_model_name'') (\<lambda>model.
     res_bind (opt_obj_field d ''ree_receipt_body'') (\<lambda>body.
     res_bind (opt_str_field d ''ree_receipt_path'') (\<lambda>path.
     res_bind (opt_str_field d ''verifier'') (\<lambda>verifier.
     res_bind (opt_str_field d ''attestation_hash'') (\<lambda>ahash.
     res_bind (opt_str_field d ''verifier_signature'') (\<lambda>vsig.
     res_bind (opt_str_field d ''signature_algorithm'') (\<lambda>alg.
       make_attestation
         \<lparr>va_job_id = job, va_node_role = role, va_peer_id = peer, va_status = status,
          va_score = score, va_reasons = reasons, va_signer = signer, va_agent_wallet = wallet,
          va_output_hash = output, va_ree_receipt_hash = receipt, va_receipt_status = rstatus,
          va_ree_prompt_hash = prompt, va_ree_tokens_hash = tokens, va_ree_model_name = model,
          va_ree_receipt_body = body, va_ree_receipt_path = path, va_verifier = verifier,
          va_attestation_hash = ahash, va_verifier_signature = vsig,
          va_signature_algorithm = alg\<rparr>)))))))))))))))))))))"

subsection \<open>A dumped model validates to itself\<close>

lemma str_fieldI [simp]: "dget d k = Some (JStr s) \<Longrightarrow> str_field d k = Inr s"
  by (simp add: str_field_def)

lemma opt_str_fieldI [simp]: "dget d k = Some (opt_str v) \<Longrightarrow> opt_str_field d k = Inr v"
  by (simp add: opt_str_field_def opt_str_def split: option.splits)

lemma opt_obj_fieldI [simp]: "dget d k = Some (opt_obj v) \<Longrightarrow> opt_obj_field d k = Inr v"
  by (simp add: opt_obj_field_def opt_obj_def split: option.splits)

lemma str_list_fieldI [simp]: "dget d k = Some (str_list xs) \<Longrightarrow> str_list_field d k = Inr xs"
proof -
  have "map_res (\<lambda>v. case v of JStr s \<Rightarrow> Inr s | _ \<Rightarrow> invalid k) (map JStr xs) = Inr xs"
    by (induction xs) auto
  then show "dget d k = Some (str_list xs) \<Longrightarrow> ?thesis" by (simp add: str_list_field_def str_list_def)
qed

lemma float_fieldI [simp]: "dget d k = Some (JFloat f) \<Longrightarrow> float_field d k = Inr f"
  by (simp add: float_field_def py_float_of_def)

lemma unit_fieldI [simp]: "dget d k = Some (num x) \<Longrightarrow> unit_ok x \<Longrightarrow> unit_field d k = Inr x"
  by (simp add: unit_field_def num_def)

lemma int_fieldI [simp]: "dget d k = Some (JInt i) \<Longrightarrow> int_field d k = Inr i"
  by (simp add: int_field_def py_int_of_def)

lemma scenario_roundtrip: "scenario_json v = JObj d \<Longrightarrow> scenario_of_json d = Inr v"
  by (auto simp: scenario_json_def scenario_of_json_def)

lemma scenario_fieldI [simp]: "dget d k = Some (scenario_json v) \<Longrightarrow> scenario_field d k = Inr v"
  using scenario_roundtrip [of v] by (auto simp: scenario_field_def scenario_json_def)

lemma task_spec_roundtrip:
  "valid_task_spec t \<Longrightarrow> task_spec_json t = JObj d \<Longrightarrow> task_spec_of_json d = Inr t"
  by (cases t) (auto simp: task_spec_json_def task_spec_of_json_def make_task_spec_def)

text \<open>A valid specialist response survives the transport: the JSON object that is dumped for it
  validates, field by field and with every constraint rechecked, to the same response.\<close>

theorem specialist_response_roundtrip:
  assumes "valid_specialist_response r"
  shows "specialist_response_of_json (specialist_response_fields r) = Inr r"
proof -
  have "unit_ok (sr_confidence r)" using assms by (simp add: valid_specialist_response_def)
  with assms show ?thesis
    by (cases r)
      (simp add: specialist_response_of_json_def specialist_response_fields_def
        make_specialist_response_def)
qed

lemma attestation_fields_keys: "dkeys (attestation_fields a) = attestation_field_names"
  by (simp add: attestation_fields_def attestation_verdict_fields_def attestation_field_names_def)

text \<open>A valid attestation that is stored as JSON validates to the same attestation when it is
  read back, with extra keys forbidden. This is what the verification bundle of a job relies on.\<close>

theorem attestation_roundtrip:
  assumes "valid_attestation a"
  shows "attestation_of_json (attestation_fields a) = Inr a"
proof -
  have "unit_ok (va_score a)" using assms by (simp add: valid_attestation_def)
  with assms show ?thesis
    unfolding attestation_of_json_def attestation_fields_keys
    by (cases a)
      (simp add: attestation_fields_def attestation_verdict_fields_def make_attestation_def)
qed

subsection \<open>Concrete inputs\<close>

definition sample_response :: specialist_response where
  "sample_response =
     \<lparr>sr_job_id = ''job-1'', sr_node_role = ''risk'', sr_peer_id = ''peer-r'', sr_summary = ''Downside risk'',
      sr_scenario_view = \<lparr>sv_bull = Fin 0, sv_base = Fin 1, sv_bear = NaN\<rparr>,
      sr_signals = [''s''], sr_risks = [''r''], sr_confidence = 1/2, sr_citations = [],
      sr_timestamp = ''t'', sr_agent_wallet = None, sr_ree_receipt_hash = None,
      sr_receipt_status = None, sr_ree_prompt_hash = None, sr_ree_tokens_hash = None,
      sr_ree_model_name = None, sr_ree_receipt_body = None, sr_ree_receipt_path = None\<rparr>"

definition sample_attestation :: verification_attestation where
  "sample_attestation =
     \<lparr>va_job_id = ''job-1'', va_node_role = ''risk'', va_peer_id = ''peer-r'', va_status = ''accepted'',
      va_score = 3/4, va_reasons = [''ok''], va_signer = None, va_agent_wallet = None,
      va_output_hash = Some ''0xab'', va_ree_receipt_hash = None, va_receipt_status = None,
      va_ree_prompt_hash = None, va_ree_tokens_hash = None, va_ree_model_name = None,
      va_ree_receipt_body = Some [(''k'', JInt 1)], va_ree_receipt_path = None, va_verifier = None,
      va_attestation_hash = None, va_verifier_signature = None, va_signature_algorithm = None\<rparr>"

lemma sample_valid [simp]: "valid_specialist_response sample_response" "valid_attestation sample_attestation"
  by (simp_all add: valid_specialist_response_def sample_response_def valid_attestation_def
      sample_attestation_def unit_ok_def opt_ok_def)

lemma specialist_response_roundtrip_witness:
  "specialist_response_of_json (specialist_response_fields sample_response) = Inr sample_response"
  by (rule specialist_response_roundtrip) simp

lemma attestation_roundtrip_witness:
  "attestation_of_json (attestation_fields sample_attestation) = Inr sample_attestation"
  by (rule attestation_roundtrip) simp

end
