(* ===== verification/Payouts.thy ===== *)
theory Payouts
  imports Contracts
begin

section \<open>Reputation-weighted payouts (app/evaluation/payouts)\<close>

text \<open>
  \<^verbatim>\<open>policy.py\<close>: an exponential moving average of verifier scores and a piecewise linear payout
  multiplier, in binary64. \<^verbatim>\<open>loop.py\<close>: \<open>run_round\<close> folds the scores of a round over the reputation
  state and writes one ledger entry per score; \<open>simulate_rounds\<close> folds the rounds and accumulates
  the payouts per peer. Building a ledger entry checks its field bounds and may raise. The lemmas:
  reputations stay between 0 and 1, the multiplier is between 0 and 1.6 and never falls when the
  reputation rises, and the cumulative payouts are the payouts of the ledger, peer by peer.
\<close>

subsection \<open>policy.py\<close>

definition reputation_alpha :: float64 where "reputation_alpha = fl (3/10)"
definition initial_reputation :: float64 where "initial_reputation = fl (7/10)"
definition slash_threshold :: float64 where "slash_threshold = fl (4/10)"
definition full_payout_reputation :: float64 where "full_payout_reputation = fl (7/10)"
definition bonus_reputation :: float64 where "bonus_reputation = 1"
definition max_multiplier :: float64 where "max_multiplier = fl (16/10)"
definition threshold_multiplier :: float64 where "threshold_multiplier = slash_threshold"

lemmas policy_constants = reputation_alpha_def initial_reputation_def slash_threshold_def
  full_payout_reputation_def bonus_reputation_def max_multiplier_def threshold_multiplier_def

definition clamp_unit :: "float64 \<Rightarrow> float64" where
  "clamp_unit v = (if v < 0 then 0 else if v > 1 then 1 else v)"

definition linear :: "float64 \<Rightarrow> float64 \<Rightarrow> float64 \<Rightarrow> float64 \<Rightarrow> float64 \<Rightarrow> float64" where
  "linear x x0 y0 x1 y1 =
     (if x1 = x0 then y0
      else fadd y0 (fdiv (fmul (fsub y1 y0) (fsub x x0)) (fsub x1 x0)))"

definition update_reputation :: "float64 \<Rightarrow> float64 \<Rightarrow> float64" where
  "update_reputation current verifier_score =
     py_round 6 (clamp_unit
       (fadd (fmul reputation_alpha (clamp_unit verifier_score))
             (fmul (fsub 1 reputation_alpha) (clamp_unit current))))"

definition payout_multiplier :: "float64 \<Rightarrow> float64" where
  "payout_multiplier reputation =
     (let rep = clamp_unit reputation in
      if rep < slash_threshold then 0
      else if rep \<le> full_payout_reputation
        then linear rep slash_threshold threshold_multiplier full_payout_reputation 1
      else linear rep full_payout_reputation 1 bonus_reputation max_multiplier)"

text \<open>\<^verbatim>\<open>int * float\<close> converts the integer first, which fails beyond the floats; the product of the
  multiplier may be infinite, and then \<^verbatim>\<open>int()\<close> fails.\<close>

definition int_times_float :: "int \<Rightarrow> float64 \<Rightarrow> int res" where
  "int_times_float n x =
     (if float_max \<le> \<bar>of_int n\<bar> then Inl OverflowError
      else py_int_of (JFloat (pyfloat_of_rat (fl (of_int n) * x))))"

definition payout_wei :: "float64 \<Rightarrow> int \<Rightarrow> int res" where
  "payout_wei reputation base_wei =
     (if base_wei < 0 then Inl (ValueError ''base_wei must be non-negative'')
      else let multiplier = payout_multiplier reputation in
        if multiplier = 0 then Inr 0 else int_times_float base_wei multiplier)"

subsection \<open>schemas.py and loop.py\<close>

record peer_score =
  psc_peer_id :: string
  psc_role :: string
  psc_wallet :: string
  psc_verifier_score :: float64

record round_input =
  ri_round_index :: int
  ri_job_id :: string
  ri_peer_scores :: "peer_score list"

record peer_round_entry =
  pe_peer_id :: string
  pe_role :: string
  pe_wallet :: string
  pe_reputation_before :: float64
  pe_verifier_score :: float64
  pe_reputation_after :: float64
  pe_multiplier :: float64
  pe_base_wei :: int
  pe_payout_wei :: int
  pe_slashed :: bool

record round_ledger =
  rl_round_index :: int
  rl_job_id :: string
  rl_peers :: "peer_round_entry list"
  rl_total_payout_wei :: int

record simulation_ledger =
  sl_base_wei :: int
  sl_rounds :: "round_ledger list"
  sl_final_reputation :: "(string, float64) pydict"
  sl_cumulative_payout_wei :: "(string, int) pydict"

definition valid_entry :: "peer_round_entry \<Rightarrow> bool" where
  "valid_entry e \<longleftrightarrow>
     pe_peer_id e \<noteq> [] \<and> pe_role e \<noteq> [] \<and> address_ok (pe_wallet e) \<and>
     unit_ok (pe_reputation_before e) \<and> unit_ok (pe_verifier_score e) \<and>
     unit_ok (pe_reputation_after e) \<and> 0 \<le> pe_multiplier e \<and> 0 \<le> pe_base_wei e \<and> 0 \<le> pe_payout_wei e"

definition valid_ledger :: "round_ledger \<Rightarrow> bool" where
  "valid_ledger l \<longleftrightarrow> 0 \<le> rl_round_index l \<and> rl_job_id l \<noteq> [] \<and> 0 \<le> rl_total_payout_wei l"

definition valid_simulation :: "simulation_ledger \<Rightarrow> bool" where
  "valid_simulation s \<longleftrightarrow> 0 \<le> sl_base_wei s"

type_synonym reputation_state = "(string, float64) pydict"

definition score_entry :: "int \<Rightarrow> reputation_state \<Rightarrow> peer_score \<Rightarrow> (peer_round_entry \<times> reputation_state) res" where
  "score_entry base_wei st score =
     (let before = dget_or st (psc_peer_id score) initial_reputation;
          after = update_reputation before (psc_verifier_score score)
      in res_bind (payout_wei after base_wei) (\<lambda>payout.
         res_bind (checked ''PeerRoundEntry'' valid_entry
           \<lparr>pe_peer_id = psc_peer_id score, pe_role = psc_role score, pe_wallet = psc_wallet score,
            pe_reputation_before = py_round 6 before,
            pe_verifier_score = py_round 6 (psc_verifier_score score),
            pe_reputation_after = after, pe_multiplier = py_round 6 (payout_multiplier after),
            pe_base_wei = base_wei, pe_payout_wei = payout, pe_slashed = (after < slash_threshold)\<rparr>) (\<lambda>e.
           Inr (e, dset st (psc_peer_id score) after))))"

fun score_entries :: "int \<Rightarrow> reputation_state \<Rightarrow> peer_score list \<Rightarrow>
    (peer_round_entry list \<times> reputation_state) res" where
  "score_entries base_wei st [] = Inr ([], st)"
| "score_entries base_wei st (score # scores) =
     res_bind (score_entry base_wei st score) (\<lambda>(e, st').
     res_bind (score_entries base_wei st' scores) (\<lambda>(es, st''). Inr (e # es, st'')))"

definition run_round :: "round_input \<Rightarrow> reputation_state \<Rightarrow> int \<Rightarrow> (round_ledger \<times> reputation_state) res" where
  "run_round r st base_wei =
     res_bind (score_entries base_wei st (ri_peer_scores r)) (\<lambda>(entries, next_state).
     res_bind (checked ''RoundLedger'' valid_ledger
       \<lparr>rl_round_index = ri_round_index r, rl_job_id = ri_job_id r, rl_peers = entries,
        rl_total_payout_wei = sum_list (map pe_payout_wei entries)\<rparr>) (\<lambda>ledger.
       Inr (ledger, next_state)))"

definition add_payout :: "(string, int) pydict \<Rightarrow> peer_round_entry \<Rightarrow> (string, int) pydict" where
  "add_payout cumulative e =
     dset cumulative (pe_peer_id e) (dget_or cumulative (pe_peer_id e) 0 + pe_payout_wei e)"

fun run_rounds :: "int \<Rightarrow> round_input list \<Rightarrow> reputation_state \<Rightarrow> (string, int) pydict \<Rightarrow>
    (round_ledger list \<times> reputation_state \<times> (string, int) pydict) res" where
  "run_rounds base_wei [] st cumulative = Inr ([], st, cumulative)"
| "run_rounds base_wei (r # rs) st cumulative =
     res_bind (run_round r st base_wei) (\<lambda>(ledger, st').
     res_bind (run_rounds base_wei rs st' (foldl add_payout cumulative (rl_peers ledger)))
       (\<lambda>(ledgers, st'', cumulative'). Inr (ledger # ledgers, st'', cumulative')))"

definition simulate_rounds :: "round_input list \<Rightarrow> int \<Rightarrow> reputation_state option \<Rightarrow> simulation_ledger res" where
  "simulate_rounds rounds base_wei initial =
     (let start = (case initial of None \<Rightarrow> [] | Some s \<Rightarrow> s) in
      res_bind (run_rounds base_wei rounds start []) (\<lambda>(ledgers, st, cumulative).
        checked ''SimulationLedger'' valid_simulation
          \<lparr>sl_base_wei = base_wei, sl_rounds = ledgers,
           sl_final_reputation = map (\<lambda>(k, v). (k, py_round 6 v)) st,
           sl_cumulative_payout_wei = cumulative\<rparr>))"

subsection \<open>Reputation and multiplier\<close>

lemma clamp_unit_ok: "unit_ok (clamp_unit v)"
  by (simp add: clamp_unit_def unit_ok_def)

lemma clamp_unit_id [simp]: "unit_ok v \<Longrightarrow> clamp_unit v = v"
  by (auto simp: clamp_unit_def unit_ok_def)

lemma clamp_unit_mono: "x \<le> y \<Longrightarrow> clamp_unit x \<le> clamp_unit y"
  by (simp add: clamp_unit_def)

lemma update_reputation_unit: "unit_ok (update_reputation current score)"
  using clamp_unit_ok dec.rnd_unit unfolding update_reputation_def unit_ok_def by blast

lemma update_reputation_mono:
  "c \<le> c' \<Longrightarrow> s \<le> s' \<Longrightarrow> update_reputation c s \<le> update_reputation c' s'"
proof -
  assume "c \<le> c'" "s \<le> s'"
  moreover have "0 \<le> reputation_alpha" "0 \<le> fsub 1 reputation_alpha" by code_simp+
  moreover have "0 \<le> clamp_unit v" for v using clamp_unit_ok by (simp add: unit_ok_def)
  ultimately show ?thesis
    unfolding update_reputation_def
    by (intro dec.rnd_mono clamp_unit_mono fadd_mono fmul_mono) auto
qed

lemma linear_mono:
  "0 \<le> fsub y1 y0 \<Longrightarrow> 0 < fsub x1 x0 \<Longrightarrow> x0 \<le> x \<Longrightarrow> x \<le> x' \<Longrightarrow> linear x x0 y0 x1 y1 \<le> linear x' x0 y0 x1 y1"
  unfolding linear_def
  by (auto intro!: fadd_mono fdiv_mono fmul_mono fl_mono simp: fsub_def b64.rnd_nonneg)

lemma multiplier_points:
  "linear slash_threshold slash_threshold threshold_multiplier full_payout_reputation 1 = slash_threshold"
  "linear full_payout_reputation slash_threshold threshold_multiplier full_payout_reputation 1 = 1"
  "linear full_payout_reputation full_payout_reputation 1 bonus_reputation max_multiplier = 1"
  "linear 1 full_payout_reputation 1 bonus_reputation max_multiplier = max_multiplier"
  by code_simp+

lemma segment_conditions:
  "0 \<le> fsub 1 threshold_multiplier" "0 < fsub full_payout_reputation slash_threshold"
  "0 \<le> fsub max_multiplier 1" "0 < fsub bonus_reputation full_payout_reputation"
  "0 < slash_threshold" "slash_threshold \<le> full_payout_reputation" "full_payout_reputation \<le> 1"
  "1 \<le> max_multiplier" "slash_threshold \<le> 1"
  by code_simp+

lemma lower_segment:
  "slash_threshold \<le> x \<Longrightarrow> x \<le> full_payout_reputation \<Longrightarrow>
     slash_threshold \<le> linear x slash_threshold threshold_multiplier full_payout_reputation 1 \<and>
     linear x slash_threshold threshold_multiplier full_payout_reputation 1 \<le> 1"
  using linear_mono [OF segment_conditions(1,2), of slash_threshold x]
    linear_mono [OF segment_conditions(1,2), of x full_payout_reputation]
  by (simp add: multiplier_points)

lemma upper_segment:
  "full_payout_reputation \<le> x \<Longrightarrow> x \<le> 1 \<Longrightarrow>
     1 \<le> linear x full_payout_reputation 1 bonus_reputation max_multiplier \<and>
     linear x full_payout_reputation 1 bonus_reputation max_multiplier \<le> max_multiplier"
  using linear_mono [OF segment_conditions(3,4), of full_payout_reputation x]
    linear_mono [OF segment_conditions(3,4), of x 1]
  by (simp add: multiplier_points)

lemma payout_multiplier_mono_aux: "x \<le> y \<Longrightarrow> payout_multiplier x \<le> payout_multiplier y"
proof -
  assume "x \<le> y"
  then have c: "clamp_unit x \<le> clamp_unit y" by (rule clamp_unit_mono)
  have u: "0 \<le> clamp_unit x" "clamp_unit y \<le> 1" using clamp_unit_ok by (simp_all add: unit_ok_def)
  show ?thesis
    using c u segment_conditions(5,6,8,9) lower_segment [of "clamp_unit x"] lower_segment [of "clamp_unit y"]
      upper_segment [of "clamp_unit x"] upper_segment [of "clamp_unit y"]
      linear_mono [OF segment_conditions(1,2), of "clamp_unit x" "clamp_unit y"]
      linear_mono [OF segment_conditions(3,4), of "clamp_unit x" "clamp_unit y"]
    unfolding payout_multiplier_def Let_def by (auto split: if_splits)
qed

text \<open>The payout multiplier is 0 below the slashing threshold, at least the threshold from there
  on, at most 1.6, exactly 1 at the reputation of full payout, and it never falls when the
  reputation rises: rounding does not break the two joints of the curve.\<close>

theorem payout_multiplier_shape:
  "(payout_multiplier x = 0 \<longleftrightarrow> clamp_unit x < slash_threshold) \<and>
   0 \<le> payout_multiplier x \<and> payout_multiplier x \<le> max_multiplier \<and>
   payout_multiplier full_payout_reputation = 1 \<and>
   payout_multiplier (min x y) \<le> payout_multiplier (max x y)"
proof (intro conjI)
  have u: "clamp_unit x \<le> 1" using clamp_unit_ok by (simp add: unit_ok_def)
  have pos: "slash_threshold \<le> payout_multiplier x" if "\<not> clamp_unit x < slash_threshold"
    using that u lower_segment [of "clamp_unit x"] upper_segment [of "clamp_unit x"] segment_conditions(9)
    by (auto simp: payout_multiplier_def Let_def)
  show "payout_multiplier x = 0 \<longleftrightarrow> clamp_unit x < slash_threshold"
    using pos segment_conditions(5) by (auto simp: payout_multiplier_def Let_def not_less)
  show "0 \<le> payout_multiplier x"
    using pos segment_conditions(5) by (cases "clamp_unit x < slash_threshold")
      (simp_all add: payout_multiplier_def Let_def)
  show "payout_multiplier x \<le> max_multiplier"
    using u lower_segment [of "clamp_unit x"] upper_segment [of "clamp_unit x"] segment_conditions(8)
    by (auto simp: payout_multiplier_def Let_def not_less not_le)
  show "payout_multiplier full_payout_reputation = 1" by code_simp
  show "payout_multiplier (min x y) \<le> payout_multiplier (max x y)"
    by (rule payout_multiplier_mono_aux) simp
qed

lemma payout_multiplier_slashed: "unit_ok r \<Longrightarrow> payout_multiplier r = 0 \<longleftrightarrow> r < slash_threshold"
proof -
  assume u: "unit_ok r"
  then have "r \<le> 1" by (simp add: unit_ok_def)
  then show ?thesis
    using u segment_conditions(5,9) lower_segment [of r] upper_segment [of r]
    by (auto simp: payout_multiplier_def Let_def not_less)
qed

lemma payout_multiplier_range: "0 \<le> payout_multiplier r" "payout_multiplier r \<le> 2"
proof -
  have u: "0 \<le> clamp_unit r" "clamp_unit r \<le> 1" "payout_multiplier (clamp_unit r) = payout_multiplier r"
    using clamp_unit_ok [of r] by (simp_all add: payout_multiplier_def unit_ok_def)
  have "payout_multiplier 0 = 0" "payout_multiplier 1 \<le> 2" by code_simp+
  then show "0 \<le> payout_multiplier r" "payout_multiplier r \<le> 2"
    using u(3) payout_multiplier_mono_aux [OF u(1)] payout_multiplier_mono_aux [OF u(2)] by simp_all
qed

definition payout_amount :: "int \<Rightarrow> float64 \<Rightarrow> int" where
  "payout_amount base_wei m = \<lfloor>fl (of_int base_wei * m)\<rfloor>"

lemma payout_amount_mono: "0 \<le> b \<Longrightarrow> m \<le> m' \<Longrightarrow> payout_amount b m \<le> payout_amount b m'"
  unfolding payout_amount_def by (intro floor_mono fl_mono mult_left_mono) auto

lemma payout_amount_0 [simp]: "payout_amount b 0 = 0"
  by (simp add: payout_amount_def)

lemma payout_amount_upper: "0 \<le> b \<Longrightarrow> b \<le> 2 ^ 52 \<Longrightarrow> m \<le> 2 \<Longrightarrow> payout_amount b m \<le> 2 * b"
proof -
  assume b: "0 \<le> b" "b \<le> 2 ^ 52" and m: "m \<le> 2"
  have "payout_amount b m \<le> payout_amount b 2" using b m by (intro payout_amount_mono) auto
  moreover have "fl (of_int b * 2) = of_int (b * 2)" using fl_of_int [of "b * 2"] b by simp
  then have "payout_amount b 2 = b * 2"
    unfolding payout_amount_def by (metis floor_of_int of_int_mult of_int_numeral)
  ultimately show ?thesis by simp
qed

lemma payout_wei_defined:
  assumes "0 \<le> b" "b \<le> 2 ^ 52"
  shows "payout_wei r b = Inr (payout_amount b (payout_multiplier r))"
proof -
  let ?m = "payout_multiplier r"
  have range: "0 \<le> ?m" "?m \<le> 2" by (rule payout_multiplier_range)+
  have flb: "fl (of_int b) = of_int b" using fl_of_int [of b] assms by simp
  have big: "(2 :: rat) ^ 60 < float_max" by (simp add: float_max_def)
  have b60: "\<bar>of_int b :: rat\<bar> \<le> 2 ^ 52" using assms by (simp flip: of_int_abs)
  have prod: "0 \<le> of_int b * ?m" "of_int b * ?m \<le> 2 ^ 53"
    using range assms b60 mult_mono [of "of_int b" "2 ^ 52" ?m 2] by (auto simp: mult_nonneg_nonneg)
  have "pyfloat_of_rat (of_int b * ?m) = Fin (fl (of_int b * ?m))"
    using prod big by (simp add: pyfloat_of_rat_def)
  moreover have "\<not> float_max \<le> \<bar>of_int b\<bar>" using b60 big by simp
  ultimately show ?thesis
    using assms prod by (simp add: payout_wei_def Let_def int_times_float_def flb py_int_of_def
        fl_nonneg payout_amount_def)
qed

text \<open>For every amount up to 2^52 wei the payout is defined, not negative and at most twice the
  base amount, and a higher reputation is never paid less.\<close>

theorem payout_wei_bounds:
  assumes "0 \<le> base_wei" "base_wei \<le> 2 ^ 52" "r \<le> r'"
  shows "\<exists>n n'. payout_wei r base_wei = Inr n \<and> payout_wei r' base_wei = Inr n' \<and>
     0 \<le> n \<and> n \<le> n' \<and> n' \<le> 2 * base_wei"
  using payout_wei_defined [OF assms(1,2)] payout_multiplier_mono_aux [OF assms(3)]
    payout_multiplier_range [of r] payout_multiplier_range [of r'] assms(1,2)
    payout_amount_mono [of base_wei 0 "payout_multiplier r"]
  by (auto simp: payout_wei_defined payout_amount_mono payout_amount_upper)

lemma payout_wei_bounds_witness:
  "\<exists>n n'. payout_wei 0 1000 = Inr n \<and> payout_wei 1 1000 = Inr n' \<and> 0 \<le> n \<and> n \<le> n' \<and> n' \<le> 2000"
  using payout_wei_bounds [of 1000 0 1] by simp

subsection \<open>The ledger\<close>

definition good_entry :: "int \<Rightarrow> peer_round_entry \<Rightarrow> bool" where
  "good_entry base_wei e \<longleftrightarrow>
     valid_entry e \<and> pe_base_wei e = base_wei \<and>
     unit_ok (pe_reputation_after e) \<and>
     payout_wei (pe_reputation_after e) base_wei = Inr (pe_payout_wei e) \<and>
     (pe_slashed e \<longleftrightarrow> pe_reputation_after e < slash_threshold) \<and>
     (pe_slashed e \<longrightarrow> pe_payout_wei e = 0)"

lemma score_entry_good:
  "score_entry base_wei st score = Inr (e, st') \<Longrightarrow>
     good_entry base_wei e \<and> pe_peer_id e = psc_peer_id score \<and>
     st' = dset st (pe_peer_id e) (pe_reputation_after e) \<and>
     pe_reputation_after e = update_reputation (dget_or st (psc_peer_id score) initial_reputation) (psc_verifier_score score)"
  unfolding score_entry_def Let_def res_bind_Inr_iff checked_Inr_iff
  by (auto simp: good_entry_def update_reputation_unit payout_multiplier_slashed payout_wei_def
      Let_def split: if_splits)

lemma score_entries_good:
  "score_entries base_wei st scores = Inr (es, st') \<Longrightarrow>
     list_all (good_entry base_wei) es \<and> map pe_peer_id es = map psc_peer_id scores \<and>
     st' = foldl (\<lambda>d e. dset d (pe_peer_id e) (pe_reputation_after e)) st es"
proof (induction scores arbitrary: st es)
  case (Cons score scores)
  from Cons.prems obtain e st1 es' where
    e: "score_entry base_wei st score = Inr (e, st1)" and es: "es = e # es'"
    and rest: "score_entries base_wei st1 scores = Inr (es', st')"
    by (auto simp: res_bind_Inr_iff)
  from Cons.IH [OF rest] score_entry_good [OF e] es show ?case by auto
qed simp

definition payouts_of :: "string \<Rightarrow> peer_round_entry list \<Rightarrow> int" where
  "payouts_of p es = sum_list (map pe_payout_wei (filter (\<lambda>e. pe_peer_id e = p) es))"

lemma payouts_of_simps [simp]:
  "payouts_of p [] = 0" "payouts_of p (e # es) = (if pe_peer_id e = p then pe_payout_wei e else 0) + payouts_of p es"
  "payouts_of p (xs @ ys) = payouts_of p xs + payouts_of p ys"
  by (simp_all add: payouts_of_def)

lemma dget_or_add_payout:
  "dget_or (add_payout d e) p 0 = dget_or d p 0 + (if pe_peer_id e = p then pe_payout_wei e else 0)"
  by (simp add: add_payout_def dget_or_def)

lemma dget_or_foldl_payout: "dget_or (foldl add_payout d es) p 0 = dget_or d p 0 + payouts_of p es"
  by (induction es arbitrary: d) (simp_all add: dget_or_add_payout)

definition ledger_ok :: "int \<Rightarrow> round_ledger \<Rightarrow> bool" where
  "ledger_ok base_wei l \<longleftrightarrow>
     list_all (good_entry base_wei) (rl_peers l) \<and>
     rl_total_payout_wei l = sum_list (map pe_payout_wei (rl_peers l))"

lemma run_round_ok:
  "run_round r st base_wei = Inr (l, st') \<Longrightarrow>
     ledger_ok base_wei l \<and> st' = foldl (\<lambda>d e. dset d (pe_peer_id e) (pe_reputation_after e)) st (rl_peers l)"
  unfolding run_round_def by (auto simp: res_bind_Inr_iff checked_Inr_iff ledger_ok_def dest: score_entries_good)

lemma run_rounds_ok:
  "run_rounds base_wei rs st cum = Inr (ls, st', cum') \<Longrightarrow>
     list_all (ledger_ok base_wei) ls \<and> length ls = length rs \<and>
     dget_or cum' p 0 = dget_or cum p 0 + payouts_of p (concat (map rl_peers ls))"
proof (induction rs arbitrary: st cum ls)
  case (Cons r rs)
  from Cons.prems obtain l st1 ls' where
    l: "run_round r st base_wei = Inr (l, st1)" and ls: "ls = l # ls'"
    and rest: "run_rounds base_wei rs st1 (foldl add_payout cum (rl_peers l)) = Inr (ls', st', cum')"
    by (auto simp: res_bind_Inr_iff)
  from Cons.IH [OF rest] run_round_ok [OF l] ls show ?case
    by (simp add: dget_or_foldl_payout)
qed simp

text \<open>The ledger adds up: in every round the total is the sum of the payouts, every payout is the
  policy's payout for the reputation recorded beside it, a slashed peer is paid nothing, and the
  cumulative amount of each peer is the sum of its payouts over all rounds.\<close>

theorem simulation_ledger_adds_up:
  assumes "simulate_rounds rounds base_wei initial = Inr ledger"
  shows "list_all (ledger_ok base_wei) (sl_rounds ledger) \<and> length (sl_rounds ledger) = length rounds \<and>
     dget_or (sl_cumulative_payout_wei ledger) p 0 = payouts_of p (concat (map rl_peers (sl_rounds ledger)))"
proof -
  obtain ls st cum where
    r: "run_rounds base_wei rounds (case initial of None \<Rightarrow> [] | Some s \<Rightarrow> s) [] = Inr (ls, st, cum)"
    and l: "sl_rounds ledger = ls" "sl_cumulative_payout_wei ledger = cum"
    using assms by (auto simp: simulate_rounds_def Let_def res_bind_Inr_iff checked_Inr_iff)
  from run_rounds_ok [OF r, of p] show ?thesis by (simp add: l dget_or_def)
qed

definition demo_rounds :: "round_input list" where
  "demo_rounds = [\<lparr>ri_round_index = 0, ri_job_id = ''j'', ri_peer_scores =
     [\<lparr>psc_peer_id = ''p'', psc_role = ''risk'', psc_wallet = ''0x'' @ replicate 40 (CHR ''1''),
       psc_verifier_score = 0\<rparr>]\<rparr>]"

lemma simulation_ledger_adds_up_witness:
  "\<exists>ledger. simulate_rounds demo_rounds 1000 None = Inr ledger \<and>
     list_all (ledger_ok 1000) (sl_rounds ledger) \<and>
     dget_or (sl_cumulative_payout_wei ledger) ''p'' 0 = payouts_of ''p'' (concat (map rl_peers (sl_rounds ledger)))"
proof -
  let ?s = "\<lparr>psc_peer_id = ''p'', psc_role = ''risk'', psc_wallet = ''0x'' @ replicate 40 (CHR ''1''),
       psc_verifier_score = 0\<rparr>"
  have a: "update_reputation initial_reputation 0 = fl (49/100)" by code_simp
  obtain n where b: "payout_wei (fl (49/100)) 1000 = Inr n" and n: "0 \<le> n"
    using payout_wei_defined [of 1000] payout_multiplier_range(1) [of "fl (49/100)"]
      payout_amount_mono [of 1000 0 "payout_multiplier (fl (49/100))"] by force
  have c: "unit_ok (py_round 6 initial_reputation)" "unit_ok (fl (49/100))"
    "0 \<le> py_round 6 (payout_multiplier (fl (49/100)))" by code_simp+
  have "address_ok (''0x'' @ replicate 40 (CHR ''1''))"
    by (simp add: hex_pattern_def starts_with_def list_all_iff hex_value_def char_code_def)
  then have "\<exists>e. score_entry 1000 [] ?s = Inr (e, [(''p'', fl (49/100))]) \<and> pe_payout_wei e = n"
    using c n by (simp add: score_entry_def Let_def dget_or_def a b checked_def valid_entry_def unit_ok_def dec.rnd_0)
  with n obtain ledger where l: "simulate_rounds demo_rounds 1000 None = Inr ledger"
    by (auto simp: simulate_rounds_def demo_rounds_def run_round_def valid_ledger_def valid_simulation_def)
  from simulation_ledger_adds_up [OF l, of "''p''"] l show ?thesis by blast
qed

end
