(* ===== verification/Identity.thy ===== *)
theory Identity
  imports Contracts
begin

section \<open>Hashes and signatures (app/identity, app/evaluation/attestations.py)\<close>

text \<open>
  The cryptography is not part of the repository: \<open>crypto\<close> holds the functions of eth_utils,
  eth_account and hashlib that the code calls, and \<open>crypto_ok\<close> states what their documentation
  promises and the code relies on: a digest is 64 hex digits, a checksummed address is the same
  address up to case, and the signer of a message is recovered from the signature of that message.
  Nothing is assumed about collisions, and about forging only where \<^theory_text>\<open>Authenticity\<close> names it.

  Over these, \<open>sign_agent_execution\<close>, \<open>recover_execution_signer\<close> and \<open>verify_signed_execution\<close> are
  \<^verbatim>\<open>signing.py\<close>, with every check in the order of the code, and
  \<open>verification_attestation_hash\<close>, \<open>verify_verification_attestation\<close> are \<^verbatim>\<open>attestations.py\<close>. The
  main result here: what is signed verifies. That what verifies was signed is the subject of
  \<^theory_text>\<open>Authenticity\<close>.
\<close>

subsection \<open>External functions\<close>

record crypto =
  keccak_digest :: "string \<Rightarrow> string"
  sha256_digest :: "string \<Rightarrow> string"
  key_address :: "string \<Rightarrow> string res"
  to_checksum :: "string \<Rightarrow> string res"
  sign_text :: "string \<Rightarrow> string \<Rightarrow> string res"
  recover_text :: "string \<Rightarrow> string \<Rightarrow> string res"

definition crypto_ok :: "crypto \<Rightarrow> bool" where
  "crypto_ok c \<longleftrightarrow>
     (\<forall>m. hash_ok (''0x'' @ keccak_digest c m)) \<and>
     (\<forall>a. address_ok a \<longrightarrow> (\<exists>b. to_checksum c a = Inr b \<and> to_lower b = to_lower a)) \<and>
     (\<forall>a b. to_lower a = to_lower b \<longrightarrow> to_checksum c a = to_checksum c b) \<and>
     (\<forall>k a. key_address c k = Inr a \<longrightarrow> address_ok a \<and> to_checksum c a = Inr a) \<and>
     (\<forall>k a m. key_address c k = Inr a \<longrightarrow>
        (\<exists>s. sign_text c k m = Inr s \<and> hex_pattern 130 (''0x'' @ s) \<and>
             recover_text c m (''0x'' @ s) = Inr a))"

lemma crypto_parts:
  assumes "crypto_ok c"
  shows crypto_keccak: "hash_ok (''0x'' @ keccak_digest c m)"
    and crypto_checksum_total: "address_ok a \<Longrightarrow> \<exists>b. to_checksum c a = Inr b \<and> to_lower b = to_lower a"
    and crypto_checksum_eq: "to_lower a = to_lower b \<Longrightarrow> to_checksum c a = to_checksum c b"
    and crypto_key: "key_address c k = Inr a \<Longrightarrow> address_ok a \<and> to_checksum c a = Inr a"
    and crypto_sign: "key_address c k = Inr a \<Longrightarrow>
      \<exists>s. sign_text c k m = Inr s \<and> hex_pattern 130 (''0x'' @ s) \<and> recover_text c m (''0x'' @ s) = Inr a"
  using assms unfolding crypto_ok_def by blast+

lemma crypto_checksum:
  assumes "crypto_ok c" "to_checksum c a = Inr b" "address_ok a"
  shows "to_lower b = to_lower a" and "to_checksum c b = Inr b"
proof -
  show l: "to_lower b = to_lower a"
    using crypto_checksum_total [OF assms(1,3)] assms(2) by auto
  show "to_checksum c b = Inr b" using crypto_checksum_eq [OF assms(1) l] assms(2) by simp
qed

subsection \<open>Hashing\<close>

definition keccak256_hex :: "crypto \<Rightarrow> string \<Rightarrow> string" where
  "keccak256_hex c data = ''0x'' @ keccak_digest c data"

definition canonical_json_hash :: "crypto \<Rightarrow> json \<Rightarrow> string res" where
  "canonical_json_hash c v = res_bind (canonical_json v) (\<lambda>t. Inr (keccak256_hex c t))"

definition task_hash :: "crypto \<Rightarrow> task_spec \<Rightarrow> string res" where
  "task_hash c t = canonical_json_hash c (task_spec_json t)"

definition output_hash :: "crypto \<Rightarrow> specialist_response \<Rightarrow> string res" where
  "output_hash c r = canonical_json_hash c (specialist_response_json r)"

lemma canonical_json_hash_ok: "crypto_ok c \<Longrightarrow> canonical_json_hash c v = Inr h \<Longrightarrow> hash_ok h"
  by (auto simp: canonical_json_hash_def keccak256_hex_def res_simps dest: crypto_keccak)

subsection \<open>Execution signatures\<close>

definition signature_domain :: string where "signature_domain = ''signal-count.agent-execution''"
definition signature_version :: int where "signature_version = 1"

definition normalize_identity :: "crypto \<Rightarrow> agent_identity \<Rightarrow> agent_identity res" where
  "normalize_identity c i = res_bind (to_checksum c (ai_wallet i)) (\<lambda>w. Inr (i\<lparr>ai_wallet := w\<rparr>))"

definition response_wallet_matches_identity ::
    "crypto \<Rightarrow> specialist_response \<Rightarrow> agent_identity \<Rightarrow> bool res" where
  "response_wallet_matches_identity c r i =
     (case sr_agent_wallet r of
        None \<Rightarrow> Inr True
      | Some w \<Rightarrow> res_bind (to_checksum c w) (\<lambda>a. res_bind (to_checksum c (ai_wallet i)) (\<lambda>b. Inr (a = b))))"

definition signable_message :: "crypto \<Rightarrow> agent_identity \<Rightarrow> string \<Rightarrow> string \<Rightarrow> string \<Rightarrow> string res" where
  "signable_message c i signer task_digest output_digest =
     res_bind (to_checksum c signer) (\<lambda>w.
       canonical_json (JObj
         [(''domain'', JStr signature_domain), (''version'', JInt signature_version),
          (''role'', JStr (ai_role i)), (''peer_id'', JStr (ai_peer_id i)), (''wallet'', JStr w),
          (''task_hash'', JStr task_digest), (''output_hash'', JStr output_digest)]))"

definition wallet_address_from_private_key :: "crypto \<Rightarrow> string \<Rightarrow> string res" where
  "wallet_address_from_private_key c k = key_address c k"

definition sign_agent_execution ::
    "crypto \<Rightarrow> task_spec \<Rightarrow> specialist_response \<Rightarrow> agent_identity \<Rightarrow> string \<Rightarrow> signed_agent_execution res" where
  "sign_agent_execution c task response identity key =
     res_bind (wallet_address_from_private_key c key) (\<lambda>signer.
     res_bind (normalize_identity c identity) (\<lambda>norm.
     if to_lower signer \<noteq> to_lower (ai_wallet norm)
       then Inl (ValueError ''private key does not match agent identity wallet'')
     else if ts_job_id task \<noteq> sr_job_id response
       then Inl (ValueError ''task job_id does not match specialist response'')
     else if sr_node_role response \<noteq> ai_role norm
       then Inl (ValueError ''agent identity role does not match specialist response'')
     else if sr_peer_id response \<noteq> ai_peer_id norm
       then Inl (ValueError ''agent identity peer_id does not match specialist response'')
     else
     res_bind (response_wallet_matches_identity c response norm) (\<lambda>wallet_ok.
     if \<not> wallet_ok
       then Inl (ValueError ''specialist response wallet does not match agent identity'')
     else
     res_bind (task_hash c task) (\<lambda>task_digest.
     res_bind (output_hash c response) (\<lambda>output_digest.
     res_bind (signable_message c norm signer task_digest output_digest) (\<lambda>message.
     res_bind (sign_text c key message) (\<lambda>sig.
     res_bind (make_envelope
         \<lparr>se_signer = signer, se_task_hash = task_digest, se_output_hash = output_digest,
          se_signature = ''0x'' @ sig, se_algorithm = ''eip191''\<rparr>) (\<lambda>envelope.
       Inr \<lparr>sx_task = task, sx_identity = norm, sx_response = response, sx_signature = envelope\<rparr>))))))))"

definition recover_execution_signer :: "crypto \<Rightarrow> signed_agent_execution \<Rightarrow> string res" where
  "recover_execution_signer c x =
     (let envelope = sx_signature x in
      res_bind (normalize_identity c (sx_identity x)) (\<lambda>norm.
      res_bind (to_checksum c (se_signer envelope)) (\<lambda>signer.
      res_bind (signable_message c norm signer (se_task_hash envelope) (se_output_hash envelope)) (\<lambda>message.
      res_bind (recover_text c message (se_signature envelope)) (\<lambda>recovered.
        to_checksum c recovered)))))"

definition verify_signed_execution :: "crypto \<Rightarrow> signed_agent_execution \<Rightarrow> bool res" where
  "verify_signed_execution c x =
     (let envelope = sx_signature x; response = sx_response x in
      res_bind (normalize_identity c (sx_identity x)) (\<lambda>norm.
      if se_algorithm envelope \<noteq> ''eip191'' then Inr False
      else if ts_job_id (sx_task x) \<noteq> sr_job_id response then Inr False
      else if sr_node_role response \<noteq> ai_role norm \<or> sr_peer_id response \<noteq> ai_peer_id norm then Inr False
      else if to_lower (se_signer envelope) \<noteq> to_lower (ai_wallet norm) then Inr False
      else
      res_bind (response_wallet_matches_identity c response norm) (\<lambda>wallet_ok.
      if \<not> wallet_ok then Inr False
      else
      res_bind (task_hash c (sx_task x)) (\<lambda>th.
      if se_task_hash envelope \<noteq> th then Inr False
      else
      res_bind (output_hash c response) (\<lambda>oh.
      if se_output_hash envelope \<noteq> oh then Inr False
      else
      (case recover_execution_signer c x of
         Inl _ \<Rightarrow> Inr False
       | Inr recovered \<Rightarrow> Inr (to_lower recovered = to_lower (se_signer envelope))))))))"

lemma normalize_identity_simps:
  "normalize_identity c i = Inr n \<Longrightarrow>
     ai_role n = ai_role i \<and> ai_peer_id n = ai_peer_id i \<and> to_checksum c (ai_wallet i) = Inr (ai_wallet n)"
  by (auto simp: normalize_identity_def res_simps)

lemma verify_signed_execution_iff:
  "verify_signed_execution c x = Inr True \<longleftrightarrow>
     (\<exists>norm recovered.
        normalize_identity c (sx_identity x) = Inr norm \<and>
        se_algorithm (sx_signature x) = ''eip191'' \<and>
        ts_job_id (sx_task x) = sr_job_id (sx_response x) \<and>
        sr_node_role (sx_response x) = ai_role norm \<and> sr_peer_id (sx_response x) = ai_peer_id norm \<and>
        to_lower (se_signer (sx_signature x)) = to_lower (ai_wallet norm) \<and>
        response_wallet_matches_identity c (sx_response x) norm = Inr True \<and>
        task_hash c (sx_task x) = Inr (se_task_hash (sx_signature x)) \<and>
        output_hash c (sx_response x) = Inr (se_output_hash (sx_signature x)) \<and>
        recover_execution_signer c x = Inr recovered \<and>
        to_lower recovered = to_lower (se_signer (sx_signature x)))"
  (is "?L \<longleftrightarrow> ?R")
proof
  assume ?L
  then show ?R
    unfolding verify_signed_execution_def Let_def res_bind_Inr_iff
    by (clarsimp split: if_split_asm) (clarsimp simp: res_bind_Inr_iff split: if_split_asm sum.split_asm)
next
  assume ?R
  then show ?L
    unfolding verify_signed_execution_def Let_def by clarsimp
qed

lemma sign_agent_execution_cases:
  assumes "sign_agent_execution c task response identity key = Inr x"
  obtains signer norm message sig where
    "key_address c key = Inr signer" "normalize_identity c identity = Inr norm"
    "to_lower signer = to_lower (ai_wallet norm)" "ts_job_id task = sr_job_id response"
    "sr_node_role response = ai_role norm" "sr_peer_id response = ai_peer_id norm"
    "response_wallet_matches_identity c response norm = Inr True"
    "task_hash c task = Inr (se_task_hash (sx_signature x))"
    "output_hash c response = Inr (se_output_hash (sx_signature x))"
    "signable_message c norm signer (se_task_hash (sx_signature x)) (se_output_hash (sx_signature x)) = Inr message"
    "sign_text c key message = Inr sig"
    "sx_signature x = \<lparr>se_signer = signer, se_task_hash = se_task_hash (sx_signature x),
       se_output_hash = se_output_hash (sx_signature x), se_signature = ''0x'' @ sig, se_algorithm = ''eip191''\<rparr>"
    "sx_task x = task" "sx_identity x = norm" "sx_response x = response"
  using assms unfolding sign_agent_execution_def wallet_address_from_private_key_def make_envelope_def
    res_bind_Inr_iff checked_Inr_iff
  by (clarsimp split: if_split_asm) (clarsimp simp: res_simps split: if_split_asm)

lemma signed_execution_verifies:
  assumes "crypto_ok c" "address_ok (ai_wallet identity)"
    and "sign_agent_execution c task response identity key = Inr x"
  shows "verify_signed_execution c x = Inr True"
  using assms(3)
proof (rule sign_agent_execution_cases)
  fix signer norm message sig
  assume key: "key_address c key = Inr signer" and norm: "normalize_identity c identity = Inr norm"
    and lower: "to_lower signer = to_lower (ai_wallet norm)"
    and job: "ts_job_id task = sr_job_id response"
    and role: "sr_node_role response = ai_role norm" "sr_peer_id response = ai_peer_id norm"
    and wallet: "response_wallet_matches_identity c response norm = Inr True"
    and th: "task_hash c task = Inr (se_task_hash (sx_signature x))"
    and oh: "output_hash c response = Inr (se_output_hash (sx_signature x))"
    and msg: "signable_message c norm signer (se_task_hash (sx_signature x)) (se_output_hash (sx_signature x)) = Inr message"
    and sig: "sign_text c key message = Inr sig"
    and env: "sx_signature x = \<lparr>se_signer = signer, se_task_hash = se_task_hash (sx_signature x),
       se_output_hash = se_output_hash (sx_signature x), se_signature = ''0x'' @ sig, se_algorithm = ''eip191''\<rparr>"
    and x: "sx_task x = task" "sx_identity x = norm" "sx_response x = response"
  have w: "to_checksum c (ai_wallet identity) = Inr (ai_wallet norm)"
    using normalize_identity_simps [OF norm] by simp
  have again: "normalize_identity c norm = Inr norm"
    using crypto_checksum(2) [OF assms(1) w assms(2)] by (simp add: normalize_identity_def)
  have signer: "to_checksum c signer = Inr signer" using crypto_key [OF assms(1) key] by simp
  have rec: "recover_text c message (''0x'' @ sig) = Inr signer"
    using crypto_sign [OF assms(1) key, of message] sig by simp
  have env': "se_signer (sx_signature x) = signer" "se_signature (sx_signature x) = ''0x'' @ sig"
    "se_algorithm (sx_signature x) = ''eip191''"
    by (subst env, simp)+
  have "recover_execution_signer c x = Inr signer"
    unfolding recover_execution_signer_def Let_def x env' again signer res_bind_simps msg
    using rec signer by simp
  then show ?thesis
    unfolding verify_signed_execution_iff
    using again env' x th oh job role wallet lower by auto
qed

text \<open>What an agent signs verifies: an execution that the signer returns passes every check of
  the verifier, provided the wallet is an address and the external functions keep their promises.\<close>

theorem sign_then_verify:
  assumes "crypto_ok c" "address_ok (ai_wallet identity)"
    and "sign_agent_execution c task response identity key = Inr x"
  shows "verify_signed_execution c x = Inr True"
  using assms by (rule signed_execution_verifies)

subsection \<open>Attestations\<close>

definition verification_attestation_hash :: "crypto \<Rightarrow> verification_attestation \<Rightarrow> string res" where
  "verification_attestation_hash c a = canonical_json_hash c (JObj (attestation_verdict_fields a))"

definition attestation_domain :: string where
  "attestation_domain = ''signal-count.verifier-attestation''"

definition verification_attestation_message :: "string \<Rightarrow> string res" where
  "verification_attestation_message h =
     canonical_json (JObj [(''domain'', JStr attestation_domain), (''attestation_hash'', JStr h)])"

definition present :: "string option \<Rightarrow> bool" where
  "present s \<longleftrightarrow> (case s of None \<Rightarrow> False | Some t \<Rightarrow> t \<noteq> [])"

definition verify_verification_attestation :: "crypto \<Rightarrow> verification_attestation \<Rightarrow> bool res" where
  "verify_verification_attestation c a =
     (if va_signature_algorithm a \<noteq> Some ''eip191'' \<or> \<not> present (va_verifier a) \<or>
         \<not> present (va_attestation_hash a) \<or> \<not> present (va_verifier_signature a)
      then Inr False
      else res_bind (verification_attestation_hash c a) (\<lambda>expected.
        if to_lower expected \<noteq> to_lower (the (va_attestation_hash a)) then Inr False
        else case res_bind (verification_attestation_message (the (va_attestation_hash a)))
               (\<lambda>m. recover_text c m (the (va_verifier_signature a))) of
               Inl _ \<Rightarrow> Inr False
             | Inr recovered \<Rightarrow> Inr (to_lower recovered = to_lower (the (va_verifier a)))))"

lemma message_total: "\<exists>m. verification_attestation_message h = Inr m"
  by (simp add: verification_attestation_message_def)

lemma verify_attestation_iff:
  "verify_verification_attestation c a = Inr True \<longleftrightarrow>
     (\<exists>v h s expected m recovered.
        va_signature_algorithm a = Some ''eip191'' \<and> va_verifier a = Some v \<and> v \<noteq> [] \<and>
        va_attestation_hash a = Some h \<and> h \<noteq> [] \<and> va_verifier_signature a = Some s \<and> s \<noteq> [] \<and>
        verification_attestation_hash c a = Inr expected \<and> to_lower expected = to_lower h \<and>
        verification_attestation_message h = Inr m \<and> recover_text c m s = Inr recovered \<and>
        to_lower recovered = to_lower v)"
  (is "?L \<longleftrightarrow> ?R")
proof
  assume ?L
  then show ?R
    unfolding verify_verification_attestation_def present_def
    by (clarsimp split: if_split_asm option.split_asm)
      (clarsimp simp: res_bind_Inr_iff split: if_split_asm sum.split_asm)
next
  assume ?R
  then show ?L
    unfolding verify_verification_attestation_def present_def by clarsimp
qed

subsection \<open>An instance of the external functions\<close>

text \<open>
  A digest that depends on the length of the text only, one account that signs everything and
  addresses normalised to lower case satisfy \<open>crypto_ok\<close>: its promises are consistent. The instance
  is used in concrete inputs only.
\<close>

definition demo_address :: string where "demo_address = ''0x'' @ replicate 40 (CHR ''1'')"

definition length_digest :: "string \<Rightarrow> string" where
  "length_digest m = replicate 64 (digit_char (length m mod 10))"

definition demo_crypto :: crypto where
  "demo_crypto =
     \<lparr>keccak_digest = length_digest, sha256_digest = length_digest,
      key_address = (\<lambda>k. Inr demo_address),
      to_checksum = (\<lambda>a. if address_ok (to_lower a) then Inr (to_lower a)
                          else Inl (ValueError ''not an address'')),
      sign_text = (\<lambda>k m. Inr (replicate 130 (CHR ''0''))),
      recover_text = (\<lambda>m s. Inr demo_address)\<rparr>"

lemma hex_value_digit: "d < 10 \<Longrightarrow> hex_value (digit_char d) \<noteq> None"
  by (simp add: hex_value_def digit_char_def Let_def)

lemma hex_value_lower: "hex_value c \<noteq> None \<Longrightarrow> hex_value (lower_char c) \<noteq> None"
  by (auto simp: hex_value_def lower_char_def Let_def split: if_splits)

lemma lower_char_low [simp]: "lower_char (CHR ''0'') = CHR ''0''" "lower_char (CHR ''x'') = CHR ''x''"
  by (simp_all add: lower_char_def char_code_def)

lemma address_ok_lower: "address_ok a \<Longrightarrow> address_ok (to_lower a)"
proof -
  assume a: "address_ok a"
  then obtain t where t: "a = ''0x'' @ t"
    by (metis append_take_drop_id hex_pattern_def starts_with_def)
  with a show ?thesis
    using hex_value_lower by (simp add: hex_pattern_def starts_with_def to_lower_def list_all_iff)
qed

lemma demo_address_ok: "address_ok demo_address" "to_lower demo_address = demo_address"
  by (simp_all add: demo_address_def hex_pattern_def starts_with_def to_lower_def lower_char_def
      char_code_def hex_value_def list_all_iff)

lemma demo_crypto_ok: "crypto_ok demo_crypto"
  unfolding crypto_ok_def
proof (intro conjI allI impI)
  show "hash_ok (''0x'' @ keccak_digest demo_crypto m)" for m
    by (simp add: demo_crypto_def length_digest_def hex_pattern_def starts_with_def list_all_iff
        hex_value_digit del: not_None_eq)
  show "\<exists>b. to_checksum demo_crypto a = Inr b \<and> to_lower b = to_lower a" if "address_ok a" for a
    using that by (simp add: demo_crypto_def address_ok_lower)
  show "to_checksum demo_crypto a = to_checksum demo_crypto b" if "to_lower a = to_lower b" for a b
    using that by (simp add: demo_crypto_def)
  show "address_ok a" "to_checksum demo_crypto a = Inr a" if "key_address demo_crypto k = Inr a" for k a
    using that demo_address_ok by (auto simp: demo_crypto_def)
  show "\<exists>s. sign_text demo_crypto k m = Inr s \<and> hex_pattern 130 (''0x'' @ s) \<and>
      recover_text demo_crypto m (''0x'' @ s) = Inr a" if "key_address demo_crypto k = Inr a" for k a m
    using that by (simp add: demo_crypto_def hex_pattern_def starts_with_def list_all_iff hex_value_def char_code_def)
qed

definition demo_task :: task_spec where
  "demo_task = \<lparr>ts_job_id = ''job-1'', ts_thesis = ''thesis'', ts_asset = ''ETH'', ts_horizon_days = 30\<rparr>"

definition demo_response :: specialist_response where
  "demo_response = sample_response
     \<lparr>sr_scenario_view := \<lparr>sv_bull = Fin 0, sv_base = Fin 1, sv_bear = Fin 0\<rparr>,
      sr_agent_wallet := Some demo_address\<rparr>"

definition demo_identity :: agent_identity where
  "demo_identity = \<lparr>ai_role = ''risk'', ai_peer_id = ''peer-r'', ai_wallet = demo_address\<rparr>"

lemma output_hash_total:
  "finite_json (specialist_response_json r) \<Longrightarrow> \<exists>h. output_hash c r = Inr h"
  using canonical_json_total_iff(1) [of "specialist_response_json r"]
  by (auto simp: output_hash_def canonical_json_hash_def)

lemma task_hash_total: "\<exists>h. task_hash c t = Inr h"
  using canonical_json_total_iff(1) [of "task_spec_json t"]
  by (auto simp: task_hash_def canonical_json_hash_def task_spec_json_def)

lemma demo_signs: "\<exists>x. sign_agent_execution demo_crypto demo_task demo_response demo_identity k = Inr x"
proof -
  obtain th where th: "task_hash demo_crypto demo_task = Inr th" using task_hash_total by blast
  have "finite_json (specialist_response_json demo_response)"
    by (simp add: specialist_response_json_def specialist_response_fields_def demo_response_def
        sample_response_def scenario_json_def opt_obj_def)
  then obtain oh where oh: "output_hash demo_crypto demo_response = Inr oh" using output_hash_total by blast
  have hashes: "hash_ok th" "hash_ok oh"
    using th oh canonical_json_hash_ok [OF demo_crypto_ok] by (auto simp: task_hash_def output_hash_def)
  have sig: "hex_pattern 130 (''0x'' @ replicate 130 (CHR ''0''))"
    by (simp add: hex_pattern_def starts_with_def list_all_iff hex_value_def char_code_def)
  have cs: "to_checksum demo_crypto demo_address = Inr demo_address"
    using demo_address_ok by (simp add: demo_crypto_def)
  have norm: "normalize_identity demo_crypto demo_identity = Inr demo_identity"
    by (simp add: normalize_identity_def demo_identity_def cs)
  have wallet: "response_wallet_matches_identity demo_crypto demo_response demo_identity = Inr True"
    by (simp add: response_wallet_matches_identity_def demo_response_def demo_identity_def cs)
  obtain m where "signable_message demo_crypto demo_identity demo_address th oh = Inr m"
    by (simp add: signable_message_def cs)
  moreover have "key_address demo_crypto k = Inr demo_address" "sign_text demo_crypto k m = Inr (replicate 130 (CHR ''0''))"
    by (simp_all add: demo_crypto_def)
  moreover have "ts_job_id demo_task = sr_job_id demo_response" "sr_node_role demo_response = ai_role demo_identity"
    "sr_peer_id demo_response = ai_peer_id demo_identity" "ai_wallet demo_identity = demo_address"
    by (simp_all add: demo_task_def demo_response_def sample_response_def demo_identity_def)
  ultimately show ?thesis
    using hashes sig th oh norm wallet demo_address_ok
    by (simp add: sign_agent_execution_def wallet_address_from_private_key_def make_envelope_def
        valid_signature_envelope_def)
qed

lemma sign_then_verify_witness:
  "\<exists>x. sign_agent_execution demo_crypto demo_task demo_response demo_identity ''k'' = Inr x \<and>
     verify_signed_execution demo_crypto x = Inr True"
proof -
  obtain x where x: "sign_agent_execution demo_crypto demo_task demo_response demo_identity ''k'' = Inr x"
    using demo_signs by blast
  have "address_ok (ai_wallet demo_identity)" using demo_address_ok by (simp add: demo_identity_def)
  from sign_then_verify [OF demo_crypto_ok this x] x show ?thesis by blast
qed

end
