(* ===== verification/Chain_Events.thy ===== *)
theory Chain_Events
  imports Identity
begin

section \<open>Contract events of the chain (app/indexer/chain\_events.py)\<close>

text \<open>
  The five known contract events, the decoding of RPC log objects into \<open>indexed_event\<close>s and the
  poller's three requests. Not part of the repository and therefore arguments: the ABI decoder of
  eth_abi (\<open>abi\<close>: types and bytes to values), Keccak and address checksums (the record \<open>crypto\<close>)
  and the RPC transport (\<open>transport\<close>: method and parameters to a JSON answer or an exception). A run
  asks each question once, so a function of the question says what the transport answered.

  Main results: the hexadecimal block numbers the poller sends are read back exactly by the
  function that reads the node's numbers, the identifier of an event determines its transaction and
  position, and a decoded batch is the sorted list of the known logs, whatever their order.
\<close>

subsection \<open>Known events\<close>

record event_definition =
  ed_name :: string
  ed_signature :: string
  ed_arg_types :: "string list"
  ed_arg_names :: "string list"

definition event_definitions :: "event_definition list" where
  "event_definitions =
     [\<lparr>ed_name = ''TaskCreated'', ed_signature = ''TaskCreated(uint256,bytes32,string)'',
       ed_arg_types = [''uint256'', ''bytes32'', ''string''],
       ed_arg_names = [''task_id'', ''task_hash'', ''metadata_uri'']\<rparr>,
      \<lparr>ed_name = ''TaskFinalized'', ed_signature = ''TaskFinalized(uint256,bytes32)'',
       ed_arg_types = [''uint256'', ''bytes32''],
       ed_arg_names = [''task_id'', ''memo_hash'']\<rparr>,
      \<lparr>ed_name = ''ContributionRecorded'',
       ed_signature = ''ContributionRecorded(uint256,address,string,bytes32,bytes32,string)'',
       ed_arg_types = [''uint256'', ''address'', ''string'', ''bytes32'', ''bytes32'', ''string''],
       ed_arg_names = [''task_id'', ''agent'', ''role'', ''output_hash'', ''ree_receipt_hash'', ''metadata_uri'']\<rparr>,
      \<lparr>ed_name = ''VerificationRecorded'',
       ed_signature = ''VerificationRecorded(uint256,address,bytes32,uint256)'',
       ed_arg_types = [''uint256'', ''address'', ''bytes32'', ''uint256''],
       ed_arg_names = [''task_id'', ''verifier'', ''verdict_hash'', ''score'']\<rparr>,
      \<lparr>ed_name = ''ReputationRecorded'',
       ed_signature = ''ReputationRecorded(uint256,address,string,uint256,uint256,uint256,string)'',
       ed_arg_types = [''uint256'', ''address'', ''string'', ''uint256'', ''uint256'', ''uint256'', ''string''],
       ed_arg_names = [''task_id'', ''agent'', ''role'', ''score'', ''points'', ''native_test_payout_wei'',
         ''metadata_uri'']\<rparr>]"

definition topic :: "crypto \<Rightarrow> event_definition \<Rightarrow> string" where
  "topic c d = ''0x'' @ keccak_digest c (ed_signature d)"

definition events_by_topic :: "crypto \<Rightarrow> (string, event_definition) pydict" where
  "events_by_topic c = dict_of (map (\<lambda>d. (topic c d, d)) event_definitions)"

definition event_topic :: "crypto \<Rightarrow> string \<Rightarrow> string res" where
  "event_topic c name =
     (case find (\<lambda>d. ed_name d = name) event_definitions of
        Some d \<Rightarrow> Inr (topic c d)
      | None \<Rightarrow> Inl (ValueError (''Unknown event name: '' @ name)))"

subsection \<open>Indexed events\<close>

record indexed_event =
  ie_event_name :: string
  ie_contract_address :: string
  ie_block_number :: int
  ie_block_hash :: string
  ie_transaction_hash :: string
  ie_log_index :: int
  ie_args :: jobject

record indexed_block =
  ib_block_number :: int
  ib_block_hash :: string

definition event_id :: "indexed_event \<Rightarrow> string" where
  "event_id e = to_lower (ie_transaction_hash e) @ '':'' @ str_of_int (ie_log_index e)"

definition indexed_event_json :: "indexed_event \<Rightarrow> json" where
  "indexed_event_json e = JObj
     [(''event_id'', JStr (event_id e)), (''event_name'', JStr (ie_event_name e)),
      (''contract_address'', JStr (ie_contract_address e)), (''block_number'', JInt (ie_block_number e)),
      (''block_hash'', JStr (ie_block_hash e)), (''transaction_hash'', JStr (ie_transaction_hash e)),
      (''log_index'', JInt (ie_log_index e)), (''args'', JObj (ie_args e)), (''source'', JStr ''indexed_chain'')]"

text \<open>The key of \<^verbatim>\<open>sorted(events, key=lambda event: (event.block_number, event.log_index))\<close>.\<close>

definition position :: "indexed_event \<Rightarrow> int \<times> int" where
  "position e = (ie_block_number e, ie_log_index e)"

lemma event_id_inj:
  "event_id e = event_id f \<longleftrightarrow>
     to_lower (ie_transaction_hash e) = to_lower (ie_transaction_hash f) \<and> ie_log_index e = ie_log_index f"
proof
  assume eq: "event_id e = event_id f"
  have free: "CHR '':'' \<notin> set (str_of_int i)" for i
    using str_of_int_chars [of "CHR '':''" i] colon_not_digit by auto
  have "to_lower (ie_transaction_hash e) @ CHR '':'' # str_of_int (ie_log_index e) =
      to_lower (ie_transaction_hash f) @ CHR '':'' # str_of_int (ie_log_index f)"
    using eq by (simp add: event_id_def)
  from append_sep_inj [OF this free free] show
    "to_lower (ie_transaction_hash e) = to_lower (ie_transaction_hash f) \<and> ie_log_index e = ie_log_index f"
    by (auto dest: str_of_int_inj)
qed (simp add: event_id_def)

subsection \<open>Bytes and numbers on the wire\<close>

definition ascii_space :: "char \<Rightarrow> bool" where
  "ascii_space c \<longleftrightarrow> (let n = char_code c in n = 32 \<or> 9 \<le> n \<and> n \<le> 13)"

text \<open>\<^verbatim>\<open>bytes.fromhex\<close>: pairs of hexadecimal digits, white space allowed between pairs.\<close>

fun bytes_fromhex :: "string \<Rightarrow> nat list res" where
  "bytes_fromhex [] = Inr []"
| "bytes_fromhex [c] =
     (if ascii_space c then Inr [] else Inl (ValueError ''non-hexadecimal number found in fromhex() arg''))"
| "bytes_fromhex (c # d # s) =
     (if ascii_space c then bytes_fromhex (d # s)
      else (case (hex_value c, hex_value d) of
              (Some a, Some b) \<Rightarrow> res_bind (bytes_fromhex s) (\<lambda>bs. Inr ((16 * a + b) # bs))
            | _ \<Rightarrow> Inl (ValueError ''non-hexadecimal number found in fromhex() arg'')))"

definition bytes_hex :: "nat list \<Rightarrow> string" where
  "bytes_hex bs = concat (map (\<lambda>b. [hex_digit (b div 16), hex_digit (b mod 16)]) bs)"

function hex_digits_of :: "int \<Rightarrow> string" where
  "hex_digits_of n =
     (if n < 16 then [hex_digit (nat n)] else hex_digits_of (n div 16) @ [hex_digit (nat (n mod 16))])"
  by pat_completeness auto
termination
  by (relation "measure nat") auto

declare hex_digits_of.simps [simp del]

text \<open>\<^verbatim>\<open>hex(i)\<close>\<close>

definition hex_of_int :: "int \<Rightarrow> string" where
  "hex_of_int i = (if i < 0 then ''-0x'' @ hex_digits_of (- i) else ''0x'' @ hex_digits_of i)"

datatype block_ref = BlockNumber int | BlockName string

definition block_tag :: "block_ref \<Rightarrow> string" where
  "block_tag b = (case b of BlockNumber n \<Rightarrow> hex_of_int n | BlockName s \<Rightarrow> s)"

definition hex_to_int :: "json \<Rightarrow> int res" where
  "hex_to_int v =
     (case v of
        JInt i \<Rightarrow> Inr i
      | JBool b \<Rightarrow> Inr (if b then 1 else 0)
      | JStr s \<Rightarrow> if starts_with ''0x'' s then py_int_hex s
                  else Inl (ValueError ''RPC log field must be a hex string'')
      | _ \<Rightarrow> Inl (ValueError ''RPC log field must be a hex string''))"

lemma hex_value_hex_digit: "d < 16 \<Longrightarrow> hex_value (hex_digit d) = Some d"
  by (simp add: hex_value_def hex_digit_def)

lemma hex_digit_not: "d < 16 \<Longrightarrow> hex_digit d \<noteq> CHR ''_'' \<and> \<not> is_space (hex_digit d)"
proof -
  assume d: "d < 16"
  have "char_code (hex_digit d) = (if d < 10 then 48 + d else 87 + d)" using d by (simp add: hex_digit_def)
  moreover have "char_code (CHR ''_'') = 95" by (simp add: char_code_def)
  ultimately show ?thesis using d by (auto simp: is_space_def Let_def split: if_splits)
qed

lemma digits_value_snoc:
  "digits_value b us acc s = Some n \<Longrightarrow> hex_value c = Some d \<Longrightarrow> d < b \<Longrightarrow> c \<noteq> CHR ''_'' \<Longrightarrow>
     digits_value b us acc (s @ [c]) = Some (n * int b + int d)"
  by (induction s arbitrary: us acc) (auto split: if_splits option.splits)

lemma hex_digits_chars: "0 \<le> n \<Longrightarrow> c \<in> set (hex_digits_of n) \<Longrightarrow> \<exists>d < 16. c = hex_digit d"
proof (induction n arbitrary: c rule: hex_digits_of.induct)
  case (1 n)
  have m: "nat (n mod 16) < 16" by (simp add: nat_less_iff)
  show ?case
  proof (cases "n < 16")
    case True
    with 1 have "c = hex_digit (nat n)" "nat n < 16" by (simp_all add: hex_digits_of.simps [of n])
    then show ?thesis by blast
  next
    case False
    with 1(3) have "c \<in> set (hex_digits_of (n div 16)) \<or> c = hex_digit (nat (n mod 16))"
      by (auto simp: hex_digits_of.simps [of n])
    then show ?thesis using 1(1) [OF False] 1(2) m by auto
  qed
qed

lemma hex_digits_nonempty [simp]: "hex_digits_of n \<noteq> []"
  by (subst hex_digits_of.simps) simp

lemma digits_value_hex: "0 \<le> n \<Longrightarrow> digits_value 16 False 0 (hex_digits_of n) = Some n"
proof (induction n rule: hex_digits_of.induct)
  case (1 n)
  have m: "nat (n mod 16) < 16" by (simp add: nat_less_iff)
  show ?case
  proof (cases "n < 16")
    case True
    then have "nat n < 16" by simp
    then show ?thesis using True 1(2) hex_digit_not [of "nat n"]
      by (simp add: hex_digits_of.simps [of n] hex_value_hex_digit)
  next
    case False
    then have "digits_value 16 False 0 (hex_digits_of (n div 16)) = Some (n div 16)"
      using 1 by simp
    with False show ?thesis
      using digits_value_snoc [OF _ hex_value_hex_digit [OF m] m] hex_digit_not [OF m]
      by (simp add: hex_digits_of.simps [of n])
  qed
qed

lemma hex_of_int_read: "py_int_hex (hex_of_int n) = Inr n"
proof -
  have *: "strip (p @ ''0x'' @ hex_digits_of k) = p @ ''0x'' @ hex_digits_of k \<and>
      \<not> starts_with ''_'' (hex_digits_of k) \<and> digits_value 16 False 0 (hex_digits_of k) = Some k"
    if k: "0 \<le> k" and p: "p = [] \<or> p = ''-''" for k p
  proof -
    let ?h = "hex_digits_of k"
    have "last ?h \<in> set ?h" "hd ?h \<in> set ?h" by simp_all
    then have ns: "\<not> is_space (last ?h)" "hd ?h \<noteq> CHR ''_''"
      using hex_digits_chars [OF k] hex_digit_not by metis+
    have "\<not> is_space (CHR ''0'')" "\<not> is_space (CHR ''-'')" by (simp_all add: is_space_def char_code_def)
    with ns(1) p have "strip (p @ ''0x'' @ ?h) = p @ ''0x'' @ ?h"
      by (elim disjE) (simp_all add: strip_id_iff)
    moreover have "\<not> starts_with ''_'' ?h" using ns(2) by (cases ?h) (simp_all add: starts_with_def)
    ultimately show ?thesis using digits_value_hex [OF k] by simp
  qed
  show ?thesis
  proof (cases "n < 0")
    case True
    then show ?thesis using * [of "- n" "''-''"]
      by (simp add: hex_of_int_def py_int_hex_def Let_def) (simp add: starts_with_def)
  next
    case False
    then show ?thesis using * [of n "[]"]
      by (simp add: hex_of_int_def py_int_hex_def Let_def) (simp add: starts_with_def)
  qed
qed

text \<open>The numbers the poller sends are read back: \<open>_hex_to_int\<close> of a block tag is the block
  number it was made from, for every block number the scheduler can ask for.\<close>

theorem block_tag_roundtrip:
  "0 \<le> n \<Longrightarrow> hex_to_int (JStr (block_tag (BlockNumber n))) = Inr n"
  using hex_of_int_read [of n] by (simp add: hex_to_int_def block_tag_def hex_of_int_def starts_with_def)

lemma block_tag_roundtrip_witness: "hex_to_int (JStr (block_tag (BlockNumber 7401235))) = Inr 7401235"
  by (rule block_tag_roundtrip) simp

subsection \<open>Decoding logs\<close>

datatype abi_value = AbiBytes "nat list" | AbiText string | AbiInt int

type_synonym abi_decoder = "string list \<Rightarrow> nat list \<Rightarrow> abi_value list res"

definition normalize_value :: "crypto \<Rightarrow> abi_value \<Rightarrow> json res" where
  "normalize_value c v =
     (case v of
        AbiBytes bs \<Rightarrow> Inr (JStr (''0x'' @ bytes_hex bs))
      | AbiText s \<Rightarrow> if starts_with ''0x'' s \<and> length s = 42
                     then res_bind (to_checksum c s) (\<lambda>a. Inr (JStr a)) else Inr (JStr s)
      | AbiInt i \<Rightarrow> Inr (JInt i))"

definition named_args :: "crypto \<Rightarrow> string list \<Rightarrow> abi_value list \<Rightarrow> jobject res" where
  "named_args c names values =
     res_bind (map_res (\<lambda>(n, v). res_bind (normalize_value c v) (\<lambda>w. Inr (n, w))) (zip names values)) (\<lambda>ps.
       if length names \<noteq> length values then Inl (ValueError ''zip() arguments have different lengths'')
       else Inr (dict_of ps))"

definition log_field :: "jobject \<Rightarrow> string \<Rightarrow> json res" where
  "log_field d k = (case dget d k of None \<Rightarrow> Inl (KeyError k) | Some v \<Rightarrow> Inr v)"

definition log_definition :: "crypto \<Rightarrow> jobject \<Rightarrow> event_definition option" where
  "log_definition c entry =
     (case dget entry ''topics'' of
        Some (JList (t # _)) \<Rightarrow> dget (events_by_topic c) (py_str t)
      | _ \<Rightarrow> None)"

definition decode_log :: "crypto \<Rightarrow> abi_decoder \<Rightarrow> jobject \<Rightarrow> indexed_event option res" where
  "decode_log c abi entry =
     (case log_definition c entry of
        None \<Rightarrow> Inr None
      | Some d \<Rightarrow>
          let raw = (case dget entry ''data'' of None \<Rightarrow> ''0x'' | Some v \<Rightarrow> py_str v) in
          res_bind (bytes_fromhex (remove_prefix ''0x'' raw)) (\<lambda>bs.
          res_bind (abi (ed_arg_types d) bs) (\<lambda>values.
          res_bind (named_args c (ed_arg_names d) values) (\<lambda>args.
          res_bind (log_field entry ''address'') (\<lambda>a.
          res_bind (to_checksum c (py_str a)) (\<lambda>address.
          res_bind (res_bind (log_field entry ''blockNumber'') hex_to_int) (\<lambda>block.
          res_bind (log_field entry ''transactionHash'') (\<lambda>tx.
          res_bind (res_bind (log_field entry ''logIndex'') hex_to_int) (\<lambda>idx.
            Inr (Some
              \<lparr>ie_event_name = ed_name d, ie_contract_address = address, ie_block_number = block,
               ie_block_hash = str_get entry ''blockHash'', ie_transaction_hash = py_str tx,
               ie_log_index = idx, ie_args = args\<rparr>))))))))))"

definition some_values :: "'a option list \<Rightarrow> 'a list" where
  "some_values xs = map the (filter (\<lambda>x. x \<noteq> None) xs)"

definition decode_logs :: "crypto \<Rightarrow> abi_decoder \<Rightarrow> jobject list \<Rightarrow> indexed_event list res" where
  "decode_logs c abi logs =
     res_bind (map_res (decode_log c abi) logs) (\<lambda>evs. Inr (sort_key position (some_values evs)))"

lemma decode_logs_sorted: "decode_logs c abi logs = Inr evs \<Longrightarrow> sorted (map position evs)"
  by (auto simp: decode_logs_def res_simps)

text \<open>What the RPC node reports of an event: the object whose fields \<open>decode_log\<close> reads.\<close>

definition emitted_log ::
    "crypto \<Rightarrow> event_definition \<Rightarrow> string \<Rightarrow> int \<Rightarrow> string \<Rightarrow> string \<Rightarrow> int \<Rightarrow> nat list \<Rightarrow> jobject" where
  "emitted_log c d address block block_hash tx idx bs =
     [(''address'', JStr address), (''topics'', JList [JStr (topic c d)]),
      (''data'', JStr (''0x'' @ bytes_hex bs)), (''blockNumber'', JStr (hex_of_int block)),
      (''blockHash'', JStr block_hash), (''transactionHash'', JStr tx), (''logIndex'', JStr (hex_of_int idx))]"

lemma hex_digit_no_space: "d < 16 \<Longrightarrow> \<not> ascii_space (hex_digit d)"
  using hex_digit_not [of d] by (auto simp: is_space_def ascii_space_def Let_def)

lemma bytes_hex_read: "list_all (\<lambda>b. b < 256) bs \<Longrightarrow> bytes_fromhex (bytes_hex bs) = Inr bs"
proof (induction bs)
  case (Cons b bs)
  then have "b div 16 < 16" "b mod 16 < 16" by auto
  with Cons show ?case
    by (simp add: bytes_hex_def hex_digit_no_space hex_value_hex_digit)
qed (simp add: bytes_hex_def)

lemma hex_to_int_hex: "0 \<le> n \<Longrightarrow> hex_to_int (JStr (hex_of_int n)) = Inr n"
  using hex_of_int_read [of n] by (simp add: hex_to_int_def hex_of_int_def starts_with_def)

lemma event_names_distinct: "d \<in> set event_definitions \<Longrightarrow> distinct (ed_arg_names d)"
  by (auto simp: event_definitions_def)

lemma topic_lookup:
  assumes "inj_on (topic c) (set event_definitions)" "d \<in> set event_definitions"
  shows "dget (events_by_topic c) (topic c d) = Some d"
proof -
  let ?ps = "map (\<lambda>d. (topic c d, d)) event_definitions"
  have "distinct event_definitions" by (simp add: event_definitions_def)
  then have "distinct (map fst (rev ?ps))" using assms(1) by (simp add: distinct_map comp_def rev_map [symmetric])
  then show ?thesis using assms(2) unfolding events_by_topic_def dget_dict_of
    by (simp add: map_of_eq_Some_iff)
qed

lemma named_args_values:
  assumes "map_res (normalize_value c) values = Inr ws" "length names = length values"
  shows "named_args c names values = Inr (dict_of (zip names ws))"
proof -
  have "list_all2 (\<lambda>v w. normalize_value c v = Inr w) values ws" using assms(1) by (simp add: map_res_Inr_iff)
  then have "map_res (\<lambda>(n, v). res_bind (normalize_value c v) (\<lambda>w. Inr (n, w))) (zip names values) = Inr (zip names ws)"
    using assms(2) unfolding map_res_Inr_iff by (auto simp: list_all2_conv_all_nth)
  then show ?thesis using assms(2) by (simp add: named_args_def)
qed

lemma decode_emitted:
  assumes "inj_on (topic c) (set event_definitions)" "d \<in> set event_definitions"
    and "list_all (\<lambda>b. b < 256) bs" "0 \<le> block" "0 \<le> idx"
    and "abi (ed_arg_types d) bs = Inr values" "length values = length (ed_arg_names d)"
    and "map_res (normalize_value c) values = Inr ws" "to_checksum c address = Inr a"
  shows "decode_log c abi (emitted_log c d address block bh tx idx bs) = Inr (Some
     \<lparr>ie_event_name = ed_name d, ie_contract_address = a, ie_block_number = block, ie_block_hash = bh,
      ie_transaction_hash = tx, ie_log_index = idx, ie_args = dict_of (zip (ed_arg_names d) ws)\<rparr>)"
proof -
  have def: "log_definition c (emitted_log c d address block bh tx idx bs) = Some d"
    by (simp add: log_definition_def emitted_log_def topic_lookup [OF assms(1,2)])
  have args: "named_args c (ed_arg_names d) values = Inr (dict_of (zip (ed_arg_names d) ws))"
    by (rule named_args_values) (simp_all add: assms)
  show ?thesis
    unfolding decode_log_def def
    by (simp add: emitted_log_def log_field_def str_get_def remove_prefix_def starts_with_def bytes_hex_read
        assms hex_to_int_hex args)
qed

text \<open>C13: A log the node reports for one of the five events is decoded to that event: its name, its
  position, its transaction and every argument under its declared name, with the numbers and the
  payload read back from their hexadecimal text. Here the five topics are distinct, the payload is a
  byte string, and the ABI decoder returns one value per declared type.\<close>

theorem emitted_log_decodes:
  assumes "inj_on (topic c) (set event_definitions)" "d \<in> set event_definitions"
    and "list_all (\<lambda>b. b < 256) bs" "0 \<le> block" "0 \<le> idx"
    and "abi (ed_arg_types d) bs = Inr values" "length values = length (ed_arg_names d)"
    and "map_res (normalize_value c) values = Inr ws" "to_checksum c address = Inr a"
  shows "\<exists>e. decode_log c abi (emitted_log c d address block bh tx idx bs) = Inr (Some e) \<and>
     ie_event_name e = ed_name d \<and> position e = (block, idx) \<and> ie_block_hash e = bh \<and>
     ie_transaction_hash e = tx \<and> ie_contract_address e = a \<and>
     map (dget (ie_args e)) (ed_arg_names d) = map Some ws"
proof -
  have len: "length ws = length (ed_arg_names d)" using map_res_length [OF assms(8)] assms(7) by simp
  have "map_of (rev (zip (ed_arg_names d) ws)) = map_of (zip (ed_arg_names d) ws)"
    by (rule map_of_inject_set [THEN iffD2])
      (use event_names_distinct [OF assms(2)] len in \<open>simp_all add: rev_map [symmetric]\<close>)
  then have "map (dget (dict_of (zip (ed_arg_names d) ws))) (ed_arg_names d) = map Some ws"
    using event_names_distinct [OF assms(2)] len
    by (intro nth_equalityI) (simp_all add: dget_dict_of map_of_zip_nth)
  then show ?thesis using decode_emitted [where abi = abi, OF assms, of bh tx] by (simp add: position_def)
qed

subsection \<open>The poller\<close>

type_synonym transport = "string \<Rightarrow> json list \<Rightarrow> json res"

record poller =
  po_transport :: transport
  po_crypto :: crypto
  po_abi :: abi_decoder
  po_addresses :: "string list"

definition make_poller :: "transport \<Rightarrow> crypto \<Rightarrow> abi_decoder \<Rightarrow> string list \<Rightarrow> poller res" where
  "make_poller t c abi addresses =
     res_bind (map_res (to_checksum c) addresses) (\<lambda>as.
       Inr \<lparr>po_transport = t, po_crypto = c, po_abi = abi, po_addresses = as\<rparr>)"

definition logs_request :: "poller \<Rightarrow> block_ref \<Rightarrow> block_ref \<Rightarrow> string \<Rightarrow> json" where
  "logs_request p from_block to_block address =
     JObj [(''address'', JStr address), (''fromBlock'', JStr (block_tag from_block)),
           (''toBlock'', JStr (block_tag to_block)),
           (''topics'', JList [str_list (map (topic (po_crypto p)) event_definitions)])]"

definition objects_in :: "json \<Rightarrow> jobject list" where
  "objects_in v = (case v of JList xs \<Rightarrow> some_values (map (\<lambda>x. case x of JObj d \<Rightarrow> Some d | _ \<Rightarrow> None) xs) | _ \<Rightarrow> [])"

definition poll :: "poller \<Rightarrow> block_ref \<Rightarrow> block_ref \<Rightarrow> indexed_event list res" where
  "poll p from_block to_block =
     res_bind (map_res (\<lambda>a. po_transport p ''eth_getLogs'' [logs_request p from_block to_block a]) (po_addresses p))
       (\<lambda>answers. decode_logs (po_crypto p) (po_abi p) (concat (map objects_in answers)))"

definition latest_block_number :: "poller \<Rightarrow> int res" where
  "latest_block_number p = res_bind (po_transport p ''eth_blockNumber'' []) hex_to_int"

definition block_header :: "poller \<Rightarrow> int \<Rightarrow> indexed_block res" where
  "block_header p n =
     res_bind (po_transport p ''eth_getBlockByNumber'' [JStr (hex_of_int n), JBool False]) (\<lambda>v.
       case v of
         JObj d \<Rightarrow>
           (case dget d ''hash'' of
              Some (JStr h) \<Rightarrow>
                if starts_with ''0x'' h then Inr \<lparr>ib_block_number = n, ib_block_hash = h\<rparr>
                else Inl (RuntimeError ''Gensyn Testnet RPC returned invalid block hash'')
            | _ \<Rightarrow> Inl (RuntimeError ''Gensyn Testnet RPC returned invalid block hash''))
       | _ \<Rightarrow> Inl (RuntimeError ''Gensyn Testnet RPC returned invalid block header''))"

definition block_headers :: "poller \<Rightarrow> int \<Rightarrow> int \<Rightarrow> indexed_block list res" where
  "block_headers p from_block to_block = map_res (block_header p) [from_block..to_block]"

lemma poll_sorted: "poll p f t = Inr evs \<Longrightarrow> sorted (map position evs)"
  by (auto simp: poll_def res_simps dest: decode_logs_sorted)

lemma block_header_number: "block_header p n = Inr b \<Longrightarrow> ib_block_number b = n"
  unfolding block_header_def
  by (cases "po_transport p ''eth_getBlockByNumber'' [JStr (hex_of_int n), JBool False]")
    (auto split: json.split_asm option.split_asm if_split_asm)

lemma block_headers_numbers: "block_headers p f t = Inr hs \<Longrightarrow> map ib_block_number hs = [f..t]"
  unfolding block_headers_def map_res_Inr_iff
  by (induction rule: list_all2_induct) (auto dest: block_header_number)

subsection \<open>A concrete chain to instantiate the parameters\<close>

definition demo_chain_crypto :: crypto where
  "demo_chain_crypto = demo_crypto\<lparr>keccak_digest := (\<lambda>s. s)\<rparr>"

lemma demo_topics: "inj_on (topic demo_chain_crypto) (set event_definitions)"
  by (simp add: inj_on_def topic_def demo_chain_crypto_def event_definitions_def)

lemma demo_checksum: "to_checksum demo_chain_crypto demo_address = Inr demo_address"
  using demo_address_ok by (simp add: demo_chain_crypto_def demo_crypto_def)

lemma demo_payload: "bytes_hex [171, 205] = ''abcd''"
  by code_simp

lemma emitted_log_decodes_witness:
  "\<exists>e. decode_log demo_chain_crypto (\<lambda>_ _. Inr [AbiInt 7, AbiBytes [171, 205]])
       (emitted_log demo_chain_crypto (event_definitions ! 1) demo_address 60 ''0xb'' ''0xAA'' 3 [0, 255]) =
       Inr (Some e) \<and>
     ie_event_name e = ''TaskFinalized'' \<and> position e = (60, 3) \<and> ie_block_hash e = ''0xb'' \<and>
     ie_transaction_hash e = ''0xAA'' \<and> ie_contract_address e = demo_address \<and>
     map (dget (ie_args e)) [''task_id'', ''memo_hash''] = map Some [JInt 7, JStr ''0xabcd'']"
  using emitted_log_decodes [OF demo_topics, of "event_definitions ! 1" "[0, 255]" 60 3
      "\<lambda>_ _. Inr [AbiInt 7, AbiBytes [171, 205]]" "[AbiInt 7, AbiBytes [171, 205]]"
      "[JInt 7, JStr ''0xabcd'']" demo_address demo_address "''0xb''" "''0xAA''"] demo_checksum
  by (simp add: event_definitions_def normalize_value_def demo_payload)

end
