(* ===== verification/Reputation.thy ===== *)
theory Reputation
  imports Contracts
begin

section \<open>Reputation points (app/evaluation/reputation.py)\<close>

text \<open>
  \<open>build_reputation_updates\<close> turns each attestation into one update; only an accepted attestation
  whose signer is the agent's wallet earns points. \<open>build_reputation_leaderboard\<close> folds updates, given
  as records or as the dictionaries that the store returns, into one entry per role and peer, in
  binary64 with a rounding to six decimals after each addition, and sorts the entries.

  A dictionary that holds an infinite or undefined number is outside the model
  (\<open>finite_number\<close>); the writer of those rows produces finite numbers only. The main result is that
  the roundings never accumulate: as long as the totals stay below a thousand million points, an
  entry is the exact decimal sum, so that the leaderboard does not depend on the order of the updates.
\<close>

subsection \<open>Records\<close>

record reputation_update =
  ru_job_id :: string
  ru_node_role :: string
  ru_peer_id :: string
  ru_agent_wallet :: "string option"
  ru_verifier_status :: string
  ru_verifier_score :: float64
  ru_credit_eligible :: bool
  ru_reputation_points :: float64
  ru_reason :: string

record ledger_entry =
  le_node_role :: string
  le_peer_id :: string
  le_reputation_points :: float64
  le_accepted_contributions :: int
  le_rejected_contributions :: int
  le_total_verifier_score :: float64

definition reputation_update_fields :: "reputation_update \<Rightarrow> jobject" where
  "reputation_update_fields u =
     [(''job_id'', JStr (ru_job_id u)), (''node_role'', JStr (ru_node_role u)),
      (''peer_id'', JStr (ru_peer_id u)), (''agent_wallet'', opt_str (ru_agent_wallet u)),
      (''verifier_status'', JStr (ru_verifier_status u)), (''verifier_score'', num (ru_verifier_score u)),
      (''credit_eligible'', JBool (ru_credit_eligible u)),
      (''reputation_points'', num (ru_reputation_points u)), (''reason'', JStr (ru_reason u))]"

definition ledger_entry_json :: "ledger_entry \<Rightarrow> json" where
  "ledger_entry_json e = JObj
     [(''node_role'', JStr (le_node_role e)), (''peer_id'', JStr (le_peer_id e)),
      (''reputation_points'', num (le_reputation_points e)),
      (''accepted_contributions'', JInt (le_accepted_contributions e)),
      (''rejected_contributions'', JInt (le_rejected_contributions e)),
      (''total_verifier_score'', num (le_total_verifier_score e))]"

subsection \<open>Updates\<close>

definition filled :: "string option \<Rightarrow> bool" where
  "filled s \<longleftrightarrow> (case s of None \<Rightarrow> False | Some t \<Rightarrow> t \<noteq> [])"

definition lower_opt :: "string option \<Rightarrow> string" where
  "lower_opt s = (case s of None \<Rightarrow> [] | Some t \<Rightarrow> to_lower t)"

definition credit_eligible :: "verification_attestation \<Rightarrow> bool" where
  "credit_eligible a \<longleftrightarrow>
     va_status a = ''accepted'' \<and> filled (va_signer a) \<and> filled (va_agent_wallet a) \<and>
     filled (va_output_hash a) \<and> lower_opt (va_signer a) = lower_opt (va_agent_wallet a)"

definition points_for_attestation :: "verification_attestation \<Rightarrow> bool \<Rightarrow> float64" where
  "points_for_attestation a eligible =
     (if \<not> eligible then 0 else py_round 6 (fmul (va_score a) 100))"

definition reason_for_attestation :: "verification_attestation \<Rightarrow> bool \<Rightarrow> string" where
  "reason_for_attestation a eligible =
     (if eligible then ''verifier_score_credit''
      else if va_status a \<noteq> ''accepted'' then ''no_credit_for_rejected_verifier_status''
      else if filled (va_signer a) \<and> filled (va_agent_wallet a) \<and>
              lower_opt (va_signer a) \<noteq> lower_opt (va_agent_wallet a)
        then ''no_credit_for_signer_wallet_mismatch''
      else ''no_credit_without_verified_execution_signer'')"

definition reputation_update_of :: "verification_attestation \<Rightarrow> reputation_update" where
  "reputation_update_of a =
     (let eligible = credit_eligible a in
      \<lparr>ru_job_id = va_job_id a, ru_node_role = va_node_role a, ru_peer_id = va_peer_id a,
       ru_agent_wallet = va_agent_wallet a, ru_verifier_status = va_status a,
       ru_verifier_score = (if eligible then py_round 6 (va_score a) else 0),
       ru_credit_eligible = eligible, ru_reputation_points = points_for_attestation a eligible,
       ru_reason = reason_for_attestation a eligible\<rparr>)"

definition build_reputation_updates :: "verification_attestation list \<Rightarrow> reputation_update list" where
  "build_reputation_updates atts = map reputation_update_of atts"

subsection \<open>Leaderboard\<close>

definition finite_number :: "json \<Rightarrow> float64 res" where
  "finite_number v =
     res_bind (py_float_of v) (\<lambda>f. case f of Fin x \<Rightarrow> Inr x | _ \<Rightarrow> Inl (OtherError ''not a finite number''))"

definition required :: "jobject \<Rightarrow> string \<Rightarrow> json res" where
  "required d k = (case dget d k of None \<Rightarrow> Inl (KeyError k) | Some v \<Rightarrow> Inr v)"

definition coerce_update :: "jobject \<Rightarrow> reputation_update res" where
  "coerce_update d =
     res_bind (required d ''job_id'') (\<lambda>job.
     res_bind (required d ''node_role'') (\<lambda>role.
     res_bind (required d ''peer_id'') (\<lambda>peer.
     let wallet = (if truthy (jget d ''agent_wallet'') then Some (py_str (jget d ''agent_wallet'')) else None) in
     res_bind (required d ''verifier_status'') (\<lambda>status.
     res_bind (res_bind (required d ''verifier_score'') finite_number) (\<lambda>score.
     let eligible = truthy (jget d ''credit_eligible'') in
     res_bind (res_bind (required d ''reputation_points'') finite_number) (\<lambda>points.
     res_bind (required d ''reason'') (\<lambda>reason.
       Inr \<lparr>ru_job_id = py_str job, ru_node_role = py_str role, ru_peer_id = py_str peer,
            ru_agent_wallet = wallet, ru_verifier_status = py_str status, ru_verifier_score = score,
            ru_credit_eligible = eligible, ru_reputation_points = points, ru_reason = py_str reason\<rparr>)))))))"

definition new_entry :: "string \<times> string \<Rightarrow> ledger_entry" where
  "new_entry key = \<lparr>le_node_role = fst key, le_peer_id = snd key, le_reputation_points = 0,
     le_accepted_contributions = 0, le_rejected_contributions = 0, le_total_verifier_score = 0\<rparr>"

definition add_update :: "ledger_entry \<Rightarrow> reputation_update \<Rightarrow> ledger_entry" where
  "add_update e u =
     (let e1 = e\<lparr>le_reputation_points := py_round 6 (fadd (le_reputation_points e) (ru_reputation_points u))\<rparr> in
      if ru_verifier_status u = ''accepted''
        then e1\<lparr>le_accepted_contributions := le_accepted_contributions e1 + 1,
                le_total_verifier_score := py_round 6 (fadd (le_total_verifier_score e1) (ru_verifier_score u))\<rparr>
      else if ru_verifier_status u = ''rejected''
        then e1\<lparr>le_rejected_contributions := le_rejected_contributions e1 + 1\<rparr>
      else e1)"

type_synonym aggregates = "(string \<times> string, ledger_entry) pydict"

definition update_key :: "reputation_update \<Rightarrow> string \<times> string" where
  "update_key u = (ru_node_role u, ru_peer_id u)"

definition counts :: "reputation_update \<Rightarrow> bool" where
  "counts u \<longleftrightarrow> \<not> (ru_verifier_status u = ''accepted'' \<and> \<not> ru_credit_eligible u)"

definition aggregate_update :: "aggregates \<Rightarrow> reputation_update \<Rightarrow> aggregates" where
  "aggregate_update d u =
     (if \<not> counts u then d
      else dset d (update_key u) (add_update (dget_or d (update_key u) (new_entry (update_key u))) u))"

definition entry_key :: "ledger_entry \<Rightarrow> float64 \<times> string \<times> string" where
  "entry_key e = (- le_reputation_points e, le_node_role e, le_peer_id e)"

definition leaderboard_of :: "reputation_update list \<Rightarrow> ledger_entry list" where
  "leaderboard_of us = sort_key entry_key (map snd (foldl aggregate_update [] us))"

datatype raw_update = UpdateRecord reputation_update | UpdateDict jobject

definition coerce_raw :: "raw_update \<Rightarrow> reputation_update res" where
  "coerce_raw r = (case r of UpdateRecord u \<Rightarrow> Inr u | UpdateDict d \<Rightarrow> coerce_update d)"

definition build_reputation_leaderboard :: "raw_update list \<Rightarrow> ledger_entry list res" where
  "build_reputation_leaderboard raws = res_bind (map_res coerce_raw raws) (\<lambda>us. Inr (leaderboard_of us))"

subsection \<open>Decimal sums in binary64\<close>

definition micros :: "int \<Rightarrow> float64" where "micros k = fl (of_int k / 10 ^ 6)"

lemma round_even_near: "\<bar>x - of_int k\<bar> < 1/2 \<Longrightarrow> round_even x = k"
proof -
  assume a: "\<bar>x - of_int k\<bar> < 1/2"
  have "\<bar>of_int (round_even x) - x\<bar> \<le> 1/2" by (rule round_even_error)
  with a have "\<bar>of_int (round_even x) - of_int k\<bar> < (1 :: rat)" by linarith
  then have "\<bar>of_int (round_even x - k)\<bar> < (1 :: rat)" by simp
  then show ?thesis by linarith
qed

lemma micros_0 [simp]: "micros 0 = 0"
  by (simp add: micros_def)

lemma py_round_is_micros: "\<exists>k. py_round 6 x = micros k"
  by (auto simp: py_round_def micros_def)

lemma abs_sum_less: "\<bar>x - p\<bar> \<le> e \<Longrightarrow> \<bar>y - q\<bar> \<le> e \<Longrightarrow> \<bar>p + q\<bar> \<le> m \<Longrightarrow> m + 2 * e < n \<Longrightarrow> \<bar>x + y\<bar> < (n :: rat)"
  by linarith

lemma abs_sum_error: "\<bar>x - p\<bar> \<le> e \<Longrightarrow> \<bar>y - q\<bar> \<le> e \<Longrightarrow> \<bar>z - (x + y)\<bar> \<le> e \<Longrightarrow> \<bar>z - (p + q)\<bar> \<le> (3 * e :: rat)"
  by linarith

lemma abs_scale_error: "\<bar>z - k / 10 ^ 6\<bar> \<le> e \<Longrightarrow> \<bar>z * 10 ^ 6 - k\<bar> \<le> (e :: rat) * 10 ^ 6"
proof -
  assume a: "\<bar>z - k / 10 ^ 6\<bar> \<le> e"
  have "z * 10 ^ 6 - k = (z - k / 10 ^ 6) * 10 ^ 6" by (simp add: left_diff_distrib)
  then have "\<bar>z * 10 ^ 6 - k\<bar> = \<bar>z - k / 10 ^ 6\<bar> * 10 ^ 6" by (simp only: abs_mult) simp
  with a show ?thesis by simp
qed

lemma micros_add:
  assumes "\<bar>a\<bar> \<le> 10 ^ 15" "\<bar>b\<bar> \<le> 10 ^ 15" "\<bar>a + b\<bar> \<le> 10 ^ 15"
  shows "py_round 6 (fadd (micros a) (micros b)) = micros (a + b)"
proof -
  let ?q = "\<lambda>k. of_int k / 10 ^ 6 :: rat"
  have small: "\<bar>?q k\<bar> \<le> 10 ^ 9" if "\<bar>k\<bar> \<le> 10 ^ 15" for k
  proof -
    have "\<bar>of_int k\<bar> \<le> (10 ^ 15 :: rat)" using that by (metis of_int_abs of_int_le_iff of_int_numeral of_int_power)
    then show ?thesis by (simp add: abs_divide divide_le_eq)
  qed
  have ea: "\<bar>micros a - ?q a\<bar> \<le> 1 / 2 ^ 24" and eb: "\<bar>micros b - ?q b\<bar> \<le> 1 / 2 ^ 24"
    unfolding micros_def using small [OF assms(1)] small [OF assms(2)]
    by (intro fl_error_small, simp)+
  have q: "?q (a + b) = ?q a + ?q b" by (simp add: add_divide_distrib)
  have "\<bar>micros a + micros b\<bar> < 2 ^ 30"
    by (rule abs_sum_less [OF ea eb, of "10 ^ 9"]) (use small [OF assms(3)] q in simp_all)
  then have "\<bar>fadd (micros a) (micros b) - (micros a + micros b)\<bar> \<le> 1 / 2 ^ 24"
    unfolding fadd_def by (rule fl_error_small)
  then have "\<bar>fadd (micros a) (micros b) - ?q (a + b)\<bar> \<le> 3 * (1 / 2 ^ 24)"
    unfolding q by (rule abs_sum_error [OF ea eb])
  then have "\<bar>fadd (micros a) (micros b) * 10 ^ 6 - of_int (a + b)\<bar> \<le> 3 * (1 / 2 ^ 24) * 10 ^ 6"
    by (rule abs_scale_error)
  then have "round_even (fadd (micros a) (micros b) * 10 ^ 6) = a + b" 
    by (intro round_even_near) simp
  then show ?thesis by (simp add: py_round_def micros_def)
qed

subsection \<open>Entries are exact sums\<close>

definition decimal_update :: "(reputation_update \<Rightarrow> int) \<Rightarrow> (reputation_update \<Rightarrow> int) \<Rightarrow> reputation_update \<Rightarrow> bool" where
  "decimal_update pts scs u \<longleftrightarrow> ru_reputation_points u = micros (pts u) \<and> ru_verifier_score u = micros (scs u) \<and>
     0 \<le> pts u \<and> 0 \<le> scs u"

definition exact_entry ::
    "(reputation_update \<Rightarrow> int) \<Rightarrow> (reputation_update \<Rightarrow> int) \<Rightarrow> string \<times> string \<Rightarrow> reputation_update list \<Rightarrow> ledger_entry" where
  "exact_entry pts scs key us =
     (let mine = filter (\<lambda>u. counts u \<and> update_key u = key) us in
      \<lparr>le_node_role = fst key, le_peer_id = snd key,
       le_reputation_points = micros (sum_list (map pts mine)),
       le_accepted_contributions = int (length (filter (\<lambda>u. ru_verifier_status u = ''accepted'') mine)),
       le_rejected_contributions = int (length (filter (\<lambda>u. ru_verifier_status u = ''rejected'') mine)),
       le_total_verifier_score =
         micros (sum_list (map scs (filter (\<lambda>u. ru_verifier_status u = ''accepted'') mine)))\<rparr>)"

definition total_micros :: "(reputation_update \<Rightarrow> int) \<Rightarrow> reputation_update list \<Rightarrow> int" where
  "total_micros f us = sum_list (map f us)"

lemma sum_list_filter_bounds:
  "\<forall>u \<in> set us. 0 \<le> (f u :: int) \<Longrightarrow>
     0 \<le> sum_list (map f (filter P us)) \<and> sum_list (map f (filter P us)) \<le> sum_list (map f us)"
  by (induction us) auto

lemma exact_entry_Nil [simp]: "exact_entry pts scs key [] = new_entry key"
  by (simp add: exact_entry_def new_entry_def)

lemma exact_entry_other [simp]:
  "\<not> (counts u \<and> update_key u = key) \<Longrightarrow> exact_entry pts scs key (us @ [u]) = exact_entry pts scs key us"
  by (auto simp: exact_entry_def)

lemma exact_entry_snoc:
  assumes dec: "\<forall>v \<in> set (us @ [u]). decimal_update pts scs v"
    and small: "total_micros pts (us @ [u]) \<le> 10 ^ 15" "total_micros scs (us @ [u]) \<le> 10 ^ 15"
    and u: "counts u" "update_key u = key"
  shows "add_update (exact_entry pts scs key us) u = exact_entry pts scs key (us @ [u])"
proof -
  let ?m = "filter (\<lambda>u. counts u \<and> update_key u = key) us"
  let ?acc = "\<lambda>u. ru_verifier_status u = ''accepted''"
  let ?a = "filter (\<lambda>u. (counts u \<and> update_key u = key) \<and> ?acc u) us"
  have bounds: "0 \<le> sum_list (map pts ?m)" "sum_list (map pts ?m) \<le> sum_list (map pts us)"
      "0 \<le> sum_list (map scs ?a)" "sum_list (map scs ?a) \<le> sum_list (map scs us)"
      "0 \<le> pts u" "0 \<le> scs u" "0 \<le> sum_list (map pts us)" "0 \<le> sum_list (map scs us)"
    using sum_list_filter_bounds [of us pts] sum_list_filter_bounds [of us scs] dec
    by (auto simp: decimal_update_def intro!: sum_list_nonneg)
  have "py_round 6 (fadd (micros (sum_list (map pts ?m))) (micros (pts u))) = micros (sum_list (map pts ?m) + pts u)"
    using bounds small by (intro micros_add) (auto simp: total_micros_def)
  moreover have "py_round 6 (fadd (micros (sum_list (map scs ?a))) (micros (scs u))) = micros (sum_list (map scs ?a) + scs u)"
    using bounds small by (intro micros_add) (auto simp: total_micros_def)
  moreover have "ru_reputation_points u = micros (pts u)" "ru_verifier_score u = micros (scs u)"
    using dec by (auto simp: decimal_update_def)
  ultimately show ?thesis
    using u by (auto simp: add_update_def exact_entry_def Let_def conj_commute conj_left_commute)
qed

lemma aggregate_update_simps:
  "\<not> counts u \<Longrightarrow> aggregate_update d u = d"
  "counts u \<Longrightarrow> aggregate_update d u =
     dset d (update_key u) (add_update (dget_or d (update_key u) (new_entry (update_key u))) u)"
  by (simp_all add: aggregate_update_def)

lemma aggregates_exact:
  assumes "\<forall>u \<in> set us. decimal_update pts scs u"
    and "total_micros pts us \<le> 10 ^ 15" "total_micros scs us \<le> 10 ^ 15"
  shows "(\<forall>key. dget (foldl aggregate_update [] us) key =
      (if \<exists>u \<in> set us. counts u \<and> update_key u = key then Some (exact_entry pts scs key us) else None)) \<and>
    distinct (dkeys (foldl aggregate_update [] us))"
  using assms
proof (induction us rule: rev_induct)
  case (snoc u us)
  have nonneg: "0 \<le> pts u" "0 \<le> scs u" using snoc.prems(1) by (auto simp: decimal_update_def)
  then have small: "total_micros pts us \<le> 10 ^ 15" "total_micros scs us \<le> 10 ^ 15"
    using snoc.prems by (auto simp: total_micros_def)
  have dec: "\<forall>v \<in> set us. decimal_update pts scs v" using snoc.prems(1) by simp
  note both = snoc.IH [OF dec small]
  have IH: "dget (foldl aggregate_update [] us) key =
      (if \<exists>u \<in> set us. counts u \<and> update_key u = key then Some (exact_entry pts scs key us) else None)" for key
    by (rule spec [OF conjunct1 [OF both]])
  have d: "distinct (dkeys (foldl aggregate_update [] us))" by (rule conjunct2 [OF both])
  have same: "exact_entry pts scs key us = new_entry key" if "\<not> (\<exists>u \<in> set us. counts u \<and> update_key u = key)" for key
  proof -
    have "filter (\<lambda>u. counts u \<and> update_key u = key) us = []" using that by (auto simp: filter_empty_conv)
    then show ?thesis by (simp add: exact_entry_def new_entry_def)
  qed
  have get: "dget_or (foldl aggregate_update [] us) key (new_entry key) = exact_entry pts scs key us" for key
    using IH [of key] same [of key] by (simp add: dget_or_def)
  show ?case
  proof (cases "counts u")
    case False
    then show ?thesis using IH d by (simp add: aggregate_update_simps del: split_paired_All)
  next
    case True
    have "add_update (exact_entry pts scs (update_key u) us) u = exact_entry pts scs (update_key u) (us @ [u])"
      using snoc.prems True by (intro exact_entry_snoc) auto
    then show ?thesis
      using IH d True get by (auto simp: aggregate_update_simps intro: distinct_dset simp del: split_paired_All)
  qed
qed (simp add: total_micros_def)

lemma exact_entry_perm:
  assumes "mset us = mset us'"
  shows "exact_entry pts scs key us = exact_entry pts scs key us'"
proof -
  have f: "mset (filter P us) = mset (filter P us')" for P using assms by simp
  have s: "sum_list (map g (filter P us)) = sum_list (map g (filter P us'))" for P and g :: "reputation_update \<Rightarrow> int"
    using f [of P] by (metis mset_map sum_mset_sum_list)
  have l: "length (filter P us) = length (filter P us')" for P
    using f [of P] by (metis size_mset)
  show ?thesis by (simp add: exact_entry_def Let_def s l)
qed

definition counted_keys :: "reputation_update list \<Rightarrow> (string \<times> string) set" where
  "counted_keys us = update_key ` {u \<in> set us. counts u}"

lemma exact_entry_key: "(le_node_role (exact_entry pts scs key us), le_peer_id (exact_entry pts scs key us)) = key"
  by (simp add: exact_entry_def Let_def)

definition within_limit :: "(reputation_update \<Rightarrow> int) \<Rightarrow> (reputation_update \<Rightarrow> int) \<Rightarrow> reputation_update list \<Rightarrow> bool" where
  "within_limit pts scs us \<longleftrightarrow>
     list_all (decimal_update pts scs) us \<and>
     total_micros pts us \<le> 10 ^ 15 \<and> total_micros scs us \<le> 10 ^ 15"

lemma aggregates_values:
  assumes "within_limit pts scs us"
  defines "d \<equiv> foldl aggregate_update [] us"
  shows "set (map snd d) = (\<lambda>key. exact_entry pts scs key us) ` counted_keys us"
    and "distinct (map snd d)" and "inj_on entry_key (set (map snd d))"
proof -
  note spec = aggregates_exact [of us pts scs]
  have get: "dget d key = (if key \<in> counted_keys us then Some (exact_entry pts scs key us) else None)" for key
  proof -
    have "key \<in> counted_keys us \<longleftrightarrow> (\<exists>u \<in> set us. counts u \<and> update_key u = key)"
      by (auto simp: counted_keys_def)
    then show ?thesis
      using spec assms(1) unfolding d_def within_limit_def list_all_iff by (simp del: split_paired_All)
  qed
  have dist: "distinct (dkeys d)" using spec assms by (simp add: within_limit_def list_all_iff)
  have pairs: "(k, v) \<in> set d \<longleftrightarrow> k \<in> counted_keys us \<and> v = exact_entry pts scs k us" for k v
    using get [of k] map_of_eq_Some_iff [OF dist, of k v] by (auto split: if_splits)
  then show vals: "set (map snd d) = (\<lambda>key. exact_entry pts scs key us) ` counted_keys us"
    by (force simp: image_iff)
  have inj: "inj_on snd (set d)"
    using pairs exact_entry_key by (intro inj_onI) (metis prod.collapse)
  show "distinct (map snd d)" using dist inj by (simp add: distinct_map)
  have "e = e'" if "e \<in> set (map snd d)" "e' \<in> set (map snd d)" "entry_key e = entry_key e'" for e e'
    using that exact_entry_key [of pts scs _ us] unfolding vals entry_key_def by force
  then show "inj_on entry_key (set (map snd d))" by (rule inj_onI)
qed

text \<open>C8: The leaderboard holds exactly one entry for each role and peer with a counted update; its
  points, its score total and its two counters are the exact sums over the updates, with no
  rounding error left over; and the entries are sorted by points, then role, then peer.\<close>

theorem leaderboard_is_exact:
  assumes "within_limit pts scs us"
  shows "set (leaderboard_of us) = (\<lambda>key. exact_entry pts scs key us) ` counted_keys us \<and>
     distinct (map (\<lambda>e. (le_node_role e, le_peer_id e)) (leaderboard_of us)) \<and>
     sorted (map entry_key (leaderboard_of us))"
proof -
  note vals = aggregates_values [OF assms]
  have "inj_on (\<lambda>e. (le_node_role e, le_peer_id e)) (set (map snd (foldl aggregate_update [] us)))"
    unfolding vals(1) by (rule inj_onI) (auto simp: exact_entry_def Let_def)
  then show ?thesis
    using vals by (simp add: leaderboard_of_def distinct_map)
qed

text \<open>The leaderboard does not depend on the order in which the updates were stored, although
  binary64 addition is not associative: permuting the updates gives the same list.\<close>

theorem leaderboard_order_independent:
  assumes "within_limit pts scs us" and "mset us = mset us'"
  shows "leaderboard_of us = leaderboard_of us'"
proof -
  have sets: "set us = set us'" using assms(2) by (rule mset_eq_setD)
  have sums: "total_micros f us = total_micros f us'" for f
    using assms(2) unfolding total_micros_def by (metis mset_map sum_mset_sum_list)
  have w': "within_limit pts scs us'"
    using assms(1) sets sums by (simp add: within_limit_def list_all_iff)
  have keys: "counted_keys us = counted_keys us'" using sets by (simp add: counted_keys_def)
  note v = aggregates_values [OF assms(1)] and v' = aggregates_values [OF w']
  have "set (map snd (foldl aggregate_update [] us)) = set (map snd (foldl aggregate_update [] us'))"
    unfolding v(1) v'(1) keys using exact_entry_perm [OF assms(2)] by simp
  then have "mset (map snd (foldl aggregate_update [] us)) = mset (map snd (foldl aggregate_update [] us'))"
    using set_eq_iff_mset_eq_distinct [OF v(2) v'(2)] by blast
  then show ?thesis unfolding leaderboard_of_def using v(3) by (rule sort_key_unique)
qed

subsection \<open>Updates built from attestations\<close>

definition points_micros :: "reputation_update \<Rightarrow> int" where
  "points_micros u = round_even (ru_reputation_points u * 10 ^ 6)"

definition score_micros :: "reputation_update \<Rightarrow> int" where
  "score_micros u = round_even (ru_verifier_score u * 10 ^ 6)"

lemma round_even_micros: "\<bar>k\<bar> \<le> 10 ^ 15 \<Longrightarrow> round_even (micros k * 10 ^ 6) = k"
proof -
  assume k: "\<bar>k\<bar> \<le> 10 ^ 15"
  then have "\<bar>of_int k\<bar> \<le> (10 ^ 15 :: rat)" by (metis of_int_abs of_int_le_iff of_int_numeral of_int_power)
  then have "\<bar>of_int k / 10 ^ 6\<bar> < (2 ^ 30 :: rat)" by (simp add: abs_divide divide_less_eq)
  then have "\<bar>micros k - of_int k / 10 ^ 6\<bar> \<le> 1 / 2 ^ 24" unfolding micros_def by (rule fl_error_small)
  then have "\<bar>micros k * 10 ^ 6 - of_int k\<bar> \<le> 1 / 2 ^ 24 * 10 ^ 6" by (rule abs_scale_error)
  then show ?thesis by (intro round_even_near) simp
qed

lemma round_even_range: "0 \<le> x \<Longrightarrow> x \<le> of_int n \<Longrightarrow> 0 \<le> round_even x \<and> round_even x \<le> n"
  using round_even_mono [of 0 x] round_even_mono [of x "of_int n"] by simp

lemma rounded_decimal:
  assumes "0 \<le> x" "x \<le> of_int n" "n \<le> 10 ^ 9"
  shows "micros (round_even (py_round 6 x * 10 ^ 6)) = py_round 6 x \<and>
     0 \<le> round_even (py_round 6 x * 10 ^ 6) \<and> round_even (py_round 6 x * 10 ^ 6) \<le> n * 10 ^ 6"
proof -
  define k where "k = round_even (x * 10 ^ 6)"
  have k: "0 \<le> k" "k \<le> n * 10 ^ 6"
    using round_even_range [of "x * 10 ^ 6" "n * 10 ^ 6"] assms by (auto simp: k_def)
  have "py_round 6 x = micros k" by (simp add: py_round_def micros_def k_def)
  moreover have "round_even (micros k * 10 ^ 6) = k" using k assms(3) by (intro round_even_micros) simp
  ultimately show ?thesis using k by simp
qed

lemma built_update_decimal:
  assumes "valid_attestation a"
  shows "decimal_update points_micros score_micros (reputation_update_of a) \<and>
     points_micros (reputation_update_of a) \<le> 10 ^ 8 \<and> score_micros (reputation_update_of a) \<le> 10 ^ 8"
proof -
  have s: "0 \<le> va_score a" "va_score a \<le> 1" using assms by (simp_all add: valid_attestation_def unit_ok_def)
  have "fmul (va_score a) 100 \<le> fmul 1 100" "0 \<le> fmul (va_score a) 100"
    using s by (auto intro: fmul_mono fmul_nonneg)
  moreover have "fmul 1 100 = 100" using fl_of_int [of 100] by (simp add: fmul_def)
  ultimately have p: "0 \<le> fmul (va_score a) 100" "fmul (va_score a) 100 \<le> of_int 100" by simp_all
  from rounded_decimal [OF p] rounded_decimal [of "va_score a" 1] s show ?thesis
    by (simp add: reputation_update_of_def Let_def decimal_update_def points_micros_def score_micros_def
        points_for_attestation_def)
qed

lemma sum_list_le_length: "\<forall>x \<in> set xs. f x \<le> (c :: int) \<Longrightarrow> sum_list (map f xs) \<le> int (length xs) * c"
  by (induction xs) (auto simp: algebra_simps)

lemma built_updates_within_limit:
  assumes "list_all valid_attestation atts" "length atts \<le> 10 ^ 7"
  shows "within_limit points_micros score_micros (build_reputation_updates atts)"
proof -
  let ?us = "build_reputation_updates atts"
  have "\<forall>u \<in> set ?us. decimal_update points_micros score_micros u \<and> points_micros u \<le> 10 ^ 8 \<and> score_micros u \<le> 10 ^ 8"
    using assms(1) built_update_decimal by (auto simp: build_reputation_updates_def list_all_iff)
  moreover have "int (length ?us) * 10 ^ 8 \<le> 10 ^ 15"
    using assms(2) by (simp add: build_reputation_updates_def)
  ultimately show ?thesis
    using sum_list_le_length [of ?us points_micros "10 ^ 8"] sum_list_le_length [of ?us score_micros "10 ^ 8"]
    by (auto simp: within_limit_def list_all_iff total_micros_def)
qed

definition credited_attestation :: "string \<Rightarrow> verification_attestation" where
  "credited_attestation peer = sample_attestation\<lparr>va_peer_id := peer,
     va_signer := Some (''0x'' @ replicate 40 (CHR ''a'')), va_agent_wallet := Some (''0x'' @ replicate 40 (CHR ''a''))\<rparr>"

lemma credited_attestation_valid: "peer \<noteq> [] \<Longrightarrow> valid_attestation (credited_attestation peer)"
  by (simp add: valid_attestation_def credited_attestation_def sample_attestation_def unit_ok_def
      opt_ok_def hex_pattern_def starts_with_def list_all_iff hex_value_def char_code_def)

lemma credited_attestation_eligible: "ru_credit_eligible (reputation_update_of (credited_attestation peer))"
  by (simp add: reputation_update_of_def credit_eligible_def credited_attestation_def
      sample_attestation_def filled_def)

lemma credited_update:
  "counts (reputation_update_of (credited_attestation peer))"
  "update_key (reputation_update_of (credited_attestation peer)) = (''risk'', peer)"
  using credited_attestation_eligible [of peer]
  by (simp_all add: counts_def update_key_def)
    (simp_all add: reputation_update_of_def Let_def credited_attestation_def sample_attestation_def)

definition two_updates :: "reputation_update list" where
  "two_updates = build_reputation_updates [credited_attestation ''p'', credited_attestation ''q'']"

lemma two_updates_within_limit: "within_limit points_micros score_micros two_updates"
  unfolding two_updates_def
  by (rule built_updates_within_limit) (simp_all add: credited_attestation_valid)

lemma leaderboard_is_exact_witness:
  "exact_entry points_micros score_micros (''risk'', ''q'') two_updates \<in> set (leaderboard_of two_updates)"
proof -
  have "(''risk'', ''q'') \<in> counted_keys two_updates"
    using credited_update [of "''q''"] by (force simp: counted_keys_def two_updates_def build_reputation_updates_def)
  then show ?thesis using leaderboard_is_exact [OF two_updates_within_limit] by blast
qed

lemma leaderboard_order_independent_witness:
  "leaderboard_of two_updates = leaderboard_of (rev two_updates) \<and> two_updates \<noteq> rev two_updates"
proof
  show "leaderboard_of two_updates = leaderboard_of (rev two_updates)"
    by (rule leaderboard_order_independent [OF two_updates_within_limit]) simp
  show "two_updates \<noteq> rev two_updates"
    by (simp add: two_updates_def build_reputation_updates_def reputation_update_of_def Let_def
        credited_attestation_def)
qed

text \<open>An update survives storage as a dictionary: the leaderboard reads the stored dictionary of an
  update back as that update.\<close>

theorem coerce_update_roundtrip:
  assumes "ru_agent_wallet u \<noteq> Some []"
  shows "coerce_update (reputation_update_fields u) = Inr u"
  using assms
  by (cases u) (auto simp: coerce_update_def reputation_update_fields_def required_def finite_number_def
      num_def py_float_of_def jget_def opt_str_def split: option.splits)

lemma coerce_update_roundtrip_witness:
  "coerce_update (reputation_update_fields (reputation_update_of sample_attestation)) =
     Inr (reputation_update_of sample_attestation)"
  by (rule coerce_update_roundtrip) (simp add: reputation_update_of_def Let_def sample_attestation_def)

end
