(* ===== verification/Chain_Projection.thy ===== *)
theory Chain_Projection
  imports Chain_Events Reputation
begin

section \<open>Projections of the indexed events (app/indexer/projections.py)\<close>

text \<open>
  \<open>build_chain_events_projection\<close> replays the stored events in chain order into tasks,
  contributions, verifications and reputation records; \<open>agent_leaderboard\<close> aggregates the
  reputation records. Shown: the task table is exactly what the history of each task says (created
  and finalized events in any order), the projection does not depend on the order in which the
  events were stored, and the chain leaderboard is the local reputation ledger of the same records.
\<close>

subsection \<open>Records\<close>

record task_projection =
  tk_task_id :: int
  tk_task_hash :: string
  tk_metadata_uri :: string
  tk_finalized :: bool
  tk_memo_hash :: "string option"

record contribution_projection =
  cn_task_id :: int
  cn_agent :: string
  cn_role :: string
  cn_output_hash :: string
  cn_ree_receipt_hash :: string
  cn_metadata_uri :: string
  cn_transaction_hash :: string

record verification_projection =
  vn_task_id :: int
  vn_verifier :: string
  vn_verdict_hash :: string
  vn_score :: float64
  vn_transaction_hash :: string

record reputation_projection =
  rn_task_id :: int
  rn_agent :: string
  rn_role :: string
  rn_score :: float64
  rn_points :: float64
  rn_native_test_payout_wei :: int
  rn_metadata_uri :: string
  rn_transaction_hash :: string

record agent_entry =
  ag_agent_wallet :: string
  ag_node_role :: string
  ag_reputation_points :: float64
  ag_recorded_contributions :: int
  ag_total_verifier_score :: float64
  ag_native_test_payout_wei :: int

record chain_projection =
  pj_tasks :: "(int, task_projection) pydict"
  pj_contributions :: "contribution_projection list"
  pj_verifications :: "verification_projection list"
  pj_reputations :: "reputation_projection list"

definition task_projection_json :: "task_projection \<Rightarrow> json" where
  "task_projection_json t = JObj
     [(''task_id'', JInt (tk_task_id t)), (''task_hash'', JStr (tk_task_hash t)),
      (''metadata_uri'', JStr (tk_metadata_uri t)), (''finalized'', JBool (tk_finalized t)),
      (''memo_hash'', opt_str (tk_memo_hash t)), (''source'', JStr ''indexed_chain'')]"

definition contribution_projection_json :: "contribution_projection \<Rightarrow> json" where
  "contribution_projection_json c = JObj
     [(''task_id'', JInt (cn_task_id c)), (''agent'', JStr (cn_agent c)), (''role'', JStr (cn_role c)),
      (''output_hash'', JStr (cn_output_hash c)), (''ree_receipt_hash'', JStr (cn_ree_receipt_hash c)),
      (''metadata_uri'', JStr (cn_metadata_uri c)), (''transaction_hash'', JStr (cn_transaction_hash c)),
      (''source'', JStr ''indexed_chain'')]"

definition verification_projection_json :: "verification_projection \<Rightarrow> json" where
  "verification_projection_json v = JObj
     [(''task_id'', JInt (vn_task_id v)), (''verifier'', JStr (vn_verifier v)),
      (''verdict_hash'', JStr (vn_verdict_hash v)), (''score'', num (vn_score v)),
      (''transaction_hash'', JStr (vn_transaction_hash v)), (''source'', JStr ''indexed_chain'')]"

definition reputation_projection_json :: "reputation_projection \<Rightarrow> json" where
  "reputation_projection_json r = JObj
     [(''task_id'', JInt (rn_task_id r)), (''agent'', JStr (rn_agent r)), (''role'', JStr (rn_role r)),
      (''score'', num (rn_score r)), (''points'', num (rn_points r)),
      (''native_test_payout_wei'', JInt (rn_native_test_payout_wei r)),
      (''metadata_uri'', JStr (rn_metadata_uri r)), (''transaction_hash'', JStr (rn_transaction_hash r)),
      (''source'', JStr ''indexed_chain'')]"

definition agent_entry_json :: "agent_entry \<Rightarrow> json" where
  "agent_entry_json a = JObj
     [(''agent_wallet'', JStr (ag_agent_wallet a)), (''node_role'', JStr (ag_node_role a)),
      (''reputation_points'', num (ag_reputation_points a)),
      (''recorded_contributions'', JInt (ag_recorded_contributions a)),
      (''total_verifier_score'', num (ag_total_verifier_score a)),
      (''native_test_payout_wei'', JInt (ag_native_test_payout_wei a)), (''source'', JStr ''indexed_chain'')]"

subsection \<open>The agent leaderboard\<close>

definition new_agent_entry :: "string \<times> string \<Rightarrow> agent_entry" where
  "new_agent_entry key = \<lparr>ag_agent_wallet = fst key, ag_node_role = snd key, ag_reputation_points = 0,
     ag_recorded_contributions = 0, ag_total_verifier_score = 0, ag_native_test_payout_wei = 0\<rparr>"

definition add_record :: "agent_entry \<Rightarrow> reputation_projection \<Rightarrow> agent_entry" where
  "add_record a r =
     a\<lparr>ag_reputation_points := py_round 6 (fadd (ag_reputation_points a) (rn_points r)),
       ag_recorded_contributions := ag_recorded_contributions a + 1,
       ag_total_verifier_score := py_round 6 (fadd (ag_total_verifier_score a) (rn_score r)),
       ag_native_test_payout_wei := ag_native_test_payout_wei a + rn_native_test_payout_wei r\<rparr>"

definition record_key :: "reputation_projection \<Rightarrow> string \<times> string" where
  "record_key r = (rn_agent r, rn_role r)"

definition aggregate_record ::
    "(string \<times> string, agent_entry) pydict \<Rightarrow> reputation_projection \<Rightarrow> (string \<times> string, agent_entry) pydict" where
  "aggregate_record d r =
     dset d (record_key r) (add_record (dget_or d (record_key r) (new_agent_entry (record_key r))) r)"

definition agent_key :: "agent_entry \<Rightarrow> float64 \<times> string \<times> string" where
  "agent_key a = (- ag_reputation_points a, ag_node_role a, ag_agent_wallet a)"

definition agent_leaderboard :: "reputation_projection list \<Rightarrow> agent_entry list" where
  "agent_leaderboard rs = sort_key agent_key (map snd (foldl aggregate_record [] rs))"

definition chain_projection_json :: "chain_projection \<Rightarrow> json" where
  "chain_projection_json p = JObj
     [(''tasks'', JList (map (\<lambda>(_, t). task_projection_json t) (pj_tasks p))),
      (''contributions'', JList (map contribution_projection_json (pj_contributions p))),
      (''verifications'', JList (map verification_projection_json (pj_verifications p))),
      (''reputations'', JList (map reputation_projection_json (pj_reputations p))),
      (''agent_leaderboard'', JList (map agent_entry_json (agent_leaderboard (pj_reputations p))))]"

subsection \<open>Replaying the events\<close>

definition score_scale :: int where "score_scale = 1000000"

definition unscale :: "json \<Rightarrow> float64 res" where
  "unscale v =
     res_bind (py_int_of v) (\<lambda>i.
       if float_max \<le> \<bar>of_int i / of_int score_scale\<bar> then Inl OverflowError
       else Inr (py_round 6 (fl (of_int i / of_int score_scale))))"

definition int_arg :: "indexed_event \<Rightarrow> string \<Rightarrow> int res" where
  "int_arg e k = res_bind (required (ie_args e) k) py_int_of"

definition text_arg :: "indexed_event \<Rightarrow> string \<Rightarrow> string res" where
  "text_arg e k = res_bind (required (ie_args e) k) (\<lambda>v. Inr (py_str v))"

definition scaled_arg :: "indexed_event \<Rightarrow> string \<Rightarrow> float64 res" where
  "scaled_arg e k = res_bind (required (ie_args e) k) unscale"

definition project_event :: "chain_projection \<Rightarrow> indexed_event \<Rightarrow> chain_projection res" where
  "project_event p e =
     (if ie_event_name e = ''TaskCreated'' then
        res_bind (int_arg e ''task_id'') (\<lambda>t.
        res_bind (text_arg e ''task_hash'') (\<lambda>h.
        res_bind (text_arg e ''metadata_uri'') (\<lambda>uri.
          Inr (p\<lparr>pj_tasks := dset (pj_tasks p) t
            \<lparr>tk_task_id = t, tk_task_hash = h, tk_metadata_uri = uri,
             tk_finalized = (case dget (pj_tasks p) t of Some old \<Rightarrow> tk_finalized old | None \<Rightarrow> False),
             tk_memo_hash = (case dget (pj_tasks p) t of Some old \<Rightarrow> tk_memo_hash old | None \<Rightarrow> None)\<rparr>\<rparr>))))
      else if ie_event_name e = ''TaskFinalized'' then
        res_bind (int_arg e ''task_id'') (\<lambda>t.
        res_bind (text_arg e ''memo_hash'') (\<lambda>m.
          Inr (p\<lparr>pj_tasks := dset (pj_tasks p) t
            \<lparr>tk_task_id = t,
             tk_task_hash = (case dget (pj_tasks p) t of Some old \<Rightarrow> tk_task_hash old | None \<Rightarrow> []),
             tk_metadata_uri = (case dget (pj_tasks p) t of Some old \<Rightarrow> tk_metadata_uri old | None \<Rightarrow> []),
             tk_finalized = True, tk_memo_hash = Some m\<rparr>\<rparr>)))
      else if ie_event_name e = ''ContributionRecorded'' then
        res_bind (int_arg e ''task_id'') (\<lambda>t.
        res_bind (text_arg e ''agent'') (\<lambda>agent.
        res_bind (text_arg e ''role'') (\<lambda>role.
        res_bind (text_arg e ''output_hash'') (\<lambda>oh.
        res_bind (text_arg e ''ree_receipt_hash'') (\<lambda>rh.
        res_bind (text_arg e ''metadata_uri'') (\<lambda>uri.
          Inr (p\<lparr>pj_contributions := pj_contributions p @
            [\<lparr>cn_task_id = t, cn_agent = agent, cn_role = role, cn_output_hash = oh, cn_ree_receipt_hash = rh,
              cn_metadata_uri = uri, cn_transaction_hash = ie_transaction_hash e\<rparr>]\<rparr>)))))))
      else if ie_event_name e = ''VerificationRecorded'' then
        res_bind (int_arg e ''task_id'') (\<lambda>t.
        res_bind (text_arg e ''verifier'') (\<lambda>verifier.
        res_bind (text_arg e ''verdict_hash'') (\<lambda>vh.
        res_bind (scaled_arg e ''score'') (\<lambda>score.
          Inr (p\<lparr>pj_verifications := pj_verifications p @
            [\<lparr>vn_task_id = t, vn_verifier = verifier, vn_verdict_hash = vh, vn_score = score,
              vn_transaction_hash = ie_transaction_hash e\<rparr>]\<rparr>)))))
      else if ie_event_name e = ''ReputationRecorded'' then
        res_bind (int_arg e ''task_id'') (\<lambda>t.
        res_bind (text_arg e ''agent'') (\<lambda>agent.
        res_bind (text_arg e ''role'') (\<lambda>role.
        res_bind (scaled_arg e ''score'') (\<lambda>score.
        res_bind (scaled_arg e ''points'') (\<lambda>points.
        res_bind (int_arg e ''native_test_payout_wei'') (\<lambda>wei.
        res_bind (text_arg e ''metadata_uri'') (\<lambda>uri.
          Inr (p\<lparr>pj_reputations := pj_reputations p @
            [\<lparr>rn_task_id = t, rn_agent = agent, rn_role = role, rn_score = score, rn_points = points,
              rn_native_test_payout_wei = wei, rn_metadata_uri = uri,
              rn_transaction_hash = ie_transaction_hash e\<rparr>]\<rparr>))))))))
      else Inr p)"

fun project_all :: "chain_projection \<Rightarrow> indexed_event list \<Rightarrow> chain_projection res" where
  "project_all p [] = Inr p"
| "project_all p (e # es) = res_bind (project_event p e) (\<lambda>q. project_all q es)"

definition empty_projection :: chain_projection where
  "empty_projection = \<lparr>pj_tasks = [], pj_contributions = [], pj_verifications = [], pj_reputations = []\<rparr>"

definition build_chain_events_projection :: "indexed_event list \<Rightarrow> chain_projection res" where
  "build_chain_events_projection events =
     res_bind (project_all empty_projection (sort_key position events)) (\<lambda>p.
       Inr (p\<lparr>pj_tasks := sort_key fst (pj_tasks p)\<rparr>))"

subsection \<open>The task table is the history of each task\<close>

text \<open>What the events say of one task: the last creation and the last finalization decide.\<close>

definition events_of :: "string \<Rightarrow> int \<Rightarrow> indexed_event list \<Rightarrow> indexed_event list" where
  "events_of name t evs = filter (\<lambda>e. ie_event_name e = name \<and> int_arg e ''task_id'' = Inr t) evs"

definition arg_text :: "indexed_event \<Rightarrow> string \<Rightarrow> string" where
  "arg_text e k = (case text_arg e k of Inr s \<Rightarrow> s | Inl _ \<Rightarrow> [])"

definition task_history :: "int \<Rightarrow> indexed_event list \<Rightarrow> task_projection option" where
  "task_history t evs =
     (let cs = events_of ''TaskCreated'' t evs; fs = events_of ''TaskFinalized'' t evs in
      if cs = [] \<and> fs = [] then None
      else Some \<lparr>tk_task_id = t,
        tk_task_hash = (if cs = [] then [] else arg_text (last cs) ''task_hash''),
        tk_metadata_uri = (if cs = [] then [] else arg_text (last cs) ''metadata_uri''),
        tk_finalized = (fs \<noteq> []),
        tk_memo_hash = (if fs = [] then None else Some (arg_text (last fs) ''memo_hash''))\<rparr>)"

lemma project_all_snoc:
  "project_all p (es @ [e]) = res_bind (project_all p es) (\<lambda>q. project_event q e)"
  by (induction es arbitrary: p) (auto simp: res_bind_def split: sum.splits)

lemma events_of_snoc:
  "events_of name t (es @ [e]) =
     (if ie_event_name e = name \<and> int_arg e ''task_id'' = Inr t then events_of name t es @ [e] else events_of name t es)"
  by (simp add: events_of_def)

lemma task_history_created:
  assumes "ie_event_name e = ''TaskCreated''" "int_arg e ''task_id'' = Inr t"
  shows "task_history u (es @ [e]) =
     (if u = t then Some \<lparr>tk_task_id = t, tk_task_hash = arg_text e ''task_hash'',
        tk_metadata_uri = arg_text e ''metadata_uri'',
        tk_finalized = (case task_history t es of Some old \<Rightarrow> tk_finalized old | None \<Rightarrow> False),
        tk_memo_hash = (case task_history t es of Some old \<Rightarrow> tk_memo_hash old | None \<Rightarrow> None)\<rparr>
      else task_history u es)"
  using assms by (simp add: task_history_def events_of_snoc Let_def)

lemma task_history_finalized:
  assumes "ie_event_name e = ''TaskFinalized''" "int_arg e ''task_id'' = Inr t"
  shows "task_history u (es @ [e]) =
     (if u = t then Some \<lparr>tk_task_id = t,
        tk_task_hash = (case task_history t es of Some old \<Rightarrow> tk_task_hash old | None \<Rightarrow> []),
        tk_metadata_uri = (case task_history t es of Some old \<Rightarrow> tk_metadata_uri old | None \<Rightarrow> []),
        tk_finalized = True, tk_memo_hash = Some (arg_text e ''memo_hash'')\<rparr>
      else task_history u es)"
  using assms by (simp add: task_history_def events_of_snoc Let_def)

lemma task_history_other:
  assumes "ie_event_name e \<noteq> ''TaskCreated''" "ie_event_name e \<noteq> ''TaskFinalized''"
  shows "task_history u (es @ [e]) = task_history u es"
  using assms by (simp add: task_history_def events_of_snoc)

lemma project_event_tasks:
  assumes "project_event p e = Inr q" and "\<And>t. dget (pj_tasks p) t = task_history t es"
    and "distinct (dkeys (pj_tasks p))"
  shows "dget (pj_tasks q) t = task_history t (es @ [e]) \<and> distinct (dkeys (pj_tasks q))"
proof -
  consider (created) "ie_event_name e = ''TaskCreated''" | (finalized) "ie_event_name e = ''TaskFinalized''"
    | (other) "ie_event_name e \<noteq> ''TaskCreated''" "ie_event_name e \<noteq> ''TaskFinalized''" by blast
  then show ?thesis
  proof cases
    case created
    with assms(1) obtain u h uri where "int_arg e ''task_id'' = Inr u" "text_arg e ''task_hash'' = Inr h"
        "text_arg e ''metadata_uri'' = Inr uri"
      by (auto simp: project_event_def res_simps)
    with created assms show ?thesis
      by (auto simp: project_event_def task_history_created arg_text_def intro!: distinct_dset)
  next
    case finalized
    with assms(1) obtain u m where "int_arg e ''task_id'' = Inr u" "text_arg e ''memo_hash'' = Inr m"
      by (auto simp: project_event_def res_simps)
    with finalized assms show ?thesis
      by (auto simp: project_event_def task_history_finalized arg_text_def intro!: distinct_dset)
  next
    case other
    with assms(1) have "pj_tasks q = pj_tasks p"
      by (auto simp: project_event_def res_simps split: if_split_asm)
    with assms(2,3) show ?thesis by (simp add: task_history_other [OF other])
  qed
qed

lemma project_all_tasks:
  "project_all empty_projection es = Inr q \<Longrightarrow>
     (\<forall>t. dget (pj_tasks q) t = task_history t es) \<and> distinct (dkeys (pj_tasks q))"
proof (induction es arbitrary: q rule: rev_induct)
  case Nil
  then show ?case by (auto simp: empty_projection_def task_history_def events_of_def)
next
  case (snoc e es)
  from snoc.prems obtain p where p: "project_all empty_projection es = Inr p" "project_event p e = Inr q"
    by (auto simp: project_all_snoc res_simps)
  from snoc.IH [OF p(1)] project_event_tasks [OF p(2), of es] show ?case by blast
qed

lemma dget_sorted: "distinct (dkeys d) \<Longrightarrow> dget (sort_key fst d) k = dget d k"
  by (rule fun_cong [OF map_of_inject_set [THEN iffD2]]) (simp_all add: distinct_map)

text \<open>C11: The projected task table is exactly the history of each task: a task is listed when the
  chain created or finalized it, it is finalized when some event finalized it (a later creation does
  not undo that), its hash is that of its last creation and its memo that of its last finalization,
  and the table is sorted by task with no task twice.\<close>

theorem projected_tasks_are_their_history:
  assumes "build_chain_events_projection evs = Inr p"
  shows "dget (pj_tasks p) t = task_history t (sort_key position evs) \<and>
     sorted (dkeys (pj_tasks p)) \<and> distinct (dkeys (pj_tasks p))"
proof -
  obtain q where q: "project_all empty_projection (sort_key position evs) = Inr q"
      "p = q\<lparr>pj_tasks := sort_key fst (pj_tasks q)\<rparr>"
    using assms by (auto simp: build_chain_events_projection_def res_simps)
  from project_all_tasks [OF q(1)] have hist: "\<And>t. dget (pj_tasks q) t = task_history t (sort_key position evs)"
    and dist: "distinct (dkeys (pj_tasks q))" by blast+
  have "distinct (map fst (sort_key fst (pj_tasks q)))"
    using dist by (simp add: distinct_map)
  then show ?thesis using hist dist q(2) by (simp add: dget_sorted)
qed

text \<open>The projection does not depend on the order in which the events reached the store: when no
  two events share a block and log position, permuting them gives the same projection, or the same
  error.\<close>

theorem projection_order_independent:
  assumes "mset evs = mset evs'" and "inj_on position (set evs)"
  shows "build_chain_events_projection evs = build_chain_events_projection evs'"
  using sort_key_unique [OF assms] by (simp add: build_chain_events_projection_def)

subsection \<open>The chain leaderboard is the local ledger of the same records\<close>

text \<open>A reputation record seen as an accepted, credited update, and an entry seen as a ledger entry.\<close>

definition record_update :: "reputation_projection \<Rightarrow> reputation_update" where
  "record_update r = \<lparr>ru_job_id = str_of_int (rn_task_id r), ru_node_role = rn_role r, ru_peer_id = rn_agent r,
     ru_agent_wallet = Some (rn_agent r), ru_verifier_status = ''accepted'', ru_verifier_score = rn_score r,
     ru_credit_eligible = True, ru_reputation_points = rn_points r, ru_reason = ''indexed_chain''\<rparr>"

definition ledger_view :: "agent_entry \<Rightarrow> ledger_entry" where
  "ledger_view a = \<lparr>le_node_role = ag_node_role a, le_peer_id = ag_agent_wallet a,
     le_reputation_points = ag_reputation_points a, le_accepted_contributions = ag_recorded_contributions a,
     le_rejected_contributions = 0, le_total_verifier_score = ag_total_verifier_score a\<rparr>"

definition swap_view :: "(string \<times> string) \<times> agent_entry \<Rightarrow> (string \<times> string) \<times> ledger_entry" where
  "swap_view x = (prod.swap (fst x), ledger_view (snd x))"

lemma dset_view: "map swap_view (dset d k v) = dset (map swap_view d) (prod.swap k) (ledger_view v)"
  by (cases k, induction d) (auto simp: swap_view_def)

lemma dget_view: "dget (map swap_view d) (prod.swap k) = map_option ledger_view (dget d k)"
  by (cases k, induction d) (auto simp: swap_view_def)

lemma aggregate_view:
  "map swap_view (aggregate_record d r) = aggregate_update (map swap_view d) (record_update r)"
proof -
  have key: "update_key (record_update r) = prod.swap (record_key r)" and c: "counts (record_update r)"
    by (simp_all add: update_key_def record_update_def record_key_def counts_def)
  have new: "ledger_view (new_agent_entry k) = new_entry (prod.swap k)" for k
    by (simp add: ledger_view_def new_agent_entry_def new_entry_def)
  have add: "ledger_view (add_record a r) = add_update (ledger_view a) (record_update r)" for a
    by (simp add: ledger_view_def add_record_def add_update_def record_update_def Let_def)
  have "ledger_view (dget_or d k (new_agent_entry k)) = dget_or (map swap_view d) (prod.swap k) (new_entry (prod.swap k))" for k
    using new by (simp add: dget_or_def dget_view split: option.splits)
  then show ?thesis
    by (simp add: aggregate_record_def aggregate_update_def c key dset_view add)
qed

lemma aggregates_view:
  "map swap_view (foldl aggregate_record d rs) = foldl aggregate_update (map swap_view d) (map record_update rs)"
  by (induction rs arbitrary: d) (simp_all add: aggregate_view)

lemma map_insort_key: "map f (insort_key (\<lambda>x. k (f x)) x xs) = insort_key k (f x) (map f xs)"
  by (induction xs) auto

lemma map_sort_key: "map f (sort_key (\<lambda>x. k (f x)) xs) = sort_key k (map f xs)"
  by (induction xs) (auto simp: map_insort_key)

lemma chain_ledger: "map ledger_view (agent_leaderboard rs) = leaderboard_of (map record_update rs)"
proof -
  have key: "agent_key = (\<lambda>a. entry_key (ledger_view a))"
    by (rule ext) (simp add: agent_key_def entry_key_def ledger_view_def)
  have "map ledger_view (agent_leaderboard rs) =
      sort_key entry_key (map ledger_view (map snd (foldl aggregate_record [] rs)))"
    unfolding agent_leaderboard_def key by (rule map_sort_key)
  also have "map ledger_view (map snd (foldl aggregate_record [] rs)) =
      map snd (map swap_view (foldl aggregate_record [] rs))"
    by (simp add: swap_view_def comp_def)
  finally show ?thesis by (simp add: leaderboard_of_def aggregates_view)
qed

text \<open>C12: The leaderboard computed from the chain is the local reputation ledger run on the same
  records: entry by entry, in the same order, with the same rounded points and score totals and
  with every record counted as an accepted contribution.\<close>

theorem chain_leaderboard_refines_ledger:
  "map ledger_view (agent_leaderboard rs) = leaderboard_of (map record_update rs)"
  by (rule chain_ledger)

subsection \<open>Scores on the chain\<close>

text \<open>An integer number of millionths is read as the double nearest to it, with no second rounding.\<close>

lemma unscale_micros:
  assumes "\<bar>i\<bar> \<le> 10 ^ 15"
  shows "unscale (JInt i) = Inr (micros i)"
proof -
  have "\<bar>of_int i / 10 ^ 6\<bar> \<le> (10 ^ 9 :: rat)"
  proof -
    have "\<bar>of_int i\<bar> \<le> (10 ^ 15 :: rat)" using assms by (metis of_int_abs of_int_le_iff of_int_numeral of_int_power)
    then show ?thesis by (simp add: abs_divide divide_le_eq)
  qed
  moreover have "(10 ^ 9 :: rat) < float_max" by (simp add: float_max_def)
  moreover have "py_round 6 (micros i) = micros i"
    using round_even_micros [OF assms] by (simp add: py_round_def micros_def)
  ultimately show ?thesis
    by (simp add: unscale_def py_int_of_def score_scale_def micros_def)
qed

subsection \<open>Witnesses\<close>

definition demo_event :: "string \<Rightarrow> int \<Rightarrow> int \<Rightarrow> jobject \<Rightarrow> indexed_event" where
  "demo_event name block idx args = \<lparr>ie_event_name = name, ie_contract_address = ''0xc'', ie_block_number = block,
     ie_block_hash = ''0xb'', ie_transaction_hash = ''0xaa'', ie_log_index = idx, ie_args = args\<rparr>"

definition demo_events :: "indexed_event list" where
  "demo_events =
     [demo_event ''TaskFinalized'' 60 1 [(''task_id'', JInt 7), (''memo_hash'', JStr ''0x2'')],
      demo_event ''TaskCreated'' 50 0
        [(''task_id'', JInt 7), (''task_hash'', JStr ''0x1''), (''metadata_uri'', JStr ''ipfs://a'')]]"

lemma demo_projection:
  "build_chain_events_projection demo_events =
     Inr (empty_projection\<lparr>pj_tasks := [(7, \<lparr>tk_task_id = 7, tk_task_hash = ''0x1'', tk_metadata_uri = ''ipfs://a'',
       tk_finalized = True, tk_memo_hash = Some ''0x2''\<rparr>)]\<rparr>)"
  by (simp add: build_chain_events_projection_def demo_events_def demo_event_def position_def project_event_def
      int_arg_def text_arg_def required_def py_int_of_def empty_projection_def)

lemma projected_tasks_are_their_history_witness:
  "map_option tk_finalized (task_history 7 (sort_key position demo_events)) = Some True"
  using conjunct1 [OF projected_tasks_are_their_history [OF demo_projection, of 7], symmetric] by simp

lemma projection_order_independent_witness:
  "build_chain_events_projection demo_events = build_chain_events_projection (rev demo_events)"
  by (rule projection_order_independent)
    (simp_all add: demo_events_def demo_event_def position_def)

end
