(* ===== verification/Job_Store.thy ===== *)
theory Job_Store
  imports Chain_Projection
begin

section \<open>The SQLite store (app/store/jobs.py)\<close>

text \<open>
  Four tables: submitted jobs, indexed chain events (keyed by event identifier), indexed block hashes
  (keyed by block number) and indexer cursors (keyed by name), with the schema of the file itself,
  so that the migrations of \<^verbatim>\<open>_initialize_sync\<close> are part of the state. An operation maps the database to
  a result and the next database, and a statement that raises leaves the rows as they were. A column
  that holds JSON text holds its value here, which is what \<^verbatim>\<open>json.loads\<close> of \<^verbatim>\<open>json.dumps\<close> gives back;
  columns that nothing reads (the times of indexing) are left out. The order of \<open>db_jobs\<close> and
  \<open>db_events\<close> is that of the row identifiers.

  A row is a record of all columns of the current release. In a file of an earlier release some
  columns do not exist: what the record holds there means nothing, every statement that names such a
  column raises (\<open>on_table\<close>), and \<open>add_column\<close> overwrites it in every row with the default of the new
  column, as \<^verbatim>\<open>ALTER TABLE\<close> does.

  Shown: a file of an earlier release is migrated without an error, every stored row keeps its stored
  columns and reads back with the defaults in the new ones; the life of a job (created once, completed,
  read back); the laws of the chain index, as an interpretation of the locale \<open>chain_index\<close> the
  scheduler is verified against.
\<close>

subsection \<open>Rows and tables\<close>

record job_record =
  jb_job_id :: string
  jb_status :: string
  jb_payload :: json
  jb_memo :: "json option"
  jb_provenance_ledger :: "json list"
  jb_topology_snapshot :: "json option"
  jb_run_metadata :: jobject
  jb_created_at :: string

record indexer_cursor =
  cu_name :: string
  cu_last_indexed_block :: int
  cu_last_safe_block :: int
  cu_status :: string
  cu_error :: "string option"

text \<open>A column as \<^verbatim>\<open>CREATE TABLE\<close> declares it. The default of a JSON column is its value, as in the rows.\<close>

record column =
  co_name :: string
  co_type :: string
  co_primary_key :: bool
  co_not_null :: bool
  co_default :: "json option"

record db =
  db_schema :: "(string, column list) pydict"
  db_jobs :: "job_record list"
  db_events :: "indexed_event list"
  db_blocks :: "(int, string) pydict"
  db_cursors :: "(string, indexer_cursor) pydict"

type_synonym 'a db_op = "db \<Rightarrow> 'a res \<times> db"

definition job_record_json :: "job_record \<Rightarrow> json" where
  "job_record_json j = JObj
     [(''job_id'', JStr (jb_job_id j)), (''status'', JStr (jb_status j)), (''payload'', jb_payload j),
      (''memo'', (case jb_memo j of None \<Rightarrow> JNull | Some m \<Rightarrow> m)),
      (''provenance_ledger'', JList (jb_provenance_ledger j)),
      (''topology_snapshot'', (case jb_topology_snapshot j of None \<Rightarrow> JNull | Some t \<Rightarrow> t)),
      (''run_metadata'', JObj (jb_run_metadata j)), (''created_at'', JStr (jb_created_at j))]"

subsection \<open>Schema and migrations\<close>

definition jobs_columns :: "string list" where
  "jobs_columns = [''job_id'', ''status'', ''thesis_payload'', ''memo'', ''provenance_ledger'',
     ''topology_snapshot'', ''run_metadata'', ''created_at'']"

definition events_columns :: "string list" where
  "events_columns = [''event_id'', ''event_name'', ''contract_address'', ''block_number'', ''block_hash'',
     ''transaction_hash'', ''log_index'', ''args_json'', ''indexed_at'']"

definition blocks_columns :: "string list" where
  "blocks_columns = [''block_number'', ''block_hash'', ''indexed_at'']"

definition cursors_columns :: "string list" where
  "cursors_columns = [''name'', ''last_indexed_block'', ''last_safe_block'', ''status'', ''error'', ''updated_at'']"

definition nullable :: "string \<Rightarrow> string \<Rightarrow> column" where
  "nullable typ name = \<lparr>co_name = name, co_type = typ, co_primary_key = False, co_not_null = False, co_default = None\<rparr>"

definition not_null :: "string \<Rightarrow> string \<Rightarrow> column" where
  "not_null typ name = (nullable typ name)\<lparr>co_not_null := True\<rparr>"

definition primary_key :: "string \<Rightarrow> string \<Rightarrow> column" where
  "primary_key typ name = (nullable typ name)\<lparr>co_primary_key := True\<rparr>"

definition not_null_default :: "string \<Rightarrow> string \<Rightarrow> json \<Rightarrow> column" where
  "not_null_default typ name v = (not_null typ name)\<lparr>co_default := Some v\<rparr>"

lemma column_simps [simp]:
  "co_name (nullable t n) = n" "co_name (not_null t n) = n" "co_name (primary_key t n) = n"
  "co_name (not_null_default t n v) = n" "co_not_null (nullable t n) = False" "co_not_null (not_null_default t n v) = True"
  "co_default (nullable t n) = None" "co_default (not_null_default t n v) = Some v"
  by (simp_all add: nullable_def not_null_def primary_key_def not_null_default_def)

definition jobs_table :: "column list" where
  "jobs_table =
     [primary_key ''TEXT'' ''job_id'', not_null ''TEXT'' ''status'', not_null ''TEXT'' ''thesis_payload'',
      nullable ''TEXT'' ''memo'', not_null_default ''TEXT'' ''provenance_ledger'' (JList []),
      nullable ''TEXT'' ''topology_snapshot'', not_null_default ''TEXT'' ''run_metadata'' (JObj []),
      not_null ''TEXT'' ''created_at'']"

definition events_table :: "column list" where
  "events_table =
     [primary_key ''TEXT'' ''event_id'', not_null ''TEXT'' ''event_name'', not_null ''TEXT'' ''contract_address'',
      not_null ''INTEGER'' ''block_number'', not_null_default ''TEXT'' ''block_hash'' (JStr []),
      not_null ''TEXT'' ''transaction_hash'', not_null ''INTEGER'' ''log_index'', not_null ''TEXT'' ''args_json'',
      not_null ''TEXT'' ''indexed_at'']"

definition blocks_table :: "column list" where
  "blocks_table =
     [primary_key ''INTEGER'' ''block_number'', not_null ''TEXT'' ''block_hash'', not_null ''TEXT'' ''indexed_at'']"

definition cursors_table :: "column list" where
  "cursors_table =
     [primary_key ''TEXT'' ''name'', not_null ''INTEGER'' ''last_indexed_block'', not_null ''INTEGER'' ''last_safe_block'',
      not_null ''TEXT'' ''status'', nullable ''TEXT'' ''error'', not_null ''TEXT'' ''updated_at'']"

lemma table_names:
  "map co_name jobs_table = jobs_columns" "map co_name events_table = events_columns"
  "map co_name blocks_table = blocks_columns" "map co_name cursors_table = cursors_columns"
  by (simp_all add: jobs_table_def jobs_columns_def events_table_def events_columns_def blocks_table_def
      blocks_columns_def cursors_table_def cursors_columns_def)

definition column_names :: "db \<Rightarrow> string \<Rightarrow> string list" where
  "column_names d name = map co_name (dget_or (db_schema d) name [])"

text \<open>\<^verbatim>\<open>CREATE TABLE IF NOT EXISTS\<close>: a new table is empty.\<close>

definition clear_table :: "string \<Rightarrow> db \<Rightarrow> db" where
  "clear_table name d =
     (if name = ''jobs'' then d\<lparr>db_jobs := []\<rparr>
      else if name = ''indexed_chain_events'' then d\<lparr>db_events := []\<rparr>
      else if name = ''indexed_chain_blocks'' then d\<lparr>db_blocks := []\<rparr>
      else if name = ''indexer_cursors'' then d\<lparr>db_cursors := []\<rparr>
      else d)"

definition create_table :: "string \<Rightarrow> column list \<Rightarrow> db \<Rightarrow> db" where
  "create_table name cols d =
     (case dget (db_schema d) name of
        Some _ \<Rightarrow> d
      | None \<Rightarrow> (clear_table name d)\<lparr>db_schema := dset (db_schema d) name cols\<rparr>)"

text \<open>
  \<^verbatim>\<open>ALTER TABLE ... ADD COLUMN\<close>: SQLite refuses a column that exists, and a \<^verbatim>\<open>NOT NULL\<close> column without a
  default on a table that has rows; otherwise every row gets the default, or null. A default of a shape
  that the column's field cannot hold stays visible inside it.
\<close>

definition fill_job :: "string \<Rightarrow> json \<Rightarrow> job_record \<Rightarrow> job_record" where
  "fill_job col v j =
     (if col = ''provenance_ledger''
        then j\<lparr>jb_provenance_ledger := (case v of JList xs \<Rightarrow> xs | _ \<Rightarrow> [v])\<rparr>
      else if col = ''topology_snapshot'' then j\<lparr>jb_topology_snapshot := (if v = JNull then None else Some v)\<rparr>
      else if col = ''run_metadata''
        then j\<lparr>jb_run_metadata := (case v of JObj m \<Rightarrow> m | _ \<Rightarrow> [(col, v)])\<rparr>
      else if col = ''memo'' then j\<lparr>jb_memo := (if v = JNull then None else Some v)\<rparr>
      else if col = ''thesis_payload'' then j\<lparr>jb_payload := v\<rparr>
      else if col = ''status'' then j\<lparr>jb_status := py_str v\<rparr>
      else if col = ''created_at'' then j\<lparr>jb_created_at := py_str v\<rparr>
      else j)"

definition fill_event :: "string \<Rightarrow> json \<Rightarrow> indexed_event \<Rightarrow> indexed_event" where
  "fill_event col v e = (if col = ''block_hash'' then e\<lparr>ie_block_hash := py_str v\<rparr> else e)"

definition fill_column :: "string \<Rightarrow> string \<Rightarrow> json \<Rightarrow> db \<Rightarrow> db" where
  "fill_column name col v d =
     (if name = ''jobs'' then d\<lparr>db_jobs := map (fill_job col v) (db_jobs d)\<rparr>
      else if name = ''indexed_chain_events'' then d\<lparr>db_events := map (fill_event col v) (db_events d)\<rparr>
      else d)"

definition table_empty :: "string \<Rightarrow> db \<Rightarrow> bool" where
  "table_empty name d \<longleftrightarrow>
     (if name = ''jobs'' then db_jobs d = []
      else if name = ''indexed_chain_events'' then db_events d = []
      else if name = ''indexed_chain_blocks'' then db_blocks d = []
      else name = ''indexer_cursors'' \<longrightarrow> db_cursors d = [])"

definition add_column :: "string \<Rightarrow> column \<Rightarrow> unit db_op" where
  "add_column name col d =
     (case dget (db_schema d) name of
        None \<Rightarrow> (Inl (OtherError (''no such table: '' @ name)), d)
      | Some cols \<Rightarrow>
          if co_name col \<in> co_name ` set cols then (Inl (OtherError (''duplicate column name: '' @ co_name col)), d)
          else if co_not_null col \<and> co_default col = None \<and> \<not> table_empty name d
            then (Inl (OtherError ''Cannot add a NOT NULL column with default value NULL''), d)
          else (Inr (), fill_column name (co_name col) (case co_default col of None \<Rightarrow> JNull | Some v \<Rightarrow> v)
                  (d\<lparr>db_schema := dset (db_schema d) name (cols @ [col])\<rparr>)))"

definition db_then :: "unit db_op \<Rightarrow> unit db_op \<Rightarrow> unit db_op" where
  "db_then f g d = (case f d of (Inl e, d') \<Rightarrow> (Inl e, d') | (Inr _, d') \<Rightarrow> g d')"

definition db_unless :: "bool \<Rightarrow> unit db_op \<Rightarrow> unit db_op" where
  "db_unless b f d = (if b then (Inr (), d) else f d)"

definition initialize_sync :: "unit db_op" where
  "initialize_sync d =
     (let d1 = create_table ''indexer_cursors'' cursors_table
                 (create_table ''indexed_chain_blocks'' blocks_table
                 (create_table ''indexed_chain_events'' events_table
                 (create_table ''jobs'' jobs_table d)));
          columns = column_names d1 ''jobs''
      in db_then (db_unless (''provenance_ledger'' \<in> set columns)
                   (add_column ''jobs'' (not_null_default ''TEXT'' ''provenance_ledger'' (JList []))))
        (db_then (db_unless (''topology_snapshot'' \<in> set columns)
                   (add_column ''jobs'' (nullable ''TEXT'' ''topology_snapshot'')))
        (db_then (db_unless (''run_metadata'' \<in> set columns)
                   (add_column ''jobs'' (not_null_default ''TEXT'' ''run_metadata'' (JObj []))))
        (\<lambda>d2. db_unless (''block_hash'' \<in> set (column_names d2 ''indexed_chain_events''))
                   (add_column ''indexed_chain_events'' (not_null_default ''TEXT'' ''block_hash'' (JStr []))) d2))) d1)"

text \<open>A statement on a table that lacks one of its columns is an error of the database.\<close>

definition has_columns :: "db \<Rightarrow> string \<Rightarrow> string list \<Rightarrow> bool" where
  "has_columns d name cols \<longleftrightarrow>
     (case dget (db_schema d) name of None \<Rightarrow> False | Some cs \<Rightarrow> set cols \<subseteq> co_name ` set cs)"

definition on_table :: "string \<Rightarrow> string list \<Rightarrow> 'a db_op \<Rightarrow> 'a db_op" where
  "on_table name cols f d =
     (if has_columns d name cols then f d
      else (Inl (OtherError (''no such table or column: '' @ name)), d))"

definition schema_ready :: "db \<Rightarrow> bool" where
  "schema_ready d \<longleftrightarrow>
     has_columns d ''jobs'' jobs_columns \<and> has_columns d ''indexed_chain_events'' events_columns \<and>
     has_columns d ''indexed_chain_blocks'' blocks_columns \<and> has_columns d ''indexer_cursors'' cursors_columns"

subsection \<open>Jobs\<close>

definition insert_job_sync :: "job_record \<Rightarrow> unit db_op" where
  "insert_job_sync j = on_table ''jobs'' jobs_columns (\<lambda>d.
     if jb_job_id j \<in> jb_job_id ` set (db_jobs d) then (Inl IntegrityError, d)
     else (Inr (), d\<lparr>db_jobs := db_jobs d @ [j\<lparr>jb_memo := None\<rparr>]\<rparr>))"

definition complete_job_sync ::
    "string \<Rightarrow> json \<Rightarrow> json list \<Rightarrow> json option \<Rightarrow> jobject \<Rightarrow> unit db_op" where
  "complete_job_sync job_id memo ledger topology metadata = on_table ''jobs'' jobs_columns (\<lambda>d.
     (Inr (), d\<lparr>db_jobs := map (\<lambda>j. if jb_job_id j = job_id
        then j\<lparr>jb_status := ''completed'', jb_memo := Some memo, jb_provenance_ledger := ledger,
               jb_topology_snapshot := topology, jb_run_metadata := metadata\<rparr> else j) (db_jobs d)\<rparr>))"

definition get_job_sync :: "string \<Rightarrow> job_record option db_op" where
  "get_job_sync job_id = on_table ''jobs'' jobs_columns (\<lambda>d.
     (Inr (find (\<lambda>j. jb_job_id j = job_id) (db_jobs d)), d))"

text \<open>SQLite's \<^verbatim>\<open>datetime\<close> of the UTC time stamps that \<open>create_job\<close> writes: date and whole seconds.\<close>

definition sql_datetime :: "string \<Rightarrow> string" where
  "sql_datetime s = take 10 s @ '' '' @ take 8 (drop 11 s)"

definition jobs_by_time :: "db \<Rightarrow> job_record list" where
  "jobs_by_time d = sort_key (\<lambda>j. sql_datetime (jb_created_at j)) (db_jobs d)"

definition get_latest_job_sync :: "job_record option db_op" where
  "get_latest_job_sync = on_table ''jobs'' jobs_columns (\<lambda>d.
     (Inr (if jobs_by_time d = [] then None else Some (last (jobs_by_time d))), d))"

definition stored_updates :: "job_record \<Rightarrow> jobject list" where
  "stored_updates j =
     (case dget (jb_run_metadata j) ''reputation_updates'' of None \<Rightarrow> [] | Some v \<Rightarrow> objects_in v)"

definition get_reputation_leaderboard_sync :: "ledger_entry list db_op" where
  "get_reputation_leaderboard_sync = on_table ''jobs'' [''run_metadata'', ''status'', ''created_at''] (\<lambda>d.
     let done_jobs = filter (\<lambda>j. jb_status j = ''completed'') (jobs_by_time d) in
     (build_reputation_leaderboard (map UpdateDict (concat (map stored_updates done_jobs))), d))"

subsection \<open>The chain index\<close>

text \<open>Python integers are bound as SQLite integers of 64 bits; a larger one raises.\<close>

definition sql_int :: "int \<Rightarrow> bool" where
  "sql_int i \<longleftrightarrow> - (2 ^ 63) \<le> i \<and> i < 2 ^ 63"

definition bind_ints :: "int list \<Rightarrow> 'a db_op \<Rightarrow> 'a db_op" where
  "bind_ints is f d = (if list_all sql_int is then f d else (Inl OverflowError, d))"

definition insert_or_ignore :: "indexed_event list \<Rightarrow> indexed_event \<Rightarrow> indexed_event list" where
  "insert_or_ignore rows e = (if event_id e \<in> event_id ` set rows then rows else rows @ [e])"

definition put_events :: "indexed_event list \<Rightarrow> db \<Rightarrow> db" where
  "put_events events d = d\<lparr>db_events := foldl insert_or_ignore (db_events d) events\<rparr>"

definition put_blocks :: "indexed_block list \<Rightarrow> db \<Rightarrow> db" where
  "put_blocks blocks d =
     d\<lparr>db_blocks := dmerge (db_blocks d) (map (\<lambda>b. (ib_block_number b, ib_block_hash b)) blocks)\<rparr>"

definition delete_rows_from :: "int \<Rightarrow> db \<Rightarrow> db" where
  "delete_rows_from n d =
     d\<lparr>db_events := filter (\<lambda>e. ie_block_number e < n) (db_events d),
       db_blocks := filter (\<lambda>(b, _). b < n) (db_blocks d)\<rparr>"

definition put_cursor :: "indexer_cursor \<Rightarrow> db \<Rightarrow> db" where
  "put_cursor c d = d\<lparr>db_cursors := dset (db_cursors d) (cu_name c) c\<rparr>"

definition store_indexed_chain_events_sync :: "indexed_event list \<Rightarrow> unit db_op" where
  "store_indexed_chain_events_sync events =
     on_table ''indexed_chain_events'' events_columns
     (bind_ints (concat (map (\<lambda>e. [ie_block_number e, ie_log_index e]) events))
       (\<lambda>d. (Inr (), put_events events d)))"

definition store_indexed_chain_blocks_sync :: "indexed_block list \<Rightarrow> unit db_op" where
  "store_indexed_chain_blocks_sync blocks =
     on_table ''indexed_chain_blocks'' blocks_columns
     (bind_ints (map ib_block_number blocks) (\<lambda>d. (Inr (), put_blocks blocks d)))"

definition get_indexed_chain_block_hashes_sync :: "int \<Rightarrow> int \<Rightarrow> (int, string) pydict db_op" where
  "get_indexed_chain_block_hashes_sync from_block to_block =
     on_table ''indexed_chain_blocks'' [''block_number'', ''block_hash'']
     (bind_ints [from_block, to_block]
       (\<lambda>d. (Inr (filter (\<lambda>(n, _). from_block \<le> n \<and> n \<le> to_block) (db_blocks d)), d)))"

definition delete_indexed_chain_from_block_sync :: "int \<Rightarrow> unit db_op" where
  "delete_indexed_chain_from_block_sync n =
     on_table ''indexed_chain_events'' [''block_number'']
     (on_table ''indexed_chain_blocks'' [''block_number'']
     (bind_ints [n] (\<lambda>d. (Inr (), delete_rows_from n d))))"

definition get_indexed_chain_projection_sync :: "chain_projection db_op" where
  "get_indexed_chain_projection_sync =
     on_table ''indexed_chain_events'' (removeAll ''indexed_at'' (removeAll ''event_id'' events_columns))
     (\<lambda>d. (build_chain_events_projection (sort_key position (db_events d)), d))"

definition get_indexer_cursor_sync :: "string \<Rightarrow> indexer_cursor option db_op" where
  "get_indexer_cursor_sync name =
     on_table ''indexer_cursors'' (removeAll ''updated_at'' cursors_columns) (\<lambda>d. (Inr (dget (db_cursors d) name), d))"

definition save_indexer_cursor_sync :: "indexer_cursor \<Rightarrow> unit db_op" where
  "save_indexer_cursor_sync c =
     on_table ''indexer_cursors'' cursors_columns
     (bind_ints [cu_last_indexed_block c, cu_last_safe_block c] (\<lambda>d. (Inr (), put_cursor c d)))"

subsection \<open>The store object\<close>

record job_store =
  js_database_url :: string
  js_database_path :: string
  js_initialized :: bool
  js_db :: db

definition sqlite_prefix :: string where "sqlite_prefix = ''sqlite:///''"

definition parse_database_path :: "string \<Rightarrow> string res" where
  "parse_database_path url =
     (if \<not> starts_with sqlite_prefix url then Inl (ValueError ''Only sqlite:/// database URLs are supported.'')
      else let raw = remove_prefix sqlite_prefix url in
        if raw = [] then Inl (ValueError ''DATABASE_URL must include a SQLite path.'')
        else if raw = '':memory:'' then Inl (ValueError ''Use a temporary SQLite file instead of :memory:.'')
        else Inr raw)"

text \<open>\<open>env\<close> is the value of \<^verbatim>\<open>DATABASE_URL\<close>, and \<open>file\<close> what the database file holds.\<close>

definition make_job_store :: "string option \<Rightarrow> string option \<Rightarrow> db \<Rightarrow> job_store res" where
  "make_job_store database_url env file =
     (let fallback = (case env of None \<Rightarrow> ''sqlite:///./signal_count.db'' | Some v \<Rightarrow> v);
          url = (case database_url of None \<Rightarrow> fallback | Some u \<Rightarrow> if u = [] then fallback else u)
      in res_bind (parse_database_path url) (\<lambda>path.
           Inr \<lparr>js_database_url = url, js_database_path = path, js_initialized = False, js_db = file\<rparr>))"

text \<open>A failed initialization leaves the flag unset, so that the next operation tries again.\<close>

definition initialize :: "job_store \<Rightarrow> unit res \<times> job_store" where
  "initialize s =
     (if js_initialized s then (Inr (), s)
      else case initialize_sync (js_db s) of
        (Inl e, d) \<Rightarrow> (Inl e, s\<lparr>js_db := d\<rparr>)
      | (Inr _, d) \<Rightarrow> (Inr (), s\<lparr>js_db := d, js_initialized := True\<rparr>))"

definition opened_store :: "job_store \<Rightarrow> job_store" where "opened_store s = snd (initialize s)"

text \<open>\<^verbatim>\<open>await self.initialize()\<close> and then the synchronous operation on a worker thread.\<close>

definition run_sync :: "'a db_op \<Rightarrow> job_store \<Rightarrow> 'a res \<times> job_store" where
  "run_sync f s =
     (case initialize s of
        (Inl e, s1) \<Rightarrow> (Inl e, s1)
      | (Inr _, s1) \<Rightarrow> (case f (js_db s1) of (r, d) \<Rightarrow> (r, s1\<lparr>js_db := d\<rparr>)))"

text \<open>\<open>new_id\<close> is the fresh UUID and \<open>now\<close> the UTC time stamp.\<close>

definition pending_job :: "string \<Rightarrow> string \<Rightarrow> thesis_request \<Rightarrow> job_record" where
  "pending_job new_id now payload =
     \<lparr>jb_job_id = new_id, jb_status = ''pending'', jb_payload = thesis_request_json payload, jb_memo = None,
      jb_provenance_ledger = [], jb_topology_snapshot = None, jb_run_metadata = [], jb_created_at = now\<rparr>"

definition create_job ::
    "string \<Rightarrow> string \<Rightarrow> thesis_request \<Rightarrow> job_store \<Rightarrow> job_record res \<times> job_store" where
  "create_job new_id now payload s =
     (let job = pending_job new_id now payload in
      case run_sync (insert_job_sync job) s of
        (Inl e, s') \<Rightarrow> (Inl e, s')
      | (Inr _, s') \<Rightarrow> (Inr job, s'))"

definition complete_job ::
    "string \<Rightarrow> final_memo \<Rightarrow> json list option \<Rightarrow> json option \<Rightarrow> jobject option \<Rightarrow> job_store \<Rightarrow> unit res \<times> job_store" where
  "complete_job job_id memo ledger topology metadata s =
     run_sync (complete_job_sync job_id (final_memo_json memo)
       (case ledger of None \<Rightarrow> [] | Some l \<Rightarrow> l) topology
       (case metadata of None \<Rightarrow> [] | Some m \<Rightarrow> m)) s"

definition get_job :: "string \<Rightarrow> job_store \<Rightarrow> job_record option res \<times> job_store" where
  "get_job job_id = run_sync (get_job_sync job_id)"

definition get_latest_job :: "job_store \<Rightarrow> job_record option res \<times> job_store" where
  "get_latest_job = run_sync get_latest_job_sync"

definition get_reputation_leaderboard :: "job_store \<Rightarrow> ledger_entry list res \<times> job_store" where
  "get_reputation_leaderboard = run_sync get_reputation_leaderboard_sync"

definition store_indexed_chain_events :: "indexed_event list \<Rightarrow> job_store \<Rightarrow> unit res \<times> job_store" where
  "store_indexed_chain_events events = run_sync (store_indexed_chain_events_sync events)"

definition store_indexed_chain_blocks :: "indexed_block list \<Rightarrow> job_store \<Rightarrow> unit res \<times> job_store" where
  "store_indexed_chain_blocks blocks = run_sync (store_indexed_chain_blocks_sync blocks)"

definition get_indexed_chain_block_hashes ::
    "int \<Rightarrow> int \<Rightarrow> job_store \<Rightarrow> (int, string) pydict res \<times> job_store" where
  "get_indexed_chain_block_hashes from_block to_block = run_sync (get_indexed_chain_block_hashes_sync from_block to_block)"

definition delete_indexed_chain_from_block :: "int \<Rightarrow> job_store \<Rightarrow> unit res \<times> job_store" where
  "delete_indexed_chain_from_block n = run_sync (delete_indexed_chain_from_block_sync n)"

definition get_indexed_chain_projection :: "job_store \<Rightarrow> chain_projection res \<times> job_store" where
  "get_indexed_chain_projection = run_sync get_indexed_chain_projection_sync"

definition get_indexer_cursor :: "string \<Rightarrow> job_store \<Rightarrow> indexer_cursor option res \<times> job_store" where
  "get_indexer_cursor name = run_sync (get_indexer_cursor_sync name)"

definition save_indexer_cursor :: "indexer_cursor \<Rightarrow> job_store \<Rightarrow> unit res \<times> job_store" where
  "save_indexer_cursor c = run_sync (save_indexer_cursor_sync c)"

subsection \<open>Migrations\<close>

text \<open>A file of an earlier release: where a table exists it has the columns of its first version.\<close>

definition earlier_schema :: "db \<Rightarrow> bool" where
  "earlier_schema d \<longleftrightarrow>
     (dget (db_schema d) ''jobs'' \<noteq> None \<longrightarrow>
        has_columns d ''jobs'' [''job_id'', ''status'', ''thesis_payload'', ''memo'', ''created_at'']) \<and>
     (dget (db_schema d) ''indexed_chain_events'' \<noteq> None \<longrightarrow>
        has_columns d ''indexed_chain_events'' (removeAll ''block_hash'' events_columns)) \<and>
     (dget (db_schema d) ''indexed_chain_blocks'' \<noteq> None \<longrightarrow> has_columns d ''indexed_chain_blocks'' blocks_columns) \<and>
     (dget (db_schema d) ''indexer_cursors'' \<noteq> None \<longrightarrow> has_columns d ''indexer_cursors'' cursors_columns)"

text \<open>
  What the rows must be after the migration, column by column: a column the file had keeps its stored
  value, one it lacked reads as an empty ledger, no topology, empty run metadata, an empty block hash.
\<close>

definition migrated_job :: "string list \<Rightarrow> job_record \<Rightarrow> job_record" where
  "migrated_job cols j = j
     \<lparr>jb_provenance_ledger := (if ''provenance_ledger'' \<in> set cols then jb_provenance_ledger j else []),
      jb_topology_snapshot := (if ''topology_snapshot'' \<in> set cols then jb_topology_snapshot j else None),
      jb_run_metadata := (if ''run_metadata'' \<in> set cols then jb_run_metadata j else [])\<rparr>"

definition migrated_event :: "string list \<Rightarrow> indexed_event \<Rightarrow> indexed_event" where
  "migrated_event cols e = e\<lparr>ie_block_hash := (if ''block_hash'' \<in> set cols then ie_block_hash e else [])\<rparr>"

definition has_table :: "db \<Rightarrow> string \<Rightarrow> bool" where
  "has_table d name \<longleftrightarrow> dget (db_schema d) name \<noteq> None"

lemma has_columns_names: "has_columns d n cs \<longleftrightarrow> has_table d n \<and> set cs \<subseteq> set (column_names d n)"
  by (auto simp: has_columns_def has_table_def column_names_def dget_or_def split: option.splits)

lemma create_table_schema [simp]:
  "has_table (create_table n cs d) m \<longleftrightarrow> m = n \<or> has_table d m"
  "column_names (create_table n cs d) m = (if m = n \<and> \<not> has_table d n then map co_name cs else column_names d m)"
  by (auto simp: create_table_def clear_table_def has_table_def column_names_def dget_or_def split: option.splits)

lemma create_table_rows [simp]:
  "db_jobs (create_table n cs d) = (if n = ''jobs'' \<and> \<not> has_table d n then [] else db_jobs d)"
  "db_events (create_table n cs d) = (if n = ''indexed_chain_events'' \<and> \<not> has_table d n then [] else db_events d)"
  "db_blocks (create_table n cs d) = (if n = ''indexed_chain_blocks'' \<and> \<not> has_table d n then [] else db_blocks d)"
  "db_cursors (create_table n cs d) = (if n = ''indexer_cursors'' \<and> \<not> has_table d n then [] else db_cursors d)"
  by (auto simp: create_table_def clear_table_def has_table_def split: option.splits)

lemma create_table_id: "has_table d n \<Longrightarrow> create_table n cs d = d"
  by (auto simp: create_table_def has_table_def)

text \<open>The effect of one guarded \<^verbatim>\<open>ALTER TABLE\<close>, on the columns and on the rows.\<close>

definition with_column :: "string \<Rightarrow> column \<Rightarrow> db \<Rightarrow> db" where
  "with_column n c d =
     (if co_name c \<in> set (column_names d n) then d
      else fill_column n (co_name c) (case co_default c of None \<Rightarrow> JNull | Some v \<Rightarrow> v)
             (d\<lparr>db_schema := dset (db_schema d) n (dget_or (db_schema d) n [] @ [c])\<rparr>))"

lemma guarded_add_column:
  assumes "has_table d n" "co_not_null c \<longrightarrow> co_default c \<noteq> None" "b \<longleftrightarrow> co_name c \<in> set (column_names d n)"
  shows "db_unless b (add_column n c) d = (Inr (), with_column n c d)"
  using assms
  by (auto simp: db_unless_def add_column_def with_column_def column_names_def has_table_def dget_or_def split: option.splits)

lemma db_then_ok [simp]: "f d = (Inr (), d') \<Longrightarrow> db_then f g d = g d'"
  by (simp add: db_then_def)

lemma with_column_schema [simp]:
  "has_table (with_column n c d) m \<longleftrightarrow> has_table d m \<or> (m = n \<and> co_name c \<notin> set (column_names d n))"
  "column_names (with_column n c d) m =
     (if m = n \<and> co_name c \<notin> set (column_names d n) then column_names d n @ [co_name c] else column_names d m)"
  by (auto simp: with_column_def fill_column_def has_table_def column_names_def dget_or_def)

lemma with_column_rows [simp]:
  "db_jobs (with_column n c d) =
     (if n = ''jobs'' \<and> co_name c \<notin> set (column_names d n)
      then map (fill_job (co_name c) (case co_default c of None \<Rightarrow> JNull | Some v \<Rightarrow> v)) (db_jobs d) else db_jobs d)"
  "db_events (with_column n c d) =
     (if n = ''indexed_chain_events'' \<and> co_name c \<notin> set (column_names d n)
      then map (fill_event (co_name c) (case co_default c of None \<Rightarrow> JNull | Some v \<Rightarrow> v)) (db_events d) else db_events d)"
  "db_blocks (with_column n c d) = db_blocks d" "db_cursors (with_column n c d) = db_cursors d"
  by (simp_all add: with_column_def fill_column_def)

lemma with_column_id: "co_name c \<in> set (column_names d n) \<Longrightarrow> with_column n c d = d"
  by (simp add: with_column_def)

definition all_tables :: "db \<Rightarrow> db" where
  "all_tables d =
     create_table ''indexer_cursors'' cursors_table (create_table ''indexed_chain_blocks'' blocks_table
       (create_table ''indexed_chain_events'' events_table (create_table ''jobs'' jobs_table d)))"

definition all_columns :: "db \<Rightarrow> db" where
  "all_columns d =
     with_column ''indexed_chain_events'' (not_null_default ''TEXT'' ''block_hash'' (JStr []))
     (with_column ''jobs'' (not_null_default ''TEXT'' ''run_metadata'' (JObj []))
     (with_column ''jobs'' (nullable ''TEXT'' ''topology_snapshot'')
     (with_column ''jobs'' (not_null_default ''TEXT'' ''provenance_ledger'' (JList [])) d)))"

lemma initialize_sync_eq: "initialize_sync d = (Inr (), all_columns (all_tables d))"
proof -
  let ?d1 = "all_tables d"
  let ?d2 = "with_column ''jobs'' (not_null_default ''TEXT'' ''provenance_ledger'' (JList [])) ?d1"
  let ?d3 = "with_column ''jobs'' (nullable ''TEXT'' ''topology_snapshot'') ?d2"
  let ?d4 = "with_column ''jobs'' (not_null_default ''TEXT'' ''run_metadata'' (JObj [])) ?d3"
  have t: "has_table ?d1 ''jobs''" "has_table ?d1 ''indexed_chain_events''" by (simp_all add: all_tables_def)
  have "db_unless (''provenance_ledger'' \<in> set (column_names ?d1 ''jobs''))
      (add_column ''jobs'' (not_null_default ''TEXT'' ''provenance_ledger'' (JList []))) ?d1 = (Inr (), ?d2)"
    using t by (intro guarded_add_column) simp_all
  moreover have "db_unless (''topology_snapshot'' \<in> set (column_names ?d1 ''jobs''))
      (add_column ''jobs'' (nullable ''TEXT'' ''topology_snapshot'')) ?d2 = (Inr (), ?d3)"
    using t by (intro guarded_add_column) simp_all
  moreover have "db_unless (''run_metadata'' \<in> set (column_names ?d1 ''jobs''))
      (add_column ''jobs'' (not_null_default ''TEXT'' ''run_metadata'' (JObj []))) ?d3 = (Inr (), ?d4)"
    using t by (intro guarded_add_column) simp_all
  moreover have "db_unless (''block_hash'' \<in> set (column_names ?d4 ''indexed_chain_events''))
      (add_column ''indexed_chain_events'' (not_null_default ''TEXT'' ''block_hash'' (JStr []))) ?d4 =
      (Inr (), all_columns ?d1)"
    unfolding all_columns_def using t by (intro guarded_add_column) simp_all
  ultimately show ?thesis
    unfolding initialize_sync_def Let_def all_tables_def [symmetric] by simp
qed

lemma earlier_columns:
  assumes "earlier_schema d"
  shows "set jobs_columns \<subseteq> set (column_names (all_tables d) ''jobs'') \<union>
      {''provenance_ledger'', ''topology_snapshot'', ''run_metadata''}"
    and "set events_columns \<subseteq> insert ''block_hash'' (set (column_names (all_tables d) ''indexed_chain_events''))"
    and "set blocks_columns \<subseteq> set (column_names (all_tables d) ''indexed_chain_blocks'')"
    and "set cursors_columns \<subseteq> set (column_names (all_tables d) ''indexer_cursors'')"
  using assms unfolding earlier_schema_def has_columns_names has_table_def [symmetric]
  by (auto simp: all_tables_def table_names jobs_columns_def)

lemma initialize_ready:
  assumes "earlier_schema d"
  shows "schema_ready (all_columns (all_tables d))"
proof -
  have "has_table (all_tables d) n" if "n \<in> {''jobs'', ''indexed_chain_events'', ''indexed_chain_blocks'', ''indexer_cursors''}" for n
    using that by (auto simp: all_tables_def)
  then show ?thesis
    using earlier_columns [OF assms] unfolding schema_ready_def has_columns_names
    by (auto simp: all_columns_def)
qed

lemma initialize_ready_id: "schema_ready d \<Longrightarrow> initialize_sync d = (Inr (), d)"
  unfolding initialize_sync_eq schema_ready_def has_columns_names
  by (simp add: all_tables_def create_table_id all_columns_def with_column_id jobs_columns_def events_columns_def)

lemma map_unless: "(if b then map f xs else xs) = map (\<lambda>x. if b then f x else x) xs"
  by simp

lemma migrated_jobs: "db_jobs (all_columns d) = map (migrated_job (column_names d ''jobs'')) (db_jobs d)"
proof -
  have "fill_job ''run_metadata'' (JObj []) j = j\<lparr>jb_run_metadata := []\<rparr>"
    "fill_job ''topology_snapshot'' JNull j = j\<lparr>jb_topology_snapshot := None\<rparr>"
    "fill_job ''provenance_ledger'' (JList []) j = j\<lparr>jb_provenance_ledger := []\<rparr>" for j
    by (simp_all add: fill_job_def)
  note fill = this
  show ?thesis
    by (simp add: all_columns_def fill map_unless) (simp add: migrated_job_def)
qed

lemma migrated_events:
  "db_events (all_columns d) = map (migrated_event (column_names d ''indexed_chain_events'')) (db_events d)"
  by (simp add: all_columns_def fill_event_def map_unless) (simp add: migrated_event_def)

lemma migrated_rows:
  "db_jobs (all_columns (all_tables d)) =
     (if has_table d ''jobs'' then map (migrated_job (column_names d ''jobs'')) (db_jobs d) else [])"
  "db_events (all_columns (all_tables d)) =
     (if has_table d ''indexed_chain_events''
      then map (migrated_event (column_names d ''indexed_chain_events'')) (db_events d) else [])"
  "db_blocks (all_columns (all_tables d)) = (if has_table d ''indexed_chain_blocks'' then db_blocks d else [])"
  "db_cursors (all_columns (all_tables d)) = (if has_table d ''indexer_cursors'' then db_cursors d else [])"
  unfolding migrated_jobs migrated_events by (simp_all add: all_tables_def) (simp_all add: all_columns_def)

lemma schema_ready_cong: "db_schema d = db_schema d' \<Longrightarrow> schema_ready d = schema_ready d'"
  by (simp add: schema_ready_def has_columns_def)

lemma schema_ready_update [simp]:
  "schema_ready (d\<lparr>db_jobs := js\<rparr>) = schema_ready d" "schema_ready (put_events es d) = schema_ready d"
  "schema_ready (put_blocks bs d) = schema_ready d" "schema_ready (put_cursor c d) = schema_ready d"
  "schema_ready (delete_rows_from n d) = schema_ready d"
  by (rule schema_ready_cong, simp add: put_events_def put_blocks_def put_cursor_def delete_rows_from_def)+

lemma has_columns_mono: "has_columns d n cs \<Longrightarrow> set cs' \<subseteq> set cs \<Longrightarrow> has_columns d n cs'"
  by (auto simp: has_columns_def split: option.splits)

lemma on_table_ready:
  "schema_ready d \<Longrightarrow> set cs \<subseteq> set jobs_columns \<Longrightarrow> on_table ''jobs'' cs f d = f d"
  "schema_ready d \<Longrightarrow> set cs \<subseteq> set events_columns \<Longrightarrow> on_table ''indexed_chain_events'' cs g d = g d"
  "schema_ready d \<Longrightarrow> set cs \<subseteq> set blocks_columns \<Longrightarrow> on_table ''indexed_chain_blocks'' cs h d = h d"
  "schema_ready d \<Longrightarrow> set cs \<subseteq> set cursors_columns \<Longrightarrow> on_table ''indexer_cursors'' cs k d = k d"
  unfolding schema_ready_def on_table_def by (metis has_columns_mono)+

lemma find_map_key: "(\<And>x. key (f x) = key x) \<Longrightarrow>
    find (\<lambda>x. key x = k) (map f xs) = map_option f (find (\<lambda>x. key x = k) xs)"
  by (induction xs) auto

lemma migrated_reads:
  assumes "earlier_schema d" "has_table d ''jobs''"
  shows "fst (get_job_sync k (all_columns (all_tables d))) =
     Inr (map_option (migrated_job (column_names d ''jobs'')) (find (\<lambda>j. jb_job_id j = k) (db_jobs d)))"
  by (simp add: get_job_sync_def on_table_ready(1) [OF initialize_ready [OF assms(1)]] migrated_rows assms(2)
      find_map_key migrated_job_def)

text \<open>C14: Opening the store migrates any file of an earlier release: no statement fails, every table then
  has every column the statements use, the rows of every table that existed are kept in order with each
  column that was stored unchanged, a job stored before a column existed reads back with an empty
  ledger, no topology or empty run metadata in its place and an event with an empty block hash, and
  opening again changes nothing.\<close>

theorem initialize_migrates:
  assumes "earlier_schema d"
  shows "\<exists>d'. initialize_sync d = (Inr (), d') \<and> schema_ready d' \<and> initialize_sync d' = (Inr (), d') \<and>
     db_jobs d' = (if has_table d ''jobs'' then map (migrated_job (column_names d ''jobs'')) (db_jobs d) else []) \<and>
     db_events d' = (if has_table d ''indexed_chain_events''
        then map (migrated_event (column_names d ''indexed_chain_events'')) (db_events d) else []) \<and>
     db_blocks d' = (if has_table d ''indexed_chain_blocks'' then db_blocks d else []) \<and>
     db_cursors d' = (if has_table d ''indexer_cursors'' then db_cursors d else []) \<and>
     (\<forall>k. has_table d ''jobs'' \<longrightarrow> fst (get_job_sync k d') =
        Inr (map_option (migrated_job (column_names d ''jobs'')) (find (\<lambda>j. jb_job_id j = k) (db_jobs d))))"
  using initialize_ready [OF assms] migrated_reads [OF assms] initialize_ready_id [OF initialize_ready [OF assms]]
  by (intro exI [of _ "all_columns (all_tables d)"]) (simp add: initialize_sync_eq migrated_rows)

subsection \<open>The life of a job\<close>

lemma find_append': "find P (xs @ ys) = (case find P xs of Some x \<Rightarrow> Some x | None \<Rightarrow> find P ys)"
  by (induction xs) auto

lemma find_update:
  assumes "\<And>x. key (f x) = key x"
  shows "find (\<lambda>x. key x = k) (map (\<lambda>x. if key x = k' then f x else x) xs) =
     (if k = k' then map_option f (find (\<lambda>x. key x = k) xs) else find (\<lambda>x. key x = k) xs)"
  by (induction xs) (auto simp: assms)

lemma find_absent: "k \<notin> key ` set xs \<Longrightarrow> find (\<lambda>x. key x = k) xs = None"
  by (induction xs) auto

text \<open>A store whose file opens, and its row of a job as the operations find it, that is after opening.\<close>

definition store_ready :: "job_store \<Rightarrow> bool" where
  "store_ready s \<longleftrightarrow> schema_ready (js_db (opened_store s))"

definition job_row :: "job_store \<Rightarrow> string \<Rightarrow> job_record option" where
  "job_row s job_id = find (\<lambda>j. jb_job_id j = job_id) (db_jobs (js_db (opened_store s)))"

lemma initialize_eq: "initialize s = (Inr (), opened_store s)" "js_initialized (opened_store s)"
  by (simp_all add: opened_store_def initialize_def initialize_sync_eq)

lemma opened_initialized: "js_initialized s \<Longrightarrow> opened_store s = s"
  by (simp add: opened_store_def initialize_def)

lemma opened_first: "\<not> js_initialized s \<Longrightarrow>
    opened_store s = s\<lparr>js_db := all_columns (all_tables (js_db s)), js_initialized := True\<rparr>"
  by (simp add: opened_store_def initialize_def initialize_sync_eq)

lemma opened_idem [simp]: "opened_store (opened_store s) = opened_store s"
  by (rule opened_initialized) (rule initialize_eq)

lemma opened_update [simp]: "opened_store ((opened_store s)\<lparr>js_db := d\<rparr>) = (opened_store s)\<lparr>js_db := d\<rparr>"
  by (rule opened_initialized) (simp add: initialize_eq)

lemma run_sync_ready:
  "f (js_db (opened_store s)) = (r, d) \<Longrightarrow> run_sync f s = (r, (opened_store s)\<lparr>js_db := d\<rparr>)"
  by (simp add: run_sync_def initialize_eq(1))

lemma get_job_row: "store_ready s \<Longrightarrow> get_job job_id s = (Inr (job_row s job_id), opened_store s)"
  unfolding get_job_def
  by (subst run_sync_ready [where d = "js_db (opened_store s)"])
    (simp_all add: get_job_sync_def store_ready_def on_table_ready job_row_def)

lemma create_job_fresh:
  assumes "store_ready s" "job_row s new_id = None"
  shows "\<exists>s'. create_job new_id now payload s = (Inr (pending_job new_id now payload), s') \<and>
     store_ready s' \<and> (\<forall>k. job_row s' k = (if k = new_id then Some (pending_job new_id now payload) else job_row s k))"
proof -
  let ?j = "pending_job new_id now payload"
  let ?s' = "(opened_store s)\<lparr>js_db := (js_db (opened_store s))\<lparr>db_jobs := db_jobs (js_db (opened_store s)) @ [?j]\<rparr>\<rparr>"
  have fresh: "new_id \<notin> jb_job_id ` set (db_jobs (js_db (opened_store s)))"
    using assms(2) by (auto simp: job_row_def find_None_iff)
  have "insert_job_sync ?j (js_db (opened_store s)) = (Inr (), js_db ?s')"
    using assms(1) fresh by (simp add: insert_job_sync_def on_table_ready store_ready_def pending_job_def)
  then have "create_job new_id now payload s = (Inr ?j, ?s')"
    by (simp add: create_job_def run_sync_ready Let_def)
  moreover have "store_ready ?s'" using assms(1) by (simp add: store_ready_def)
  moreover have "job_row ?s' k = (if k = new_id then Some ?j else job_row s k)" for k
    using assms(2) by (auto simp: job_row_def find_append' pending_job_def split: option.splits)
  ultimately show ?thesis by blast
qed

lemma complete_job_row:
  assumes "store_ready s"
  shows "\<exists>s'. complete_job job_id memo ledger topology metadata s = (Inr (), s') \<and> store_ready s' \<and>
     (\<forall>k. job_row s' k = (if k = job_id then map_option (\<lambda>j. j\<lparr>jb_status := ''completed'',
        jb_memo := Some (final_memo_json memo), jb_provenance_ledger := (case ledger of None \<Rightarrow> [] | Some l \<Rightarrow> l),
        jb_topology_snapshot := topology, jb_run_metadata := (case metadata of None \<Rightarrow> [] | Some m \<Rightarrow> m)\<rparr>)
        (job_row s k) else job_row s k))"
proof -
  let ?upd = "\<lambda>j. j\<lparr>jb_status := ''completed'', jb_memo := Some (final_memo_json memo),
     jb_provenance_ledger := (case ledger of None \<Rightarrow> [] | Some l \<Rightarrow> l),
     jb_topology_snapshot := topology, jb_run_metadata := (case metadata of None \<Rightarrow> [] | Some m \<Rightarrow> m)\<rparr>"
  let ?rows = "map (\<lambda>j. if jb_job_id j = job_id then ?upd j else j) (db_jobs (js_db (opened_store s)))"
  let ?s' = "(opened_store s)\<lparr>js_db := (js_db (opened_store s))\<lparr>db_jobs := ?rows\<rparr>\<rparr>"
  have "complete_job job_id memo ledger topology metadata s = (Inr (), ?s')"
    unfolding complete_job_def
    by (rule run_sync_ready) (use assms in \<open>simp add: complete_job_sync_def on_table_ready store_ready_def\<close>)
  moreover have "store_ready ?s'" using assms by (simp add: store_ready_def)
  moreover have "job_row ?s' k = (if k = job_id then map_option ?upd (job_row s k) else job_row s k)" for k
    unfolding job_row_def by (simp add: find_update [where f = ?upd])
  ultimately show ?thesis by blast
qed

lemma create_job_duplicate:
  assumes "store_ready s" "job_row s new_id \<noteq> None"
  shows "create_job new_id now payload s = (Inl IntegrityError, opened_store s)"
proof -
  have "new_id \<in> jb_job_id ` set (db_jobs (js_db (opened_store s)))"
    using assms(2) find_absent [of new_id jb_job_id "db_jobs (js_db (opened_store s))"] unfolding job_row_def by argo
  then show ?thesis
    using assms(1) by (simp add: create_job_def run_sync_def insert_job_sync_def on_table_ready store_ready_def
      pending_job_def Let_def initialize_eq(1))
qed

text \<open>C15: The life of a job: a fresh identifier is stored as a pending job and read back as it was
  returned, the same identifier cannot be created again, completing it replaces its status, memo and
  run data and nothing else, and no step touches any other job.\<close>

theorem job_lifecycle:
  assumes "store_ready s" "job_row s new_id = None"
  shows "\<exists>s1 s2. create_job new_id now payload s = (Inr (pending_job new_id now payload), s1) \<and>
     fst (get_job new_id s1) = Inr (Some (pending_job new_id now payload)) \<and>
     fst (create_job new_id now' payload' s1) = Inl IntegrityError \<and>
     complete_job new_id memo ledger topology metadata s1 = (Inr (), s2) \<and>
     fst (get_job new_id s2) = Inr (Some ((pending_job new_id now payload)
       \<lparr>jb_status := ''completed'', jb_memo := Some (final_memo_json memo),
        jb_provenance_ledger := (case ledger of None \<Rightarrow> [] | Some l \<Rightarrow> l),
        jb_topology_snapshot := topology, jb_run_metadata := (case metadata of None \<Rightarrow> [] | Some m \<Rightarrow> m)\<rparr>)) \<and>
     (\<forall>k. k \<noteq> new_id \<longrightarrow> fst (get_job k s1) = fst (get_job k s) \<and> fst (get_job k s2) = fst (get_job k s))"
proof -
  obtain s1 where s1: "create_job new_id now payload s = (Inr (pending_job new_id now payload), s1)"
      "store_ready s1" "\<forall>k. job_row s1 k = (if k = new_id then Some (pending_job new_id now payload) else job_row s k)"
    using create_job_fresh [OF assms] by blast
  from complete_job_row [OF s1(2), of new_id memo ledger topology metadata] obtain s2 where
    s2: "complete_job new_id memo ledger topology metadata s1 = (Inr (), s2)" "store_ready s2"
      "\<forall>k. job_row s2 k = (if k = new_id then map_option (\<lambda>j. j\<lparr>jb_status := ''completed'',
        jb_memo := Some (final_memo_json memo), jb_provenance_ledger := (case ledger of None \<Rightarrow> [] | Some l \<Rightarrow> l),
        jb_topology_snapshot := topology, jb_run_metadata := (case metadata of None \<Rightarrow> [] | Some m \<Rightarrow> m)\<rparr>)
        (job_row s1 k) else job_row s1 k)" by blast
  have "fst (create_job new_id now' payload' s1) = Inl IntegrityError"
    using create_job_duplicate [OF s1(2)] s1(3) by simp
  then show ?thesis using s1 s2 assms(1) by (simp add: get_job_row)
qed

subsection \<open>The latest job\<close>

lemma last_sorted_split:
  "xs \<noteq> [] \<Longrightarrow> \<exists>ys zs. xs = ys @ last (sort_key f xs) # zs \<and>
     (\<forall>y \<in> set ys. f y \<le> f (last (sort_key f xs))) \<and> (\<forall>z \<in> set zs. f z < f (last (sort_key f xs)))"
proof -
  assume ne: "xs \<noteq> []"
  let ?s = "sort_key f xs" and ?m = "last (sort_key f xs)"
  have nes: "?s \<noteq> []" using ne by (metis set_empty set_sort)
  then have decomp: "?s = butlast ?s @ [?m]" by simp
  have "sorted (map f (butlast ?s @ [?m]))" using decomp by (metis sorted_sort_key)
  moreover have "set xs = set (butlast ?s @ [?m])" using decomp by (metis set_sort)
  ultimately have le: "f x \<le> f ?m" if "x \<in> set xs" for x
    using that by (simp only: sorted_append map_append) auto
  let ?P = "\<lambda>x. f x = f ?m"
  have "last (filter ?P xs) = last (filter ?P ?s)" using sort_key_filter_key [of f "f ?m" xs] by simp
  also have "\<dots> = ?m" by (subst decomp) simp
  finally have last: "last (filter ?P xs) = ?m" .
  have "?m \<in> set xs" using last_in_set [OF nes] by simp
  then have nf: "filter ?P xs \<noteq> []" by (auto simp: filter_empty_conv)
  obtain us x vs where split: "xs = us @ x # vs" "?P x" "\<forall>v \<in> set vs. \<not> ?P v"
    using nf split_list_last_prop [of xs ?P] by (auto simp: filter_empty_conv)
  have "filter ?P xs = filter ?P us @ [x]" using split by (simp add: filter_False)
  with last have "x = ?m" by simp
  moreover have "f v < f ?m" if "v \<in> set vs" for v
  proof -
    have "v \<in> set xs" using that split(1) by simp
    from le [OF this] show ?thesis using split(3) that by fastforce
  qed
  ultimately show ?thesis using split le by (metis Un_iff set_append)
qed

text \<open>The latest job is the row with the greatest creation second, and among those the one
  inserted last; there is none exactly when no job was stored.\<close>

theorem latest_job_is_newest:
  assumes "store_ready s"
  shows "fst (get_latest_job s) = Inr None \<and> db_jobs (js_db (opened_store s)) = [] \<or>
     (\<exists>j older newer. fst (get_latest_job s) = Inr (Some j) \<and> db_jobs (js_db (opened_store s)) = older @ j # newer \<and>
        (\<forall>i \<in> set older. sql_datetime (jb_created_at i) \<le> sql_datetime (jb_created_at j)) \<and>
        (\<forall>i \<in> set newer. sql_datetime (jb_created_at i) < sql_datetime (jb_created_at j)))"
proof -
  have "fst (get_latest_job s) =
      Inr (if jobs_by_time (js_db (opened_store s)) = [] then None else Some (last (jobs_by_time (js_db (opened_store s)))))"
    using assms
    by (simp add: get_latest_job_def run_sync_def get_latest_job_sync_def on_table_ready store_ready_def initialize_eq(1))
  moreover have "jobs_by_time (js_db (opened_store s)) = [] \<longleftrightarrow> db_jobs (js_db (opened_store s)) = []"
    unfolding jobs_by_time_def by (metis set_empty set_sort)
  ultimately show ?thesis
    using last_sorted_split [of "db_jobs (js_db (opened_store s))" "\<lambda>j. sql_datetime (jb_created_at j)"]
    by (fastforce simp: jobs_by_time_def)
qed

subsection \<open>The stored leaderboard\<close>

text \<open>The run data of a completed job, as the coordinator builds it, holds these updates.\<close>

definition carries_updates :: "job_record \<Rightarrow> reputation_update list \<Rightarrow> bool" where
  "carries_updates j us \<longleftrightarrow>
     dget (jb_run_metadata j) ''reputation_updates'' = Some (JList (map (\<lambda>u. JObj (reputation_update_fields u)) us)) \<and>
     list_all (\<lambda>u. ru_agent_wallet u \<noteq> Some []) us"

definition completed_jobs :: "job_store \<Rightarrow> job_record list" where
  "completed_jobs s = filter (\<lambda>j. jb_status j = ''completed'') (jobs_by_time (js_db (opened_store s)))"

lemma some_values_Some [simp]: "some_values (map (\<lambda>x. Some (f x)) xs) = map f xs"
  by (induction xs) (simp_all add: some_values_def)

lemma stored_updates_carried: "carries_updates j us \<Longrightarrow> stored_updates j = map reputation_update_fields us"
  by (simp add: carries_updates_def stored_updates_def objects_in_def comp_def)

lemma map_res_map: "map_res f (map g xs) = map_res (\<lambda>x. f (g x)) xs"
  by (induction xs) (simp_all split: sum.split)

lemma coerce_carried:
  assumes "list_all (\<lambda>j. carries_updates j (us j)) js"
  shows "map_res coerce_raw (map UpdateDict (concat (map stored_updates js))) = Inr (concat (map us js))"
proof -
  let ?us = "concat (map us js)"
  have st: "map stored_updates js = map (\<lambda>j. map reputation_update_fields (us j)) js"
    using assms by (auto simp: list_all_iff stored_updates_carried)
  have raw: "map UpdateDict (concat (map stored_updates js)) = map (\<lambda>u. UpdateDict (reputation_update_fields u)) ?us"
    unfolding st by (simp add: map_concat comp_def)
  have "ru_agent_wallet u \<noteq> Some []" if "u \<in> set ?us" for u
    using assms that by (auto simp: list_all_iff carries_updates_def)
  then have "map_res (\<lambda>u. coerce_raw (UpdateDict (reputation_update_fields u))) ?us = Inr (map (\<lambda>u. u) ?us)"
    by (intro map_res_pure) (simp add: coerce_raw_def coerce_update_roundtrip)
  then show ?thesis unfolding raw map_res_map by simp
qed

text \<open>The leaderboard the store serves is the ledger of the updates of the completed jobs, oldest
  job first: every stored update is read back exactly, jobs that are still pending do not count, and
  serving it changes no row.\<close>

theorem stored_leaderboard:
  assumes "store_ready s" and "list_all (\<lambda>j. carries_updates j (us j)) (completed_jobs s)"
  shows "get_reputation_leaderboard s = (Inr (leaderboard_of (concat (map us (completed_jobs s)))), opened_store s)"
proof -
  have "get_reputation_leaderboard_sync (js_db (opened_store s)) =
      (Inr (leaderboard_of (concat (map us (completed_jobs s)))), js_db (opened_store s))"
    using assms coerce_carried [OF assms(2)]
    by (simp add: get_reputation_leaderboard_sync_def on_table_ready jobs_columns_def store_ready_def Let_def
        build_reputation_leaderboard_def completed_jobs_def)
  from run_sync_ready [where f = get_reputation_leaderboard_sync, OF this] show ?thesis by (simp add: get_reputation_leaderboard_def)
qed

subsection \<open>The interface of the chain index\<close>

text \<open>
  What the scheduler relies on: the rows of events, the block hashes and the cursors seen through
  \<open>rows\<close>, \<open>hash_at\<close> and \<open>cursor_at\<close>, and one law per operation for each of the three views.
\<close>

locale chain_index =
  fixes rows :: "'d \<Rightarrow> indexed_event list"
    and hash_at :: "'d \<Rightarrow> int \<Rightarrow> string option"
    and cursor_at :: "'d \<Rightarrow> string \<Rightarrow> indexer_cursor option"
    and prune :: "int \<Rightarrow> 'd \<Rightarrow> 'd"
    and put_headers :: "indexed_block list \<Rightarrow> 'd \<Rightarrow> 'd"
    and put_rows :: "indexed_event list \<Rightarrow> 'd \<Rightarrow> 'd"
    and put_mark :: "indexer_cursor \<Rightarrow> 'd \<Rightarrow> 'd"
  assumes rows_prune: "rows (prune n d) = filter (\<lambda>e. ie_block_number e < n) (rows d)"
    and hash_prune: "hash_at (prune n d) b = (if b < n then hash_at d b else None)"
    and cursor_prune: "cursor_at (prune n d) c = cursor_at d c"
    and rows_headers: "rows (put_headers hs d) = rows d"
    and hash_headers: "hash_at (put_headers hs d) b =
      (case map_of (rev (map (\<lambda>h. (ib_block_number h, ib_block_hash h)) hs)) b of Some h \<Rightarrow> Some h | None \<Rightarrow> hash_at d b)"
    and cursor_headers: "cursor_at (put_headers hs d) c = cursor_at d c"
    and rows_rows: "rows (put_rows es d) = foldl insert_or_ignore (rows d) es"
    and hash_rows: "hash_at (put_rows es d) b = hash_at d b"
    and cursor_rows: "cursor_at (put_rows es d) c = cursor_at d c"
    and rows_mark: "rows (put_mark m d) = rows d"
    and hash_mark: "hash_at (put_mark m d) b = hash_at d b"
    and cursor_mark: "cursor_at (put_mark m d) c = (if c = cu_name m then Some m else cursor_at d c)"

lemma dget_filter_key: "dget (filter (\<lambda>(b, _). P b) d) k = (if P k then dget d k else None)"
  by (induction d) auto

interpretation ci: chain_index db_events "\<lambda>d. dget (db_blocks d)" "\<lambda>d. dget (db_cursors d)"
    delete_rows_from put_blocks put_events put_cursor
  by unfold_locales
    (simp_all add: delete_rows_from_def put_blocks_def put_events_def put_cursor_def dget_filter_key dget_dmerge)

subsection \<open>Witnesses\<close>

definition blank_db :: db where
  "blank_db = \<lparr>db_schema = [], db_jobs = [], db_events = [], db_blocks = [], db_cursors = []\<rparr>"

definition blank_store :: job_store where
  "blank_store = \<lparr>js_database_url = ''sqlite:///a.db'', js_database_path = ''a.db'', js_initialized = False,
     js_db = blank_db\<rparr>"

lemma blank_earlier: "earlier_schema blank_db"
  by (simp add: earlier_schema_def blank_db_def)

lemma blank_ready: "store_ready blank_store"
  using initialize_ready [OF blank_earlier]
  by (simp add: store_ready_def opened_first blank_store_def)

definition demo_job :: "string \<Rightarrow> string \<Rightarrow> reputation_update list \<Rightarrow> job_record" where
  "demo_job job_id created us = \<lparr>jb_job_id = job_id, jb_status = ''completed'', jb_payload = JNull, jb_memo = None,
     jb_provenance_ledger = [], jb_topology_snapshot = None,
     jb_run_metadata = [(''reputation_updates'', JList (map (\<lambda>u. JObj (reputation_update_fields u)) us))],
     jb_created_at = created\<rparr>"

text \<open>A file of the first release, with one completed job; what the record holds in the columns that the
  file lacks is arbitrary.\<close>

definition old_db :: db where
  "old_db = blank_db
     \<lparr>db_schema := [(''jobs'', [primary_key ''TEXT'' ''job_id'', not_null ''TEXT'' ''status'',
        not_null ''TEXT'' ''thesis_payload'', nullable ''TEXT'' ''memo'', not_null ''TEXT'' ''created_at''])],
      db_jobs := [(demo_job ''j1'' ''2026-01-02T10:00:00+00:00'' two_updates)\<lparr>jb_provenance_ledger := [JNull]\<rparr>]\<rparr>"

lemma old_earlier: "earlier_schema old_db"
  by (simp add: earlier_schema_def old_db_def blank_db_def has_columns_def)

definition two_job_store :: job_store where
  "two_job_store = (opened_store blank_store)\<lparr>js_db := (js_db (opened_store blank_store))
     \<lparr>db_jobs := [demo_job ''j1'' ''2026-01-02T10:00:00+00:00'' two_updates,
                  demo_job ''j2'' ''2026-01-01T10:00:00+00:00'' []]\<rparr>\<rparr>"

lemma two_job_ready: "store_ready two_job_store"
  using blank_ready by (simp add: store_ready_def two_job_store_def)

lemma two_jobs_completed:
  "completed_jobs two_job_store = [demo_job ''j2'' ''2026-01-01T10:00:00+00:00'' [],
     demo_job ''j1'' ''2026-01-02T10:00:00+00:00'' two_updates]"
  by (simp add: completed_jobs_def jobs_by_time_def two_job_store_def demo_job_def sql_datetime_def)

lemma two_updates_carried: "list_all (\<lambda>u. ru_agent_wallet u \<noteq> Some []) two_updates"
  by (simp add: two_updates_def build_reputation_updates_def reputation_update_of_def Let_def
      credited_attestation_def sample_attestation_def)

lemma initialize_migrates_witness:
  "\<exists>d. initialize_sync old_db = (Inr (), d) \<and> schema_ready d \<and> \<not> schema_ready old_db \<and>
     fst (get_job_sync ''j1'' d) =
       Inr (Some ((demo_job ''j1'' ''2026-01-02T10:00:00+00:00'' two_updates)\<lparr>jb_run_metadata := []\<rparr>))"
proof -
  have old: "has_table old_db ''jobs''" "\<not> schema_ready old_db"
    "db_jobs old_db = [(demo_job ''j1'' ''2026-01-02T10:00:00+00:00'' two_updates)\<lparr>jb_provenance_ledger := [JNull]\<rparr>]"
    "column_names old_db ''jobs'' = [''job_id'', ''status'', ''thesis_payload'', ''memo'', ''created_at'']"
    by (simp_all add: has_table_def schema_ready_def has_columns_def old_db_def blank_db_def jobs_columns_def
        column_names_def dget_or_def)
  show ?thesis
    using initialize_migrates [OF old_earlier] old by (auto simp: migrated_job_def demo_job_def)
qed

lemma blank_no_job: "job_row blank_store k = None"
  by (simp add: job_row_def opened_first blank_store_def migrated_rows blank_db_def has_table_def)

lemma job_lifecycle_witness:
  "\<exists>s. create_job ''j'' ''2026-01-01T00:00:00+00:00'' \<lparr>tr_thesis = ''t'', tr_asset = ''a'', tr_horizon_days = 3\<rparr> blank_store =
     (Inr (pending_job ''j'' ''2026-01-01T00:00:00+00:00'' \<lparr>tr_thesis = ''t'', tr_asset = ''a'', tr_horizon_days = 3\<rparr>), s)"
proof -
  have "job_row blank_store ''j'' = None" by (rule blank_no_job)
  from job_lifecycle [OF blank_ready this] show ?thesis by blast
qed

lemma latest_job_is_newest_witness:
  "\<exists>j. fst (get_latest_job two_job_store) = Inr (Some j)"
  using latest_job_is_newest [OF two_job_ready] by (auto simp: two_job_store_def)

lemma stored_leaderboard_witness:
  "fst (get_reputation_leaderboard two_job_store) = Inr (leaderboard_of two_updates)"
  using stored_leaderboard [OF two_job_ready, of "\<lambda>j. if jb_job_id j = ''j1'' then two_updates else []"] two_updates_carried
  by (simp add: two_jobs_completed carries_updates_def demo_job_def)

end
