(* ===== verification/Indexer.thy ===== *)
theory Indexer
  imports Job_Store
begin

section \<open>The confirmed-block indexer (app/indexer/scheduler.py)\<close>

text \<open>
  One run of the scheduler: read the cursor, ask the node for its latest block, compare the headers
  of the last \<open>sd_reorg_window\<close> blocks with the stored hashes, prune from the first one that differs,
  store the headers and the events up to the last confirmed block and move the cursor. An exception
  anywhere is recorded in the cursor and reported as a failed run. The poller's answers are those of
  \<open>Chain_Events\<close>, the store is \<open>Job_Store\<close>, and its laws are used through the locale \<open>chain_index\<close>.

  Shown: a run that finds a reorganisation no deeper than its window brings the stored events to the
  new chain exactly; a loop of runs against a chain that does not reorganise leaves no gap, whatever
  fails in between; and a run that fails between pruning and polling loses the events of the pruned
  blocks for good.
\<close>

subsection \<open>State\<close>

record scheduler =
  sd_cursor_name :: string
  sd_start_block :: int
  sd_confirmations :: int
  sd_reorg_window :: int

record run_result =
  rr_status :: string
  rr_latest_block :: "int option"
  rr_safe_block :: "int option"
  rr_from_block :: "int option"
  rr_to_block :: "int option"
  rr_events_indexed :: nat
  rr_reorg_from_block :: "int option"
  rr_error :: "string option"

type_synonym 'a store_op = "job_store \<Rightarrow> 'a res \<times> job_store"

definition make_scheduler :: "string \<Rightarrow> int \<Rightarrow> int \<Rightarrow> int \<Rightarrow> scheduler res" where
  "make_scheduler name start confirmations window =
     (if confirmations < 0 then Inl (ValueError ''confirmations must be non-negative'')
      else if window < 1 then Inl (ValueError ''reorg_window must be at least 1'')
      else Inr \<lparr>sd_cursor_name = name, sd_start_block = start, sd_confirmations = confirmations,
                sd_reorg_window = window\<rparr>)"

text \<open>Calls in sequence: the store is passed on, an exception ends the sequence where it is.\<close>

definition st_bind :: "'a store_op \<Rightarrow> ('a \<Rightarrow> 'b store_op) \<Rightarrow> 'b store_op" where
  "st_bind f g s = (case f s of (Inl e, s') \<Rightarrow> (Inl e, s') | (Inr x, s') \<Rightarrow> g x s')"

definition st_res :: "'a res \<Rightarrow> 'a store_op" where "st_res r s = (r, s)"

lemma st_bind_simps [simp]:
  "f s = (Inr x, s') \<Longrightarrow> st_bind f g s = g x s'" "f s = (Inl e, s') \<Longrightarrow> st_bind f g s = (Inl e, s')"
  "st_bind (st_res (Inr x)) g = g x" "st_bind (st_res (Inl e)) g s = (Inl e, s)" "st_res r s = (r, s)"
  by (simp_all add: st_bind_def st_res_def fun_eq_iff)

subsection \<open>One run\<close>

definition get_cursor :: "scheduler \<Rightarrow> indexer_cursor store_op" where
  "get_cursor sch =
     st_bind (get_indexer_cursor (sd_cursor_name sch)) (\<lambda>found.
       st_res (Inr (case found of
           Some c \<Rightarrow> c
         | None \<Rightarrow> \<lparr>cu_name = sd_cursor_name sch, cu_last_indexed_block = sd_start_block sch - 1,
             cu_last_safe_block = sd_start_block sch - 1, cu_status = ''new'', cu_error = None\<rparr>)))"

definition save_cursor :: "scheduler \<Rightarrow> int \<Rightarrow> int \<Rightarrow> string \<Rightarrow> string option \<Rightarrow> unit store_op" where
  "save_cursor sch last_indexed last_safe status error =
     save_indexer_cursor \<lparr>cu_name = sd_cursor_name sch, cu_last_indexed_block = last_indexed,
       cu_last_safe_block = last_safe, cu_status = status, cu_error = error\<rparr>"

fun first_mismatch :: "(int, string) pydict \<Rightarrow> indexed_block list \<Rightarrow> int option" where
  "first_mismatch stored [] = None"
| "first_mismatch stored (h # hs) =
     (case dget stored (ib_block_number h) of
        Some previous \<Rightarrow>
          if previous \<noteq> ib_block_hash h then Some (ib_block_number h) else first_mismatch stored hs
      | None \<Rightarrow> first_mismatch stored hs)"

definition find_reorg_start :: "indexed_block list \<Rightarrow> int option store_op" where
  "find_reorg_start headers =
     (if headers = [] then st_res (Inr None)
      else st_bind (get_indexed_chain_block_hashes (ib_block_number (hd headers)) (ib_block_number (last headers)))
        (\<lambda>stored. st_res (Inr (first_mismatch stored headers))))"

definition run_body :: "scheduler \<Rightarrow> poller \<Rightarrow> indexer_cursor \<Rightarrow> run_result store_op" where
  "run_body sch p cursor =
     st_bind (st_res (latest_block_number p)) (\<lambda>latest.
     let safe = latest - sd_confirmations sch in
     if safe < sd_start_block sch then
       st_bind (save_cursor sch (cu_last_indexed_block cursor) safe ''up_to_date'' None) (\<lambda>_.
       st_res (Inr \<lparr>rr_status = ''up_to_date'', rr_latest_block = Some latest, rr_safe_block = Some safe,
         rr_from_block = None, rr_to_block = None, rr_events_indexed = 0, rr_reorg_from_block = None,
         rr_error = None\<rparr>))
     else
       let normal_from = max (sd_start_block sch) (cu_last_indexed_block cursor + 1);
           repair_from = max (sd_start_block sch) (cu_last_indexed_block cursor - sd_reorg_window sch + 1);
           header_from = min normal_from repair_from in
       st_bind (st_res (block_headers p header_from safe)) (\<lambda>headers.
       st_bind (find_reorg_start headers) (\<lambda>reorg_from.
       st_bind (case reorg_from of Some r \<Rightarrow> delete_indexed_chain_from_block r | None \<Rightarrow> st_res (Inr ())) (\<lambda>_.
       let from_block = (case reorg_from of Some r \<Rightarrow> r | None \<Rightarrow> normal_from) in
       st_bind (store_indexed_chain_blocks headers) (\<lambda>_.
       st_bind (if from_block \<le> safe
                then st_bind (st_res (poll p (BlockNumber from_block) (BlockNumber safe))) (\<lambda>events.
                       st_bind (store_indexed_chain_events events) (\<lambda>_. st_res (Inr events)))
                else st_res (Inr [])) (\<lambda>events.
       st_bind (save_cursor sch safe safe ''ok'' None) (\<lambda>_.
       st_res (Inr \<lparr>rr_status = ''ok'', rr_latest_block = Some latest, rr_safe_block = Some safe,
         rr_from_block = (if from_block \<le> safe then Some from_block else None),
         rr_to_block = (if from_block \<le> safe then Some safe else None),
         rr_events_indexed = length events, rr_reorg_from_block = reorg_from, rr_error = None\<rparr>))))))))"

definition run_once :: "scheduler \<Rightarrow> poller \<Rightarrow> run_result store_op" where
  "run_once sch p =
     st_bind (get_cursor sch) (\<lambda>cursor s.
       case run_body sch p cursor s of
         (Inr r, s') \<Rightarrow> (Inr r, s')
       | (Inl e, s') \<Rightarrow>
           st_bind (save_cursor sch (cu_last_indexed_block cursor) (cu_last_safe_block cursor) ''failed''
               (Some (error_text e))) (\<lambda>_.
           st_res (Inr \<lparr>rr_status = ''failed'', rr_latest_block = None, rr_safe_block = None,
             rr_from_block = None, rr_to_block = None, rr_events_indexed = 0, rr_reorg_from_block = None,
             rr_error = Some (error_text e)\<rparr>)) s')"

text \<open>
  \<^verbatim>\<open>run_forever\<close> until its stop event: the list holds what the poller answers in each round before
  the event is set. Without a stop event the loop does not end; every finite prefix of it is this.
\<close>

fun run_rounds_until_stop :: "scheduler \<Rightarrow> poller list \<Rightarrow> run_result list store_op" where
  "run_rounds_until_stop sch [] s = (Inr [], s)"
| "run_rounds_until_stop sch (p # ps) s =
     st_bind (run_once sch p) (\<lambda>r. st_bind (run_rounds_until_stop sch ps) (\<lambda>rs. st_res (Inr (r # rs)))) s"

definition run_forever :: "scheduler \<Rightarrow> float64 \<Rightarrow> poller list \<Rightarrow> run_result list store_op" where
  "run_forever sch interval ps =
     (if interval \<le> 0 then st_res (Inl (ValueError ''poll_interval_seconds must be positive''))
      else run_rounds_until_stop sch ps)"

subsection \<open>Operations of a live store\<close>

definition live :: "job_store \<Rightarrow> bool" where
  "live s \<longleftrightarrow> js_initialized s \<and> schema_ready (js_db s)"

lemma live_initialize: "live s \<Longrightarrow> initialize s = (Inr (), s)"
  by (simp add: live_def initialize_def)

lemma opened_live: "store_ready s \<Longrightarrow> live (opened_store s)"
  by (simp add: store_ready_def live_def initialize_eq)

lemma live_update [simp]:
  "live s \<Longrightarrow> live (s\<lparr>js_db := put_cursor c (js_db s)\<rparr>)" "live s \<Longrightarrow> schema_ready (js_db s)"
  by (simp_all add: live_def)

lemma live_ops:
  assumes "live s"
  shows "get_indexer_cursor n s = (Inr (dget (db_cursors (js_db s)) n), s)"
    and "sql_int (cu_last_indexed_block c) \<Longrightarrow> sql_int (cu_last_safe_block c) \<Longrightarrow>
      save_indexer_cursor c s = (Inr (), s\<lparr>js_db := put_cursor c (js_db s)\<rparr>)"
    and "sql_int a \<Longrightarrow> sql_int b \<Longrightarrow> get_indexed_chain_block_hashes a b s =
      (Inr (filter (\<lambda>(k, _). a \<le> k \<and> k \<le> b) (db_blocks (js_db s))), s)"
    and "sql_int m \<Longrightarrow> delete_indexed_chain_from_block m s = (Inr (), s\<lparr>js_db := delete_rows_from m (js_db s)\<rparr>)"
    and "list_all (\<lambda>h. sql_int (ib_block_number h)) hs \<Longrightarrow>
      store_indexed_chain_blocks hs s = (Inr (), s\<lparr>js_db := put_blocks hs (js_db s)\<rparr>)"
    and "list_all (\<lambda>e. sql_int (ie_block_number e) \<and> sql_int (ie_log_index e)) es \<Longrightarrow>
      store_indexed_chain_events es s = (Inr (), s\<lparr>js_db := put_events es (js_db s)\<rparr>)"
proof -
  note r = live_update(2) [OF assms] and i = live_initialize [OF assms]
  note defs = run_sync_def Let_def i bind_ints_def on_table_ready [OF r] list_all_iff
  show "get_indexer_cursor n s = (Inr (dget (db_cursors (js_db s)) n), s)"
    by (simp add: get_indexer_cursor_def get_indexer_cursor_sync_def defs cursors_columns_def)
  show "sql_int (cu_last_indexed_block c) \<Longrightarrow> sql_int (cu_last_safe_block c) \<Longrightarrow>
      save_indexer_cursor c s = (Inr (), s\<lparr>js_db := put_cursor c (js_db s)\<rparr>)"
    by (simp add: save_indexer_cursor_def save_indexer_cursor_sync_def defs)
  show "sql_int a \<Longrightarrow> sql_int b \<Longrightarrow> get_indexed_chain_block_hashes a b s =
      (Inr (filter (\<lambda>(k, _). a \<le> k \<and> k \<le> b) (db_blocks (js_db s))), s)"
    by (simp add: get_indexed_chain_block_hashes_def get_indexed_chain_block_hashes_sync_def defs blocks_columns_def)
  show "sql_int m \<Longrightarrow> delete_indexed_chain_from_block m s = (Inr (), s\<lparr>js_db := delete_rows_from m (js_db s)\<rparr>)"
    by (simp add: delete_indexed_chain_from_block_def delete_indexed_chain_from_block_sync_def defs
        blocks_columns_def events_columns_def)
  show "list_all (\<lambda>h. sql_int (ib_block_number h)) hs \<Longrightarrow>
      store_indexed_chain_blocks hs s = (Inr (), s\<lparr>js_db := put_blocks hs (js_db s)\<rparr>)"
    by (simp add: store_indexed_chain_blocks_def store_indexed_chain_blocks_sync_def defs)
  show "list_all (\<lambda>e. sql_int (ie_block_number e) \<and> sql_int (ie_log_index e)) es \<Longrightarrow>
      store_indexed_chain_events es s = (Inr (), s\<lparr>js_db := put_events es (js_db s)\<rparr>)"
    by (simp add: store_indexed_chain_events_def store_indexed_chain_events_sync_def defs)
qed

subsection \<open>The effect of one run\<close>

definition cursor_of :: "scheduler \<Rightarrow> job_store \<Rightarrow> indexer_cursor" where
  "cursor_of sch s =
     (case dget (db_cursors (js_db s)) (sd_cursor_name sch) of
        Some c \<Rightarrow> c
      | None \<Rightarrow> \<lparr>cu_name = sd_cursor_name sch, cu_last_indexed_block = sd_start_block sch - 1,
          cu_last_safe_block = sd_start_block sch - 1, cu_status = ''new'', cu_error = None\<rparr>)"

definition last_indexed :: "scheduler \<Rightarrow> job_store \<Rightarrow> int" where
  "last_indexed sch s = cu_last_indexed_block (cursor_of sch s)"

definition header :: "(int \<Rightarrow> string) \<Rightarrow> int \<Rightarrow> indexed_block" where
  "header h n = \<lparr>ib_block_number = n, ib_block_hash = h n\<rparr>"

definition window_start :: "scheduler \<Rightarrow> int \<Rightarrow> int" where
  "window_start sch indexed = max (sd_start_block sch) (indexed - sd_reorg_window sch + 1)"

definition pruned :: "int option \<Rightarrow> db \<Rightarrow> db" where
  "pruned r d = (case r of Some k \<Rightarrow> delete_rows_from k d | None \<Rightarrow> d)"

lemma get_cursor_live: "live s \<Longrightarrow> get_cursor sch s = (Inr (cursor_of sch s), s)"
  by (simp add: get_cursor_def live_ops(1) cursor_of_def)

lemma first_mismatch_range:
  "\<forall>h \<in> set hs. a \<le> ib_block_number h \<and> ib_block_number h \<le> b \<Longrightarrow>
     first_mismatch (filter (\<lambda>(k, _). a \<le> k \<and> k \<le> b) d) hs = first_mismatch d hs"
proof (induction hs)
  case (Cons h hs)
  then show ?case by (simp add: dget_filter_key [where P = "\<lambda>k. a \<le> k \<and> k \<le> b"] split: option.splits)
qed simp

lemma first_mismatch_none:
  "\<forall>n \<in> set ns. dget d n = None \<or> dget d n = Some (h n) \<Longrightarrow> first_mismatch d (map (header h) ns) = None"
  by (induction ns) (auto simp: header_def)

lemma first_mismatch_append:
  "first_mismatch d hs = None \<Longrightarrow> first_mismatch d (hs @ hs') = first_mismatch d hs'"
  by (induction hs) (auto split: option.splits if_splits)

lemma first_mismatch_at:
  assumes "a \<le> k" "k \<le> b" "\<forall>n \<in> {a..<k}. dget d n = None \<or> dget d n = Some (h n)"
    and "dget d k = Some x" "x \<noteq> h k"
  shows "first_mismatch d (map (header h) [a..b]) = Some k"
proof -
  have "[a..b] = [a..k - 1] @ k # [k + 1..b]"
    using assms(1,2) upto_split3 by blast
  moreover have "first_mismatch d (map (header h) [a..k - 1]) = None"
    using assms(3) by (intro first_mismatch_none) auto
  ultimately show ?thesis using assms(4,5) by (simp add: first_mismatch_append header_def)
qed

lemma first_mismatch_in: "first_mismatch d hs = Some k \<Longrightarrow> k \<in> ib_block_number ` set hs"
  by (induction hs) (auto split: option.splits if_splits)

text \<open>What every run that gets as far as the poll has in common.\<close>

definition headed :: "scheduler \<Rightarrow> poller \<Rightarrow> job_store \<Rightarrow> (int \<Rightarrow> string) \<Rightarrow> int \<Rightarrow> int \<Rightarrow> bool" where
  "headed sch p s h latest safe \<longleftrightarrow>
     live s \<and> safe = latest - sd_confirmations sch \<and> latest_block_number p = Inr latest \<and>
     1 \<le> sd_reorg_window sch \<and> sd_start_block sch \<le> safe \<and>
     sd_start_block sch - 1 \<le> last_indexed sch s \<and> last_indexed sch s \<le> safe \<and>
     sql_int (sd_start_block sch) \<and> sql_int safe \<and>
     block_headers p (window_start sch (last_indexed sch s)) safe =
       Inr (map (header h) [window_start sch (last_indexed sch s)..safe])"

definition reorg_at :: "scheduler \<Rightarrow> job_store \<Rightarrow> (int \<Rightarrow> string) \<Rightarrow> int \<Rightarrow> int option" where
  "reorg_at sch s h safe =
     first_mismatch (db_blocks (js_db s)) (map (header h) [window_start sch (last_indexed sch s)..safe])"

definition poll_from :: "scheduler \<Rightarrow> job_store \<Rightarrow> (int \<Rightarrow> string) \<Rightarrow> int \<Rightarrow> int" where
  "poll_from sch s h safe =
     (case reorg_at sch s h safe of Some k \<Rightarrow> k | None \<Rightarrow> max (sd_start_block sch) (last_indexed sch s + 1))"

definition prepared :: "scheduler \<Rightarrow> job_store \<Rightarrow> (int \<Rightarrow> string) \<Rightarrow> int \<Rightarrow> db" where
  "prepared sch s h safe =
     put_blocks (map (header h) [window_start sch (last_indexed sch s)..safe])
       (pruned (reorg_at sch s h safe) (js_db s))"

lemma sql_int_between: "sql_int a \<Longrightarrow> sql_int b \<Longrightarrow> a \<le> n \<Longrightarrow> n \<le> b \<Longrightarrow> sql_int n"
  by (simp add: sql_int_def)

lemma upto_ends:
  assumes "a \<le> (b :: int)"
  shows "[a..b] \<noteq> []" "hd [a..b] = a" "last [a..b] = b"
  by (use assms in simp, subst upto_rec1 [OF assms], simp, subst upto_rec2 [OF assms], simp)

lemma run_body_prepared:
  assumes "headed sch p s h latest safe"
  defines "from_block \<equiv> poll_from sch s h safe"
  defines "s1 \<equiv> s\<lparr>js_db := prepared sch s h safe\<rparr>"
  shows "live s1" and
    "run_body sch p (cursor_of sch s) s =
       st_bind (if from_block \<le> safe
                then st_bind (st_res (poll p (BlockNumber from_block) (BlockNumber safe))) (\<lambda>events.
                       st_bind (store_indexed_chain_events events) (\<lambda>_. st_res (Inr events)))
                else st_res (Inr [])) (\<lambda>events.
       st_bind (save_cursor sch safe safe ''ok'' None) (\<lambda>_.
       st_res (Inr \<lparr>rr_status = ''ok'', rr_latest_block = Some latest, rr_safe_block = Some safe,
         rr_from_block = (if from_block \<le> safe then Some from_block else None),
         rr_to_block = (if from_block \<le> safe then Some safe else None),
         rr_events_indexed = length events, rr_reorg_from_block = reorg_at sch s h safe, rr_error = None\<rparr>))) s1"
proof -
  let ?last = "last_indexed sch s" and ?r = "reorg_at sch s h safe"
  let ?lo = "window_start sch ?last"
  let ?hs = "map (header h) [?lo..safe]"
  note hd = assms(1) [unfolded headed_def]
  have live: "live s" using hd by simp
  then show "live s1"
    by (simp add: s1_def live_def prepared_def pruned_def split: option.splits)
  have lo: "?lo \<le> safe" "sd_start_block sch \<le> ?lo" "min (max (sd_start_block sch) (?last + 1)) ?lo = ?lo"
    using hd by (auto simp: window_start_def)
  have int: "sql_int n" if "?lo \<le> n" "n \<le> safe" for n
    by (rule sql_int_between [of "sd_start_block sch" safe]) (use hd lo that in linarith)+
  have ints: "list_all (\<lambda>b. sql_int (ib_block_number b)) ?hs" "sql_int ?lo"
    using int lo(1) by (simp_all add: list_all_iff header_def)
  have ends: "ib_block_number (hd ?hs) = ?lo" "ib_block_number (last ?hs) = safe" "?hs \<noteq> []"
    using upto_ends [OF lo(1)] by (simp_all add: header_def hd_map last_map)
  have rng: "first_mismatch (filter (\<lambda>(k, _). ?lo \<le> k \<and> k \<le> safe) (db_blocks (js_db s))) ?hs = ?r"
    unfolding reorg_at_def by (rule first_mismatch_range) (auto simp: header_def)
  have stored: "get_indexed_chain_block_hashes ?lo safe s =
      (Inr (filter (\<lambda>(k, _). ?lo \<le> k \<and> k \<le> safe) (db_blocks (js_db s))), s)"
    by (rule live_ops(3) [OF live ints(2)]) (use hd in blast)
  have "find_reorg_start ?hs s = (Inr ?r, s)"
    unfolding find_reorg_start_def ends(1,2) if_not_P [OF ends(3)]
    by (subst st_bind_simps(1), rule stored) (simp add: rng)
  moreover have "(case ?r of Some r \<Rightarrow> delete_indexed_chain_from_block r | None \<Rightarrow> st_res (Inr ())) s =
      (Inr (), s\<lparr>js_db := pruned ?r (js_db s)\<rparr>)"
  proof (cases ?r)
    case (Some k)
    then have "k \<in> ib_block_number ` set ?hs" unfolding reorg_at_def by (rule first_mismatch_in)
    then have "sql_int k" using int by (auto simp: header_def)
    with Some show ?thesis by (simp add: live_ops(4) [OF live] pruned_def)
  qed (simp add: pruned_def)
  moreover have "store_indexed_chain_blocks ?hs (s\<lparr>js_db := pruned ?r (js_db s)\<rparr>) = (Inr (), s1)"
  proof -
    have "live (s\<lparr>js_db := pruned ?r (js_db s)\<rparr>)"
      using live by (simp add: live_def pruned_def split: option.splits)
    from live_ops(5) [OF this ints(1)] show ?thesis by (simp add: s1_def prepared_def)
  qed
  moreover have "block_headers p ?lo safe = Inr ?hs" "latest_block_number p = Inr latest"
    "\<not> latest - sd_confirmations sch < sd_start_block sch" "safe = latest - sd_confirmations sch"
    using hd by auto
  ultimately show "run_body sch p (cursor_of sch s) s =
       st_bind (if from_block \<le> safe
                then st_bind (st_res (poll p (BlockNumber from_block) (BlockNumber safe))) (\<lambda>events.
                       st_bind (store_indexed_chain_events events) (\<lambda>_. st_res (Inr events)))
                else st_res (Inr [])) (\<lambda>events.
       st_bind (save_cursor sch safe safe ''ok'' None) (\<lambda>_.
       st_res (Inr \<lparr>rr_status = ''ok'', rr_latest_block = Some latest, rr_safe_block = Some safe,
         rr_from_block = (if from_block \<le> safe then Some from_block else None),
         rr_to_block = (if from_block \<le> safe then Some safe else None),
         rr_events_indexed = length events, rr_reorg_from_block = reorg_at sch s h safe, rr_error = None\<rparr>))) s1"
    using lo(3) unfolding run_body_def window_start_def last_indexed_def from_block_def poll_from_def
    by (simp add: Let_def)
qed

lemma run_once_ok:
  assumes "headed sch p s h latest safe"
    and "if poll_from sch s h safe \<le> safe
      then poll p (BlockNumber (poll_from sch s h safe)) (BlockNumber safe) = Inr evs else evs = []"
    and "list_all (\<lambda>e. sql_int (ie_block_number e) \<and> sql_int (ie_log_index e)) evs"
  shows "\<exists>r. run_once sch p s = (Inr r, s\<lparr>js_db := put_cursor \<lparr>cu_name = sd_cursor_name sch,
       cu_last_indexed_block = safe, cu_last_safe_block = safe, cu_status = ''ok'', cu_error = None\<rparr>
       (put_events evs (prepared sch s h safe))\<rparr>) \<and>
     rr_status r = ''ok'' \<and> rr_safe_block r = Some safe \<and> rr_reorg_from_block r = reorg_at sch s h safe"
proof -
  let ?from = "poll_from sch s h safe" and ?s1 = "s\<lparr>js_db := prepared sch s h safe\<rparr>"
  let ?s2 = "s\<lparr>js_db := put_events evs (prepared sch s h safe)\<rparr>"
  note live1 = run_body_prepared(1) [OF assms(1)]
  have l: "live s" and safe: "sql_int safe" using assms(1) unfolding headed_def by blast+
  have live2: "live ?s2" using live1 by (simp add: live_def)
  have "(if ?from \<le> safe
      then st_bind (st_res (poll p (BlockNumber ?from) (BlockNumber safe))) (\<lambda>events.
             st_bind (store_indexed_chain_events events) (\<lambda>_. st_res (Inr events)))
      else st_res (Inr [])) ?s1 = (Inr evs, ?s2)"
    using assms(2) live_ops(6) [OF live1 assms(3)] by (auto simp: put_events_def)
  moreover have "save_cursor sch safe safe ''ok'' None ?s2 = (Inr (), ?s2\<lparr>js_db := put_cursor
      \<lparr>cu_name = sd_cursor_name sch, cu_last_indexed_block = safe, cu_last_safe_block = safe,
       cu_status = ''ok'', cu_error = None\<rparr> (js_db ?s2)\<rparr>)"
    unfolding save_cursor_def by (rule live_ops(2) [OF live2]) (simp_all add: safe)
  ultimately show ?thesis
    by (simp add: run_once_def get_cursor_live [OF l] run_body_prepared(2) [OF assms(1)])
qed

lemma run_once_poll_error:
  assumes "headed sch p s h latest safe" "poll_from sch s h safe \<le> safe"
    and "poll p (BlockNumber (poll_from sch s h safe)) (BlockNumber safe) = Inl e"
    and "sql_int (last_indexed sch s)" "sql_int (cu_last_safe_block (cursor_of sch s))"
  shows "\<exists>r. run_once sch p s = (Inr r, s\<lparr>js_db := put_cursor \<lparr>cu_name = sd_cursor_name sch,
       cu_last_indexed_block = last_indexed sch s, cu_last_safe_block = cu_last_safe_block (cursor_of sch s),
       cu_status = ''failed'', cu_error = Some (error_text e)\<rparr> (prepared sch s h safe)\<rparr>) \<and> rr_status r = ''failed''"
proof -
  let ?s1 = "s\<lparr>js_db := prepared sch s h safe\<rparr>"
  have l: "live s" using assms(1) by (simp add: headed_def)
  have "save_cursor sch (last_indexed sch s) (cu_last_safe_block (cursor_of sch s)) ''failed'' (Some (error_text e)) ?s1 =
      (Inr (), ?s1\<lparr>js_db := put_cursor \<lparr>cu_name = sd_cursor_name sch, cu_last_indexed_block = last_indexed sch s,
       cu_last_safe_block = cu_last_safe_block (cursor_of sch s), cu_status = ''failed'',
       cu_error = Some (error_text e)\<rparr> (js_db ?s1)\<rparr>)"
    unfolding save_cursor_def
    by (rule live_ops(2) [OF run_body_prepared(1) [OF assms(1)]]) (simp_all add: assms(4,5))
  then show ?thesis
    using assms(2,3) by (simp add: run_once_def get_cursor_live [OF l] run_body_prepared(2) [OF assms(1)] last_indexed_def)
qed

subsection \<open>What the interface promises of a refresh\<close>

lemma insert_all_set:
  "inj_on event_id (set rows \<union> set es) \<Longrightarrow> set (foldl insert_or_ignore rows es) = set rows \<union> set es"
proof (induction es arbitrary: rows)
  case (Cons e es)
  have same: "event_id e \<in> event_id ` set rows \<longleftrightarrow> e \<in> set rows"
    using Cons.prems by (auto simp: inj_on_def)
  then have "set (insert_or_ignore rows e) = insert e (set rows)" by (auto simp: insert_or_ignore_def)
  then show ?case using Cons by simp
qed simp

lemma map_of_headers:
  "map_of (rev (map (\<lambda>b. (ib_block_number b, ib_block_hash b)) (map (header h) [a..b]))) n =
     (if a \<le> n \<and> n \<le> b then Some (h n) else None)"
proof -
  have "map_of (rev (map (\<lambda>b. (ib_block_number b, ib_block_hash b)) (map (header h) ns))) n =
      (if n \<in> set ns then Some (h n) else None)" for ns
    by (induction ns) (auto simp: header_def map_add_def split: option.splits)
  from this [of "[a..b]"] show ?thesis by simp
qed

context chain_index
begin

lemma refreshed_rows:
  "inj_on event_id (set (rows d) \<union> set es) \<Longrightarrow>
     set (rows (put_mark m (put_rows es (put_headers hs d)))) = set (rows d) \<union> set es"
  by (simp add: rows_mark rows_rows rows_headers insert_all_set)

lemma refreshed_hash:
  "hash_at (put_mark m (put_rows es (put_headers (map (header h) [a..b]) d))) n =
     (if a \<le> n \<and> n \<le> b then Some (h n) else hash_at d n)"
  by (simp only: hash_mark hash_rows hash_headers map_of_headers) simp

lemma headed_rows: "rows (put_mark m (put_headers hs d)) = rows d"
  by (simp add: rows_mark rows_headers)

lemma headed_hash:
  "hash_at (put_mark m (put_headers (map (header h) [a..b]) d)) n =
     (if a \<le> n \<and> n \<le> b then Some (h n) else hash_at d n)"
  by (simp only: hash_mark hash_headers map_of_headers) simp

lemma refreshed_mark: "cursor_at (put_mark m d) (cu_name m) = Some m"
  by (simp add: cursor_mark)

end

subsection \<open>Following a chain\<close>

text \<open>
  A chain assigns each block its hash and its logged events. \<open>wf_chain\<close>: an event carries the number of
  its block, and no two events of the range have the same transaction and log index. \<open>announces\<close> and
  \<open>serves\<close>: in this run the node answers the requests for blocks, and those for events too, from the
  chain. \<open>in_sync\<close>: the store holds exactly the events of the chain up to
  the cursor, the hashes of the blocks of the window, and no hash beyond the cursor.
\<close>

record chain =
  ch_hash :: "int \<Rightarrow> string"
  ch_logs :: "int \<Rightarrow> indexed_event list"

definition chain_logs :: "chain \<Rightarrow> int \<Rightarrow> int \<Rightarrow> indexed_event set" where
  "chain_logs ch a b = (\<Union>n \<in> {a..b}. set (ch_logs ch n))"

definition wf_chain :: "chain \<Rightarrow> int \<Rightarrow> int \<Rightarrow> bool" where
  "wf_chain ch a b \<longleftrightarrow>
     (\<forall>n \<in> {a..b}. \<forall>e \<in> set (ch_logs ch n). ie_block_number e = n \<and> sql_int (ie_log_index e)) \<and>
     inj_on event_id (chain_logs ch a b)"

definition announces :: "poller \<Rightarrow> chain \<Rightarrow> int \<Rightarrow> int \<Rightarrow> int \<Rightarrow> bool" where
  "announces p ch lo latest safe \<longleftrightarrow>
     latest_block_number p = Inr latest \<and> block_headers p lo safe = Inr (map (header (ch_hash ch)) [lo..safe])"

definition serves :: "poller \<Rightarrow> chain \<Rightarrow> int \<Rightarrow> int \<Rightarrow> int \<Rightarrow> bool" where
  "serves p ch lo latest safe \<longleftrightarrow>
     announces p ch lo latest safe \<and>
     (\<forall>f \<in> {lo..safe}. \<exists>evs. poll p (BlockNumber f) (BlockNumber safe) = Inr evs \<and> set evs = chain_logs ch f safe)"

definition in_sync :: "scheduler \<Rightarrow> chain \<Rightarrow> int \<Rightarrow> job_store \<Rightarrow> bool" where
  "in_sync sch ch indexed s \<longleftrightarrow>
     live s \<and> last_indexed sch s = indexed \<and> set (db_events (js_db s)) = chain_logs ch (sd_start_block sch) indexed \<and>
     (\<forall>n. (window_start sch indexed \<le> n \<and> n \<le> indexed \<longrightarrow> dget (db_blocks (js_db s)) n = Some (ch_hash ch n)) \<and>
          (indexed < n \<longrightarrow> dget (db_blocks (js_db s)) n = None))"

text \<open>The new chain leaves the old one at block \<open>k\<close>: beyond the cursor, or inside the window and with
  another hash there.\<close>

definition forks_at :: "scheduler \<Rightarrow> chain \<Rightarrow> chain \<Rightarrow> int \<Rightarrow> int \<Rightarrow> bool" where
  "forks_at sch old new k indexed \<longleftrightarrow>
     (\<forall>n \<in> {sd_start_block sch..<k}. ch_logs new n = ch_logs old n \<and> ch_hash new n = ch_hash old n) \<and>
     (k \<le> indexed \<longrightarrow> window_start sch indexed \<le> k \<and> ch_hash new k \<noteq> ch_hash old k)"

text \<open>The scheduler's own numbers: bounds of the range it works on.\<close>

definition sane :: "scheduler \<Rightarrow> int \<Rightarrow> int \<Rightarrow> bool" where
  "sane sch indexed safe \<longleftrightarrow>
     1 \<le> sd_reorg_window sch \<and> sd_start_block sch \<le> safe \<and> sd_start_block sch - 1 \<le> indexed \<and> indexed \<le> safe \<and>
     sql_int (sd_start_block sch) \<and> sql_int safe"

lemma window_bounds:
  assumes "sane sch indexed safe"
  shows "sd_start_block sch \<le> window_start sch indexed" "window_start sch indexed \<le> safe"
    "window_start sch indexed \<le> window_start sch safe"
  using assms by (auto simp: sane_def window_start_def)

lemma headed_announces:
  assumes "live s" "last_indexed sch s = indexed" "announces p new (window_start sch indexed) latest safe"
    and "sane sch indexed safe" "safe = latest - sd_confirmations sch"
  shows "headed sch p s (ch_hash new) latest safe"
  using assms unfolding headed_def announces_def sane_def by blast

text \<open>A run whose polls the node answers: what the store shows afterwards.\<close>

lemma refreshed_run:
  assumes live: "live s" "last_indexed sch s = indexed" and sane: "sane sch indexed safe"
    and serves: "serves p new (window_start sch indexed) latest safe" and safe: "safe = latest - sd_confirmations sch"
    and f: "poll_from sch s (ch_hash new) safe = f" "window_start sch indexed \<le> f"
    and wf: "wf_chain new (sd_start_block sch) safe"
    and d: "d = pruned (reorg_at sch s (ch_hash new) safe) (js_db s)"
    and inj: "inj_on event_id (set (db_events d) \<union> chain_logs new f safe)"
  shows "\<exists>r s'. run_once sch p s = (Inr r, s') \<and> rr_status r = ''ok'' \<and>
     rr_reorg_from_block r = reorg_at sch s (ch_hash new) safe \<and> live s' \<and> last_indexed sch s' = safe \<and>
     set (db_events (js_db s')) = set (db_events d) \<union> chain_logs new f safe \<and>
     (\<forall>n. dget (db_blocks (js_db s')) n =
        (if window_start sch indexed \<le> n \<and> n \<le> safe then Some (ch_hash new n) else dget (db_blocks d) n))"
proof -
  let ?lo = "window_start sch indexed"
  have headed: "headed sch p s (ch_hash new) latest safe"
    using headed_announces [OF live _ sane safe] serves by (simp add: serves_def)
  obtain evs where evs: "set evs = chain_logs new f safe"
      "if f \<le> safe then poll p (BlockNumber f) (BlockNumber safe) = Inr evs else evs = []"
  proof (cases "f \<le> safe")
    case True
    then have "f \<in> {?lo..safe}" using f(2) by simp
    then obtain evs where "poll p (BlockNumber f) (BlockNumber safe) = Inr evs" "set evs = chain_logs new f safe"
      using serves unfolding serves_def by blast
    with True show ?thesis by (intro that) simp_all
  next
    case False
    then show ?thesis by (intro that [of "[]"]) (simp_all add: chain_logs_def)
  qed
  have "sd_start_block sch \<le> f" using f(2) by (simp add: window_start_def)
  then have ints: "list_all (\<lambda>e. sql_int (ie_block_number e) \<and> sql_int (ie_log_index e)) evs"
    unfolding list_all_iff evs(1) using wf sane
    by (fastforce simp: chain_logs_def wf_chain_def sane_def intro: sql_int_between)
  let ?m = "\<lparr>cu_name = sd_cursor_name sch, cu_last_indexed_block = safe, cu_last_safe_block = safe,
      cu_status = ''ok'', cu_error = None\<rparr>"
  define db where "db = put_cursor ?m (put_events evs (put_blocks (map (header (ch_hash new)) [?lo..safe]) d))"
  obtain r where "run_once sch p s = (Inr r, s\<lparr>js_db := db\<rparr>)" "rr_status r = ''ok''"
      "rr_reorg_from_block r = reorg_at sch s (ch_hash new) safe"
    using run_once_ok [OF headed, unfolded f, OF evs(2) ints] unfolding prepared_def d live(2) db_def by blast
  moreover have "live (s\<lparr>js_db := db\<rparr>)"
    using live(1) by (simp add: live_def d db_def pruned_def split: option.splits)
  moreover have "last_indexed sch (s\<lparr>js_db := db\<rparr>) = safe"
    using ci.refreshed_mark [of ?m] by (simp add: db_def last_indexed_def cursor_of_def)
  moreover have "set (db_events db) = set (db_events d) \<union> chain_logs new f safe"
    using ci.refreshed_rows [of d evs] inj by (simp add: db_def evs(1))
  moreover have "\<forall>n. dget (db_blocks db) n = (if ?lo \<le> n \<and> n \<le> safe then Some (ch_hash new n) else dget (db_blocks d) n)"
    unfolding db_def by (intro allI ci.refreshed_hash)
  ultimately show ?thesis by (intro exI [of _ r] exI [of _ "s\<lparr>js_db := db\<rparr>"]) simp
qed

lemma reorg_at_fork:
  assumes sync: "in_sync sch old indexed s" and fork: "forks_at sch old new k indexed" and sane: "sane sch indexed safe"
  shows "reorg_at sch s (ch_hash new) safe = (if k \<le> indexed then Some k else None)"
proof -
  let ?lo = "window_start sch indexed"
  have at: "last_indexed sch s = indexed" using sync by (simp add: in_sync_def)
  have below: "dget (db_blocks (js_db s)) n = None \<or> dget (db_blocks (js_db s)) n = Some (ch_hash new n)"
    if "?lo \<le> n" "n < k \<or> indexed < k" for n
  proof (cases "n \<le> indexed")
    case True
    then have "dget (db_blocks (js_db s)) n = Some (ch_hash old n)" using sync that by (simp add: in_sync_def)
    moreover have "n \<in> {sd_start_block sch..<k}" using that True window_bounds(1) [OF sane] by auto
    ultimately show ?thesis using fork by (simp add: forks_at_def)
  next
    case False
    then show ?thesis using sync by (simp add: in_sync_def)
  qed
  show ?thesis
  proof (cases "k \<le> indexed")
    case True
    have k: "?lo \<le> k" "ch_hash old k \<noteq> ch_hash new k" "k \<le> safe"
      using True fork sane by (auto simp: forks_at_def sane_def)
    have "dget (db_blocks (js_db s)) k = Some (ch_hash old k)" using sync True k by (simp add: in_sync_def)
    then have "first_mismatch (db_blocks (js_db s)) (map (header (ch_hash new)) [?lo..safe]) = Some k"
      using below k by (intro first_mismatch_at) auto
    with True show ?thesis by (simp add: reorg_at_def at)
  next
    case False
    then have "first_mismatch (db_blocks (js_db s)) (map (header (ch_hash new)) [?lo..safe]) = None"
      using below by (intro first_mismatch_none) auto
    with False show ?thesis by (simp add: reorg_at_def at)
  qed
qed

text \<open>After pruning, the rows are the part the two chains share.\<close>

lemma pruned_shared:
  assumes sync: "in_sync sch old indexed s" and fork: "forks_at sch old new k indexed"
    and wf: "wf_chain old (sd_start_block sch) indexed"
  shows "set (db_events (pruned (if k \<le> indexed then Some k else None) (js_db s))) =
     chain_logs new (sd_start_block sch) (if k \<le> indexed then k - 1 else indexed)"
proof -
  have rows: "set (db_events (js_db s)) = chain_logs old (sd_start_block sch) indexed"
    using sync by (simp add: in_sync_def)
  have same: "ch_logs new n = ch_logs old n" if "sd_start_block sch \<le> n" "n < k" for n
    using fork that by (simp add: forks_at_def)
  show ?thesis
  proof (cases "k \<le> indexed")
    case True
    have "{e \<in> chain_logs old (sd_start_block sch) indexed. ie_block_number e < k} =
        chain_logs new (sd_start_block sch) (k - 1)" (is "?L = ?R")
    proof (rule set_eqI)
      fix e
      have "e \<in> ?L \<longleftrightarrow> (\<exists>n \<in> {sd_start_block sch..indexed}. e \<in> set (ch_logs old n) \<and> n < k)"
        using wf by (fastforce simp: chain_logs_def wf_chain_def)
      also have "\<dots> \<longleftrightarrow> e \<in> ?R" using True same by (auto simp: chain_logs_def)
      finally show "e \<in> ?L \<longleftrightarrow> e \<in> ?R" .
    qed
    then show ?thesis using True rows by (simp add: pruned_def ci.rows_prune)
  next
    case False
    then have "chain_logs old (sd_start_block sch) indexed = chain_logs new (sd_start_block sch) indexed"
      using same by (auto simp: chain_logs_def)
    then show ?thesis using False rows by (simp add: pruned_def)
  qed
qed

lemma chain_logs_split:
  "a \<le> m \<Longrightarrow> m \<le> b + 1 \<Longrightarrow> chain_logs ch a (m - 1) \<union> chain_logs ch m b = chain_logs ch a b"
  unfolding chain_logs_def UN_Un [symmetric] by (rule arg_cong [where f = "\<lambda>A. \<Union>n \<in> A. set (ch_logs ch n)"]) auto

lemma chain_logs_mono: "a \<le> a' \<Longrightarrow> b' \<le> b \<Longrightarrow> chain_logs ch a' b' \<subseteq> chain_logs ch a b"
  by (fastforce simp: chain_logs_def)

lemma wf_chain_member:
  assumes wf: "wf_chain ch s t" and "s \<le> a" "b \<le> t" and e: "e \<in> chain_logs ch s t"
  shows "e \<in> chain_logs ch a b \<longleftrightarrow> a \<le> ie_block_number e \<and> ie_block_number e \<le> b"
proof -
  have block: "ie_block_number e = n" if "s \<le> n" "n \<le> t" "e \<in> set (ch_logs ch n)" for n
    using wf that by (simp add: wf_chain_def)
  obtain n where n: "s \<le> n" "n \<le> t" "e \<in> set (ch_logs ch n)" using e by (auto simp: chain_logs_def)
  show ?thesis
  proof
    assume "e \<in> chain_logs ch a b"
    then obtain m where "a \<le> m" "m \<le> b" "e \<in> set (ch_logs ch m)" by (auto simp: chain_logs_def)
    then show "a \<le> ie_block_number e \<and> ie_block_number e \<le> b" using block [of m] assms(2,3) by simp
  next
    assume "a \<le> ie_block_number e \<and> ie_block_number e \<le> b"
    then show "e \<in> chain_logs ch a b" using block [OF n] n by (auto simp: chain_logs_def)
  qed
qed

lemma poll_from_fork:
  assumes "in_sync sch old indexed s" "forks_at sch old new k indexed" "sane sch indexed safe"
  shows "poll_from sch s (ch_hash new) safe = (if k \<le> indexed then k else indexed + 1)"
  using assms(1,3) by (auto simp: poll_from_def reorg_at_fork [OF assms] in_sync_def sane_def)

text \<open>C16: A run brings the store to the chain the node serves: if the store held exactly the events of the
  chain up to its cursor, and the chain the node now serves leaves that chain at any block inside the
  reorganisation window (or beyond the cursor), then the run succeeds and afterwards the store holds
  exactly the events of the new chain up to the last confirmed block, each once, with the cursor there.\<close>

theorem run_repairs_shallow_reorg:
  assumes sync: "in_sync sch old indexed s" and serves: "serves p new (window_start sch indexed) latest safe"
    and safe: "safe = latest - sd_confirmations sch" and sane: "sane sch indexed safe"
    and fork: "forks_at sch old new k indexed" and k: "sd_start_block sch \<le> k"
    and wf: "wf_chain old (sd_start_block sch) indexed" "wf_chain new (sd_start_block sch) safe"
  shows "\<exists>r s'. run_once sch p s = (Inr r, s') \<and> rr_status r = ''ok'' \<and>
     rr_reorg_from_block r = (if k \<le> indexed then Some k else None) \<and> in_sync sch new safe s'"
proof -
  let ?from = "if k \<le> indexed then k else indexed + 1"
  let ?d = "pruned (if k \<le> indexed then Some k else None) (js_db s)"
  note reorg = reorg_at_fork [OF sync fork sane]
  have live: "live s" "last_indexed sch s = indexed" using sync by (simp_all add: in_sync_def)
  have range: "sd_start_block sch \<le> ?from" "?from \<le> safe + 1" "window_start sch indexed \<le> ?from"
    using k sane fork by (auto simp: sane_def forks_at_def window_start_def)
  have rows: "set (db_events ?d) = chain_logs new (sd_start_block sch) (?from - 1)"
    using pruned_shared [OF sync fork wf(1)] by (cases "k \<le> indexed") simp_all
  have union: "set (db_events ?d) \<union> chain_logs new ?from safe = chain_logs new (sd_start_block sch) safe"
    unfolding rows by (intro chain_logs_split range)
  have beyond: "dget (db_blocks ?d) n = None" if "safe < n" for n
    using that sync sane by (simp add: pruned_def ci.hash_prune in_sync_def sane_def)
  have "inj_on event_id (set (db_events ?d) \<union> chain_logs new ?from safe)"
    using wf(2) union by (simp add: wf_chain_def)
  from refreshed_run [OF live sane serves safe poll_from_fork [OF sync fork sane] range(3) wf(2) _ this]
  obtain r s' where run: "run_once sch p s = (Inr r, s')" "rr_status r = ''ok''"
      "rr_reorg_from_block r = reorg_at sch s (ch_hash new) safe" "live s'" "last_indexed sch s' = safe"
      "set (db_events (js_db s')) = chain_logs new (sd_start_block sch) safe"
      "\<forall>n. dget (db_blocks (js_db s')) n =
        (if window_start sch indexed \<le> n \<and> n \<le> safe then Some (ch_hash new n) else dget (db_blocks ?d) n)"
    unfolding reorg union by blast
  then have "in_sync sch new safe s'"
    using beyond window_bounds(3) [OF sane] by (simp add: in_sync_def)
  with run reorg show ?thesis by auto
qed

subsection \<open>A failed repair\<close>

lemma failed_repair:
  assumes sync: "in_sync sch old indexed s" and ann: "announces p new (window_start sch indexed) latest safe"
    and safe: "safe = latest - sd_confirmations sch" and sane: "sane sch indexed safe"
    and fork: "forks_at sch old new k indexed" "sd_start_block sch \<le> k" "k \<le> indexed"
    and wf: "wf_chain old (sd_start_block sch) indexed" and int: "sql_int (cu_last_safe_block (cursor_of sch s))"
    and poll: "poll p (BlockNumber k) (BlockNumber safe) = Inl e"
  shows "\<exists>r s'. run_once sch p s = (Inr r, s') \<and> rr_status r = ''failed'' \<and> live s' \<and> last_indexed sch s' = indexed \<and>
     set (db_events (js_db s')) = chain_logs new (sd_start_block sch) (k - 1) \<and>
     (\<forall>n. window_start sch indexed \<le> n \<longrightarrow>
        dget (db_blocks (js_db s')) n = (if n \<le> safe then Some (ch_hash new n) else None))"
proof -
  have live: "live s" "last_indexed sch s = indexed" using sync by (simp_all add: in_sync_def)
  note headed = headed_announces [OF live ann sane safe]
  have reorg: "reorg_at sch s (ch_hash new) safe = Some k" using reorg_at_fork [OF sync fork(1) sane] fork(3) by simp
  have from_block: "poll_from sch s (ch_hash new) safe = k" using poll_from_fork [OF sync fork(1) sane] fork(3) by simp
  have k: "k \<le> safe" using fork sane by (simp add: sane_def)
  have idx: "sql_int (last_indexed sch s)"
    unfolding live(2)
    by (rule sql_int_between [of "sd_start_block sch" safe]) (use fork sane in \<open>simp_all add: sane_def\<close>)
  let ?m = "\<lparr>cu_name = sd_cursor_name sch, cu_last_indexed_block = last_indexed sch s,
      cu_last_safe_block = cu_last_safe_block (cursor_of sch s), cu_status = ''failed'', cu_error = Some (error_text e)\<rparr>"
  define db where "db = put_cursor ?m (put_blocks (map (header (ch_hash new)) [window_start sch indexed..safe])
      (delete_rows_from k (js_db s)))"
  obtain r where "run_once sch p s = (Inr r, s\<lparr>js_db := db\<rparr>)" "rr_status r = ''failed''"
    using run_once_poll_error [OF headed, unfolded from_block, OF k poll idx int]
    unfolding prepared_def reorg live(2) db_def pruned_def by auto
  moreover have "live (s\<lparr>js_db := db\<rparr>)" using live(1) by (simp add: live_def db_def)
  moreover have "last_indexed sch (s\<lparr>js_db := db\<rparr>) = indexed"
    using ci.refreshed_mark [of ?m] live(2) by (simp add: db_def last_indexed_def cursor_of_def)
  moreover have "set (db_events db) = chain_logs new (sd_start_block sch) (k - 1)"
    using pruned_shared [OF sync fork(1) wf] fork(3) by (simp add: db_def ci.headed_rows pruned_def)
  moreover have "dget (db_blocks db) n = (if n \<le> safe then Some (ch_hash new n) else None)"
    if "window_start sch indexed \<le> n" for n
  proof -
    have "dget (db_blocks db) n = (if window_start sch indexed \<le> n \<and> n \<le> safe then Some (ch_hash new n)
        else dget (db_blocks (delete_rows_from k (js_db s))) n)"
      unfolding db_def by (rule ci.headed_hash)
    then show ?thesis using that k by (simp add: ci.hash_prune)
  qed
  ultimately show ?thesis by (intro exI [of _ r] exI [of _ "s\<lparr>js_db := db\<rparr>"]) simp
qed

text \<open>C17: A failed poll after a repair loses events for good: the failed run has already pruned the
  reorganised blocks and stored the new hashes, but leaves the cursor where it was; the next run over
  the very same chain sees nothing to repair, starts behind the cursor, and reports success with the
  cursor at the last confirmed block although no event of the pruned blocks is stored.\<close>

theorem failed_repair_loses_events:
  assumes sync: "in_sync sch old indexed s" and ann: "announces p new (window_start sch indexed) latest safe"
    and safe: "safe = latest - sd_confirmations sch" and sane: "sane sch indexed safe"
    and fork: "forks_at sch old new k indexed" "sd_start_block sch \<le> k" "k \<le> indexed"
    and wf: "wf_chain old (sd_start_block sch) indexed" "wf_chain new (sd_start_block sch) safe'"
    and int: "sql_int (cu_last_safe_block (cursor_of sch s))"
    and poll: "poll p (BlockNumber k) (BlockNumber safe) = Inl e"
    and later: "serves p' new (window_start sch indexed) latest' safe'" "safe' = latest' - sd_confirmations sch"
      "sane sch indexed safe'" "safe \<le> safe'"
  shows "\<exists>r s1 r' s2. run_once sch p s = (Inr r, s1) \<and> rr_status r = ''failed'' \<and>
     run_once sch p' s1 = (Inr r', s2) \<and> rr_status r' = ''ok'' \<and> last_indexed sch s2 = safe' \<and>
     set (db_events (js_db s2)) = chain_logs new (sd_start_block sch) safe' - chain_logs new k indexed"
proof -
  let ?start = "sd_start_block sch" and ?lo = "window_start sch indexed"
  obtain r s1 where s1: "run_once sch p s = (Inr r, s1)" "rr_status r = ''failed''" "live s1"
      "last_indexed sch s1 = indexed" "set (db_events (js_db s1)) = chain_logs new ?start (k - 1)"
      "\<forall>n. ?lo \<le> n \<longrightarrow> dget (db_blocks (js_db s1)) n = (if n \<le> safe then Some (ch_hash new n) else None)"
    using failed_repair [OF sync ann safe sane fork wf(1) int poll] by blast
  have none: "reorg_at sch s1 (ch_hash new) safe' = None"
    unfolding reorg_at_def s1(4) using s1(6) by (intro first_mismatch_none) simp
  have from_block: "poll_from sch s1 (ch_hash new) safe' = indexed + 1"
    using sane by (simp add: poll_from_def none s1(4) sane_def)
  have lo: "?lo \<le> indexed + 1" using sane fork by (auto simp: forks_at_def)
  have sub: "chain_logs new ?start (k - 1) \<union> chain_logs new (indexed + 1) safe' \<subseteq> chain_logs new ?start safe'"
    using sane later(3) fork by (intro Un_least chain_logs_mono) (simp_all add: sane_def)
  have inj: "inj_on event_id (set (db_events (js_db s1)) \<union> chain_logs new (indexed + 1) safe')"
    using wf(2) sub unfolding s1(5) wf_chain_def by (blast intro: inj_on_subset)
  have d: "js_db s1 = pruned (reorg_at sch s1 (ch_hash new) safe') (js_db s1)" by (simp add: none pruned_def)
  obtain r' s2 where s2: "run_once sch p' s1 = (Inr r', s2)" "rr_status r' = ''ok''" "last_indexed sch s2 = safe'"
      "set (db_events (js_db s2)) = chain_logs new ?start (k - 1) \<union> chain_logs new (indexed + 1) safe'"
    using refreshed_run [OF s1(3,4) later(3,1,2) from_block lo wf(2) d inj] unfolding s1(5) by blast
  have "chain_logs new ?start (k - 1) \<union> chain_logs new (indexed + 1) safe' =
      chain_logs new ?start safe' - chain_logs new k indexed" (is "?L = ?R")
  proof (rule set_eqI)
    fix e
    note mem = wf_chain_member [OF wf(2), of _ _ e]
    from mem [of ?start "k - 1"] mem [of "indexed + 1" safe'] mem [of k indexed] mem [of ?start safe'] sub
    show "e \<in> ?L \<longleftrightarrow> e \<in> ?R" using sane later(3) fork by (auto simp: sane_def)
  qed
  with s1 s2 show ?thesis by blast
qed

subsection \<open>Runs against one chain\<close>

text \<open>
  As long as the chain does not reorganise, runs may fail anywhere and the node may lag behind its
  earlier answers, and the index still has no gap. \<open>truthful\<close>: what the node answers is true of the
  chain, up to its confirmed height, but any answer may be an error and the latest block may be any
  (a node behind a load balancer may fall back). \<open>responsive\<close>: in this run it answers without an
  error and has a confirmed block to serve. \<open>follows high at\<close>: the stored events are exactly those of
  the chain from the start block to \<open>high\<close>, one row each, every stored block hash is the chain's, and the
  cursor is at \<open>at\<close>, not beyond \<open>high\<close>.
\<close>

definition truthful :: "scheduler \<Rightarrow> chain \<Rightarrow> int \<Rightarrow> poller \<Rightarrow> bool" where
  "truthful sch ch height p \<longleftrightarrow>
     (\<forall>l. latest_block_number p = Inr l \<longrightarrow> l - sd_confirmations sch \<le> height) \<and>
     (\<forall>a b. sd_start_block sch \<le> a \<and> a \<le> b \<and> b \<le> height \<longrightarrow>
        (\<forall>hs. block_headers p a b = Inr hs \<longrightarrow> hs = map (header (ch_hash ch)) [a..b]) \<and>
        (\<forall>evs. poll p (BlockNumber a) (BlockNumber b) = Inr evs \<longrightarrow> set evs = chain_logs ch a b))"

definition responsive :: "scheduler \<Rightarrow> poller \<Rightarrow> bool" where
  "responsive sch p \<longleftrightarrow>
     (\<exists>l. latest_block_number p = Inr l \<and> sd_start_block sch \<le> l - sd_confirmations sch \<and>
        (\<forall>a b. sd_start_block sch \<le> a \<and> a \<le> b \<and> b \<le> l - sd_confirmations sch \<longrightarrow>
           (\<exists>hs. block_headers p a b = Inr hs) \<and> (\<exists>evs. poll p (BlockNumber a) (BlockNumber b) = Inr evs)))"

definition follows :: "scheduler \<Rightarrow> chain \<Rightarrow> int \<Rightarrow> int \<Rightarrow> job_store \<Rightarrow> bool" where
  "follows sch ch high at_block s \<longleftrightarrow>
     live s \<and> last_indexed sch s = at_block \<and> sql_int at_block \<and> sql_int (cu_last_safe_block (cursor_of sch s)) \<and>
     sd_start_block sch - 1 \<le> at_block \<and> at_block \<le> high \<and>
     set (db_events (js_db s)) = chain_logs ch (sd_start_block sch) high \<and>
     distinct (map event_id (db_events (js_db s))) \<and>
     (\<forall>n h. dget (db_blocks (js_db s)) n = Some h \<longrightarrow> h = ch_hash ch n)"

text \<open>What a list of reports says of the index: a successful run moves the cursor to its safe block.\<close>

fun progress :: "int \<times> int \<Rightarrow> run_result list \<Rightarrow> int \<times> int" where
  "progress ta [] = ta"
| "progress (high, at_block) (r # rs) =
     progress (if rr_status r = ''ok'' then (max high (the (rr_safe_block r)), the (rr_safe_block r))
               else (high, at_block)) rs"

lemma distinct_insert_all:
  "distinct (map event_id rows) \<Longrightarrow> distinct (map event_id (foldl insert_or_ignore rows es))"
  by (induction es arbitrary: rows) (simp_all add: insert_or_ignore_def)

lemma block_headers_empty: "b < a \<Longrightarrow> block_headers p a b = Inr []"
  by (simp add: block_headers_def)

lemma cursor_after_mark:
  "cu_name c = sd_cursor_name sch \<Longrightarrow> cursor_of sch (s\<lparr>js_db := put_cursor c d\<rparr>) = c"
  by (simp add: cursor_of_def ci.cursor_mark)

lemma follows_mark:
  assumes "follows sch ch high at_block s" "cu_name c = sd_cursor_name sch" "cu_last_indexed_block c = b"
    and "sql_int b" "sql_int (cu_last_safe_block c)" "sd_start_block sch - 1 \<le> b" "b \<le> high"
  shows "follows sch ch high b (s\<lparr>js_db := put_cursor c (js_db s)\<rparr>)"
  using assms
  by (simp add: follows_def last_indexed_def cursor_after_mark ci.rows_mark ci.hash_mark)

lemma follows_headers:
  assumes "follows sch ch high at_block s"
  shows "follows sch ch high at_block (s\<lparr>js_db := put_blocks (map (header (ch_hash ch)) [a..b]) (js_db s)\<rparr>)"
    (is "follows _ _ _ _ ?s'")
proof -
  have hash: "dget (db_blocks (js_db ?s')) n =
      (if a \<le> n \<and> n \<le> b then Some (ch_hash ch n) else dget (db_blocks (js_db s)) n)" for n
    using ci.hash_headers [of "map (header (ch_hash ch)) [a..b]" "js_db s" n] unfolding map_of_headers by simp
  have "cursor_of sch ?s' = cursor_of sch s" by (simp add: cursor_of_def ci.cursor_headers)
  then show ?thesis
    using assms hash unfolding follows_def last_indexed_def by (simp add: ci.rows_headers live_def)
qed

lemma chain_logs_join: "s \<le> f \<Longrightarrow> f \<le> high + 1 \<Longrightarrow> chain_logs ch s high \<union> chain_logs ch f t = chain_logs ch s (max high t)"
  unfolding chain_logs_def UN_Un [symmetric]
  by (rule arg_cong [where f = "\<lambda>A. \<Union>n \<in> A. set (ch_logs ch n)"]) auto

lemma follows_rows:
  assumes "follows sch ch high at_block s" "set evs = chain_logs ch f t" "sd_start_block sch \<le> f" "f \<le> high + 1"
    and "wf_chain ch (sd_start_block sch) height" "high \<le> height" "t \<le> height"
  shows "follows sch ch (max high t) at_block (s\<lparr>js_db := put_events evs (js_db s)\<rparr>)" (is "follows _ _ _ _ ?s'")
proof -
  have union: "set (db_events (js_db s)) \<union> set evs = chain_logs ch (sd_start_block sch) (max high t)"
    using assms(1-4) chain_logs_join by (simp add: follows_def)
  have "chain_logs ch (sd_start_block sch) (max high t) \<subseteq> chain_logs ch (sd_start_block sch) height"
    using assms(6,7) by (intro chain_logs_mono) simp_all
  then have "inj_on event_id (set (db_events (js_db s)) \<union> set evs)"
    using assms(5) unfolding union wf_chain_def by (blast intro: inj_on_subset)
  then have rows: "set (foldl insert_or_ignore (db_events (js_db s)) evs) = chain_logs ch (sd_start_block sch) (max high t)"
    using insert_all_set union by metis
  have "cursor_of sch ?s' = cursor_of sch s" by (simp add: cursor_of_def ci.cursor_rows)
  then show ?thesis
    using assms(1) rows unfolding follows_def last_indexed_def
    by (simp add: ci.rows_rows ci.hash_rows live_def distinct_insert_all le_max_iff_disj)
qed

text \<open>An exception leaves the cursor where it was.\<close>

lemma run_once_failed:
  assumes "live s" "run_body sch p (cursor_of sch s) s = (Inl e, s1)" "follows sch ch high at_block s1"
    and "cursor_of sch s1 = cursor_of sch s"
  shows "\<exists>r s'. run_once sch p s = (Inr r, s') \<and> rr_status r = ''failed'' \<and> rr_reorg_from_block r = None \<and>
     follows sch ch high at_block s'"
proof -
  let ?c = "\<lparr>cu_name = sd_cursor_name sch, cu_last_indexed_block = cu_last_indexed_block (cursor_of sch s),
    cu_last_safe_block = cu_last_safe_block (cursor_of sch s), cu_status = ''failed'', cu_error = Some (error_text e)\<rparr>"
  note f = assms(3) [unfolded follows_def last_indexed_def assms(4)]
  have "save_indexer_cursor ?c s1 = (Inr (), s1\<lparr>js_db := put_cursor ?c (js_db s1)\<rparr>)"
    using f by (intro live_ops(2)) simp_all
  moreover have "follows sch ch high at_block (s1\<lparr>js_db := put_cursor ?c (js_db s1)\<rparr>)"
    using f by (intro follows_mark [OF assms(3)]) simp_all
  ultimately show ?thesis
    by (simp add: run_once_def get_cursor_live [OF assms(1)] assms(2) save_cursor_def)
qed

lemma live_save_overflow:
  "live s \<Longrightarrow> \<not> (sql_int (cu_last_indexed_block c) \<and> sql_int (cu_last_safe_block c)) \<Longrightarrow>
     save_indexer_cursor c s = (Inl OverflowError, s)"
  by (simp add: save_indexer_cursor_def save_indexer_cursor_sync_def run_sync_def live_initialize bind_ints_def
      on_table_ready [OF live_update(2)])

lemma no_reorg_seen:
  assumes "follows sch ch high at_block s" "sql_int b" "a \<le> b \<Longrightarrow> sql_int a"
  shows "find_reorg_start (map (header (ch_hash ch)) [a..b]) s = (Inr None, s)"
proof (cases "a \<le> b")
  case True
  let ?hs = "map (header (ch_hash ch)) [a..b]"
  have ends: "ib_block_number (hd ?hs) = a" "ib_block_number (last ?hs) = b" "?hs \<noteq> []"
    using upto_ends [OF True] by (simp_all add: header_def hd_map last_map)
  have "first_mismatch (filter (\<lambda>(k, _). a \<le> k \<and> k \<le> b) (db_blocks (js_db s))) ?hs = first_mismatch (db_blocks (js_db s)) ?hs"
    by (rule first_mismatch_range) (auto simp: header_def)
  also have "\<dots> = None"
  proof (rule first_mismatch_none, rule ballI)
    show "dget (db_blocks (js_db s)) n = None \<or> dget (db_blocks (js_db s)) n = Some (ch_hash ch n)" for n
      using assms(1) by (cases "dget (db_blocks (js_db s)) n") (simp_all add: follows_def)
  qed
  finally have none: "first_mismatch (filter (\<lambda>(k, _). a \<le> k \<and> k \<le> b) (db_blocks (js_db s))) ?hs = None" .
  have "live s" using assms(1) by (simp add: follows_def)
  from live_ops(3) [OF this assms(3) [OF True] assms(2)] show ?thesis
    unfolding find_reorg_start_def ends(1,2) if_not_P [OF ends(3)] by (simp add: none)
qed (simp add: find_reorg_start_def)

lemma wf_ints:
  assumes "wf_chain ch a height" "set evs = chain_logs ch f t" "a \<le> f" "t \<le> height" "sql_int a" "sql_int height"
  shows "list_all (\<lambda>e. sql_int (ie_block_number e) \<and> sql_int (ie_log_index e)) evs"
  unfolding list_all_iff assms(2)
proof
  fix e
  assume "e \<in> chain_logs ch f t"
  then obtain n where n: "f \<le> n" "n \<le> t" "e \<in> set (ch_logs ch n)" by (auto simp: chain_logs_def)
  have "sql_int n" by (rule sql_int_between [OF assms(5,6)]) (use n assms in linarith)+
  moreover have "n \<in> {a..height}" using n assms by simp
  ultimately show "sql_int (ie_block_number e) \<and> sql_int (ie_log_index e)"
    using assms(1) n(3) by (simp add: wf_chain_def)
qed

text \<open>The part of a run after the headers have arrived.\<close>

lemma run_body_headed:
  assumes f: "follows sch ch high at_block s" and l: "latest_block_number p = Inr l"
    and safe: "safe = l - sd_confirmations sch" "sd_start_block sch \<le> safe" "sql_int (sd_start_block sch)" "sql_int safe"
    and lo: "lo = min (max (sd_start_block sch) (at_block + 1)) (max (sd_start_block sch) (at_block - sd_reorg_window sch + 1))"
    and headers: "block_headers p lo safe = Inr (map (header (ch_hash ch)) [lo..safe])"
  defines "s1 \<equiv> s\<lparr>js_db := put_blocks (map (header (ch_hash ch)) [lo..safe]) (js_db s)\<rparr>"
  shows "run_body sch p (cursor_of sch s) s =
     st_bind (if max (sd_start_block sch) (at_block + 1) \<le> safe
       then st_bind (st_res (poll p (BlockNumber (max (sd_start_block sch) (at_block + 1))) (BlockNumber safe))) (\<lambda>events.
              st_bind (store_indexed_chain_events events) (\<lambda>_. st_res (Inr events)))
       else st_res (Inr [])) (\<lambda>events.
     st_bind (save_cursor sch safe safe ''ok'' None) (\<lambda>_.
     st_res (Inr \<lparr>rr_status = ''ok'', rr_latest_block = Some l, rr_safe_block = Some safe,
       rr_from_block = (if max (sd_start_block sch) (at_block + 1) \<le> safe then Some (max (sd_start_block sch) (at_block + 1)) else None),
       rr_to_block = (if max (sd_start_block sch) (at_block + 1) \<le> safe then Some safe else None),
       rr_events_indexed = length events, rr_reorg_from_block = None, rr_error = None\<rparr>))) s1"
proof -
  have live: "live s" and at_block: "cu_last_indexed_block (cursor_of sch s) = at_block"
    using f by (simp_all add: follows_def last_indexed_def)
  have int: "sql_int n" if "lo \<le> n" "n \<le> safe" for n
    by (rule sql_int_between [OF safe(3,4)]) (use that lo in linarith)+
  have "find_reorg_start (map (header (ch_hash ch)) [lo..safe]) s = (Inr None, s)"
    by (rule no_reorg_seen [OF f safe(4)]) (simp add: int)
  moreover have "list_all (\<lambda>b. sql_int (ib_block_number b)) (map (header (ch_hash ch)) [lo..safe])"
    using int by (simp add: list_all_iff header_def)
  from live_ops(5) [OF live this]
  have "store_indexed_chain_blocks (map (header (ch_hash ch)) [lo..safe]) s = (Inr (), s1)" by (simp add: s1_def)
  moreover have "\<not> l - sd_confirmations sch < sd_start_block sch" using safe by simp
  ultimately show ?thesis
    using l headers safe(1) by (simp add: run_body_def at_block Let_def lo [symmetric])
qed

lemma run_once_saved:
  assumes "live s" "live s2" "sql_int safe"
    and "run_body sch p (cursor_of sch s) s = st_bind (save_cursor sch safe safe ''ok'' None) (\<lambda>_. st_res (Inr r)) s2"
    and "follows sch ch high at_block s2" "sd_start_block sch - 1 \<le> safe" "safe \<le> high"
  shows "\<exists>s'. run_once sch p s = (Inr r, s') \<and> follows sch ch high safe s'"
proof -
  let ?c = "\<lparr>cu_name = sd_cursor_name sch, cu_last_indexed_block = safe, cu_last_safe_block = safe,
    cu_status = ''ok'', cu_error = None\<rparr>"
  have "save_indexer_cursor ?c s2 = (Inr (), s2\<lparr>js_db := put_cursor ?c (js_db s2)\<rparr>)"
    using assms(2,3) by (intro live_ops(2)) simp_all
  moreover have "follows sch ch high safe (s2\<lparr>js_db := put_cursor ?c (js_db s2)\<rparr>)"
    using assms(3,6,7) by (intro follows_mark [OF assms(5)]) simp_all
  ultimately show ?thesis
    by (simp add: run_once_def get_cursor_live [OF assms(1)] assms(4) save_cursor_def)
qed

lemma run_follows:
  assumes f: "follows sch ch high at_block s" and truth: "truthful sch ch height p"
    and wf: "wf_chain ch (sd_start_block sch) height" and high: "high \<le> height"
    and sch: "1 \<le> sd_reorg_window sch" "sql_int (sd_start_block sch)" "sql_int height"
  shows "\<exists>r s'. run_once sch p s = (Inr r, s') \<and> rr_reorg_from_block r = None \<and>
     (if rr_status r = ''ok''
      then (\<exists>l. latest_block_number p = Inr l \<and> rr_safe_block r = Some (l - sd_confirmations sch) \<and>
              l - sd_confirmations sch \<le> height \<and>
              follows sch ch (max high (l - sd_confirmations sch)) (l - sd_confirmations sch) s')
      else \<not> responsive sch p \<and> follows sch ch high at_block s')"
proof -
  have live: "live s" and at_block: "cu_last_indexed_block (cursor_of sch s) = at_block" "sd_start_block sch - 1 \<le> at_block"
      "at_block \<le> high" "sql_int at_block"
    using f by (simp_all add: follows_def last_indexed_def)
  have failing: ?thesis if "run_body sch p (cursor_of sch s) s = (Inl e, s1)" "follows sch ch high at_block s1"
      "cursor_of sch s1 = cursor_of sch s" "\<not> responsive sch p" for e s1
    using run_once_failed [OF live that(1-3)] that(4) by force
  show ?thesis
  proof (cases "latest_block_number p")
    case (Inl e)
    then show ?thesis by (intro failing [of e s] f refl) (simp_all add: run_body_def responsive_def)
  next
    case (Inr l)
    define safe where "safe = l - sd_confirmations sch"
    have height: "safe \<le> height" using truth Inr by (simp add: truthful_def safe_def)
    show ?thesis
    proof (cases "safe < sd_start_block sch")
      case True
      then have silent: "\<not> responsive sch p" using Inr by (simp add: responsive_def safe_def)
      let ?c = "\<lparr>cu_name = sd_cursor_name sch, cu_last_indexed_block = at_block, cu_last_safe_block = safe,
        cu_status = ''up_to_date'', cu_error = None\<rparr>"
      show ?thesis
      proof (cases "sql_int safe")
        case int: True
        have "save_indexer_cursor ?c s = (Inr (), s\<lparr>js_db := put_cursor ?c (js_db s)\<rparr>)"
          using live at_block int by (intro live_ops(2)) simp_all
        moreover have marked: "follows sch ch high at_block (s\<lparr>js_db := put_cursor ?c (js_db s)\<rparr>)"
          using at_block int by (intro follows_mark [OF f]) simp_all
        moreover define r where "r = \<lparr>rr_status = ''up_to_date'', rr_latest_block = Some l, rr_safe_block = Some safe,
            rr_from_block = None, rr_to_block = None, rr_events_indexed = 0, rr_reorg_from_block = None, rr_error = None\<rparr>"
        ultimately have "run_once sch p s = (Inr r, s\<lparr>js_db := put_cursor ?c (js_db s)\<rparr>)"
          using True Inr
          by (simp add: run_once_def get_cursor_live [OF live] run_body_def save_cursor_def at_block(1) safe_def Let_def)
        then show ?thesis using silent marked
          by (intro exI [of _ r] exI [of _ "s\<lparr>js_db := put_cursor ?c (js_db s)\<rparr>"]) (simp add: r_def)
      next
        case False
        have "save_indexer_cursor ?c s = (Inl OverflowError, s)"
          using live False by (intro live_save_overflow) simp_all
        then show ?thesis using True Inr silent
          by (intro failing [of OverflowError s] f refl) (simp_all add: run_body_def save_cursor_def at_block(1) safe_def Let_def)
      qed
    next
      case False
      then have start: "sd_start_block sch \<le> safe" by simp
      have int: "sql_int safe" by (rule sql_int_between [OF sch(2,3) start height])
      define from_block where "from_block = max (sd_start_block sch) (at_block + 1)"
      define lo where "lo = min from_block (max (sd_start_block sch) (at_block - sd_reorg_window sch + 1))"
      have bounds: "sd_start_block sch \<le> lo" "sd_start_block sch \<le> from_block" "from_block = at_block + 1"
        using at_block(2) by (auto simp: lo_def from_block_def)
      show ?thesis
      proof (cases "block_headers p lo safe")
        case (Inl e)
        then have "lo \<le> safe" using block_headers_empty [of safe lo p] by fastforce
        have "\<exists>hs. block_headers p lo safe = Inr hs" if "responsive sch p"
          using that Inr bounds(1) \<open>lo \<le> safe\<close> unfolding responsive_def safe_def by auto
        then have "\<not> responsive sch p" using Inl by auto
        then show ?thesis using Inr Inl start
          by (intro failing [of e s] f refl)
            (simp_all add: run_body_def at_block(1) Let_def safe_def lo_def from_block_def)
      next
        case headers: (Inr hs)
        have hs: "hs = map (header (ch_hash ch)) [lo..safe]"
        proof (cases "lo \<le> safe")
          case True
          then show ?thesis using headers truth bounds(1) height unfolding truthful_def by blast
        next
          case False
          then show ?thesis using headers block_headers_empty [of safe lo p] by simp
        qed
        define s1 where "s1 = s\<lparr>js_db := put_blocks (map (header (ch_hash ch)) [lo..safe]) (js_db s)\<rparr>"
        have f1: "follows sch ch high at_block s1" unfolding s1_def by (rule follows_headers [OF f])
        have c1: "cursor_of sch s1 = cursor_of sch s" by (simp add: s1_def cursor_of_def ci.cursor_headers)
        have live1: "live s1" using f1 by (simp add: follows_def)
        note body = run_body_headed [OF f Inr safe_def start sch(2) int lo_def [unfolded from_block_def] headers [unfolded hs],
            folded s1_def from_block_def]
        have finish: ?thesis
          if ev: "(if from_block \<le> safe
              then st_bind (st_res (poll p (BlockNumber from_block) (BlockNumber safe))) (\<lambda>events.
                     st_bind (store_indexed_chain_events events) (\<lambda>_. st_res (Inr events)))
              else st_res (Inr [])) s1 = (Inr evs, s2)"
            and f2: "follows sch ch (max high safe) at_block s2" for evs s2
        proof -
          define r where "r = \<lparr>rr_status = ''ok'', rr_latest_block = Some l, rr_safe_block = Some safe,
            rr_from_block = (if from_block \<le> safe then Some from_block else None),
            rr_to_block = (if from_block \<le> safe then Some safe else None),
            rr_events_indexed = length evs, rr_reorg_from_block = None, rr_error = None\<rparr>"
          have live2: "live s2" using f2 by (simp add: follows_def)
          have "run_body sch p (cursor_of sch s) s = st_bind (save_cursor sch safe safe ''ok'' None) (\<lambda>_. st_res (Inr r)) s2"
            unfolding body st_bind_simps(1) [where f = "if from_block \<le> safe then _ else _", OF ev] r_def ..
          from run_once_saved [OF live live2 int this f2] start obtain s' where
            "run_once sch p s = (Inr r, s')" "follows sch ch (max high safe) safe s'" by auto
          then show ?thesis using Inr height by (intro exI [of _ r] exI [of _ s']) (simp add: r_def safe_def)
        qed
        show ?thesis
        proof (cases "from_block \<le> safe")
          case True
          show ?thesis
          proof (cases "poll p (BlockNumber from_block) (BlockNumber safe)")
            case (Inl e)
            have "\<exists>evs. poll p (BlockNumber from_block) (BlockNumber safe) = Inr evs" if "responsive sch p"
              using that Inr bounds(2) True unfolding responsive_def safe_def by auto
            then have "\<not> responsive sch p" using Inl by auto
            then show ?thesis
              using True Inl by (intro failing [of e s1] f1 c1) (simp_all add: body)
          next
            case poll: (Inr evs)
            have evs: "set evs = chain_logs ch from_block safe"
              using poll truth True bounds(2) height unfolding truthful_def by blast
            have "store_indexed_chain_events evs s1 = (Inr (), s1\<lparr>js_db := put_events evs (js_db s1)\<rparr>)"
              by (rule live_ops(6) [OF live1 wf_ints [OF wf evs bounds(2) height sch(2,3)]])
            moreover have "follows sch ch (max high safe) at_block (s1\<lparr>js_db := put_events evs (js_db s1)\<rparr>)"
              by (rule follows_rows [OF f1 evs bounds(2) _ wf high height]) (use bounds at_block in simp)
            ultimately show ?thesis using True poll by (intro finish) simp_all
          qed
        next
          case False
          then have "max high safe = high" using bounds at_block by simp
          with False f1 show ?thesis by (intro finish [of "[]" s1]) simp_all
        qed
      qed
    qed
  qed
qed

lemma rounds_follow:
  assumes "follows sch ch high at_block s" and "\<forall>p \<in> set ps. truthful sch ch height p"
    and "wf_chain ch (sd_start_block sch) height" "high \<le> height"
    and "1 \<le> sd_reorg_window sch" "sql_int (sd_start_block sch)" "sql_int height"
  shows "\<exists>rs s'. run_rounds_until_stop sch ps s = (Inr rs, s') \<and>
     follows sch ch (fst (progress (high, at_block) rs)) (snd (progress (high, at_block) rs)) s' \<and>
     list_all2 (\<lambda>p r. rr_reorg_from_block r = None \<and> (responsive sch p \<longrightarrow> rr_status r = ''ok'') \<and>
       (rr_status r = ''ok'' \<longrightarrow>
          (\<exists>l. latest_block_number p = Inr l \<and> rr_safe_block r = Some (l - sd_confirmations sch)))) ps rs"
  using assms(1,2,4)
proof (induction ps arbitrary: high at_block s)
  case Nil
  then show ?case by simp
next
  case (Cons p ps)
  obtain r s1 where run: "run_once sch p s = (Inr r, s1)" "rr_reorg_from_block r = None"
    and eff: "if rr_status r = ''ok''
      then (\<exists>l. latest_block_number p = Inr l \<and> rr_safe_block r = Some (l - sd_confirmations sch) \<and>
              l - sd_confirmations sch \<le> height \<and>
              follows sch ch (max high (l - sd_confirmations sch)) (l - sd_confirmations sch) s1)
      else \<not> responsive sch p \<and> follows sch ch high at_block s1"
    using run_follows [OF Cons.prems(1) _ assms(3) Cons.prems(3) assms(5-7)] Cons.prems(2) by force
  obtain high' at' where step: "progress (high, at_block) [r] = (high', at')" "follows sch ch high' at' s1" "high' \<le> height"
    using eff Cons.prems(3) by (cases "rr_status r = ''ok''") auto
  have next_round: "progress (high, at_block) (r # rs) = progress (high', at') rs" for rs
    using step(1) by simp
  from Cons.IH [OF step(2) _ step(3)] Cons.prems(2) obtain rs s' where
    "run_rounds_until_stop sch ps s1 = (Inr rs, s')"
    "follows sch ch (fst (progress (high', at') rs)) (snd (progress (high', at') rs)) s'"
    "list_all2 (\<lambda>p r. rr_reorg_from_block r = None \<and> (responsive sch p \<longrightarrow> rr_status r = ''ok'') \<and>
       (rr_status r = ''ok'' \<longrightarrow>
          (\<exists>l. latest_block_number p = Inr l \<and> rr_safe_block r = Some (l - sd_confirmations sch)))) ps rs"
    by auto
  moreover have "responsive sch p \<longrightarrow> rr_status r = ''ok''"
    "rr_status r = ''ok'' \<longrightarrow> (\<exists>l. latest_block_number p = Inr l \<and> rr_safe_block r = Some (l - sd_confirmations sch))"
    using eff by (auto split: if_splits)
  ultimately show ?case using run
    by (intro exI [of _ "r # rs"] exI [of _ s']) (simp add: next_round del: progress.simps(2))
qed

text \<open>C18: The index has no gaps: as long as the chain the node answers from does not reorganise, a loop of
  runs in which the node may fail at any request and may fall back to an older latest block never
  raises, reports no reorganisation and succeeds in every round the node answers in; afterwards the
  stored events are exactly those of the chain from the start block to the highest block a successful
  run confirmed, one row each, every stored block hash is the chain's, and the cursor is at the safe
  block of the last successful run, \<open>confirmations\<close> behind the latest block that run was told.\<close>

theorem index_has_no_gaps:
  assumes "follows sch ch high at_block s" and "\<forall>p \<in> set ps. truthful sch ch height p"
    and "wf_chain ch (sd_start_block sch) height" "high \<le> height"
    and "1 \<le> sd_reorg_window sch" "sql_int (sd_start_block sch)" "sql_int height" "0 < interval"
  shows "\<exists>rs s'. run_forever sch interval ps s = (Inr rs, s') \<and>
     follows sch ch (fst (progress (high, at_block) rs)) (snd (progress (high, at_block) rs)) s' \<and>
     list_all2 (\<lambda>p r. rr_reorg_from_block r = None \<and> (responsive sch p \<longrightarrow> rr_status r = ''ok'') \<and>
       (rr_status r = ''ok'' \<longrightarrow>
          (\<exists>l. latest_block_number p = Inr l \<and> rr_safe_block r = Some (l - sd_confirmations sch)))) ps rs"
  using rounds_follow [OF assms(1-7)] assms(8) by (simp add: run_forever_def)

subsection \<open>Witnesses\<close>

text \<open>
  A store at block 1 of a chain with one event in that block; the node now serves a chain that replaces
  block 1. The node's answers are concrete: hexadecimal numbers, a header, and a log object.
\<close>

definition demo_scheduler :: scheduler where
  "demo_scheduler = \<lparr>sd_cursor_name = ''gensyn-testnet'', sd_start_block = 0, sd_confirmations = 12, sd_reorg_window = 1\<rparr>"

definition demo_finalized :: "string \<Rightarrow> string \<Rightarrow> indexed_event" where
  "demo_finalized bh tx = \<lparr>ie_event_name = ''TaskFinalized'', ie_contract_address = demo_address, ie_block_number = 1,
     ie_block_hash = bh, ie_transaction_hash = tx, ie_log_index = 0,
     ie_args = dict_of (zip [''task_id'', ''memo_hash''] [JInt 7, JStr ''0xabcd''])\<rparr>"

definition demo_chain :: "string \<Rightarrow> string \<Rightarrow> chain" where
  "demo_chain bh tx = \<lparr>ch_hash = (\<lambda>n. if n = 1 then bh else ''0x0''),
     ch_logs = (\<lambda>n. if n = 1 then [demo_finalized bh tx] else [])\<rparr>"

definition demo_transport :: "json res \<Rightarrow> transport" where
  "demo_transport logs m ps =
     (if m = ''eth_blockNumber'' then Inr (JStr ''0xd'')
      else if m = ''eth_getBlockByNumber'' then Inr (JObj [(''hash'', JStr ''0xb'')])
      else logs)"

definition demo_poller :: "json res \<Rightarrow> poller" where
  "demo_poller logs = \<lparr>po_transport = demo_transport logs, po_crypto = demo_chain_crypto,
     po_abi = (\<lambda>_ _. Inr [AbiInt 7, AbiBytes [171, 205]]), po_addresses = [demo_address]\<rparr>"

definition demo_logs :: "json res" where
  "demo_logs = Inr (JList [JObj (emitted_log demo_chain_crypto (event_definitions ! 1) demo_address 1 ''0xb'' ''0xBB'' 0 [])])"

definition demo_indexed_store :: job_store where
  "demo_indexed_store = (opened_store blank_store)\<lparr>js_db := (js_db (opened_store blank_store))
     \<lparr>db_events := [demo_finalized ''0xa'' ''0xAA''], db_blocks := [(1, ''0xa'')],
      db_cursors := [(''gensyn-testnet'', \<lparr>cu_name = ''gensyn-testnet'', cu_last_indexed_block = 1,
        cu_last_safe_block = 1, cu_status = ''ok'', cu_error = None\<rparr>)]\<rparr>\<rparr>"

lemma demo_numbers: "py_int_hex ''0xd'' = Inr 13"
  by (simp add: py_int_hex_def text_eval Let_def)

lemma demo_decodes: "decode_logs demo_chain_crypto (po_abi (demo_poller demo_logs))
    [emitted_log demo_chain_crypto (event_definitions ! 1) demo_address 1 ''0xb'' ''0xBB'' 0 []] =
    Inr [demo_finalized ''0xb'' ''0xBB'']"
proof -
  have "decode_log demo_chain_crypto (po_abi (demo_poller demo_logs))
      (emitted_log demo_chain_crypto (event_definitions ! 1) demo_address 1 ''0xb'' ''0xBB'' 0 []) =
      Inr (Some (demo_finalized ''0xb'' ''0xBB''))"
    using decode_emitted [OF demo_topics, of "event_definitions ! 1" "[]" 1 0 "po_abi (demo_poller demo_logs)"
        "[AbiInt 7, AbiBytes [171, 205]]" "[JInt 7, JStr ''0xabcd'']" demo_address demo_address "''0xb''" "''0xBB''"]
      demo_checksum
    by (simp add: event_definitions_def demo_poller_def normalize_value_def demo_payload demo_finalized_def)
  then show ?thesis by (simp add: decode_logs_def some_values_def)
qed

lemma demo_announces: "announces (demo_poller logs) (demo_chain ''0xb'' ''0xBB'') 1 13 1"
  by (simp add: announces_def latest_block_number_def demo_poller_def demo_transport_def hex_to_int_def starts_with_def
      demo_numbers block_headers_def block_header_def header_def demo_chain_def)

lemma demo_chain_logs: "a \<le> 1 \<Longrightarrow> 1 \<le> b \<Longrightarrow> chain_logs (demo_chain bh tx) a b = {demo_finalized bh tx}"
  by (auto simp: chain_logs_def demo_chain_def split: if_splits)

lemma demo_serves: "serves (demo_poller demo_logs) (demo_chain ''0xb'' ''0xBB'') 1 13 1"
  using demo_announces demo_decodes
  by (simp add: serves_def demo_chain_logs poll_def demo_logs_def demo_transport_def objects_in_def some_values_def)
    (simp add: demo_poller_def demo_transport_def objects_in_def some_values_def)

lemma demo_wf: "wf_chain (demo_chain bh tx) 0 1"
  by (simp add: wf_chain_def demo_chain_logs) (simp add: demo_chain_def demo_finalized_def sql_int_def)

lemma demo_window: "window_start demo_scheduler 1 = 1" "sd_start_block demo_scheduler = 0"
    "sd_confirmations demo_scheduler = 12" "sane demo_scheduler 1 1"
  by (simp_all add: window_start_def demo_scheduler_def sane_def sql_int_def)

lemma demo_live: "live demo_indexed_store"
  using opened_live [OF blank_ready]
  by (simp add: live_def demo_indexed_store_def schema_ready_def has_columns_def)

lemma demo_sync: "in_sync demo_scheduler (demo_chain ''0xa'' ''0xAA'') 1 demo_indexed_store"
proof -
  have "dget (db_blocks (js_db demo_indexed_store)) n = (if n = 1 then Some ''0xa'' else None)" for n
    by (simp add: demo_indexed_store_def)
  moreover have "last_indexed demo_scheduler demo_indexed_store = 1"
    by (simp add: last_indexed_def cursor_of_def demo_indexed_store_def demo_scheduler_def)
  moreover have "set (db_events (js_db demo_indexed_store)) = {demo_finalized ''0xa'' ''0xAA''}"
    by (simp add: demo_indexed_store_def)
  ultimately show ?thesis
    using demo_live by (simp add: in_sync_def demo_window demo_chain_logs) (simp add: demo_chain_def)
qed

lemma demo_fork: "forks_at demo_scheduler (demo_chain ''0xa'' ''0xAA'') (demo_chain ''0xb'' ''0xBB'') 1 1"
  by (auto simp: forks_at_def demo_window demo_chain_def)

lemma run_repairs_shallow_reorg_witness:
  "\<exists>r s'. run_once demo_scheduler (demo_poller demo_logs) demo_indexed_store = (Inr r, s') \<and>
     rr_reorg_from_block r = Some 1 \<and> set (db_events (js_db s')) = {demo_finalized ''0xb'' ''0xBB''}"
  using run_repairs_shallow_reorg [OF demo_sync _ _ demo_window(4) demo_fork, of "demo_poller demo_logs" 13]
    demo_serves demo_wf
  by (auto simp: demo_window demo_chain_logs in_sync_def)

lemma failed_repair_loses_events_witness:
  "\<exists>r s1 r' s2. run_once demo_scheduler (demo_poller (Inl (RuntimeError ''timeout''))) demo_indexed_store = (Inr r, s1) \<and>
     rr_status r = ''failed'' \<and> run_once demo_scheduler (demo_poller demo_logs) s1 = (Inr r', s2) \<and>
     rr_status r' = ''ok'' \<and> db_events (js_db s2) = []"
proof -
  let ?p = "demo_poller (Inl (RuntimeError ''timeout''))"
  have poll: "poll ?p (BlockNumber 1) (BlockNumber 1) = Inl (RuntimeError ''timeout'')"
    by (simp add: poll_def demo_poller_def demo_transport_def)
  have int: "sql_int (cu_last_safe_block (cursor_of demo_scheduler demo_indexed_store))"
    by (simp add: cursor_of_def demo_indexed_store_def demo_scheduler_def sql_int_def)
  have "\<exists>r s1 r' s2. run_once demo_scheduler ?p demo_indexed_store = (Inr r, s1) \<and> rr_status r = ''failed'' \<and>
      run_once demo_scheduler (demo_poller demo_logs) s1 = (Inr r', s2) \<and> rr_status r' = ''ok'' \<and>
      last_indexed demo_scheduler s2 = 1 \<and>
      set (db_events (js_db s2)) = chain_logs (demo_chain ''0xb'' ''0xBB'') (sd_start_block demo_scheduler) 1 -
        chain_logs (demo_chain ''0xb'' ''0xBB'') 1 1"
    by (rule failed_repair_loses_events [OF demo_sync _ _ demo_window(4) demo_fork, where p = ?p and latest = 13 and latest' = 13])
      (simp_all add: demo_window demo_wf demo_serves demo_announces poll int)
  then show ?thesis by (fastforce simp: demo_window demo_chain_logs)
qed

text \<open>The same node, first failing and then answering, against an empty index that starts at block 1.\<close>

definition late_scheduler :: scheduler where
  "late_scheduler = demo_scheduler\<lparr>sd_start_block := 1\<rparr>"

lemma late_numbers: "sd_start_block late_scheduler = 1" "sd_confirmations late_scheduler = 12"
    "1 \<le> sd_reorg_window late_scheduler" "sql_int (sd_start_block late_scheduler)" "sql_int 1"
  by (simp_all add: late_scheduler_def demo_scheduler_def sql_int_def)

lemma demo_truthful:
  assumes "\<And>evs. poll (demo_poller logs) (BlockNumber 1) (BlockNumber 1) = Inr evs \<Longrightarrow>
      set evs = chain_logs (demo_chain ''0xb'' ''0xBB'') 1 1"
  shows "truthful late_scheduler (demo_chain ''0xb'' ''0xBB'') 1 (demo_poller logs)"
proof -
  have one: "1 \<le> a \<and> a \<le> b \<and> b \<le> 1 \<longleftrightarrow> a = 1 \<and> b = 1" for a b :: int by auto
  show ?thesis
    using demo_announces [of logs] assms by (simp add: truthful_def late_numbers one announces_def)
qed

lemma late_follows: "follows late_scheduler (demo_chain ''0xb'' ''0xBB'') 0 0 (opened_store blank_store)"
proof -
  have "js_db (opened_store blank_store) = all_columns (all_tables blank_db)"
    by (simp add: opened_first blank_store_def)
  then have "db_events (js_db (opened_store blank_store)) = []" "db_blocks (js_db (opened_store blank_store)) = []"
    "db_cursors (js_db (opened_store blank_store)) = []"
    by (simp_all add: migrated_rows has_table_def blank_db_def)
  moreover have "live (opened_store blank_store)" by (rule opened_live) (rule blank_ready)
  moreover have "sql_int 0" by (simp add: sql_int_def)
  ultimately show ?thesis
    by (simp add: follows_def last_indexed_def cursor_of_def late_numbers chain_logs_def)
qed

lemma late_responsive: "responsive late_scheduler (demo_poller demo_logs)"
proof -
  have one: "1 \<le> a \<and> a \<le> b \<and> b \<le> 1 \<longleftrightarrow> a = 1 \<and> b = 1" for a b :: int by auto
  show ?thesis
    using demo_serves
    by (auto simp: responsive_def serves_def announces_def late_numbers one intro!: exI [of _ 13])
qed

lemma index_has_no_gaps_witness:
  "\<exists>rs s'. run_forever late_scheduler 30 [demo_poller (Inl (RuntimeError ''timeout'')), demo_poller demo_logs]
       (opened_store blank_store) = (Inr rs, s') \<and>
     set (db_events (js_db s')) = {demo_finalized ''0xb'' ''0xBB''} \<and> last_indexed late_scheduler s' = 1"
proof -
  let ?p = "demo_poller (Inl (RuntimeError ''timeout''))" and ?q = "demo_poller demo_logs"
  let ?ch = "demo_chain ''0xb'' ''0xBB''"
  have "poll ?p (BlockNumber 1) (BlockNumber 1) = Inl (RuntimeError ''timeout'')"
    by (simp add: poll_def demo_poller_def demo_transport_def)
  then have p: "truthful late_scheduler ?ch 1 ?p" by (intro demo_truthful) simp
  have q: "truthful late_scheduler ?ch 1 ?q"
    using demo_serves by (intro demo_truthful) (auto simp: serves_def)
  have wf: "wf_chain ?ch (sd_start_block late_scheduler) 1"
    using demo_wf [of "''0xb''" "''0xBB''"] by (auto simp: wf_chain_def late_numbers demo_chain_logs)
  have both: "\<forall>x \<in> set [?p, ?q]. truthful late_scheduler ?ch 1 x" using p q by simp
  obtain rs s' where run: "run_forever late_scheduler 30 [?p, ?q] (opened_store blank_store) = (Inr rs, s')"
      "follows late_scheduler ?ch (fst (progress (0, 0) rs)) (snd (progress (0, 0) rs)) s'"
      "list_all2 (\<lambda>p r. rr_reorg_from_block r = None \<and> (responsive late_scheduler p \<longrightarrow> rr_status r = ''ok'') \<and>
       (rr_status r = ''ok'' \<longrightarrow> (\<exists>l. latest_block_number p = Inr l \<and>
          rr_safe_block r = Some (l - sd_confirmations late_scheduler)))) [?p, ?q] rs"
    using index_has_no_gaps [OF late_follows both wf _ late_numbers(3-5), of 30] by auto
  have told: "latest_block_number (demo_poller logs) = Inr 13" for logs
    using demo_announces [of logs] by (simp add: announces_def)
  have "progress (0, 0) rs = (1, 1)"
    using run(3) late_responsive by (auto simp: list_all2_Cons1 told late_numbers)
  with run(1,2) show ?thesis by (auto simp: follows_def demo_chain_logs late_numbers)
qed

end
