(* ===== verification/App_Settings.thy ===== *)
theory App_Settings
  imports PyJson
begin

section \<open>Settings (app/config/settings.py)\<close>

text \<open>
  The frozen dataclass \<^verbatim>\<open>Settings\<close>, its fields under the source's names with the prefix
  \<open>cfg_\<close>. Its defaults are read from the environment when the class body runs; the environment is
  the argument \<open>env\<close> of \<open>settings_from_env\<close>. A flag is on for 1, true and yes in any case. The three
  numeric settings are parsed with \<^verbatim>\<open>int()\<close> and \<^verbatim>\<open>float()\<close> and raise \<^verbatim>\<open>ValueError\<close> on other text.
\<close>

type_synonym environment = "string \<Rightarrow> string option"

definition getenv :: "environment \<Rightarrow> string \<Rightarrow> string \<Rightarrow> string" where
  "getenv env name fallback = (case env name of None \<Rightarrow> fallback | Some v \<Rightarrow> v)"

definition env_flag :: "string \<Rightarrow> bool" where
  "env_flag v \<longleftrightarrow> to_lower v \<in> {''1'', ''true'', ''yes''}"

record settings =
  cfg_signal_count_offline_demo :: bool
  cfg_signal_count_demo_llm :: bool
  cfg_signal_count_offline_fail_role :: string
  cfg_signal_count_chain_receipts :: bool
  cfg_axl_local_base_url :: string
  cfg_axl_topology_path :: string
  cfg_regime_peer_id :: string
  cfg_regime_service_name :: string
  cfg_regime_peer_candidates :: string
  cfg_narrative_peer_id :: string
  cfg_narrative_service_name :: string
  cfg_narrative_peer_candidates :: string
  cfg_risk_peer_id :: string
  cfg_risk_service_name :: string
  cfg_risk_peer_candidates :: string
  cfg_chain_analyst_peer_id :: string
  cfg_chain_analyst_service_name :: string
  cfg_chain_analyst_peer_candidates :: string
  cfg_chain_analyst_wallet :: string
  cfg_chain_analyst_fixture_path :: string
  cfg_axl_mcp_router_url :: string
  cfg_axl_dispatch_timeout_seconds :: pyfloat
  cfg_node_role :: string
  cfg_node_service_name :: string
  cfg_node_public_url :: string
  cfg_node_wallet_address :: string
  cfg_gensyn_rpc_url :: string
  cfg_gensyn_chain_id :: int
  cfg_gensyn_explorer_base_url :: string
  cfg_signal_agent_registry_address :: string
  cfg_signal_task_registry_address :: string
  cfg_signal_receipt_registry_address :: string
  cfg_signal_reputation_vault_address :: string
  cfg_signal_count_native_test_payouts :: bool
  cfg_native_test_payout_wei :: int
  cfg_native_test_payout_max_wei :: int
  cfg_chain_writer_private_key :: string
  cfg_signal_count_ree_enabled :: bool
  cfg_gensyn_sdk_command :: string
  cfg_ree_model :: string
  cfg_ree_cpu_only :: bool
  cfg_signal_count_ree_policy :: string
  cfg_verifier_private_key :: string

definition settings_from_env :: "environment \<Rightarrow> settings res" where
  "settings_from_env env =
     res_bind (pyfloat_of_str (getenv env ''AXL_DISPATCH_TIMEOUT_SECONDS'' ''30'')) (\<lambda>axl_dispatch_timeout_seconds.
     res_bind (py_int_dec (getenv env ''GENSYN_CHAIN_ID'' ''685685'')) (\<lambda>gensyn_chain_id.
     res_bind (py_int_dec (getenv env ''NATIVE_TEST_PAYOUT_WEI'' ''1000000000'')) (\<lambda>native_test_payout_wei.
     res_bind (py_int_dec (getenv env ''NATIVE_TEST_PAYOUT_MAX_WEI'' ''1000000000000'')) (\<lambda>native_test_payout_max_wei.
       Inr \<lparr>
         cfg_signal_count_offline_demo = env_flag (getenv env ''SIGNAL_COUNT_OFFLINE_DEMO'' []),
         cfg_signal_count_demo_llm = env_flag (getenv env ''SIGNAL_COUNT_DEMO_LLM'' []),
         cfg_signal_count_offline_fail_role = getenv env ''SIGNAL_COUNT_OFFLINE_FAIL_ROLE'' [],
         cfg_signal_count_chain_receipts = env_flag (getenv env ''SIGNAL_COUNT_CHAIN_RECEIPTS'' []),
         cfg_axl_local_base_url = getenv env ''AXL_LOCAL_BASE_URL'' ''http://127.0.0.1:9002'',
         cfg_axl_topology_path = getenv env ''AXL_TOPOLOGY_PATH'' ''/topology'',
         cfg_regime_peer_id = getenv env ''REGIME_PEER_ID'' ''peer-regime-example'',
         cfg_regime_service_name = getenv env ''REGIME_SERVICE_NAME'' ''regime_analyst'',
         cfg_regime_peer_candidates = getenv env ''REGIME_PEER_CANDIDATES'' [],
         cfg_narrative_peer_id = getenv env ''NARRATIVE_PEER_ID'' ''peer-narrative-example'',
         cfg_narrative_service_name = getenv env ''NARRATIVE_SERVICE_NAME'' ''narrative_analyst'',
         cfg_narrative_peer_candidates = getenv env ''NARRATIVE_PEER_CANDIDATES'' [],
         cfg_risk_peer_id = getenv env ''RISK_PEER_ID'' ''peer-risk-example'',
         cfg_risk_service_name = getenv env ''RISK_SERVICE_NAME'' ''risk_analyst'',
         cfg_risk_peer_candidates = getenv env ''RISK_PEER_CANDIDATES'' [],
         cfg_chain_analyst_peer_id = getenv env ''CHAIN_ANALYST_PEER_ID'' ''peer-chain-analyst-example'',
         cfg_chain_analyst_service_name = getenv env ''CHAIN_ANALYST_SERVICE_NAME'' ''chain_analyst'',
         cfg_chain_analyst_peer_candidates = getenv env ''CHAIN_ANALYST_PEER_CANDIDATES'' [],
         cfg_chain_analyst_wallet = getenv env ''CHAIN_ANALYST_WALLET'' [],
         cfg_chain_analyst_fixture_path = getenv env ''CHAIN_ANALYST_FIXTURE_PATH'' [],
         cfg_axl_mcp_router_url = getenv env ''AXL_MCP_ROUTER_URL'' ''http://127.0.0.1:9003'',
         cfg_axl_dispatch_timeout_seconds = axl_dispatch_timeout_seconds,
         cfg_node_role = getenv env ''NODE_ROLE'' ''regime'',
         cfg_node_service_name = getenv env ''NODE_SERVICE_NAME'' [],
         cfg_node_public_url = getenv env ''NODE_PUBLIC_URL'' ''http://127.0.0.1:7101'',
         cfg_node_wallet_address = getenv env ''NODE_WALLET_ADDRESS'' [],
         cfg_gensyn_rpc_url = getenv env ''GENSYN_RPC_URL'' ''https://gensyn-testnet.g.alchemy.com/public'',
         cfg_gensyn_chain_id = gensyn_chain_id,
         cfg_gensyn_explorer_base_url = getenv env ''GENSYN_EXPLORER_BASE_URL'' ''https://gensyn-testnet.explorer.alchemy.com'',
         cfg_signal_agent_registry_address = getenv env ''SIGNAL_AGENT_REGISTRY_ADDRESS'' ''0x9Aa7E223B5bd2384cea38F0d2464Aa6cbB0146A9'',
         cfg_signal_task_registry_address = getenv env ''SIGNAL_TASK_REGISTRY_ADDRESS'' ''0x7b0ED22C93eBdF6Be5c3f6D6fC8F7B51fdFBd861'',
         cfg_signal_receipt_registry_address = getenv env ''SIGNAL_RECEIPT_REGISTRY_ADDRESS'' ''0xb67E197538F2cF9d398c28ec85d4f99fb2e668cf'',
         cfg_signal_reputation_vault_address = getenv env ''SIGNAL_REPUTATION_VAULT_ADDRESS'' ''0x0000000000000000000000000000000000000000'',
         cfg_signal_count_native_test_payouts = env_flag (getenv env ''SIGNAL_COUNT_NATIVE_TEST_PAYOUTS'' []),
         cfg_native_test_payout_wei = native_test_payout_wei,
         cfg_native_test_payout_max_wei = native_test_payout_max_wei,
         cfg_chain_writer_private_key = getenv env ''CHAIN_WRITER_PRIVATE_KEY'' (getenv env ''DEPLOYER_PRIVATE_KEY'' []),
         cfg_signal_count_ree_enabled = env_flag (getenv env ''SIGNAL_COUNT_REE_ENABLED'' []),
         cfg_gensyn_sdk_command = getenv env ''GENSYN_SDK_COMMAND'' ''ree.sh'',
         cfg_ree_model = getenv env ''REE_MODEL'' ''Qwen/Qwen3-0.6B'',
         cfg_ree_cpu_only = env_flag (getenv env ''REE_CPU_ONLY'' []),
         cfg_signal_count_ree_policy = getenv env ''SIGNAL_COUNT_REE_POLICY'' ''risk-only-ree'',
         cfg_verifier_private_key = getenv env ''VERIFIER_PRIVATE_KEY'' []\<rparr>))))"

text \<open>With an empty environment the settings are the defaults of the source.\<close>

lemma default_numbers:
  "py_int_dec ''685685'' = Inr 685685" "py_int_dec ''1000000000'' = Inr 1000000000"
  "py_int_dec ''1000000000000'' = Inr 1000000000000"
  by (simp_all add: py_int_dec_def text_eval Let_def)

lemma default_timeout: "pyfloat_of_str ''30'' = Inr (Fin 30)"
  using fl_of_int [of 30]
  by (simp add: pyfloat_of_str_def unsigned_decimal_def pyfloat_of_rat_def float_max_def text_eval Let_def)

lemma default_settings_exist:
  "\<exists>s. settings_from_env (\<lambda>_. None) = Inr s \<and> cfg_gensyn_chain_id s = 685685 \<and>
     cfg_axl_dispatch_timeout_seconds s = Fin 30"
  unfolding settings_from_env_def getenv_def option.case default_numbers default_timeout res_bind_simps
  by (intro exI conjI, rule refl) simp_all

end
