(* ===== verification/AXL_Registry.thy ===== *)
theory AXL_Registry
  imports App_Settings
begin

section \<open>Peers of a role (app/axl/registry.py, app/axl/client.py)\<close>

text \<open>
  \<open>axl_registry\<close> is the state of \<^verbatim>\<open>AXLRegistry\<close>: the service of each role and its candidate list,
  parsed from a comma-separated setting by \<open>parse_peer_candidates\<close>. The capability registry turns
  the candidates into \<open>peer_capability\<close> records with a health and a reputation score
  (\<open>list_candidates\<close>) and picks the one of the highest rank (\<open>select_for_role\<close>): health first,
  reputation second, position last, because \<^verbatim>\<open>max\<close> returns the first of the largest.

  A reputation score is a float and may not be a number, in which case no comparison holds;
  \<open>pf_lt\<close> and \<open>py_max_lt\<close> follow Python there. The locale \<open>peer_selector\<close> states what the dispatch
  loop of the coordinator needs of the selection; it is interpreted on the registry at the end.
\<close>

subsection \<open>Comparison of floats\<close>

fun pf_lt :: "pyfloat \<Rightarrow> pyfloat \<Rightarrow> bool" where
  "pf_lt (Fin x) (Fin y) \<longleftrightarrow> x < y"
| "pf_lt (Fin _) PosInf \<longleftrightarrow> True"
| "pf_lt NegInf (Fin _) \<longleftrightarrow> True"
| "pf_lt NegInf PosInf \<longleftrightarrow> True"
| "pf_lt _ _ \<longleftrightarrow> False"

definition pf_le :: "pyfloat \<Rightarrow> pyfloat \<Rightarrow> bool" where
  "pf_le x y \<longleftrightarrow> pf_lt x y \<or> x = y \<and> x \<noteq> NaN"

text \<open>The order on the floats that are numbers, as a key.\<close>

fun pf_key :: "pyfloat \<Rightarrow> nat \<times> float64" where
  "pf_key NegInf = (0, 0)"
| "pf_key (Fin x) = (1, x)"
| "pf_key PosInf = (2, 0)"
| "pf_key NaN = (3, 0)"

lemma pf_lt_key: "x \<noteq> NaN \<Longrightarrow> y \<noteq> NaN \<Longrightarrow> pf_lt x y \<longleftrightarrow> pf_key x < pf_key y"
  by (cases x; cases y) (auto simp: less_prod_def)

text \<open>\<^verbatim>\<open>max\<close> by a comparison that need not be a linear order.\<close>

fun max_lt_from :: "('a \<Rightarrow> 'a \<Rightarrow> bool) \<Rightarrow> 'a \<Rightarrow> 'a list \<Rightarrow> 'a" where
  "max_lt_from lt b [] = b"
| "max_lt_from lt b (x # xs) = max_lt_from lt (if lt b x then x else b) xs"

fun py_max_lt :: "('a \<Rightarrow> 'a \<Rightarrow> bool) \<Rightarrow> 'a list \<Rightarrow> 'a res" where
  "py_max_lt lt [] = Inl (ValueError ''max() arg is an empty sequence'')"
| "py_max_lt lt (x # xs) = Inr (max_lt_from lt x xs)"

lemma max_lt_from_in: "max_lt_from lt b xs \<in> set (b # xs)"
proof (induction xs arbitrary: b)
  case (Cons x xs)
  have "max_lt_from lt b (x # xs) \<in> set ((if lt b x then x else b) # xs)"
    using Cons.IH by simp
  then show ?case by (auto split: if_splits)
qed simp

lemma py_max_lt_in: "py_max_lt lt xs = Inr m \<Longrightarrow> m \<in> set xs"
  using max_lt_from_in by (cases xs) force+

lemma py_max_lt_total: "xs \<noteq> [] \<Longrightarrow> \<exists>m. py_max_lt lt xs = Inr m"
  by (cases xs) auto

lemma max_lt_from_key:
  "(\<And>x y. x \<in> set (b # xs) \<Longrightarrow> y \<in> set (b # xs) \<Longrightarrow> lt x y \<longleftrightarrow> f x < f y) \<Longrightarrow>
     max_lt_from lt b xs = max_from f b xs"
proof (induction xs arbitrary: b)
  case (Cons x xs)
  have "lt b x \<longleftrightarrow> f b < f x" by (rule Cons.prems) auto
  moreover have "max_lt_from lt (if lt b x then x else b) xs = max_from f (if lt b x then x else b) xs"
    by (rule Cons.IH, rule Cons.prems) (auto split: if_splits)
  ultimately show ?case by simp
qed simp

lemma py_max_lt_key:
  "(\<And>x y. x \<in> set xs \<Longrightarrow> y \<in> set xs \<Longrightarrow> lt x y \<longleftrightarrow> f x < f y) \<Longrightarrow> py_max_lt lt xs = py_max_by f xs"
  using max_lt_from_key [of _ _ lt f] by (cases xs) auto

subsection \<open>Services and candidates\<close>

record peer_service =
  ps_peer_id :: string
  ps_service_name :: string

record peer_capability =
  pc_role :: string
  pc_peer_id :: string
  pc_service_name :: string
  pc_wallet :: string
  pc_health :: string
  pc_reputation_score :: pyfloat
  pc_latency_ms :: "float64 option"

record peer_selection =
  sel_service :: peer_service
  sel_reason :: string
  sel_capability :: peer_capability

record axl_registry =
  reg_services :: "(string, peer_service) pydict"
  reg_candidates :: "(string, peer_service list) pydict"

definition or_else :: "string \<Rightarrow> string \<Rightarrow> string" where
  "or_else a b = (if a = [] then b else a)"

definition parse_candidate :: "peer_service \<Rightarrow> string \<Rightarrow> peer_service" where
  "parse_candidate fallback item =
     (let (peer, service) =
        (if CHR ''|'' \<in> set item then split1 (CHR ''|'') item
         else if CHR '':'' \<in> set item then split1 (CHR '':'') item
         else (item, ps_service_name fallback))
      in \<lparr>ps_peer_id = strip peer, ps_service_name = or_else (strip service) (ps_service_name fallback)\<rparr>)"

definition parse_peer_candidates :: "string \<Rightarrow> peer_service \<Rightarrow> peer_service list" where
  "parse_peer_candidates raw fallback =
     (if strip raw = [] then [fallback]
      else let candidates = map (parse_candidate fallback)
                 (filter (\<lambda>item. item \<noteq> []) (map strip (split_on (CHR '','') raw)))
           in if candidates = [] then [fallback] else candidates)"

definition init_registry :: "settings \<Rightarrow> axl_registry" where
  "init_registry s =
     (let regime = \<lparr>ps_peer_id = cfg_regime_peer_id s, ps_service_name = cfg_regime_service_name s\<rparr>;
          narrative = \<lparr>ps_peer_id = cfg_narrative_peer_id s, ps_service_name = cfg_narrative_service_name s\<rparr>;
          risk = \<lparr>ps_peer_id = cfg_risk_peer_id s, ps_service_name = cfg_risk_service_name s\<rparr>;
          analyst = \<lparr>ps_peer_id = cfg_chain_analyst_peer_id s,
                     ps_service_name = cfg_chain_analyst_service_name s\<rparr>
      in \<lparr>reg_services = [(''regime'', regime), (''narrative'', narrative), (''risk'', risk),
            (''chain_analyst'', analyst)],
          reg_candidates =
           [(''regime'', parse_peer_candidates (cfg_regime_peer_candidates s) regime),
            (''narrative'', parse_peer_candidates (cfg_narrative_peer_candidates s) narrative),
            (''risk'', parse_peer_candidates (cfg_risk_peer_candidates s) risk),
            (''chain_analyst'', parse_peer_candidates (cfg_chain_analyst_peer_candidates s) analyst)]\<rparr>)"

definition unknown_role :: "string \<Rightarrow> py_error" where
  "unknown_role role = ValueError (''AXLRegistry: unknown role '' @ repr_str role)"

definition get_service_for_role :: "axl_registry \<Rightarrow> string \<Rightarrow> peer_service res" where
  "get_service_for_role reg role =
     (case dget (reg_services reg) role of None \<Rightarrow> Inl (unknown_role role) | Some s \<Rightarrow> Inr s)"

definition get_candidates_for_role :: "axl_registry \<Rightarrow> string \<Rightarrow> peer_service list res" where
  "get_candidates_for_role reg role =
     (case dget (reg_candidates reg) role of None \<Rightarrow> Inl (unknown_role role) | Some c \<Rightarrow> Inr c)"

subsection \<open>Health, reputation and rank\<close>

definition str_keys :: "string list \<Rightarrow> jobject \<Rightarrow> string list" where
  "str_keys keys d =
     filter (\<lambda>s. s \<noteq> []) (concat (map (\<lambda>k. case dget d k of Some (JStr s) \<Rightarrow> [s] | _ \<Rightarrow> []) keys))"

definition topology_item_ids :: "json \<Rightarrow> string list" where
  "topology_item_ids item =
     (case item of
        JStr s \<Rightarrow> if s = [] then [] else [s]
      | JObj d \<Rightarrow> str_keys [''public_key'', ''peer_id'', ''id''] d
      | _ \<Rightarrow> [])"

definition topology_peer_ids :: "jobject option \<Rightarrow> string set" where
  "topology_peer_ids snapshot =
     (case snapshot of None \<Rightarrow> {} | Some topo \<Rightarrow>
        set (str_keys [''our_public_key'', ''local_peer_id'', ''peer_id'', ''public_key''] topo @
          concat (map (\<lambda>k. case dget topo k of Some (JList items) \<Rightarrow> concat (map topology_item_ids items)
                            | _ \<Rightarrow> []) [''peers'', ''tree''])))"

definition candidate_health :: "string \<Rightarrow> string set \<Rightarrow> string set \<Rightarrow> string" where
  "candidate_health peer_id topology_ids failed_ids =
     (if peer_id \<in> failed_ids then ''failed''
      else if topology_ids = {} then ''configured''
      else if peer_id \<in> topology_ids then ''up''
      else ''down'')"

definition peer_reputation_score :: "string \<Rightarrow> string \<Rightarrow> jobject list \<Rightarrow> pyfloat res" where
  "peer_reputation_score role peer_id updates =
     (let relevant = filter (\<lambda>u.
            jget u ''node_role'' = JStr role \<and>
            (case dget u ''peer_id'' of None \<Rightarrow> peer_id | Some v \<Rightarrow> py_str v) = peer_id \<and>
            jget u ''credit_eligible'' = JBool True) updates
      in res_bind
           (map_res (\<lambda>u. py_float_of (case dget u ''reputation_points'' of None \<Rightarrow> num 0 | Some v \<Rightarrow> v)) relevant)
           (\<lambda>scores. if scores = [] then Inr (Fin 0) else py_max_lt pf_lt scores))"

definition health_rank :: "string \<Rightarrow> int" where
  "health_rank h =
     (if h = ''failed'' then 0 else if h = ''down'' then 1
      else if h = ''configured'' then 2 else if h = ''up'' then 3 else 0)"

text \<open>\<^verbatim>\<open>_candidate_rank(a) < _candidate_rank(b)\<close>, a comparison of pairs.\<close>

definition candidate_lt :: "peer_capability \<Rightarrow> peer_capability \<Rightarrow> bool" where
  "candidate_lt a b \<longleftrightarrow>
     health_rank (pc_health a) < health_rank (pc_health b) \<or>
     health_rank (pc_health a) = health_rank (pc_health b) \<and>
       pf_lt (pc_reputation_score a) (pc_reputation_score b)"

definition candidate_rank :: "peer_capability \<Rightarrow> int \<times> nat \<times> float64" where
  "candidate_rank c = (health_rank (pc_health c), pf_key (pc_reputation_score c))"

definition fmt_score :: "pyfloat \<Rightarrow> string" where
  "fmt_score f = (case f of Fin x \<Rightarrow> fmt_fixed 2 x | _ \<Rightarrow> pyfloat_repr f)"

definition selection_reason :: "peer_capability \<Rightarrow> nat \<Rightarrow> string" where
  "selection_reason c candidate_count =
     (if pc_health c = ''configured'' \<and> candidate_count = 1 \<and> pf_le (pc_reputation_score c) (Fin 0)
        then ''capability:static-role-match''
      else let health_reason =
             (if pc_health c = ''up'' then ''capability:topology-up''
              else if pc_health c = ''configured'' then ''capability:configured''
              else if pc_health c = ''down'' then ''capability:topology-missing''
              else if pc_health c = ''failed'' then ''capability:previous-attempt-failed''
              else ''capability:unknown'')
        in if pf_le (pc_reputation_score c) (Fin 0) then health_reason
           else health_reason @ '',reputation-score:'' @ fmt_score (pc_reputation_score c))"

subsection \<open>The capability registry\<close>

definition list_candidates ::
    "axl_registry \<Rightarrow> string \<Rightarrow> jobject option \<Rightarrow> jobject list \<Rightarrow> string set \<Rightarrow> peer_capability list res" where
  "list_candidates reg role topology updates failed =
     res_bind (get_candidates_for_role reg role) (\<lambda>services.
       let ids = topology_peer_ids topology in
       map_res (\<lambda>s. res_bind (peer_reputation_score role (ps_peer_id s) updates) (\<lambda>score.
         Inr \<lparr>pc_role = role, pc_peer_id = ps_peer_id s, pc_service_name = ps_service_name s,
              pc_wallet = [], pc_health = candidate_health (ps_peer_id s) ids failed,
              pc_reputation_score = score, pc_latency_ms = None\<rparr>)) services)"

definition select_for_role ::
    "axl_registry \<Rightarrow> string \<Rightarrow> jobject option \<Rightarrow> jobject list \<Rightarrow> string set \<Rightarrow> peer_selection res" where
  "select_for_role reg role topology updates failed =
     res_bind (list_candidates reg role topology updates failed) (\<lambda>candidates.
     res_bind (py_max_lt candidate_lt candidates) (\<lambda>selected.
       Inr \<lparr>sel_service = \<lparr>ps_peer_id = pc_peer_id selected, ps_service_name = pc_service_name selected\<rparr>,
            sel_reason = selection_reason selected (length candidates),
            sel_capability = selected\<rparr>))"

subsection \<open>Paths of the bridge client\<close>

definition build_mcp_request_path :: "settings \<Rightarrow> axl_registry \<Rightarrow> string \<Rightarrow> string res" where
  "build_mcp_request_path s reg role =
     res_bind (get_service_for_role reg role) (\<lambda>service.
       Inr (cfg_axl_local_base_url s @ ''/mcp/'' @ ps_peer_id service @ ''/'' @ ps_service_name service))"

definition build_topology_path :: "settings \<Rightarrow> string" where
  "build_topology_path s = cfg_axl_local_base_url s @ cfg_axl_topology_path s"

definition axl_run_metadata :: "settings \<Rightarrow> jobject" where
  "axl_run_metadata s =
     [(''transport'', JStr ''axl-mcp''),
      (''axl_local_base_url'', JStr (cfg_axl_local_base_url s)),
      (''axl_topology_path'', JStr (build_topology_path s)),
      (''axl_mcp_router_url'', JStr (cfg_axl_mcp_router_url s))]"

subsection \<open>Parsing candidates\<close>

definition candidate_text :: "peer_service \<Rightarrow> string" where
  "candidate_text c = ps_peer_id c @ ''|'' @ ps_service_name c"

definition plain_candidate :: "peer_service \<Rightarrow> bool" where
  "plain_candidate c \<longleftrightarrow>
     CHR '','' \<notin> set (ps_peer_id c) \<and> CHR ''|'' \<notin> set (ps_peer_id c) \<and>
     CHR '','' \<notin> set (ps_service_name c) \<and> ps_service_name c \<noteq> [] \<and>
     strip (ps_peer_id c) = ps_peer_id c \<and> strip (ps_service_name c) = ps_service_name c"

lemma bar: "\<not> is_space (CHR ''|'')"
  by (simp add: is_space_def char_code_def)

lemma candidate_text_strip: "plain_candidate c \<Longrightarrow> strip (candidate_text c) = candidate_text c"
proof -
  assume "plain_candidate c"
  then have p: "ps_peer_id c = [] \<or> \<not> is_space (hd (ps_peer_id c))"
    and s: "ps_service_name c \<noteq> []" "\<not> is_space (last (ps_service_name c))"
    unfolding plain_candidate_def strip_id_iff by auto
  have "\<not> is_space (hd (candidate_text c))"
    using p bar by (cases "ps_peer_id c") (auto simp: candidate_text_def)
  moreover have "\<not> is_space (last (candidate_text c))"
    using s by (simp add: candidate_text_def)
  ultimately show ?thesis by (simp add: strip_id_iff)
qed

lemma parse_candidate_text: "plain_candidate c \<Longrightarrow> parse_candidate fb (candidate_text c) = c"
  using split1_at [of "CHR ''|''" "ps_peer_id c" "ps_service_name c"]
  by (simp add: parse_candidate_def candidate_text_def plain_candidate_def or_else_def)

lemma parse_peer_candidates_nonempty: "parse_peer_candidates raw fb \<noteq> []"
  by (simp add: parse_peer_candidates_def Let_def)

text \<open>A candidate list written as comma-separated items peer|service is read back as the same
  list, in the same order, whatever the fallback is, when the names hold no separator and no
  surrounding blanks.\<close>

theorem parse_peer_candidates_roundtrip:
  assumes "cs \<noteq> []" and "\<forall>c \<in> set cs. plain_candidate c"
  shows "parse_peer_candidates (join '','' (map candidate_text cs)) fb = cs"
proof -
  let ?raw = "join '','' (map candidate_text cs)"
  have free: "CHR '','' \<notin> set x" if "x \<in> set (map candidate_text cs)" for x
    using that assms(2) by (auto simp: candidate_text_def plain_candidate_def)
  have split: "split_on (CHR '','') ?raw = map candidate_text cs"
    using split_on_join [of "map candidate_text cs" "CHR '',''"] assms(1) free by simp
  have items: "map strip (map candidate_text cs) = map candidate_text cs"
    using assms(2) by (simp add: candidate_text_strip)
  have ne: "filter (\<lambda>item. item \<noteq> []) (map candidate_text cs) = map candidate_text cs"
    by (simp add: filter_id_conv candidate_text_def)
  have reread: "map (parse_candidate fb) (map candidate_text cs) = cs"
    using assms(2) by (simp add: map_idI parse_candidate_text)
  have "CHR ''|'' \<in> set ?raw"
  proof -
    have "CHR ''|'' \<in> set (hd (map candidate_text cs))"
      using assms(1) by (cases cs) (simp_all add: candidate_text_def)
    moreover have "join sep (x # xs) = x @ (if xs = [] then [] else sep @ join sep xs)" for sep x xs
      by (cases xs) auto
    ultimately show ?thesis using assms(1) by (cases cs) auto
  qed
  then have "strip ?raw \<noteq> []"
    unfolding strip_empty using bar by blast
  then show ?thesis
    unfolding parse_peer_candidates_def split items ne reread Let_def using assms(1) by simp
qed

lemma parse_peer_candidates_roundtrip_witness:
  "parse_peer_candidates (join '','' (map candidate_text
     [\<lparr>ps_peer_id = ''p1'', ps_service_name = ''risk_analyst''\<rparr>, \<lparr>ps_peer_id = ''p2'', ps_service_name = ''b''\<rparr>]))
     \<lparr>ps_peer_id = ''x'', ps_service_name = ''y''\<rparr> =
   [\<lparr>ps_peer_id = ''p1'', ps_service_name = ''risk_analyst''\<rparr>, \<lparr>ps_peer_id = ''p2'', ps_service_name = ''b''\<rparr>]"
  by (rule parse_peer_candidates_roundtrip) (simp_all add: plain_candidate_def text_eval)

subsection \<open>Selection\<close>

lemma list_candidates_iff:
  "list_candidates reg role topo updates failed = Inr cs \<longleftrightarrow>
     (\<exists>services. get_candidates_for_role reg role = Inr services \<and>
       list_all2 (\<lambda>s c. \<exists>score. peer_reputation_score role (ps_peer_id s) updates = Inr score \<and>
         c = \<lparr>pc_role = role, pc_peer_id = ps_peer_id s, pc_service_name = ps_service_name s,
              pc_wallet = [], pc_health = candidate_health (ps_peer_id s) (topology_peer_ids topo) failed,
              pc_reputation_score = score, pc_latency_ms = None\<rparr>) services cs)"
  unfolding list_candidates_def res_bind_Inr_iff Let_def map_res_Inr_iff by (simp add: eq_commute)

lemma list_candidates_health:
  assumes "list_candidates reg role topo updates failed = Inr cs" and "c \<in> set cs"
  shows "pc_health c = candidate_health (pc_peer_id c) (topology_peer_ids topo) failed"
  using assms unfolding list_candidates_iff
  by (auto simp: list_all2_conv_all_nth in_set_conv_nth)

lemma candidate_lt_rank:
  "pc_reputation_score a \<noteq> NaN \<Longrightarrow> pc_reputation_score b \<noteq> NaN \<Longrightarrow>
     candidate_lt a b \<longleftrightarrow> candidate_rank a < candidate_rank b"
  by (auto simp: candidate_lt_def candidate_rank_def pf_lt_key less_prod_def)

lemma candidate_health_failed: "candidate_health p ids F = ''failed'' \<longleftrightarrow> p \<in> F"
  by (simp add: candidate_health_def)

lemma health_rank_pos: "0 < health_rank (candidate_health p ids F) \<longleftrightarrow> p \<notin> F"
  by (simp add: candidate_health_def health_rank_def)

text \<open>When every reputation score is a number, the registry selects the first candidate of the
  highest rank, health before reputation, among the candidates configured for the role; a
  candidate that has failed is selected only if all have failed.\<close>

theorem select_for_role_first_best:
  assumes "list_candidates reg role topo updates failed = Inr cs" and "cs \<noteq> []"
    and "\<forall>c \<in> set cs. pc_reputation_score c \<noteq> NaN"
  shows "\<exists>sel m. select_for_role reg role topo updates failed = Inr sel \<and>
     sel_capability sel = m \<and> first_max candidate_rank cs m \<and>
     ps_peer_id (sel_service sel) = pc_peer_id m \<and> ps_service_name (sel_service sel) = pc_service_name m \<and>
     (pc_peer_id m \<in> failed \<longrightarrow> (\<forall>c \<in> set cs. pc_peer_id c \<in> failed))"
proof -
  obtain m where m: "py_max_lt candidate_lt cs = Inr m" using py_max_lt_total assms(2) by blast
  have eq: "py_max_lt candidate_lt cs = py_max_by candidate_rank cs"
    by (rule py_max_lt_key) (simp add: assms(3) candidate_lt_rank)
  with m have fm: "first_max candidate_rank cs m" using py_max_by_first_max by force
  have mc: "m \<in> set cs" using m by (rule py_max_lt_in)
  have "pc_peer_id c \<in> failed" if f: "pc_peer_id m \<in> failed" and c: "c \<in> set cs" for c
  proof -
    have "candidate_rank c \<le> candidate_rank m" using py_max_by_ge [OF _ c] m eq by metis
    then have "health_rank (pc_health c) \<le> health_rank (pc_health m)"
      by (auto simp: candidate_rank_def less_eq_prod_def)
    moreover have "health_rank (pc_health m) = 0"
      using f list_candidates_health [OF assms(1) mc] by (simp add: candidate_health_def health_rank_def)
    ultimately show ?thesis
      using list_candidates_health [OF assms(1) c] health_rank_pos by (metis not_le)
  qed
  then show ?thesis using assms(1) m fm by (auto simp: select_for_role_def)
qed

definition demo_registry :: axl_registry where
  "demo_registry = \<lparr>reg_services = [(''risk'', \<lparr>ps_peer_id = ''p1'', ps_service_name = ''s''\<rparr>)],
     reg_candidates = [(''risk'', [\<lparr>ps_peer_id = ''p1'', ps_service_name = ''s''\<rparr>,
        \<lparr>ps_peer_id = ''p2'', ps_service_name = ''s''\<rparr>])]\<rparr>"

lemma select_for_role_first_best_witness:
  "\<exists>sel. select_for_role demo_registry ''risk'' None [] {''p1''} = Inr sel \<and>
     pc_peer_id (sel_capability sel) \<in> {''p1'', ''p2''}"
proof -
  obtain cs where cs: "list_candidates demo_registry ''risk'' None [] {''p1''} = Inr cs"
    and ids: "map pc_peer_id cs = [''p1'', ''p2'']" and num: "\<forall>c \<in> set cs. pc_reputation_score c \<noteq> NaN"
    by (simp add: list_candidates_def get_candidates_for_role_def demo_registry_def Let_def
        peer_reputation_score_def)
  have "cs \<noteq> []" using ids by auto
  from select_for_role_first_best [OF cs this num] obtain sel where
    s: "select_for_role demo_registry ''risk'' None [] {''p1''} = Inr sel"
    and f: "first_max candidate_rank cs (sel_capability sel)" by blast
  have "sel_capability sel \<in> set cs" using f by (auto simp: first_max_def)
  then have "pc_peer_id (sel_capability sel) \<in> set (map pc_peer_id cs)" by simp
  with s ids show ?thesis by auto
qed

subsection \<open>What the dispatch loop needs of the selection\<close>

locale peer_selector =
  fixes candidate_ids :: "string list"
    and pick :: "string set \<Rightarrow> peer_selection res"
  assumes pick_total: "candidate_ids \<noteq> [] \<Longrightarrow> \<exists>s. pick F = Inr s"
    and pick_in: "pick F = Inr s \<Longrightarrow> ps_peer_id (sel_service s) \<in> set candidate_ids"
    and pick_fresh: "pick F = Inr s \<Longrightarrow> c \<in> set candidate_ids \<Longrightarrow> c \<notin> F \<Longrightarrow>
       ps_peer_id (sel_service s) \<notin> F"
begin

text \<open>Marking the picked peer as failed makes progress as long as some candidate is left.\<close>

lemma pick_progress:
  assumes "pick F = Inr s" "F \<subseteq> set candidate_ids" "card F < card (set candidate_ids)"
  shows "insert (ps_peer_id (sel_service s)) F \<subseteq> set candidate_ids"
    and "card (insert (ps_peer_id (sel_service s)) F) = Suc (card F)"
proof -
  show "insert (ps_peer_id (sel_service s)) F \<subseteq> set candidate_ids"
    using assms pick_in by auto
  have "F \<noteq> set candidate_ids" using assms(3) by auto
  then obtain c where "c \<in> set candidate_ids" "c \<notin> F" using assms(2) by auto
  with assms(1) have "ps_peer_id (sel_service s) \<notin> F" by (rule pick_fresh)
  moreover have "finite F" using assms(2) by (rule finite_subset) simp
  ultimately show "card (insert (ps_peer_id (sel_service s)) F) = Suc (card F)" by simp
qed

text \<open>Once all candidates have failed, marking another one changes nothing.\<close>

lemma pick_stuck: "pick (set candidate_ids) = Inr s \<Longrightarrow>
    insert (ps_peer_id (sel_service s)) (set candidate_ids) = set candidate_ids"
  using pick_in by auto

end

definition candidate_ids_for :: "axl_registry \<Rightarrow> string \<Rightarrow> string list" where
  "candidate_ids_for reg role =
     (case get_candidates_for_role reg role of Inl _ \<Rightarrow> [] | Inr ss \<Rightarrow> map ps_peer_id ss)"

lemma list_candidates_no_updates:
  "get_candidates_for_role reg role = Inr ss \<Longrightarrow>
     \<exists>cs. list_candidates reg role topo [] F = Inr cs \<and> map pc_peer_id cs = map ps_peer_id ss \<and>
       (\<forall>c \<in> set cs. pc_reputation_score c = Fin 0)"
  by (simp add: list_candidates_def Let_def peer_reputation_score_def)
    (subst map_res_pure, rule refl, auto)

lemma select_no_updates_iff:
  "(\<exists>sel. select_for_role reg role topo [] F = Inr sel) \<longleftrightarrow> candidate_ids_for reg role \<noteq> []"
proof (cases "get_candidates_for_role reg role")
  case (Inl e)
  then show ?thesis by (simp add: select_for_role_def list_candidates_def candidate_ids_for_def)
next
  case (Inr ss)
  then obtain cs where cs: "list_candidates reg role topo [] F = Inr cs"
    "map pc_peer_id cs = map ps_peer_id ss" using list_candidates_no_updates by blast
  then have "cs = [] \<longleftrightarrow> ss = []" by (metis Nil_is_map_conv)
  with cs Inr show ?thesis
    by (cases cs) (auto simp: select_for_role_def candidate_ids_for_def)
qed

lemma select_no_updates:
  assumes "select_for_role reg role topo [] F = Inr sel"
  shows "ps_peer_id (sel_service sel) \<in> set (candidate_ids_for reg role)"
    and "c \<in> set (candidate_ids_for reg role) \<Longrightarrow> c \<notin> F \<Longrightarrow> ps_peer_id (sel_service sel) \<notin> F"
proof -
  obtain ss where ss: "get_candidates_for_role reg role = Inr ss"
    using assms by (auto simp: select_for_role_def list_candidates_def res_simps)
  then obtain cs where cs: "list_candidates reg role topo [] F = Inr cs"
    "map pc_peer_id cs = map ps_peer_id ss" "\<forall>c \<in> set cs. pc_reputation_score c = Fin 0"
    using list_candidates_no_updates by blast
  then have ids: "set (candidate_ids_for reg role) = pc_peer_id ` set cs"
    using ss by (simp add: candidate_ids_for_def flip: set_map)
  have img: "pc_peer_id m \<in> set (candidate_ids_for reg role)" if "m \<in> set cs" for m
    using that by (simp add: ids)
  have ne: "cs \<noteq> []" using assms cs by (auto simp: select_for_role_def)
  have sel: "\<exists>m. pc_peer_id m = ps_peer_id (sel_service sel) \<and> m \<in> set cs \<and>
      (pc_peer_id m \<in> F \<longrightarrow> (\<forall>c \<in> set cs. pc_peer_id c \<in> F))"
  proof -
    obtain m where m: "py_max_lt candidate_lt cs = Inr m" using py_max_lt_total ne by blast
    have "py_max_lt candidate_lt cs = py_max_by candidate_rank cs"
      by (rule py_max_lt_key) (simp add: cs(3) candidate_lt_rank)
    with m have ge: "\<And>c. c \<in> set cs \<Longrightarrow> candidate_rank c \<le> candidate_rank m"
      using py_max_by_ge by metis
    have mc: "m \<in> set cs" using m by (rule py_max_lt_in)
    have "pc_peer_id c \<in> F" if "pc_peer_id m \<in> F" "c \<in> set cs" for c
    proof -
      have "health_rank (pc_health c) \<le> health_rank (pc_health m)"
        using ge [OF that(2)] by (auto simp: candidate_rank_def less_eq_prod_def)
      then show ?thesis
        using that list_candidates_health [OF cs(1)] mc health_rank_pos by (metis leD order.strict_trans2)
    qed
    then show ?thesis using m mc assms cs(1) by (auto simp: select_for_role_def)
  qed
  show "ps_peer_id (sel_service sel) \<in> set (candidate_ids_for reg role)"
    using sel img by metis
  show "c \<in> set (candidate_ids_for reg role) \<Longrightarrow> c \<notin> F \<Longrightarrow> ps_peer_id (sel_service sel) \<notin> F"
    using sel by (auto simp: ids)
qed

interpretation sel: peer_selector "candidate_ids_for reg role" "select_for_role reg role topo []"
  for reg role topo
proof unfold_locales
  show "candidate_ids_for reg role \<noteq> [] \<Longrightarrow> \<exists>s. select_for_role reg role topo [] F = Inr s" for F
    by (simp add: select_no_updates_iff)
qed (auto dest: select_no_updates)

lemma init_registry_candidates:
  "role \<in> {''regime'', ''narrative'', ''risk'', ''chain_analyst''} \<Longrightarrow>
     candidate_ids_for (init_registry s) role \<noteq> []"
  by (auto simp: candidate_ids_for_def get_candidates_for_role_def init_registry_def Let_def
      parse_peer_candidates_nonempty)

end
