(* ===== verification/Dispatch.thy ===== *)
theory Dispatch
  imports AXL_Registry Contracts
begin

section \<open>Dispatching one role (app/coordinator/service.py, \<^verbatim>\<open>_dispatch_role\<close>)\<close>

text \<open>
  The loop asks the registry for the best peer that has not failed, sends the task there, checks the
  answer and either returns it or marks the peer as failed. The transport and the clock are not part
  of the code: \<open>role_env\<close> holds the reply to each call, which may depend on the calls made before, and
  the readings of \<^verbatim>\<open>perf_counter\<close>.

  \<open>dispatch_loop\<close> is the \<^verbatim>\<open>while\<close> loop as a partial function: \<open>None\<close> means that the loop never ends.
  It ends when the configured peer ids are distinct; with a repeated id and failing peers it does not,
  because the loop counts candidates but collects ids. Both are theorems.
\<close>

record node_execution_record =
  ne_node_role :: string
  ne_peer_id :: string
  ne_status :: string
  ne_latency_ms :: float64
  ne_service_name :: string
  ne_transport :: string
  ne_dispatch_target :: string
  ne_selection_reason :: string
  ne_attempted_peer_ids :: "string list"

definition execution_record_json :: "node_execution_record \<Rightarrow> json" where
  "execution_record_json r = JObj
     ([(''node_role'', JStr (ne_node_role r)), (''peer_id'', JStr (ne_peer_id r)),
       (''status'', JStr (ne_status r)), (''latency_ms'', num (ne_latency_ms r))] @
      (if ne_service_name r \<noteq> [] then [(''service_name'', JStr (ne_service_name r))] else []) @
      (if ne_transport r \<noteq> [] then [(''transport'', JStr (ne_transport r))] else []) @
      (if ne_dispatch_target r \<noteq> [] then [(''dispatch_target'', JStr (ne_dispatch_target r))] else []) @
      (if ne_selection_reason r \<noteq> [] then [(''selection_reason'', JStr (ne_selection_reason r))] else []) @
      (if ne_attempted_peer_ids r \<noteq> [] then [(''attempted_peer_ids'', str_list (ne_attempted_peer_ids r))] else []))"

record role_outcome =
  ro_response :: "specialist_response option"
  ro_execution_record :: node_execution_record

record role_env =
  re_dispatch :: "string list \<Rightarrow> peer_service \<Rightarrow> jobject \<Rightarrow> specialist_response res"
  re_started :: float64
  re_clock :: "nat \<Rightarrow> float64"

definition elapsed_ms :: "float64 \<Rightarrow> float64 \<Rightarrow> float64" where
  "elapsed_ms started now = py_round 3 (fmul (fsub now started) 1000)"

definition validate_response_context ::
    "specialist_response \<Rightarrow> string \<Rightarrow> string \<Rightarrow> string \<Rightarrow> specialist_response res" where
  "validate_response_context r job_id role peer_id =
     (let mismatches =
        (if sr_job_id r \<noteq> job_id then [''job_id''] else []) @
        (if sr_node_role r \<noteq> role then [''node_role''] else []) @
        (if sr_peer_id r \<noteq> peer_id then [''peer_id''] else [])
      in if mismatches \<noteq> []
           then Inl (InvalidSpecialistResponse (''specialist response context mismatch: '' @ join '','' mismatches))
         else Inr r)"

definition fallback_reason :: "string \<Rightarrow> string list \<Rightarrow> bool \<Rightarrow> string" where
  "fallback_reason reason attempted exhausted =
     (let failed_before_success = butlast attempted;
          suffixes =
            (if failed_before_success \<noteq> [] then [''fallback_from='' @ join '','' failed_before_success] else []) @
            (if exhausted \<and> length attempted > 1 then [''attempts_exhausted='' @ join '','' attempted] else [])
      in if suffixes = [] then reason else reason @ ''; '' @ join ''; '' suffixes)"

definition audit_attempts :: "string list \<Rightarrow> string list" where
  "audit_attempts attempted = (if length attempted > 1 then attempted else [])"

definition dispatch_target :: "peer_service \<Rightarrow> string" where
  "dispatch_target s = ''/mcp/'' @ ps_peer_id s @ ''/'' @ ps_service_name s"

definition build_payload :: "string \<Rightarrow> string \<Rightarrow> thesis_request \<Rightarrow> jobject \<Rightarrow> string list \<Rightarrow> jobject" where
  "build_payload role job_id request market headlines =
     [(''job_id'', JStr job_id), (''role'', JStr role), (''asset'', JStr (tr_asset request)),
      (''horizon_days'', JInt (tr_horizon_days request)), (''thesis'', JStr (tr_thesis request))] @
     (if role = ''regime'' then [(''snapshot'', JObj market)]
      else if role = ''narrative'' then [(''headlines'', str_list headlines)] else [])"

definition failure_status :: "py_error \<Rightarrow> string" where
  "failure_status e =
     (case e of TimeoutError _ \<Rightarrow> ''timed_out'' | InvalidSpecialistResponse _ \<Rightarrow> ''invalid_response''
      | _ \<Rightarrow> ''error'')"

definition attempt ::
    "role_env \<Rightarrow> string \<Rightarrow> string \<Rightarrow> string list \<Rightarrow> peer_service \<Rightarrow> jobject \<Rightarrow> specialist_response res" where
  "attempt env role job_id attempted service payload =
     res_bind (re_dispatch env attempted service payload)
       (\<lambda>r. validate_response_context r job_id role (ps_peer_id service))"

definition completed_outcome ::
    "role_env \<Rightarrow> string \<Rightarrow> string \<Rightarrow> peer_selection \<Rightarrow> string list \<Rightarrow> specialist_response \<Rightarrow> role_outcome" where
  "completed_outcome env role transport sel attempted r =
     \<lparr>ro_response = Some r,
      ro_execution_record =
       \<lparr>ne_node_role = role, ne_peer_id = ps_peer_id (sel_service sel), ne_status = ''completed'',
        ne_latency_ms = elapsed_ms (re_started env) (re_clock env (length attempted)),
        ne_service_name = ps_service_name (sel_service sel), ne_transport = transport,
        ne_dispatch_target = dispatch_target (sel_service sel),
        ne_selection_reason = fallback_reason (sel_reason sel) attempted False,
        ne_attempted_peer_ids = audit_attempts attempted\<rparr>\<rparr>"

definition exhausted_outcome ::
    "role_env \<Rightarrow> string \<Rightarrow> string \<Rightarrow> peer_selection \<Rightarrow> string list \<Rightarrow> string \<Rightarrow> role_outcome" where
  "exhausted_outcome env role transport sel attempted status =
     \<lparr>ro_response = None,
      ro_execution_record =
       \<lparr>ne_node_role = role, ne_peer_id = ps_peer_id (sel_service sel), ne_status = status,
        ne_latency_ms = elapsed_ms (re_started env) (re_clock env (length attempted)),
        ne_service_name = ps_service_name (sel_service sel), ne_transport = transport,
        ne_dispatch_target = dispatch_target (sel_service sel),
        ne_selection_reason = fallback_reason (sel_reason sel) attempted True,
        ne_attempted_peer_ids = audit_attempts attempted\<rparr>\<rparr>"

record loop_state =
  ls_failed :: "string set"
  ls_attempted :: "string list"
  ls_last :: "peer_selection option"
  ls_status :: string

record dispatch_args =
  da_registry :: axl_registry
  da_topology :: "jobject option"
  da_env :: role_env
  da_role :: string
  da_job_id :: string
  da_transport :: string
  da_payload :: jobject
  da_count :: nat

text \<open>One round: no peer to select, an answer, or the state after a failed attempt.\<close>

datatype round_result = Raised py_error | Answered role_outcome | Failed loop_state

definition dispatch_round :: "dispatch_args \<Rightarrow> loop_state \<Rightarrow> round_result" where
  "dispatch_round a st =
     (case select_for_role (da_registry a) (da_role a) (da_topology a) [] (ls_failed st) of
        Inl e \<Rightarrow> Raised e
      | Inr sel \<Rightarrow>
          let service = sel_service sel; attempted = ls_attempted st @ [ps_peer_id service] in
          (case attempt (da_env a) (da_role a) (da_job_id a) (ls_attempted st) service (da_payload a) of
             Inr r \<Rightarrow> Answered (completed_outcome (da_env a) (da_role a) (da_transport a) sel attempted r)
           | Inl e \<Rightarrow> Failed
               \<lparr>ls_failed = insert (ps_peer_id service) (ls_failed st), ls_attempted = attempted,
                ls_last = Some sel, ls_status = failure_status e\<rparr>))"

definition after_loop :: "dispatch_args \<Rightarrow> loop_state \<Rightarrow> role_outcome res" where
  "after_loop a st =
     (case ls_last st of
        None \<Rightarrow> Inl (ValueError (''AXLRegistry: no peer candidates for role '' @ repr_str (da_role a)))
      | Some sel \<Rightarrow> Inr (exhausted_outcome (da_env a) (da_role a) (da_transport a) sel (ls_attempted st) (ls_status st)))"

definition is_failed :: "round_result \<Rightarrow> bool" where
  "is_failed r = (case r of Failed _ \<Rightarrow> True | _ \<Rightarrow> False)"

definition failed_state :: "round_result \<Rightarrow> loop_state" where
  "failed_state r = (case r of Failed st \<Rightarrow> st | _ \<Rightarrow> undefined)"

definition round_value :: "round_result \<Rightarrow> role_outcome res" where
  "round_value r = (case r of Raised e \<Rightarrow> Inl e | Answered v \<Rightarrow> Inr v | Failed _ \<Rightarrow> Inl (RuntimeError []))"

partial_function (option) dispatch_loop :: "dispatch_args \<Rightarrow> loop_state \<Rightarrow> role_outcome res option" where
  "dispatch_loop a st =
     (if card (ls_failed st) < da_count a then
        (let r = dispatch_round a st in
         if is_failed r then dispatch_loop a (failed_state r) else Some (round_value r))
      else Some (after_loop a st))"

definition initial_state :: loop_state where
  "initial_state = \<lparr>ls_failed = {}, ls_attempted = [], ls_last = None, ls_status = ''error''\<rparr>"

definition transport_name :: "string \<Rightarrow> string" where
  "transport_name run_mode = (if run_mode = ''offline-demo-preview'' then ''offline-preview'' else ''axl-mcp'')"

definition dispatch_role ::
    "axl_registry \<Rightarrow> role_env \<Rightarrow> string \<Rightarrow> string \<Rightarrow> thesis_request \<Rightarrow> jobject \<Rightarrow> string list \<Rightarrow> string \<Rightarrow>
     jobject \<Rightarrow> role_outcome res option" where
  "dispatch_role reg env role job_id request market headlines run_mode topology =
     (case list_candidates reg role (Some topology) [] {} of
        Inl e \<Rightarrow> Some (Inl e)
      | Inr candidates \<Rightarrow>
          dispatch_loop
            \<lparr>da_registry = reg, da_topology = Some topology, da_env = env, da_role = role,
             da_job_id = job_id, da_transport = transport_name run_mode,
             da_payload = build_payload role job_id request market headlines,
             da_count = length candidates\<rparr> initial_state)"

subsection \<open>Rounds\<close>

lemma dispatch_round_failed:
  assumes "dispatch_round a st = Failed st'"
  shows "\<exists>sel. select_for_role (da_registry a) (da_role a) (da_topology a) [] (ls_failed st) = Inr sel \<and>
     ls_failed st' = insert (ps_peer_id (sel_service sel)) (ls_failed st) \<and>
     ls_attempted st' = ls_attempted st @ [ps_peer_id (sel_service sel)] \<and> ls_last st' = Some sel"
  using assms by (auto simp: dispatch_round_def Let_def split: sum.splits)

lemma dispatch_round_answered:
  assumes "dispatch_round a st = Answered v"
  shows "\<exists>sel r. select_for_role (da_registry a) (da_role a) (da_topology a) [] (ls_failed st) = Inr sel \<and>
     ro_response v = Some r \<and> sr_job_id r = da_job_id a \<and> sr_node_role r = da_role a \<and>
     sr_peer_id r = ps_peer_id (sel_service sel) \<and>
     ne_peer_id (ro_execution_record v) = sr_peer_id r \<and> ne_status (ro_execution_record v) = ''completed'' \<and>
     ne_node_role (ro_execution_record v) = da_role a"
  using assms
  by (auto simp: dispatch_round_def Let_def attempt_def res_bind_Inr_iff validate_response_context_def
      completed_outcome_def split: sum.splits if_splits)

lemma dispatch_loop_unfold:
  "dispatch_loop a st =
     (if card (ls_failed st) < da_count a then
        (case dispatch_round a st of
           Raised e \<Rightarrow> Some (Inl e) | Answered v \<Rightarrow> Some (Inr v) | Failed st' \<Rightarrow> dispatch_loop a st')
      else Some (after_loop a st))"
  by (subst dispatch_loop.simps)
    (simp add: is_failed_def failed_state_def round_value_def split: round_result.split)

abbreviation ids_of :: "dispatch_args \<Rightarrow> string list" where
  "ids_of a \<equiv> candidate_ids_for (da_registry a) (da_role a)"

lemma candidate_count:
  "list_candidates reg role topo [] F = Inr cs \<Longrightarrow> length cs = length (candidate_ids_for reg role)"
  unfolding list_candidates_iff by (auto simp: candidate_ids_for_def dest: list_all2_lengthD)

subsection \<open>The loop ends\<close>

lemma dispatch_loop_terminates:
  assumes "da_count a = card (set (ids_of a))" "ls_failed st \<subseteq> set (ids_of a)"
  shows "\<exists>v. dispatch_loop a st = Some v"
  using assms
proof (induction "card (set (ids_of a)) - card (ls_failed st)" arbitrary: st rule: less_induct)
  case less
  show ?case
  proof (cases "card (ls_failed st) < da_count a")
    case False
    then show ?thesis by (simp add: dispatch_loop_unfold)
  next
    case True
    show ?thesis
    proof (cases "dispatch_round a st")
      case (Failed st')
      from dispatch_round_failed [OF Failed] obtain sel where
        s: "select_for_role (da_registry a) (da_role a) (da_topology a) [] (ls_failed st) = Inr sel"
        and f: "ls_failed st' = insert (ps_peer_id (sel_service sel)) (ls_failed st)" by blast
      have "card (ls_failed st) < card (set (ids_of a))" using True less.prems by simp
      from sel.pick_progress [OF s less.prems(2) this]
      have "ls_failed st' \<subseteq> set (ids_of a)" "card (ls_failed st') = Suc (card (ls_failed st))"
        unfolding f by simp_all
      with less.hyps [of st'] less.prems True have "\<exists>v. dispatch_loop a st' = Some v" by auto
      with True Failed show ?thesis by (subst dispatch_loop_unfold) simp
    qed (simp_all add: dispatch_loop_unfold [of a st] True)
  qed
qed

lemma dispatch_role_ends:
  assumes "distinct (candidate_ids_for reg role)"
  shows "\<exists>v. dispatch_role reg env role job_id request market headlines run_mode topology = Some v"
proof (cases "list_candidates reg role (Some topology) [] {}")
  case (Inl e)
  then show ?thesis by (simp add: dispatch_role_def)
next
  case (Inr cs)
  then have "length cs = card (set (candidate_ids_for reg role))"
    using candidate_count assms distinct_card by metis
  then show ?thesis
    unfolding dispatch_role_def Inr sum.case by (intro dispatch_loop_terminates) (simp_all add: initial_state_def)
qed

text \<open>C3: Dispatching a role always ends when the configured peer ids of the role are distinct, however
  the peers answer: with a result or, for an unknown role, with the registry's error.\<close>

theorem dispatch_role_terminates:
  assumes "distinct (candidate_ids_for reg role)"
  shows "\<exists>v. dispatch_role reg env role job_id request market headlines run_mode topology = Some v"
  using assms by (rule dispatch_role_ends)

subsection \<open>When no peer answers\<close>

definition loop_tried :: "dispatch_args \<Rightarrow> string \<Rightarrow> loop_state \<Rightarrow> bool" where
  "loop_tried a status st \<longleftrightarrow>
     distinct (ls_attempted st) \<and> set (ls_attempted st) = ls_failed st \<and> ls_failed st \<subseteq> set (ids_of a) \<and>
     (ls_attempted st \<noteq> [] \<longrightarrow> ls_status st = status \<and>
        (\<exists>sel. ls_last st = Some sel \<and> ps_peer_id (sel_service sel) = last (ls_attempted st)))"

lemma dispatch_loop_exhausts:
  assumes "da_count a = card (set (ids_of a))" "ids_of a \<noteq> []"
    and fails: "\<forall>attempted service. \<exists>e.
       attempt (da_env a) (da_role a) (da_job_id a) attempted service (da_payload a) = Inl e \<and> failure_status e = status"
    and "loop_tried a status st"
  shows "\<exists>attempted (sel :: peer_selection).
     dispatch_loop a st =
       Some (Inr (exhausted_outcome (da_env a) (da_role a) (da_transport a) sel attempted status)) \<and>
     distinct attempted \<and> set attempted = set (ids_of a) \<and> ps_peer_id (sel_service sel) = last attempted"
  using assms(4)
proof (induction "card (set (ids_of a)) - card (ls_failed st)" arbitrary: st rule: less_induct)
  case less
  note t = less.prems [unfolded loop_tried_def]
  show ?case
  proof (cases "card (ls_failed st) < da_count a")
    case False
    then have "ls_failed st = set (ids_of a)" using t assms(1) by (intro card_seteq) auto
    moreover from this t assms(2) have "ls_attempted st \<noteq> []" by auto
    moreover from calculation t obtain sel where "ls_last st = Some sel" "ls_status st = status"
      "ps_peer_id (sel_service sel) = last (ls_attempted st)" by blast
    ultimately show ?thesis using False t
      by (intro exI [of _ "ls_attempted st"] exI [of _ sel]) (simp add: dispatch_loop_unfold after_loop_def)
  next
    case True
    obtain sel where sel: "select_for_role (da_registry a) (da_role a) (da_topology a) [] (ls_failed st) = Inr sel"
      using sel.pick_total [OF assms(2)] by blast
    obtain e where e: "attempt (da_env a) (da_role a) (da_job_id a) (ls_attempted st) (sel_service sel) (da_payload a) = Inl e"
      "failure_status e = status" using fails by blast
    define st' where "st' = \<lparr>ls_failed = insert (ps_peer_id (sel_service sel)) (ls_failed st),
      ls_attempted = ls_attempted st @ [ps_peer_id (sel_service sel)], ls_last = Some sel, ls_status = status\<rparr>"
    have round: "dispatch_round a st = Failed st'" using sel e by (simp add: dispatch_round_def Let_def st'_def)
    have "card (ls_failed st) < card (set (ids_of a))" using True assms(1) by simp
    from sel.pick_progress [OF sel _ this] t
    have new: "insert (ps_peer_id (sel_service sel)) (ls_failed st) \<subseteq> set (ids_of a)"
      "card (insert (ps_peer_id (sel_service sel)) (ls_failed st)) = Suc (card (ls_failed st))" by simp_all
    have "finite (ls_failed st)" using t finite_set by metis
    with new(2) have "ps_peer_id (sel_service sel) \<notin> ls_failed st" by (auto simp: insert_absorb)
    with t new(1) have "loop_tried a status st'" by (auto simp: loop_tried_def st'_def)
    moreover have "card (set (ids_of a)) - card (ls_failed st') < card (set (ids_of a)) - card (ls_failed st)"
      using new(2) True assms(1) by (simp add: st'_def)
    ultimately show ?thesis using less.hyps [of st'] True round by (subst dispatch_loop_unfold) simp
  qed
qed

text \<open>When every attempt fails in the same way, every configured peer is tried once, and the record of the
  role carries that failure.\<close>

lemma dispatch_role_exhausts:
  assumes "distinct (candidate_ids_for reg role)" "candidate_ids_for reg role \<noteq> []"
    and "\<forall>attempted service. \<exists>e. attempt env role job_id attempted service
       (build_payload role job_id request market headlines) = Inl e \<and> failure_status e = status"
  shows "\<exists>(sel :: peer_selection) attempted. dispatch_role reg env role job_id request market headlines run_mode topology =
       Some (Inr (exhausted_outcome env role (transport_name run_mode) sel attempted status)) \<and>
     mset attempted = mset (candidate_ids_for reg role) \<and> ps_peer_id (sel_service sel) = last attempted"
proof -
  obtain ss where ss: "get_candidates_for_role reg role = Inr ss"
    using assms(2) by (auto simp: candidate_ids_for_def split: sum.splits)
  then obtain cs where cs: "list_candidates reg role (Some topology) [] {} = Inr cs"
    using list_candidates_no_updates by blast
  let ?a = "\<lparr>da_registry = reg, da_topology = Some topology, da_env = env, da_role = role,
    da_job_id = job_id, da_transport = transport_name run_mode,
    da_payload = build_payload role job_id request market headlines, da_count = length cs\<rparr>"
  have "da_count ?a = card (set (ids_of ?a))"
    using candidate_count [OF cs] distinct_card [OF assms(1)] by simp
  from dispatch_loop_exhausts [OF this, of status initial_state] assms(2,3) obtain attempted and sel :: peer_selection where
    "dispatch_loop ?a initial_state = Some (Inr (exhausted_outcome env role (transport_name run_mode) sel attempted status))"
    "distinct attempted" "set attempted = set (candidate_ids_for reg role)" "ps_peer_id (sel_service sel) = last attempted"
    by (auto simp: loop_tried_def initial_state_def)
  moreover from this assms(1) have "mset attempted = mset (candidate_ids_for reg role)"
    by (simp add: set_eq_iff_mset_eq_distinct [symmetric])
  ultimately show ?thesis unfolding dispatch_role_def cs sum.case by blast
qed

subsection \<open>The loop that does not end\<close>

definition unreachable_peers :: "role_env \<Rightarrow> string \<Rightarrow> string \<Rightarrow> jobject \<Rightarrow> bool" where
  "unreachable_peers env role job_id payload \<longleftrightarrow>
     (\<forall>attempted service. \<exists>e. attempt env role job_id attempted service payload = Inl e)"

lemma dispatch_loop_none:
  assumes "card (set (ids_of a)) < da_count a" "ids_of a \<noteq> []"
    and "unreachable_peers (da_env a) (da_role a) (da_job_id a) (da_payload a)"
  shows "dispatch_loop a' st = Some v \<Longrightarrow> a' = a \<longrightarrow> ls_failed st \<subseteq> set (ids_of a) \<longrightarrow> False"
proof (erule dispatch_loop.raw_induct [rotated], intro impI)
  fix f :: "dispatch_args \<Rightarrow> loop_state \<Rightarrow> role_outcome res option" and a' st v
  assume IH: "\<And>a' st v. f a' st = Some v \<Longrightarrow> a' = a \<longrightarrow> ls_failed st \<subseteq> set (ids_of a) \<longrightarrow> False"
    and step: "(if card (ls_failed st) < da_count a' then
        (let r = dispatch_round a' st in
         if is_failed r then f a' (failed_state r) else Some (round_value r))
      else Some (after_loop a' st)) = Some v"
    and a': "a' = a" and sub: "ls_failed st \<subseteq> set (ids_of a)"
  have "card (ls_failed st) \<le> card (set (ids_of a))" using sub by (intro card_mono) auto
  then have lt: "card (ls_failed st) < da_count a" using assms(1) by simp
  obtain sel where sel: "select_for_role (da_registry a) (da_role a) (da_topology a) [] (ls_failed st) = Inr sel"
    using sel.pick_total [OF assms(2)] by blast
  obtain e where e: "attempt (da_env a) (da_role a) (da_job_id a) (ls_attempted st) (sel_service sel) (da_payload a) = Inl e"
    using assms(3) unfolding unreachable_peers_def by blast
  then obtain st' where st': "dispatch_round a st = Failed st'"
    "ls_failed st' = insert (ps_peer_id (sel_service sel)) (ls_failed st)"
    using sel by (simp add: dispatch_round_def Let_def)
  have "ls_failed st' \<subseteq> set (ids_of a)" using st'(2) sub sel.pick_in [OF sel] by auto
  moreover have "f a st' = Some v"
    using step lt st' by (simp add: a' is_failed_def failed_state_def)
  ultimately show False using IH by blast
qed

text \<open>C4: When a peer id is configured twice for a role and no peer answers usefully, the dispatch of
  that role never ends: the set of failed ids cannot grow to the number of candidates.\<close>

theorem dispatch_role_diverges_on_repeated_peer:
  assumes "\<not> distinct (candidate_ids_for reg role)"
    and "unreachable_peers env role job_id (build_payload role job_id request market headlines)"
  shows "dispatch_role reg env role job_id request market headlines run_mode topology = None"
proof -
  have ne: "candidate_ids_for reg role \<noteq> []" using assms(1) by auto
  then obtain ss where ss: "get_candidates_for_role reg role = Inr ss"
    by (auto simp: candidate_ids_for_def split: sum.splits)
  then obtain cs where cs: "list_candidates reg role (Some topology) [] {} = Inr cs"
    using list_candidates_no_updates by blast
  let ?a = "\<lparr>da_registry = reg, da_topology = Some topology, da_env = env, da_role = role,
    da_job_id = job_id, da_transport = transport_name run_mode,
    da_payload = build_payload role job_id request market headlines, da_count = length cs\<rparr>"
  have "card (set (candidate_ids_for reg role)) < length (candidate_ids_for reg role)"
    using assms(1) card_length card_distinct le_neq_implies_less by metis
  then have count: "card (set (ids_of ?a)) < da_count ?a" using candidate_count [OF cs] by simp
  have unreachable: "unreachable_peers (da_env ?a) (da_role ?a) (da_job_id ?a) (da_payload ?a)"
    using assms(2) by simp
  have "dispatch_loop ?a initial_state \<noteq> Some v" for v
    using dispatch_loop_none [OF count _ unreachable, of ?a initial_state v] ne by (auto simp: initial_state_def)
  then show ?thesis unfolding dispatch_role_def cs sum.case by (cases "dispatch_loop ?a initial_state") auto
qed

subsection \<open>Answers\<close>

definition outcome_ok :: "dispatch_args \<Rightarrow> role_outcome \<Rightarrow> bool" where
  "outcome_ok a v \<longleftrightarrow>
     ne_node_role (ro_execution_record v) = da_role a \<and>
     ne_peer_id (ro_execution_record v) \<in> set (ids_of a) \<and>
     (case ro_response v of
        None \<Rightarrow> ne_status (ro_execution_record v) \<in> {''timed_out'', ''invalid_response'', ''error''}
      | Some r \<Rightarrow> sr_job_id r = da_job_id a \<and> sr_node_role r = da_role a \<and>
          sr_peer_id r = ne_peer_id (ro_execution_record v) \<and> ne_status (ro_execution_record v) = ''completed'')"

definition loop_ok :: "dispatch_args \<Rightarrow> loop_state \<Rightarrow> bool" where
  "loop_ok a st \<longleftrightarrow>
     ls_status st \<in> {''timed_out'', ''invalid_response'', ''error''} \<and>
     (\<forall>sel. ls_last st = Some sel \<longrightarrow> ps_peer_id (sel_service sel) \<in> set (ids_of a))"

lemma dispatch_loop_answers:
  "dispatch_loop a st = Some w \<Longrightarrow> loop_ok a st \<longrightarrow> (\<forall>v. w = Inr v \<longrightarrow> outcome_ok a v)"
proof (erule dispatch_loop.raw_induct [rotated], intro impI allI)
  fix f :: "dispatch_args \<Rightarrow> loop_state \<Rightarrow> role_outcome res option" and a st w v
  assume IH: "\<And>a st w. f a st = Some w \<Longrightarrow> loop_ok a st \<longrightarrow> (\<forall>v. w = Inr v \<longrightarrow> outcome_ok a v)"
    and step: "(if card (ls_failed st) < da_count a then
        (let r = dispatch_round a st in
         if is_failed r then f a (failed_state r) else Some (round_value r))
      else Some (after_loop a st)) = Some w"
    and ok: "loop_ok a st" and w: "w = Inr v"
  show "outcome_ok a v"
  proof (cases "card (ls_failed st) < da_count a")
    case False
    then show ?thesis
      using step ok w
      by (auto simp: after_loop_def exhausted_outcome_def outcome_ok_def loop_ok_def split: option.splits)
  next
    case True
    show ?thesis
    proof (cases "dispatch_round a st")
      case (Raised e)
      then show ?thesis using step True w by (simp add: is_failed_def round_value_def)
    next
      case (Answered u)
      then have "u = v" using step True w by (simp add: is_failed_def round_value_def)
      with dispatch_round_answered [OF Answered] show ?thesis
        by (auto simp: outcome_ok_def dest: sel.pick_in)
    next
      case (Failed st')
      have "loop_ok a st'"
        using Failed
        by (auto simp: loop_ok_def dispatch_round_def Let_def failure_status_def dest: sel.pick_in
            split: sum.splits py_error.splits)
      moreover have "f a st' = Some w" using step True Failed by (simp add: is_failed_def failed_state_def)
      ultimately show ?thesis using IH w by blast
    qed
  qed
qed

text \<open>A dispatched answer is the answer to this task: it carries the job id, the role and the id of a
  peer that is configured for the role, the record names the same peer as completed; without an answer
  the record says timed out, invalid response or error.\<close>

theorem dispatched_answer_matches:
  assumes "dispatch_role reg env role job_id request market headlines run_mode topology = Some (Inr v)"
  shows "ne_node_role (ro_execution_record v) = role \<and>
    ne_peer_id (ro_execution_record v) \<in> set (candidate_ids_for reg role) \<and>
    (case ro_response v of
       None \<Rightarrow> ne_status (ro_execution_record v) \<in> {''timed_out'', ''invalid_response'', ''error''}
     | Some r \<Rightarrow> sr_job_id r = job_id \<and> sr_node_role r = role \<and>
         sr_peer_id r = ne_peer_id (ro_execution_record v) \<and> ne_status (ro_execution_record v) = ''completed'')"
proof -
  obtain a where a: "dispatch_loop a initial_state = Some (Inr v)"
    and args: "da_registry a = reg" "da_role a = role" "da_job_id a = job_id"
    using assms by (auto simp: dispatch_role_def split: sum.splits)
  have "loop_ok a initial_state" by (simp add: loop_ok_def initial_state_def)
  with dispatch_loop_answers [OF a] have "outcome_ok a v" by blast
  then show ?thesis unfolding outcome_ok_def args .
qed

subsection \<open>Concrete inputs\<close>

definition two_peers :: "string \<Rightarrow> axl_registry" where
  "two_peers second = \<lparr>reg_services = [(''risk'', \<lparr>ps_peer_id = ''peer-r'', ps_service_name = ''s''\<rparr>)],
     reg_candidates = [(''risk'', [\<lparr>ps_peer_id = ''peer-r'', ps_service_name = ''s''\<rparr>,
        \<lparr>ps_peer_id = second, ps_service_name = ''s''\<rparr>])]\<rparr>"

definition silent_env :: role_env where
  "silent_env = \<lparr>re_dispatch = (\<lambda>_ _ _. Inl (TimeoutError [])), re_started = 0, re_clock = (\<lambda>_. 0)\<rparr>"

definition answering_env :: "specialist_response \<Rightarrow> role_env" where
  "answering_env r = \<lparr>re_dispatch = (\<lambda>_ _ _. Inr r), re_started = 0, re_clock = (\<lambda>_. 0)\<rparr>"

definition demo_request :: thesis_request where
  "demo_request = \<lparr>tr_thesis = ''thesis'', tr_asset = ''ETH'', tr_horizon_days = 30\<rparr>"

lemma two_peers_ids: "candidate_ids_for (two_peers p) ''risk'' = [''peer-r'', p]"
  by (simp add: candidate_ids_for_def get_candidates_for_role_def two_peers_def)

lemma dispatch_role_terminates_witness:
  "\<exists>v. dispatch_role (two_peers ''q'') silent_env ''risk'' ''job-1'' demo_request [] [] ''live-axl'' [] = Some v"
  by (rule dispatch_role_terminates) (simp add: two_peers_ids)

lemma dispatch_role_diverges_on_repeated_peer_witness:
  "dispatch_role (two_peers ''peer-r'') silent_env ''risk'' ''job-1'' demo_request [] [] ''live-axl'' [] = None"
  by (rule dispatch_role_diverges_on_repeated_peer)
    (simp_all add: two_peers_ids unreachable_peers_def attempt_def silent_env_def)

lemma demo_dispatch:
  assumes "sr_job_id r = ''job-1''" "sr_node_role r = ''risk''" "sr_peer_id r = ''peer-r''"
  shows "\<exists>v. dispatch_role (two_peers ''q'') (answering_env r) ''risk'' ''job-1'' request market headlines mode [] =
       Some (Inr v) \<and> ro_response v = Some r"
proof -
  obtain cs where cs: "list_candidates (two_peers ''q'') ''risk'' (Some []) [] {} = Inr cs"
      "map pc_peer_id cs = [''peer-r'', ''q'']"
    and sc: "\<forall>c \<in> set cs. pc_reputation_score c = Fin 0"
    using list_candidates_no_updates [of "two_peers ''q''" "''risk''" _ "Some []" "{}"]
    by (auto simp: get_candidates_for_role_def two_peers_def)
  then obtain c1 c2 where c: "cs = [c1, c2]" "pc_peer_id c1 = ''peer-r''" "pc_peer_id c2 = ''q''"
    by (auto simp: map_eq_Cons_conv)
  have h: "pc_health c1 = ''configured''" "pc_health c2 = ''configured''"
    using list_candidates_health [OF cs(1)] c
    by (auto simp: candidate_health_def topology_peer_ids_def str_keys_def)
  have "\<not> candidate_lt c1 c2" using h sc c by (simp add: candidate_lt_def)
  then obtain sel where sel: "select_for_role (two_peers ''q'') ''risk'' (Some []) [] {} = Inr sel"
    "ps_peer_id (sel_service sel) = ''peer-r''"
    using cs c by (simp add: select_for_role_def)
  have "length cs = 2" using c by simp
  then show ?thesis
    unfolding dispatch_role_def cs(1) sum.case using sel assms
    by (subst dispatch_loop_unfold)
      (simp add: initial_state_def dispatch_round_def attempt_def answering_env_def Let_def
        validate_response_context_def completed_outcome_def)
qed

lemma sample_ids: "sr_job_id sample_response = ''job-1''" "sr_node_role sample_response = ''risk''"
  "sr_peer_id sample_response = ''peer-r''"
  by (simp_all add: sample_response_def)

lemma dispatched_answer_matches_witness:
  "\<exists>v. dispatch_role (two_peers ''q'') (answering_env sample_response) ''risk'' ''job-1'' demo_request [] [] ''live-axl'' [] = Some (Inr v) \<and>
     ne_status (ro_execution_record v) = ''completed'' \<and> ne_peer_id (ro_execution_record v) \<in> {''peer-r'', ''q''}"
proof -
  obtain v where v: "dispatch_role (two_peers ''q'') (answering_env sample_response) ''risk'' ''job-1'' demo_request [] [] ''live-axl'' [] = Some (Inr v)"
    "ro_response v = Some sample_response"
    using demo_dispatch [OF sample_ids] by blast
  from dispatched_answer_matches [OF v(1)] v show ?thesis by (auto simp: two_peers_ids)
qed

end
