(* ===== verification/Orchestration.thy ===== *)
theory Orchestration
  imports PyJson
begin

section \<open>The workflow graph (app/orchestration)\<close>

text \<open>
  \<^verbatim>\<open>graph.py\<close>: a \<^verbatim>\<open>WorkflowGraph\<close> is checked when it is built (\<open>make_workflow_graph\<close> is
  \<^verbatim>\<open>__post_init__\<close>): node ids unique, edges between known nodes, no cycle. The cycle check
  \<open>assert_acyclic\<close> is Kahn's algorithm over two dictionaries; \<open>kahn\<close> is its \<^verbatim>\<open>while ready\<close>
  loop and terminates because each pop spends one unit of \<open>length ready\<close> plus the remaining
  indegrees. \<^verbatim>\<open>executor.py\<close>: the execution plan. \<^verbatim>\<open>state.py\<close>: the per-node state of a run.
  The main result is that a graph is accepted exactly when its edge relation is acyclic.
\<close>

subsection \<open>Data\<close>

datatype node_type = SpecialistNode | VerifierNode | CoordinatorNode

definition node_type_str :: "node_type \<Rightarrow> string" where
  "node_type_str t = (case t of SpecialistNode \<Rightarrow> ''specialist'' | VerifierNode \<Rightarrow> ''verifier''
     | CoordinatorNode \<Rightarrow> ''coordinator'')"

record graph_node =
  gn_id :: string
  gn_type :: node_type
  gn_optional :: bool

type_synonym edge = "string \<times> string"

record workflow_graph =
  wg_nodes :: "graph_node list"
  wg_edges :: "edge list"

record execution_plan =
  specialist_roles :: "string list"
  verifier_node_id :: "string option"
  synthesis_node_id :: "string option"

record graph_node_state =
  gs_id :: string
  gs_type :: node_type
  gs_status :: string
  gs_optional :: bool

record graph_state =
  gst_nodes :: "graph_node_state list"
  gst_edges :: "edge list"

subsection \<open>Kahn's algorithm\<close>

type_synonym adjacency = "(string, string list) pydict"
type_synonym indegrees = "(string, int) pydict"

fun add_edges :: "edge list \<Rightarrow> adjacency \<Rightarrow> indegrees \<Rightarrow> (adjacency \<times> indegrees) res" where
  "add_edges [] outgoing indegree = Inr (outgoing, indegree)"
| "add_edges ((s, t) # es) outgoing indegree =
     (case dget outgoing s of
        None \<Rightarrow> Inl (KeyError s)
      | Some ts \<Rightarrow> (case dget indegree t of
          None \<Rightarrow> Inl (KeyError t)
        | Some d \<Rightarrow> add_edges es (dset outgoing s (ts @ [t])) (dset indegree t (d + 1))))"

text \<open>The inner loop: one pass over the targets of the node that was popped.\<close>

fun relax :: "string list \<Rightarrow> indegrees \<Rightarrow> string list \<Rightarrow> (indegrees \<times> string list) res" where
  "relax [] indegree ready = Inr (indegree, ready)"
| "relax (t # ts) indegree ready =
     (case dget indegree t of
        None \<Rightarrow> Inl (KeyError t)
      | Some d \<Rightarrow> relax ts (dset indegree t (d - 1)) (if d - 1 = 0 then ready @ [t] else ready))"

definition pending_indegree :: "indegrees \<Rightarrow> nat" where
  "pending_indegree indegree = sum_list (map (\<lambda>kd. nat (snd kd)) indegree)"

lemma pending_indegree_dset:
  "dget i t = Some d \<Longrightarrow> pending_indegree (dset i t d') + nat d = pending_indegree i + nat d'"
  by (induction i) (auto simp: pending_indegree_def)

lemma relax_measure:
  "relax ts i r = Inr (i', r') \<Longrightarrow> length r' + pending_indegree i' \<le> length r + pending_indegree i"
proof (induction ts i r rule: relax.induct)
  case (2 t ts i r)
  then obtain d where d: "dget i t = Some d" by (auto split: option.splits)
  let ?i = "dset i t (d - 1)" and ?r = "if d - 1 = 0 then r @ [t] else r"
  have "length r' + pending_indegree i' \<le> length ?r + pending_indegree ?i"
    using 2 d by simp
  with pending_indegree_dset [OF d, of "d - 1"] show ?case by (auto split: if_splits)
qed simp

function kahn :: "adjacency \<Rightarrow> indegrees \<Rightarrow> string list \<Rightarrow> nat \<Rightarrow> nat res" where
  "kahn outgoing indegree [] visited = Inr visited"
| "kahn outgoing indegree (n # ready) visited =
     (case dget outgoing n of
        None \<Rightarrow> Inl (KeyError n)
      | Some ts \<Rightarrow> (case relax ts indegree ready of
          Inl e \<Rightarrow> Inl e
        | Inr (indegree', ready') \<Rightarrow> kahn outgoing indegree' ready' (visited + 1)))"
  by pat_completeness auto
termination
  by (relation "measure (\<lambda>(out, i, r, v). length r + pending_indegree i)")
    (auto dest!: relax_measure)

definition assert_acyclic :: "string list \<Rightarrow> edge list \<Rightarrow> unit res" where
  "assert_acyclic node_ids edges =
     (case add_edges edges (dict_of (map (\<lambda>n. (n, [])) node_ids)) (dict_of (map (\<lambda>n. (n, 0)) node_ids)) of
        Inl e \<Rightarrow> Inl e
      | Inr (outgoing, indegree) \<Rightarrow>
          (case kahn outgoing indegree (filter (\<lambda>n. dget indegree n = Some 0) node_ids) 0 of
             Inl e \<Rightarrow> Inl e
           | Inr visited \<Rightarrow>
               if visited \<noteq> length node_ids then Inl (ValueError ''workflow graph must be acyclic'')
               else Inr ()))"

definition make_workflow_graph :: "graph_node list \<Rightarrow> edge list \<Rightarrow> workflow_graph res" where
  "make_workflow_graph nodes edges =
     (let node_ids = map gn_id nodes in
      if card (set node_ids) \<noteq> length node_ids
        then Inl (ValueError ''workflow graph node ids must be unique'')
      else if list_ex (\<lambda>(s, t). s \<notin> set node_ids \<or> t \<notin> set node_ids) edges
        then Inl (ValueError ''workflow graph edge references unknown node'')
      else res_bind (assert_acyclic node_ids edges)
             (\<lambda>_. Inr \<lparr>wg_nodes = nodes, wg_edges = edges\<rparr>))"

subsection \<open>The dictionaries after the edges are read\<close>

definition edges_into :: "edge list \<Rightarrow> (string \<Rightarrow> bool) \<Rightarrow> string \<Rightarrow> int" where
  "edges_into E P v = int (length (filter (\<lambda>(a, b). b = v \<and> P a) E))"

definition targets_of :: "edge list \<Rightarrow> string \<Rightarrow> string list" where
  "targets_of E n = map snd (filter (\<lambda>(a, b). a = n) E)"

lemma edges_into_Nil [simp]: "edges_into [] P v = 0"
  by (simp add: edges_into_def)

lemma edges_into_nonneg: "0 \<le> edges_into E P v"
  by (simp add: edges_into_def)

lemma edges_into_Cons [simp]:
  "edges_into ((a, b) # E) P v = (if b = v \<and> P a then 1 else 0) + edges_into E P v"
  by (simp add: edges_into_def)

lemma edges_into_pos_iff: "0 < edges_into E P v \<longleftrightarrow> (\<exists>a. (a, v) \<in> set E \<and> P a)"
  by (auto simp: edges_into_def filter_empty_conv)

lemma edges_into_zero_iff: "edges_into E P v = 0 \<longleftrightarrow> (\<forall>a. (a, v) \<in> set E \<longrightarrow> \<not> P a)"
  using edges_into_pos_iff [of E P v] edges_into_nonneg [of E P v] by fastforce

lemma edges_into_remove:
  "P n \<Longrightarrow> edges_into E (\<lambda>a. P a \<and> a \<noteq> n) v = edges_into E P v - int (count_list (targets_of E n) v)"
  by (induction E) (auto simp: targets_of_def)

lemma add_edges_spec:
  assumes "\<And>s t. (s, t) \<in> set E \<Longrightarrow> s \<in> V \<and> t \<in> V"
    and "\<And>v. v \<in> V \<Longrightarrow> dget out v = Some (fo v)" and "\<And>v. v \<in> V \<Longrightarrow> dget ind v = Some (fi v)"
  shows "\<exists>out' ind'. add_edges E out ind = Inr (out', ind') \<and>
     (\<forall>v \<in> V. dget out' v = Some (fo v @ targets_of E v) \<and>
        dget ind' v = Some (fi v + edges_into E (\<lambda>_. True) v))"
  using assms
proof (induction E arbitrary: out ind fo fi)
  case Nil
  then show ?case by (simp add: targets_of_def)
next
  case (Cons e E)
  obtain s t where e: "e = (s, t)" by (cases e)
  from Cons.prems(1) e have st: "s \<in> V" "t \<in> V" by auto
  let ?o = "dset out s (fo s @ [t])" and ?i = "dset ind t (fi t + 1)"
  have po: "dget ?o v = Some (if v = s then fo s @ [t] else fo v)" if "v \<in> V" for v
    using Cons.prems(2) [OF that] by simp
  have pi: "dget ?i v = Some (if v = t then fi t + 1 else fi v)" if "v \<in> V" for v
    using Cons.prems(3) [OF that] by simp
  obtain out' ind' where r: "add_edges E ?o ?i = Inr (out', ind')"
    and v: "\<forall>v \<in> V. dget out' v = Some ((if v = s then fo s @ [t] else fo v) @ targets_of E v) \<and>
      dget ind' v = Some ((if v = t then fi t + 1 else fi v) + edges_into E (\<lambda>_. True) v)"
    using Cons.IH [OF _ po pi] Cons.prems(1) by auto
  have "add_edges (e # E) out ind = Inr (out', ind')" using r e st Cons.prems by simp
  with v show ?case by (auto simp: e targets_of_def)
qed

lemma dget_const: "dget (dict_of (map (\<lambda>n. (n, c)) ns)) v = (if v \<in> set ns then Some c else None)"
proof -
  have "map_of (rev (map (\<lambda>n. (n, c)) ns)) v = (if v \<in> set ns then Some c else None)"
    by (induction ns) (auto simp: map_add_def split: option.splits)
  then show ?thesis by (simp add: dget_dict_of)
qed

subsection \<open>One pass of the inner loop\<close>

lemma relax_spec:
  assumes "\<And>t. t \<in> set ts \<Longrightarrow> t \<in> V" and "\<And>v. v \<in> V \<Longrightarrow> dget i v = Some (f v)"
    and "\<And>v. v \<in> V \<Longrightarrow> int (count_list ts v) \<le> f v"
  shows "\<exists>i' new. relax ts i r = Inr (i', r @ new) \<and>
     (\<forall>v \<in> V. dget i' v = Some (f v - int (count_list ts v))) \<and> distinct new \<and>
     set new = {v \<in> set ts. f v = int (count_list ts v)}"
  using assms
proof (induction ts arbitrary: i r f)
  case Nil
  then show ?case by simp
next
  case (Cons t ts)
  let ?f = "\<lambda>v. if v = t then f t - 1 else f v"
  let ?i = "dset i t (f t - 1)" and ?r = "if f t - 1 = 0 then r @ [t] else r"
  have tV: "t \<in> V" using Cons.prems(1) by simp
  have dg: "dget ?i v = Some (?f v)" if "v \<in> V" for v
    using Cons.prems(2) [OF that] by simp
  have le: "int (count_list ts v) \<le> ?f v" if "v \<in> V" for v
    using Cons.prems(3) [OF that] by (auto split: if_splits)
  obtain i' new where r: "relax ts ?i ?r = Inr (i', ?r @ new)"
    and i': "\<forall>v \<in> V. dget i' v = Some (?f v - int (count_list ts v))"
    and new: "distinct new" "set new = {v \<in> set ts. ?f v = int (count_list ts v)}"
    using Cons.IH [OF _ dg le, of ?r] Cons.prems(1) by auto
  have eq: "relax (t # ts) i r = Inr (i', ?r @ new)" using r tV Cons.prems(2) by simp
  have fresh: "f t - 1 = 0 \<Longrightarrow> t \<notin> set ts"
    using le [OF tV] by (auto simp: count_list_0_iff)
  show ?case
  proof (cases "f t - 1 = 0")
    case True
    with eq i' new fresh [OF True] show ?thesis
      by (intro exI [of _ i'] exI [of _ "t # new"]) (auto simp: count_list_0_iff)
  next
    case False
    have "t \<in> set ts" if "f t = int (count_list (t # ts) t)"
    proof -
      have "count_list ts t \<noteq> 0" using that False by auto
      then show ?thesis by (simp add: count_list_0_iff)
    qed
    then have "set new = {v \<in> set (t # ts). f v = int (count_list (t # ts) v)}"
      unfolding new(2) by (auto split: if_splits)
    moreover have "relax (t # ts) i r = Inr (i', r @ new)" using eq False by simp
    moreover have "\<forall>v \<in> V. dget i' v = Some (f v - int (count_list (t # ts) v))" using i' by simp
    ultimately show ?thesis using new(1) by blast
  qed
qed

subsection \<open>The loop pops exactly the nodes that no cycle blocks\<close>

text \<open>
  The state of the loop, given the nodes popped so far: the dictionary counts the edges that
  come from nodes not popped yet, and the ready list holds exactly the nodes whose count is
  zero and that were not popped. \<open>popped_in_order\<close>: every predecessor of a popped node was
  popped before it.
\<close>

definition kahn_inv :: "string set \<Rightarrow> edge list \<Rightarrow> string list \<Rightarrow> indegrees \<Rightarrow> string list \<Rightarrow> bool" where
  "kahn_inv V E popped indegree ready \<longleftrightarrow>
     distinct (popped @ ready) \<and> set (popped @ ready) \<subseteq> V \<and>
     (\<forall>v \<in> V. dget indegree v = Some (edges_into E (\<lambda>a. a \<notin> set popped) v)) \<and>
     (\<forall>v \<in> V. edges_into E (\<lambda>a. a \<notin> set popped) v = 0 \<longleftrightarrow> v \<in> set (popped @ ready))"

definition popped_in_order :: "edge list \<Rightarrow> string list \<Rightarrow> bool" where
  "popped_in_order E popped \<longleftrightarrow>
     (\<forall>i < length popped. \<forall>a. (a, popped ! i) \<in> set E \<longrightarrow> a \<in> set (take i popped))"

lemma popped_in_order_snoc:
  assumes "popped_in_order E popped" and "\<And>a. (a, n) \<in> set E \<Longrightarrow> a \<in> set popped"
  shows "popped_in_order E (popped @ [n])"
  unfolding popped_in_order_def
proof (intro allI impI)
  fix i a assume i: "i < length (popped @ [n])" and e: "(a, (popped @ [n]) ! i) \<in> set E"
  show "a \<in> set (take i (popped @ [n]))"
  proof (cases "i < length popped")
    case True
    with assms(1) e show ?thesis by (simp add: popped_in_order_def nth_append)
  next
    case False
    with i have "i = length popped" by simp
    with e assms(2) show ?thesis by simp
  qed
qed

lemma kahn_inv_step:
  assumes inv: "kahn_inv V E popped indegree (n # ready)"
    and E: "\<And>s t. (s, t) \<in> set E \<Longrightarrow> s \<in> V \<and> t \<in> V"
  obtains indegree' ready' where "relax (targets_of E n) indegree ready = Inr (indegree', ready')"
    and "kahn_inv V E (popped @ [n]) indegree' ready'"
proof -
  let ?cnt = "\<lambda>v. edges_into E (\<lambda>a. a \<notin> set popped) v"
  let ?cnt' = "\<lambda>v. edges_into E (\<lambda>a. a \<notin> set (popped @ [n])) v"
  have n: "n \<notin> set popped" using inv by (simp add: kahn_inv_def)
  have cnt': "?cnt' v = ?cnt v - int (count_list (targets_of E n) v)" for v
    using edges_into_remove [of "\<lambda>a. a \<notin> set popped" n E v] n by (simp add: conj_commute)
  have le: "int (count_list (targets_of E n) v) \<le> ?cnt v" for v
    using cnt' [of v] edges_into_nonneg [of E "\<lambda>a. a \<notin> set (popped @ [n])" v] by simp
  have pos0: "?cnt v \<noteq> 0" if "v \<in> set (targets_of E n)" for v
  proof -
    from that have "count_list (targets_of E n) v \<noteq> 0" by (simp add: count_list_0_iff)
    with le [of v] show ?thesis by linarith
  qed
  have tV: "t \<in> set (targets_of E n) \<Longrightarrow> t \<in> V" for t using E by (auto simp: targets_of_def)
  have dg: "v \<in> V \<Longrightarrow> dget indegree v = Some (?cnt v)" for v
    using inv by (simp add: kahn_inv_def)
  obtain i' new where r: "relax (targets_of E n) indegree ready = Inr (i', ready @ new)"
    and i': "\<forall>v \<in> V. dget i' v = Some (?cnt v - int (count_list (targets_of E n) v))"
    and new: "distinct new" "set new = {v \<in> set (targets_of E n). ?cnt v = int (count_list (targets_of E n) v)}"
    using relax_spec [OF tV dg le, of ready] by blast
  have new': "set new = {v \<in> set (targets_of E n). ?cnt' v = 0}" using new(2) cnt' by auto
  have zero: "?cnt' v = 0 \<longleftrightarrow> v \<in> set (popped @ [n]) \<union> set (ready @ new)" if v: "v \<in> V" for v
  proof (cases "v \<in> set (targets_of E n)")
    case True
    then have "?cnt v \<noteq> 0" by (rule pos0)
    with inv v have "v \<notin> set (popped @ n # ready)" by (simp add: kahn_inv_def)
    with True new' show ?thesis by auto
  next
    case False
    then have "?cnt' v = ?cnt v" using cnt' [of v] by (simp add: count_list_0_iff)
    with inv v False new' show ?thesis by (auto simp: kahn_inv_def)
  qed
  have pos: "v \<in> set (targets_of E n) \<Longrightarrow> v \<notin> set (popped @ n # ready)" for v
  proof -
    assume v: "v \<in> set (targets_of E n)"
    then have "?cnt v \<noteq> 0" by (rule pos0)
    with inv tV [OF v] show ?thesis by (simp add: kahn_inv_def)
  qed
  have "kahn_inv V E (popped @ [n]) i' (ready @ new)"
    unfolding kahn_inv_def
  proof (intro conjI)
    show "distinct ((popped @ [n]) @ ready @ new)" using inv new(1) new' pos by (auto simp: kahn_inv_def)
    show "set ((popped @ [n]) @ ready @ new) \<subseteq> V" using inv new' tV by (auto simp: kahn_inv_def)
    show "\<forall>v \<in> V. dget i' v = Some (?cnt' v)" using i' cnt' by simp
    show "\<forall>v \<in> V. (?cnt' v = 0) = (v \<in> set ((popped @ [n]) @ ready @ new))" using zero by simp
  qed
  with r that show thesis by blast
qed

lemma kahn_result:
  assumes "kahn_inv V E popped indegree ready" and "popped_in_order E popped"
    and "\<And>s t. (s, t) \<in> set E \<Longrightarrow> s \<in> V \<and> t \<in> V"
    and "\<And>v. v \<in> V \<Longrightarrow> dget out v = Some (targets_of E v)"
  shows "\<exists>popped' i'. kahn out indegree ready (length popped) = Inr (length popped') \<and>
     kahn_inv V E popped' i' [] \<and> popped_in_order E popped'"
  using assms(1,2)
proof (induction "length ready + pending_indegree indegree" arbitrary: popped indegree ready rule: less_induct)
  case less
  show ?case
  proof (cases ready)
    case Nil
    with less.prems show ?thesis by auto
  next
    case (Cons n rs)
    from less.prems(1) Cons assms(3) obtain i' r'
      where r: "relax (targets_of E n) indegree rs = Inr (i', r')"
        and inv: "kahn_inv V E (popped @ [n]) i' r'"
      by (metis kahn_inv_step)
    have n: "n \<in> V" "edges_into E (\<lambda>a. a \<notin> set popped) n = 0"
      using less.prems(1) Cons by (auto simp: kahn_inv_def)
    have order: "popped_in_order E (popped @ [n])"
      using less.prems(2) n(2) by (intro popped_in_order_snoc) (auto simp: edges_into_zero_iff)
    have "length r' + pending_indegree i' < length ready + pending_indegree indegree"
      using relax_measure [OF r] Cons by simp
    from less.hyps [OF this inv order] obtain popped' i'' where
      "kahn out i' r' (length (popped @ [n])) = Inr (length popped')"
      "kahn_inv V E popped' i'' []" "popped_in_order E popped'" by blast
    moreover have "kahn out indegree ready (length popped) = kahn out i' r' (length (popped @ [n]))"
      using Cons r n(1) assms(4) by simp
    ultimately show ?thesis by metis
  qed
qed

lemma popped_in_order_acyclic:
  assumes "popped_in_order E popped" "\<And>s t. (s, t) \<in> set E \<Longrightarrow> t \<in> set popped"
  shows "acyclic (set E)"
proof -
  let ?idx = "\<lambda>v. length (takeWhile (\<lambda>x. x \<noteq> v) popped)"
  have "set E \<subseteq> measure ?idx"
  proof (rule subrelI)
    fix a b assume ab: "(a, b) \<in> set E"
    with assms(2) have b: "b \<in> set popped" by blast
    let ?i = "?idx b"
    have i: "?i < length popped" using b by (metis (mono_tags, lifting) length_takeWhile_le nat_less_le
        takeWhile_eq_take take_all set_takeWhileD)
    have "popped ! ?i = b" using i nth_length_takeWhile by blast
    with assms(1) i ab have "a \<in> set (take ?i popped)" by (auto simp: popped_in_order_def)
    then obtain j where j: "j < ?i" "popped ! j = a" using i by (auto simp: in_set_conv_nth)
    have "?idx a \<le> j"
    proof (rule ccontr)
      assume "\<not> ?idx a \<le> j"
      then have "j < ?idx a" by simp
      then have "takeWhile (\<lambda>x. x \<noteq> a) popped ! j \<in> set (takeWhile (\<lambda>x. x \<noteq> a) popped)" by simp
      with \<open>j < ?idx a\<close> j(2) show False by (auto simp: takeWhile_nth dest: set_takeWhileD)
    qed
    with j show "(a, b) \<in> measure ?idx" by simp
  qed
  then show ?thesis by (meson acyclic_subset wf_acyclic wf_measure)
qed

lemma kahn_inv_stuck:
  assumes "kahn_inv V E popped i []" "acyclic (set E)" "\<And>s t. (s, t) \<in> set E \<Longrightarrow> s \<in> V \<and> t \<in> V"
  shows "set popped = V"
proof (rule ccontr)
  assume "set popped \<noteq> V"
  then obtain v where v: "v \<in> V - set popped" using assms(1) by (auto simp: kahn_inv_def)
  have "wf (set E)" using assms(2) by (simp add: finite_acyclic_wf)
  then obtain z where z: "z \<in> V - set popped" "\<And>y. (y, z) \<in> set E \<Longrightarrow> y \<notin> V - set popped"
    using v by (metis wfE_min)
  then have "edges_into E (\<lambda>a. a \<notin> set popped) z \<noteq> 0" using assms(1) by (auto simp: kahn_inv_def)
  then show False using z assms(3) by (auto simp: edges_into_zero_iff)
qed

lemma assert_acyclic_iff:
  assumes "distinct ids" and "\<And>s t. (s, t) \<in> set E \<Longrightarrow> s \<in> set ids \<and> t \<in> set ids"
  shows "assert_acyclic ids E =
     (if acyclic (set E) then Inr () else Inl (ValueError ''workflow graph must be acyclic''))"
proof -
  let ?V = "set ids"
  obtain out ind where ae: "add_edges E (dict_of (map (\<lambda>n. (n, [])) ids)) (dict_of (map (\<lambda>n. (n, 0)) ids)) = Inr (out, ind)"
    and v: "\<forall>v \<in> ?V. dget out v = Some (targets_of E v) \<and> dget ind v = Some (edges_into E (\<lambda>_. True) v)"
    using add_edges_spec [of E ?V "dict_of (map (\<lambda>n. (n, [])) ids)" "\<lambda>_. []"
        "dict_of (map (\<lambda>n. (n, 0)) ids)" "\<lambda>_. 0"] assms(2) by (auto simp: dget_const)
  let ?ready = "filter (\<lambda>n. dget ind n = Some 0) ids"
  have inv: "kahn_inv ?V E [] ind ?ready" using assms(1) v by (auto simp: kahn_inv_def)
  obtain popped i where k: "kahn out ind ?ready 0 = Inr (length popped)"
    and pinv: "kahn_inv ?V E popped i []" and ord: "popped_in_order E popped"
    using kahn_result [OF inv, of out] assms(2) v by (auto simp: popped_in_order_def)
  have sub: "set popped \<subseteq> ?V" "distinct popped" using pinv by (auto simp: kahn_inv_def)
  have len: "length popped = length ids \<longleftrightarrow> set popped = ?V"
    using sub assms(1) by (metis List.finite_set card_subset_eq distinct_card)
  have "acyclic (set E) \<longleftrightarrow> set popped = ?V"
  proof
    assume "acyclic (set E)"
    with pinv assms(2) show "set popped = ?V" by (intro kahn_inv_stuck) auto
  next
    assume "set popped = ?V"
    with ord assms(2) show "acyclic (set E)" by (intro popped_in_order_acyclic) auto
  qed
  with len show ?thesis by (simp add: assert_acyclic_def ae k)
qed

lemma make_workflow_graph_eq:
  "make_workflow_graph nodes edges =
     (let ids = map gn_id nodes in
      if \<not> distinct ids then Inl (ValueError ''workflow graph node ids must be unique'')
      else if \<not> set edges \<subseteq> set ids \<times> set ids
        then Inl (ValueError ''workflow graph edge references unknown node'')
      else if \<not> acyclic (set edges) then Inl (ValueError ''workflow graph must be acyclic'')
      else Inr \<lparr>wg_nodes = nodes, wg_edges = edges\<rparr>)"
proof -
  let ?ids = "map gn_id nodes"
  have d: "card (set ?ids) \<noteq> length ?ids \<longleftrightarrow> \<not> distinct ?ids"
    by (metis card_distinct distinct_card)
  have k: "list_ex (\<lambda>(s, t). s \<notin> set ?ids \<or> t \<notin> set ?ids) edges \<longleftrightarrow> \<not> set edges \<subseteq> set ?ids \<times> set ?ids"
    by (auto simp: list_ex_iff)
  have a: "assert_acyclic ?ids edges =
      (if acyclic (set edges) then Inr () else Inl (ValueError ''workflow graph must be acyclic''))"
    if "distinct ?ids" "set edges \<subseteq> set ?ids \<times> set ?ids"
    using that by (intro assert_acyclic_iff) auto
  show ?thesis
    unfolding make_workflow_graph_def Let_def d k using a by (simp del: set_map)
qed

subsection \<open>Plan, declared workflow and per-node state\<close>

definition specialist_role_ids :: "workflow_graph \<Rightarrow> string list" where
  "specialist_role_ids g = map gn_id (filter (\<lambda>n. gn_type n = SpecialistNode) (wg_nodes g))"

definition single_node_id :: "workflow_graph \<Rightarrow> node_type \<Rightarrow> string option res" where
  "single_node_id g t =
     (let matching = map gn_id (filter (\<lambda>n. gn_type n = t) (wg_nodes g)) in
      if length matching > 1
        then Inl (ValueError (''workflow graph must not define multiple '' @ node_type_str t @ '' nodes''))
      else Inr (case matching of [] \<Rightarrow> None | n # _ \<Rightarrow> Some n))"

definition build_plan :: "workflow_graph \<Rightarrow> execution_plan res" where
  "build_plan g =
     res_bind (single_node_id g VerifierNode) (\<lambda>v.
     res_bind (single_node_id g CoordinatorNode) (\<lambda>c.
       Inr \<lparr>specialist_roles = specialist_role_ids g, verifier_node_id = v, synthesis_node_id = c\<rparr>))"

definition default_nodes :: "graph_node list" where
  "default_nodes =
     [\<lparr>gn_id = ''regime'', gn_type = SpecialistNode, gn_optional = False\<rparr>,
      \<lparr>gn_id = ''narrative'', gn_type = SpecialistNode, gn_optional = False\<rparr>,
      \<lparr>gn_id = ''risk'', gn_type = SpecialistNode, gn_optional = False\<rparr>,
      \<lparr>gn_id = ''verifier'', gn_type = VerifierNode, gn_optional = False\<rparr>,
      \<lparr>gn_id = ''synthesis'', gn_type = CoordinatorNode, gn_optional = False\<rparr>]"

definition default_edges :: "edge list" where
  "default_edges =
     [(''regime'', ''verifier''), (''narrative'', ''verifier''), (''risk'', ''verifier''),
      (''verifier'', ''synthesis'')]"

definition default_workflow_graph :: workflow_graph where
  "default_workflow_graph = \<lparr>wg_nodes = default_nodes, wg_edges = default_edges\<rparr>"

definition specialist_status :: "string \<Rightarrow> string list \<Rightarrow> string list \<Rightarrow> string list \<Rightarrow> string" where
  "specialist_status role completed missing rejected =
     (if role \<in> set rejected then ''rejected''
      else if role \<in> set missing then ''missing''
      else if role \<in> set completed then ''completed''
      else ''pending'')"

definition build_graph_state ::
    "workflow_graph \<Rightarrow> string list \<Rightarrow> string list \<Rightarrow> string list \<Rightarrow> bool \<Rightarrow> bool \<Rightarrow> graph_state" where
  "build_graph_state graph completed_roles missing_roles rejected_roles verifier_ran synthesis_ran =
     \<lparr>gst_nodes = map (\<lambda>node.
        \<lparr>gs_id = gn_id node, gs_type = gn_type node,
         gs_status = (case gn_type node of
            SpecialistNode \<Rightarrow> specialist_status (gn_id node) completed_roles missing_roles rejected_roles
          | VerifierNode \<Rightarrow> if verifier_ran then ''completed'' else ''skipped''
          | CoordinatorNode \<Rightarrow> if synthesis_ran then ''completed'' else ''pending''),
         gs_optional = gn_optional node\<rparr>) (wg_nodes graph),
      gst_edges = wg_edges graph\<rparr>"

subsection \<open>The dictionaries written to run metadata\<close>

definition edges_json :: "edge list \<Rightarrow> json" where
  "edges_json es = JList (map (\<lambda>(s, t). str_list [s, t]) es)"

definition workflow_graph_json :: "workflow_graph \<Rightarrow> json" where
  "workflow_graph_json g = JObj
     [(''nodes'', JList (map (\<lambda>n. JObj
         [(''id'', JStr (gn_id n)), (''type'', JStr (node_type_str (gn_type n))),
          (''optional'', JBool (gn_optional n))]) (wg_nodes g))),
      (''edges'', edges_json (wg_edges g))]"

definition execution_plan_json :: "execution_plan \<Rightarrow> json" where
  "execution_plan_json p = JObj
     [(''specialist_roles'', str_list (specialist_roles p)),
      (''verifier_node_id'', opt_str (verifier_node_id p)),
      (''synthesis_node_id'', opt_str (synthesis_node_id p))]"

definition graph_state_json :: "graph_state \<Rightarrow> json" where
  "graph_state_json g = JObj
     [(''nodes'', JList (map (\<lambda>n. JObj
         [(''id'', JStr (gs_id n)), (''type'', JStr (node_type_str (gs_type n))),
          (''status'', JStr (gs_status n)), (''optional'', JBool (gs_optional n))]) (gst_nodes g))),
      (''edges'', edges_json (gst_edges g))]"

subsection \<open>Properties\<close>

text \<open>C10: A workflow graph is accepted exactly when its node ids are distinct, its edges join
  declared nodes and its edge relation has no cycle. Otherwise the first of these checks that
  fails gives the error, in that order. The cycle check is the code's worklist algorithm.\<close>

theorem workflow_graph_accepted_iff:
  "make_workflow_graph nodes edges =
     (if \<not> distinct (map gn_id nodes) then Inl (ValueError ''workflow graph node ids must be unique'')
      else if \<not> set edges \<subseteq> gn_id ` set nodes \<times> gn_id ` set nodes
        then Inl (ValueError ''workflow graph edge references unknown node'')
      else if \<not> acyclic (set edges) then Inl (ValueError ''workflow graph must be acyclic'')
      else Inr \<lparr>wg_nodes = nodes, wg_edges = edges\<rparr>)"
  unfolding make_workflow_graph_eq Let_def by simp

lemma default_workflow_graph_valid:
  "make_workflow_graph default_nodes default_edges = Inr default_workflow_graph"
  by code_simp

lemma default_plan:
  "build_plan default_workflow_graph = Inr
     \<lparr>specialist_roles = [''regime'', ''narrative'', ''risk''],
      verifier_node_id = Some ''verifier'', synthesis_node_id = Some ''synthesis''\<rparr>"
  by code_simp

lemma build_plan_roles: "build_plan g = Inr p \<Longrightarrow> specialist_roles p = specialist_role_ids g"
  by (auto simp: build_plan_def res_simps)

lemma specialist_roles_distinct:
  "make_workflow_graph ns es = Inr g \<Longrightarrow> distinct (specialist_role_ids g)"
  by (auto simp: make_workflow_graph_eq Let_def specialist_role_ids_def distinct_map_filter split: if_splits)

end
