(* ===== verification/Ree.thy ===== *)
theory Ree
  imports Identity
begin

section \<open>REE receipts and receipt claims (app/ree)\<close>

text \<open>
  \<^verbatim>\<open>receipts.py\<close>: \<open>parse_ree_receipt\<close> accepts the flat document and the nested one of the SDK, which
  \<open>normalize_receipt_data\<close> flattens, and forbids unknown keys. (Reading a file or JSON text first is
  \<^verbatim>\<open>json.loads\<close>; the model starts from the decoded object.) \<^verbatim>\<open>validator.py\<close>: the content hashes and
  the master hash are recomputed. \<^verbatim>\<open>claims.py\<close>: \<open>check_receipt_claim\<close> decides what a response may
  claim about its receipt.

  The results: a validation passes exactly when it gives no failure reason; a \<^verbatim>\<open>validated\<close> claim is
  valid exactly when the body parses, all its hashes recompute and the metadata beside it agrees; a
  \<^verbatim>\<open>verified\<close> claim is never valid.
\<close>

subsection \<open>receipts.py\<close>

record ree_receipt =
  rr_model_name :: string
  rr_commit_hash :: string
  rr_config_hash :: string
  rr_prompt :: string
  rr_prompt_hash :: string
  rr_parameters :: jobject
  rr_parameters_hash :: string
  rr_tokens_hash :: string
  rr_token_count :: int
  rr_finish_reason :: string
  rr_text_output :: string
  rr_device_type :: string
  rr_device_name :: string
  rr_receipt_hash :: string
  rr_version :: string
  rr_ree_version :: string

definition valid_receipt :: "ree_receipt \<Rightarrow> bool" where
  "valid_receipt r \<longleftrightarrow>
     rr_model_name r \<noteq> [] \<and> rr_commit_hash r \<noteq> [] \<and> rr_config_hash r \<noteq> [] \<and> rr_prompt_hash r \<noteq> [] \<and>
     rr_parameters_hash r \<noteq> [] \<and> rr_tokens_hash r \<noteq> [] \<and> 0 \<le> rr_token_count r \<and> rr_receipt_hash r \<noteq> []"

definition receipt_fields :: "ree_receipt \<Rightarrow> jobject" where
  "receipt_fields r =
     [(''model_name'', JStr (rr_model_name r)), (''commit_hash'', JStr (rr_commit_hash r)),
      (''config_hash'', JStr (rr_config_hash r)), (''prompt'', JStr (rr_prompt r)),
      (''prompt_hash'', JStr (rr_prompt_hash r)), (''parameters'', JObj (rr_parameters r)),
      (''parameters_hash'', JStr (rr_parameters_hash r)), (''tokens_hash'', JStr (rr_tokens_hash r)),
      (''token_count'', JInt (rr_token_count r)), (''finish_reason'', JStr (rr_finish_reason r)),
      (''text_output'', JStr (rr_text_output r)), (''device_type'', JStr (rr_device_type r)),
      (''device_name'', JStr (rr_device_name r)), (''receipt_hash'', JStr (rr_receipt_hash r)),
      (''version'', JStr (rr_version r)), (''ree_version'', JStr (rr_ree_version r))]"

definition receipt_field_names :: "string list" where
  "receipt_field_names =
     [''model_name'', ''commit_hash'', ''config_hash'', ''prompt'', ''prompt_hash'', ''parameters'',
      ''parameters_hash'', ''tokens_hash'', ''token_count'', ''finish_reason'', ''text_output'',
      ''device_type'', ''device_name'', ''receipt_hash'', ''version'', ''ree_version'']"

text \<open>A field with a default: the default only when the key is missing.\<close>

definition with_default :: "jobject \<Rightarrow> string \<Rightarrow> 'a \<Rightarrow> (jobject \<Rightarrow> string \<Rightarrow> 'a res) \<Rightarrow> 'a res" where
  "with_default d k v field = (if dget d k = None then Inr v else field d k)"

definition obj_field :: "jobject \<Rightarrow> string \<Rightarrow> jobject res" where
  "obj_field d k = (case dget d k of Some (JObj b) \<Rightarrow> Inr b | _ \<Rightarrow> invalid k)"

definition receipt_of_json :: "jobject \<Rightarrow> ree_receipt res" where
  "receipt_of_json d =
     (if \<not> set (dkeys d) \<subseteq> set receipt_field_names then invalid ''extra_forbidden'' else
     res_bind (str_field d ''model_name'') (\<lambda>model.
     res_bind (str_field d ''commit_hash'') (\<lambda>commit.
     res_bind (str_field d ''config_hash'') (\<lambda>config.
     res_bind (with_default d ''prompt'' [] str_field) (\<lambda>prompt.
     res_bind (str_field d ''prompt_hash'') (\<lambda>prompt_hash.
     res_bind (with_default d ''parameters'' [] obj_field) (\<lambda>parameters.
     res_bind (str_field d ''parameters_hash'') (\<lambda>parameters_hash.
     res_bind (str_field d ''tokens_hash'') (\<lambda>tokens_hash.
     res_bind (with_default d ''token_count'' 0 int_field) (\<lambda>token_count.
     res_bind (with_default d ''finish_reason'' [] str_field) (\<lambda>finish.
     res_bind (with_default d ''text_output'' [] str_field) (\<lambda>output.
     res_bind (with_default d ''device_type'' [] str_field) (\<lambda>device_type.
     res_bind (with_default d ''device_name'' [] str_field) (\<lambda>device_name.
     res_bind (str_field d ''receipt_hash'') (\<lambda>receipt_hash.
     res_bind (with_default d ''version'' [] str_field) (\<lambda>version.
     res_bind (with_default d ''ree_version'' [] str_field) (\<lambda>ree_version.
       checked ''ReeReceipt'' valid_receipt
         \<lparr>rr_model_name = model, rr_commit_hash = commit, rr_config_hash = config, rr_prompt = prompt,
          rr_prompt_hash = prompt_hash, rr_parameters = parameters, rr_parameters_hash = parameters_hash,
          rr_tokens_hash = tokens_hash, rr_token_count = token_count, rr_finish_reason = finish,
          rr_text_output = output, rr_device_type = device_type, rr_device_name = device_name,
          rr_receipt_hash = receipt_hash, rr_version = version, rr_ree_version = ree_version\<rparr>)))))))))))))))))"

definition forbid_unknown_keys :: "jobject \<Rightarrow> string list \<Rightarrow> string \<Rightarrow> unit res" where
  "forbid_unknown_keys d allowed location =
     (let extras = sort (filter (\<lambda>k. k \<notin> set allowed) (dkeys d)) in
      if extras \<noteq> [] then Inl (ValueError (''unknown '' @ location @ '' fields: '' @ py_repr (str_list extras)))
      else Inr ())"

definition jget_or :: "jobject \<Rightarrow> string \<Rightarrow> json \<Rightarrow> json" where
  "jget_or d k v = (case dget d k of None \<Rightarrow> v | Some w \<Rightarrow> w)"

definition flatten_receipt :: "jobject \<Rightarrow> jobject \<Rightarrow> jobject \<Rightarrow> jobject \<Rightarrow> jobject \<Rightarrow> jobject \<Rightarrow> jobject" where
  "flatten_receipt d model input output execution hashes =
     [(''model_name'', jget_or model ''name'' (JStr [])),
      (''commit_hash'', jget_or model ''commit_hash'' (JStr [])),
      (''config_hash'', jget_or model ''config_hash'' (JStr [])),
      (''prompt'', jget_or input ''prompt'' (JStr [])),
      (''prompt_hash'', jget_or input ''prompt_hash'' (JStr [])),
      (''parameters'', py_or (jget input ''parameters'') (JObj [])),
      (''parameters_hash'', jget_or input ''parameters_hash'' (JStr [])),
      (''tokens_hash'', jget_or output ''tokens_hash'' (JStr [])),
      (''token_count'', jget_or output ''token_count'' (JInt 0)),
      (''finish_reason'', jget_or output ''finish_reason'' (JStr [])),
      (''text_output'', jget_or output ''text_output'' (JStr [])),
      (''device_type'', jget_or execution ''device_type'' (JStr [])),
      (''device_name'', jget_or execution ''device_name'' (JStr [])),
      (''receipt_hash'', jget_or hashes ''receipt_hash'' (JStr [])),
      (''version'', jget_or d ''version'' (JStr [])),
      (''ree_version'', jget_or d ''ree_version'' (JStr []))]"

definition normalize_receipt_data :: "jobject \<Rightarrow> jobject res" where
  "normalize_receipt_data d =
     (if dget d ''model_name'' \<noteq> None then Inr d else
     res_bind (forbid_unknown_keys d
       [''version'', ''ree_version'', ''model'', ''input'', ''output'', ''execution'', ''hashes''] ''receipt'') (\<lambda>_.
     case (jget d ''model'', jget d ''input'', jget d ''output'', jget d ''execution'', jget d ''hashes'') of
       (JObj model, JObj input, JObj output, JObj execution, JObj hashes) \<Rightarrow>
         res_bind (forbid_unknown_keys model [''name'', ''commit_hash'', ''config_hash''] ''model'') (\<lambda>_.
         res_bind (forbid_unknown_keys input [''prompt'', ''prompt_hash'', ''parameters'', ''parameters_hash''] ''input'') (\<lambda>_.
         res_bind (forbid_unknown_keys output [''tokens_hash'', ''token_count'', ''finish_reason'', ''text_output''] ''output'') (\<lambda>_.
         res_bind (forbid_unknown_keys execution [''device_type'', ''device_name''] ''execution'') (\<lambda>_.
         res_bind (forbid_unknown_keys hashes [''receipt_hash''] ''hashes'') (\<lambda>_.
           Inr (flatten_receipt d model input output execution hashes))))))
     | _ \<Rightarrow> Inr d))"

definition parse_ree_receipt :: "jobject \<Rightarrow> ree_receipt res" where
  "parse_ree_receipt d = res_bind (normalize_receipt_data d) receipt_of_json"

definition compute_receipt_hash ::
    "crypto \<Rightarrow> string \<Rightarrow> string \<Rightarrow> string \<Rightarrow> string \<Rightarrow> string \<Rightarrow> string" where
  "compute_receipt_hash c commit_hash config_hash prompt_hash parameters_hash tokens_hash =
     ''sha256:'' @ sha256_digest c
       (join ''|'' [commit_hash, config_hash, prompt_hash, parameters_hash, tokens_hash])"

subsection \<open>validator.py\<close>

record ree_validation =
  rv_receipt_hash :: string
  rv_expected_receipt_hash :: string
  rv_expected_prompt_hash :: string
  rv_expected_parameters_hash :: string
  rv_expected_tokens_hash :: string
  rv_receipt_hash_matches :: bool
  rv_prompt_hash_matches :: bool
  rv_parameters_hash_matches :: bool
  rv_tokens_hash_matches :: bool
  rv_unsupported :: "string list"

definition rv_matches :: "ree_validation \<Rightarrow> bool" where
  "rv_matches v \<longleftrightarrow>
     rv_receipt_hash_matches v \<and> rv_prompt_hash_matches v \<and> rv_parameters_hash_matches v \<and>
     rv_tokens_hash_matches v \<and> rv_unsupported v = []"

definition component_reason :: "string list \<Rightarrow> string \<Rightarrow> bool \<Rightarrow> string list" where
  "component_reason unsupported component ok =
     (if component \<in> set unsupported then [component @ ''_hash_algorithm_unsupported'']
      else if \<not> ok then [component @ ''_hash_mismatch''] else [])"

definition failure_reasons :: "ree_validation \<Rightarrow> string list" where
  "failure_reasons v =
     (if \<not> rv_receipt_hash_matches v then [''receipt_recomputation_failed''] else []) @
     component_reason (rv_unsupported v) ''prompt'' (rv_prompt_hash_matches v) @
     component_reason (rv_unsupported v) ''parameters'' (rv_parameters_hash_matches v) @
     component_reason (rv_unsupported v) ''tokens'' (rv_tokens_hash_matches v)"

definition has_hex_digest :: "string \<Rightarrow> bool" where
  "has_hex_digest v \<longleftrightarrow> length v = 64 \<and> (\<exists>n. py_int_hex v = Inr n)"

definition content_hash :: "crypto \<Rightarrow> string \<Rightarrow> string \<Rightarrow> string option" where
  "content_hash c content declared =
     (let normalized = to_lower (strip declared) in
      if starts_with ''sha256:'' normalized \<and> has_hex_digest (remove_prefix ''sha256:'' normalized)
        then Some (''sha256:'' @ sha256_digest c content)
      else if starts_with ''0x'' normalized \<and> has_hex_digest (remove_prefix ''0x'' normalized)
        then Some (''0x'' @ keccak_digest c content)
      else None)"

definition hash_matches :: "string \<Rightarrow> string option \<Rightarrow> bool" where
  "hash_matches declared expected \<longleftrightarrow>
     (case expected of None \<Rightarrow> False | Some e \<Rightarrow> to_lower declared = to_lower e)"

definition opt_text :: "string option \<Rightarrow> string" where
  "opt_text s = (case s of None \<Rightarrow> [] | Some t \<Rightarrow> t)"

definition validate_ree_receipt :: "crypto \<Rightarrow> ree_receipt \<Rightarrow> ree_validation res" where
  "validate_ree_receipt c r =
     (let expected = compute_receipt_hash c (rr_commit_hash r) (rr_config_hash r) (rr_prompt_hash r)
            (rr_parameters_hash r) (rr_tokens_hash r);
          prompt = content_hash c (rr_prompt r) (rr_prompt_hash r)
      in res_bind (canonical_json (JObj (rr_parameters r))) (\<lambda>parameters_text.
         let parameters = content_hash c parameters_text (rr_parameters_hash r);
             tokens = content_hash c (rr_text_output r) (rr_tokens_hash r)
         in Inr
           \<lparr>rv_receipt_hash = rr_receipt_hash r, rv_expected_receipt_hash = expected,
            rv_expected_prompt_hash = opt_text prompt, rv_expected_parameters_hash = opt_text parameters,
            rv_expected_tokens_hash = opt_text tokens,
            rv_receipt_hash_matches = (to_lower (rr_receipt_hash r) = to_lower expected),
            rv_prompt_hash_matches = hash_matches (rr_prompt_hash r) prompt,
            rv_parameters_hash_matches = hash_matches (rr_parameters_hash r) parameters,
            rv_tokens_hash_matches = hash_matches (rr_tokens_hash r) tokens,
            rv_unsupported =
              (if prompt = None then [''prompt''] else []) @
              (if parameters = None then [''parameters''] else []) @
              (if tokens = None then [''tokens''] else [])\<rparr>))"

subsection \<open>claims.py\<close>

record receipt_claim_check =
  rc_status :: string
  rc_valid :: bool
  rc_reasons :: "string list"
  rc_declared_hash :: string
  rc_embedded_hash :: string
  rc_recomputed_hash :: string
  rc_receipt_hash_matches :: "bool option"
  rc_prompt_hash_matches :: "bool option"
  rc_parameters_hash_matches :: "bool option"
  rc_tokens_hash_matches :: "bool option"

definition claim_check_json :: "receipt_claim_check \<Rightarrow> json" where
  "claim_check_json k =
     (let flag = (\<lambda>b. case b of None \<Rightarrow> JNull | Some v \<Rightarrow> JBool v) in JObj
       [(''status'', JStr (rc_status k)), (''valid'', JBool (rc_valid k)), (''reasons'', str_list (rc_reasons k)),
        (''declared_hash'', JStr (rc_declared_hash k)), (''embedded_hash'', JStr (rc_embedded_hash k)),
        (''recomputed_hash'', JStr (rc_recomputed_hash k)),
        (''receipt_hash_matches'', flag (rc_receipt_hash_matches k)),
        (''prompt_hash_matches'', flag (rc_prompt_hash_matches k)),
        (''parameters_hash_matches'', flag (rc_parameters_hash_matches k)),
        (''tokens_hash_matches'', flag (rc_tokens_hash_matches k))])"

definition empty_check :: "string \<Rightarrow> bool \<Rightarrow> string list \<Rightarrow> string \<Rightarrow> receipt_claim_check" where
  "empty_check status valid reasons declared =
     \<lparr>rc_status = status, rc_valid = valid, rc_reasons = reasons, rc_declared_hash = declared,
      rc_embedded_hash = [], rc_recomputed_hash = [], rc_receipt_hash_matches = None,
      rc_prompt_hash_matches = None, rc_parameters_hash_matches = None, rc_tokens_hash_matches = None\<rparr>"

definition nonblank :: "string option \<Rightarrow> bool" where
  "nonblank s \<longleftrightarrow> (case s of None \<Rightarrow> False | Some t \<Rightarrow> t \<noteq> [])"

definition has_receipt_material :: "specialist_response \<Rightarrow> bool" where
  "has_receipt_material r \<longleftrightarrow>
     nonblank (sr_ree_receipt_hash r) \<or> nonblank (sr_ree_prompt_hash r) \<or> nonblank (sr_ree_tokens_hash r) \<or>
     nonblank (sr_ree_model_name r) \<or> sr_ree_receipt_body r \<noteq> None \<or> nonblank (sr_ree_receipt_path r)"

definition binding_reason :: "string \<Rightarrow> bool \<Rightarrow> string option \<Rightarrow> string \<Rightarrow> string list" where
  "binding_reason name is_hash declared embedded =
     (if \<not> nonblank declared then [''receipt_'' @ name @ ''_missing'']
      else if (if is_hash then to_lower (the declared) = to_lower embedded else the declared = embedded) then []
      else [''receipt_'' @ name @ ''_mismatch''])"

definition metadata_reasons :: "specialist_response \<Rightarrow> ree_receipt \<Rightarrow> string list" where
  "metadata_reasons r receipt =
     binding_reason ''prompt_hash'' True (sr_ree_prompt_hash r) (rr_prompt_hash receipt) @
     binding_reason ''tokens_hash'' True (sr_ree_tokens_hash r) (rr_tokens_hash receipt) @
     binding_reason ''model_name'' False (sr_ree_model_name r) (rr_model_name receipt)"

definition claim_status :: "specialist_response \<Rightarrow> string" where
  "claim_status r = to_lower (strip (opt_text (sr_receipt_status r)))"

definition check_receipt_claim :: "crypto \<Rightarrow> specialist_response \<Rightarrow> receipt_claim_check res" where
  "check_receipt_claim c r =
     (let status = claim_status r; declared = opt_text (sr_ree_receipt_hash r) in
      if status = [] then
        Inr (if has_receipt_material r
             then empty_check ''not_claimed'' False [''receipt_status_missing''] declared
             else empty_check ''not_claimed'' True [] declared)
      else if status \<notin> {''parsed'', ''validated'', ''verified''} then
        Inr (empty_check status False [''unsupported_receipt_status''] declared)
      else
        let missing_hash = (if declared = [] then [''receipt_hash_missing''] else []);
            external = (if status = ''verified'' then [''external_reexecution_evidence_missing''] else [])
        in case sr_ree_receipt_body r of
             None \<Rightarrow>
               let reasons = missing_hash @ [''receipt_body_missing''] @ external in
               Inr (empty_check status (reasons = []) reasons declared)
           | Some body \<Rightarrow>
               (case parse_ree_receipt body of
                  Inl _ \<Rightarrow>
                    let reasons = missing_hash @ [''receipt_body_invalid''] @ external in
                    Inr (empty_check status (reasons = []) reasons declared)
                | Inr receipt \<Rightarrow>
                    res_bind (validate_ree_receipt c receipt) (\<lambda>v.
                      let hash_reason =
                            (if declared \<noteq> [] \<and> to_lower declared \<noteq> to_lower (rr_receipt_hash receipt)
                             then [''receipt_hash_mismatch''] else []);
                          failures = (if status \<in> {''validated'', ''verified''} then failure_reasons v else []);
                          reasons = missing_hash @ hash_reason @ metadata_reasons r receipt @ failures @ external
                      in Inr \<lparr>rc_status = status, rc_valid = (reasons = []), rc_reasons = reasons,
                           rc_declared_hash = declared, rc_embedded_hash = rr_receipt_hash receipt,
                           rc_recomputed_hash = rv_expected_receipt_hash v,
                           rc_receipt_hash_matches = Some (rv_receipt_hash_matches v),
                           rc_prompt_hash_matches = Some (rv_prompt_hash_matches v),
                           rc_parameters_hash_matches = Some (rv_parameters_hash_matches v),
                           rc_tokens_hash_matches = Some (rv_tokens_hash_matches v)\<rparr>)))"

definition canonical_validated_receipt_body ::
    "crypto \<Rightarrow> specialist_response \<Rightarrow> receipt_claim_check option \<Rightarrow> jobject option res" where
  "canonical_validated_receipt_body c r given =
     res_bind (case given of None \<Rightarrow> check_receipt_claim c r | Some k \<Rightarrow> Inr k) (\<lambda>k.
       case sr_ree_receipt_body r of
         None \<Rightarrow> Inr None
       | Some body \<Rightarrow>
           if rc_status k \<noteq> ''validated'' \<or> \<not> rc_valid k then Inr None
           else res_bind (parse_ree_receipt body) (\<lambda>receipt. Inr (Some (receipt_fields receipt))))"

subsection \<open>Receipts\<close>

lemma with_defaultI [simp]: "dget d k = Some v \<Longrightarrow> with_default d k x field = field d k"
  by (simp add: with_default_def)

lemma obj_fieldI [simp]: "dget d k = Some (JObj b) \<Longrightarrow> obj_field d k = Inr b"
  by (simp add: obj_field_def)

lemma receipt_fields_keys: "dkeys (receipt_fields r) = receipt_field_names"
  by (simp add: receipt_fields_def receipt_field_names_def)

lemma receipt_of_json_fields: "valid_receipt r \<Longrightarrow> receipt_of_json (receipt_fields r) = Inr r"
  unfolding receipt_of_json_def receipt_fields_keys
  by (cases r) (simp add: receipt_fields_def)

lemma parse_receipt_fields: "valid_receipt r \<Longrightarrow> parse_ree_receipt (receipt_fields r) = Inr r"
proof -
  assume "valid_receipt r"
  moreover have "normalize_receipt_data (receipt_fields r) = Inr (receipt_fields r)"
    by (simp add: normalize_receipt_data_def receipt_fields_def)
  ultimately show ?thesis by (simp add: parse_ree_receipt_def receipt_of_json_fields)
qed

lemma receipt_of_json_valid: "receipt_of_json d = Inr r \<Longrightarrow> valid_receipt r"
  unfolding receipt_of_json_def by (clarsimp simp: res_simps invalid_def split: if_split_asm)

lemma parse_receipt_valid: "parse_ree_receipt d = Inr r \<Longrightarrow> valid_receipt r"
  by (auto simp: parse_ree_receipt_def res_bind_Inr_iff dest: receipt_of_json_valid)

definition nested_receipt :: "ree_receipt \<Rightarrow> jobject" where
  "nested_receipt r =
     [(''version'', JStr (rr_version r)), (''ree_version'', JStr (rr_ree_version r)),
      (''model'', JObj [(''name'', JStr (rr_model_name r)), (''commit_hash'', JStr (rr_commit_hash r)),
         (''config_hash'', JStr (rr_config_hash r))]),
      (''input'', JObj [(''prompt'', JStr (rr_prompt r)), (''prompt_hash'', JStr (rr_prompt_hash r)),
         (''parameters'', JObj (rr_parameters r)), (''parameters_hash'', JStr (rr_parameters_hash r))]),
      (''output'', JObj [(''tokens_hash'', JStr (rr_tokens_hash r)), (''token_count'', JInt (rr_token_count r)),
         (''finish_reason'', JStr (rr_finish_reason r)), (''text_output'', JStr (rr_text_output r))]),
      (''execution'', JObj [(''device_type'', JStr (rr_device_type r)), (''device_name'', JStr (rr_device_name r))]),
      (''hashes'', JObj [(''receipt_hash'', JStr (rr_receipt_hash r))])]"

lemma nested_normalizes: "normalize_receipt_data (nested_receipt r) = Inr (receipt_fields r)"
  by (simp add: normalize_receipt_data_def nested_receipt_def jget_def forbid_unknown_keys_def
      flatten_receipt_def jget_or_def py_or_def receipt_fields_def)

text \<open>The nested receipt document of the SDK and the flat document describe the same receipt: the
  nested form of a valid receipt parses to exactly that receipt, and so does its flat dump.\<close>

theorem receipt_documents_agree:
  assumes "valid_receipt r"
  shows "parse_ree_receipt (nested_receipt r) = Inr r \<and> parse_ree_receipt (receipt_fields r) = Inr r"
  using parse_receipt_fields [OF assms] receipt_of_json_fields [OF assms]
  by (simp add: parse_ree_receipt_def nested_normalizes)

subsection \<open>Validation\<close>

lemma validation_matches_reasons:
  "validate_ree_receipt c r = Inr v \<Longrightarrow> rv_matches v \<longleftrightarrow> failure_reasons v = []"
  unfolding validate_ree_receipt_def Let_def res_bind_Inr_iff
  by (auto simp: rv_matches_def failure_reasons_def component_reason_def hash_matches_def
      split: if_splits option.splits)

definition binds_content :: "crypto \<Rightarrow> string \<Rightarrow> string \<Rightarrow> bool" where
  "binds_content c declared content \<longleftrightarrow>
     to_lower declared \<in> {to_lower (''sha256:'' @ sha256_digest c content), to_lower (''0x'' @ keccak_digest c content)}"

lemma hash_matches_binds: "hash_matches declared (content_hash c content declared) \<Longrightarrow> binds_content c declared content"
  by (auto simp: hash_matches_def content_hash_def binds_content_def Let_def split: if_splits option.splits)

text \<open>A receipt whose validation passes commits to its contents: the prompt, the canonical
  parameters and the text output hash to the declared component hashes, and the five component
  hashes to the receipt hash. The validation passes exactly when it reports no failure reason.\<close>

theorem receipt_validation_binds_content:
  assumes "validate_ree_receipt c r = Inr v"
  shows "(rv_matches v \<longleftrightarrow> failure_reasons v = []) \<and>
    (rv_matches v \<longrightarrow>
       binds_content c (rr_prompt_hash r) (rr_prompt r) \<and>
       (\<exists>t. canonical_json (JObj (rr_parameters r)) = Inr t \<and> binds_content c (rr_parameters_hash r) t) \<and>
       binds_content c (rr_tokens_hash r) (rr_text_output r) \<and>
       to_lower (rr_receipt_hash r) = to_lower (compute_receipt_hash c (rr_commit_hash r) (rr_config_hash r)
         (rr_prompt_hash r) (rr_parameters_hash r) (rr_tokens_hash r)))"
proof -
  obtain t where t: "canonical_json (JObj (rr_parameters r)) = Inr t"
    using assms unfolding validate_ree_receipt_def Let_def res_bind_Inr_iff by blast
  have "binds_content c (rr_prompt_hash r) (rr_prompt r) \<and> binds_content c (rr_parameters_hash r) t \<and>
      binds_content c (rr_tokens_hash r) (rr_text_output r) \<and>
      to_lower (rr_receipt_hash r) = to_lower (compute_receipt_hash c (rr_commit_hash r) (rr_config_hash r)
         (rr_prompt_hash r) (rr_parameters_hash r) (rr_tokens_hash r))" if "rv_matches v"
    using that assms unfolding validate_ree_receipt_def Let_def t res_bind_simps
    by (auto simp: rv_matches_def intro: hash_matches_binds)
  with t validation_matches_reasons [OF assms] show ?thesis by blast
qed

subsection \<open>Claims\<close>

lemma binding_reason_iff:
  "embedded \<noteq> [] \<Longrightarrow> binding_reason name True declared embedded = [] \<longleftrightarrow>
     (\<exists>h. declared = Some h \<and> to_lower h = to_lower embedded)"
  "embedded \<noteq> [] \<Longrightarrow> binding_reason name False declared embedded = [] \<longleftrightarrow> declared = Some embedded"
  by (auto simp: binding_reason_def nonblank_def split: option.splits) (metis to_lower_eq_Nil)

lemma opt_text_hash:
  "e \<noteq> [] \<Longrightarrow> (opt_text s \<noteq> [] \<and> to_lower (opt_text s) = to_lower e) \<longleftrightarrow> (\<exists>h. s = Some h \<and> to_lower h = to_lower e)"
  by (cases s) (auto simp: opt_text_def, metis to_lower_eq_Nil)

lemma claim_check_reasons:
  "check_receipt_claim c r = Inr k \<Longrightarrow> rc_valid k \<longleftrightarrow> rc_reasons k = []"
  unfolding check_receipt_claim_def Let_def
  by (auto simp: res_bind_Inr_iff empty_check_def split: if_splits option.splits sum.splits)

lemma claim_check_status:
  "check_receipt_claim c r = Inr k \<Longrightarrow>
     rc_status k = (if claim_status r = [] then ''not_claimed'' else claim_status r)"
  unfolding check_receipt_claim_def Let_def
  by (auto simp: res_bind_Inr_iff empty_check_def split: if_splits option.splits sum.splits)

text \<open>
  The specification of a bound receipt, in terms of the digests: a declared hash names its algorithm by
  a prefix before 64 hexadecimal digits and equals, up to case, that algorithm's digest of the content.
\<close>

definition recomputes :: "crypto \<Rightarrow> string \<Rightarrow> string \<Rightarrow> bool" where
  "recomputes c declared content \<longleftrightarrow>
     (let n = to_lower (strip declared) in
        starts_with ''sha256:'' n \<and> has_hex_digest (remove_prefix ''sha256:'' n) \<and>
        to_lower declared = to_lower (''sha256:'' @ sha256_digest c content) \<or>
        starts_with ''0x'' n \<and> has_hex_digest (remove_prefix ''0x'' n) \<and>
        to_lower declared = to_lower (''0x'' @ keccak_digest c content))"

definition bound_receipt :: "crypto \<Rightarrow> specialist_response \<Rightarrow> ree_receipt \<Rightarrow> bool" where
  "bound_receipt c r receipt \<longleftrightarrow>
     recomputes c (rr_prompt_hash receipt) (rr_prompt receipt) \<and>
     (\<exists>t. canonical_json (JObj (rr_parameters receipt)) = Inr t \<and> recomputes c (rr_parameters_hash receipt) t) \<and>
     recomputes c (rr_tokens_hash receipt) (rr_text_output receipt) \<and>
     to_lower (rr_receipt_hash receipt) = to_lower (compute_receipt_hash c (rr_commit_hash receipt)
       (rr_config_hash receipt) (rr_prompt_hash receipt) (rr_parameters_hash receipt) (rr_tokens_hash receipt)) \<and>
     (\<exists>h. sr_ree_receipt_hash r = Some h \<and> to_lower h = to_lower (rr_receipt_hash receipt)) \<and>
     (\<exists>h. sr_ree_prompt_hash r = Some h \<and> to_lower h = to_lower (rr_prompt_hash receipt)) \<and>
     (\<exists>h. sr_ree_tokens_hash r = Some h \<and> to_lower h = to_lower (rr_tokens_hash receipt)) \<and>
     sr_ree_model_name r = Some (rr_model_name receipt)"

lemma hash_matches_recomputes: "hash_matches declared (content_hash c content declared) \<longleftrightarrow> recomputes c declared content"
proof -
  have "\<not> (starts_with ''sha256:'' n \<and> starts_with ''0x'' n)" for n
    by (cases n) (auto simp: starts_with_def)
  then show ?thesis by (auto simp: hash_matches_def content_hash_def recomputes_def Let_def)
qed

lemma validation_recomputes:
  "(\<exists>v. validate_ree_receipt c r = Inr v \<and> rv_matches v) \<longleftrightarrow>
     recomputes c (rr_prompt_hash r) (rr_prompt r) \<and>
     (\<exists>t. canonical_json (JObj (rr_parameters r)) = Inr t \<and> recomputes c (rr_parameters_hash r) t) \<and>
     recomputes c (rr_tokens_hash r) (rr_text_output r) \<and>
     to_lower (rr_receipt_hash r) = to_lower (compute_receipt_hash c (rr_commit_hash r)
       (rr_config_hash r) (rr_prompt_hash r) (rr_parameters_hash r) (rr_tokens_hash r))"
proof (cases "canonical_json (JObj (rr_parameters r))")
  case (Inl e)
  then show ?thesis by (simp only: validate_ree_receipt_def Let_def res_bind_simps) simp
next
  case (Inr t)
  have some: "recomputes c d u \<Longrightarrow> content_hash c u d \<noteq> None" for d u
    unfolding hash_matches_recomputes [symmetric] by (auto simp: hash_matches_def split: option.splits)
  show ?thesis
    by (simp only: validate_ree_receipt_def Let_def Inr res_bind_simps)
      (use some [of "rr_prompt_hash r" "rr_prompt r"] some [of "rr_parameters_hash r" t]
        some [of "rr_tokens_hash r" "rr_text_output r"] in
        \<open>auto simp: rv_matches_def hash_matches_recomputes\<close>)
qed

lemma bound_receipt_checks:
  "bound_receipt c r receipt \<longleftrightarrow>
     (\<exists>v. validate_ree_receipt c receipt = Inr v \<and> rv_matches v) \<and>
     (\<exists>h. sr_ree_receipt_hash r = Some h \<and> to_lower h = to_lower (rr_receipt_hash receipt)) \<and>
     (\<exists>h. sr_ree_prompt_hash r = Some h \<and> to_lower h = to_lower (rr_prompt_hash receipt)) \<and>
     (\<exists>h. sr_ree_tokens_hash r = Some h \<and> to_lower h = to_lower (rr_tokens_hash receipt)) \<and>
     sr_ree_model_name r = Some (rr_model_name receipt)"
  unfolding bound_receipt_def validation_recomputes by blast

lemma validated_claim_body:
  assumes "check_receipt_claim c r = Inr k" "claim_status r = ''validated''"
  shows "rc_valid k \<longleftrightarrow>
    (\<exists>body receipt. sr_ree_receipt_body r = Some body \<and> parse_ree_receipt body = Inr receipt \<and>
       bound_receipt c r receipt)"
proof (cases "sr_ree_receipt_body r")
  case None
  with assms show ?thesis by (auto simp: check_receipt_claim_def Let_def empty_check_def)
next
  case (Some body)
  show ?thesis
  proof (cases "parse_ree_receipt body")
    case (Inl e)
    with assms Some show ?thesis by (auto simp: check_receipt_claim_def Let_def empty_check_def)
  next
    case (Inr receipt)
    then have "valid_receipt receipt" by (rule parse_receipt_valid)
    then have ne: "rr_receipt_hash receipt \<noteq> []" "rr_prompt_hash receipt \<noteq> []"
      "rr_tokens_hash receipt \<noteq> []" "rr_model_name receipt \<noteq> []"
      by (simp_all add: valid_receipt_def)
    obtain v where v: "validate_ree_receipt c receipt = Inr v"
      using assms Some Inr by (auto simp: check_receipt_claim_def Let_def res_bind_Inr_iff)
    have "rc_valid k \<longleftrightarrow> opt_text (sr_ree_receipt_hash r) \<noteq> [] \<and>
        to_lower (opt_text (sr_ree_receipt_hash r)) = to_lower (rr_receipt_hash receipt) \<and>
        metadata_reasons r receipt = [] \<and> failure_reasons v = []"
      using assms Some Inr v by (auto simp: check_receipt_claim_def Let_def split: if_splits)
    then show ?thesis
      using Some Inr v ne opt_text_hash [OF ne(1), of "sr_ree_receipt_hash r"] validation_matches_reasons [OF v]
      by (auto simp: bound_receipt_checks metadata_reasons_def binding_reason_iff)
  qed
qed

text \<open>C6: A \<^verbatim>\<open>validated\<close> claim is valid exactly when the response embeds a body that parses as a
  receipt, every hash of that receipt recomputes, and the receipt hash, prompt hash, tokens hash and
  model name stated beside the body are those of the receipt.\<close>

theorem validated_claim_iff:
  assumes "check_receipt_claim c r = Inr k" "claim_status r = ''validated''"
  shows "rc_valid k \<longleftrightarrow>
    (\<exists>body receipt. sr_ree_receipt_body r = Some body \<and> parse_ree_receipt body = Inr receipt \<and>
       bound_receipt c r receipt)"
  using assms by (rule validated_claim_body)

lemma verified_never_valid:
  "check_receipt_claim c r = Inr k \<Longrightarrow> claim_status r = ''verified'' \<Longrightarrow> \<not> rc_valid k"
  unfolding check_receipt_claim_def Let_def
  by (auto simp: res_bind_Inr_iff empty_check_def split: option.splits sum.splits)

text \<open>Claims fail closed: whenever the check returns, it is valid exactly when it has no reason
  against the claim; a claim of full re-execution and a claim with an unknown status are never valid;
  and receipt data without a status is not valid either.\<close>

theorem receipt_claims_fail_closed:
  assumes "check_receipt_claim c r = Inr k" "rc_valid k"
  shows "rc_reasons k = [] \<and>
     (rc_status k = ''not_claimed'' \<and> \<not> has_receipt_material r \<or>
      rc_status k = ''parsed'' \<or> rc_status k = ''validated'')"
proof -
  have r: "rc_reasons k = []" using claim_check_reasons [OF assms(1)] assms(2) by simp
  have "claim_status r \<noteq> ''verified''" using verified_never_valid [OF assms(1)] assms(2) by blast
  moreover have "\<not> has_receipt_material r" if "claim_status r = []"
    using assms that by (auto simp: check_receipt_claim_def Let_def empty_check_def split: if_splits)
  moreover have "claim_status r \<in> {[], ''parsed'', ''validated'', ''verified''}"
  proof (rule ccontr)
    assume "claim_status r \<notin> {[], ''parsed'', ''validated'', ''verified''}"
    then have "k = empty_check (claim_status r) False [''unsupported_receipt_status''] (opt_text (sr_ree_receipt_hash r))"
      using assms(1) by (simp add: check_receipt_claim_def Let_def)
    with assms(2) show False by (simp add: empty_check_def)
  qed
  ultimately show ?thesis using r claim_check_status [OF assms(1)] by auto
qed

text \<open>What the verifier stores as the receipt body is the strict canonical body of a valid
  \<^verbatim>\<open>validated\<close> claim: it is the dump of a receipt that is bound to the response, and it parses back
  to that receipt.\<close>

theorem canonical_body_is_bound:
  assumes "canonical_validated_receipt_body c r None = Inr (Some body)"
  shows "\<exists>receipt. body = receipt_fields receipt \<and> parse_ree_receipt body = Inr receipt \<and> bound_receipt c r receipt"
proof -
  obtain k raw receipt where k: "check_receipt_claim c r = Inr k" "rc_status k = ''validated''" "rc_valid k"
    and raw: "sr_ree_receipt_body r = Some raw" "parse_ree_receipt raw = Inr receipt"
    and body: "body = receipt_fields receipt"
    using assms
    by (auto simp: canonical_validated_receipt_body_def res_bind_Inr_iff split: option.splits if_splits)
  have "claim_status r = ''validated''" using claim_check_status [OF k(1)] k(2) by (auto split: if_splits)
  from validated_claim_body [OF k(1) this] k(3) raw have "bound_receipt c r receipt" by auto
  then show ?thesis using body parse_receipt_fields [OF parse_receipt_valid [OF raw(2)]] by blast
qed

text \<open>The check is not total: a receipt body whose parameters hold an infinite or undefined number
  parses, and then the canonical text of the parameters raises; the error is not a reason of the check
  but leaves it, for every claimed status.\<close>

theorem claim_check_raises_on_nonfinite:
  assumes "claim_status r \<in> {''parsed'', ''validated'', ''verified''}" "sr_ree_receipt_body r = Some body"
    and "parse_ree_receipt body = Inr receipt" "\<not> finite_json (JObj (rr_parameters receipt))"
  shows "\<exists>e. check_receipt_claim c r = Inl e"
proof -
  have "\<nexists>t. canonical_json (JObj (rr_parameters receipt)) = Inr t"
    using canonical_json_total_iff(1) [of "JObj (rr_parameters receipt)"] assms(4) by blast
  then obtain e where "canonical_json (JObj (rr_parameters receipt)) = Inl e"
    by (cases "canonical_json (JObj (rr_parameters receipt))") auto
  then have "validate_ree_receipt c receipt = Inl e" by (simp add: validate_ree_receipt_def Let_def)
  with assms(1-3) show ?thesis by (auto simp: check_receipt_claim_def Let_def)
qed

subsection \<open>Concrete inputs\<close>

text \<open>With the length digest every hash is computable; the declared hashes are the recomputed ones.\<close>

definition twos :: string where "twos = ''0x'' @ replicate 64 (CHR ''2'')"

definition demo_receipt :: "jobject \<Rightarrow> ree_receipt" where
  "demo_receipt parameters =
     (let h = twos in
      \<lparr>rr_model_name = ''m'', rr_commit_hash = ''c'', rr_config_hash = ''d'', rr_prompt = ''pp'',
       rr_prompt_hash = h, rr_parameters = parameters, rr_parameters_hash = h, rr_tokens_hash = h,
       rr_token_count = 1, rr_finish_reason = [], rr_text_output = ''tt'', rr_device_type = [],
       rr_device_name = [],
       rr_receipt_hash = compute_receipt_hash demo_crypto ''c'' ''d'' h h h, rr_version = [], rr_ree_version = []\<rparr>)"

definition receipt_response :: "string \<Rightarrow> ree_receipt \<Rightarrow> specialist_response" where
  "receipt_response status r = demo_response
     \<lparr>sr_receipt_status := Some status, sr_ree_receipt_hash := Some (rr_receipt_hash r),
      sr_ree_prompt_hash := Some (rr_prompt_hash r), sr_ree_tokens_hash := Some (rr_tokens_hash r),
      sr_ree_model_name := Some (rr_model_name r), sr_ree_receipt_body := Some (receipt_fields r)\<rparr>"

lemma demo_receipt_valid: "valid_receipt (demo_receipt ps)"
  by (simp add: valid_receipt_def demo_receipt_def Let_def compute_receipt_hash_def twos_def)

lemma digits_value_twos: "digits_value 16 False acc (replicate n (CHR ''2'')) \<noteq> None"
  by (induction n arbitrary: acc) (simp_all add: hex_value_def char_code_def)

lemma twos_digest: "has_hex_digest (replicate 64 (CHR ''2''))"
proof -
  have strip: "strip (replicate 64 (CHR ''2'')) = replicate 64 (CHR ''2'')"
    by (simp add: strip_id_iff is_space_def char_code_def)
  obtain n where "digits_value 16 False 0 (replicate 64 (CHR ''2'')) = Some n"
    using digits_value_twos by blast
  then show ?thesis
    by (simp add: has_hex_digest_def py_int_hex_def strip starts_with_def Let_def)
qed

lemma demo_content_hash: "length content = 2 \<Longrightarrow> content_hash demo_crypto content twos = Some twos"
proof -
  assume l: "length content = 2"
  have strip: "strip twos = twos" by (subst strip_id_iff) (simp add: twos_def is_space_def char_code_def)
  have low: "to_lower twos = twos" by (simp add: twos_def to_lower_def lower_char_def char_code_def)
  have parts: "starts_with ''0x'' twos" "\<not> starts_with ''sha256:'' twos"
    "remove_prefix ''0x'' twos = replicate 64 (CHR ''2'')"
    by (simp_all add: twos_def starts_with_def remove_prefix_def)
  have "digit_char 2 = CHR ''2''" by code_simp
  then have "''0x'' @ keccak_digest demo_crypto content = twos"
    using l by (simp add: demo_crypto_def length_digest_def twos_def)
  then show ?thesis
    unfolding content_hash_def strip low Let_def parts(3) using parts twos_digest by simp
qed

lemma demo_validation:
  "\<exists>v. validate_ree_receipt demo_crypto (demo_receipt []) = Inr v \<and> rv_matches v"
  by (simp add: validate_ree_receipt_def demo_receipt_def Let_def rv_matches_def hash_matches_def
      demo_content_hash)

lemma demo_parses: "parse_ree_receipt (receipt_fields (demo_receipt ps)) = Inr (demo_receipt ps)"
  by (rule parse_receipt_fields) (rule demo_receipt_valid)

lemma receipt_response_status: "claim_status (receipt_response s r) = to_lower (strip s)"
  by (simp add: claim_status_def receipt_response_def opt_text_def)

lemma status_texts: "to_lower (strip ''validated'') = ''validated''"
  by (simp add: text_eval)

lemma receipt_documents_agree_witness:
  "parse_ree_receipt (nested_receipt (demo_receipt [(''k'', JInt 1)])) = Inr (demo_receipt [(''k'', JInt 1)])"
  using receipt_documents_agree [OF demo_receipt_valid] by blast

lemma receipt_validation_binds_content_witness:
  "\<exists>v. validate_ree_receipt demo_crypto (demo_receipt []) = Inr v \<and> failure_reasons v = [] \<and>
     binds_content demo_crypto (rr_prompt_hash (demo_receipt [])) ''pp''"
proof -
  obtain v where v: "validate_ree_receipt demo_crypto (demo_receipt []) = Inr v" "rv_matches v"
    using demo_validation by blast
  have "rr_prompt (demo_receipt []) = ''pp''" by (simp add: demo_receipt_def Let_def)
  with receipt_validation_binds_content [OF v(1)] v show ?thesis by auto
qed

lemma demo_check: "\<exists>k. check_receipt_claim demo_crypto (receipt_response ''validated'' (demo_receipt [])) = Inr k"
proof -
  obtain v where "validate_ree_receipt demo_crypto (demo_receipt []) = Inr v" using demo_validation by blast
  moreover have "sr_ree_receipt_body (receipt_response ''validated'' (demo_receipt [])) = Some (receipt_fields (demo_receipt []))"
    by (simp add: receipt_response_def)
  ultimately show ?thesis
    by (simp add: check_receipt_claim_def Let_def receipt_response_status status_texts demo_parses)
qed

lemma demo_bound: "bound_receipt demo_crypto (receipt_response s (demo_receipt [])) (demo_receipt [])"
  using demo_validation by (auto simp: bound_receipt_checks receipt_response_def)

lemma validated_claim_iff_witness:
  "\<exists>k. check_receipt_claim demo_crypto (receipt_response ''validated'' (demo_receipt [])) = Inr k \<and> rc_valid k"
proof -
  obtain k where k: "check_receipt_claim demo_crypto (receipt_response ''validated'' (demo_receipt [])) = Inr k"
    using demo_check by blast
  have s: "claim_status (receipt_response ''validated'' (demo_receipt [])) = ''validated''"
    by (simp only: receipt_response_status status_texts)
  from validated_claim_iff [OF k s] demo_bound demo_parses have "rc_valid k"
    by (auto simp: receipt_response_def)
  with k show ?thesis by blast
qed

lemma demo_check_valid:
  "\<exists>k. check_receipt_claim demo_crypto (receipt_response ''validated'' (demo_receipt [])) = Inr k \<and>
     rc_valid k \<and> rc_status k = ''validated''"
proof -
  obtain k where k: "check_receipt_claim demo_crypto (receipt_response ''validated'' (demo_receipt [])) = Inr k"
    using demo_check by blast
  have s: "claim_status (receipt_response ''validated'' (demo_receipt [])) = ''validated''"
    by (simp only: receipt_response_status status_texts)
  from validated_claim_body [OF k s] demo_bound demo_parses have "rc_valid k"
    by (auto simp: receipt_response_def)
  with k s claim_check_status [OF k] show ?thesis by auto
qed

lemma receipt_claims_fail_closed_witness:
  "\<exists>k. check_receipt_claim demo_crypto (receipt_response ''validated'' (demo_receipt [])) = Inr k \<and>
     rc_reasons k = [] \<and> rc_status k \<noteq> ''verified''"
proof -
  obtain k where k: "check_receipt_claim demo_crypto (receipt_response ''validated'' (demo_receipt [])) = Inr k"
    "rc_valid k" using demo_check_valid by blast
  from receipt_claims_fail_closed [OF k] k(1) show ?thesis by auto
qed

lemma canonical_body_is_bound_witness:
  "\<exists>body receipt. canonical_validated_receipt_body demo_crypto (receipt_response ''validated'' (demo_receipt [])) None
      = Inr (Some body) \<and> parse_ree_receipt body = Inr receipt"
proof -
  obtain k where k: "check_receipt_claim demo_crypto (receipt_response ''validated'' (demo_receipt [])) = Inr k"
    "rc_valid k" "rc_status k = ''validated''" using demo_check_valid by blast
  have "sr_ree_receipt_body (receipt_response ''validated'' (demo_receipt [])) = Some (receipt_fields (demo_receipt []))"
    by (simp add: receipt_response_def)
  with k have c: "canonical_validated_receipt_body demo_crypto (receipt_response ''validated'' (demo_receipt [])) None
      = Inr (Some (receipt_fields (demo_receipt [])))"
    by (simp add: canonical_validated_receipt_body_def demo_parses)
  from canonical_body_is_bound [OF c] c show ?thesis by blast
qed

lemma claim_check_raises_on_nonfinite_witness:
  "\<exists>e. check_receipt_claim demo_crypto (receipt_response ''validated'' (demo_receipt [(''temperature'', JFloat NaN)])) = Inl e"
proof (rule claim_check_raises_on_nonfinite)
  show "claim_status (receipt_response ''validated'' (demo_receipt [(''temperature'', JFloat NaN)]))
      \<in> {''parsed'', ''validated'', ''verified''}"
    by (simp only: receipt_response_status status_texts) simp
  show "sr_ree_receipt_body (receipt_response ''validated'' (demo_receipt [(''temperature'', JFloat NaN)])) =
      Some (receipt_fields (demo_receipt [(''temperature'', JFloat NaN)]))"
    by (simp add: receipt_response_def)
  show "parse_ree_receipt (receipt_fields (demo_receipt [(''temperature'', JFloat NaN)])) =
      Inr (demo_receipt [(''temperature'', JFloat NaN)])" by (rule demo_parses)
  show "\<not> finite_json (JObj (rr_parameters (demo_receipt [(''temperature'', JFloat NaN)])))"
    by (simp add: demo_receipt_def Let_def)
qed

end
