(* ===== verification/Scoring.thy ===== *)
theory Scoring
  imports Contracts
begin

section \<open>The verifier's score (app/evaluation/scoring.py)\<close>

text \<open>
  Six signals between 0 and 1 are weighted and added left to right in binary64, then rounded to
  four decimals. \<open>score_breakdown\<close> is the dataclass, \<open>score_total\<close> its property \<^verbatim>\<open>total\<close>; each signal
  is a function of the response. The lemmas bound the total and show that it grows with every
  signal, in the arithmetic the code runs, where the weights do not add up to 1 exactly.
\<close>

record score_breakdown =
  sb_schema_validity :: float64
  sb_task_relevance :: float64
  sb_evidence_specificity :: float64
  sb_dissent_value :: float64
  sb_receipt_strength :: float64
  sb_latency_completion :: float64

definition weighted_sum :: "score_breakdown \<Rightarrow> float64" where
  "weighted_sum b =
     fadd (fadd (fadd (fadd (fadd
       (fmul (sb_schema_validity b) (fl (20/100)))
       (fmul (sb_task_relevance b) (fl (20/100))))
       (fmul (sb_evidence_specificity b) (fl (20/100))))
       (fmul (sb_dissent_value b) (fl (15/100))))
       (fmul (sb_receipt_strength b) (fl (15/100))))
       (fmul (sb_latency_completion b) (fl (10/100)))"

definition score_total :: "score_breakdown \<Rightarrow> float64" where
  "score_total b = py_round 4 (weighted_sum b)"

definition response_text :: "specialist_response \<Rightarrow> string" where
  "response_text r = to_lower (join '' '' (sr_summary r # sr_signals r @ sr_risks r))"

definition task_relevance :: "specialist_response \<Rightarrow> task_spec \<Rightarrow> float64" where
  "task_relevance r t =
     (let s0 = (if sr_job_id r = ts_job_id t then fadd 0 (1/2) else 0);
          s1 = (if sr_node_role r \<in> {''regime'', ''narrative'', ''risk''} then fadd s0 (1/4) else s0);
          text = response_text r;
          s2 = (if contains (to_lower (ts_asset t)) text \<or> length text \<ge> 80 then fadd s1 (1/4) else s1)
      in min s2 1)"

definition evidence_specificity :: "specialist_response \<Rightarrow> float64" where
  "evidence_specificity r =
     (let items = sr_signals r @ sr_risks r @ sr_citations r in
      if items = [] then (if length (sr_summary r) \<ge> 80 then 1/4 else 0)
      else let non_empty = filter (\<lambda>item. strip item \<noteq> []) items;
               density = min (fl (of_nat (length non_empty) / 3)) 1;
               citation_bonus = (if sr_citations r \<noteq> [] then fl (2/10) else 0);
               summary_bonus = (if length (sr_summary r) \<ge> 80 then fl (2/10) else 0)
           in min (fadd (fadd density citation_bonus) summary_bonus) 1)"

definition dissent_markers :: "string list" where
  "dissent_markers = [''risk'', ''invalid'', ''opposing'', ''downside'', ''break'', ''reversal'',
     ''contrary'', ''uncertain'']"

definition dissent_value :: "specialist_response \<Rightarrow> float64" where
  "dissent_value r =
     (let text = response_text r in
      if sr_node_role r = ''risk'' then 1
      else if list_ex (\<lambda>marker. contains marker text) dissent_markers then 1 else fl (4/10))"

definition receipt_strength :: "specialist_response \<Rightarrow> float64" where
  "receipt_strength r =
     (if sr_receipt_status r = Some ''verified'' then 1
      else if sr_receipt_status r = Some ''validated'' then fl (85/100)
      else if sr_receipt_status r = Some ''parsed'' then fl (55/100)
      else 0)"

definition score_specialist_response :: "specialist_response \<Rightarrow> task_spec \<Rightarrow> score_breakdown" where
  "score_specialist_response r t =
     \<lparr>sb_schema_validity = 1, sb_task_relevance = task_relevance r t,
      sb_evidence_specificity = evidence_specificity r, sb_dissent_value = dissent_value r,
      sb_receipt_strength = receipt_strength r, sb_latency_completion = 1\<rparr>"

subsection \<open>Bounds\<close>

definition unit_breakdown :: "score_breakdown \<Rightarrow> bool" where
  "unit_breakdown b \<longleftrightarrow>
     unit_ok (sb_schema_validity b) \<and> unit_ok (sb_task_relevance b) \<and>
     unit_ok (sb_evidence_specificity b) \<and> unit_ok (sb_dissent_value b) \<and>
     unit_ok (sb_receipt_strength b) \<and> unit_ok (sb_latency_completion b)"

definition breakdown_le :: "score_breakdown \<Rightarrow> score_breakdown \<Rightarrow> bool" where
  "breakdown_le a b \<longleftrightarrow>
     sb_schema_validity a \<le> sb_schema_validity b \<and> sb_task_relevance a \<le> sb_task_relevance b \<and>
     sb_evidence_specificity a \<le> sb_evidence_specificity b \<and> sb_dissent_value a \<le> sb_dissent_value b \<and>
     sb_receipt_strength a \<le> sb_receipt_strength b \<and> sb_latency_completion a \<le> sb_latency_completion b"

definition uniform_breakdown :: "float64 \<Rightarrow> score_breakdown" where
  "uniform_breakdown x =
     \<lparr>sb_schema_validity = x, sb_task_relevance = x, sb_evidence_specificity = x,
      sb_dissent_value = x, sb_receipt_strength = x, sb_latency_completion = x\<rparr>"

lemma score_total_mono_aux: "unit_breakdown a \<Longrightarrow> breakdown_le a b \<Longrightarrow> score_total a \<le> score_total b"
  unfolding score_total_def weighted_sum_def unit_breakdown_def unit_ok_def breakdown_le_def
  by (intro dec.rnd_mono fadd_mono fmul_mono fl_nonneg) auto

lemma score_total_0: "score_total (uniform_breakdown 0) = 0"
  by (simp add: score_total_def weighted_sum_def uniform_breakdown_def fmul_def fadd_def py_round_def)

lemma score_total_1: "score_total (uniform_breakdown 1) = 1"
  by code_simp

lemma task_relevance_unit: "unit_ok (task_relevance r t)"
  by (auto simp: task_relevance_def Let_def unit_ok_def fadd_nonneg)

lemma evidence_specificity_unit: "unit_ok (evidence_specificity r)"
  by (auto simp: evidence_specificity_def Let_def unit_ok_def intro!: fadd_nonneg fl_nonneg)

lemma dissent_value_unit: "unit_ok (dissent_value r)"
  by (auto simp: dissent_value_def Let_def unit_ok_def intro!: fl_nonneg b64.rnd_le_1)

lemma receipt_strength_unit: "unit_ok (receipt_strength r)"
  by (auto simp: receipt_strength_def unit_ok_def intro!: fl_nonneg b64.rnd_le_1)

lemma score_unit_breakdown: "unit_breakdown (score_specialist_response r t)"
  by (simp add: unit_breakdown_def score_specialist_response_def task_relevance_unit
      evidence_specificity_unit dissent_value_unit receipt_strength_unit) (simp add: unit_ok_def)

lemma score_total_unit_aux: "unit_breakdown b \<Longrightarrow> unit_ok (score_total b)"
proof -
  assume u: "unit_breakdown b"
  have "unit_breakdown (uniform_breakdown 0)" by (simp add: unit_breakdown_def uniform_breakdown_def unit_ok_def)
  moreover have "breakdown_le (uniform_breakdown 0) b" "breakdown_le b (uniform_breakdown 1)"
    using u by (simp_all add: breakdown_le_def uniform_breakdown_def unit_breakdown_def unit_ok_def)
  ultimately show ?thesis
    using score_total_mono_aux u score_total_0 score_total_1 unfolding unit_ok_def by metis
qed

text \<open>C9: Whatever a specialist answers, its score lies between 0 and 1 after rounding, although the
  binary64 weights add up to more than 1.\<close>

theorem score_in_unit_interval:
  "unit_ok (score_total (score_specialist_response r t)) \<and> 1 < weighted_sum (uniform_breakdown 1)"
proof
  show "unit_ok (score_total (score_specialist_response r t))"
    by (rule score_total_unit_aux) (rule score_unit_breakdown)
  show "1 < weighted_sum (uniform_breakdown 1)" by code_simp
qed

text \<open>The total grows with every signal: raising any of the six signals never lowers the score,
  also after the roundings of binary64 and of the last step.\<close>

theorem score_total_monotone:
  assumes "unit_breakdown a" "breakdown_le a b"
  shows "score_total a \<le> score_total b"
  using assms by (rule score_total_mono_aux)

lemma score_total_monotone_witness:
  "score_total (uniform_breakdown 0) \<le> score_total (uniform_breakdown (1/2))"
  by (rule score_total_monotone)
    (simp_all add: unit_breakdown_def uniform_breakdown_def unit_ok_def breakdown_le_def)

end
