(* ===== verification/Verifier.thy ===== *)
theory Verifier
  imports Ree Scoring Reputation
begin

section \<open>The verifier (app/nodes/verifier/service.py)\<close>

text \<open>
  \<open>verifier\<close> is the configuration of a \<^verbatim>\<open>VerifierService\<close>. A signed execution is checked first
  (\<open>verify_execution\<close>, the method \<^verbatim>\<open>verify_signed_execution\<close>); an unsigned response is scored without
  attributing it to a wallet (\<open>verify_response\<close>). Both end in \<open>verify_response_with\<close>, the method
  \<^verbatim>\<open>_verify_response\<close>: score, receipt gate, REE policy gate, threshold, attestation, signature.

  The results give the exact acceptance condition, connect the verifier to the reputation points, and
  show that an attestation signed by the verifier verifies. Errors of the hash of a response that
  holds a number without JSON text leave the verifier as exceptions; a theorem says when.
\<close>

record verifier =
  vf_acceptance_threshold :: float64
  vf_private_key :: string
  vf_ree_policy :: string
  vf_enforce_ree_policy :: bool

definition required_ree_roles :: "string \<Rightarrow> string list res" where
  "required_ree_roles policy =
     (let normalized = replace_char (CHR ''_'') (CHR ''-'') (to_lower (strip policy)) in
      if normalized = ''risk-only-ree'' then Inr [''risk'']
      else if normalized = ''all-llm-ree'' then Inr [''narrative'', ''risk'']
      else Inl (ValueError (''unsupported REE policy: '' @ policy)))"

definition make_verifier :: "float64 \<Rightarrow> string \<Rightarrow> string \<Rightarrow> bool \<Rightarrow> verifier res" where
  "make_verifier threshold key policy enforce =
     res_bind (if enforce then required_ree_roles policy else Inr []) (\<lambda>_.
       Inr \<lparr>vf_acceptance_threshold = threshold, vf_private_key = key, vf_ree_policy = policy,
            vf_enforce_ree_policy = enforce\<rparr>)"

definition verifier_run_metadata :: "verifier \<Rightarrow> jobject" where
  "verifier_run_metadata v =
     [(''ree_policy'', JStr (vf_ree_policy v)), (''ree_policy_enforced'', JBool (vf_enforce_ree_policy v))]"

definition required_ree_failure ::
    "verifier \<Rightarrow> specialist_response \<Rightarrow> string \<Rightarrow> bool \<Rightarrow> string option res" where
  "required_ree_failure v r receipt_status receipt_valid =
     (if \<not> vf_enforce_ree_policy v then Inr None
      else res_bind (required_ree_roles (vf_ree_policy v)) (\<lambda>roles. Inr
        (if sr_node_role r \<notin> set roles then None
         else if \<not> receipt_valid then Some ''required_ree_invalid''
         else if receipt_status = ''not_claimed'' then Some ''required_ree_missing''
         else if receipt_status \<noteq> ''validated'' then Some ''required_ree_not_validated''
         else None)))"

definition score_reasons :: "specialist_response \<Rightarrow> float64 \<Rightarrow> string list" where
  "score_reasons r score =
     [''deterministic_score='' @ fmt_fixed 4 score] @
     (if nonblank (sr_receipt_status r) then [''receipt_status='' @ opt_text (sr_receipt_status r)] else []) @
     (if sr_citations r \<noteq> [] then [''citations_present''] else []) @
     (if sr_risks r \<noteq> [] then [''risks_present''] else [])"

definition execution_context_failure_reasons :: "signed_agent_execution \<Rightarrow> string list" where
  "execution_context_failure_reasons x =
     (let task = sx_task x; identity = sx_identity x; response = sx_response x in
      (if ts_job_id task \<noteq> sr_job_id response then [''task_response_job_id_mismatch''] else []) @
      (if ai_role identity \<noteq> sr_node_role response then [''identity_response_role_mismatch''] else []) @
      (if ai_peer_id identity \<noteq> sr_peer_id response then [''identity_response_peer_id_mismatch''] else []))"

text \<open>The attestation with the fields that every verdict sets, the others at their default.\<close>

definition bare_attestation ::
    "string \<Rightarrow> string \<Rightarrow> string \<Rightarrow> string \<Rightarrow> float64 \<Rightarrow> string list \<Rightarrow> string option \<Rightarrow> string option \<Rightarrow>
     string option \<Rightarrow> verification_attestation" where
  "bare_attestation job role peer status score reasons signer wallet output =
     \<lparr>va_job_id = job, va_node_role = role, va_peer_id = peer, va_status = status, va_score = score,
      va_reasons = reasons, va_signer = signer, va_agent_wallet = wallet, va_output_hash = output,
      va_ree_receipt_hash = None, va_receipt_status = None, va_ree_prompt_hash = None,
      va_ree_tokens_hash = None, va_ree_model_name = None, va_ree_receipt_body = None,
      va_ree_receipt_path = None, va_verifier = None, va_attestation_hash = None,
      va_verifier_signature = None, va_signature_algorithm = None\<rparr>"

definition sign_if_configured :: "crypto \<Rightarrow> verifier \<Rightarrow> verification_attestation \<Rightarrow> verification_attestation res" where
  "sign_if_configured c v a =
     (if vf_private_key v = [] then Inr a
      else
        res_bind (verification_attestation_hash c a) (\<lambda>h.
        res_bind (key_address c (vf_private_key v)) (\<lambda>signer.
        res_bind (verification_attestation_message h) (\<lambda>message.
        res_bind (sign_text c (vf_private_key v) message) (\<lambda>sig.
          Inr (a\<lparr>va_verifier := Some signer, va_attestation_hash := Some h,
                 va_verifier_signature := Some (''0x'' @ sig), va_signature_algorithm := Some ''eip191''\<rparr>))))))"

definition attest :: "crypto \<Rightarrow> verifier \<Rightarrow> verification_attestation \<Rightarrow> verification_attestation res" where
  "attest c v a = res_bind (make_attestation a) (sign_if_configured c v)"

definition gate_score :: "verifier \<Rightarrow> float64" where
  "gate_score v = fsub (vf_acceptance_threshold v) (fl (1/100))"

definition receipt_gate :: "verifier \<Rightarrow> receipt_claim_check \<Rightarrow> float64 \<times> string list \<Rightarrow> float64 \<times> string list" where
  "receipt_gate v k sr =
     (if rc_valid k then sr
      else let score = min (fst sr) (gate_score v) in
        (score, snd sr @ map (\<lambda>reason. ''invalid_receipt_claim:'' @ reason) (rc_reasons k) @
                [''receipt_claim_gate='' @ fmt_fixed 4 score]))"

definition policy_gate :: "verifier \<Rightarrow> string option \<Rightarrow> float64 \<times> string list \<Rightarrow> float64 \<times> string list" where
  "policy_gate v failure sr =
     (case failure of None \<Rightarrow> sr
      | Some f \<Rightarrow> (min (fst sr) (gate_score v), snd sr @ [f @ '':'' @ vf_ree_policy v]))"

definition verify_response_with ::
    "crypto \<Rightarrow> verifier \<Rightarrow> task_spec \<Rightarrow> specialist_response \<Rightarrow> string option \<Rightarrow> string option \<Rightarrow>
     verification_attestation res" where
  "verify_response_with c v task r verified_signer verified_output_hash =
     (if ts_job_id task \<noteq> sr_job_id r then
        attest c v (bare_attestation (ts_job_id task) (sr_node_role r) (sr_peer_id r) ''rejected'' 0
          [''task_response_job_id_mismatch''] verified_signer None verified_output_hash)
      else
        let score0 = score_total (score_specialist_response r task) in
        res_bind (check_receipt_claim c r) (\<lambda>k.
        let gated = receipt_gate v k (score0, score_reasons r score0) in
        res_bind (required_ree_failure v r (rc_status k) (rc_valid k)) (\<lambda>failure.
        let (score, reasons1) = policy_gate v failure gated;
            status = (if vf_acceptance_threshold v \<le> score then ''accepted'' else ''rejected'');
            reasons = (if status = ''rejected'' then reasons1 @ [''score_below_threshold''] else reasons1)
        in
        res_bind (canonical_validated_receipt_body c r (Some k)) (\<lambda>body.
        res_bind (if nonblank verified_output_hash then Inr (opt_text verified_output_hash)
                  else canonical_json_hash c (specialist_response_json r)) (\<lambda>oh.
          attest c v
            \<lparr>va_job_id = sr_job_id r, va_node_role = sr_node_role r, va_peer_id = sr_peer_id r,
             va_status = status, va_score = score, va_reasons = reasons, va_signer = verified_signer,
             va_agent_wallet = verified_signer, va_output_hash = Some oh,
             va_ree_receipt_hash = sr_ree_receipt_hash r, va_receipt_status = sr_receipt_status r,
             va_ree_prompt_hash = sr_ree_prompt_hash r, va_ree_tokens_hash = sr_ree_tokens_hash r,
             va_ree_model_name = sr_ree_model_name r, va_ree_receipt_body = body,
             va_ree_receipt_path = sr_ree_receipt_path r, va_verifier = None,
             va_attestation_hash = None, va_verifier_signature = None, va_signature_algorithm = None\<rparr>)))))"

definition verify_response :: "crypto \<Rightarrow> verifier \<Rightarrow> task_spec \<Rightarrow> specialist_response \<Rightarrow> verification_attestation res" where
  "verify_response c v task r = verify_response_with c v task r None None"

definition verify_responses ::
    "crypto \<Rightarrow> verifier \<Rightarrow> task_spec \<Rightarrow> specialist_response list \<Rightarrow> verification_attestation list res" where
  "verify_responses c v task rs = map_res (verify_response c v task) rs"

definition verify_execution :: "crypto \<Rightarrow> verifier \<Rightarrow> signed_agent_execution \<Rightarrow> verification_attestation res" where
  "verify_execution c v x =
     (let task = sx_task x; identity = sx_identity x; envelope = sx_signature x in
      res_bind (verify_signed_execution c x) (\<lambda>ok.
        if \<not> ok then
          let context = execution_context_failure_reasons x in
          attest c v (bare_attestation (ts_job_id task) (ai_role identity) (ai_peer_id identity) ''rejected'' 0
            (if context = [] then [''invalid_signature''] else context)
            (Some (se_signer envelope)) None (Some (se_output_hash envelope)))
        else verify_response_with c v task (sx_response x) (Some (se_signer envelope))
               (Some (se_output_hash envelope))))"

subsection \<open>The signed verdict\<close>

lemma sign_keeps_verdict:
  "sign_if_configured c v a = Inr b \<Longrightarrow>
     attestation_verdict_fields b = attestation_verdict_fields a \<and> va_job_id b = va_job_id a \<and>
     va_node_role b = va_node_role a \<and> va_peer_id b = va_peer_id a \<and> va_status b = va_status a \<and>
     va_score b = va_score a \<and> va_signer b = va_signer a \<and> va_agent_wallet b = va_agent_wallet a \<and>
     va_output_hash b = va_output_hash a \<and> va_reasons b = va_reasons a"
  by (auto simp: sign_if_configured_def res_bind_Inr_iff attestation_verdict_fields_def split: if_splits)

lemma attest_keeps_verdict:
  "attest c v a = Inr b \<Longrightarrow>
     valid_attestation a \<and> va_job_id b = va_job_id a \<and>
     va_node_role b = va_node_role a \<and> va_peer_id b = va_peer_id a \<and> va_status b = va_status a \<and>
     va_score b = va_score a \<and> va_signer b = va_signer a \<and> va_agent_wallet b = va_agent_wallet a \<and>
     va_output_hash b = va_output_hash a"
  using sign_keeps_verdict [of c v a b]
  by (auto simp: attest_def make_attestation_def res_bind_Inr_iff checked_Inr_iff)

lemma hash_of_verdict: "attestation_verdict_fields a = attestation_verdict_fields b \<Longrightarrow>
    verification_attestation_hash c a = verification_attestation_hash c b"
  by (simp add: verification_attestation_hash_def)

lemma address_nonempty: "address_ok a \<Longrightarrow> a \<noteq> []"
  by (auto simp: hex_pattern_def)

text \<open>A verifier with a key signs verdicts that hold up: the attestation it returns passes the
  attestation check, whose recomputed hash covers every field of the verdict.\<close>

theorem signed_attestation_verifies:
  assumes "crypto_ok c" "vf_private_key v \<noteq> []" "sign_if_configured c v a = Inr b"
  shows "verify_verification_attestation c b = Inr True"
proof -
  obtain h signer m sig where h: "verification_attestation_hash c a = Inr h"
    and k: "key_address c (vf_private_key v) = Inr signer"
    and m: "verification_attestation_message h = Inr m" and s: "sign_text c (vf_private_key v) m = Inr sig"
    and b: "b = a\<lparr>va_verifier := Some signer, va_attestation_hash := Some h,
        va_verifier_signature := Some (''0x'' @ sig), va_signature_algorithm := Some ''eip191''\<rparr>"
    using assms(2,3) by (auto simp: sign_if_configured_def res_bind_Inr_iff)
  have "signer \<noteq> []" using crypto_key [OF assms(1) k] address_nonempty by blast
  moreover have "h \<noteq> []"
    using h by (auto simp: verification_attestation_hash_def canonical_json_hash_def res_bind_Inr_iff keccak256_hex_def)
  moreover have "recover_text c m (''0x'' @ sig) = Inr signer"
    using crypto_sign [OF assms(1) k, of m] s by simp
  moreover have "verification_attestation_hash c b = Inr h"
    using h by (simp add: b verification_attestation_hash_def attestation_verdict_fields_def)
  ultimately show ?thesis
    unfolding verify_attestation_iff using m by (simp add: b)
qed

subsection \<open>Acceptance\<close>

lemma gate_below_threshold:
  assumes "0 \<le> vf_acceptance_threshold v" "vf_acceptance_threshold v \<le> 1"
  shows "gate_score v < vf_acceptance_threshold v"
proof -
  let ?d = "fl (1/100)" and ?t = "vf_acceptance_threshold v"
  have d: "1 / 2 ^ 24 < ?d" "?d \<le> 1" by code_simp+
  have "\<bar>?t - ?d\<bar> < 2 ^ 30" using assms d by (simp add: abs_less_iff)
  from fl_error_small [OF this] have "gate_score v - (?t - ?d) \<le> 1 / 2 ^ 24"
    unfolding gate_score_def fsub_def by (rule order.trans [OF abs_ge_self])
  with d(1) show ?thesis by linarith
qed

lemma gates_score:
  "fst (policy_gate v failure (receipt_gate v k (s, rs))) =
     (if rc_valid k \<and> failure = None then s else min s (gate_score v))"
  by (simp add: policy_gate_def receipt_gate_def Let_def split: option.splits)

lemma acceptance_cases:
  assumes "verify_response_with c v task r signer oh = Inr a"
    and "0 \<le> vf_acceptance_threshold v" "vf_acceptance_threshold v \<le> 1"
  shows "va_status a = ''accepted'' \<longleftrightarrow>
    ts_job_id task = sr_job_id r \<and>
    vf_acceptance_threshold v \<le> score_total (score_specialist_response r task) \<and>
    (\<exists>k. check_receipt_claim c r = Inr k \<and> rc_valid k \<and> required_ree_failure v r (rc_status k) True = Inr None)"
proof (cases "ts_job_id task = sr_job_id r")
  case False
  with assms(1) show ?thesis
    by (auto simp: verify_response_with_def bare_attestation_def dest: attest_keeps_verdict)
next
  case True
  let ?s = "score_total (score_specialist_response r task)" and ?t = "vf_acceptance_threshold v"
  obtain k failure where k: "check_receipt_claim c r = Inr k"
    and f: "required_ree_failure v r (rc_status k) (rc_valid k) = Inr failure"
    and st: "va_status a = ''accepted'' \<longleftrightarrow>
       ?t \<le> fst (policy_gate v failure (receipt_gate v k (?s, score_reasons r ?s)))"
    using assms(1) True
    by (auto simp: verify_response_with_def Let_def res_bind_Inr_iff split_def dest!: attest_keeps_verdict
        split: if_splits)
  have "va_status a = ''accepted'' \<longleftrightarrow> ?t \<le> ?s \<and> rc_valid k \<and> failure = None"
    unfolding st gates_score using gate_below_threshold [OF assms(2,3)] by auto
  then show ?thesis using True k f by auto
qed

text \<open>C1: The exact acceptance condition: a response is accepted if and only if it answers the job, its
  score reaches the threshold, its receipt claim is valid and the REE policy asks for nothing more.
  In particular the two gates lower a failing response strictly below the threshold.\<close>

theorem acceptance_condition:
  assumes "verify_response_with c v task r signer oh = Inr a"
    and "0 \<le> vf_acceptance_threshold v" "vf_acceptance_threshold v \<le> 1"
  shows "va_status a = ''accepted'' \<longleftrightarrow>
    ts_job_id task = sr_job_id r \<and>
    vf_acceptance_threshold v \<le> score_total (score_specialist_response r task) \<and>
    (\<exists>k. check_receipt_claim c r = Inr k \<and> rc_valid k \<and> required_ree_failure v r (rc_status k) True = Inr None)"
  using assms by (rule acceptance_cases)

text \<open>Where the policy is enforced, an accepted response of a role that needs REE embeds a receipt
  that recomputes and is bound to the response.\<close>

theorem required_role_needs_receipt:
  assumes "verify_response_with c v task r signer oh = Inr a" "va_status a = ''accepted''"
    and "0 \<le> vf_acceptance_threshold v" "vf_acceptance_threshold v \<le> 1"
    and "vf_enforce_ree_policy v" "required_ree_roles (vf_ree_policy v) = Inr roles" "sr_node_role r \<in> set roles"
  shows "\<exists>body receipt. sr_ree_receipt_body r = Some body \<and> parse_ree_receipt body = Inr receipt \<and>
     bound_receipt c r receipt"
proof -
  obtain k where k: "check_receipt_claim c r = Inr k" "rc_valid k" "required_ree_failure v r (rc_status k) True = Inr None"
    using acceptance_cases [OF assms(1,3,4)] assms(2) by blast
  then have "rc_status k = ''validated''" using assms(5-7) by (auto simp: required_ree_failure_def split: if_splits)
  then have "claim_status r = ''validated''" using claim_check_status [OF k(1)] by (auto split: if_splits)
  from validated_claim_body [OF k(1) this] k(2) show ?thesis by blast
qed

subsection \<open>Credit\<close>

lemma response_signer:
  "verify_response_with c v task r signer oh = Inr a \<Longrightarrow> va_signer a = signer \<and>
     (va_agent_wallet a = signer \<or> va_agent_wallet a = None)"
  unfolding verify_response_with_def Let_def
  by (auto simp: res_bind_Inr_iff bare_attestation_def split_def dest!: attest_keeps_verdict split: if_splits)

text \<open>Unsigned work earns nothing: whatever an unsigned response claims, the update built from the
  verifier's attestation is not eligible and carries no points.\<close>

theorem unsigned_never_credited:
  assumes "verify_responses c v task rs = Inr atts"
  shows "list_all (\<lambda>u. \<not> ru_credit_eligible u \<and> ru_reputation_points u = 0 \<and> ru_verifier_score u = 0)
    (build_reputation_updates atts)"
proof -
  have "va_signer a = None" if "a \<in> set atts" for a
    using assms that response_signer [of c v task _ None None a]
    by (auto simp: verify_responses_def map_res_Inr_iff list_all2_conv_all_nth in_set_conv_nth verify_response_def)
  then show ?thesis
    by (auto simp: list_all_iff build_reputation_updates_def reputation_update_of_def Let_def
        credit_eligible_def filled_def points_for_attestation_def)
qed

text \<open>C7: Credit needs a verified signature: if the update of a signed execution is eligible, the
  execution verified, was accepted with at least the threshold, and the credited wallet is the signer
  of the envelope, which is the wallet of the identity up to case.\<close>

theorem credit_needs_verified_signature:
  assumes "verify_execution c v x = Inr a" "ru_credit_eligible (reputation_update_of a)"
    and "0 \<le> vf_acceptance_threshold v" "vf_acceptance_threshold v \<le> 1"
  shows "verify_signed_execution c x = Inr True \<and> va_status a = ''accepted'' \<and>
     va_agent_wallet a = Some (se_signer (sx_signature x)) \<and>
     vf_acceptance_threshold v \<le> score_total (score_specialist_response (sx_response x) (sx_task x))"
proof -
  have e: "va_status a = ''accepted''" "filled (va_agent_wallet a)"
    using assms(2) by (auto simp: reputation_update_of_def Let_def credit_eligible_def)
  have ok: "verify_signed_execution c x = Inr True"
    and w: "verify_response_with c v (sx_task x) (sx_response x) (Some (se_signer (sx_signature x)))
       (Some (se_output_hash (sx_signature x))) = Inr a"
    using assms(1) e(1)
    by (auto simp: verify_execution_def Let_def res_bind_Inr_iff bare_attestation_def
        dest!: attest_keeps_verdict split: if_splits)
  from acceptance_cases [OF w assms(3,4)] response_signer [OF w] e ok show ?thesis
    by (auto simp: filled_def)
qed

subsection \<open>Errors\<close>

lemma map_res_error: "x \<in> set xs \<Longrightarrow> f x = Inl e \<Longrightarrow> \<exists>e. map_res f xs = Inl e"
  by (induction xs) (auto split: sum.splits)

lemma nonfinite_has_no_hash: "\<not> finite_json v \<Longrightarrow> \<exists>e. canonical_json_hash c v = Inl e"
  using canonical_json_total_iff(1) [of v]
  by (cases "canonical_json v") (auto simp: canonical_json_hash_def)

lemma nonfinite_response_raises:
  assumes "ts_job_id task = sr_job_id r" "\<not> finite_json (specialist_response_json r)"
  shows "\<exists>e. verify_response c v task r = Inl e"
proof -
  obtain e where "canonical_json_hash c (specialist_response_json r) = Inl e"
    using nonfinite_has_no_hash [OF assms(2)] by blast
  then have "verify_response c v task r \<noteq> Inr a" for a
    using assms(1)
    by (auto simp: verify_response_def verify_response_with_def Let_def res_bind_Inr_iff nonblank_def split_def)
  then show ?thesis by (cases "verify_response c v task r") auto
qed

text \<open>One response with an infinite or undefined scenario number, which the response contract
  admits, makes the verification of the whole batch raise: the verifier returns no attestation for any
  response, instead of rejecting this one.\<close>

theorem nonfinite_response_fails_batch:
  assumes "r \<in> set rs" "ts_job_id task = sr_job_id r" "\<not> finite_json (specialist_response_json r)"
  shows "\<exists>e. verify_responses c v task rs = Inl e"
  unfolding verify_responses_def using nonfinite_response_raises [OF assms(2,3)] map_res_error [OF assms(1)]
  by blast

subsection \<open>Totality\<close>

lemma gate_score_unit:
  "fl (1/100) \<le> vf_acceptance_threshold v \<Longrightarrow> vf_acceptance_threshold v \<le> 1 \<Longrightarrow> unit_ok (gate_score v)"
proof -
  assume t: "fl (1/100) \<le> vf_acceptance_threshold v" "vf_acceptance_threshold v \<le> 1"
  have "0 \<le> fl (1/100)" by (rule fl_nonneg) simp
  with t show ?thesis
    unfolding gate_score_def fsub_def unit_ok_def by (intro b64.rnd_unit) simp_all
qed

lemma canonical_body_defined:
  assumes "check_receipt_claim c r = Inr k"
  shows "\<exists>body. canonical_validated_receipt_body c r (Some k) = Inr body"
proof (cases "rc_status k = ''validated'' \<and> rc_valid k")
  case True
  then have "claim_status r = ''validated''" using claim_check_status [OF assms] by (auto split: if_splits)
  from validated_claim_body [OF assms this] True show ?thesis
    by (auto simp: canonical_validated_receipt_body_def split: option.splits)
next
  case False
  then show ?thesis by (auto simp: canonical_validated_receipt_body_def split: option.splits)
qed

lemma verdict_defined:
  assumes "valid_specialist_response r" "finite_json (specialist_response_json r)"
    and "ts_job_id task = sr_job_id r" "check_receipt_claim c r = Inr k"
    and "required_ree_failure v r (rc_status k) (rc_valid k) = Inr f"
    and "fl (1/100) \<le> vf_acceptance_threshold v" "vf_acceptance_threshold v \<le> 1" "vf_private_key v = []"
    and "opt_ok address_ok signer"
  shows "\<exists>a. verify_response_with c v task r signer oh = Inr a \<and>
    va_score a \<le> score_total (score_specialist_response r task) \<and> present (va_output_hash a)"
proof -
  let ?s = "score_total (score_specialist_response r task)"
  let ?g = "policy_gate v f (receipt_gate v k (?s, score_reasons r ?s))"
  have s: "unit_ok ?s" by (rule score_total_unit_aux) (rule score_unit_breakdown)
  have g: "unit_ok (fst ?g)" "fst ?g \<le> ?s"
    using s gate_score_unit [OF assms(6,7)] unfolding gates_score by (auto simp: unit_ok_def)
  obtain body where body: "canonical_validated_receipt_body c r (Some k) = Inr body"
    using canonical_body_defined [OF assms(4)] by blast
  obtain oh' where oh': "canonical_json_hash c (specialist_response_json r) = Inr oh'" "oh' \<noteq> []"
    using output_hash_total [OF assms(2)]
    by (auto simp: output_hash_def canonical_json_hash_def res_bind_Inr_iff keccak256_hex_def)
  then obtain h where h: "(if nonblank oh then Inr (opt_text oh)
      else canonical_json_hash c (specialist_response_json r)) = Inr h" "h \<noteq> []"
    by (cases "nonblank oh") (auto simp: nonblank_def opt_text_def split: option.splits)
  have ids: "sr_job_id r \<noteq> []" "sr_node_role r \<noteq> []" "sr_peer_id r \<noteq> []"
    using assms(1) by (simp_all add: valid_specialist_response_def)
  show ?thesis
    unfolding verify_response_with_def Let_def using assms(3-5,8,9) body h ids g
    by (simp add: split_def attest_def present_def
        make_attestation_def valid_attestation_def checked_def sign_if_configured_def)
qed

text \<open>Otherwise the verifier always answers: for a valid response of finite numbers whose receipt
  check returns, under a threshold between one hundredth and 1, it returns an attestation, whether it
  accepts or rejects.\<close>

theorem verifier_answers:
  assumes "valid_specialist_response r" "finite_json (specialist_response_json r)"
    and "ts_job_id task = sr_job_id r" "check_receipt_claim c r = Inr k"
    and "required_ree_failure v r (rc_status k) (rc_valid k) = Inr f"
    and "fl (1/100) \<le> vf_acceptance_threshold v" "vf_acceptance_threshold v \<le> 1" "vf_private_key v = []"
  shows "\<exists>a. verify_response c v task r = Inr a \<and> va_score a \<le> score_total (score_specialist_response r task)"
  using verdict_defined [OF assms, of None None] by (auto simp: verify_response_def opt_ok_def)

subsection \<open>Concrete inputs\<close>

definition demo_verifier :: "string \<Rightarrow> bool \<Rightarrow> verifier" where
  "demo_verifier key enforce = \<lparr>vf_acceptance_threshold = 1/2, vf_private_key = key,
     vf_ree_policy = ''risk-only-ree'', vf_enforce_ree_policy = enforce\<rparr>"

lemma demo_threshold: "fl (1/100) \<le> 1/2" "(0 :: rat) \<le> 1/2" "(1/2 :: rat) \<le> 1"
  by code_simp+

lemma demo_response_valid: "valid_specialist_response (demo_response)"
  by (simp add: demo_response_def valid_specialist_response_def sample_response_def unit_ok_def opt_ok_def
      demo_address_ok)

lemma demo_response_finite: "finite_json (specialist_response_json demo_response)"
  by (simp add: specialist_response_json_def specialist_response_fields_def demo_response_def
      sample_response_def scenario_json_def opt_obj_def)

lemma demo_unclaimed: "check_receipt_claim c demo_response = Inr (empty_check ''not_claimed'' True [] [])"
  by (simp add: check_receipt_claim_def Let_def claim_status_def demo_response_def sample_response_def
      opt_text_def text_eval has_receipt_material_def nonblank_def)

lemma demo_ids: "ts_job_id demo_task = sr_job_id demo_response" "sr_node_role demo_response = ''risk''"
  by (simp_all add: demo_task_def demo_response_def sample_response_def)

lemma verifier_answers_witness:
  "\<exists>a. verify_response demo_crypto (demo_verifier [] False) demo_task demo_response = Inr a"
proof -
  have "required_ree_failure (demo_verifier [] False) demo_response
      (rc_status (empty_check ''not_claimed'' True [] [])) (rc_valid (empty_check ''not_claimed'' True [] [])) = Inr None"
    by (simp add: required_ree_failure_def demo_verifier_def)
  from verifier_answers [OF demo_response_valid demo_response_finite demo_ids(1) demo_unclaimed this]
    demo_threshold
  show ?thesis by (auto simp: demo_verifier_def)
qed

lemma score_at_least_half:
  assumes "sr_job_id r = ts_job_id t" "sr_node_role r = ''risk''"
  shows "1/2 \<le> score_total (score_specialist_response r t)"
proof -
  let ?low = "\<lparr>sb_schema_validity = 1, sb_task_relevance = 1/2, sb_evidence_specificity = 0,
      sb_dissent_value = 1, sb_receipt_strength = 0, sb_latency_completion = 1\<rparr>"
  have f: "fadd 0 (1/2) = 1/2" "fadd (1/2) (1/4) = 3/4" "fadd (3/4) (1/4) = 1" by code_simp+
  have "1/2 \<le> task_relevance r t"
    using assms by (simp add: task_relevance_def Let_def f)
  moreover have "dissent_value r = 1" using assms(2) by (simp add: dissent_value_def)
  ultimately have "breakdown_le ?low (score_specialist_response r t)"
    using evidence_specificity_unit [of r] receipt_strength_unit [of r]
    by (simp add: breakdown_le_def score_specialist_response_def unit_ok_def)
  moreover have "unit_breakdown ?low" by (simp add: unit_breakdown_def unit_ok_def)
  ultimately have "score_total ?low \<le> score_total (score_specialist_response r t)"
    by (intro score_total_mono_aux)
  moreover have "1/2 \<le> score_total ?low" by code_simp
  ultimately show ?thesis by simp
qed

lemma demo_verdict:
  assumes "opt_ok address_ok signer"
  shows "\<exists>a. verify_response_with demo_crypto (demo_verifier [] False) demo_task demo_response signer oh = Inr a \<and>
    va_status a = ''accepted'' \<and> present (va_output_hash a)"
proof -
  let ?v = "demo_verifier [] False" and ?k = "empty_check ''not_claimed'' True [] []"
  have ree: "required_ree_failure ?v demo_response (rc_status ?k) b = Inr None" for b
    by (simp add: required_ree_failure_def demo_verifier_def)
  have t: "fl (1/100) \<le> vf_acceptance_threshold ?v" "vf_acceptance_threshold ?v \<le> 1" "vf_private_key ?v = []"
    "0 \<le> vf_acceptance_threshold ?v"
    using demo_threshold by (simp_all add: demo_verifier_def)
  obtain a where a: "verify_response_with demo_crypto ?v demo_task demo_response signer oh = Inr a"
    "present (va_output_hash a)"
    using verdict_defined [OF demo_response_valid demo_response_finite demo_ids(1) demo_unclaimed ree t(1-3) assms]
    by blast
  have "vf_acceptance_threshold ?v \<le> score_total (score_specialist_response demo_response demo_task)"
    using score_at_least_half [of demo_response demo_task] demo_ids by (simp add: demo_verifier_def)
  then have "va_status a = ''accepted''"
    using acceptance_cases [OF a(1) t(4,2)] demo_ids(1) demo_unclaimed [of demo_crypto] ree
    by (auto simp: empty_check_def)
  with a show ?thesis by blast
qed

lemma acceptance_condition_witness:
  "\<exists>a. verify_response_with demo_crypto (demo_verifier [] False) demo_task demo_response None None = Inr a \<and>
     va_status a = ''accepted'' \<and> (\<exists>k. check_receipt_claim demo_crypto demo_response = Inr k \<and> rc_valid k)"
proof -
  obtain a where a: "verify_response_with demo_crypto (demo_verifier [] False) demo_task demo_response None None = Inr a"
    "va_status a = ''accepted''" using demo_verdict [of None None] by (auto simp: opt_ok_def)
  from acceptance_condition [OF a(1)] a demo_threshold show ?thesis by (auto simp: demo_verifier_def)
qed

lemma risk_policy: "required_ree_roles ''risk-only-ree'' = Inr [''risk'']"
  by (simp add: required_ree_roles_def text_eval replace_char_def)

lemma required_role_needs_receipt_witness:
  "\<exists>a body. verify_response_with demo_crypto (demo_verifier [] True) demo_task
       (receipt_response ''validated'' (demo_receipt [])) None None = Inr a \<and>
     sr_ree_receipt_body (receipt_response ''validated'' (demo_receipt [])) = Some body"
proof -
  let ?r = "receipt_response ''validated'' (demo_receipt [])" and ?v = "demo_verifier [] True"
  obtain k where k: "check_receipt_claim demo_crypto ?r = Inr k" "rc_valid k" "rc_status k = ''validated''"
    using demo_check_valid by blast
  have ree: "required_ree_failure ?v ?r (rc_status k) True = Inr None"
    using k by (simp add: required_ree_failure_def demo_verifier_def risk_policy)
  have t: "fl (1/100) \<le> vf_acceptance_threshold ?v" "vf_acceptance_threshold ?v \<le> 1" "vf_private_key ?v = []"
    "0 \<le> vf_acceptance_threshold ?v"
    using demo_threshold by (simp_all add: demo_verifier_def)
  have r: "valid_specialist_response ?r" "finite_json (specialist_response_json ?r)"
    "ts_job_id demo_task = sr_job_id ?r" "sr_node_role ?r = ''risk''"
    using demo_response_valid demo_response_finite demo_ids
    by (simp_all add: receipt_response_def valid_specialist_response_def specialist_response_json_def
        specialist_response_fields_def opt_obj_def receipt_fields_def demo_receipt_def Let_def)
  obtain a where a: "verify_response_with demo_crypto ?v demo_task ?r None None = Inr a"
    using verdict_defined [OF r(1-3) k(1) _ t(1-3), of None None None] ree k(2) by (auto simp: opt_ok_def)
  have "vf_acceptance_threshold ?v \<le> score_total (score_specialist_response ?r demo_task)"
    using score_at_least_half [of ?r demo_task] r by (simp add: demo_verifier_def)
  then have acc: "va_status a = ''accepted''" using acceptance_cases [OF a t(4,2)] r k ree by auto
  have "vf_enforce_ree_policy ?v" "required_ree_roles (vf_ree_policy ?v) = Inr [''risk'']" "sr_node_role ?r \<in> set [''risk'']"
    using r by (simp_all add: demo_verifier_def risk_policy)
  from required_role_needs_receipt [OF a acc t(4,2) this] a show ?thesis by blast
qed

lemma unsigned_never_credited_witness:
  "\<exists>atts. verify_responses demo_crypto (demo_verifier [] False) demo_task [demo_response] = Inr atts \<and>
     list_all (\<lambda>u. \<not> ru_credit_eligible u) (build_reputation_updates atts) \<and> atts \<noteq> []"
proof -
  obtain a where "verify_response demo_crypto (demo_verifier [] False) demo_task demo_response = Inr a"
    using demo_verdict [of None None] by (auto simp: verify_response_def opt_ok_def)
  then have atts: "verify_responses demo_crypto (demo_verifier [] False) demo_task [demo_response] = Inr [a]"
    by (simp add: verify_responses_def)
  from unsigned_never_credited [OF this] atts show ?thesis by (auto simp: list_all_iff)
qed

lemma signed_by_key:
  "sign_agent_execution c task response identity key = Inr x \<Longrightarrow> key_address c key = Inr (se_signer (sx_signature x))"
  by (erule sign_agent_execution_cases) (metis signature_envelope.select_convs(1))

lemma credit_needs_verified_signature_witness:
  "\<exists>x a. verify_execution demo_crypto (demo_verifier [] False) x = Inr a \<and>
     ru_credit_eligible (reputation_update_of a) \<and> verify_signed_execution demo_crypto x = Inr True"
proof -
  obtain x where x: "sign_agent_execution demo_crypto demo_task demo_response demo_identity ''k'' = Inr x"
    using demo_signs by blast
  have addr: "address_ok (ai_wallet demo_identity)" using demo_address_ok by (simp add: demo_identity_def)
  have ok: "verify_signed_execution demo_crypto x = Inr True"
    using signed_execution_verifies [OF demo_crypto_ok addr x] .
  have parts: "sx_task x = demo_task" "sx_response x = demo_response"
    using x by (auto elim!: sign_agent_execution_cases)
  have signer: "se_signer (sx_signature x) = demo_address"
    using signed_by_key [OF x] by (simp add: demo_crypto_def)
  obtain a where a: "verify_response_with demo_crypto (demo_verifier [] False) demo_task demo_response
      (Some demo_address) (Some (se_output_hash (sx_signature x))) = Inr a" "va_status a = ''accepted''"
      "present (va_output_hash a)"
    using demo_verdict [of "Some demo_address"] demo_address_ok by (auto simp: opt_ok_def)
  have e: "verify_execution demo_crypto (demo_verifier [] False) x = Inr a"
    using ok a parts signer by (simp add: verify_execution_def Let_def)
  have w: "va_signer a = Some demo_address" using response_signer [OF a(1)] by simp
  have w2: "va_agent_wallet a = Some demo_address"
    using a(1) demo_ids(1) unfolding verify_response_with_def Let_def
    by (auto simp: res_bind_Inr_iff split_def dest!: attest_keeps_verdict)
  have el: "ru_credit_eligible (reputation_update_of a)"
    using a w w2 demo_address_ok address_nonempty
    by (auto simp: reputation_update_of_def Let_def credit_eligible_def filled_def present_def split: option.splits)
  from credit_needs_verified_signature [OF e el] demo_threshold e el show ?thesis
    by (auto simp: demo_verifier_def)
qed

lemma signed_attestation_verifies_witness:
  "\<exists>b. sign_if_configured demo_crypto (demo_verifier ''k'' False) sample_attestation = Inr b \<and>
     verify_verification_attestation demo_crypto b = Inr True"
proof -
  have "finite_json (JObj (attestation_verdict_fields sample_attestation))"
    by (simp add: attestation_verdict_fields_def sample_attestation_def opt_obj_def)
  then obtain h where "verification_attestation_hash demo_crypto sample_attestation = Inr h"
    using canonical_json_total_iff(1) [of "JObj (attestation_verdict_fields sample_attestation)"]
    by (auto simp: verification_attestation_hash_def canonical_json_hash_def)
  moreover obtain m where "verification_attestation_message h = Inr m" using message_total by blast
  ultimately obtain b where b: "sign_if_configured demo_crypto (demo_verifier ''k'' False) sample_attestation = Inr b"
    by (simp add: sign_if_configured_def demo_verifier_def demo_crypto_def)
  have "vf_private_key (demo_verifier ''k'' False) \<noteq> []" by (simp add: demo_verifier_def)
  from signed_attestation_verifies [OF demo_crypto_ok this b] b show ?thesis by blast
qed

lemma nonfinite_response_fails_batch_witness:
  "valid_specialist_response sample_response \<and>
   (\<exists>e. verify_responses demo_crypto (demo_verifier [] False) demo_task [demo_response, sample_response] = Inl e)"
proof
  show "valid_specialist_response sample_response" by simp
  show "\<exists>e. verify_responses demo_crypto (demo_verifier [] False) demo_task [demo_response, sample_response] = Inl e"
    by (rule nonfinite_response_fails_batch [of sample_response])
      (simp_all add: demo_task_def sample_response_def specialist_response_json_def
        specialist_response_fields_def scenario_json_def)
qed

end
