(* ===== verification/Coordinator.thy ===== *)
theory Coordinator
  imports Dispatch Orchestration Verifier
begin

section \<open>The coordinator (app/coordinator/service.py)\<close>

text \<open>
  \<open>coordinator\<close> holds what a \<^verbatim>\<open>CoordinatorService\<close> is built from. Its verifier and its providers are
  objects behind protocols: the verifier is a function from a task and the responses to attestations,
  \<^verbatim>\<open>None\<close> when there is none; \<open>run_inputs\<close> are the values that the transport and the providers return
  during one run. \<open>coordinator_dispatch\<close> is \<^verbatim>\<open>dispatch\<close>: every role of the plan is dispatched
  (\<^verbatim>\<open>asyncio.gather\<close>; it returns only if all roles return, and raises if one raises), the responses
  are verified, and the run metadata is built.

  The locale \<open>response_verifier\<close> is the protocol \<^verbatim>\<open>ResponseVerifier\<close> with the law the coordinator
  relies on, one attestation per response under its role; it is interpreted on the verifier service.
  The results: the roles of a run are split into accepted, rejected and missing ones, no response is
  lost or invented, and the run is partial exactly when something is missing or rejected.
\<close>

record coordinator =
  co_registry :: axl_registry
  co_verifier :: "(task_spec \<Rightarrow> specialist_response list \<Rightarrow> verification_attestation list res) option"
  co_graph :: workflow_graph
  co_plan :: execution_plan
  co_transport_metadata :: "jobject option"
  co_verifier_metadata :: "jobject option"
  co_source_metadata :: "(thesis_request \<Rightarrow> string list \<Rightarrow> json list) option"

record run_inputs =
  in_topology :: jobject
  in_market_snapshot :: jobject
  in_headlines :: "string list"
  in_role_env :: "string \<Rightarrow> role_env"

record dispatch_result =
  dr_responses :: "specialist_response list"
  dr_topology_snapshot :: jobject
  dr_market_snapshot :: jobject
  dr_news_headlines :: "string list"
  dr_input_sources :: "jobject list"
  dr_rejected_responses :: "specialist_response list"
  dr_verification_attestations :: "verification_attestation list"
  dr_run_metadata :: jobject
  dr_node_execution_records :: "node_execution_record list"
  dr_partial :: bool
  dr_missing_roles :: "string list"

definition make_coordinator ::
    "axl_registry \<Rightarrow> (task_spec \<Rightarrow> specialist_response list \<Rightarrow> verification_attestation list res) option \<Rightarrow>
     workflow_graph \<Rightarrow> jobject option \<Rightarrow> jobject option \<Rightarrow>
     (thesis_request \<Rightarrow> string list \<Rightarrow> json list) option \<Rightarrow> coordinator res" where
  "make_coordinator reg ver graph transport_md verifier_md source_md =
     res_bind (build_plan graph) (\<lambda>plan. Inr
       \<lparr>co_registry = reg, co_verifier = ver, co_graph = graph, co_plan = plan,
        co_transport_metadata = transport_md, co_verifier_metadata = verifier_md,
        co_source_metadata = source_md\<rparr>)"

subsection \<open>Verification of the responses\<close>

definition attestation_by_role :: "verification_attestation list \<Rightarrow> (string, verification_attestation) pydict" where
  "attestation_by_role atts = dict_of (map (\<lambda>a. (va_node_role a, a)) atts)"

definition role_accepted :: "verification_attestation list \<Rightarrow> specialist_response \<Rightarrow> bool" where
  "role_accepted atts r =
     (case dget (attestation_by_role atts) (sr_node_role r) of
        None \<Rightarrow> False | Some a \<Rightarrow> va_status a = ''accepted'')"

definition coordinator_verify ::
    "coordinator \<Rightarrow> string \<Rightarrow> thesis_request \<Rightarrow> specialist_response list \<Rightarrow>
     (specialist_response list \<times> specialist_response list \<times> verification_attestation list) res" where
  "coordinator_verify co job_id request responses =
     (case co_verifier co of
        None \<Rightarrow> Inr (responses, [], [])
      | Some ver \<Rightarrow>
          res_bind (make_task_spec \<lparr>ts_job_id = job_id, ts_thesis = tr_thesis request,
              ts_asset = tr_asset request, ts_horizon_days = tr_horizon_days request\<rparr>) (\<lambda>task.
          res_bind (ver task responses) (\<lambda>atts.
            Inr (filter (role_accepted atts) responses,
                 filter (\<lambda>r. \<not> role_accepted atts r) responses, atts))))"

subsection \<open>Input sources and metadata\<close>

definition build_input_sources ::
    "coordinator \<Rightarrow> thesis_request \<Rightarrow> jobject \<Rightarrow> string list \<Rightarrow> jobject list" where
  "build_input_sources co request market headlines =
     (case jget market ''source_metadata'' of
        JObj m \<Rightarrow> [dmerge [(''input_role'', JStr ''regime''), (''input_name'', JStr ''market_snapshot'')] m]
      | _ \<Rightarrow> []) @
     (case co_source_metadata co of
        None \<Rightarrow> []
      | Some f \<Rightarrow>
          concat (map (\<lambda>(headline, source). case source of
              JObj m \<Rightarrow> [dmerge [(''input_role'', JStr ''narrative''), (''input_name'', JStr ''news_headline''),
                                 (''text'', JStr headline)] m]
            | _ \<Rightarrow> []) (zip headlines (f request headlines))))"

definition peer_selection_metadata :: "node_execution_record \<Rightarrow> json" where
  "peer_selection_metadata r = JObj
     ([(''node_role'', JStr (ne_node_role r)), (''peer_id'', JStr (ne_peer_id r)),
       (''selection_reason'', JStr (ne_selection_reason r))] @
      (if ne_attempted_peer_ids r \<noteq> [] then [(''attempted_peer_ids'', str_list (ne_attempted_peer_ids r))] else []))"

definition completed_roles :: "node_execution_record list \<Rightarrow> string list" where
  "completed_roles records = map ne_node_role (filter (\<lambda>r. ne_status r = ''completed'') records)"

definition rejected_roles :: "verification_attestation list \<Rightarrow> string list" where
  "rejected_roles atts = map va_node_role (filter (\<lambda>a. va_status a = ''rejected'') atts)"

definition build_run_metadata ::
    "coordinator \<Rightarrow> string \<Rightarrow> node_execution_record list \<Rightarrow> string list \<Rightarrow> verification_attestation list \<Rightarrow>
     specialist_response list \<Rightarrow> jobject list \<Rightarrow> bool \<Rightarrow> bool \<Rightarrow> jobject" where
  "build_run_metadata co run_mode records missing atts responses input_sources verifier_ran synthesis_ran =
     (let completed = completed_roles records; rejected = rejected_roles atts;
          state = build_graph_state (co_graph co) completed missing rejected verifier_ran synthesis_ran;
          metadata =
            [(''run_mode'', JStr run_mode),
             (''expected_roles'', str_list (map ne_node_role records)),
             (''completed_roles'', str_list completed),
             (''missing_roles'', str_list missing),
             (''rejected_roles'', str_list rejected),
             (''verification_attestations'', JList (map attestation_json atts)),
             (''specialist_responses'', JList (map specialist_response_json responses)),
             (''reputation_updates'',
                JList (map (\<lambda>u. JObj (reputation_update_fields u)) (build_reputation_updates atts))),
             (''execution_plan'', execution_plan_json (co_plan co)),
             (''workflow_graph'', workflow_graph_json (co_graph co)),
             (''graph_state'', graph_state_json state),
             (''dispatch_targets'', str_list (filter (\<lambda>t. t \<noteq> []) (map ne_dispatch_target records))),
             (''peer_selection'',
                JList (map peer_selection_metadata (filter (\<lambda>r. ne_selection_reason r \<noteq> []) records)))] @
            (if input_sources \<noteq> [] then [(''input_sources'', JList (map JObj input_sources))] else []);
          with_transport = (case co_transport_metadata co of None \<Rightarrow> metadata | Some m \<Rightarrow> dmerge metadata m)
      in case co_verifier_metadata co of None \<Rightarrow> with_transport | Some m \<Rightarrow> dmerge with_transport m)"

subsection \<open>A run\<close>

text \<open>
  The results of all roles: an error when one role raises, whether or not the others return (the first
  in the order of the plan), else no value when one never returns. The waits of a role yield to the
  event loop, so a role that never returns does not hold back the error of another.
\<close>

fun gather :: "'a res option list \<Rightarrow> 'a list res option" where
  "gather [] = Some (Inr [])"
| "gather (x # xs) =
     (case (x, gather xs) of
        (Some (Inr v), Some (Inr vs)) \<Rightarrow> Some (Inr (v # vs))
      | (Some (Inl e), _) \<Rightarrow> Some (Inl e)
      | (_, Some (Inl e)) \<Rightarrow> Some (Inl e)
      | _ \<Rightarrow> None)"

definition collect_roles :: "(string \<times> role_outcome) list \<Rightarrow>
    specialist_response list \<times> string list \<times> node_execution_record list" where
  "collect_roles pairs =
     (concat (map (\<lambda>(role, out). case ro_response out of None \<Rightarrow> [] | Some r \<Rightarrow> [r]) pairs),
      map fst (filter (\<lambda>(role, out). ro_response out = None) pairs),
      map (\<lambda>(role, out). ro_execution_record out) pairs)"

definition run_mode_of :: "jobject \<Rightarrow> string" where
  "run_mode_of topology = py_str (jget_or topology ''mode'' (JStr ''live-axl''))"

definition finish_dispatch ::
    "coordinator \<Rightarrow> string \<Rightarrow> thesis_request \<Rightarrow> run_inputs \<Rightarrow> role_outcome list \<Rightarrow> dispatch_result res" where
  "finish_dispatch co job_id request inp outcomes =
     (let run_mode = run_mode_of (in_topology inp);
          input_sources = build_input_sources co request (in_market_snapshot inp) (in_headlines inp);
          (responses0, missing, records) = collect_roles (zip (specialist_roles (co_plan co)) outcomes)
      in res_bind (coordinator_verify co job_id request responses0) (\<lambda>(responses, rejected, atts).
        Inr \<lparr>dr_responses = responses, dr_topology_snapshot = in_topology inp,
             dr_market_snapshot = in_market_snapshot inp, dr_news_headlines = in_headlines inp,
             dr_input_sources = input_sources, dr_rejected_responses = rejected,
             dr_verification_attestations = atts,
             dr_run_metadata = build_run_metadata co run_mode records missing atts (responses @ rejected)
               input_sources (co_verifier co \<noteq> None \<and> verifier_node_id (co_plan co) \<noteq> None)
               (synthesis_node_id (co_plan co) \<noteq> None),
             dr_node_execution_records = records,
             dr_partial = (missing \<noteq> [] \<or> rejected \<noteq> []), dr_missing_roles = missing\<rparr>))"

definition coordinator_dispatch ::
    "coordinator \<Rightarrow> string \<Rightarrow> thesis_request \<Rightarrow> run_inputs \<Rightarrow> dispatch_result res option" where
  "coordinator_dispatch co job_id request inp =
     (case gather (map (\<lambda>role. dispatch_role (co_registry co) (in_role_env inp role) role job_id request
             (in_market_snapshot inp) (in_headlines inp) (run_mode_of (in_topology inp)) (in_topology inp))
           (specialist_roles (co_plan co))) of
        None \<Rightarrow> None
      | Some (Inl e) \<Rightarrow> Some (Inl e)
      | Some (Inr outcomes) \<Rightarrow> Some (finish_dispatch co job_id request inp outcomes))"

subsection \<open>The verifier's contract\<close>

locale response_verifier =
  fixes verify_all :: "task_spec \<Rightarrow> specialist_response list \<Rightarrow> verification_attestation list res"
  assumes roles_attested: "verify_all t rs = Inr atts \<Longrightarrow> map va_node_role atts = map sr_node_role rs"
    and statuses: "verify_all t rs = Inr atts \<Longrightarrow> a \<in> set atts \<Longrightarrow> va_status a \<in> {''accepted'', ''rejected''}"
begin

text \<open>With distinct roles, the attestation found under a role is the one of that response.\<close>

lemma attestation_of_role:
  assumes "verify_all t rs = Inr atts" "distinct (map sr_node_role rs)" "i < length rs"
  shows "dget (attestation_by_role atts) (sr_node_role (rs ! i)) = Some (atts ! i)"
proof -
  have m: "map va_node_role atts = map sr_node_role rs" by (rule roles_attested [OF assms(1)])
  then have l: "length atts = length rs" by (metis length_map)
  have role: "va_node_role (atts ! i) = sr_node_role (rs ! i)" using m assms(3) l by (metis nth_map)
  let ?ps = "map (\<lambda>a. (va_node_role a, a)) atts"
  have "distinct (map fst (rev ?ps))" using m assms(2) by (simp add: rev_map [symmetric] comp_def)
  moreover have "(va_node_role (atts ! i), atts ! i) \<in> set (rev ?ps)" using assms(3) l by simp
  then have "(sr_node_role (rs ! i), atts ! i) \<in> set (rev ?ps)" by (simp only: role)
  ultimately have "map_of (rev ?ps) (sr_node_role (rs ! i)) = Some (atts ! i)" by simp
  then show ?thesis by (simp add: attestation_by_role_def dget_dict_of)
qed

lemma rejected_roles_of_responses:
  assumes "verify_all t rs = Inr atts" "distinct (map sr_node_role rs)"
  shows "map sr_node_role (filter (\<lambda>r. \<not> role_accepted atts r) rs) = rejected_roles atts"
proof -
  have m: "map va_node_role atts = map sr_node_role rs" by (rule roles_attested [OF assms(1)])
  then have l: "length atts = length rs" by (metis length_map)
  have pair: "map sr_node_role (filter P rs) = map va_node_role (filter Q atts)"
    if "\<And>i. i < length rs \<Longrightarrow> P (rs ! i) = Q (atts ! i)" for P Q
    using l m that
  proof (induction atts rs rule: list_induct2)
    case (Cons a atts r rs)
    have "P r = Q a" using Cons.prems(2) [of 0] by simp
    moreover have "P (rs ! i) = Q (atts ! i)" if "i < length rs" for i
      using Cons.prems(2) [of "Suc i"] that by simp
    ultimately show ?case using Cons.IH Cons.prems(1) by auto
  qed simp
  show ?thesis unfolding rejected_roles_def
  proof (rule pair)
    fix i assume i: "i < length rs"
    then have "atts ! i \<in> set atts" using l by simp
    with statuses [OF assms(1)] have "va_status (atts ! i) \<in> {''accepted'', ''rejected''}" by blast
    then show "(\<not> role_accepted atts (rs ! i)) = (va_status (atts ! i) = ''rejected'')"
      using attestation_of_role [OF assms i] by (auto simp: role_accepted_def)
  qed
qed

end

lemma verdict_role: "verify_response_with c v t r s h = Inr a \<Longrightarrow>
    va_node_role a = sr_node_role r \<and> va_status a \<in> {''accepted'', ''rejected''}"
  unfolding verify_response_with_def Let_def
  by (auto simp: res_bind_Inr_iff bare_attestation_def split_def dest!: attest_keeps_verdict split: if_splits)

interpretation service: response_verifier "verify_responses c v" for c v
proof
  fix t rs atts
  assume a: "verify_responses c v t rs = Inr atts"
  then have all: "list_all2 (\<lambda>r a. verify_response c v t r = Inr a) rs atts"
    by (simp add: verify_responses_def map_res_Inr_iff)
  then show "map va_node_role atts = map sr_node_role rs"
    by (induction rs atts rule: list_all2_induct) (auto simp: verify_response_def dest: verdict_role)
  show "va_status b \<in> {''accepted'', ''rejected''}" if "b \<in> set atts" for b
    using all that
    by (auto simp: list_all2_conv_all_nth in_set_conv_nth verify_response_def dest!: verdict_role)
qed

subsection \<open>What a run accounts for\<close>

lemma gather_some: "gather xs = Some (Inr vs) \<longleftrightarrow> list_all2 (\<lambda>x v. x = Some (Inr v)) xs vs"
proof (induction xs arbitrary: vs)
  case (Cons x xs)
  show ?case
  proof (cases vs)
    case Nil
    then show ?thesis by (auto split: option.splits sum.splits)
  next
    case (Cons w ws)
    with Cons.IH [of ws] show ?thesis by (auto split: option.splits sum.splits)
  qed
qed auto

lemma gather_total: "(\<forall>x \<in> set xs. \<exists>v. x = Some v) \<Longrightarrow> \<exists>v. gather xs = Some v"
proof (induction xs)
  case (Cons x xs)
  then obtain v w where "x = Some v" "gather xs = Some w" by auto
  then show ?case by (cases v; cases w) auto
qed simp

definition outcome_for :: "string \<Rightarrow> string \<Rightarrow> role_outcome \<Rightarrow> bool" where
  "outcome_for job_id role out \<longleftrightarrow>
     ne_node_role (ro_execution_record out) = role \<and>
     (ne_status (ro_execution_record out) = ''completed'' \<longleftrightarrow> ro_response out \<noteq> None) \<and>
     (\<forall>r. ro_response out = Some r \<longrightarrow> sr_job_id r = job_id \<and> sr_node_role r = role)"

lemma dispatched_outcome:
  assumes "dispatch_role reg env role job_id request market headlines run_mode topology = Some (Inr out)"
  shows "outcome_for job_id role out"
proof -
  obtain a where a: "dispatch_loop a initial_state = Some (Inr out)" "da_role a = role" "da_job_id a = job_id"
    using assms by (auto simp: dispatch_role_def split: sum.splits)
  have "loop_ok a initial_state" by (simp add: loop_ok_def initial_state_def)
  with dispatch_loop_answers [OF a(1)] have "outcome_ok a out" by blast
  then show ?thesis unfolding outcome_ok_def outcome_for_def a(2,3)
    by (cases "ro_response out") auto
qed

lemma collect_roles_parts:
  assumes "list_all2 (outcome_for job_id) roles outs"
    and "collect_roles (zip roles outs) = (responses, missing, records)"
  shows "mset (map sr_node_role responses) + mset missing = mset roles"
    and "\<forall>r \<in> set responses. sr_job_id r = job_id"
    and "map ne_node_role records = roles"
    and "completed_roles records = map sr_node_role responses"
    and "set (map sr_node_role responses) \<union> set missing = set roles"
proof -
  have *: "mset (map sr_node_role responses) + mset missing = mset roles \<and>
      (\<forall>r \<in> set responses. sr_job_id r = job_id) \<and> map ne_node_role records = roles \<and>
      completed_roles records = map sr_node_role responses"
    using assms
  proof (induction roles outs arbitrary: responses missing records rule: list_all2_induct)
    case Nil
    then show ?case by (auto simp: collect_roles_def completed_roles_def)
  next
    case (Cons role roles out outs)
    obtain rs ms recs where c: "collect_roles (zip roles outs) = (rs, ms, recs)" by (metis prod_cases3)
    have IH: "mset (map sr_node_role rs) + mset ms = mset roles" "\<forall>r \<in> set rs. sr_job_id r = job_id"
      "map ne_node_role recs = roles" "completed_roles recs = map sr_node_role rs"
      using Cons.IH [OF c] by simp_all
    show ?case
    proof (cases "ro_response out")
      case None
      then have "responses = rs" "missing = role # ms" "records = ro_execution_record out # recs"
        using Cons.prems c by (auto simp: collect_roles_def)
      with IH Cons.hyps(1) None show ?thesis by (auto simp: outcome_for_def completed_roles_def)
    next
      case (Some r)
      then have "responses = r # rs" "missing = ms" "records = ro_execution_record out # recs"
        using Cons.prems c by (auto simp: collect_roles_def)
      with IH Cons.hyps(1) Some show ?thesis by (auto simp: outcome_for_def completed_roles_def)
    qed
  qed
  then show "mset (map sr_node_role responses) + mset missing = mset roles"
    "\<forall>r \<in> set responses. sr_job_id r = job_id" "map ne_node_role records = roles"
    "completed_roles records = map sr_node_role responses" by simp_all
  from * show "set (map sr_node_role responses) \<union> set missing = set roles"
    by (metis set_mset_mset set_mset_union)
qed

lemma verify_partition:
  assumes "coordinator_verify co job_id request responses = Inr (accepted, rejected, atts)"
  shows "mset accepted + mset rejected = mset responses"
proof (cases "co_verifier co")
  case (Some ver)
  then have "accepted = filter (role_accepted atts) responses" "rejected = filter (\<lambda>r. \<not> role_accepted atts r) responses"
    using assms by (auto simp: coordinator_verify_def res_bind_Inr_iff)
  then show ?thesis by simp
qed (use assms in \<open>simp add: coordinator_verify_def\<close>)

lemma dispatch_run:
  assumes "coordinator_dispatch co job_id request inp = Some (Inr d)"
  obtains outs responses0 where
    "list_all2 (outcome_for job_id) (specialist_roles (co_plan co)) outs"
    "collect_roles (zip (specialist_roles (co_plan co)) outs) = (responses0, dr_missing_roles d, dr_node_execution_records d)"
    "coordinator_verify co job_id request responses0 =
       Inr (dr_responses d, dr_rejected_responses d, dr_verification_attestations d)"
    "dr_partial d \<longleftrightarrow> dr_missing_roles d \<noteq> [] \<or> dr_rejected_responses d \<noteq> []"
proof -
  obtain outs where g: "gather (map (\<lambda>role. dispatch_role (co_registry co) (in_role_env inp role) role job_id request
             (in_market_snapshot inp) (in_headlines inp) (run_mode_of (in_topology inp)) (in_topology inp))
           (specialist_roles (co_plan co))) = Some (Inr outs)"
    and f: "finish_dispatch co job_id request inp outs = Inr d"
    using assms by (auto simp: coordinator_dispatch_def split: option.splits sum.splits)
  have outs: "list_all2 (outcome_for job_id) (specialist_roles (co_plan co)) outs"
    using g unfolding gather_some
    by (auto simp: list_all2_conv_all_nth intro!: dispatched_outcome)
  obtain responses0 missing records where
    c: "collect_roles (zip (specialist_roles (co_plan co)) outs) = (responses0, missing, records)"
    by (metis prod_cases3)
  have d: "missing = dr_missing_roles d" "records = dr_node_execution_records d"
    "coordinator_verify co job_id request responses0 =
       Inr (dr_responses d, dr_rejected_responses d, dr_verification_attestations d)"
    "dr_partial d \<longleftrightarrow> dr_missing_roles d \<noteq> [] \<or> dr_rejected_responses d \<noteq> []"
    using f c by (auto simp: finish_dispatch_def Let_def res_bind_Inr_iff)
  show ?thesis by (rule that [OF outs _ d(3,4)]) (use c d in simp)
qed

text \<open>C2: A run accounts for every role exactly once: each role of the plan is the role of one accepted
  response, of one rejected response, or missing; every response answers this job; there is one record
  per role, in the order of the plan; and the run is partial exactly when not all roles are accepted.\<close>

theorem dispatch_accounts_for_every_role:
  assumes "coordinator_dispatch co job_id request inp = Some (Inr d)"
  shows "mset (map sr_node_role (dr_responses d)) + mset (map sr_node_role (dr_rejected_responses d)) +
       mset (dr_missing_roles d) = mset (specialist_roles (co_plan co)) \<and>
     (\<forall>r \<in> set (dr_responses d @ dr_rejected_responses d). sr_job_id r = job_id) \<and>
     map ne_node_role (dr_node_execution_records d) = specialist_roles (co_plan co) \<and>
     (dr_partial d \<longleftrightarrow> mset (map sr_node_role (dr_responses d)) \<noteq> mset (specialist_roles (co_plan co)))"
  using assms
proof (rule dispatch_run)
  fix outs responses0
  assume outs: "list_all2 (outcome_for job_id) (specialist_roles (co_plan co)) outs"
    and c: "collect_roles (zip (specialist_roles (co_plan co)) outs) =
      (responses0, dr_missing_roles d, dr_node_execution_records d)"
    and v: "coordinator_verify co job_id request responses0 =
       Inr (dr_responses d, dr_rejected_responses d, dr_verification_attestations d)"
    and p: "dr_partial d \<longleftrightarrow> dr_missing_roles d \<noteq> [] \<or> dr_rejected_responses d \<noteq> []"
  note parts = collect_roles_parts [OF outs c]
  have m: "mset (dr_responses d) + mset (dr_rejected_responses d) = mset responses0" by (rule verify_partition [OF v])
  then have "mset (map sr_node_role (dr_responses d)) + mset (map sr_node_role (dr_rejected_responses d)) =
      mset (map sr_node_role responses0)" by (metis image_mset_union mset_map)
  with parts(1) have total: "mset (map sr_node_role (dr_responses d)) + mset (map sr_node_role (dr_rejected_responses d)) +
       mset (dr_missing_roles d) = mset (specialist_roles (co_plan co))" by simp
  have "set (dr_responses d) \<union> set (dr_rejected_responses d) = set responses0"
    using m by (metis set_mset_mset set_mset_union)
  with parts(2) have jobs: "\<forall>r \<in> set (dr_responses d @ dr_rejected_responses d). sr_job_id r = job_id" by auto
  have "dr_partial d \<longleftrightarrow> mset (map sr_node_role (dr_responses d)) \<noteq> mset (specialist_roles (co_plan co))"
    unfolding p total [symmetric] by auto
  with total jobs parts(3) show ?thesis by blast
qed

text \<open>A run ends when no role has a repeated peer id among its candidates.\<close>

theorem dispatch_run_terminates:
  assumes "\<forall>role \<in> set (specialist_roles (co_plan co)). distinct (candidate_ids_for (co_registry co) role)"
  shows "\<exists>v. coordinator_dispatch co job_id request inp = Some v"
proof -
  have "\<exists>v. dispatch_role (co_registry co) (in_role_env inp role) role job_id request
      (in_market_snapshot inp) (in_headlines inp) (run_mode_of (in_topology inp)) (in_topology inp) = Some v"
    if "role \<in> set (specialist_roles (co_plan co))" for role
    using assms that by (intro dispatch_role_ends) auto
  then have "\<exists>v. gather (map (\<lambda>role. dispatch_role (co_registry co) (in_role_env inp role) role job_id request
             (in_market_snapshot inp) (in_headlines inp) (run_mode_of (in_topology inp)) (in_topology inp))
           (specialist_roles (co_plan co))) = Some v"
    by (intro gather_total) auto
  then obtain v where v: "gather (map (\<lambda>role. dispatch_role (co_registry co) (in_role_env inp role) role job_id request
             (in_market_snapshot inp) (in_headlines inp) (run_mode_of (in_topology inp)) (in_topology inp))
           (specialist_roles (co_plan co))) = Some v" by blast
  then show ?thesis by (cases v) (auto simp: coordinator_dispatch_def)
qed

text \<open>The graph state of a run tells the truth: with the verifier service and the roles of the plan
  distinct, a specialist node is rejected, missing or completed exactly when its role is that of a
  rejected response, a missing role, or that of an accepted response.\<close>

theorem graph_state_matches_run:
  assumes "coordinator_dispatch co job_id request inp = Some (Inr d)"
    and "co_verifier co = Some (verify_responses c v)" "distinct (specialist_roles (co_plan co))"
    and "role \<in> set (specialist_roles (co_plan co))"
  defines "status \<equiv> specialist_status role (completed_roles (dr_node_execution_records d))
    (dr_missing_roles d) (rejected_roles (dr_verification_attestations d))"
  shows "(status = ''rejected'' \<longleftrightarrow> role \<in> sr_node_role ` set (dr_rejected_responses d)) \<and>
    (status = ''missing'' \<longleftrightarrow> role \<in> set (dr_missing_roles d)) \<and>
    (status = ''completed'' \<longleftrightarrow> role \<in> sr_node_role ` set (dr_responses d))"
  using assms(1)
proof (rule dispatch_run)
  fix outs responses0
  assume outs: "list_all2 (outcome_for job_id) (specialist_roles (co_plan co)) outs"
    and cr: "collect_roles (zip (specialist_roles (co_plan co)) outs) =
      (responses0, dr_missing_roles d, dr_node_execution_records d)"
    and ver: "coordinator_verify co job_id request responses0 =
       Inr (dr_responses d, dr_rejected_responses d, dr_verification_attestations d)"
  note parts = collect_roles_parts [OF outs cr]
  have "distinct (map sr_node_role responses0 @ dr_missing_roles d)"
    using parts(1) assms(3) by (metis mset_append mset_eq_imp_distinct_iff)
  then have dist: "distinct (map sr_node_role responses0)"
    and apart: "sr_node_role ` set responses0 \<inter> set (dr_missing_roles d) = {}" by auto
  obtain t where t: "verify_responses c v t responses0 = Inr (dr_verification_attestations d)"
    and split: "dr_responses d = filter (role_accepted (dr_verification_attestations d)) responses0"
      "dr_rejected_responses d = filter (\<lambda>r. \<not> role_accepted (dr_verification_attestations d) r) responses0"
    using ver assms(2) by (auto simp: coordinator_verify_def res_bind_Inr_iff)
  have rej: "set (rejected_roles (dr_verification_attestations d)) = sr_node_role ` set (dr_rejected_responses d)"
    using service.rejected_roles_of_responses [OF t dist] split(2) by (metis set_map)
  have inj: "inj_on sr_node_role (set responses0)" using dist by (simp add: distinct_map)
  have excl: "sr_node_role ` set (dr_responses d) \<inter> sr_node_role ` set (dr_rejected_responses d) = {}"
    using inj unfolding split by (auto dest: inj_onD)
  have all: "sr_node_role ` set (dr_responses d) \<union> sr_node_role ` set (dr_rejected_responses d) = sr_node_role ` set responses0"
    unfolding split by auto
  have "role \<in> sr_node_role ` set responses0 \<or> role \<in> set (dr_missing_roles d)"
    using parts(5) assms(4) by auto
  then show ?thesis
    using rej apart excl all unfolding status_def specialist_status_def parts(4) set_map by auto
qed

subsection \<open>Concrete inputs\<close>

definition demo_coordinator :: coordinator where
  "demo_coordinator =
     \<lparr>co_registry = two_peers ''q'', co_verifier = Some (verify_responses demo_crypto (demo_verifier [] False)),
      co_graph = \<lparr>wg_nodes = [\<lparr>gn_id = ''risk'', gn_type = SpecialistNode, gn_optional = False\<rparr>], wg_edges = []\<rparr>,
      co_plan = \<lparr>specialist_roles = [''risk''], verifier_node_id = None, synthesis_node_id = None\<rparr>,
      co_transport_metadata = None, co_verifier_metadata = None, co_source_metadata = None\<rparr>"

definition demo_inputs :: run_inputs where
  "demo_inputs = \<lparr>in_topology = [], in_market_snapshot = [], in_headlines = [],
     in_role_env = (\<lambda>_. answering_env demo_response)\<rparr>"

lemma demo_run: "\<exists>d. coordinator_dispatch demo_coordinator ''job-1'' demo_request demo_inputs = Some (Inr d)"
proof -
  have r: "sr_job_id demo_response = ''job-1''" "sr_node_role demo_response = ''risk''" "sr_peer_id demo_response = ''peer-r''"
    by (simp_all add: demo_response_def sample_response_def)
  obtain out where out: "dispatch_role (two_peers ''q'') (answering_env demo_response) ''risk'' ''job-1'' demo_request [] []
      (run_mode_of []) [] = Some (Inr out)" "ro_response out = Some demo_response"
    using demo_dispatch [OF r] by blast
  have task: "make_task_spec \<lparr>ts_job_id = ''job-1'', ts_thesis = tr_thesis demo_request,
      ts_asset = tr_asset demo_request, ts_horizon_days = tr_horizon_days demo_request\<rparr> = Inr demo_task"
    by (simp add: make_task_spec_def demo_request_def demo_task_def valid_task_spec_def)
  obtain a where "verify_response demo_crypto (demo_verifier [] False) demo_task demo_response = Inr a"
    using demo_verdict [of None None] by (auto simp: verify_response_def opt_ok_def)
  then show ?thesis
    using out task
    by (auto simp: coordinator_dispatch_def demo_coordinator_def demo_inputs_def finish_dispatch_def Let_def
        collect_roles_def coordinator_verify_def verify_responses_def)
qed

lemma demo_plan_roles: "specialist_roles (co_plan demo_coordinator) = [''risk'']"
  by (simp add: demo_coordinator_def)

lemma dispatch_accounts_for_every_role_witness:
  "\<exists>d. coordinator_dispatch demo_coordinator ''job-1'' demo_request demo_inputs = Some (Inr d) \<and>
     map ne_node_role (dr_node_execution_records d) = [''risk'']"
proof -
  obtain d where d: "coordinator_dispatch demo_coordinator ''job-1'' demo_request demo_inputs = Some (Inr d)"
    using demo_run by blast
  from dispatch_accounts_for_every_role [OF d] d show ?thesis by (auto simp: demo_plan_roles)
qed

lemma dispatch_run_terminates_witness:
  "\<exists>v. coordinator_dispatch demo_coordinator ''j'' demo_request
     \<lparr>in_topology = [], in_market_snapshot = [], in_headlines = [], in_role_env = (\<lambda>_. silent_env)\<rparr> = Some v"
  by (rule dispatch_run_terminates) (simp add: demo_coordinator_def two_peers_ids)

lemma graph_state_matches_run_witness:
  "\<exists>d. coordinator_dispatch demo_coordinator ''job-1'' demo_request demo_inputs = Some (Inr d) \<and>
     (specialist_status ''risk'' (completed_roles (dr_node_execution_records d)) (dr_missing_roles d)
       (rejected_roles (dr_verification_attestations d)) = ''missing'' \<longleftrightarrow> ''risk'' \<in> set (dr_missing_roles d))"
proof -
  obtain d where d: "coordinator_dispatch demo_coordinator ''job-1'' demo_request demo_inputs = Some (Inr d)"
    using demo_run by blast
  have "co_verifier demo_coordinator = Some (verify_responses demo_crypto (demo_verifier [] False))"
    by (simp add: demo_coordinator_def)
  from graph_state_matches_run [OF d this, of "''risk''"] d demo_plan_roles show ?thesis by simp
qed

end
