(* ===== verification/Chain_Receipts.thy ===== *)
theory Chain_Receipts
  imports Chain_Events
begin

section \<open>Chain receipts and their verification (app/chain/receipts.py, verification.py, explorer.py)\<close>

text \<open>
  The receipts a job keeps of its transactions, as records and as the dictionaries that are stored,
  and the read-only check of one transaction against a node. The transport is the parameter of
  \<open>Chain_Events\<close>. The check never raises: whatever the node answers is mapped to a status, and only a
  receipt whose status is the number one is called verified.
\<close>

record chain_receipt =
  ct_kind :: string
  ct_status :: string
  ct_tx_hash :: "string option"
  ct_explorer_url :: "string option"
  ct_error :: "string option"
  ct_role :: "string option"
  ct_agent :: "string option"
  ct_ree_receipt_hash :: "string option"
  ct_ree_status :: "string option"
  ct_verifier_score :: "float64 option"
  ct_reputation_points :: "float64 option"
  ct_native_test_payout_wei :: "int option"

record job_chain_receipts =
  jr_receipt_status :: string
  jr_receipts :: "chain_receipt list"

definition rstrip_char :: "char \<Rightarrow> string \<Rightarrow> string" where
  "rstrip_char c s = rev (dropWhile (\<lambda>x. x = c) (rev s))"

definition explorer_tx_url :: "string \<Rightarrow> string \<Rightarrow> string" where
  "explorer_tx_url tx_hash base_url = rstrip_char (CHR ''/'') base_url @ ''/tx/'' @ tx_hash"

definition explorer_address_url :: "string \<Rightarrow> string \<Rightarrow> string" where
  "explorer_address_url address base_url = rstrip_char (CHR ''/'') base_url @ ''/address/'' @ address"

definition receipt_confirmed :: "string \<Rightarrow> string \<Rightarrow> string \<Rightarrow> chain_receipt" where
  "receipt_confirmed kind tx_hash explorer_base_url =
     \<lparr>ct_kind = kind, ct_status = ''confirmed'', ct_tx_hash = Some tx_hash,
      ct_explorer_url = Some (explorer_tx_url tx_hash explorer_base_url), ct_error = None, ct_role = None,
      ct_agent = None, ct_ree_receipt_hash = None, ct_ree_status = None, ct_verifier_score = None,
      ct_reputation_points = None, ct_native_test_payout_wei = None\<rparr>"

definition receipt_failed :: "string \<Rightarrow> string \<Rightarrow> string option \<Rightarrow> chain_receipt" where
  "receipt_failed kind error role =
     \<lparr>ct_kind = kind, ct_status = ''failed'', ct_tx_hash = None, ct_explorer_url = None, ct_error = Some error,
      ct_role = role, ct_agent = None, ct_ree_receipt_hash = None, ct_ree_status = None, ct_verifier_score = None,
      ct_reputation_points = None, ct_native_test_payout_wei = None\<rparr>"

definition chain_receipt_fields :: "chain_receipt \<Rightarrow> jobject" where
  "chain_receipt_fields r = filter (\<lambda>(_, v). v \<noteq> JNull)
     [(''kind'', JStr (ct_kind r)), (''status'', JStr (ct_status r)), (''tx_hash'', opt_str (ct_tx_hash r)),
      (''explorer_url'', opt_str (ct_explorer_url r)), (''error'', opt_str (ct_error r)),
      (''role'', opt_str (ct_role r)), (''agent'', opt_str (ct_agent r)),
      (''ree_receipt_hash'', opt_str (ct_ree_receipt_hash r)), (''ree_status'', opt_str (ct_ree_status r)),
      (''verifier_score'', (case ct_verifier_score r of None \<Rightarrow> JNull | Some x \<Rightarrow> num x)),
      (''reputation_points'', (case ct_reputation_points r of None \<Rightarrow> JNull | Some x \<Rightarrow> num x)),
      (''native_test_payout_wei'', (case ct_native_test_payout_wei r of None \<Rightarrow> JNull | Some i \<Rightarrow> JInt i))]"

definition chain_receipts_metadata :: "job_chain_receipts \<Rightarrow> jobject" where
  "chain_receipts_metadata j =
     [(''receipt_status'', JStr (jr_receipt_status j)),
      (''chain_receipts'', JList (map (\<lambda>r. JObj (chain_receipt_fields r)) (jr_receipts j)))]"

subsection \<open>Checking a transaction\<close>

record chain_tx_verification =
  tv_tx_hash :: string
  tv_status :: string
  tv_rpc_status :: string
  tv_block_number :: "int option"
  tv_transaction_index :: "int option"
  tv_error :: string

definition tx_verification_fields :: "chain_tx_verification \<Rightarrow> jobject" where
  "tx_verification_fields v =
     [(''tx_hash'', JStr (tv_tx_hash v)), (''status'', JStr (tv_status v)), (''rpc_status'', JStr (tv_rpc_status v))] @
     (case tv_block_number v of None \<Rightarrow> [] | Some n \<Rightarrow> [(''block_number'', JInt n)]) @
     (case tv_transaction_index v of None \<Rightarrow> [] | Some n \<Rightarrow> [(''transaction_index'', JInt n)]) @
     (if tv_error v \<noteq> [] then [(''error'', JStr (tv_error v))] else [])"

text \<open>The readers of this module accept strings only.\<close>

definition hex_text_to_int :: "json \<Rightarrow> int res" where
  "hex_text_to_int v =
     (case v of
        JStr s \<Rightarrow> if starts_with ''0x'' s then py_int_hex s else Inl (ValueError ''expected hex string'')
      | _ \<Rightarrow> Inl (ValueError ''expected hex string''))"

definition optional_hex_to_int :: "json \<Rightarrow> int option" where
  "optional_hex_to_int v =
     (if v = JNull then None else case hex_text_to_int v of Inr i \<Rightarrow> Some i | Inl _ \<Rightarrow> None)"

definition unconfirmed :: "string \<Rightarrow> string \<Rightarrow> string \<Rightarrow> string \<Rightarrow> chain_tx_verification" where
  "unconfirmed tx_hash status rpc_status error =
     \<lparr>tv_tx_hash = tx_hash, tv_status = status, tv_rpc_status = rpc_status, tv_block_number = None,
      tv_transaction_index = None, tv_error = error\<rparr>"

definition verify_transaction :: "transport \<Rightarrow> string \<Rightarrow> chain_tx_verification" where
  "verify_transaction t tx_hash =
     (case t ''eth_getTransactionReceipt'' [JStr tx_hash] of
        Inl _ \<Rightarrow> unconfirmed tx_hash ''present'' ''rpc_unavailable'' ''Gensyn Testnet RPC receipt lookup failed''
      | Inr JNull \<Rightarrow> unconfirmed tx_hash ''missing'' ''not_found'' []
      | Inr (JObj d) \<Rightarrow>
          (case hex_text_to_int (jget d ''status'') of
             Inl _ \<Rightarrow> unconfirmed tx_hash ''present'' ''invalid_response''
               ''Gensyn Testnet RPC receipt status was not valid hex''
           | Inr n \<Rightarrow>
               \<lparr>tv_tx_hash = tx_hash, tv_status = (if n = 1 then ''verified'' else ''failed''),
                tv_rpc_status = (if n = 1 then ''confirmed'' else ''reverted''),
                tv_block_number = optional_hex_to_int (jget d ''blockNumber''),
                tv_transaction_index = optional_hex_to_int (jget d ''transactionIndex''), tv_error = []\<rparr>)
      | Inr _ \<Rightarrow> unconfirmed tx_hash ''present'' ''invalid_response''
          ''Gensyn Testnet RPC receipt response was not an object'')"

lemma verified_transaction_iff:
  "tv_status (verify_transaction t h) = ''verified'' \<longleftrightarrow>
     (\<exists>d. t ''eth_getTransactionReceipt'' [JStr h] = Inr (JObj d) \<and> hex_text_to_int (jget d ''status'') = Inr 1)"
  by (cases "t ''eth_getTransactionReceipt'' [JStr h]")
    (auto simp: verify_transaction_def unconfirmed_def split: json.split sum.split)

lemma receipt_fields_present:
  "dget (chain_receipt_fields r) ''status'' = Some (JStr (ct_status r))"
  "dget (chain_receipt_fields r) ''kind'' = Some (JStr (ct_kind r))"
  by (simp_all add: chain_receipt_fields_def)

end
