(* ===== verification/Job_Api.thy ===== *)
theory Job_Api
  imports Coordinator Job_Store Chain_Receipts
begin

section \<open>The job routes (app/api/jobs.py)\<close>

text \<open>
  Submitting a job (store, dispatch, synthesis, chain receipts, completion) and the verification bundle
  of a stored job: output hashes recomputed from the stored responses, attestation signatures, REE
  receipts and chain receipts, each check with its items, rolled up into one status. The coordinator,
  the synthesizer and the chain recorder are arguments of the submission, as they are in the code; the
  file reader behind a receipt path is the argument \<open>load\<close>. Stored values are dictionaries of JSON.

  Shown: the roll-up reports failure exactly when some part failed, and full verification only when every
  part is verified; an output hash is verified exactly when one attestation and one response match and
  the hash of the stored response is the attested one, so that a job as the verifier and coordinator
  leave it verifies and any change of a response that changes its hash fails the whole bundle; a
  submission either persists a completed job, or leaves it pending and raises.
\<close>

subsection \<open>Statuses\<close>

definition rollup_status :: "string list \<Rightarrow> string" where
  "rollup_status statuses =
     (let n = map (\<lambda>s. to_lower (strip s)) (filter (\<lambda>s. s \<noteq> []) statuses) in
      if n = [] then ''missing''
      else if ''failed'' \<in> set n then ''failed''
      else if ''missing'' \<in> set n then ''missing''
      else if list_all (\<lambda>s. s = ''verified'') n then ''verified''
      else if ''validated'' \<in> set n then ''validated''
      else ''present'')"

definition items_status :: "jobject list \<Rightarrow> string" where
  "items_status items = (if items = [] then ''missing'' else rollup_status (map (\<lambda>i. str_get i ''status'') items))"

definition check_result :: "jobject list \<Rightarrow> json" where
  "check_result items = JObj [(''status'', JStr (items_status items)), (''items'', JList (map JObj items))]"

definition as_dict :: "json \<Rightarrow> jobject" where
  "as_dict v = (case v of JObj d \<Rightarrow> d | _ \<Rightarrow> [])"

definition normalized_status :: "string \<Rightarrow> string" where
  "normalized_status s = replace_char (CHR ''_'') (CHR ''-'') (to_lower (strip s))"

definition ree_status :: "string \<Rightarrow> string" where
  "ree_status s =
     (let n = normalized_status s in
      if n = ''verified'' then ''verified''
      else if n = ''validated'' then ''validated''
      else if n = ''parsed'' then ''present''
      else if n \<in> {''failed'', ''error'', ''rejected''} then ''failed''
      else if n \<noteq> [] then ''present'' else ''missing'')"

definition chain_status :: "string \<Rightarrow> string" where
  "chain_status s =
     (let n = normalized_status s in
      if n \<in> {''confirmed'', ''recorded''} then ''present''
      else if n \<in> {''failed'', ''error'', ''rejected''} then ''failed''
      else if n \<in> {''pending'', ''submitted''} then ''present''
      else ''missing'')"

definition status_rank :: "string \<Rightarrow> nat" where
  "status_rank s =
     (let n = to_lower (strip s) in
      if n = ''failed'' then 5 else if n = ''verified'' then 4 else if n = ''validated'' then 3
      else if n = ''present'' then 2 else if n = ''missing'' then 1 else 0)"

subsection \<open>Output hashes\<close>

type_synonym context_key = "string \<times> string \<times> string"

definition verification_context :: "jobject \<Rightarrow> context_key" where
  "verification_context d = (str_get d ''job_id'', str_get d ''node_role'', str_get d ''peer_id'')"

definition output_hash_item ::
    "crypto \<Rightarrow> string \<Rightarrow> context_key \<Rightarrow> jobject list \<Rightarrow> jobject list \<Rightarrow> jobject res" where
  "output_hash_item c expected key atts resps =
     (case key of (job_id, role, peer_id) \<Rightarrow>
      let item =
        [(''job_id'', JStr job_id), (''role'', JStr role), (''peer_id'', JStr peer_id),
         (''attestation_count'', JInt (int (length atts))),
         (''specialist_response_count'', JInt (int (length resps)))] @
        (if length atts = 1 then [(''output_hash'', JStr (str_get (hd atts) ''output_hash''))] else []);
        failed = (\<lambda>reason. Inr (item @ [(''status'', JStr ''failed''), (''reason'', JStr reason)]))
      in
      if job_id = [] \<or> role = [] \<or> peer_id = [] then failed ''invalid_verification_context''
      else if job_id \<noteq> expected then failed ''job_id_mismatch''
      else if length atts \<noteq> 1 then failed (if atts = [] then ''missing_attestation'' else ''duplicate_attestation'')
      else if length resps \<noteq> 1 then
        failed (if resps = [] then ''missing_specialist_response'' else ''duplicate_specialist_response'')
      else
        let oh = str_get (hd atts) ''output_hash'' in
        if oh = [] then Inr (item @ [(''status'', JStr ''missing''), (''reason'', JStr ''missing_output_hash'')])
        else res_bind (canonical_json_hash c (JObj (hd resps))) (\<lambda>recomputed.
          Inr (item @ [(''recomputed_output_hash'', JStr recomputed),
                       (''status'', JStr (if recomputed = oh then ''verified'' else ''failed''))] @
               (if recomputed \<noteq> oh then [(''reason'', JStr ''output_hash_mismatch'')] else []))))"

definition output_hash_items :: "crypto \<Rightarrow> jobject list \<Rightarrow> jobject list \<Rightarrow> string \<Rightarrow> jobject list res" where
  "output_hash_items c attestations responses expected =
     (let atts = group_by verification_context attestations; resps = group_by verification_context responses in
      map_res (\<lambda>key. output_hash_item c expected key (dget_or atts key []) (dget_or resps key []))
        (sort (remdups (dkeys atts @ dkeys resps))))"

definition verify_output_hashes :: "crypto \<Rightarrow> jobject list \<Rightarrow> jobject list \<Rightarrow> string \<Rightarrow> json res" where
  "verify_output_hashes c attestations responses expected =
     res_bind (output_hash_items c attestations responses expected) (\<lambda>items. Inr (check_result items))"

subsection \<open>Attestations\<close>

definition verify_attestation_signature :: "crypto \<Rightarrow> jobject \<Rightarrow> string \<Rightarrow> string res" where
  "verify_attestation_signature c attestation expected =
     (case attestation_of_json attestation of
        Inl _ \<Rightarrow> Inr ''failed''
      | Inr a \<Rightarrow>
          if va_job_id a \<noteq> expected then Inr ''failed''
          else if \<not> present (va_attestation_hash a) \<and> \<not> present (va_verifier_signature a) \<and> \<not> present (va_verifier a)
            then Inr ''present''
          else res_bind (verify_verification_attestation c a) (\<lambda>ok. Inr (if ok then ''verified'' else ''failed'')))"

definition attestation_item :: "crypto \<Rightarrow> string \<Rightarrow> jobject \<Rightarrow> jobject res" where
  "attestation_item c expected a =
     res_bind (verify_attestation_signature c a expected) (\<lambda>s.
       Inr [(''role'', JStr (str_get a ''node_role'')), (''status'', JStr s),
            (''attestation_hash'', JStr (str_get a ''attestation_hash'')), (''verifier'', JStr (str_get a ''verifier''))])"

definition verify_attestations :: "crypto \<Rightarrow> jobject list \<Rightarrow> string \<Rightarrow> json res" where
  "verify_attestations c attestations expected =
     res_bind (map_res (attestation_item c expected) attestations) (\<lambda>items. Inr (check_result items))"

subsection \<open>REE evidence\<close>

definition has_ree_metadata :: "jobject \<Rightarrow> bool" where
  "has_ree_metadata d \<longleftrightarrow>
     truthy (jget d ''ree_receipt_hash'') \<or> truthy (jget d ''receipt_status'') \<or> truthy (jget d ''ree_status'') \<or>
     truthy (jget d ''ree_receipt_body'') \<or> truthy (jget d ''ree_receipt_path'')"

definition ree_validation_source :: "json \<Rightarrow> string" where
  "ree_validation_source v = (if is_obj v then ''body'' else ''path'')"

text \<open>\<open>load\<close> is \<^verbatim>\<open>json.loads\<close> of a receipt text or of the file a path names.\<close>

definition validate_source ::
    "crypto \<Rightarrow> (string \<Rightarrow> jobject res) \<Rightarrow> json \<Rightarrow> (ree_receipt \<times> ree_validation) res" where
  "validate_source c load source =
     res_bind (case source of JObj d \<Rightarrow> Inr d | JStr s \<Rightarrow> load s
               | _ \<Rightarrow> Inl (TypeError ''Unsupported REE receipt source type'')) (\<lambda>d.
     res_bind (parse_ree_receipt d) (\<lambda>receipt.
     res_bind (validate_ree_receipt c receipt) (\<lambda>v. Inr (receipt, v))))"

definition verify_ree_receipt_metadata :: "crypto \<Rightarrow> (string \<Rightarrow> jobject res) \<Rightarrow> jobject \<Rightarrow> jobject" where
  "verify_ree_receipt_metadata c load d =
     (let declared = str_get d ''ree_receipt_hash'';
          status_value = py_str (py_or (py_or (jget d ''receipt_status'') (jget d ''ree_status'')) (JStr []));
          source = py_or (jget d ''ree_receipt_body'') (jget d ''ree_receipt_path'')
      in if source = JNull then
           [(''status'', JStr (ree_status status_value)), (''receipt_hash'', JStr declared)]
         else (case validate_source c load source of
             Inl _ \<Rightarrow>
               [(''status'', JStr ''failed''), (''receipt_hash'', JStr declared),
                (''validation_source'', JStr (ree_validation_source source)),
                (''error'', JStr ''REE receipt could not be parsed for repeat validation'')]
           | Inr (receipt, v) \<Rightarrow>
               let same = (declared = [] \<or> to_lower (rr_receipt_hash receipt) = to_lower declared) in
               [(''status'', JStr (if rv_matches v \<and> same then ''validated'' else ''failed'')),
                (''receipt_hash'', JStr (if declared \<noteq> [] then declared else rr_receipt_hash receipt)),
                (''recomputed_receipt_hash'', JStr (rv_expected_receipt_hash v)),
                (''validation_source'', JStr (ree_validation_source source))] @
               (if \<not> rv_matches v then [(''error'', JStr ''REE receipt hash does not match recomputed hash'')]
                else if \<not> same then [(''error'', JStr ''REE receipt hash does not match stored metadata'')]
                else [])))"

definition choose_ree_item :: "jobject option \<Rightarrow> jobject \<Rightarrow> jobject" where
  "choose_ree_item current candidate =
     (case current of
        None \<Rightarrow> candidate
      | Some cur \<Rightarrow>
          if status_rank (str_get cur ''status'') < status_rank (str_get candidate ''status'') then candidate else cur)"

definition add_evidence ::
    "crypto \<Rightarrow> (string \<Rightarrow> jobject res) \<Rightarrow> string \<Rightarrow> (string, jobject) pydict \<Rightarrow> jobject \<Rightarrow> (string, jobject) pydict" where
  "add_evidence c load role_key by_role d =
     (if \<not> has_ree_metadata d then by_role
      else let role = str_get d role_key in
        dset by_role role (choose_ree_item (dget by_role role)
          ((''role'', JStr role) # verify_ree_receipt_metadata c load d)))"

definition verify_ree_evidence ::
    "crypto \<Rightarrow> (string \<Rightarrow> jobject res) \<Rightarrow> jobject list \<Rightarrow> jobject list \<Rightarrow> json" where
  "verify_ree_evidence c load attestations receipts =
     check_result (map snd (foldl (add_evidence c load ''role'')
       (foldl (add_evidence c load ''node_role'') [] attestations) receipts))"

subsection \<open>Chain receipts\<close>

definition chain_tx_verification_fields :: "chain_tx_verification \<Rightarrow> jobject" where
  "chain_tx_verification_fields v = filter (\<lambda>(k, _). k \<noteq> ''tx_hash'') (tx_verification_fields v)"

definition chain_receipt_item :: "(string \<Rightarrow> chain_tx_verification) option \<Rightarrow> jobject \<Rightarrow> jobject" where
  "chain_receipt_item verify_tx d =
     (let tx_hash = str_get d ''tx_hash'';
          item = [(''kind'', JStr (str_get d ''kind'')), (''role'', JStr (str_get d ''role'')),
            (''status'', JStr (chain_status (str_get d ''status''))), (''tx_hash'', JStr tx_hash),
            (''explorer_url'', JStr (str_get d ''explorer_url''))];
          with_rpc =
            (if truthy (jget d ''rpc_status'')
             then (let i = dset item ''rpc_status'' (JStr (str_get d ''rpc_status'')) in
               if str_get d ''rpc_status'' = ''confirmed'' then dset i ''status'' (JStr ''verified'') else i)
             else item)
      in case verify_tx of
           Some f \<Rightarrow> if tx_hash \<noteq> [] then dmerge with_rpc (chain_tx_verification_fields (f tx_hash)) else with_rpc
         | None \<Rightarrow> with_rpc)"

definition verify_chain_receipts :: "(string \<Rightarrow> chain_tx_verification) option \<Rightarrow> jobject list \<Rightarrow> json" where
  "verify_chain_receipts verify_tx receipts =
     check_result (map (chain_receipt_item verify_tx)
       (filter (\<lambda>d. truthy (jget d ''tx_hash'') \<or> truthy (jget d ''status'')) receipts))"

subsection \<open>The bundle\<close>

definition check_status :: "json \<Rightarrow> string" where
  "check_status v = str_get (as_dict v) ''status''"

definition build_job_verification_bundle ::
    "crypto \<Rightarrow> (string \<Rightarrow> jobject res) \<Rightarrow> (string \<Rightarrow> chain_tx_verification) option \<Rightarrow> jobject \<Rightarrow> json res" where
  "build_job_verification_bundle c load verify_tx job =
     (let job_id = str_get job ''job_id''; metadata = as_dict (jget job ''run_metadata'');
          attestations = objects_in (jget metadata ''verification_attestations'');
          responses = objects_in (jget metadata ''specialist_responses'');
          receipts = objects_in (jget metadata ''chain_receipts'')
      in res_bind (verify_output_hashes c attestations responses job_id) (\<lambda>hashes.
         res_bind (verify_attestations c attestations job_id) (\<lambda>signatures.
         let checks = [(''output_hashes'', hashes), (''attestations'', signatures),
               (''ree'', verify_ree_evidence c load attestations receipts),
               (''chain'', verify_chain_receipts verify_tx receipts)]
         in Inr (JObj [(''job_id'', JStr job_id),
              (''status'', JStr (rollup_status (map (\<lambda>(_, v). check_status v) checks))),
              (''checks'', JObj checks)]))))"

subsection \<open>Submitting a job\<close>

record job_services =
  js_dispatch :: "string \<Rightarrow> thesis_request \<Rightarrow> dispatch_result res"
  js_synthesize :: "string \<Rightarrow> thesis_request \<Rightarrow> dispatch_result \<Rightarrow> final_memo res"
  js_record_receipts :: "(string \<Rightarrow> thesis_request \<Rightarrow> dispatch_result \<Rightarrow> final_memo \<Rightarrow> job_chain_receipts res) option"

definition build_provenance_ledger :: "node_execution_record list \<Rightarrow> json list" where
  "build_provenance_ledger records = map execution_record_json records"

definition chain_receipt_metadata ::
    "job_services \<Rightarrow> string \<Rightarrow> thesis_request \<Rightarrow> dispatch_result \<Rightarrow> final_memo \<Rightarrow> jobject" where
  "chain_receipt_metadata sv job_id request dispatched memo =
     (case js_record_receipts sv of
        None \<Rightarrow> []
      | Some recorder \<Rightarrow>
          (case recorder job_id request dispatched memo of
             Inr receipts \<Rightarrow> chain_receipts_metadata receipts
           | Inl _ \<Rightarrow> chain_receipts_metadata
               \<lparr>jr_receipt_status = ''failed'',
                jr_receipts = [receipt_failed ''job_receipts'' ''chain receipt write failed'' None]\<rparr>))"

definition submit_job ::
    "job_services \<Rightarrow> string \<Rightarrow> string \<Rightarrow> thesis_request \<Rightarrow> job_store \<Rightarrow> json res \<times> job_store" where
  "submit_job sv new_id now payload s =
     (case create_job new_id now payload s of
        (Inl e, s1) \<Rightarrow> (Inl e, s1)
      | (Inr job, s1) \<Rightarrow>
     (case js_dispatch sv (jb_job_id job) payload of
        Inl e \<Rightarrow> (Inl e, s1)
      | Inr dispatched \<Rightarrow>
     (case js_synthesize sv (jb_job_id job) payload dispatched of
        Inl e \<Rightarrow> (Inl e, s1)
      | Inr memo \<Rightarrow>
     (case complete_job (jb_job_id job) memo
         (Some (build_provenance_ledger (dr_node_execution_records dispatched)))
         (Some (JObj (dr_topology_snapshot dispatched)))
         (Some (dmerge (dr_run_metadata dispatched)
           (chain_receipt_metadata sv (jb_job_id job) payload dispatched memo))) s1 of
        (Inl e, s2) \<Rightarrow> (Inl e, s2)
      | (Inr _, s2) \<Rightarrow>
     (case get_job (jb_job_id job) s2 of
        (Inl e, s3) \<Rightarrow> (Inl e, s3)
      | (Inr None, s3) \<Rightarrow> (Inl (HTTPException 500 ''Job could not be persisted.''), s3)
      | (Inr (Some stored), s3) \<Rightarrow>
          (Inr (JObj [(''job_id'', JStr (jb_job_id stored)), (''status'', JStr (jb_status stored))]), s3))))))"

text \<open>The routes: what is not configured is answered with 503, what is not stored with 404.\<close>

record app_state =
  ap_coordinator :: "(string \<Rightarrow> thesis_request \<Rightarrow> dispatch_result res) option"
  ap_synthesizer :: "(string \<Rightarrow> thesis_request \<Rightarrow> dispatch_result \<Rightarrow> final_memo res) option"
  ap_recorder :: "(string \<Rightarrow> thesis_request \<Rightarrow> dispatch_result \<Rightarrow> final_memo \<Rightarrow> job_chain_receipts res) option"
  ap_tx_verifier :: "transport option"

definition create_job_route ::
    "app_state \<Rightarrow> string \<Rightarrow> string \<Rightarrow> thesis_request \<Rightarrow> job_store \<Rightarrow> json res \<times> job_store" where
  "create_job_route app new_id now payload s =
     (case ap_coordinator app of
        None \<Rightarrow> (Inl (HTTPException 503 ''Coordinator service is not configured.''), s)
      | Some dispatch \<Rightarrow>
          (case ap_synthesizer app of
             None \<Rightarrow> (Inl (HTTPException 503 ''Memo synthesis service is not configured.''), s)
           | Some synthesize \<Rightarrow>
               submit_job \<lparr>js_dispatch = dispatch, js_synthesize = synthesize, js_record_receipts = ap_recorder app\<rparr>
                 new_id now payload s))"

definition with_job :: "string \<Rightarrow> (job_record \<Rightarrow> json res) \<Rightarrow> job_store \<Rightarrow> json res \<times> job_store" where
  "with_job job_id f s =
     (case get_job job_id s of
        (Inl e, s') \<Rightarrow> (Inl e, s')
      | (Inr None, s') \<Rightarrow> (Inl (HTTPException 404 ''Job not found.''), s')
      | (Inr (Some j), s') \<Rightarrow> (f j, s'))"

definition get_job_route :: "string \<Rightarrow> job_store \<Rightarrow> json res \<times> job_store" where
  "get_job_route job_id = with_job job_id (\<lambda>j. Inr (job_record_json j))"

definition verify_job_route ::
    "crypto \<Rightarrow> (string \<Rightarrow> jobject res) \<Rightarrow> app_state \<Rightarrow> string \<Rightarrow> job_store \<Rightarrow> json res \<times> job_store" where
  "verify_job_route c load app job_id = with_job job_id (\<lambda>j.
     build_job_verification_bundle c load (map_option verify_transaction (ap_tx_verifier app))
       (as_dict (job_record_json j)))"

definition reputation_route :: "job_store \<Rightarrow> json res \<times> job_store" where
  "reputation_route s =
     (case get_reputation_leaderboard s of
        (Inl e, s') \<Rightarrow> (Inl e, s')
      | (Inr entries, s') \<Rightarrow> (Inr (JObj [(''leaderboard'', JList (map ledger_entry_json entries))]), s'))"

subsection \<open>The roll-up\<close>

lemma status_words:
  "to_lower (strip ''failed'') = ''failed''" "to_lower (strip ''missing'') = ''missing''"
  "to_lower (strip ''verified'') = ''verified''" "to_lower (strip ''validated'') = ''validated''"
  "to_lower (strip ''present'') = ''present''"
  by code_simp+

lemma rollup_of_normalized:
  fixes ss
  defines "n \<equiv> map (\<lambda>s. to_lower (strip s)) (filter (\<lambda>s. s \<noteq> []) ss)"
  shows "rollup_status ss = ''failed'' \<longleftrightarrow> ''failed'' \<in> set n"
    and "rollup_status ss = ''verified'' \<longleftrightarrow> n \<noteq> [] \<and> list_all (\<lambda>s. s = ''verified'') n"
proof -
  have r: "rollup_status ss =
     (if n = [] then ''missing'' else if ''failed'' \<in> set n then ''failed'' else if ''missing'' \<in> set n then ''missing''
      else if list_all (\<lambda>s. s = ''verified'') n then ''verified''
      else if ''validated'' \<in> set n then ''validated'' else ''present'')"
    by (simp add: rollup_status_def n_def Let_def)
  show "rollup_status ss = ''failed'' \<longleftrightarrow> ''failed'' \<in> set n" by (simp add: r)
  have "list_all (\<lambda>s. s = ''verified'') n \<Longrightarrow> ''failed'' \<notin> set n \<and> ''missing'' \<notin> set n"
    by (auto simp: list_all_iff)
  then show "rollup_status ss = ''verified'' \<longleftrightarrow> n \<noteq> [] \<and> list_all (\<lambda>s. s = ''verified'') n"
    by (simp add: r)
qed

lemma rollup_failed: "rollup_status ss = ''failed'' \<longleftrightarrow> (\<exists>s. s \<in> set ss \<and> s \<noteq> [] \<and> to_lower (strip s) = ''failed'')"
  unfolding rollup_of_normalized(1) by (auto simp: image_iff)

lemma rollup_verified:
  "rollup_status ss = ''verified'' \<longleftrightarrow>
     filter (\<lambda>s. s \<noteq> []) ss \<noteq> [] \<and> list_all (\<lambda>s. to_lower (strip s) = ''verified'') (filter (\<lambda>s. s \<noteq> []) ss)"
  unfolding rollup_of_normalized(2) by (simp add: list.pred_map comp_def)

text \<open>The roll-up is conservative: it reports failure exactly when some part did, and verification
  only when there is a part and every part that has a status is verified; a single missing part is
  enough to lose it.\<close>

lemma rollup_is_conservative:
  "(rollup_status ss = ''failed'' \<longleftrightarrow> (\<exists>s. s \<in> set ss \<and> s \<noteq> [] \<and> to_lower (strip s) = ''failed'')) \<and>
   (rollup_status ss = ''verified'' \<longleftrightarrow>
      filter (\<lambda>s. s \<noteq> []) ss \<noteq> [] \<and> list_all (\<lambda>s. to_lower (strip s) = ''verified'') (filter (\<lambda>s. s \<noteq> []) ss))"
  using rollup_failed rollup_verified by blast

lemma check_status_result: "check_status (check_result items) = items_status items"
  by (simp add: check_status_def check_result_def as_dict_def str_get_def)

lemma items_failed:
  "items_status items \<noteq> ''failed'' \<Longrightarrow> i \<in> set items \<Longrightarrow> str_get i ''status'' \<noteq> ''failed''"
  using status_words(1) by (auto simp: items_status_def rollup_failed split: if_splits)

subsection \<open>Output hashes of a bundle\<close>

lemma output_hash_item_status:
  assumes "output_hash_item c expected (j, role, peer) atts resps = Inr i"
  shows "str_get i ''status'' = ''failed'' \<or>
     (j = expected \<and> j \<noteq> [] \<and> role \<noteq> [] \<and> peer \<noteq> [] \<and>
      (\<exists>a r. atts = [a] \<and> resps = [r] \<and>
        (str_get a ''output_hash'' = [] \<and> str_get i ''status'' = ''missing'' \<or>
         str_get a ''output_hash'' \<noteq> [] \<and> str_get i ''status'' = ''verified'' \<and>
         canonical_json_hash c (JObj r) = Inr (str_get a ''output_hash''))))"
proof -
  have one: "length xs = 1 \<longleftrightarrow> (\<exists>x. xs = [x])" for xs :: "jobject list"
    by (cases xs) auto
  let ?get = "\<lambda>i. str_get i ''status''"
  have get: "?get (xs @ ys) = ?get ys" if "dget xs ''status'' = None" for xs ys
    using that by (simp add: str_get_def map_add_def split: option.splits)
  show ?thesis
  proof (cases "j = [] \<or> role = [] \<or> peer = [] \<or> j \<noteq> expected \<or> length atts \<noteq> 1 \<or> length resps \<noteq> 1")
    case True
    then show ?thesis using assms
      by (auto simp: output_hash_item_def Let_def str_get_def map_add_def split: if_split_asm)
  next
    case False
    then obtain a r where ar: "atts = [a]" "resps = [r]" using one by auto
    with assms False show ?thesis
      by (cases "canonical_json_hash c (JObj r)")
        (auto simp: output_hash_item_def Let_def str_get_def map_add_def split: if_split_asm)
  qed
qed

lemma context_items:
  assumes "output_hash_items c atts resps expected = Inr items"
    and "key \<in> verification_context ` set atts \<union> verification_context ` set resps"
  shows "\<exists>i. i \<in> set items \<and>
     output_hash_item c expected key (filter (\<lambda>a. verification_context a = key) atts)
       (filter (\<lambda>r. verification_context r = key) resps) = Inr i"
proof -
  let ?ks = "sort (remdups (dkeys (group_by verification_context atts) @ dkeys (group_by verification_context resps)))"
  have "key \<in> set ?ks" using assms(2) by (simp only: set_sort set_remdups set_append group_by_keys)
  then obtain n where n: "n < length ?ks" "?ks ! n = key" by (metis in_set_conv_nth)
  have "list_all2 (\<lambda>k i. output_hash_item c expected k (filter (\<lambda>a. verification_context a = k) atts)
      (filter (\<lambda>r. verification_context r = k) resps) = Inr i) ?ks items"
    using assms(1) by (simp add: output_hash_items_def Let_def dget_or_group_by map_res_Inr_iff)
  from list_all2_nthD [OF this n(1)] list_all2_lengthD [OF this] n show ?thesis by auto
qed

lemma list_all2_partner:
  "list_all2 P xs ys \<Longrightarrow> x \<in> set xs \<Longrightarrow> \<exists>y. y \<in> set ys \<and> P x y"
  by (induction rule: list_all2_induct) auto

lemma attestation_items:
  assumes "verify_attestations c atts expected = Inr v" "check_status v \<noteq> ''failed''" "a \<in> set atts"
  shows "\<exists>st. verify_attestation_signature c a expected = Inr st \<and> st \<noteq> ''failed''"
proof -
  obtain items where items: "map_res (attestation_item c expected) atts = Inr items" "v = check_result items"
    using assms(1) by (auto simp: verify_attestations_def res_simps)
  then have "list_all2 (\<lambda>a i. attestation_item c expected a = Inr i) atts items" by (simp add: map_res_Inr_iff)
  from list_all2_partner [OF this assms(3)]
  obtain i where i: "i \<in> set items" "attestation_item c expected a = Inr i" by blast
  have "str_get i ''status'' \<noteq> ''failed''"
    using assms(2) items(2) i(1) by (auto simp: check_status_result dest: items_failed)
  with i(2) show ?thesis by (auto simp: attestation_item_def res_simps str_get_def)
qed

lemma rollup_has_failed: "''failed'' \<in> set ss \<Longrightarrow> rollup_status ss = ''failed''"
  using status_words(1) by (auto simp: rollup_failed)

lemma bundle_parts:
  assumes "build_job_verification_bundle c load verify_tx job = Inr b"
  defines "m \<equiv> as_dict (jget job ''run_metadata'')"
  shows "\<exists>hashes signatures.
     verify_output_hashes c (objects_in (jget m ''verification_attestations'')) (objects_in (jget m ''specialist_responses''))
       (str_get job ''job_id'') = Inr hashes \<and>
     verify_attestations c (objects_in (jget m ''verification_attestations'')) (str_get job ''job_id'') = Inr signatures \<and>
     (check_status b \<noteq> ''failed'' \<longrightarrow> check_status hashes \<noteq> ''failed'' \<and> check_status signatures \<noteq> ''failed'')"
proof -
  obtain hashes signatures ree chain where parts:
      "verify_output_hashes c (objects_in (jget m ''verification_attestations'')) (objects_in (jget m ''specialist_responses''))
         (str_get job ''job_id'') = Inr hashes"
      "verify_attestations c (objects_in (jget m ''verification_attestations'')) (str_get job ''job_id'') = Inr signatures"
      "b = JObj [(''job_id'', JStr (str_get job ''job_id'')),
         (''status'', JStr (rollup_status [check_status hashes, check_status signatures, check_status ree, check_status chain])),
         (''checks'', JObj [(''output_hashes'', hashes), (''attestations'', signatures), (''ree'', ree), (''chain'', chain)])]"
    using assms(1) unfolding build_job_verification_bundle_def Let_def res_bind_Inr_iff m_def [symmetric] by auto
  have "check_status b = rollup_status [check_status hashes, check_status signatures, check_status ree, check_status chain]"
    by (simp add: parts(3) check_status_def as_dict_def str_get_def)
  then show ?thesis
    using parts(1,2) rollup_has_failed [of "[check_status hashes, check_status signatures, check_status ree, check_status chain]"]
    by auto
qed

text \<open>C19: A bundle that does not fail binds every attestation: it belongs to the job, it is the only one of
  its job, role and peer, exactly one stored response has that job, role and peer, the attested hash
  (when there is one) is the hash of that response, and its signature was either absent or verified.\<close>

theorem unfailed_bundle_binds:
  assumes "build_job_verification_bundle c load verify_tx job = Inr b" "check_status b \<noteq> ''failed''"
    and "atts = objects_in (jget (as_dict (jget job ''run_metadata'')) ''verification_attestations'')"
    and "resps = objects_in (jget (as_dict (jget job ''run_metadata'')) ''specialist_responses'')"
    and "a \<in> set atts"
  shows "str_get a ''job_id'' = str_get job ''job_id'' \<and>
     filter (\<lambda>x. verification_context x = verification_context a) atts = [a] \<and>
     (\<exists>r. filter (\<lambda>x. verification_context x = verification_context a) resps = [r] \<and>
        (str_get a ''output_hash'' = [] \<or> canonical_json_hash c (JObj r) = Inr (str_get a ''output_hash''))) \<and>
     (\<exists>st. verify_attestation_signature c a (str_get job ''job_id'') = Inr st \<and> st \<noteq> ''failed'')"
proof -
  let ?job = "str_get job ''job_id''"
  obtain hashes signatures where hs: "verify_output_hashes c atts resps ?job = Inr hashes"
      "verify_attestations c atts ?job = Inr signatures"
    and failing: "check_status hashes \<noteq> ''failed''" "check_status signatures \<noteq> ''failed''"
    using bundle_parts [OF assms(1)] assms(2) unfolding assms(3,4) by blast
  obtain items where items: "output_hash_items c atts resps ?job = Inr items" "hashes = check_result items"
    using hs(1) by (auto simp: verify_output_hashes_def res_simps)
  have "verification_context a \<in> verification_context ` set atts \<union> verification_context ` set resps"
    using assms(5) by blast
  from context_items [OF items(1) this] obtain i where i: "i \<in> set items"
      "output_hash_item c ?job (verification_context a) (filter (\<lambda>x. verification_context x = verification_context a) atts)
        (filter (\<lambda>x. verification_context x = verification_context a) resps) = Inr i" by blast
  have "str_get i ''status'' \<noteq> ''failed''"
    using failing(1) items(2) i(1) by (auto simp: check_status_result dest: items_failed)
  with output_hash_item_status [OF i(2) [unfolded verification_context_def [of a]]] obtain a' r where
    *: "str_get a ''job_id'' = ?job" "filter (\<lambda>x. verification_context x = verification_context a) atts = [a']"
      "filter (\<lambda>x. verification_context x = verification_context a) resps = [r]"
      "str_get a' ''output_hash'' = [] \<or> canonical_json_hash c (JObj r) = Inr (str_get a' ''output_hash'')"
    by (auto simp: verification_context_def)
  have "a \<in> set (filter (\<lambda>x. verification_context x = verification_context a) atts)" using assms(5) by simp
  then have "a' = a" using *(2) by simp
  with * attestation_items [OF hs(2) failing(2) assms(5)] show ?thesis by auto
qed

subsection \<open>A run as the coordinator leaves it\<close>

definition attested :: "crypto \<Rightarrow> string \<Rightarrow> specialist_response \<Rightarrow> verification_attestation \<Rightarrow> bool" where
  "attested c job_id r a \<longleftrightarrow>
     sr_job_id r = job_id \<and> va_job_id a = job_id \<and> va_node_role a = sr_node_role r \<and> va_peer_id a = sr_peer_id r \<and>
     sr_node_role r \<noteq> [] \<and> sr_peer_id r \<noteq> [] \<and>
     (\<exists>h. h \<noteq> [] \<and> va_output_hash a = Some h \<and> output_hash c r = Inr h)"

lemma filter_unique: "distinct (map f xs) \<Longrightarrow> x \<in> set xs \<Longrightarrow> f x = k \<Longrightarrow> filter (\<lambda>y. f y = k) xs = [x]"
  by (induction xs) (auto simp: filter_empty_conv image_iff)

lemma stored_contexts:
  "verification_context (specialist_response_fields r) = (sr_job_id r, sr_node_role r, sr_peer_id r)"
  "verification_context (attestation_fields a) = (va_job_id a, va_node_role a, va_peer_id a)"
  "str_get (attestation_fields a) ''output_hash'' = py_str (opt_str (va_output_hash a))"
  by (simp_all add: verification_context_def specialist_response_fields_def attestation_fields_def
      attestation_verdict_fields_def str_get_def)

lemma items_all_verified:
  "items \<noteq> [] \<Longrightarrow> list_all (\<lambda>i. str_get i ''status'' = ''verified'') items \<Longrightarrow> items_status items = ''verified''"
  by (cases items) (auto simp: items_status_def rollup_verified list_all_iff status_words)

lemma map_res_all:
  "(\<And>k. k \<in> set ks \<Longrightarrow> \<exists>i. f k = Inr i \<and> P i) \<Longrightarrow>
     \<exists>items. map_res f ks = Inr items \<and> list_all P items \<and> length items = length ks"
proof (induction ks)
  case (Cons k ks)
  from Cons.prems [of k] obtain i where "f k = Inr i" "P i" by auto
  moreover from Cons obtain items where "map_res f ks = Inr items" "list_all P items" "length items = length ks"
    by (meson list.set_intros(2))
  ultimately show ?case by simp
qed simp

lemma attested_item:
  assumes "attested c job_id r a" "job_id \<noteq> []"
  shows "\<exists>i. output_hash_item c job_id (job_id, sr_node_role r, sr_peer_id r) [attestation_fields a]
     [specialist_response_fields r] = Inr i \<and> str_get i ''status'' = ''verified''"
proof -
  obtain h where "h \<noteq> []" "va_output_hash a = Some h" "canonical_json_hash c (JObj (specialist_response_fields r)) = Inr h"
      "sr_node_role r \<noteq> []" "sr_peer_id r \<noteq> []"
    using assms(1) by (auto simp: attested_def output_hash_def specialist_response_json_def)
  then show ?thesis using assms(2) stored_contexts(3) [of a]
    by (simp add: output_hash_item_def Let_def opt_str_def) (simp add: str_get_def)
qed

lemma stored_outputs_verify:
  assumes "list_all2 (attested c job_id) rs atts" "rs \<noteq> []" "job_id \<noteq> []" "distinct (map sr_node_role rs)"
  shows "\<exists>v. verify_output_hashes c (map attestation_fields atts) (map specialist_response_fields rs) job_id = Inr v \<and>
     check_status v = ''verified''"
proof -
  let ?A = "map attestation_fields atts" and ?R = "map specialist_response_fields rs"
  let ?key = "\<lambda>r. (job_id, sr_node_role r, sr_peer_id r)"
  have pair: "\<exists>a. a \<in> set atts \<and> attested c job_id r a" if "r \<in> set rs" for r
    using list_all2_partner [OF assms(1) that] by blast
  have ctx: "map verification_context ?A = map ?key rs" "map verification_context ?R = map ?key rs"
    using assms(1) by (induction rule: list_all2_induct) (auto simp: stored_contexts attested_def)
  have dist: "distinct (map ?key rs)" using assms(4) by (auto simp: distinct_map inj_on_def)
  have item: "\<exists>i. output_hash_item c job_id k (filter (\<lambda>x. verification_context x = k) ?A)
      (filter (\<lambda>x. verification_context x = k) ?R) = Inr i \<and> str_get i ''status'' = ''verified''"
    if k: "k \<in> set (map ?key rs)" for k
  proof -
    obtain r where r: "r \<in> set rs" "k = ?key r" using k by auto
    obtain a where a: "a \<in> set atts" "attested c job_id r a" using pair [OF r(1)] by blast
    have keys: "verification_context (attestation_fields a) = k" "verification_context (specialist_response_fields r) = k"
      using a(2) r(2) by (auto simp: stored_contexts attested_def)
    have stored: "attestation_fields a \<in> set ?A" "specialist_response_fields r \<in> set ?R" using a(1) r(1) by simp_all
    have "distinct (map verification_context ?A)" "distinct (map verification_context ?R)"
      unfolding ctx by (rule dist)+
    then have "filter (\<lambda>x. verification_context x = k) ?A = [attestation_fields a]"
        "filter (\<lambda>x. verification_context x = k) ?R = [specialist_response_fields r]"
      using filter_unique [where f = verification_context, OF _ stored(1) keys(1)]
        filter_unique [where f = verification_context, OF _ stored(2) keys(2)] by blast+
    with attested_item [OF a(2) assms(3)] r(2) show ?thesis by simp
  qed
  define ks where "ks = sort (remdups (dkeys (group_by verification_context ?A) @ dkeys (group_by verification_context ?R)))"
  have ks: "set ks = set (map ?key rs)"
  proof -
    have "verification_context ` set ?A = set (map ?key rs)" "verification_context ` set ?R = set (map ?key rs)"
      using arg_cong [where f = set, OF ctx(1)] arg_cong [where f = set, OF ctx(2)] by (simp_all only: set_map)
    then show ?thesis by (simp only: ks_def set_sort set_remdups set_append group_by_keys Un_absorb)
  qed
  define f where "f = (\<lambda>k. output_hash_item c job_id k (filter (\<lambda>x. verification_context x = k) ?A)
      (filter (\<lambda>x. verification_context x = k) ?R))"
  have each: "\<exists>i. f k = Inr i \<and> str_get i ''status'' = ''verified''" if "k \<in> set ks" for k
    unfolding f_def using that unfolding ks by (rule item)
  have "\<exists>items. map_res f ks = Inr items \<and> list_all (\<lambda>i. str_get i ''status'' = ''verified'') items \<and> length items = length ks"
    by (rule map_res_all) (rule each)
  then obtain items where items: "map_res f ks = Inr items" "list_all (\<lambda>i. str_get i ''status'' = ''verified'') items"
      "length items = length ks" by blast
  have "set ks \<noteq> {}" unfolding ks using assms(2) by simp
  then have "items \<noteq> []" using items(3) by auto
  then have "items_status items = ''verified''" using items(2) by (rule items_all_verified)
  moreover have "output_hash_items c ?A ?R job_id = Inr items"
    using items(1) by (simp add: output_hash_items_def Let_def dget_or_group_by f_def ks_def)
  ultimately show ?thesis by (simp add: verify_output_hashes_def check_status_result)
qed

subsection \<open>Submitting\<close>

definition completed_record :: "job_services \<Rightarrow> thesis_request \<Rightarrow> dispatch_result \<Rightarrow> final_memo \<Rightarrow> job_record \<Rightarrow> job_record" where
  "completed_record sv payload dispatched memo j =
     j\<lparr>jb_status := ''completed'', jb_memo := Some (final_memo_json memo),
       jb_provenance_ledger := build_provenance_ledger (dr_node_execution_records dispatched),
       jb_topology_snapshot := Some (JObj (dr_topology_snapshot dispatched)),
       jb_run_metadata := dmerge (dr_run_metadata dispatched) (chain_receipt_metadata sv (jb_job_id j) payload dispatched memo)\<rparr>"

lemma submit_job_stores:
  assumes "store_ready s" "job_row s new_id = None"
    and "js_dispatch sv new_id payload = Inr d" "js_synthesize sv new_id payload d = Inr memo"
  shows "\<exists>s'. submit_job sv new_id now payload s =
       (Inr (JObj [(''job_id'', JStr new_id), (''status'', JStr ''completed'')]), s') \<and> store_ready s' \<and>
     (\<forall>k. job_row s' k = (if k = new_id then Some (completed_record sv payload d memo (pending_job new_id now payload))
        else job_row s k))"
proof -
  obtain s1 where s1: "create_job new_id now payload s = (Inr (pending_job new_id now payload), s1)" "store_ready s1"
      "\<And>k. job_row s1 k = (if k = new_id then Some (pending_job new_id now payload) else job_row s k)"
    using create_job_fresh [OF assms(1,2)] by blast
  let ?metadata = "dmerge (dr_run_metadata d) (chain_receipt_metadata sv new_id payload d memo)"
  obtain s2 where s2: "complete_job new_id memo (Some (build_provenance_ledger (dr_node_execution_records d)))
       (Some (JObj (dr_topology_snapshot d))) (Some ?metadata) s1 = (Inr (), s2)" "store_ready s2"
      "\<And>k. job_row s2 k = (if k = new_id then Some (completed_record sv payload d memo (pending_job new_id now payload))
        else job_row s k)"
    using complete_job_row [OF s1(2)] s1(3) by (fastforce simp: completed_record_def pending_job_def)
  have "job_row (opened_store s2) k = job_row s2 k" for k by (simp add: job_row_def)
  moreover have "store_ready (opened_store s2)" using s2(2) by (simp add: store_ready_def)
  moreover have "submit_job sv new_id now payload s =
       (Inr (JObj [(''job_id'', JStr new_id), (''status'', JStr ''completed'')]), opened_store s2)"
    using s1(1) s2 assms(3,4) get_job_row [OF s2(2)]
    by (simp add: submit_job_def pending_job_def completed_record_def)
  ultimately show ?thesis using s2(3) by auto
qed

lemma submit_job_aborts:
  assumes "store_ready s" "job_row s new_id = None"
    and "js_dispatch sv new_id payload = Inl e \<or>
      (\<exists>d. js_dispatch sv new_id payload = Inr d \<and> js_synthesize sv new_id payload d = Inl e)"
  shows "\<exists>s'. submit_job sv new_id now payload s = (Inl e, s') \<and> store_ready s' \<and>
     (\<forall>k. job_row s' k = (if k = new_id then Some (pending_job new_id now payload) else job_row s k))"
proof -
  obtain s1 where s1: "create_job new_id now payload s = (Inr (pending_job new_id now payload), s1)" "store_ready s1"
      "\<forall>k. job_row s1 k = (if k = new_id then Some (pending_job new_id now payload) else job_row s k)"
    using create_job_fresh [OF assms(1,2)] by blast
  then show ?thesis using assms(3) by (auto simp: submit_job_def pending_job_def)
qed

text \<open>C20: A submission is atomic towards the caller: either dispatch and synthesis both return, and then
  whatever the chain recorder does the job is answered and stored as completed with the memo, the
  ledger, the topology and the merged run data; or one of them raises, and then its error is raised and
  the job stays stored as pending. No other job changes in either case.\<close>

theorem submission_completes_or_stays_pending:
  assumes "store_ready s" "job_row s new_id = None"
  shows "\<exists>r s'. submit_job sv new_id now payload s = (r, s') \<and> store_ready s' \<and>
     (\<forall>k. k \<noteq> new_id \<longrightarrow> job_row s' k = job_row s k) \<and>
     (case js_dispatch sv new_id payload of
        Inl e \<Rightarrow> r = Inl e \<and> job_row s' new_id = Some (pending_job new_id now payload)
      | Inr d \<Rightarrow>
          (case js_synthesize sv new_id payload d of
             Inl e \<Rightarrow> r = Inl e \<and> job_row s' new_id = Some (pending_job new_id now payload)
           | Inr memo \<Rightarrow>
               r = Inr (JObj [(''job_id'', JStr new_id), (''status'', JStr ''completed'')]) \<and>
               job_row s' new_id = Some (completed_record sv payload d memo (pending_job new_id now payload))))"
proof (cases "js_dispatch sv new_id payload")
  case (Inl e)
  then show ?thesis using submit_job_aborts [OF assms, of sv payload e now] by auto
next
  case (Inr d)
  then show ?thesis
  proof (cases "js_synthesize sv new_id payload d")
    case (Inl e)
    with \<open>js_dispatch sv new_id payload = Inr d\<close> show ?thesis
      using submit_job_aborts [OF assms, of sv payload e now] by auto
  next
    case (Inr memo)
    with \<open>js_dispatch sv new_id payload = Inr d\<close> show ?thesis
      using submit_job_stores [OF assms, of sv payload d memo now] by auto
  qed
qed

subsection \<open>A stored null\<close>

text \<open>The reader takes \<open>str\<close> of the stored value, so a null is the text \<open>None\<close>, which is not empty.\<close>

lemma null_output_hash_reported_as_mismatch:
  assumes "dget a ''output_hash'' = Some JNull" "job_id \<noteq> []" "role \<noteq> []" "peer_id \<noteq> []"
    and "canonical_json_hash c (JObj r) = Inr h" "h \<noteq> ''None''"
  shows "\<exists>i. output_hash_item c job_id (job_id, role, peer_id) [a] [r] = Inr i \<and>
     str_get i ''status'' = ''failed'' \<and> str_get i ''reason'' = ''output_hash_mismatch''"
proof -
  have "str_get a ''output_hash'' = ''None''" using assms(1) by (simp add: str_get_def py_str_def)
  then show ?thesis using assms(2-) by (simp add: output_hash_item_def Let_def) (simp add: str_get_def)
qed

text \<open>What an honest run stores verifies: when every response of the job has its attestation, with the
  hash the verifier computed for it, and the roles are distinct, recomputing the output hashes from the
  stored dictionaries reports verification.\<close>

theorem honest_run_outputs_verify:
  assumes "list_all2 (attested c job_id) rs atts" "rs \<noteq> []" "job_id \<noteq> []" "distinct (map sr_node_role rs)"
  shows "\<exists>v. verify_output_hashes c (map attestation_fields atts) (map specialist_response_fields rs) job_id = Inr v \<and>
     check_status v = ''verified''"
  using assms by (rule stored_outputs_verify)

subsection \<open>Witnesses\<close>

definition hashed_attestation :: "string \<Rightarrow> verification_attestation" where
  "hashed_attestation h = sample_attestation\<lparr>va_output_hash := Some h, va_ree_receipt_body := None\<rparr>"

lemma demo_output_hash: "\<exists>h. h \<noteq> [] \<and> output_hash demo_crypto demo_response = Inr h"
proof -
  have "finite_json (specialist_response_json demo_response)"
    by (simp add: specialist_response_json_def specialist_response_fields_def demo_response_def
        sample_response_def scenario_json_def opt_obj_def)
  then obtain h where h: "output_hash demo_crypto demo_response = Inr h" using output_hash_total by blast
  then have "hash_ok h" using canonical_json_hash_ok [OF demo_crypto_ok] by (auto simp: output_hash_def)
  then show ?thesis using h by (auto simp: hex_pattern_def)
qed

lemma hashed_attested:
  "h \<noteq> [] \<Longrightarrow> output_hash demo_crypto demo_response = Inr h \<Longrightarrow>
     list_all2 (attested demo_crypto ''job-1'') [demo_response] [hashed_attestation h]"
  by (simp add: attested_def demo_response_def sample_response_def hashed_attestation_def sample_attestation_def)

lemma honest_run_outputs_verify_witness:
  "\<exists>h v. verify_output_hashes demo_crypto [attestation_fields (hashed_attestation h)]
     [specialist_response_fields demo_response] ''job-1'' = Inr v \<and> check_status v = ''verified''"
proof -
  obtain h where h: "h \<noteq> []" "output_hash demo_crypto demo_response = Inr h" using demo_output_hash by blast
  from honest_run_outputs_verify [OF hashed_attested [OF h]] show ?thesis by auto
qed

definition demo_stored_job :: "string \<Rightarrow> jobject" where
  "demo_stored_job h = [(''job_id'', JStr ''job-1''),
     (''run_metadata'', JObj [(''verification_attestations'', JList [JObj (attestation_fields (hashed_attestation h))]),
        (''specialist_responses'', JList [JObj (specialist_response_fields demo_response)])])]"

lemma hashed_attestation_present:
  "verify_attestation_signature c (attestation_fields (hashed_attestation h)) ''job-1'' = Inr ''present''"
proof -
  have "valid_attestation (hashed_attestation h)"
    using sample_valid(2) by (simp add: valid_attestation_def hashed_attestation_def opt_ok_def)
  from attestation_roundtrip [OF this] show ?thesis
    by (simp add: verify_attestation_signature_def hashed_attestation_def sample_attestation_def present_def)
qed

lemma demo_bundle:
  assumes "h \<noteq> []" "output_hash demo_crypto demo_response = Inr h"
  shows "\<exists>b. build_job_verification_bundle demo_crypto load None (demo_stored_job h) = Inr b \<and> check_status b \<noteq> ''failed''"
proof -
  obtain v where v: "verify_output_hashes demo_crypto [attestation_fields (hashed_attestation h)]
      [specialist_response_fields demo_response] ''job-1'' = Inr v" "check_status v = ''verified''"
    using stored_outputs_verify [OF hashed_attested [OF assms]] by auto
  have a: "verify_attestations demo_crypto [attestation_fields (hashed_attestation h)] ''job-1'' =
      Inr (check_result [[(''role'', JStr ''risk''), (''status'', JStr ''present''),
        (''attestation_hash'', JStr ''None''), (''verifier'', JStr ''None'')]])"
    by (simp add: verify_attestations_def attestation_item_def hashed_attestation_present)
      (simp add: attestation_fields_def attestation_verdict_fields_def hashed_attestation_def sample_attestation_def
        str_get_def py_str_def opt_str_def)
  have e: "verify_ree_evidence demo_crypto load [attestation_fields (hashed_attestation h)] [] = check_result []"
    by (simp add: verify_ree_evidence_def add_evidence_def has_ree_metadata_def jget_def attestation_fields_def
        attestation_verdict_fields_def hashed_attestation_def sample_attestation_def opt_str_def opt_obj_def)
  have "rollup_status [''verified'', ''present'', ''missing'', ''missing''] \<noteq> ''failed''" by code_simp
  moreover have "items_status [[(''role'', JStr ''risk''), (''status'', JStr ''present''),
        (''attestation_hash'', JStr ''None''), (''verifier'', JStr ''None'')]] = ''present''" by code_simp
  moreover have "items_status [] = ''missing''" by (simp add: items_status_def)
  moreover have "str_get (demo_stored_job h) ''job_id'' = ''job-1''"
    by (simp add: demo_stored_job_def str_get_def)
  moreover have
    "objects_in (jget (as_dict (jget (demo_stored_job h) ''run_metadata'')) ''verification_attestations'') =
       [attestation_fields (hashed_attestation h)]"
    "objects_in (jget (as_dict (jget (demo_stored_job h) ''run_metadata'')) ''specialist_responses'') =
       [specialist_response_fields demo_response]"
    "objects_in (jget (as_dict (jget (demo_stored_job h) ''run_metadata'')) ''chain_receipts'') = []"
    by (simp_all add: demo_stored_job_def jget_def as_dict_def objects_in_def some_values_def)
  moreover have "verify_chain_receipts None [] = check_result []" by (simp add: verify_chain_receipts_def)
  moreover have "check_status (JObj [(''job_id'', i), (''status'', JStr st), (''checks'', o')]) = st" for i st o'
    by (simp add: check_status_def as_dict_def str_get_def)
  ultimately show ?thesis using v(2)
    by (simp add: build_job_verification_bundle_def Let_def v(1) a e check_status_result)
qed

lemma unfailed_bundle_binds_witness:
  "\<exists>h r. filter (\<lambda>x. verification_context x = (''job-1'', ''risk'', ''peer-r'')) [specialist_response_fields demo_response] = [r] \<and>
     canonical_json_hash demo_crypto (JObj r) = Inr h"
proof -
  obtain h where h: "h \<noteq> []" "output_hash demo_crypto demo_response = Inr h" using demo_output_hash by blast
  obtain b where b: "build_job_verification_bundle demo_crypto (\<lambda>_. Inl (KeyError ''risk'')) None (demo_stored_job h) = Inr b"
      "check_status b \<noteq> ''failed''" using demo_bundle [OF h] by blast
  have oh: "str_get (attestation_fields (hashed_attestation h)) ''output_hash'' = h"
    using stored_contexts(3) [of "hashed_attestation h"] by (simp add: hashed_attestation_def opt_str_def)
  have vc: "verification_context (attestation_fields (hashed_attestation h)) = (''job-1'', ''risk'', ''peer-r'')"
    by (simp add: stored_contexts hashed_attestation_def sample_attestation_def)
  from unfailed_bundle_binds [OF b refl refl, of "attestation_fields (hashed_attestation h)"] show ?thesis
    unfolding oh vc using h(1) by (auto simp: demo_stored_job_def jget_def as_dict_def objects_in_def some_values_def split: if_splits)
qed

definition failing_services :: job_services where
  "failing_services = \<lparr>js_dispatch = (\<lambda>_ _. Inl (KeyError ''risk'')), js_synthesize = (\<lambda>_ _ _. Inl (KeyError ''risk'')), js_record_receipts = None\<rparr>"

lemma submission_completes_or_stays_pending_witness:
  "\<exists>s'. submit_job failing_services ''j'' ''2026-01-01T00:00:00+00:00'' demo_request blank_store = (Inl (KeyError ''risk''), s') \<and>
     job_row s' ''j'' = Some (pending_job ''j'' ''2026-01-01T00:00:00+00:00'' demo_request)"
proof -
  have "job_row blank_store ''j'' = None" by (rule blank_no_job)
  from submission_completes_or_stays_pending [OF blank_ready this, of failing_services
      "''2026-01-01T00:00:00+00:00''" demo_request] show ?thesis
    by (auto simp: failing_services_def)
qed

end
