(* ===== verification/Chain_Client.thy ===== *)
theory Chain_Client
  imports App_Settings Chain_Receipts
begin

section \<open>Contract transactions (app/chain/config.py, client.py)\<close>

text \<open>
  The chain configuration with its hard limits, and the builders and signers of the four contract
  calls. Not part of the repository and therefore fields of \<open>chain_env\<close>: the ABI encoder of eth_abi
  (types and values to bytes), the account library's transaction signature (raw transaction and hash,
  as hexadecimal digits) and the node; \<open>crypto\<close> holds Keccak, addresses and keys.

  Shown: a client exists only under the configured chain and the hard payout cap, a value that becomes
  a \<open>bytes32\<close> argument is 32 bytes unless white space hides in it, and every signed transaction is the
  built one, under the writer's key.
\<close>

subsection \<open>Configuration\<close>

record chain_config =
  cc_rpc_url :: string
  cc_chain_id :: int
  cc_explorer_base_url :: string
  cc_agent_registry_address :: string
  cc_task_registry_address :: string
  cc_receipt_registry_address :: string
  cc_reputation_vault_address :: string
  cc_native_test_payouts_enabled :: bool
  cc_native_test_payout_wei :: int
  cc_native_test_payout_max_wei :: int
  cc_writer_private_key :: string

definition gensyn_testnet_chain_id :: int where "gensyn_testnet_chain_id = 685685"
definition default_native_test_payout_max_wei :: int where "default_native_test_payout_max_wei = 1000000000000"

definition normalize_private_key :: "string \<Rightarrow> string" where
  "normalize_private_key k = (if k = [] then [] else if starts_with ''0x'' k then k else ''0x'' @ k)"

definition chain_config_from_settings :: "crypto \<Rightarrow> settings \<Rightarrow> chain_config res" where
  "chain_config_from_settings c s =
     res_bind (to_checksum c (cfg_signal_agent_registry_address s)) (\<lambda>agent.
     res_bind (to_checksum c (cfg_signal_task_registry_address s)) (\<lambda>task.
     res_bind (to_checksum c (cfg_signal_receipt_registry_address s)) (\<lambda>receipt.
     res_bind (to_checksum c (cfg_signal_reputation_vault_address s)) (\<lambda>vault.
       Inr \<lparr>cc_rpc_url = cfg_gensyn_rpc_url s, cc_chain_id = cfg_gensyn_chain_id s,
         cc_explorer_base_url = cfg_gensyn_explorer_base_url s, cc_agent_registry_address = agent,
         cc_task_registry_address = task, cc_receipt_registry_address = receipt,
         cc_reputation_vault_address = vault,
         cc_native_test_payouts_enabled = cfg_signal_count_native_test_payouts s,
         cc_native_test_payout_wei = cfg_native_test_payout_wei s,
         cc_native_test_payout_max_wei = cfg_native_test_payout_max_wei s,
         cc_writer_private_key = normalize_private_key (cfg_chain_writer_private_key s)\<rparr>))))"

definition validate_testnet :: "chain_config \<Rightarrow> unit res" where
  "validate_testnet cc =
     (if cc_chain_id cc \<noteq> gensyn_testnet_chain_id then Inl (ValueError ''Gensyn Testnet chain id must be 685685'')
      else if cc_native_test_payout_wei cc < 0 then Inl (ValueError ''native test payout wei must be non-negative'')
      else if cc_native_test_payout_max_wei cc > default_native_test_payout_max_wei then
        Inl (ValueError ''native test payout max exceeds hard cap'')
      else if cc_native_test_payout_wei cc > cc_native_test_payout_max_wei cc then
        Inl (ValueError ''native test payout exceeds configured max'')
      else Inr ())"

lemma validate_testnet_iff:
  "validate_testnet cc = Inr () \<longleftrightarrow> cc_chain_id cc = gensyn_testnet_chain_id \<and> 0 \<le> cc_native_test_payout_wei cc \<and>
     cc_native_test_payout_wei cc \<le> cc_native_test_payout_max_wei cc \<and>
     cc_native_test_payout_max_wei cc \<le> default_native_test_payout_max_wei"
  by (auto simp: validate_testnet_def)

subsection \<open>Calls and transactions\<close>

datatype abi_arg = AUint int | AAddress string | AText string | ABytes "nat list"

record contract_tx =
  tx_to :: string
  tx_value :: int
  tx_data :: string
  tx_nonce :: int
  tx_chain_id :: int
  tx_gas :: int
  tx_gas_price :: int

record signed_tx =
  st_transaction :: contract_tx
  st_raw_transaction :: string
  st_transaction_hash :: string

type_synonym rpc_call = "string \<times> json list"

record chain_env =
  ce_crypto :: crypto
  ce_encode :: "string list \<Rightarrow> abi_arg list \<Rightarrow> nat list res"
  ce_sign :: "contract_tx \<Rightarrow> string \<Rightarrow> (string \<times> string) res"
  ce_node :: "rpc_call list \<Rightarrow> string \<Rightarrow> json list \<Rightarrow> json res"
  ce_clock :: "nat \<Rightarrow> rat"

definition selector :: "crypto \<Rightarrow> string \<Rightarrow> string" where
  "selector c signature = take 8 (keccak_digest c signature)"

definition encode_call :: "chain_env \<Rightarrow> string \<Rightarrow> string list \<Rightarrow> abi_arg list \<Rightarrow> string res" where
  "encode_call e signature types values =
     res_bind (ce_encode e types values) (\<lambda>bs. Inr (''0x'' @ selector (ce_crypto e) signature @ bytes_hex bs))"

definition bytes32 :: "string \<Rightarrow> nat list res" where
  "bytes32 v =
     (let n = (if starts_with ''sha256:'' v then remove_prefix ''sha256:'' v else remove_prefix ''0x'' v) in
      if length n \<noteq> 64 then Inl (ValueError ''bytes32 value must be 32 bytes'') else bytes_fromhex n)"

definition base_transaction :: "chain_env \<Rightarrow> chain_config \<Rightarrow> string \<Rightarrow> string \<Rightarrow> int \<Rightarrow> int \<Rightarrow> int \<Rightarrow> int \<Rightarrow> contract_tx res" where
  "base_transaction e cc to data nonce gas gas_price value =
     res_bind (to_checksum (ce_crypto e) to) (\<lambda>a.
       Inr \<lparr>tx_to = a, tx_value = value, tx_data = data, tx_nonce = nonce, tx_chain_id = cc_chain_id cc,
         tx_gas = gas, tx_gas_price = gas_price\<rparr>)"

definition sign_transaction :: "chain_env \<Rightarrow> chain_config \<Rightarrow> contract_tx \<Rightarrow> signed_tx res" where
  "sign_transaction e cc tx =
     (if cc_writer_private_key cc = [] then Inl (ValueError ''chain writer private key is not configured'')
      else res_bind (ce_sign e tx (cc_writer_private_key cc)) (\<lambda>(raw, h).
        Inr \<lparr>st_transaction = tx, st_raw_transaction = ''0x'' @ raw, st_transaction_hash = ''0x'' @ h\<rparr>))"

definition build_create_task_transaction ::
    "chain_env \<Rightarrow> chain_config \<Rightarrow> string \<Rightarrow> string \<Rightarrow> int \<Rightarrow> int \<Rightarrow> int \<Rightarrow> contract_tx res" where
  "build_create_task_transaction e cc th metadata_uri nonce gas_price gas =
     res_bind (bytes32 th) (\<lambda>tb.
     res_bind (encode_call e ''createTask(bytes32,string)'' [''bytes32'', ''string''] [ABytes tb, AText metadata_uri]) (\<lambda>data.
       base_transaction e cc (cc_task_registry_address cc) data nonce gas gas_price 0))"

definition sign_create_task_transaction ::
    "chain_env \<Rightarrow> chain_config \<Rightarrow> string \<Rightarrow> string \<Rightarrow> int \<Rightarrow> int \<Rightarrow> signed_tx res" where
  "sign_create_task_transaction e cc th metadata_uri nonce gas_price =
     res_bind (build_create_task_transaction e cc th metadata_uri nonce gas_price 250000) (sign_transaction e cc)"

definition build_record_contribution_transaction ::
    "chain_env \<Rightarrow> chain_config \<Rightarrow> int \<Rightarrow> string \<Rightarrow> string \<Rightarrow> string \<Rightarrow> string \<Rightarrow> string \<Rightarrow> int \<Rightarrow> int \<Rightarrow> int \<Rightarrow> contract_tx res" where
  "build_record_contribution_transaction e cc task_id agent role oh ree_receipt_hash metadata_uri nonce gas_price gas =
     res_bind (to_checksum (ce_crypto e) agent) (\<lambda>a.
     res_bind (bytes32 oh) (\<lambda>ob.
     res_bind (bytes32 ree_receipt_hash) (\<lambda>rh.
     res_bind (encode_call e ''recordContribution(uint256,address,string,bytes32,bytes32,string)''
       [''uint256'', ''address'', ''string'', ''bytes32'', ''bytes32'', ''string'']
       [AUint task_id, AAddress a, AText role, ABytes ob, ABytes rh, AText metadata_uri]) (\<lambda>data.
       base_transaction e cc (cc_receipt_registry_address cc) data nonce gas gas_price 0))))"

definition sign_record_contribution_transaction ::
    "chain_env \<Rightarrow> chain_config \<Rightarrow> int \<Rightarrow> string \<Rightarrow> string \<Rightarrow> string \<Rightarrow> string \<Rightarrow> string \<Rightarrow> int \<Rightarrow> int \<Rightarrow> signed_tx res" where
  "sign_record_contribution_transaction e cc task_id agent role oh ree_receipt_hash metadata_uri nonce gas_price =
     res_bind (build_record_contribution_transaction e cc task_id agent role oh ree_receipt_hash metadata_uri
       nonce gas_price 350000) (sign_transaction e cc)"

definition build_record_reputation_transaction ::
    "chain_env \<Rightarrow> chain_config \<Rightarrow> int \<Rightarrow> string \<Rightarrow> string \<Rightarrow> int \<Rightarrow> int \<Rightarrow> string \<Rightarrow> int \<Rightarrow> int \<Rightarrow> int \<Rightarrow> contract_tx res" where
  "build_record_reputation_transaction e cc task_id agent role score points metadata_uri nonce gas_price gas =
     res_bind (to_checksum (ce_crypto e) agent) (\<lambda>a.
     res_bind (encode_call e ''recordReputation(uint256,address,string,uint256,uint256,string)''
       [''uint256'', ''address'', ''string'', ''uint256'', ''uint256'', ''string'']
       [AUint task_id, AAddress a, AText role, AUint score, AUint points, AText metadata_uri]) (\<lambda>data.
       base_transaction e cc (cc_reputation_vault_address cc) data nonce gas gas_price 0))"

definition sign_record_reputation_transaction ::
    "chain_env \<Rightarrow> chain_config \<Rightarrow> int \<Rightarrow> string \<Rightarrow> string \<Rightarrow> int \<Rightarrow> int \<Rightarrow> string \<Rightarrow> int \<Rightarrow> int \<Rightarrow> signed_tx res" where
  "sign_record_reputation_transaction e cc task_id agent role score points metadata_uri nonce gas_price =
     res_bind (build_record_reputation_transaction e cc task_id agent role score points metadata_uri nonce gas_price 250000)
       (sign_transaction e cc)"

definition build_record_reputation_payout_transaction ::
    "chain_env \<Rightarrow> chain_config \<Rightarrow> int \<Rightarrow> string \<Rightarrow> string \<Rightarrow> int \<Rightarrow> int \<Rightarrow> int \<Rightarrow> string \<Rightarrow> int \<Rightarrow> int \<Rightarrow> int \<Rightarrow> contract_tx res" where
  "build_record_reputation_payout_transaction e cc task_id agent role score points payout_wei metadata_uri nonce gas_price gas =
     res_bind (to_checksum (ce_crypto e) agent) (\<lambda>a.
     res_bind (encode_call e
       ''recordReputationWithNativeTestPayout(uint256,address,string,uint256,uint256,uint256,string)''
       [''uint256'', ''address'', ''string'', ''uint256'', ''uint256'', ''uint256'', ''string'']
       [AUint task_id, AAddress a, AText role, AUint score, AUint points, AUint payout_wei, AText metadata_uri]) (\<lambda>data.
       base_transaction e cc (cc_reputation_vault_address cc) data nonce gas gas_price payout_wei))"

definition sign_record_reputation_payout_transaction ::
    "chain_env \<Rightarrow> chain_config \<Rightarrow> int \<Rightarrow> string \<Rightarrow> string \<Rightarrow> int \<Rightarrow> int \<Rightarrow> int \<Rightarrow> string \<Rightarrow> int \<Rightarrow> int \<Rightarrow> signed_tx res" where
  "sign_record_reputation_payout_transaction e cc task_id agent role score points payout_wei metadata_uri nonce gas_price =
     res_bind (build_record_reputation_payout_transaction e cc task_id agent role score points payout_wei metadata_uri
       nonce gas_price 300000) (sign_transaction e cc)"

subsection \<open>What is signed\<close>

text \<open>A signed transaction of this client: the writer's signature of a transaction of the configured chain.\<close>

definition writer_signed :: "chain_env \<Rightarrow> chain_config \<Rightarrow> int \<Rightarrow> int \<Rightarrow> signed_tx \<Rightarrow> bool" where
  "writer_signed e cc nonce value x \<longleftrightarrow>
     sign_transaction e cc (st_transaction x) = Inr x \<and> tx_nonce (st_transaction x) = nonce \<and>
     tx_value (st_transaction x) = value \<and> tx_chain_id (st_transaction x) = cc_chain_id cc"

lemma base_then_sign:
  "base_transaction e cc to data nonce gas gas_price value = Inr tx \<Longrightarrow> sign_transaction e cc tx = Inr x \<Longrightarrow>
     writer_signed e cc nonce value x"
  by (auto simp: base_transaction_def sign_transaction_def writer_signed_def res_simps split: if_split_asm)

lemma signers:
  "sign_create_task_transaction e cc th uri nonce gp = Inr x \<Longrightarrow> writer_signed e cc nonce 0 x"
  "sign_record_contribution_transaction e cc t a r oh rh uri nonce gp = Inr x \<Longrightarrow> writer_signed e cc nonce 0 x"
  "sign_record_reputation_transaction e cc t a r s p uri nonce gp = Inr x \<Longrightarrow> writer_signed e cc nonce 0 x"
  "sign_record_reputation_payout_transaction e cc t a r s p v uri nonce gp = Inr x \<Longrightarrow> writer_signed e cc nonce v x"
  by (auto simp: sign_create_task_transaction_def build_create_task_transaction_def
      sign_record_contribution_transaction_def build_record_contribution_transaction_def
      sign_record_reputation_transaction_def build_record_reputation_transaction_def
      sign_record_reputation_payout_transaction_def build_record_reputation_payout_transaction_def
      res_bind_Inr_iff dest: base_then_sign)

subsection \<open>Bytes of a hash\<close>

lemma fromhex_digits:
  "list_all (\<lambda>c. hex_value c \<noteq> None) s \<Longrightarrow> even (length s) \<Longrightarrow>
     \<exists>bs. bytes_fromhex s = Inr bs \<and> 2 * length bs = length s"
proof (induction s rule: bytes_fromhex.induct)
  case (3 c d s)
  then have "\<not> ascii_space c" by (auto simp: hex_value_def ascii_space_def Let_def)
  with 3 show ?case by fastforce
qed auto

lemma bytes32_of_hash: "hash_ok h \<Longrightarrow> \<exists>bs. bytes32 h = Inr bs \<and> length bs = 32"
proof -
  assume h: "hash_ok h"
  have pre: "starts_with ''0x'' h" and len: "length (drop 2 h) = 64"
    and digits: "list_all (\<lambda>c. hex_value c \<noteq> None) (drop 2 h)"
    using h by (auto simp: hex_pattern_def)
  have "\<not> starts_with ''sha256:'' h" using pre by (cases h) (auto simp: starts_with_def)
  moreover obtain bs where "bytes_fromhex (drop 2 h) = Inr bs" "2 * length bs = 64"
    using fromhex_digits [OF digits] unfolding len by auto
  ultimately show ?thesis using len pre by (simp add: bytes32_def remove_prefix_def Let_def numeral_2_eq_2)
qed

end
