(* ===== verification/Chain_Recorder.thy ===== *)
theory Chain_Recorder
  imports Chain_Client Coordinator Chain_Projection
begin

section \<open>Recording a job on the chain (app/chain/broadcaster.py)\<close>

text \<open>
  The recorder of completed jobs: the task, one contribution per response and one reputation entry per
  credited update, each sent and waited for before the next. A run is a function of the state it
  threads: the calls made to the node so far, which is all the node's next answer may depend on, and the
  number of clock readings. Waiting for a receipt may go on for ever, so programs return an option.

  Shown: what a run sends is one transaction of the writer per receipt, with consecutive nonces from the
  node's count, for the task, the responses and the credited updates in this order; no transaction moves
  more than the configured maximum; a run ends when the clock reaches its deadlines; and a score that is
  written as an integer of millionths is read back by the indexer as the same double.
\<close>

subsection \<open>Programs over the node\<close>

record rpc_state =
  rp_calls :: "rpc_call list"
  rp_reads :: nat

type_synonym 'a rpc = "rpc_state \<Rightarrow> ('a res \<times> rpc_state) option"

definition rpc_lift :: "'a res \<Rightarrow> 'a rpc" where
  "rpc_lift r = (\<lambda>s. Some (r, s))"

definition rpc_bind :: "'a rpc \<Rightarrow> ('a \<Rightarrow> 'b rpc) \<Rightarrow> 'b rpc" where
  "rpc_bind m f = (\<lambda>s. case m s of None \<Rightarrow> None | Some (Inl er, s') \<Rightarrow> Some (Inl er, s') | Some (Inr x, s') \<Rightarrow> f x s')"

definition rpc_call :: "chain_env \<Rightarrow> string \<Rightarrow> json list \<Rightarrow> json rpc" where
  "rpc_call e m ps = (\<lambda>s. Some (ce_node e (rp_calls s) m ps, s\<lparr>rp_calls := rp_calls s @ [(m, ps)]\<rparr>))"

definition read_clock :: "chain_env \<Rightarrow> rat rpc" where
  "read_clock e = (\<lambda>s. Some (Inr (ce_clock e (rp_reads s)), s\<lparr>rp_reads := Suc (rp_reads s)\<rparr>))"

fun rpc_map :: "('a \<Rightarrow> 'b rpc) \<Rightarrow> 'a list \<Rightarrow> 'b list rpc" where
  "rpc_map f [] = rpc_lift (Inr [])"
| "rpc_map f (x # xs) = rpc_bind (f x) (\<lambda>y. rpc_bind (rpc_map f xs) (\<lambda>ys. rpc_lift (Inr (y # ys))))"

text \<open>What the transport makes of the node's answer to a request (the answer itself is the node's).\<close>

definition json_rpc_request :: "int \<Rightarrow> string \<Rightarrow> json list \<Rightarrow> json" where
  "json_rpc_request request_id m ps = JObj
     [(''jsonrpc'', JStr ''2.0''), (''id'', JInt request_id), (''method'', JStr m), (''params'', JList ps)]"

definition json_rpc_result :: "json res \<Rightarrow> json res" where
  "json_rpc_result response =
     (case response of
        Inl _ \<Rightarrow> Inl (RuntimeError ''Gensyn Testnet RPC request failed'')
      | Inr (JObj d) \<Rightarrow>
          if dget d ''error'' \<noteq> None then Inl (RuntimeError ''Gensyn Testnet RPC returned an error'')
          else Inr (jget d ''result'')
      | Inr _ \<Rightarrow> Inl (RuntimeError ''Gensyn Testnet RPC response must be an object''))"

definition transport_call ::
    "(string \<Rightarrow> json \<Rightarrow> json res) \<Rightarrow> string \<Rightarrow> string \<Rightarrow> json list \<Rightarrow> int \<Rightarrow> json res \<times> int" where
  "transport_call post rpc_url m ps request_id =
     (json_rpc_result (post rpc_url (json_rpc_request (request_id + 1) m ps)), request_id + 1)"

subsection \<open>Reading answers\<close>

definition zero_bytes32 :: string where "zero_bytes32 = ''0x'' @ replicate 64 (CHR ''0'')"
definition zero_address :: string where "zero_address = ''0x'' @ replicate 40 (CHR ''0'')"

definition expect_hex_string :: "json \<Rightarrow> string res" where
  "expect_hex_string v =
     (case v of
        JStr s \<Rightarrow> if starts_with ''0x'' s then Inr s
                  else Inl (RuntimeError ''Gensyn Testnet RPC returned an invalid hex value'')
      | _ \<Rightarrow> Inl (RuntimeError ''Gensyn Testnet RPC returned an invalid hex value''))"

definition rpc_hex_to_int :: "json \<Rightarrow> int res" where
  "rpc_hex_to_int v = res_bind (expect_hex_string v) py_int_hex"

subsection \<open>Updates\<close>

text \<open>\<^verbatim>\<open>round(float(value) * SCORE_SCALE)\<close>\<close>

definition scaled_int :: "json \<Rightarrow> int res" where
  "scaled_int v =
     res_bind (py_float_of v) (\<lambda>f.
       case f of
         Fin x \<Rightarrow> if float_max \<le> \<bar>x * of_int score_scale\<bar> then Inl OverflowError
                  else Inr (round_even (fmul x (of_int score_scale)))
       | NaN \<Rightarrow> Inl (ValueError ''cannot convert float NaN to integer'')
       | _ \<Rightarrow> Inl OverflowError)"

definition update_payout_wei :: "jobject \<Rightarrow> int \<Rightarrow> int \<Rightarrow> int res" where
  "update_payout_wei update fallback max_wei =
     (if jget update ''native_test_payout_wei'' = JNull then Inr fallback
      else res_bind (py_int_of (jget update ''native_test_payout_wei'')) (\<lambda>i. Inr (min (max i 0) max_wei)))"

definition float_positive :: "pyfloat \<Rightarrow> bool" where
  "float_positive f = (case f of Fin x \<Rightarrow> 0 < x | PosInf \<Rightarrow> True | _ \<Rightarrow> False)"

definition positive_field :: "jobject \<Rightarrow> string \<Rightarrow> bool res" where
  "positive_field d k =
     (case dget d k of None \<Rightarrow> Inr False | Some v \<Rightarrow> res_bind (py_float_of v) (\<lambda>f. Inr (float_positive f)))"

definition accepted_update :: "jobject \<Rightarrow> bool res" where
  "accepted_update d =
     (if jget d ''verifier_status'' = JStr ''accepted'' \<and> jget d ''credit_eligible'' = JBool True \<and>
         truthy (jget d ''agent_wallet'')
      then res_bind (positive_field d ''verifier_score'') (\<lambda>b.
           if b then positive_field d ''reputation_points'' else Inr False)
      else Inr False)"

fun filter_res :: "('a \<Rightarrow> bool res) \<Rightarrow> 'a list \<Rightarrow> 'a list res" where
  "filter_res p [] = Inr []"
| "filter_res p (x # xs) =
     res_bind (p x) (\<lambda>b. res_bind (filter_res p xs) (\<lambda>ys. Inr (if b then x # ys else ys)))"

definition accepted_reputation_updates :: "jobject \<Rightarrow> jobject list res" where
  "accepted_reputation_updates metadata =
     (case dget metadata ''reputation_updates'' of
        Some (JList xs) \<Rightarrow> filter_res accepted_update (objects_in (JList xs))
      | _ \<Rightarrow> Inr [])"

subsection \<open>The recorder\<close>

record receipt_recorder =
  rc_config :: chain_config
  rc_confirmations_timeout_seconds :: rat

definition make_recorder :: "chain_config \<Rightarrow> rat \<Rightarrow> receipt_recorder res" where
  "make_recorder cc timeout =
     res_bind (validate_testnet cc) (\<lambda>_. Inr \<lparr>rc_config = cc, rc_confirmations_timeout_seconds = timeout\<rparr>)"

definition writer_address :: "chain_env \<Rightarrow> receipt_recorder \<Rightarrow> string res" where
  "writer_address e rc = key_address (ce_crypto e) (cc_writer_private_key (rc_config rc))"

definition get_nonce :: "chain_env \<Rightarrow> receipt_recorder \<Rightarrow> int rpc" where
  "get_nonce e rc =
     rpc_bind (rpc_lift (writer_address e rc)) (\<lambda>a.
     rpc_bind (rpc_call e ''eth_getTransactionCount'' [JStr a, JStr ''pending'']) (\<lambda>v. rpc_lift (rpc_hex_to_int v)))"

definition get_gas_price :: "chain_env \<Rightarrow> int rpc" where
  "get_gas_price e = rpc_bind (rpc_call e ''eth_gasPrice'' []) (\<lambda>v. rpc_lift (rpc_hex_to_int v))"

definition latest_task_id :: "chain_env \<Rightarrow> receipt_recorder \<Rightarrow> int rpc" where
  "latest_task_id e rc =
     rpc_bind (rpc_call e ''eth_call''
       [JObj [(''to'', JStr (cc_task_registry_address (rc_config rc))),
              (''data'', JStr (''0x'' @ selector (ce_crypto e) ''nextTaskId()''))], JStr ''latest'']) (\<lambda>v.
     rpc_lift (res_bind (rpc_hex_to_int v) (\<lambda>n. Inr (n - 1))))"

partial_function (option) poll_receipt :: "chain_env \<Rightarrow> string \<Rightarrow> rat \<Rightarrow> jobject rpc" where
  "poll_receipt e tx_hash deadline s =
     (let s1 = s\<lparr>rp_reads := Suc (rp_reads s)\<rparr> in
      if ce_clock e (rp_reads s) < deadline then
        (let s2 = s1\<lparr>rp_calls := rp_calls s @ [(''eth_getTransactionReceipt'', [JStr tx_hash])]\<rparr> in
         case ce_node e (rp_calls s) ''eth_getTransactionReceipt'' [JStr tx_hash] of
           Inl er \<Rightarrow> Some (Inl er, s2)
         | Inr v \<Rightarrow> if is_obj v then Some (Inr (case v of JObj d \<Rightarrow> d | _ \<Rightarrow> []), s2) else poll_receipt e tx_hash deadline s2)
      else Some (Inl (TimeoutError ''Gensyn Testnet transaction receipt timed out''), s1))"

definition wait_for_receipt :: "chain_env \<Rightarrow> receipt_recorder \<Rightarrow> string \<Rightarrow> jobject rpc" where
  "wait_for_receipt e rc tx_hash =
     rpc_bind (read_clock e) (\<lambda>t. poll_receipt e tx_hash (t + rc_confirmations_timeout_seconds rc))"

definition broadcast_and_wait :: "chain_env \<Rightarrow> receipt_recorder \<Rightarrow> string \<Rightarrow> string rpc" where
  "broadcast_and_wait e rc raw =
     rpc_bind (rpc_call e ''eth_sendRawTransaction'' [JStr raw]) (\<lambda>v.
     rpc_bind (rpc_lift (expect_hex_string v)) (\<lambda>tx_hash.
     rpc_bind (wait_for_receipt e rc tx_hash) (\<lambda>receipt.
     rpc_lift (res_bind (rpc_hex_to_int (jget receipt ''status'')) (\<lambda>n.
       if n \<noteq> 1 then Inl (RuntimeError ''Gensyn Testnet transaction failed'') else Inr tx_hash)))))"

definition native_test_payout_wei :: "receipt_recorder \<Rightarrow> int" where
  "native_test_payout_wei rc =
     (let cc = rc_config rc in
      if \<not> cc_native_test_payouts_enabled cc then 0
      else min (cc_native_test_payout_wei cc) (cc_native_test_payout_max_wei cc))"

definition job_uri :: "string \<Rightarrow> string \<Rightarrow> string" where
  "job_uri job_id path = ''signal-count://jobs/'' @ job_id @ ''/'' @ path"

definition record_task :: "chain_env \<Rightarrow> receipt_recorder \<Rightarrow> string \<Rightarrow> thesis_request \<Rightarrow> int \<Rightarrow> int \<Rightarrow> chain_receipt rpc" where
  "record_task e rc job_id request nonce gas_price =
     rpc_bind (rpc_lift (res_bind
       (task_hash (ce_crypto e) \<lparr>ts_job_id = job_id, ts_thesis = tr_thesis request, ts_asset = tr_asset request,
         ts_horizon_days = tr_horizon_days request\<rparr>) (\<lambda>h.
       sign_create_task_transaction e (rc_config rc) h (job_uri job_id ''task'') nonce gas_price))) (\<lambda>x.
     rpc_bind (broadcast_and_wait e rc (st_raw_transaction x)) (\<lambda>tx_hash.
     rpc_lift (Inr (receipt_confirmed ''task'' tx_hash (cc_explorer_base_url (rc_config rc))))))"

definition ree_hash_or_zero :: "specialist_response \<Rightarrow> string" where
  "ree_hash_or_zero r = (case sr_ree_receipt_hash r of None \<Rightarrow> zero_bytes32 | Some h \<Rightarrow> if h = [] then zero_bytes32 else h)"

definition record_contribution ::
    "chain_env \<Rightarrow> receipt_recorder \<Rightarrow> string \<Rightarrow> int \<Rightarrow> int \<Rightarrow> int \<times> specialist_response \<Rightarrow> chain_receipt rpc" where
  "record_contribution e rc job_id task_id gas_price = (\<lambda>(nonce, r).
     rpc_bind (rpc_lift (res_bind (writer_address e rc) (\<lambda>a. res_bind (output_hash (ce_crypto e) r) (\<lambda>oh.
       sign_record_contribution_transaction e (rc_config rc) task_id a (sr_node_role r) oh (ree_hash_or_zero r)
         (job_uri job_id (''contributions/'' @ sr_node_role r)) nonce gas_price)))) (\<lambda>x.
     rpc_bind (broadcast_and_wait e rc (st_raw_transaction x)) (\<lambda>tx_hash.
     rpc_lift (Inr ((receipt_confirmed ''contribution'' tx_hash (cc_explorer_base_url (rc_config rc)))
       \<lparr>ct_role := Some (sr_node_role r),
        ct_ree_receipt_hash := (if ree_hash_or_zero r = zero_bytes32 then None else Some (ree_hash_or_zero r)),
        ct_ree_status := sr_receipt_status r\<rparr>)))))"

definition sign_reputation ::
    "chain_env \<Rightarrow> receipt_recorder \<Rightarrow> string \<Rightarrow> int \<Rightarrow> int \<Rightarrow> int \<Rightarrow> jobject \<Rightarrow> (signed_tx \<times> string \<times> string \<times> int) res" where
  "sign_reputation e rc job_id task_id gas_price nonce update =
     res_bind (res_bind (required update ''verifier_score'') scaled_int) (\<lambda>score.
     res_bind (res_bind (required update ''reputation_points'') scaled_int) (\<lambda>points.
     res_bind (required update ''node_role'') (\<lambda>role_value.
     res_bind (required update ''agent_wallet'') (\<lambda>agent_value.
     let role = py_str role_value; agent = py_str agent_value; uri = job_uri job_id (''reputation/'' @ role) in
     res_bind (update_payout_wei update (native_test_payout_wei rc) (cc_native_test_payout_max_wei (rc_config rc))) (\<lambda>payout.
     res_bind (if payout \<noteq> 0
       then sign_record_reputation_payout_transaction e (rc_config rc) task_id agent role score points payout uri nonce gas_price
       else sign_record_reputation_transaction e (rc_config rc) task_id agent role score points uri nonce gas_price) (\<lambda>x.
     Inr (x, role, agent, payout)))))))"

definition record_reputation ::
    "chain_env \<Rightarrow> receipt_recorder \<Rightarrow> string \<Rightarrow> int \<Rightarrow> int \<Rightarrow> int \<times> jobject \<Rightarrow> chain_receipt rpc" where
  "record_reputation e rc job_id task_id gas_price = (\<lambda>(nonce, update).
     rpc_bind (rpc_lift (sign_reputation e rc job_id task_id gas_price nonce update)) (\<lambda>(x, role, agent, payout).
     rpc_bind (broadcast_and_wait e rc (st_raw_transaction x)) (\<lambda>tx_hash.
     rpc_lift (res_bind (res_bind (required update ''verifier_score'') finite_number) (\<lambda>score.
       res_bind (res_bind (required update ''reputation_points'') finite_number) (\<lambda>points.
       Inr ((receipt_confirmed ''reputation'' tx_hash (cc_explorer_base_url (rc_config rc)))
         \<lparr>ct_role := Some role, ct_agent := Some agent, ct_verifier_score := Some score,
          ct_reputation_points := Some points,
          ct_native_test_payout_wei := (if payout \<noteq> 0 then Some payout else None)\<rparr>)))))))"

definition numbered :: "int \<Rightarrow> 'a list \<Rightarrow> (int \<times> 'a) list" where
  "numbered n xs = zip (map (\<lambda>i. n + int i) [0..<length xs]) xs"

definition record_reputation_updates ::
    "chain_env \<Rightarrow> receipt_recorder \<Rightarrow> string \<Rightarrow> int \<Rightarrow> jobject list \<Rightarrow> int \<Rightarrow> int \<Rightarrow> chain_receipt list rpc" where
  "record_reputation_updates e rc job_id task_id updates starting_nonce gas_price =
     rpc_map (record_reputation e rc job_id task_id gas_price) (numbered starting_nonce updates)"

definition record_updates ::
    "chain_env \<Rightarrow> receipt_recorder \<Rightarrow> string \<Rightarrow> int \<Rightarrow> jobject \<Rightarrow> int \<Rightarrow> int \<Rightarrow> chain_receipt list rpc" where
  "record_updates e rc job_id task_id metadata starting_nonce gas_price =
     (if cc_reputation_vault_address (rc_config rc) \<noteq> zero_address
      then rpc_bind (rpc_lift (accepted_reputation_updates metadata)) (\<lambda>updates.
        record_reputation_updates e rc job_id task_id updates starting_nonce gas_price)
      else rpc_lift (Inr []))"

definition record_job_receipts ::
    "chain_env \<Rightarrow> receipt_recorder \<Rightarrow> string \<Rightarrow> thesis_request \<Rightarrow> dispatch_result \<Rightarrow> job_chain_receipts rpc" where
  "record_job_receipts e rc job_id request d =
     rpc_bind (get_nonce e rc) (\<lambda>nonce.
     rpc_bind (get_gas_price e) (\<lambda>gas_price.
     rpc_bind (record_task e rc job_id request nonce gas_price) (\<lambda>task.
     rpc_bind (latest_task_id e rc) (\<lambda>task_id.
     rpc_bind (rpc_map (record_contribution e rc job_id task_id gas_price) (numbered (nonce + 1) (dr_responses d))) (\<lambda>contributions.
     rpc_bind (record_updates e rc job_id task_id (dr_run_metadata d) (nonce + int (length (dr_responses d)) + 1) gas_price) (\<lambda>reputations.
     rpc_lift (Inr \<lparr>jr_receipt_status = ''confirmed'', jr_receipts = task # contributions @ reputations\<rparr>)))))))"

subsection \<open>Laws of the programs\<close>

named_theorems rpc_simps "evaluation of programs over the node"

lemma rpc_bind_Inr [rpc_simps]:
  "rpc_bind m f s = Some (Inr y, s') \<longleftrightarrow> (\<exists>x s1. m s = Some (Inr x, s1) \<and> f x s1 = Some (Inr y, s'))"
  by (auto simp: rpc_bind_def split: option.splits sum.splits)

lemma rpc_lift_Some [rpc_simps]: "rpc_lift r s = Some (r', s') \<longleftrightarrow> r = r' \<and> s' = s"
  by (auto simp: rpc_lift_def)

lemma rpc_call_Some [rpc_simps]:
  "rpc_call e m ps s = Some (r, s') \<longleftrightarrow> ce_node e (rp_calls s) m ps = r \<and> s' = s\<lparr>rp_calls := rp_calls s @ [(m, ps)]\<rparr>"
  by (auto simp: rpc_call_def)

lemma read_clock_Some [rpc_simps]:
  "read_clock e s = Some (r, s') \<longleftrightarrow> r = Inr (ce_clock e (rp_reads s)) \<and> s' = s\<lparr>rp_reads := Suc (rp_reads s)\<rparr>"
  by (auto simp: read_clock_def)

definition raw_sent :: "rpc_state \<Rightarrow> json list list" where
  "raw_sent s = map snd (filter (\<lambda>(m, _). m = ''eth_sendRawTransaction'') (rp_calls s))"

lemma raw_sent_call [simp]:
  "raw_sent (s\<lparr>rp_calls := rp_calls s @ [(m, ps)]\<rparr>) = raw_sent s @ (if m = ''eth_sendRawTransaction'' then [ps] else [])"
  "raw_sent (s\<lparr>rp_reads := n\<rparr>) = raw_sent s"
  "raw_sent (s\<lparr>rp_reads := n, rp_calls := rp_calls s @ [(m, ps)]\<rparr>) =
     raw_sent s @ (if m = ''eth_sendRawTransaction'' then [ps] else [])"
  by (simp_all add: raw_sent_def)

lemma poll_receipt_calls: "poll_receipt e h d s = Some w \<Longrightarrow> raw_sent (snd w) = raw_sent s"
proof (erule poll_receipt.raw_induct [rotated])
  fix f :: "chain_env \<Rightarrow> string \<Rightarrow> rat \<Rightarrow> rpc_state \<Rightarrow> (jobject res \<times> rpc_state) option" and e h d s w
  assume IH: "\<And>e h d s w. f e h d s = Some w \<Longrightarrow> raw_sent (snd w) = raw_sent s"
    and step: "(let s1 = s\<lparr>rp_reads := Suc (rp_reads s)\<rparr> in
      if ce_clock e (rp_reads s) < d then
        (let s2 = s1\<lparr>rp_calls := rp_calls s @ [(''eth_getTransactionReceipt'', [JStr h])]\<rparr> in
         case ce_node e (rp_calls s) ''eth_getTransactionReceipt'' [JStr h] of
           Inl er \<Rightarrow> Some (Inl er, s2)
         | Inr v \<Rightarrow> if is_obj v then Some (Inr (case v of JObj d \<Rightarrow> d | _ \<Rightarrow> []), s2) else f e h d s2)
      else Some (Inl (TimeoutError ''Gensyn Testnet transaction receipt timed out''), s1)) = Some w"
  show "raw_sent (snd w) = raw_sent s"
    using step by (auto simp: Let_def split: if_splits sum.splits dest!: IH)
qed

lemma poll_receipt_quiet: "poll_receipt e h d s = Some (r, s') \<Longrightarrow> raw_sent s' = raw_sent s"
  by (drule poll_receipt_calls) simp

lemma broadcast_sends:
  assumes "broadcast_and_wait e rc raw s = Some (Inr h, s')"
  shows "raw_sent s' = raw_sent s @ [[JStr raw]]"
  using assms by (auto simp: broadcast_and_wait_def wait_for_receipt_def rpc_simps dest!: poll_receipt_quiet)

subsection \<open>What a run sends\<close>

definition writer_tx :: "chain_env \<Rightarrow> receipt_recorder \<Rightarrow> signed_tx \<Rightarrow> bool" where
  "writer_tx e rc t \<longleftrightarrow>
     writer_signed e (rc_config rc) (tx_nonce (st_transaction t)) (tx_value (st_transaction t)) t \<and>
     0 \<le> tx_value (st_transaction t) \<and> tx_value (st_transaction t) \<le> cc_native_test_payout_max_wei (rc_config rc)"

text \<open>Between \<open>s\<close> and \<open>s'\<close> exactly the transactions \<open>ts\<close> were sent, one per receipt, nonces from \<open>n\<close> on.\<close>

definition posts ::
    "chain_env \<Rightarrow> receipt_recorder \<Rightarrow> int \<Rightarrow> string list \<Rightarrow> rpc_state \<Rightarrow> rpc_state \<Rightarrow> chain_receipt list \<Rightarrow> signed_tx list \<Rightarrow> bool" where
  "posts e rc n kinds s s' rs ts \<longleftrightarrow>
     raw_sent s' = raw_sent s @ map (\<lambda>t. [JStr (st_raw_transaction t)]) ts \<and>
     map ct_kind rs = kinds \<and> list_all (\<lambda>r. ct_status r = ''confirmed'') rs \<and> length ts = length rs \<and>
     map (\<lambda>t. tx_nonce (st_transaction t)) ts = map (\<lambda>i. n + int i) [0..<length ts] \<and> list_all (writer_tx e rc) ts"

lemma posts_none: "raw_sent s' = raw_sent s \<Longrightarrow> posts e rc n [] s s' [] []"
  by (simp add: posts_def)

lemma posts_append:
  assumes "posts e rc n k1 s s1 r1 t1" "posts e rc (n + int (length t1)) k2 s1 s2 r2 t2"
  shows "posts e rc n (k1 @ k2) s s2 (r1 @ r2) (t1 @ t2)"
proof -
  have "map (\<lambda>i. n + int i) [0..<length (t1 @ t2)] =
      map (\<lambda>i. n + int i) [0..<length t1] @ map (\<lambda>i. (n + int (length t1)) + int i) [0..<length t2]"
    by (rule nth_equalityI) (auto simp: nth_append)
  then show ?thesis using assms by (simp add: posts_def)
qed

lemma posts_one:
  assumes "writer_signed e (rc_config rc) n v t" "0 \<le> v" "v \<le> cc_native_test_payout_max_wei (rc_config rc)"
    and "raw_sent s' = raw_sent s @ [[JStr (st_raw_transaction t)]]" "ct_status r = ''confirmed''"
  shows "posts e rc n [ct_kind r] s s' [r] [t]"
proof -
  have "tx_nonce (st_transaction t) = n" "tx_value (st_transaction t) = v" using assms(1) by (auto simp: writer_signed_def)
  then show ?thesis using assms by (simp add: posts_def writer_tx_def)
qed

lemma posts_quiet:
  "posts e rc n k s s1 rs ts \<Longrightarrow> raw_sent s2 = raw_sent s1 \<Longrightarrow> posts e rc n k s s2 rs ts"
  "posts e rc n k s1 s2 rs ts \<Longrightarrow> raw_sent s1 = raw_sent s \<Longrightarrow> posts e rc n k s s2 rs ts"
  by (simp_all add: posts_def)

lemma numbered_simps [simp]:
  "numbered n [] = []" "numbered n (x # xs) = (n, x) # numbered (n + 1) xs"
proof -
  have "map (\<lambda>i. n + int i) [0..<Suc (length xs)] = n # map (\<lambda>i. (n + 1) + int i) [0..<length xs]"
    by (simp add: upt_conv_Cons map_Suc_upt [symmetric] comp_def add.assoc del: upt_Suc)
  then show "numbered n (x # xs) = (n, x) # numbered (n + 1) xs" by (simp add: numbered_def del: upt_Suc)
qed (simp add: numbered_def)

lemma map_posts:
  assumes "\<And>n x s r s'. f (n, x) s = Some (Inr r, s') \<Longrightarrow> \<exists>t. posts e rc n [k] s s' [r] [t]"
  shows "rpc_map f (numbered n xs) s = Some (Inr rs, s') \<Longrightarrow>
     length rs = length xs \<and> (\<exists>ts. posts e rc n (replicate (length xs) k) s s' rs ts)"
proof (induction xs arbitrary: n s rs)
  case Nil
  then show ?case using posts_none [of s s] by (auto simp: rpc_simps)
next
  case (Cons x xs)
  then obtain r s1 rs1 where r: "f (n, x) s = Some (Inr r, s1)"
      "rpc_map f (numbered (n + 1) xs) s1 = Some (Inr rs1, s')" "rs = r # rs1"
    by (auto simp: rpc_simps)
  obtain t where t: "posts e rc n [k] s s1 [r] [t]" using assms [OF r(1)] by blast
  obtain ts where ts: "posts e rc (n + 1) (replicate (length xs) k) s1 s' rs1 ts" "length rs1 = length xs"
    using Cons.IH [OF r(2)] by blast
  from posts_append [OF t, of "replicate (length xs) k" s' rs1 ts] ts r(3) show ?case by auto
qed

lemma receipt_confirmed_fields [simp]:
  "ct_kind (receipt_confirmed k h u) = k" "ct_status (receipt_confirmed k h u) = ''confirmed''"
  by (simp_all add: receipt_confirmed_def)

definition capped :: "receipt_recorder \<Rightarrow> bool" where
  "capped rc \<longleftrightarrow> 0 \<le> cc_native_test_payout_wei (rc_config rc) \<and>
     cc_native_test_payout_wei (rc_config rc) \<le> cc_native_test_payout_max_wei (rc_config rc)"

lemma task_posts:
  assumes "capped rc" "record_task e rc job_id request n gp s = Some (Inr r, s')"
  shows "\<exists>t. posts e rc n [''task''] s s' [r] [t]"
proof -
  obtain x where x: "writer_signed e (rc_config rc) n 0 x" "raw_sent s' = raw_sent s @ [[JStr (st_raw_transaction x)]]"
      "ct_kind r = ''task''" "ct_status r = ''confirmed''"
    using assms(2) by (auto simp: record_task_def rpc_simps res_bind_Inr_iff dest!: broadcast_sends dest: signers)
  then show ?thesis using posts_one [OF x(1), of s' s r] assms(1) by (auto simp: capped_def)
qed

lemma contribution_posts:
  assumes "capped rc" "record_contribution e rc job_id task_id gp (n, x) s = Some (Inr r, s')"
  shows "\<exists>t. posts e rc n [''contribution''] s s' [r] [t]"
proof -
  obtain x where x: "writer_signed e (rc_config rc) n 0 x" "raw_sent s' = raw_sent s @ [[JStr (st_raw_transaction x)]]"
      "ct_kind r = ''contribution''" "ct_status r = ''confirmed''"
    using assms(2)
    by (auto simp: record_contribution_def rpc_simps res_bind_Inr_iff dest!: broadcast_sends dest: signers)
  then show ?thesis using posts_one [OF x(1), of s' s r] assms(1) by (auto simp: capped_def)
qed

lemma payout_between:
  assumes "capped rc" "update_payout_wei u (native_test_payout_wei rc) (cc_native_test_payout_max_wei (rc_config rc)) = Inr p"
  shows "0 \<le> p \<and> p \<le> cc_native_test_payout_max_wei (rc_config rc)"
  using assms by (auto simp: update_payout_wei_def native_test_payout_wei_def capped_def Let_def res_bind_Inr_iff split: if_splits)

lemma sign_reputation_signs:
  assumes "capped rc" "sign_reputation e rc job_id task_id gp n u = Inr (x, role, agent, p)"
  shows "writer_signed e (rc_config rc) n p x \<and> 0 \<le> p \<and> p \<le> cc_native_test_payout_max_wei (rc_config rc)"
  using assms(2) payout_between [OF assms(1)]
  by (auto simp: sign_reputation_def res_bind_Inr_iff Let_def split: if_splits dest: signers)

lemma reputation_posts:
  assumes "capped rc" "record_reputation e rc job_id task_id gp (n, u) s = Some (Inr r, s')"
  shows "\<exists>t. posts e rc n [''reputation''] s s' [r] [t]"
proof -
  obtain x p where x: "writer_signed e (rc_config rc) n p x" "0 \<le> p" "p \<le> cc_native_test_payout_max_wei (rc_config rc)"
      "raw_sent s' = raw_sent s @ [[JStr (st_raw_transaction x)]]" "ct_kind r = ''reputation''" "ct_status r = ''confirmed''"
    using assms(2) sign_reputation_signs [OF assms(1)]
    by (auto simp: record_reputation_def rpc_simps res_bind_Inr_iff dest!: broadcast_sends) blast
  from posts_one [OF x(1-4,6)] show ?thesis using x(5) by auto
qed

lemma contributions_post:
  "capped rc \<Longrightarrow> rpc_map (record_contribution e rc job_id task_id gp) (numbered n xs) s = Some (Inr rs, s') \<Longrightarrow>
     length rs = length xs \<and> (\<exists>ts. posts e rc n (replicate (length xs) ''contribution'') s s' rs ts)"
  by (erule map_posts [rotated]) (erule (1) contribution_posts)

lemma reputations_post:
  "capped rc \<Longrightarrow> rpc_map (record_reputation e rc job_id task_id gp) (numbered n xs) s = Some (Inr rs, s') \<Longrightarrow>
     length rs = length xs \<and> (\<exists>ts. posts e rc n (replicate (length xs) ''reputation'') s s' rs ts)"
  by (erule map_posts [rotated]) (erule (1) reputation_posts)

lemma reading_is_quiet:
  "get_nonce e rc s = Some (Inr n, s') \<Longrightarrow> raw_sent s' = raw_sent s"
  "get_gas_price e s = Some (Inr g, s') \<Longrightarrow> raw_sent s' = raw_sent s"
  "latest_task_id e rc s = Some (Inr i, s') \<Longrightarrow> raw_sent s' = raw_sent s"
  by (auto simp: get_nonce_def get_gas_price_def latest_task_id_def rpc_simps)

lemma get_nonce_answer:
  "get_nonce e rc s = Some (Inr n, s') \<Longrightarrow> \<exists>a v. writer_address e rc = Inr a \<and>
     ce_node e (rp_calls s) ''eth_getTransactionCount'' [JStr a, JStr ''pending''] = Inr v \<and> rpc_hex_to_int v = Inr n"
  by (auto simp: get_nonce_def rpc_simps)

lemma updates_post:
  assumes "capped rc" "record_updates e rc job_id task_id metadata n gp s = Some (Inr rs, s')"
  shows "\<exists>k ts. posts e rc n (replicate k ''reputation'') s s' rs ts"
proof (cases "cc_reputation_vault_address (rc_config rc) = zero_address")
  case True
  then have "rs = []" "s' = s" using assms(2) by (auto simp: record_updates_def rpc_simps)
  then show ?thesis using posts_none [of s s e rc n] by (metis replicate_empty)
next
  case False
  then obtain updates where
    "rpc_map (record_reputation e rc job_id task_id gp) (numbered n updates) s = Some (Inr rs, s')"
    using assms(2) by (auto simp: rpc_simps record_updates_def record_reputation_updates_def)
  from reputations_post [OF assms(1) this] show ?thesis by blast
qed

text \<open>C21: A run that succeeds sent exactly one transaction of the writer's key per receipt: the task, then
  the responses in their order, then the credited updates, with consecutive nonces from the node's
  count, each worth at most the configured maximum, which is itself at most the hard cap; and every
  receipt is a confirmed one.\<close>

theorem recorded_transactions:
  assumes "make_recorder cc timeout = Inr rc" and "record_job_receipts e rc job_id request d s = Some (Inr jr, s')"
  shows "\<exists>a v nonce k ts. writer_address e rc = Inr a \<and>
     ce_node e (rp_calls s) ''eth_getTransactionCount'' [JStr a, JStr ''pending''] = Inr v \<and> rpc_hex_to_int v = Inr nonce \<and>
     posts e rc nonce (''task'' # replicate (length (dr_responses d)) ''contribution'' @ replicate k ''reputation'')
       s s' (jr_receipts jr) ts \<and>
     cc_native_test_payout_max_wei (rc_config rc) \<le> default_native_test_payout_max_wei"
proof -
  have cap: "capped rc" "cc_native_test_payout_max_wei (rc_config rc) \<le> default_native_test_payout_max_wei"
    using assms(1) validate_testnet_iff [of cc] by (auto simp: make_recorder_def res_bind_Inr_iff capped_def)
  obtain nonce s0 gp s1 task s2 task_id s3 cs s4 reps where
      nonce: "get_nonce e rc s = Some (Inr nonce, s0)" and gp: "get_gas_price e s0 = Some (Inr gp, s1)"
    and task: "record_task e rc job_id request nonce gp s1 = Some (Inr task, s2)"
    and task_id: "latest_task_id e rc s2 = Some (Inr task_id, s3)"
    and cs: "rpc_map (record_contribution e rc job_id task_id gp) (numbered (nonce + 1) (dr_responses d)) s3 = Some (Inr cs, s4)"
    and reps: "record_updates e rc job_id task_id (dr_run_metadata d) (nonce + int (length (dr_responses d)) + 1) gp s4 =
      Some (Inr reps, s')"
    and jr: "jr_receipts jr = task # cs @ reps"
    using assms(2) unfolding record_job_receipts_def rpc_bind_Inr rpc_lift_Some by auto
  note quiet = reading_is_quiet(1) [OF nonce] reading_is_quiet(2) [OF gp] reading_is_quiet(3) [OF task_id]
  obtain t where t: "posts e rc nonce [''task''] s1 s2 [task] [t]" using task_posts [OF cap(1) task] by blast
  obtain ts where ts: "posts e rc (nonce + 1) (replicate (length (dr_responses d)) ''contribution'') s3 s4 cs ts"
      "length cs = length (dr_responses d)"
    using contributions_post [OF cap(1) cs] by blast
  have "length ts = length (dr_responses d)" using ts by (simp add: posts_def)
  then have "nonce + int (length (dr_responses d)) + 1 = nonce + 1 + int (length ts)" by simp
  from updates_post [OF cap(1) reps [unfolded this]]
  obtain k us where us: "posts e rc (nonce + 1 + int (length ts)) (replicate k ''reputation'') s4 s' reps us" by blast
  from posts_append [OF posts_quiet(2) [OF ts(1) quiet(3)] us]
  have "posts e rc (nonce + int (length [t])) (replicate (length (dr_responses d)) ''contribution'' @ replicate k ''reputation'')
      s2 s' (cs @ reps) (ts @ us)" by simp
  from posts_append [OF posts_quiet(2) [OF t, of s] this] jr quiet
  have "posts e rc nonce (''task'' # replicate (length (dr_responses d)) ''contribution'' @ replicate k ''reputation'')
      s s' (jr_receipts jr) (t # ts @ us)" by simp
  then show ?thesis using get_nonce_answer [OF nonce] cap(2) by blast
qed

subsection \<open>A run ends\<close>

definition clock_advances :: "chain_env \<Rightarrow> bool" where
  "clock_advances e \<longleftrightarrow> (\<forall>t. \<exists>n. \<forall>m \<ge> n. t \<le> ce_clock e m)"

definition returns :: "'a rpc \<Rightarrow> bool" where
  "returns m \<longleftrightarrow> (\<forall>s. m s \<noteq> None)"

lemma returns_basic:
  "returns (rpc_lift r)" "returns (rpc_call e m ps)" "returns (read_clock e)"
  by (simp_all add: returns_def rpc_lift_def rpc_call_def read_clock_def)

lemma returns_bind: "returns m \<Longrightarrow> (\<And>x. returns (f x)) \<Longrightarrow> returns (rpc_bind m f)"
  by (auto simp: returns_def rpc_bind_def split: option.splits sum.splits)

lemma returns_map: "(\<And>x. returns (f x)) \<Longrightarrow> returns (rpc_map f xs)"
  by (induction xs) (auto intro!: returns_bind returns_basic)

lemma poll_returns:
  assumes "\<forall>m \<ge> n. d \<le> ce_clock e m"
  shows "poll_receipt e h d s \<noteq> None"
proof (induction "n - rp_reads s" arbitrary: s rule: less_induct)
  case less
  show ?case
  proof (cases "ce_clock e (rp_reads s) < d")
    case True
    then have "rp_reads s < n" using assms by (metis leD not_le)
    then have "n - Suc (rp_reads s) < n - rp_reads s" by simp
    then have "poll_receipt e h d (s\<lparr>rp_reads := Suc (rp_reads s), rp_calls := cs\<rparr>) \<noteq> None" for cs
      by (intro less.hyps) simp
    with True show ?thesis
      by (subst poll_receipt.simps) (simp add: Let_def split: sum.split)
  next
    case False
    then show ?thesis by (subst poll_receipt.simps) (simp add: Let_def)
  qed
qed

lemma broadcast_returns: "clock_advances e \<Longrightarrow> returns (broadcast_and_wait e rc raw)"
proof -
  assume clock: "clock_advances e"
  have "returns (poll_receipt e h d)" for h d
    unfolding returns_def using clock poll_returns unfolding clock_advances_def by meson
  then show ?thesis
    unfolding broadcast_and_wait_def wait_for_receipt_def by (intro returns_bind returns_basic)
qed

text \<open>C22: Recording ends: whatever the node answers, when the clock eventually passes every deadline the
  recorder returns receipts or raises.\<close>

theorem recording_terminates:
  assumes "clock_advances e"
  shows "\<exists>r s'. record_job_receipts e rc job_id request d s = Some (r, s')"
proof -
  note ends = broadcast_returns [OF assms]
  have task: "returns (record_task e rc job_id request n gp)" for n gp
    unfolding record_task_def by (intro returns_bind returns_basic ends)
  have contribution: "returns (record_contribution e rc job_id i gp p)" for i gp p
    unfolding record_contribution_def by (auto intro!: returns_bind returns_basic ends split: prod.split)
  have reputation: "returns (record_reputation e rc job_id i gp p)" for i gp p
    unfolding record_reputation_def by (auto intro!: returns_bind returns_basic ends split: prod.split)
  have updates: "returns (record_updates e rc job_id i md n gp)" for i md n gp
    unfolding record_updates_def record_reputation_updates_def
    by (auto intro!: returns_bind returns_basic returns_map reputation)
  have "returns (record_job_receipts e rc job_id request d)"
    unfolding record_job_receipts_def get_nonce_def get_gas_price_def latest_task_id_def
    by (intro returns_bind returns_basic returns_map task contribution updates)
  then show ?thesis unfolding returns_def by (metis not_None_eq surj_pair)
qed

subsection \<open>Scores\<close>

lemma abs_sum_bound: "\<bar>x - z\<bar> \<le> a \<Longrightarrow> \<bar>z\<bar> \<le> b \<Longrightarrow> \<bar>x\<bar> \<le> (a + b :: rat)"
  by linarith

lemma abs_chain_bound: "\<bar>w - x\<bar> \<le> a \<Longrightarrow> \<bar>x - z\<bar> \<le> b \<Longrightarrow> \<bar>w - z\<bar> \<le> (a + b :: rat)"
  by linarith

lemma scaled_micros:
  assumes "\<bar>k\<bar> \<le> 10 ^ 9"
  shows "scaled_int (num (micros k)) = Inr k"
proof -
  have k: "\<bar>of_int k :: rat\<bar> \<le> 10 ^ 9" using assms by (metis of_int_abs of_int_le_iff of_int_numeral of_int_power)
  have "\<bar>of_int k / 10 ^ 6 :: rat\<bar> < 2 ^ 30"
    using k by (simp add: abs_divide divide_less_eq)
  then have "\<bar>micros k - of_int k / 10 ^ 6\<bar> \<le> 1 / 2 ^ 24" unfolding micros_def by (rule fl_error_small)
  then have e: "\<bar>micros k * 10 ^ 6 - of_int k\<bar> \<le> 1 / 2 ^ 24 * 10 ^ 6" by (rule abs_scale_error)
  have "\<bar>micros k * 10 ^ 6\<bar> \<le> 1 / 2 ^ 24 * 10 ^ 6 + 10 ^ 9" by (rule abs_sum_bound [OF e k])
  also have "\<dots> < 2 ^ 30" by simp
  finally have small: "\<bar>micros k * 10 ^ 6\<bar> < 2 ^ 30" .
  then have "\<bar>fl (micros k * 10 ^ 6) - micros k * 10 ^ 6\<bar> \<le> 1 / 2 ^ 24" by (rule fl_error_small)
  then have "\<bar>fl (micros k * 10 ^ 6) - of_int k\<bar> \<le> 1 / 2 ^ 24 + 1 / 2 ^ 24 * 10 ^ 6" by (rule abs_chain_bound [OF _ e])
  also have "\<dots> < 1/2" by simp
  finally have "\<bar>fl (micros k * 10 ^ 6) - of_int k\<bar> < 1/2" .
  then have "round_even (fl (micros k * 10 ^ 6)) = k" by (rule round_even_near)
  moreover have "(2 ^ 30 :: rat) < float_max" by (simp add: float_max_def)
  ultimately show ?thesis using small
    by (simp add: scaled_int_def num_def py_float_of_def score_scale_def fmul_def)
qed

text \<open>A score or a number of points that is rounded to six places, as the ledger keeps it, is written
  to the chain as an integer of millionths, and the indexer reads the same double back.\<close>

theorem score_survives_chain:
  assumes "\<bar>y\<bar> \<le> 1000"
  shows "\<exists>i. scaled_int (num (py_round 6 y)) = Inr i \<and> unscale (JInt i) = Inr (py_round 6 y)"
proof -
  let ?k = "round_even (y * 10 ^ 6)"
  have "- (10 ^ 9) \<le> y * 10 ^ 6" "y * 10 ^ 6 \<le> 10 ^ 9" using assms by (simp_all add: abs_le_iff)
  from this [THEN round_even_mono] have "\<bar>?k\<bar> \<le> 10 ^ 9"
    using round_even_of_int [of "10 ^ 9"] round_even_of_int [of "- (10 ^ 9)"] by (simp add: abs_le_iff)
  moreover have "py_round 6 y = micros ?k" by (simp add: py_round_def micros_def)
  ultimately show ?thesis using scaled_micros [of ?k] unscale_micros [of ?k] by simp
qed

subsection \<open>Witnesses\<close>

definition demo_node :: "rpc_call list \<Rightarrow> string \<Rightarrow> json list \<Rightarrow> json res" where
  "demo_node calls m ps =
     (if m = ''eth_sendRawTransaction'' then Inr (JStr ''0xab'')
      else if m = ''eth_getTransactionReceipt'' then Inr (JObj [(''status'', JStr (hex_of_int 1))])
      else Inr (JStr (hex_of_int 5)))"

definition demo_chain :: chain_env where
  "demo_chain = \<lparr>ce_crypto = demo_crypto, ce_encode = (\<lambda>_ _. Inr []), ce_sign = (\<lambda>_ _. Inr ([], [])),
     ce_node = demo_node, ce_clock = of_nat\<rparr>"

definition demo_config :: chain_config where
  "demo_config = \<lparr>cc_rpc_url = [], cc_chain_id = 685685, cc_explorer_base_url = ''https://e'',
     cc_agent_registry_address = demo_address, cc_task_registry_address = demo_address,
     cc_receipt_registry_address = demo_address, cc_reputation_vault_address = zero_address,
     cc_native_test_payouts_enabled = False, cc_native_test_payout_wei = 5, cc_native_test_payout_max_wei = 9,
     cc_writer_private_key = ''0x1''\<rparr>"

definition demo_recorder :: receipt_recorder where
  "demo_recorder = \<lparr>rc_config = demo_config, rc_confirmations_timeout_seconds = 60\<rparr>"

definition demo_run :: dispatch_result where
  "demo_run = \<lparr>dr_responses = [demo_response], dr_topology_snapshot = [], dr_market_snapshot = [],
     dr_news_headlines = [], dr_input_sources = [], dr_rejected_responses = [], dr_verification_attestations = [],
     dr_run_metadata = [], dr_node_execution_records = [], dr_partial = True,
     dr_missing_roles = []\<rparr>"

lemma demo_hex: "0 \<le> n \<Longrightarrow> rpc_hex_to_int (JStr (hex_of_int n)) = Inr n"
proof -
  assume "0 \<le> n"
  then have "starts_with ''0x'' (hex_of_int n)" by (simp add: hex_of_int_def starts_with_def)
  then show ?thesis by (simp add: rpc_hex_to_int_def expect_hex_string_def hex_of_int_read)
qed

lemma demo_broadcast: "\<exists>s'. broadcast_and_wait demo_chain demo_recorder raw s = Some (Inr ''0xab'', s')"
proof -
  have "expect_hex_string (JStr ''0xab'') = Inr ''0xab''" by (simp add: expect_hex_string_def starts_with_def)
  moreover have "rpc_hex_to_int (jget [(''status'', JStr (hex_of_int 1))] ''status'') = Inr 1"
    using demo_hex [of 1] by (simp add: jget_def)
  moreover have "\<exists>s'. wait_for_receipt demo_chain demo_recorder h s = Some (Inr [(''status'', JStr (hex_of_int 1))], s')" for h s
    unfolding wait_for_receipt_def rpc_bind_Inr read_clock_Some
    by (subst poll_receipt.simps)
      (simp add: demo_chain_def demo_recorder_def demo_node_def Let_def is_obj_def)
  moreover have "ce_node demo_chain c ''eth_sendRawTransaction'' p = Inr (JStr ''0xab'')" for c p
    by (simp add: demo_chain_def demo_node_def)
  ultimately show ?thesis unfolding broadcast_and_wait_def rpc_bind_Inr rpc_call_Some rpc_lift_Some by fastforce
qed

lemma demo_recorder_made: "make_recorder demo_config 60 = Inr demo_recorder"
  by (simp add: make_recorder_def demo_recorder_def demo_config_def validate_testnet_def gensyn_testnet_chain_id_def
      default_native_test_payout_max_wei_def)

lemma demo_checksum_address: "to_checksum demo_crypto demo_address = Inr demo_address"
  using demo_address_ok by (simp add: demo_crypto_def)

lemma demo_signs_any: "\<exists>x. sign_transaction demo_chain demo_config tx = Inr x"
  by (simp add: sign_transaction_def demo_config_def demo_chain_def)

lemma demo_task_signed: "\<exists>x. sign_create_task_transaction demo_chain demo_config th uri n gp = Inr x" if "hash_ok th"
proof -
  have "\<exists>tx. build_create_task_transaction demo_chain demo_config th uri n gp 250000 = Inr tx"
    using bytes32_of_hash [OF that] demo_checksum_address
    by (auto simp: build_create_task_transaction_def encode_call_def base_transaction_def demo_chain_def demo_config_def)
  then show ?thesis using demo_signs_any by (auto simp: sign_create_task_transaction_def)
qed

lemma demo_contribution_signed:
  assumes "hash_ok oh" "hash_ok rh"
  shows "\<exists>x. sign_record_contribution_transaction demo_chain demo_config i demo_address role oh rh uri n gp = Inr x"
proof -
  have "\<exists>tx. build_record_contribution_transaction demo_chain demo_config i demo_address role oh rh uri n gp 350000 = Inr tx"
    using bytes32_of_hash [OF assms(1)] bytes32_of_hash [OF assms(2)] demo_checksum_address
    by (auto simp: build_record_contribution_transaction_def encode_call_def base_transaction_def demo_chain_def demo_config_def)
  then show ?thesis using demo_signs_any by (auto simp: sign_record_contribution_transaction_def)
qed

lemma demo_task_recorded: "\<exists>r s'. record_task demo_chain demo_recorder job_id request n gp s = Some (Inr r, s')"
proof -
  let ?t = "\<lparr>ts_job_id = job_id, ts_thesis = tr_thesis request, ts_asset = tr_asset request,
         ts_horizon_days = tr_horizon_days request\<rparr>"
  obtain h where h: "task_hash demo_crypto ?t = Inr h" using task_hash_total by blast
  then have "hash_ok h" using canonical_json_hash_ok [OF demo_crypto_ok] by (auto simp: task_hash_def)
  then obtain x where "sign_create_task_transaction demo_chain demo_config h (job_uri job_id ''task'') n gp = Inr x"
    using demo_task_signed by blast
  then show ?thesis using h demo_broadcast [of "st_raw_transaction x" s]
    by (auto simp: record_task_def rpc_simps demo_chain_def demo_recorder_def)
qed

lemma demo_contribution_recorded:
  "\<exists>r s'. record_contribution demo_chain demo_recorder job_id i gp (n, demo_response) s = Some (Inr r, s')"
proof -
  obtain h where h: "output_hash demo_crypto demo_response = Inr h"
  proof -
    have "finite_json (specialist_response_json demo_response)"
      by (simp add: specialist_response_json_def specialist_response_fields_def demo_response_def
          sample_response_def scenario_json_def opt_obj_def)
    then show ?thesis using output_hash_total that by blast
  qed
  then have "hash_ok h" using canonical_json_hash_ok [OF demo_crypto_ok] by (auto simp: output_hash_def)
  moreover have "hash_ok (ree_hash_or_zero demo_response)"
    by (simp add: ree_hash_or_zero_def demo_response_def sample_response_def zero_bytes32_def hex_pattern_def
        starts_with_def list_all_iff hex_value_def char_code_def)
  ultimately obtain x where x: "sign_record_contribution_transaction demo_chain demo_config i demo_address
      (sr_node_role demo_response) h (ree_hash_or_zero demo_response)
      (job_uri job_id (''contributions/'' @ sr_node_role demo_response)) n gp = Inr x"
    using demo_contribution_signed by blast
  have "writer_address demo_chain demo_recorder = Inr demo_address"
    by (simp add: writer_address_def demo_chain_def demo_crypto_def)
  moreover have "ce_crypto demo_chain = demo_crypto" "rc_config demo_recorder = demo_config"
    by (simp_all add: demo_chain_def demo_recorder_def)
  ultimately have "res_bind (writer_address demo_chain demo_recorder) (\<lambda>a.
      res_bind (output_hash (ce_crypto demo_chain) demo_response) (\<lambda>oh.
       sign_record_contribution_transaction demo_chain (rc_config demo_recorder) i a (sr_node_role demo_response) oh
         (ree_hash_or_zero demo_response) (job_uri job_id (''contributions/'' @ sr_node_role demo_response)) n gp)) = Inr x"
    using h x by (simp only: res_bind_simps)
  then show ?thesis using demo_broadcast [of "st_raw_transaction x" s]
    unfolding record_contribution_def prod.case rpc_bind_Inr rpc_lift_Some by blast
qed

lemma demo_run_recorded:
  "\<exists>jr s'. record_job_receipts demo_chain demo_recorder ''job-1'' demo_request demo_run s = Some (Inr jr, s')"
proof -
  have node: "ce_node demo_chain c m p = Inr (JStr (hex_of_int 5))"
    if "m \<noteq> ''eth_sendRawTransaction''" "m \<noteq> ''eth_getTransactionReceipt''" for c m p
    using that by (simp add: demo_chain_def demo_node_def)
  have nonce: "\<exists>s'. get_nonce demo_chain demo_recorder s = Some (Inr 5, s')" for s
    using demo_hex [of 5] node by (simp add: get_nonce_def rpc_simps writer_address_def demo_chain_def demo_crypto_def)
  have gas: "\<exists>s'. get_gas_price demo_chain s = Some (Inr 5, s')" for s
    using demo_hex [of 5] node by (simp add: get_gas_price_def rpc_simps)
  have task_id: "\<exists>s'. latest_task_id demo_chain demo_recorder s = Some (Inr 4, s')" for s
    using demo_hex [of 5] node by (simp add: latest_task_id_def rpc_simps)
  obtain s1 where s1: "get_nonce demo_chain demo_recorder s = Some (Inr 5, s1)" using nonce by blast
  obtain s2 where s2: "get_gas_price demo_chain s1 = Some (Inr 5, s2)" using gas by blast
  obtain r s3 where s3: "record_task demo_chain demo_recorder ''job-1'' demo_request 5 5 s2 = Some (Inr r, s3)"
    using demo_task_recorded by blast
  obtain s4 where s4: "latest_task_id demo_chain demo_recorder s3 = Some (Inr 4, s4)" using task_id by blast
  obtain c s5 where s5: "record_contribution demo_chain demo_recorder ''job-1'' 4 5 (6, demo_response) s4 = Some (Inr c, s5)"
    using demo_contribution_recorded by blast
  have "rpc_map (record_contribution demo_chain demo_recorder ''job-1'' 4 5) (numbered (5 + 1) (dr_responses demo_run)) s4 =
      Some (Inr [c], s5)"
    using s5 by (simp add: demo_run_def rpc_simps)
  moreover have "record_updates demo_chain demo_recorder ''job-1'' 4 md n 5 s5 = Some (Inr [], s5)" for md n
    by (simp add: record_updates_def demo_recorder_def demo_config_def rpc_simps)
  ultimately show ?thesis using s1 s2 s3 s4
    unfolding record_job_receipts_def rpc_bind_Inr rpc_lift_Some by blast
qed

lemma recorded_transactions_witness:
  "\<exists>jr s' (ts :: signed_tx list) k. record_job_receipts demo_chain demo_recorder ''job-1'' demo_request demo_run \<lparr>rp_calls = [], rp_reads = 0\<rparr> =
     Some (Inr jr, s') \<and> map ct_kind (jr_receipts jr) = ''task'' # ''contribution'' # replicate k ''reputation'' \<and>
     raw_sent s' = map (\<lambda>t. [JStr (st_raw_transaction t)]) ts \<and> length ts = k + 2"
proof -
  obtain jr s' where run: "record_job_receipts demo_chain demo_recorder ''job-1'' demo_request demo_run
      \<lparr>rp_calls = [], rp_reads = 0\<rparr> = Some (Inr jr, s')" using demo_run_recorded by blast
  from recorded_transactions [OF demo_recorder_made run] obtain n k ts where
    "posts demo_chain demo_recorder n (''task'' # replicate (length (dr_responses demo_run)) ''contribution'' @
       replicate k ''reputation'') \<lparr>rp_calls = [], rp_reads = 0\<rparr> s' (jr_receipts jr) ts" by blast
  then have p: "map ct_kind (jr_receipts jr) = ''task'' # ''contribution'' # replicate k ''reputation''"
      "raw_sent s' = map (\<lambda>t. [JStr (st_raw_transaction t)]) ts" "length ts = length (jr_receipts jr)"
    by (auto simp: posts_def demo_run_def raw_sent_def)
  from arg_cong [where f = length, OF p(1)] have "length ts = k + 2" using p(3) by simp
  then show ?thesis by (intro exI conjI) (rule run p)+
qed

lemma recording_terminates_witness:
  "\<exists>r s'. record_job_receipts demo_chain demo_recorder ''job-1'' demo_request demo_run \<lparr>rp_calls = [], rp_reads = 0\<rparr> = Some (r, s')"
proof -
  have "\<exists>n. \<forall>m \<ge> n. t \<le> of_nat m" for t :: rat
    by (metis real_arch_simple of_nat_le_iff order_trans)
  then have "clock_advances demo_chain" by (simp add: clock_advances_def demo_chain_def)
  then show ?thesis by (rule recording_terminates)
qed

lemma score_survives_chain_witness:
  "\<exists>i. scaled_int (num (py_round 6 (1/3))) = Inr i \<and> unscale (JInt i) = Inr (py_round 6 (1/3))"
  by (rule score_survives_chain) simp

end
