(* ===== verification/Tamper.thy ===== *)
theory Tamper
  imports Ree
begin

section \<open>Tamper detection (app/tamper/detector.py, adversarial.py, harness.py)\<close>

text \<open>
  The nine checks of a signed execution, the six attacks of the demonstration and the harness that runs
  them side by side. Keys, addresses and signatures are the record \<open>crypto\<close>; the receipt fixture is an
  argument of the harness.

  Shown: what verifies with a valid receipt claim is what the detector calls clean, for one job and with
  digests in lower case; the detector, unlike the verifier, compares neither the job of the task with the
  job of the response nor the case of the digests; five of the attacks on a verified execution are caught
  with the checks the demonstration names.
\<close>

subsection \<open>Checks\<close>

record tamper_check =
  tc_name :: string
  tc_passed :: bool
  tc_detail :: string
  tc_expected :: "string option"
  tc_observed :: "string option"

record detection_result =
  dt_status :: string
  dt_checks :: "tamper_check list"
  dt_failed_check_names :: "string list"

definition tamper_check_json :: "tamper_check \<Rightarrow> json" where
  "tamper_check_json k = JObj
     [(''name'', JStr (tc_name k)), (''passed'', JBool (tc_passed k)), (''detail'', JStr (tc_detail k)),
      (''expected'', opt_str (tc_expected k)), (''observed'', opt_str (tc_observed k))]"

definition detection_result_json :: "detection_result \<Rightarrow> json" where
  "detection_result_json d = JObj
     [(''status'', JStr (dt_status d)), (''failed_check_names'', str_list (dt_failed_check_names d)),
      (''checks'', JList (map tamper_check_json (dt_checks d)))]"

definition tampering_check :: "string \<Rightarrow> bool \<Rightarrow> string \<Rightarrow> string option \<Rightarrow> string option \<Rightarrow> tamper_check" where
  "tampering_check name passed detail expected observed =
     \<lparr>tc_name = name, tc_passed = passed, tc_detail = detail, tc_expected = expected, tc_observed = observed\<rparr>"

definition check_output_hash :: "crypto \<Rightarrow> signed_agent_execution \<Rightarrow> tamper_check res" where
  "check_output_hash c x =
     (let claimed = se_output_hash (sx_signature x) in
      res_bind (output_hash c (sx_response x)) (\<lambda>recomputed.
        Inr (tampering_check ''output_hash_match'' (to_lower claimed = to_lower recomputed)
          ''response body must canonical-hash to envelope.output_hash'' (Some claimed) (Some recomputed))))"

definition check_task_hash :: "crypto \<Rightarrow> signed_agent_execution \<Rightarrow> tamper_check res" where
  "check_task_hash c x =
     (let claimed = se_task_hash (sx_signature x) in
      res_bind (task_hash c (sx_task x)) (\<lambda>recomputed.
        Inr (tampering_check ''task_hash_match'' (to_lower claimed = to_lower recomputed)
          ''task body must canonical-hash to envelope.task_hash'' (Some claimed) (Some recomputed))))"

definition check_identity_role :: "signed_agent_execution \<Rightarrow> tamper_check" where
  "check_identity_role x =
     tampering_check ''identity_role_match'' (ai_role (sx_identity x) = sr_node_role (sx_response x))
       ''identity.role must equal response.node_role'' (Some (ai_role (sx_identity x))) (Some (sr_node_role (sx_response x)))"

definition check_identity_peer_id :: "signed_agent_execution \<Rightarrow> tamper_check" where
  "check_identity_peer_id x =
     tampering_check ''identity_peer_id_match'' (ai_peer_id (sx_identity x) = sr_peer_id (sx_response x))
       ''identity.peer_id must equal response.peer_id'' (Some (ai_peer_id (sx_identity x))) (Some (sr_peer_id (sx_response x)))"

definition check_signer_matches_identity :: "signed_agent_execution \<Rightarrow> tamper_check" where
  "check_signer_matches_identity x =
     (let signer = se_signer (sx_signature x); wallet = ai_wallet (sx_identity x) in
      tampering_check ''signer_equals_identity_wallet'' (to_lower signer = to_lower wallet)
        ''envelope.signer must equal identity.wallet'' (Some wallet) (Some signer))"

definition check_response_wallet_matches_identity :: "crypto \<Rightarrow> signed_agent_execution \<Rightarrow> tamper_check res" where
  "check_response_wallet_matches_identity c x =
     res_bind (to_checksum c (ai_wallet (sx_identity x))) (\<lambda>identity_wallet.
     res_bind (case sr_agent_wallet (sx_response x) of
         None \<Rightarrow> Inr (True, ''not_declared'')
       | Some w \<Rightarrow> res_bind (to_checksum c w) (\<lambda>rw. Inr (rw = identity_wallet, rw))) (\<lambda>(matches, observed).
       Inr (tampering_check ''response_wallet_matches_identity'' matches
         ''response.agent_wallet must be absent or equal the signed identity wallet''
         (Some identity_wallet) (Some observed))))"

definition check_signature_recovers_signer :: "crypto \<Rightarrow> signed_agent_execution \<Rightarrow> tamper_check res" where
  "check_signature_recovers_signer c x =
     (let claimed = se_signer (sx_signature x) in
      case recover_execution_signer c x of
        Inl e \<Rightarrow> Inr (tampering_check ''signature_recovers_signer'' False
          (''signature recovery raised: '' @ error_text e) (Some claimed) None)
      | Inr recovered \<Rightarrow> res_bind (to_checksum c claimed) (\<lambda>ck.
          Inr (tampering_check ''signature_recovers_signer'' (to_lower ck = to_lower recovered)
            ''EIP-191 recovery must return envelope.signer'' (Some ck) (Some recovered))))"

definition check_receipt_consistency :: "crypto \<Rightarrow> signed_agent_execution \<Rightarrow> tamper_check res" where
  "check_receipt_consistency c x =
     res_bind (check_receipt_claim c (sx_response x)) (\<lambda>k.
       Inr (tampering_check ''receipt_consistency'' (rc_valid k)
         (if rc_valid k then ''receipt claim material passed fail-closed validation''
          else ''receipt claim failed: '' @ join '','' (rc_reasons k))
         (Some ''valid embedded evidence for the claimed receipt status'') (Some (rc_status k))))"

definition check_signature_algorithm :: "signed_agent_execution \<Rightarrow> tamper_check" where
  "check_signature_algorithm x =
     (let algorithm = se_algorithm (sx_signature x) in
      tampering_check ''signature_algorithm_supported'' (algorithm = ''eip191'')
        ''only eip191 signatures are accepted'' (Some ''eip191'') (Some algorithm))"

definition detect_tampering :: "crypto \<Rightarrow> signed_agent_execution \<Rightarrow> detection_result res" where
  "detect_tampering c x =
     res_bind (check_output_hash c x) (\<lambda>k1.
     res_bind (check_task_hash c x) (\<lambda>k2.
     res_bind (check_response_wallet_matches_identity c x) (\<lambda>k6.
     res_bind (check_signature_recovers_signer c x) (\<lambda>k7.
     res_bind (check_receipt_consistency c x) (\<lambda>k8.
       let checks = [k1, k2, check_identity_role x, check_identity_peer_id x, check_signer_matches_identity x, k6, k7, k8,
             check_signature_algorithm x];
           failed = map tc_name (filter (\<lambda>k. \<not> tc_passed k) checks)
       in Inr \<lparr>dt_status = (if failed = [] then ''clean'' else ''tampered''), dt_checks = checks,
               dt_failed_check_names = failed\<rparr>)))))"

subsection \<open>Attacks\<close>

record attack =
  at_name :: string
  at_description :: string
  at_expected_failed_checks :: "string list"

definition attacks :: "attack list" where
  "attacks =
     [\<lparr>at_name = ''field_tamper_after_sign'',
       at_description = ''Mutate response.summary after signing without resigning. The envelope output_hash no longer matches the body.'',
       at_expected_failed_checks = [''output_hash_match'']\<rparr>,
      \<lparr>at_name = ''signer_swap_in_envelope'',
       at_description = ''Replace envelope.signer with a different address while keeping the original signature.'',
       at_expected_failed_checks = [''signer_equals_identity_wallet'', ''signature_recovers_signer'']\<rparr>,
      \<lparr>at_name = ''forged_signature_with_attacker_key'',
       at_description = ''Re-sign the envelope with an attacker private key but keep the victim's identity.wallet.'',
       at_expected_failed_checks = [''signature_recovers_signer'']\<rparr>,
      \<lparr>at_name = ''agent_wallet_substitution'',
       at_description = ''Replace response.agent_wallet with a different address while keeping the victim's signed identity.'',
       at_expected_failed_checks = [''output_hash_match'', ''response_wallet_matches_identity'']\<rparr>,
      \<lparr>at_name = ''role_substitution'',
       at_description = ''Identity claims role=risk while response carries node_role=narrative.'',
       at_expected_failed_checks = [''output_hash_match'', ''identity_role_match'']\<rparr>,
      \<lparr>at_name = ''receipt_status_overclaim'',
       at_description = ''Set receipt_status='verified' while stripping ree_receipt_body. Output hash also drifts because the response body changed.'',
       at_expected_failed_checks = [''output_hash_match'', ''receipt_consistency'']\<rparr>]"

definition field_tamper_after_sign :: "signed_agent_execution \<Rightarrow> signed_agent_execution" where
  "field_tamper_after_sign x =
     x\<lparr>sx_response := (sx_response x)\<lparr>sr_summary := sr_summary (sx_response x) @ '' [TAMPERED PAYLOAD]''\<rparr>\<rparr>"

definition signer_swap_in_envelope :: "signed_agent_execution \<Rightarrow> string \<Rightarrow> signed_agent_execution" where
  "signer_swap_in_envelope x attacker = x\<lparr>sx_signature := (sx_signature x)\<lparr>se_signer := attacker\<rparr>\<rparr>"

definition forged_signature_with_attacker_key :: "crypto \<Rightarrow> signed_agent_execution \<Rightarrow> string \<Rightarrow> signed_agent_execution res" where
  "forged_signature_with_attacker_key c x attacker_key =
     res_bind (key_address c attacker_key) (\<lambda>attacker.
     res_bind (make_agent_identity \<lparr>ai_role = ai_role (sx_identity x), ai_peer_id = ai_peer_id (sx_identity x),
         ai_wallet = attacker\<rparr>) (\<lambda>spoof_identity.
     res_bind (sign_agent_execution c (sx_task x) ((sx_response x)\<lparr>sr_agent_wallet := Some attacker\<rparr>) spoof_identity attacker_key) (\<lambda>resigned.
       Inr (x\<lparr>sx_signature := (sx_signature resigned)
         \<lparr>se_signer := ai_wallet (sx_identity x), se_output_hash := se_output_hash (sx_signature x)\<rparr>\<rparr>))))"

definition agent_wallet_substitution :: "signed_agent_execution \<Rightarrow> string \<Rightarrow> signed_agent_execution" where
  "agent_wallet_substitution x attacker = x\<lparr>sx_response := (sx_response x)\<lparr>sr_agent_wallet := Some attacker\<rparr>\<rparr>"

definition role_substitution :: "signed_agent_execution \<Rightarrow> signed_agent_execution" where
  "role_substitution x =
     (let other = (if ai_role (sx_identity x) \<noteq> ''narrative'' then ''narrative'' else ''risk'')
      in x\<lparr>sx_response := (sx_response x)\<lparr>sr_node_role := other\<rparr>\<rparr>)"

definition receipt_status_overclaim :: "signed_agent_execution \<Rightarrow> signed_agent_execution" where
  "receipt_status_overclaim x =
     x\<lparr>sx_response := (sx_response x)\<lparr>sr_receipt_status := Some ''verified'', sr_ree_receipt_body := None,
       sr_ree_receipt_hash := None, sr_ree_receipt_path := None\<rparr>\<rparr>"

subsection \<open>The harness\<close>

definition demo_victim_key :: string where "demo_victim_key = ''0x'' @ replicate 64 (CHR ''1'')"
definition demo_attacker_key :: string where "demo_attacker_key = ''0x'' @ replicate 64 (CHR ''2'')"

text \<open>\<^verbatim>\<open>receipt_body[k]\<close>, given to an optional text field of the response.\<close>

definition receipt_entry :: "jobject \<Rightarrow> string \<Rightarrow> string option res" where
  "receipt_entry d k = (if dget d k = None then Inl (KeyError k) else opt_str_field d k)"

definition build_honest_execution :: "crypto \<Rightarrow> jobject \<Rightarrow> signed_agent_execution res" where
  "build_honest_execution c receipt_body =
     res_bind (key_address c demo_victim_key) (\<lambda>victim.
     res_bind (make_task_spec \<lparr>ts_job_id = ''demo-job-tamper-001'',
       ts_thesis = ''ETH continues to lead L2 settlement volume into the next quarter.'', ts_asset = ''ETH'',
       ts_horizon_days = 30\<rparr>) (\<lambda>task.
     res_bind (receipt_entry receipt_body ''receipt_hash'') (\<lambda>receipt_hash.
     res_bind (receipt_entry receipt_body ''prompt_hash'') (\<lambda>prompt_hash.
     res_bind (receipt_entry receipt_body ''tokens_hash'') (\<lambda>tokens_hash.
     res_bind (receipt_entry receipt_body ''model_name'') (\<lambda>model_name.
     res_bind (make_specialist_response
       \<lparr>sr_job_id = ts_job_id task, sr_node_role = ''risk'', sr_peer_id = ''peer-risk-demo-001'',
        sr_summary = ''Counter-thesis exists: rollup-fee compression could materially lower settlement revenue if blob market clears below 2 gwei.'',
        sr_scenario_view = \<lparr>sv_bull = Fin (fl (30/100)), sv_base = Fin (1/2), sv_bear = Fin (fl (20/100))\<rparr>,
        sr_signals = [''Blob fee market is below the prior 30-day median.'', ''L2 sequencer revenue concentrated in two operators.''],
        sr_risks = [''Rollup operator outage with no fast-bridge fallback.'', ''Fee market regression below settlement breakeven.''],
        sr_confidence = fl (62/100), sr_citations = [], sr_timestamp = ''2026-05-03T00:00:00Z'',
        sr_agent_wallet = Some victim, sr_ree_receipt_hash = receipt_hash, sr_receipt_status = Some ''validated'',
        sr_ree_prompt_hash = prompt_hash, sr_ree_tokens_hash = tokens_hash, sr_ree_model_name = model_name,
        sr_ree_receipt_body = Some receipt_body, sr_ree_receipt_path = None\<rparr>) (\<lambda>response.
     res_bind (make_agent_identity \<lparr>ai_role = ''risk'', ai_peer_id = sr_peer_id response, ai_wallet = victim\<rparr>) (\<lambda>identity.
       sign_agent_execution c task response identity demo_victim_key))))))))"

definition apply_attack :: "crypto \<Rightarrow> string \<Rightarrow> string \<Rightarrow> signed_agent_execution \<Rightarrow> signed_agent_execution res" where
  "apply_attack c attacker name x =
     (if name = ''field_tamper_after_sign'' then Inr (field_tamper_after_sign x)
      else if name = ''signer_swap_in_envelope'' then Inr (signer_swap_in_envelope x attacker)
      else if name = ''forged_signature_with_attacker_key'' then forged_signature_with_attacker_key c x demo_attacker_key
      else if name = ''agent_wallet_substitution'' then Inr (agent_wallet_substitution x attacker)
      else if name = ''role_substitution'' then Inr (role_substitution x)
      else if name = ''receipt_status_overclaim'' then Inr (receipt_status_overclaim x)
      else Inl (KeyError name))"

record attack_run =
  sn_attack :: attack
  sn_detection :: detection_result
  sn_tampered :: signed_agent_execution

definition attack_run_json :: "attack_run \<Rightarrow> json" where
  "attack_run_json s = JObj
     [(''attack'', JObj [(''name'', JStr (at_name (sn_attack s))), (''description'', JStr (at_description (sn_attack s))),
        (''expected_failed_checks'', str_list (at_expected_failed_checks (sn_attack s)))]),
      (''detection'', detection_result_json (sn_detection s)),
      (''tampered_execution'', signed_execution_json (sn_tampered s))]"

definition run_attack :: "crypto \<Rightarrow> string \<Rightarrow> signed_agent_execution \<Rightarrow> attack \<Rightarrow> attack_run res" where
  "run_attack c attacker honest a =
     res_bind (apply_attack c attacker (at_name a) honest) (\<lambda>tampered.
     res_bind (detect_tampering c tampered) (\<lambda>d.
       Inr \<lparr>sn_attack = a, sn_detection = d, sn_tampered = tampered\<rparr>))"

definition caught :: "attack_run \<Rightarrow> bool" where
  "caught s \<longleftrightarrow> dt_status (sn_detection s) = ''tampered''"

definition run_side_by_side :: "crypto \<Rightarrow> jobject \<Rightarrow> json res" where
  "run_side_by_side c receipt_body =
     res_bind (build_honest_execution c receipt_body) (\<lambda>honest.
     res_bind (detect_tampering c honest) (\<lambda>honest_result.
     res_bind (key_address c demo_attacker_key) (\<lambda>attacker.
     res_bind (map_res (run_attack c attacker honest) attacks) (\<lambda>scenarios.
       Inr (JObj
         [(''schema'', JStr ''signal-count.tamper-evidence/v1''),
          (''honest'', JObj [(''execution'', signed_execution_json honest), (''detection'', detection_result_json honest_result)]),
          (''attacks'', JList (map attack_run_json scenarios)),
          (''summary'', JObj
            [(''honest_status'', JStr (dt_status honest_result)), (''attack_count'', JInt (int (length scenarios))),
             (''all_attacks_caught'', JBool (list_all caught scenarios)),
             (''attacks_caught'', str_list (map (\<lambda>s. at_name (sn_attack s)) (filter caught scenarios))),
             (''attacks_missed'', str_list (map (\<lambda>s. at_name (sn_attack s)) (filter (\<lambda>s. \<not> caught s) scenarios)))])])))))"

subsection \<open>The detector and the verifier\<close>

lemma tampering_check_fields [simp]:
  "tc_name (tampering_check n p d e ob) = n" "tc_passed (tampering_check n p d e ob) = p"
  by (simp_all add: tampering_check_def)

lemma status_verified: "to_lower (strip ''verified'') = ''verified''"
  by code_simp

lemma failed_names:
  "map tc_name (filter (\<lambda>k. \<not> tc_passed k) []) = []"
  "map tc_name (filter (\<lambda>k. \<not> tc_passed k) (k # ks)) =
     (if tc_passed k then [] else [tc_name k]) @ map tc_name (filter (\<lambda>k. \<not> tc_passed k) ks)"
  by simp_all

lemma pure_checks:
  "tc_name (check_identity_role x) = ''identity_role_match''"
  "tc_passed (check_identity_role x) = (ai_role (sx_identity x) = sr_node_role (sx_response x))"
  "tc_name (check_identity_peer_id x) = ''identity_peer_id_match''"
  "tc_passed (check_identity_peer_id x) = (ai_peer_id (sx_identity x) = sr_peer_id (sx_response x))"
  "tc_name (check_signer_matches_identity x) = ''signer_equals_identity_wallet''"
  "tc_passed (check_signer_matches_identity x) = (to_lower (se_signer (sx_signature x)) = to_lower (ai_wallet (sx_identity x)))"
  "tc_name (check_signature_algorithm x) = ''signature_algorithm_supported''"
  "tc_passed (check_signature_algorithm x) = (se_algorithm (sx_signature x) = ''eip191'')"
  by (simp_all add: check_identity_role_def check_identity_peer_id_def check_signer_matches_identity_def
      check_signature_algorithm_def Let_def)

definition wallet_matches :: "crypto \<Rightarrow> signed_agent_execution \<Rightarrow> bool" where
  "wallet_matches c x \<longleftrightarrow>
     (case sr_agent_wallet (sx_response x) of None \<Rightarrow> True | Some w \<Rightarrow> to_checksum c w = to_checksum c (ai_wallet (sx_identity x)))"

definition recovers :: "crypto \<Rightarrow> signed_agent_execution \<Rightarrow> bool" where
  "recovers c x \<longleftrightarrow> (\<exists>r k. recover_execution_signer c x = Inr r \<and> to_checksum c (se_signer (sx_signature x)) = Inr k \<and>
     to_lower k = to_lower r)"

text \<open>The failed checks of a run that returns, by name.\<close>

lemma detected:
  assumes "detect_tampering c x = Inr d"
  shows "\<exists>oh th w k. output_hash c (sx_response x) = Inr oh \<and> task_hash c (sx_task x) = Inr th \<and>
     to_checksum c (ai_wallet (sx_identity x)) = Inr w \<and> check_receipt_claim c (sx_response x) = Inr k \<and>
     dt_status d = (if dt_failed_check_names d = [] then ''clean'' else ''tampered'') \<and>
     dt_failed_check_names d =
       (if to_lower (se_output_hash (sx_signature x)) = to_lower oh then [] else [''output_hash_match'']) @
       (if to_lower (se_task_hash (sx_signature x)) = to_lower th then [] else [''task_hash_match'']) @
       (if ai_role (sx_identity x) = sr_node_role (sx_response x) then [] else [''identity_role_match'']) @
       (if ai_peer_id (sx_identity x) = sr_peer_id (sx_response x) then [] else [''identity_peer_id_match'']) @
       (if to_lower (se_signer (sx_signature x)) = to_lower (ai_wallet (sx_identity x)) then [] else [''signer_equals_identity_wallet'']) @
       (if wallet_matches c x then [] else [''response_wallet_matches_identity'']) @
       (if recovers c x then [] else [''signature_recovers_signer'']) @
       (if rc_valid k then [] else [''receipt_consistency'']) @
       (if se_algorithm (sx_signature x) = ''eip191'' then [] else [''signature_algorithm_supported''])"
proof -
  obtain k1 k2 k6 k7 k8 where k: "check_output_hash c x = Inr k1" "check_task_hash c x = Inr k2"
      "check_response_wallet_matches_identity c x = Inr k6" "check_signature_recovers_signer c x = Inr k7"
      "check_receipt_consistency c x = Inr k8"
    and d: "d = (let checks = [k1, k2, check_identity_role x, check_identity_peer_id x, check_signer_matches_identity x, k6, k7, k8,
             check_signature_algorithm x]; failed = map tc_name (filter (\<lambda>k. \<not> tc_passed k) checks)
       in \<lparr>dt_status = (if failed = [] then ''clean'' else ''tampered''), dt_checks = checks, dt_failed_check_names = failed\<rparr>)"
    using assms unfolding detect_tampering_def res_bind_Inr_iff Let_def by auto
  obtain oh where oh: "output_hash c (sx_response x) = Inr oh" "tc_name k1 = ''output_hash_match''"
      "tc_passed k1 = (to_lower (se_output_hash (sx_signature x)) = to_lower oh)"
    using k(1) by (auto simp: check_output_hash_def res_bind_Inr_iff Let_def)
  obtain th where th: "task_hash c (sx_task x) = Inr th" "tc_name k2 = ''task_hash_match''"
      "tc_passed k2 = (to_lower (se_task_hash (sx_signature x)) = to_lower th)"
    using k(2) by (auto simp: check_task_hash_def res_bind_Inr_iff Let_def)
  obtain w where w: "to_checksum c (ai_wallet (sx_identity x)) = Inr w" "tc_name k6 = ''response_wallet_matches_identity''"
      "tc_passed k6 = wallet_matches c x"
    using k(3) by (cases "sr_agent_wallet (sx_response x)")
      (auto simp: check_response_wallet_matches_identity_def res_bind_Inr_iff wallet_matches_def)
  have r: "tc_name k7 = ''signature_recovers_signer''" "tc_passed k7 = recovers c x"
    using k(4) by (auto simp: check_signature_recovers_signer_def res_bind_Inr_iff recovers_def Let_def split: sum.splits)
  obtain v where v: "check_receipt_claim c (sx_response x) = Inr v" "tc_name k8 = ''receipt_consistency''" "tc_passed k8 = rc_valid v"
    using k(5) by (auto simp: check_receipt_consistency_def res_bind_Inr_iff)
  have "dt_status d = (if dt_failed_check_names d = [] then ''clean'' else ''tampered'')" by (simp add: d Let_def)
  moreover have "dt_failed_check_names d = map tc_name (filter (\<lambda>k. \<not> tc_passed k)
      [k1, k2, check_identity_role x, check_identity_peer_id x, check_signer_matches_identity x, k6, k7, k8,
       check_signature_algorithm x])"
    unfolding d Let_def detection_result.select_convs by (rule refl)
  ultimately show ?thesis
    unfolding failed_names pure_checks oh(2,3) th(2,3) w(2,3) r v(2,3) append_Nil2
    using oh(1) th(1) w(1) v(1) by blast
qed

lemma clean_execution:
  assumes "detect_tampering c x = Inr d"
  shows "dt_status d = ''clean'' \<longleftrightarrow>
     (\<exists>oh th k. output_hash c (sx_response x) = Inr oh \<and> to_lower (se_output_hash (sx_signature x)) = to_lower oh \<and>
        task_hash c (sx_task x) = Inr th \<and> to_lower (se_task_hash (sx_signature x)) = to_lower th \<and>
        ai_role (sx_identity x) = sr_node_role (sx_response x) \<and> ai_peer_id (sx_identity x) = sr_peer_id (sx_response x) \<and>
        to_lower (se_signer (sx_signature x)) = to_lower (ai_wallet (sx_identity x)) \<and> wallet_matches c x \<and> recovers c x \<and>
        check_receipt_claim c (sx_response x) = Inr k \<and> rc_valid k \<and> se_algorithm (sx_signature x) = ''eip191'')"
proof -
  obtain oh th w k where *: "output_hash c (sx_response x) = Inr oh" "task_hash c (sx_task x) = Inr th"
     "check_receipt_claim c (sx_response x) = Inr k"
     "dt_status d = (if dt_failed_check_names d = [] then ''clean'' else ''tampered'')"
     "dt_failed_check_names d =
       (if to_lower (se_output_hash (sx_signature x)) = to_lower oh then [] else [''output_hash_match'']) @
       (if to_lower (se_task_hash (sx_signature x)) = to_lower th then [] else [''task_hash_match'']) @
       (if ai_role (sx_identity x) = sr_node_role (sx_response x) then [] else [''identity_role_match'']) @
       (if ai_peer_id (sx_identity x) = sr_peer_id (sx_response x) then [] else [''identity_peer_id_match'']) @
       (if to_lower (se_signer (sx_signature x)) = to_lower (ai_wallet (sx_identity x)) then [] else [''signer_equals_identity_wallet'']) @
       (if wallet_matches c x then [] else [''response_wallet_matches_identity'']) @
       (if recovers c x then [] else [''signature_recovers_signer'']) @
       (if rc_valid k then [] else [''receipt_consistency'']) @
       (if se_algorithm (sx_signature x) = ''eip191'' then [] else [''signature_algorithm_supported''])"
    using detected [OF assms] by blast
  show ?thesis unfolding *(4) *(5) using *(1-3) by (simp split: if_split)
qed

lemma lower_hash:
  assumes "\<forall>m. to_lower (keccak_digest c m) = keccak_digest c m" "canonical_json_hash c v = Inr h"
  shows "to_lower h = h"
proof -
  obtain t where "h = ''0x'' @ keccak_digest c t"
    using assms(2) by (auto simp: canonical_json_hash_def keccak256_hex_def res_bind_Inr_iff)
  moreover have "to_lower ''0x'' = ''0x''" by (simp add: to_lower_def)
  ultimately show ?thesis using assms(1) by (simp only: to_lower_append)
qed

lemma wallet_matches_verifier:
  assumes "crypto_ok c" "address_ok (ai_wallet (sx_identity x))" "normalize_identity c (sx_identity x) = Inr nid"
  shows "response_wallet_matches_identity c (sx_response x) nid = Inr True \<longleftrightarrow> wallet_matches c x"
proof -
  have w: "to_checksum c (ai_wallet (sx_identity x)) = Inr (ai_wallet nid)"
    using normalize_identity_simps [OF assms(3)] by simp
  have "to_checksum c (ai_wallet nid) = Inr (ai_wallet nid)" by (rule crypto_checksum(2) [OF assms(1) w assms(2)])
  with w show ?thesis
    by (cases "sr_agent_wallet (sx_response x)")
      (auto simp: response_wallet_matches_identity_def wallet_matches_def res_bind_Inr_iff)
qed

lemma recovers_verifier:
  assumes "crypto_ok c" "address_ok (se_signer (sx_signature x))"
  shows "recovers c x \<longleftrightarrow> (\<exists>r. recover_execution_signer c x = Inr r \<and> to_lower r = to_lower (se_signer (sx_signature x)))"
  using crypto_checksum_total [OF assms] by (auto simp: recovers_def)

lemma verified_clean_exact:
  assumes "crypto_ok c" "\<forall>m. to_lower (keccak_digest c m) = keccak_digest c m"
    and "address_ok (ai_wallet (sx_identity x))" "address_ok (se_signer (sx_signature x))"
    and "detect_tampering c x = Inr d" "check_receipt_claim c (sx_response x) = Inr k"
  shows "verify_signed_execution c x = Inr True \<and> rc_valid k \<longleftrightarrow>
     dt_status d = ''clean'' \<and> ts_job_id (sx_task x) = sr_job_id (sx_response x) \<and>
     to_lower (se_task_hash (sx_signature x)) = se_task_hash (sx_signature x) \<and>
     to_lower (se_output_hash (sx_signature x)) = se_output_hash (sx_signature x)"
proof -
  obtain w where w: "to_checksum c (ai_wallet (sx_identity x)) = Inr w" "to_lower w = to_lower (ai_wallet (sx_identity x))"
    using crypto_checksum_total [OF assms(1,3)] by blast
  let ?nid = "(sx_identity x)\<lparr>ai_wallet := w\<rparr>"
  have nid: "normalize_identity c (sx_identity x) = Inr ?nid" using w(1) by (simp add: normalize_identity_def)
  note same = wallet_matches_verifier [OF assms(1,3) nid] recovers_verifier [OF assms(1,4)]
  have oh: "to_lower h = h" if "output_hash c (sx_response x) = Inr h" for h
    using lower_hash [OF assms(2)] that by (simp add: output_hash_def)
  have th: "to_lower h = h" if "task_hash c (sx_task x) = Inr h" for h
    using lower_hash [OF assms(2)] that by (simp add: task_hash_def)
  show ?thesis
    unfolding clean_execution [OF assms(5)] verify_signed_execution_iff nid
    using assms(6) oh th w(2) by (auto simp: same)
qed

text \<open>C23: The detector against the verifier: an execution whose addresses are addresses verifies with a valid
  receipt claim exactly when the nine checks call it clean, its task and its response name one job, and its
  envelope writes both digests in lower case. So whatever verifies is clean, and the detector is the weaker
  of the two in two ways: it does not compare the jobs, and it compares the digests up to case where the
  verifier compares them exactly.\<close>

theorem verified_iff_clean_and_exact:
  assumes "crypto_ok c" "\<forall>m. to_lower (keccak_digest c m) = keccak_digest c m"
    and "address_ok (ai_wallet (sx_identity x))" "address_ok (se_signer (sx_signature x))"
    and "detect_tampering c x = Inr d" "check_receipt_claim c (sx_response x) = Inr k"
  shows "verify_signed_execution c x = Inr True \<and> rc_valid k \<longleftrightarrow>
     dt_status d = ''clean'' \<and> ts_job_id (sx_task x) = sr_job_id (sx_response x) \<and>
     to_lower (se_task_hash (sx_signature x)) = se_task_hash (sx_signature x) \<and>
     to_lower (se_output_hash (sx_signature x)) = se_output_hash (sx_signature x)"
  using assms by (rule verified_clean_exact)

subsection \<open>The attacks\<close>

lemma failed_checks:
  assumes "detect_tampering c x = Inr d"
  shows "(\<And>h. output_hash c (sx_response x) = Inr h \<Longrightarrow> to_lower h \<noteq> to_lower (se_output_hash (sx_signature x))) \<Longrightarrow>
      ''output_hash_match'' \<in> set (dt_failed_check_names d)"
    and "ai_role (sx_identity x) \<noteq> sr_node_role (sx_response x) \<Longrightarrow> ''identity_role_match'' \<in> set (dt_failed_check_names d)"
    and "to_lower (se_signer (sx_signature x)) \<noteq> to_lower (ai_wallet (sx_identity x)) \<Longrightarrow>
      ''signer_equals_identity_wallet'' \<in> set (dt_failed_check_names d)"
    and "\<not> wallet_matches c x \<Longrightarrow> ''response_wallet_matches_identity'' \<in> set (dt_failed_check_names d)"
    and "claim_status (sx_response x) = ''verified'' \<Longrightarrow> ''receipt_consistency'' \<in> set (dt_failed_check_names d)"
    and "dt_failed_check_names d \<noteq> [] \<Longrightarrow> dt_status d = ''tampered''"
proof -
  obtain oh th w k where *: "output_hash c (sx_response x) = Inr oh" "check_receipt_claim c (sx_response x) = Inr k"
     "dt_status d = (if dt_failed_check_names d = [] then ''clean'' else ''tampered'')"
     "dt_failed_check_names d =
       (if to_lower (se_output_hash (sx_signature x)) = to_lower oh then [] else [''output_hash_match'']) @
       (if to_lower (se_task_hash (sx_signature x)) = to_lower th then [] else [''task_hash_match'']) @
       (if ai_role (sx_identity x) = sr_node_role (sx_response x) then [] else [''identity_role_match'']) @
       (if ai_peer_id (sx_identity x) = sr_peer_id (sx_response x) then [] else [''identity_peer_id_match'']) @
       (if to_lower (se_signer (sx_signature x)) = to_lower (ai_wallet (sx_identity x)) then [] else [''signer_equals_identity_wallet'']) @
       (if wallet_matches c x then [] else [''response_wallet_matches_identity'']) @
       (if recovers c x then [] else [''signature_recovers_signer'']) @
       (if rc_valid k then [] else [''receipt_consistency'']) @
       (if se_algorithm (sx_signature x) = ''eip191'' then [] else [''signature_algorithm_supported''])"
    using detected [OF assms] by blast
  show "''output_hash_match'' \<in> set (dt_failed_check_names d)"
    if "\<And>h. output_hash c (sx_response x) = Inr h \<Longrightarrow> to_lower h \<noteq> to_lower (se_output_hash (sx_signature x))"
    unfolding *(4) using that [OF *(1)] by simp
  show "''identity_role_match'' \<in> set (dt_failed_check_names d)" if "ai_role (sx_identity x) \<noteq> sr_node_role (sx_response x)"
    unfolding *(4) using that by simp
  show "''signer_equals_identity_wallet'' \<in> set (dt_failed_check_names d)"
    if "to_lower (se_signer (sx_signature x)) \<noteq> to_lower (ai_wallet (sx_identity x))" unfolding *(4) using that by simp
  show "''response_wallet_matches_identity'' \<in> set (dt_failed_check_names d)" if "\<not> wallet_matches c x"
    unfolding *(4) using that by simp
  show "''receipt_consistency'' \<in> set (dt_failed_check_names d)" if "claim_status (sx_response x) = ''verified''"
    unfolding *(4) using verified_never_valid [OF *(2) that] by simp
  show "dt_status d = ''tampered''" if "dt_failed_check_names d \<noteq> []" using *(3) that by simp
qed

text \<open>The attacks on a clean execution are caught with the checks the demonstration names, those of a
  recovered signature aside, provided the changed response has another digest than the signed one and the
  attacker's address is another one. (The attack that signs again with another key is not covered: what
  a signature of one message recovers to over another message is up to the curve.)\<close>

theorem attacks_are_caught:
  assumes "detect_tampering c x = Inr h" "dt_status h = ''clean''"
    and "\<And>o'. sx_response x' \<noteq> sx_response x \<Longrightarrow> output_hash c (sx_response x') = Inr o' \<Longrightarrow>
      to_lower o' \<noteq> to_lower (se_output_hash (sx_signature x))"
    and "to_lower attacker \<noteq> to_lower (ai_wallet (sx_identity x))"
    and "to_checksum c attacker \<noteq> to_checksum c (ai_wallet (sx_identity x))"
    and "a \<in> set attacks" "at_name a \<noteq> ''forged_signature_with_attacker_key''"
    and "apply_attack c attacker (at_name a) x = Inr x'" "detect_tampering c x' = Inr d"
  shows "dt_status d = ''tampered'' \<and>
     set (at_expected_failed_checks a) - {''signature_recovers_signer''} \<subseteq> set (dt_failed_check_names d)"
proof -
  obtain k where honest: "ai_role (sx_identity x) = sr_node_role (sx_response x)" "wallet_matches c x"
      "check_receipt_claim c (sx_response x) = Inr k" "rc_valid k"
    using clean_execution [OF assms(1)] assms(2) by blast
  have unclaimed: "sr_receipt_status (sx_response x) \<noteq> Some ''verified''"
    using verified_never_valid [OF honest(3)] honest(4) status_verified by (auto simp: claim_status_def opt_text_def)
  note fail = failed_checks [OF assms(9)]
  have hash: "''output_hash_match'' \<in> set (dt_failed_check_names d)"
    if "sx_signature x' = sx_signature x" "sx_response x' \<noteq> sx_response x"
    using assms(3) [OF that(2)] that(1) by (intro fail(1)) simp
  have result: "dt_status d = ''tampered''" if "n \<in> set (dt_failed_check_names d)" for n
    using that by (intro fail(6)) auto
  consider (field) "at_name a = ''field_tamper_after_sign''" "x' = field_tamper_after_sign x"
        "at_expected_failed_checks a = [''output_hash_match'']"
    | (swap) "at_name a = ''signer_swap_in_envelope''" "x' = signer_swap_in_envelope x attacker"
        "at_expected_failed_checks a = [''signer_equals_identity_wallet'', ''signature_recovers_signer'']"
    | (wallet) "at_name a = ''agent_wallet_substitution''" "x' = agent_wallet_substitution x attacker"
        "at_expected_failed_checks a = [''output_hash_match'', ''response_wallet_matches_identity'']"
    | (role) "at_name a = ''role_substitution''" "x' = role_substitution x"
        "at_expected_failed_checks a = [''output_hash_match'', ''identity_role_match'']"
    | (claim) "at_name a = ''receipt_status_overclaim''" "x' = receipt_status_overclaim x"
        "at_expected_failed_checks a = [''output_hash_match'', ''receipt_consistency'']"
    using assms(6-8) by (auto simp: attacks_def apply_attack_def)
  then show ?thesis
  proof cases
    case field
    then have "''output_hash_match'' \<in> set (dt_failed_check_names d)"
      by (intro hash) (auto simp: field_tamper_after_sign_def dest: arg_cong [where f = sr_summary])
    with field(3) result show ?thesis by auto
  next
    case swap
    then have "''signer_equals_identity_wallet'' \<in> set (dt_failed_check_names d)"
      using assms(4) by (intro fail(3)) (simp add: signer_swap_in_envelope_def)
    with swap(3) result show ?thesis by auto
  next
    case wallet
    have "sr_agent_wallet (sx_response x) \<noteq> Some attacker" using honest(2) assms(5) by (auto simp: wallet_matches_def)
    with wallet(2) have "''output_hash_match'' \<in> set (dt_failed_check_names d)"
      by (intro hash) (auto simp: agent_wallet_substitution_def dest: arg_cong [where f = sr_agent_wallet])
    moreover have "''response_wallet_matches_identity'' \<in> set (dt_failed_check_names d)"
      using wallet(2) assms(5) by (intro fail(4)) (simp add: wallet_matches_def agent_wallet_substitution_def)
    ultimately show ?thesis using wallet(3) result by auto
  next
    case role
    have differs: "sr_node_role (sx_response x') \<noteq> ai_role (sx_identity x)" "sx_identity x' = sx_identity x"
        "sx_signature x' = sx_signature x"
      using role(2) by (auto simp: role_substitution_def Let_def)
    then have "''output_hash_match'' \<in> set (dt_failed_check_names d)"
      using honest(1) by (intro hash) auto
    moreover have "''identity_role_match'' \<in> set (dt_failed_check_names d)" using differs by (intro fail(2)) auto
    ultimately show ?thesis using role(3) result by auto
  next
    case claim
    then have "''output_hash_match'' \<in> set (dt_failed_check_names d)"
      using unclaimed by (intro hash) (auto simp: receipt_status_overclaim_def dest: arg_cong [where f = sr_receipt_status])
    moreover have "''receipt_consistency'' \<in> set (dt_failed_check_names d)"
      using claim(2) status_verified by (intro fail(5)) (simp add: receipt_status_overclaim_def claim_status_def opt_text_def)
    ultimately show ?thesis using claim(3) result by auto
  qed
qed

subsection \<open>Witnesses\<close>

text \<open>Digests that single out one text, over the account that signs everything.\<close>

definition pointed_crypto :: "string \<Rightarrow> crypto" where
  "pointed_crypto t = demo_crypto\<lparr>keccak_digest := (\<lambda>m. replicate 64 (if m = t then CHR ''1'' else CHR ''0''))\<rparr>"

lemma pointed_crypto_ok: "crypto_ok (pointed_crypto t)"
proof -
  have "hash_ok (''0x'' @ replicate 64 d)" if "hex_value d \<noteq> None" for d
    using that by (simp add: hex_pattern_def starts_with_def list_all_iff)
  moreover have "hex_value (CHR ''1'') \<noteq> None" "hex_value (CHR ''0'') \<noteq> None"
    by (simp_all add: hex_value_def char_code_def)
  ultimately have "\<forall>m. hash_ok (''0x'' @ keccak_digest (pointed_crypto t) m)"
    by (simp add: pointed_crypto_def)
  moreover have same: "to_checksum (pointed_crypto t) = to_checksum demo_crypto" "key_address (pointed_crypto t) = key_address demo_crypto"
    "sign_text (pointed_crypto t) = sign_text demo_crypto" "recover_text (pointed_crypto t) = recover_text demo_crypto"
    by (simp_all add: pointed_crypto_def)
  ultimately show ?thesis using demo_crypto_ok unfolding crypto_ok_def same by (elim conjE, intro conjI) assumption+
qed

lemma pointed_lower: "\<forall>m. to_lower (keccak_digest (pointed_crypto t) m) = keccak_digest (pointed_crypto t) m"
proof
  have "to_lower (replicate n d) = replicate n (lower_char d)" for n d by (simp add: to_lower_def)
  moreover have "lower_char (CHR ''1'') = CHR ''1''" "lower_char (CHR ''0'') = CHR ''0''" by (simp_all add: lower_char_def char_code_def)
  ultimately show "to_lower (keccak_digest (pointed_crypto t) m) = keccak_digest (pointed_crypto t) m" for m
    by (simp add: pointed_crypto_def)
qed

definition signed_demo :: "task_spec \<Rightarrow> string \<Rightarrow> string \<Rightarrow> signed_agent_execution" where
  "signed_demo task th oh = \<lparr>sx_task = task, sx_identity = demo_identity, sx_response = demo_response,
     sx_signature = \<lparr>se_signer = demo_address, se_task_hash = th, se_output_hash = oh,
       se_signature = ''0x'' @ replicate 130 (CHR ''0''), se_algorithm = ''eip191''\<rparr>\<rparr>"

lemma demo_texts: "\<exists>t. canonical_json (specialist_response_json demo_response) = Inr t"
  unfolding canonical_json_total_iff(1)
  by (simp add: specialist_response_json_def specialist_response_fields_def demo_response_def
      sample_response_def scenario_json_def opt_obj_def)

lemma pointed_checksum: "to_checksum (pointed_crypto t) demo_address = Inr demo_address"
  using demo_address_ok by (simp add: pointed_crypto_def demo_crypto_def)

lemma demo_claim: "check_receipt_claim c demo_response = Inr (empty_check ''not_claimed'' True [] [])"
proof -
  have "claim_status demo_response = []" by (simp add: claim_status_def demo_response_def sample_response_def opt_text_def to_lower_def strip_empty)
  moreover have "\<not> has_receipt_material demo_response"
    by (simp add: has_receipt_material_def nonblank_def demo_response_def sample_response_def)
  ultimately show ?thesis
    by (simp add: check_receipt_claim_def Let_def demo_response_def sample_response_def opt_text_def)
qed

lemma demo_recovers: "recover_execution_signer (pointed_crypto t) (signed_demo task th oh) = Inr demo_address"
proof -
  have "normalize_identity (pointed_crypto t) demo_identity = Inr demo_identity"
    by (simp add: normalize_identity_def demo_identity_def pointed_checksum)
  moreover have "\<exists>m. signable_message (pointed_crypto t) demo_identity demo_address th oh = Inr m"
    by (simp add: signable_message_def pointed_checksum)
  moreover have "recover_text (pointed_crypto t) m s = Inr demo_address" for m s
    by (simp add: pointed_crypto_def demo_crypto_def)
  ultimately show ?thesis
    by (auto simp: recover_execution_signer_def signed_demo_def Let_def pointed_checksum)
qed

lemma demo_clean:
  assumes "task_hash (pointed_crypto t) task = Inr th" "output_hash (pointed_crypto t) demo_response = Inr oh"
  shows "\<exists>d. detect_tampering (pointed_crypto t) (signed_demo task th oh) = Inr d \<and> dt_status d = ''clean''"
proof -
  let ?x = "signed_demo task th oh"
  have "sr_agent_wallet demo_response = Some demo_address" by (simp add: demo_response_def)
  then have "\<exists>d. detect_tampering (pointed_crypto t) ?x = Inr d"
    using assms demo_recovers [of t task th oh]
    by (simp add: detect_tampering_def check_output_hash_def check_task_hash_def check_response_wallet_matches_identity_def
        check_signature_recovers_signer_def check_receipt_consistency_def signed_demo_def demo_claim Let_def demo_identity_def
        pointed_checksum)
  then obtain d where d: "detect_tampering (pointed_crypto t) ?x = Inr d" by blast
  have "wallet_matches (pointed_crypto t) ?x"
    by (simp add: wallet_matches_def signed_demo_def demo_response_def demo_identity_def)
  moreover have "recovers (pointed_crypto t) ?x"
    using demo_recovers [of t task th oh] by (simp add: recovers_def) (simp add: signed_demo_def pointed_checksum)
  ultimately have "dt_status d = ''clean''"
    unfolding clean_execution [OF d] using assms
    by (simp add: signed_demo_def demo_claim empty_check_def) (simp add: demo_response_def demo_identity_def sample_response_def)
  with d show ?thesis by blast
qed

lemma demo_hashes:
  "\<exists>th oh. task_hash (pointed_crypto t) task = Inr th \<and> output_hash (pointed_crypto t) demo_response = Inr oh"
  using task_hash_total demo_texts by (fastforce simp: output_hash_def canonical_json_hash_def)

text \<open>The detector does not compare jobs: an execution that answers another task's job can be clean.\<close>

lemma clean_with_another_job:
  "\<exists>c x d. crypto_ok c \<and> detect_tampering c x = Inr d \<and> dt_status d = ''clean'' \<and>
     ts_job_id (sx_task x) \<noteq> sr_job_id (sx_response x) \<and> verify_signed_execution c x \<noteq> Inr True"
proof -
  let ?task = "demo_task\<lparr>ts_job_id := ''other''\<rparr>"
  obtain th oh where "task_hash (pointed_crypto []) ?task = Inr th" "output_hash (pointed_crypto []) demo_response = Inr oh"
    using demo_hashes by blast
  from demo_clean [OF this] obtain d where
    "detect_tampering (pointed_crypto []) (signed_demo ?task th oh) = Inr d" "dt_status d = ''clean''" by blast
  moreover have "ts_job_id (sx_task (signed_demo ?task th oh)) \<noteq> sr_job_id (sx_response (signed_demo ?task th oh))"
    by (simp add: signed_demo_def demo_response_def sample_response_def)
  ultimately show ?thesis using pointed_crypto_ok verify_signed_execution_iff by blast
qed

lemma verified_iff_clean_and_exact_witness:
  "\<exists>th oh. verify_signed_execution (pointed_crypto []) (signed_demo demo_task th oh) = Inr True"
proof -
  obtain th oh where h: "task_hash (pointed_crypto []) demo_task = Inr th" "output_hash (pointed_crypto []) demo_response = Inr oh"
    using demo_hashes by blast
  obtain d where d: "detect_tampering (pointed_crypto []) (signed_demo demo_task th oh) = Inr d" "dt_status d = ''clean''"
    using demo_clean [OF h] by blast
  have low: "to_lower th = th" "to_lower oh = oh"
    using lower_hash [OF pointed_lower] h by (auto simp: task_hash_def output_hash_def)
  have addresses: "address_ok (ai_wallet (sx_identity (signed_demo demo_task th oh)))"
    "address_ok (se_signer (sx_signature (signed_demo demo_task th oh)))"
    using demo_address_ok by (simp_all add: signed_demo_def demo_identity_def)
  have claim: "check_receipt_claim (pointed_crypto []) (sx_response (signed_demo demo_task th oh)) =
      Inr (empty_check ''not_claimed'' True [] [])"
    by (simp add: signed_demo_def demo_claim)
  have "ts_job_id (sx_task (signed_demo demo_task th oh)) = sr_job_id (sx_response (signed_demo demo_task th oh))"
    by (simp add: signed_demo_def demo_task_def demo_response_def sample_response_def)
  moreover have "se_task_hash (sx_signature (signed_demo demo_task th oh)) = th"
    "se_output_hash (sx_signature (signed_demo demo_task th oh)) = oh"
    by (simp_all add: signed_demo_def)
  ultimately show ?thesis
    using verified_iff_clean_and_exact [OF pointed_crypto_ok pointed_lower addresses d(1) claim] d(2) low by auto
qed

definition attacker_address :: string where "attacker_address = ''0x'' @ replicate 40 (CHR ''2'')"

lemma attacker_address_lower: "to_lower attacker_address = attacker_address" "address_ok attacker_address"
  "attacker_address \<noteq> demo_address"
  by (simp_all add: attacker_address_def demo_address_def hex_pattern_def starts_with_def to_lower_def lower_char_def
      char_code_def hex_value_def list_all_iff)

lemma attacks_are_caught_witness:
  "\<exists>th oh d. detect_tampering (pointed_crypto []) (signer_swap_in_envelope (signed_demo demo_task th oh) attacker_address) = Inr d \<and>
     dt_status d = ''tampered''"
proof -
  let ?c = "pointed_crypto []"
  obtain th oh where h: "task_hash ?c demo_task = Inr th" "output_hash ?c demo_response = Inr oh"
    using demo_hashes by blast
  let ?x = "signed_demo demo_task th oh" and ?y = "signer_swap_in_envelope (signed_demo demo_task th oh) attacker_address"
  obtain d where d: "detect_tampering ?c ?x = Inr d" "dt_status d = ''clean''" using demo_clean [OF h] by blast
  have checksum: "to_checksum ?c attacker_address = Inr attacker_address"
    using attacker_address_lower by (simp add: pointed_crypto_def demo_crypto_def)
  have "\<exists>k. check_signature_recovers_signer ?c ?y = Inr k"
    by (simp add: check_signature_recovers_signer_def Let_def signer_swap_in_envelope_def checksum split: sum.split)
  moreover have "sr_agent_wallet demo_response = Some demo_address" by (simp add: demo_response_def)
  ultimately obtain d' where d': "detect_tampering ?c ?y = Inr d'"
    using h by (auto simp: detect_tampering_def check_output_hash_def check_task_hash_def
        check_response_wallet_matches_identity_def check_receipt_consistency_def signed_demo_def signer_swap_in_envelope_def
        demo_claim Let_def demo_identity_def pointed_checksum)
  define a where "a = attacks ! 1"
  have swap: "a \<in> set attacks" "at_name a = ''signer_swap_in_envelope''" by (simp_all add: a_def attacks_def)
  have "dt_status d' = ''tampered'' \<and>
      set (at_expected_failed_checks a) - {''signature_recovers_signer''} \<subseteq> set (dt_failed_check_names d')"
  proof (rule attacks_are_caught [OF d, where attacker = attacker_address and x' = ?y and a = a])
    show "to_lower attacker_address \<noteq> to_lower (ai_wallet (sx_identity ?x))"
      "to_checksum ?c attacker_address \<noteq> to_checksum ?c (ai_wallet (sx_identity ?x))"
      using attacker_address_lower demo_address_ok checksum pointed_checksum
      by (simp_all add: signed_demo_def demo_identity_def)
    show "apply_attack ?c attacker_address (at_name a) ?x = Inr ?y" by (simp add: swap(2) apply_attack_def)
  qed (use swap d' in \<open>simp_all add: signer_swap_in_envelope_def\<close>)
  with d' show ?thesis by blast
qed

end
