(* ===== verification/PyFloat.thy ===== *)
theory PyFloat
  imports AXL_Registry
begin

section \<open>Arithmetic on floats that may be infinite or not a number\<close>

text \<open>
  The operations of IEEE doubles with their special values, for the code that computes with numbers it was
  given: a finite result is the exact one rounded once, an overflow is an infinity. \<open>pf_min\<close> and \<open>pf_max\<close>
  are \<^verbatim>\<open>min\<close> and \<^verbatim>\<open>max\<close> of two values, which keep the first unless the second compares smaller or greater,
  so what they do with a NaN depends on its position. Division is by values other than zero; \<open>pf_ratio\<close>
  raises on zero as the language does. The sign of a zero is not kept.

  Shown: results stay within integer bounds (\<open>bounded_by\<close>), which turns a computation on bounded inputs into
  one on finite doubles.
\<close>

definition pf_neg :: "pyfloat \<Rightarrow> pyfloat" where
  "pf_neg a = (case a of Fin x \<Rightarrow> Fin (- x) | PosInf \<Rightarrow> NegInf | NegInf \<Rightarrow> PosInf | NaN \<Rightarrow> NaN)"

definition pf_abs :: "pyfloat \<Rightarrow> pyfloat" where
  "pf_abs a = (case a of Fin x \<Rightarrow> Fin \<bar>x\<bar> | NegInf \<Rightarrow> PosInf | _ \<Rightarrow> a)"

definition pf_add :: "pyfloat \<Rightarrow> pyfloat \<Rightarrow> pyfloat" where
  "pf_add a b =
     (case (a, b) of
        (NaN, _) \<Rightarrow> NaN
      | (_, NaN) \<Rightarrow> NaN
      | (Fin x, Fin y) \<Rightarrow> pyfloat_of_rat (x + y)
      | (Fin _, _) \<Rightarrow> b
      | (_, Fin _) \<Rightarrow> a
      | _ \<Rightarrow> if a = b then a else NaN)"

definition pf_sub :: "pyfloat \<Rightarrow> pyfloat \<Rightarrow> pyfloat" where "pf_sub a b = pf_add a (pf_neg b)"

text \<open>The infinity with the sign of the product of a number and an infinity.\<close>

definition signed_inf :: "bool \<Rightarrow> pyfloat" where "signed_inf pos = (if pos then PosInf else NegInf)"

definition pf_mul :: "pyfloat \<Rightarrow> pyfloat \<Rightarrow> pyfloat" where
  "pf_mul a b =
     (case (a, b) of
        (NaN, _) \<Rightarrow> NaN
      | (_, NaN) \<Rightarrow> NaN
      | (Fin x, Fin y) \<Rightarrow> pyfloat_of_rat (x * y)
      | (Fin x, _) \<Rightarrow> if x = 0 then NaN else signed_inf ((0 < x) = (b = PosInf))
      | (_, Fin y) \<Rightarrow> if y = 0 then NaN else signed_inf ((0 < y) = (a = PosInf))
      | _ \<Rightarrow> signed_inf (a = b))"

definition pf_div :: "pyfloat \<Rightarrow> pyfloat \<Rightarrow> pyfloat" where
  "pf_div a b =
     (case (a, b) of
        (NaN, _) \<Rightarrow> NaN
      | (_, NaN) \<Rightarrow> NaN
      | (Fin x, Fin y) \<Rightarrow> pyfloat_of_rat (x / y)
      | (Fin _, _) \<Rightarrow> Fin 0
      | (_, Fin y) \<Rightarrow> signed_inf ((0 < y) = (a = PosInf))
      | _ \<Rightarrow> NaN)"

definition pf_ratio :: "pyfloat \<Rightarrow> pyfloat \<Rightarrow> pyfloat res" where
  "pf_ratio a b = (if b = Fin 0 then Inl (OtherError ''ZeroDivisionError'') else Inr (pf_div a b))"

definition pf_min :: "pyfloat \<Rightarrow> pyfloat \<Rightarrow> pyfloat" where "pf_min a b = (if pf_lt b a then b else a)"
definition pf_max :: "pyfloat \<Rightarrow> pyfloat \<Rightarrow> pyfloat" where "pf_max a b = (if pf_lt a b then b else a)"

definition pf_mean :: "pyfloat list \<Rightarrow> pyfloat" where
  "pf_mean fs = pf_div (foldl pf_add (Fin 0) fs) (Fin (of_nat (length fs)))"

definition fmt_float :: "nat \<Rightarrow> pyfloat \<Rightarrow> string" where
  "fmt_float n f = (case f of Fin x \<Rightarrow> fmt_fixed n x | _ \<Rightarrow> pyfloat_repr f)"

text \<open>A literal of the source\<close>

abbreviation lit :: "rat \<Rightarrow> pyfloat" where "lit x \<equiv> Fin (fl x)"

subsection \<open>Bounds\<close>

definition bounded_by :: "nat \<Rightarrow> pyfloat \<Rightarrow> bool" where
  "bounded_by n e = (case e of Fin x \<Rightarrow> \<bar>x\<bar> \<le> of_nat n | NaN \<Rightarrow> True | _ \<Rightarrow> False)"

lemma within_simps [simp]: "bounded_by n NaN" "bounded_by n (Fin x) \<longleftrightarrow> \<bar>x\<bar> \<le> of_nat n" "\<not> bounded_by n PosInf" "\<not> bounded_by n NegInf"
  by (simp_all add: bounded_by_def)

lemma within_mono: "bounded_by m e \<Longrightarrow> m \<le> n \<Longrightarrow> bounded_by n e"
  by (cases e) (auto elim: order_trans)

lemma fl_within:
  assumes "\<bar>x\<bar> \<le> of_nat n" "n \<le> 2 ^ 53"
  shows "\<bar>fl x\<bar> \<le> of_nat n"
proof -
  have n: "fl (of_nat n) = of_nat n" using fl_of_int [of "int n"] assms(2) by simp
  have "fl x \<le> of_nat n" using fl_mono [of x "of_nat n"] assms(1) n by simp
  moreover have "- of_nat n \<le> fl x" using fl_mono [of "- of_nat n" x] assms(1) n fl_minus [of "of_nat n"] by simp
  ultimately show ?thesis by simp
qed

lemma float_max_large: "n \<le> 2 ^ 53 \<Longrightarrow> (of_nat n :: rat) < float_max"
proof -
  assume n: "n \<le> 2 ^ 53"
  have "(of_nat n :: rat) \<le> of_nat (2 ^ 53)" using n by (simp only: of_nat_le_iff)
  also have "\<dots> < float_max" by (simp add: float_max_def)
  finally show ?thesis .
qed

lemma pyfloat_of_rat_within:
  assumes "\<bar>x\<bar> \<le> of_nat n" "n \<le> 2 ^ 53"
  shows "pyfloat_of_rat x = Fin (fl x)" "bounded_by n (pyfloat_of_rat x)"
proof -
  have "\<not> float_max \<le> x" "\<not> x \<le> - float_max"
    using assms float_max_large [OF assms(2)] by linarith+
  then show f: "pyfloat_of_rat x = Fin (fl x)" by (simp add: pyfloat_of_rat_def)
  show "bounded_by n (pyfloat_of_rat x)" unfolding f using fl_within [OF assms] by simp
qed

lemma within_add: "bounded_by m a \<Longrightarrow> bounded_by n b \<Longrightarrow> m + n \<le> 2 ^ 53 \<Longrightarrow> bounded_by (m + n) (pf_add a b)"
  by (cases a; cases b) (auto simp: pf_add_def intro!: pyfloat_of_rat_within(2))

lemma within_neg: "bounded_by n a \<Longrightarrow> bounded_by n (pf_neg a)"
  by (cases a) (auto simp: pf_neg_def)

lemma within_sub: "bounded_by m a \<Longrightarrow> bounded_by n b \<Longrightarrow> m + n \<le> 2 ^ 53 \<Longrightarrow> bounded_by (m + n) (pf_sub a b)"
  unfolding pf_sub_def by (rule within_add) (auto intro: within_neg)

lemma within_mul: "bounded_by m a \<Longrightarrow> bounded_by n b \<Longrightarrow> m * n \<le> 2 ^ 53 \<Longrightarrow> bounded_by (m * n) (pf_mul a b)"
  by (cases a; cases b) (auto simp: pf_mul_def abs_mult intro!: pyfloat_of_rat_within(2) mult_mono)

lemma within_abs: "bounded_by n a \<Longrightarrow> bounded_by n (pf_abs a)"
  by (cases a) (auto simp: pf_abs_def)

lemma within_lit: "\<bar>x\<bar> \<le> of_nat n \<Longrightarrow> n \<le> 2 ^ 53 \<Longrightarrow> bounded_by n (lit x)"
  by (simp add: fl_within)

text \<open>Clamping between two numbers: whatever the value, unless a NaN in the first place is kept.\<close>

lemma clamp_within: "bounded_by 1 (pf_max (pf_min e (Fin 1)) (Fin (- 1)))" "bounded_by 1 (pf_max (pf_min e (Fin 1)) (Fin 0))"
  by (cases e; auto simp: pf_max_def pf_min_def)+

lemma clamp_unit: "\<exists>x. pf_min (Fin 1) (pf_max (Fin 0) e) = Fin x \<and> 0 \<le> x \<and> x \<le> 1"
  by (cases e) (auto simp: pf_max_def pf_min_def)

lemma clamp_unit': "\<exists>x. pf_max (Fin 0) (pf_min (Fin 1) e) = Fin x \<and> 0 \<le> x \<and> x \<le> 1"
  by (cases e) (auto simp: pf_max_def pf_min_def)

lemma at_least: "bounded_by n e \<Longrightarrow> \<exists>x. pf_max (Fin c) e = Fin x \<and> c \<le> x \<and> x \<le> max c (of_nat n)"
  by (cases e) (auto simp: pf_max_def)

end
