(* ===== verification/Html.thy ===== *)
theory Html
  imports PyFloat
begin

section \<open>HTML text (html.escape and a reader of elements)\<close>

text \<open>
  \<open>escape\<close> is \<^verbatim>\<open>html.escape\<close> of the standard library, which the page renderers apply to every value they
  put into a template. To say what it protects, \<open>html_run\<close> reads HTML the way a browser's tokenizer does,
  with the stack of open elements: outside a tag only \<^verbatim>\<open><\<close> matters, inside a double-quoted attribute only
  the closing quote does. An end tag has to name the innermost open element and every element has to be on
  the list of the elements the templates use (no scripts, frames or images); anything else breaks the run
  for good.

  A text is a \<open>fragment\<close> when reading it between two tags, under whatever elements are open, ends between
  two tags with the same elements open. Shown: fragments compose, an escaped text is one and cannot leave an
  attribute value, and escaping loses nothing (\<open>unescape\<close> gives the text back).
\<close>

subsection \<open>Escaping\<close>

definition escape_char :: "char \<Rightarrow> string" where
  "escape_char c =
     (if c = CHR ''&'' then ''&amp;''
      else if c = CHR ''<'' then ''&lt;''
      else if c = CHR ''>'' then ''&gt;''
      else if c = CHR 0x22 then ''&quot;''
      else if c = CHR 0x27 then ''&#x27;''
      else [c])"

definition escape :: "string \<Rightarrow> string" where "escape s = concat (map escape_char s)"

text \<open>The five references \<open>escape\<close> writes, read back; other text stands for itself.\<close>

fun unescape :: "string \<Rightarrow> string" where
  "unescape [] = []"
| "unescape (c # s) =
     (if starts_with ''&amp;'' (c # s) then CHR ''&'' # unescape (drop 4 s)
      else if starts_with ''&lt;'' (c # s) then CHR ''<'' # unescape (drop 3 s)
      else if starts_with ''&gt;'' (c # s) then CHR ''>'' # unescape (drop 3 s)
      else if starts_with ''&quot;'' (c # s) then CHR 0x22 # unescape (drop 5 s)
      else if starts_with ''&#x27;'' (c # s) then CHR 0x27 # unescape (drop 5 s)
      else c # unescape s)"

lemma escape_simps [simp]: "escape [] = []" "escape (c # s) = escape_char c @ escape s"
  by (simp_all add: escape_def)

lemma unescape_escape: "unescape (escape s) = s"
  by (induction s) (simp_all add: escape_char_def starts_with_def)

lemma escape_inj: "escape s = escape t \<longleftrightarrow> s = t"
  by (metis unescape_escape)

subsection \<open>Reading elements\<close>

datatype html_mode =
    Text
  | Open string
  | Attributes string
  | Quoted string
  | Close string
  | Broken

type_synonym html_state = "html_mode \<times> string list"

definition elements :: "string list" where
  "elements = [''a'', ''article'', ''button'', ''code'', ''dd'', ''div'', ''dl'', ''dt'', ''form'', ''h2'', ''h3'', ''li'',
     ''ol'', ''p'', ''section'', ''span'', ''strong'', ''table'', ''tbody'', ''td'', ''th'', ''thead'', ''tr'', ''ul'']"

definition opened :: "string \<Rightarrow> string list \<Rightarrow> html_state" where
  "opened t open_elements =
     (if t = ''br'' then (Text, open_elements) else if t \<in> set elements then (Text, t # open_elements) else (Broken, []))"

definition closed :: "string \<Rightarrow> string list \<Rightarrow> html_state" where
  "closed t open_elements =
     (case open_elements of [] \<Rightarrow> (Broken, []) | u # us \<Rightarrow> if u = t then (Text, us) else (Broken, []))"

fun html_step :: "html_state \<Rightarrow> char \<Rightarrow> html_state" where
  "html_step (Text, st) c = (if c = CHR ''<'' then (Open [], st) else (Text, st))"
| "html_step (Open t, st) c =
     (if c = CHR ''>'' then opened t st
      else if c = CHR '' '' then (Attributes t, st)
      else if c = CHR ''/'' then (if t = [] then (Close [], st) else (Broken, []))
      else (Open (t @ [c]), st))"
| "html_step (Attributes t, st) c =
     (if c = CHR ''>'' then opened t st
      else if c = CHR 0x22 then (Quoted t, st)
      else if c = CHR ''<'' \<or> c = CHR 0x27 then (Broken, [])
      else (Attributes t, st))"
| "html_step (Quoted t, st) c = (if c = CHR 0x22 then (Attributes t, st) else (Quoted t, st))"
| "html_step (Close t, st) c = (if c = CHR ''>'' then closed t st else (Close (t @ [c]), st))"
| "html_step (Broken, st) c = (Broken, st)"

definition html_run :: "html_state \<Rightarrow> string \<Rightarrow> html_state" where "html_run s xs = foldl html_step s xs"

definition fragment :: "string \<Rightarrow> bool" where "fragment xs \<longleftrightarrow> (\<forall>st. html_run (Text, st) xs = (Text, st))"

lemma html_run_simps [simp]:
  "html_run s [] = s" "html_run s (c # xs) = html_run (html_step s c) xs"
  "html_run s (xs @ ys) = html_run (html_run s xs) ys"
  by (simp_all add: html_run_def)

lemma opened_simps [simp]:
  "t \<in> set elements \<Longrightarrow> opened t st = (Text, t # st)" "opened ''br'' st = (Text, st)"
  by (auto simp: opened_def elements_def)

lemma closed_simps [simp]: "closed t (t # st) = (Text, st)"
  by (simp add: closed_def)

lemma elements_simps [simp]:
  "set elements = {''a'', ''article'', ''button'', ''code'', ''dd'', ''div'', ''dl'', ''dt'', ''form'', ''h2'', ''h3'', ''li'',
     ''ol'', ''p'', ''section'', ''span'', ''strong'', ''table'', ''tbody'', ''td'', ''th'', ''thead'', ''tr'', ''ul''}"
  by (simp add: elements_def)

subsection \<open>Fragments\<close>

lemma fragmentI: "(\<And>st. html_run (Text, st) xs = (Text, st)) \<Longrightarrow> fragment xs"
  by (simp add: fragment_def)

lemma fragment_run [simp]: "fragment xs \<Longrightarrow> html_run (Text, st) xs = (Text, st)"
  by (simp add: fragment_def)

lemma fragment_Nil [simp, intro]: "fragment []"
  by (simp add: fragment_def)

lemma fragment_append [intro]: "fragment xs \<Longrightarrow> fragment ys \<Longrightarrow> fragment (xs @ ys)"
  by (simp add: fragment_def)

lemma fragment_concat: "(\<And>x. x \<in> set xss \<Longrightarrow> fragment x) \<Longrightarrow> fragment (concat xss)"
  by (induction xss) (auto simp: fragment_def)

text \<open>A text without markup characters, such as a number, and any escaped text.\<close>

definition plain :: "string \<Rightarrow> bool" where "plain xs \<longleftrightarrow> CHR ''<'' \<notin> set xs \<and> CHR 0x22 \<notin> set xs"

lemma plain_simps [simp]:
  "plain []" "plain (c # xs) \<longleftrightarrow> c \<noteq> CHR ''<'' \<and> c \<noteq> CHR 0x22 \<and> plain xs" "plain (xs @ ys) \<longleftrightarrow> plain xs \<and> plain ys"
  by (auto simp: plain_def)

lemma plain_run [simp]: "plain xs \<Longrightarrow> html_run (Text, st) xs = (Text, st)"
  by (induction xs) simp_all

lemma plain_quoted [simp]: "plain xs \<Longrightarrow> html_run (Quoted t, st) xs = (Quoted t, st)"
  by (induction xs) simp_all

lemma plain_fragment: "plain xs \<Longrightarrow> fragment xs"
  by (simp add: fragment_def)

lemma plain_escape [simp]: "plain (escape s)"
  by (induction s) (simp_all add: escape_char_def)

lemma plain_join: "plain sep \<Longrightarrow> (\<And>x. x \<in> set xs \<Longrightarrow> fragment x) \<Longrightarrow> fragment (join sep xs)"
  by (induction sep xs rule: join.induct) (auto simp: fragment_def)

lemma digit_plain: "is_digit c \<Longrightarrow> c \<noteq> CHR ''<'' \<and> c \<noteq> CHR 0x22"
  by (auto simp: is_digit_def char_code_def)

lemma plain_digits: "0 \<le> n \<Longrightarrow> plain (digits_of n)"
  using digits_of_digits digit_plain by (auto simp: plain_def)

lemma plain_int [simp]: "plain (str_of_int i)"
  using str_of_int_chars [of _ i] digit_plain by (fastforce simp: plain_def)

lemma plain_fixed [simp]: "plain (fmt_fixed n x)"
proof -
  have "0 \<le> round_even (\<bar>x\<bar> * 10 ^ n)"
    using round_even_mono [of 0 "\<bar>x\<bar> * 10 ^ n"] round_even_of_int [of 0] by simp
  then have "0 \<le> round_even (\<bar>x\<bar> * 10 ^ n) div 10 ^ n" "0 \<le> round_even (\<bar>x\<bar> * 10 ^ n) mod 10 ^ n"
    by (simp_all add: pos_imp_zdiv_nonneg_iff)
  then have "plain (digits_of (round_even (\<bar>x\<bar> * 10 ^ n) div 10 ^ n))" "plain (digits_of (round_even (\<bar>x\<bar> * 10 ^ n) mod 10 ^ n))"
    by (intro plain_digits; simp)+
  moreover have "plain (replicate k (CHR ''0''))" for k by (induction k) simp_all
  ultimately show ?thesis by (simp add: fmt_fixed_def Let_def zero_pad_def)
qed

lemma plain_float [simp]: "plain (fmt_float n f)"
  by (cases f) (simp_all add: fmt_float_def pyfloat_repr_def)

end
