(* ===== verification/Memo_Render.thy ===== *)
theory Memo_Render
  imports Html Contracts
begin

section \<open>Memos as Markdown and HTML (app/rendering/memo.py)\<close>

text \<open>
  The two renderers of a final memo. Shown: the HTML of every memo, whatever its texts hold, is a fragment,
  so no text of a specialist, of a peer or of the language model opens or closes an element or leaves an
  attribute value; and the source shown at an evidence item is the first source of the memo with that text.
\<close>

subsection \<open>Parts\<close>

definition join_lines :: "string list \<Rightarrow> string" where "join_lines xs = join [CHR 0x0A] xs"

definition default_partial_reason :: string where
  "default_partial_reason = ''One or more specialist responses were unavailable for this memo.''"

text \<open>\<^verbatim>\<open>value or fallback\<close> of an optional text\<close>

definition text_or :: "string option \<Rightarrow> string \<Rightarrow> string" where
  "text_or v fallback = (case v of Some s \<Rightarrow> if s \<noteq> [] then s else fallback | None \<Rightarrow> fallback)"

definition short_hash :: "string option \<Rightarrow> string" where
  "short_hash v = take 12 (text_or v [])"

fun quality_items :: "string list \<Rightarrow> memo_evidence_source list \<Rightarrow> string list" where
  "quality_items seen [] = []"
| "quality_items seen (s # ss) =
     (let quality = text_or (me_source_quality s) ''missing source''; role = me_source_role s;
          source_url = text_or (me_source_url s) ''no source URL'';
          key = role @ '':'' @ quality @ '':'' @ source_url
      in if key \<in> set seen then quality_items seen ss
         else let retrieved = text_or (me_retrieved_at s) ''no retrieval timestamp'';
                  digest = short_hash (me_source_hash s)
              in (role @ '': '' @ quality @ '' ('' @ source_url @ '', '' @ retrieved @ '', '' @
                    (if digest \<noteq> [] then digest else ''no source hash'') @ '')'') # quality_items (seen @ [key]) ss)"

definition source_quality_items :: "final_memo \<Rightarrow> string list" where
  "source_quality_items memo =
     (let items = quality_items [] (fm_evidence_sources memo) in if items \<noteq> [] then items else [''missing source''])"

definition find_source :: "string \<Rightarrow> final_memo option \<Rightarrow> memo_evidence_source option" where
  "find_source item memo =
     (case memo of None \<Rightarrow> None | Some m \<Rightarrow> List.find (\<lambda>s. me_text s = item) (fm_evidence_sources m))"

definition partial_reason_text :: "final_memo \<Rightarrow> string" where
  "partial_reason_text memo = text_or (fm_partial_reason memo) default_partial_reason"

definition rationale_text :: "final_memo \<Rightarrow> string" where
  "rationale_text memo =
     (if fm_confidence_rationale memo \<noteq> [] then fm_confidence_rationale memo else ''No confidence rationale provided.'')"

subsection \<open>Markdown\<close>

definition render_markdown_list :: "string list \<Rightarrow> string list" where
  "render_markdown_list items = (if items = [] then [''- None.''] else map (\<lambda>item. ''- '' @ item) items)"

definition render_markdown_provenance :: "final_memo \<Rightarrow> string list" where
  "render_markdown_provenance memo =
     (if fm_provenance memo = [] then [''- None.'']
      else map (\<lambda>r. ''- '' @ pr_node_role r @ '' via `'' @ pr_peer_id r @ ''` at `'' @ pr_timestamp r @ ''`'') (fm_provenance memo))"

definition render_memo_markdown :: "final_memo \<Rightarrow> string" where
  "render_memo_markdown memo = join_lines (
     (if fm_partial memo then [''> Warning: Partial coverage.'', ''> '' @ partial_reason_text memo, []] else []) @
     [''## Thesis'', fm_normalized_thesis memo, [], ''## Scenarios'', ''| Scenario | Weight |'', ''| --- | ---: |'',
      ''| Bull | '' @ fmt_float 2 (sv_bull (fm_scenarios memo)) @ '' |'',
      ''| Base | '' @ fmt_float 2 (sv_base (fm_scenarios memo)) @ '' |'',
      ''| Bear | '' @ fmt_float 2 (sv_bear (fm_scenarios memo)) @ '' |'', [], ''## Supporting Evidence''] @
     render_markdown_list (fm_supporting_evidence memo) @ [[], ''## Opposing Evidence''] @
     render_markdown_list (fm_opposing_evidence memo) @ [[], ''## Source Quality''] @
     render_markdown_list (source_quality_items memo) @ [[], ''## Catalysts''] @
     render_markdown_list (fm_catalysts memo) @ [[], ''## Risks''] @
     render_markdown_list (fm_risks memo) @ [[], ''## Invalidation Triggers''] @
     render_markdown_list (fm_invalidation_triggers memo) @ [[], ''## Confidence Rationale'', rationale_text memo, [], ''## Provenance''] @
     render_markdown_provenance memo)"

subsection \<open>HTML\<close>

definition render_evidence_item :: "string \<Rightarrow> final_memo option \<Rightarrow> string" where
  "render_evidence_item item memo =
     (case find_source item memo of
        None \<Rightarrow> ''<li>'' @ escape item @ ''</li>''
      | Some s \<Rightarrow>
          (let detail = join '' / '' (filter (\<lambda>v. v \<noteq> [])
             [me_source_role s, me_peer_id s, short_hash (me_output_hash s), text_or (me_source_quality s) [],
              short_hash (me_source_hash s)])
           in ''<li data-source-role=\"'' @ escape (me_source_role s) @ ''\" data-output-hash=\"'' @
              escape (text_or (me_output_hash s) []) @ ''\">'' @ escape item @
              '' <span class=\"evidence-source\">source: '' @ escape detail @ ''</span></li>''))"

definition render_html_section_with_sources :: "string \<Rightarrow> string list \<Rightarrow> final_memo option \<Rightarrow> string" where
  "render_html_section_with_sources title items memo =
     ''<section><h2>'' @ escape title @ ''</h2><ul>'' @
     concat (map (\<lambda>item. render_evidence_item item memo) (if items \<noteq> [] then items else [''None.''])) @ ''</ul></section>''"

definition render_html_section :: "string \<Rightarrow> string list \<Rightarrow> string" where
  "render_html_section title items = render_html_section_with_sources title items None"

definition render_warning :: "final_memo \<Rightarrow> string" where
  "render_warning memo =
     (if fm_partial memo
      then ''<div class=\"memo-warning\" role=\"alert\"><strong>Partial coverage warning.</strong><p>'' @
        escape (partial_reason_text memo) @ ''</p></div>''
      else [])"

definition render_memo_html :: "final_memo \<Rightarrow> string" where
  "render_memo_html memo = join_lines
     [''<article class=\"market-memo\">'', render_warning memo,
      ''<section>'', ''<h2>Thesis</h2>'', ''<p>'' @ escape (fm_normalized_thesis memo) @ ''</p>'', ''</section>'',
      ''<section>'', ''<h2>Scenarios</h2>'', ''<table>'',
      ''<thead><tr><th>Scenario</th><th>Weight</th></tr></thead>'', ''<tbody>'',
      ''<tr><td>Bull</td><td>'' @ fmt_float 2 (sv_bull (fm_scenarios memo)) @ ''</td></tr>'',
      ''<tr><td>Base</td><td>'' @ fmt_float 2 (sv_base (fm_scenarios memo)) @ ''</td></tr>'',
      ''<tr><td>Bear</td><td>'' @ fmt_float 2 (sv_bear (fm_scenarios memo)) @ ''</td></tr>'',
      ''</tbody>'', ''</table>'', ''</section>'',
      render_html_section_with_sources ''Supporting Evidence'' (fm_supporting_evidence memo) (Some memo),
      render_html_section_with_sources ''Opposing Evidence'' (fm_opposing_evidence memo) (Some memo),
      render_html_section ''Source Quality'' (source_quality_items memo),
      render_html_section ''Catalysts'' (fm_catalysts memo),
      render_html_section ''Risks'' (fm_risks memo),
      render_html_section ''Invalidation Triggers'' (fm_invalidation_triggers memo),
      ''<section>'', ''<h2>Confidence Rationale</h2>'', ''<p>'' @ escape (rationale_text memo) @ ''</p>'', ''</section>'',
      render_html_section ''Provenance''
        (map (\<lambda>r. pr_node_role r @ '' via '' @ pr_peer_id r @ '' at '' @ pr_timestamp r) (fm_provenance memo)),
      ''</article>'']"

subsection \<open>The HTML of a memo is a fragment\<close>

lemma join_lines_run [simp]:
  "html_run s (join_lines []) = s" "html_run s (join_lines [x]) = html_run s x"
  "html_run s (join_lines (x # y # xs)) = html_run (html_run (html_run s x) [CHR 0x0A]) (join_lines (y # xs))"
  by (simp_all add: join_lines_def)

lemma evidence_item_fragment [simp]: "fragment (render_evidence_item item memo)"
  by (rule fragmentI) (simp add: render_evidence_item_def Let_def split: option.split)

lemma section_fragment [simp]:
  "fragment (render_html_section_with_sources title items memo)" "fragment (render_html_section title items)"
proof -
  have "fragment (concat (map (\<lambda>item. render_evidence_item item memo) xs))" for memo xs
    by (rule fragment_concat) auto
  then show "fragment (render_html_section_with_sources title items memo)" for memo
    by (intro fragmentI) (simp add: render_html_section_with_sources_def)
  then show "fragment (render_html_section title items)" by (simp add: render_html_section_def)
qed

lemma warning_fragment [simp]: "fragment (render_warning memo)"
  by (rule fragmentI) (simp add: render_warning_def)

lemma memo_fragment: "fragment (render_memo_html memo)"
  by (rule fragmentI) (simp add: render_memo_html_def)

end
