(* ===== verification/Page_Parts.thy ===== *)
theory Page_Parts
  imports Memo_Render Job_Api Chain_Projection
begin

section \<open>Parts of the operator page (app/api/pages.py)\<close>

text \<open>
  The renderers of the operator page, one per function: each takes the stored dictionaries of a job (its
  provenance ledger, its run metadata) or the indexed projection and returns HTML. Values are read with
  \<^verbatim>\<open>d.get\<close>, turned into text with \<^verbatim>\<open>str\<close> and escaped. The two renderers that format reputation points
  as floats can raise, so they return a result.

  Shown: every part is a fragment, whatever the stored values are.
\<close>

subsection \<open>Reading stored values\<close>

definition short_text :: "nat \<Rightarrow> string \<Rightarrow> string" where
  "short_text n s = (if length s \<le> n then s else take n s @ ''...'')"

text \<open>\<^verbatim>\<open>str(d.get(k) or fallback)\<close>\<close>

definition str_or :: "jobject \<Rightarrow> string \<Rightarrow> string \<Rightarrow> string" where
  "str_or d k fallback = py_str (py_or (jget d k) (JStr fallback))"

definition by_role :: "json \<Rightarrow> (string, jobject) pydict" where
  "by_role v = dict_of (map (\<lambda>item. (py_str (jget item ''node_role''), item))
     (filter (\<lambda>item. truthy (jget item ''node_role'')) (objects_in v)))"

definition chain_receipts_by_role :: "json \<Rightarrow> string \<Rightarrow> (string, jobject) pydict" where
  "chain_receipts_by_role v kind = dict_of (map (\<lambda>item. (py_str (jget item ''role''), item))
     (filter (\<lambda>item. jget item ''kind'' = JStr kind \<and> truthy (jget item ''role'')) (objects_in v)))"

definition points_text :: "jobject \<Rightarrow> string res" where
  "points_text update =
     res_bind (py_float_of (case dget update ''reputation_points'' of None \<Rightarrow> num 0 | Some v \<Rightarrow> v)) (\<lambda>f. Inr (fmt_float 2 f))"

definition reputation_by_role :: "json \<Rightarrow> (string, string) pydict res" where
  "reputation_by_role v =
     res_bind (map_res (\<lambda>update. res_bind (points_text update) (\<lambda>t. Inr (py_str (jget update ''node_role''), t)))
         (filter (\<lambda>update. truthy (jget update ''node_role'')) (objects_in v)))
       (\<lambda>ps. Inr (dict_of ps))"

definition has_ree_evidence :: "jobject \<Rightarrow> bool" where
  "has_ree_evidence md \<longleftrightarrow>
     list_ex (\<lambda>i. truthy (jget i ''ree_receipt_hash'') \<or> truthy (jget i ''receipt_status''))
       (objects_in (jget md ''verification_attestations'')) \<or>
     list_ex (\<lambda>i. truthy (jget i ''ree_receipt_hash'') \<or> truthy (jget i ''ree_status''))
       (objects_in (jget md ''chain_receipts''))"

definition status_class :: "string \<Rightarrow> string" where
  "status_class s =
     (let n = replace_char (CHR ''_'') (CHR ''-'') (replace_char (CHR '' '') (CHR ''-'') (to_lower (strip s)))
      in if n = [] then ''missing'' else n)"

definition status_for_mode :: "string \<Rightarrow> string" where
  "status_for_mode mode =
     (if mode \<in> {''live-axl'', ''mesh-axl'', ''axl-mcp''} then ''confirmed''
      else if mode = ''offline-demo-preview'' then ''warning''
      else if mode = ''no-run'' then ''missing'' else ''warning'')"

definition status_for_receipts :: "jobject \<Rightarrow> string" where
  "status_for_receipts md =
     (let s = str_or md ''receipt_status'' [] in if s \<noteq> [] then status_class s else ''missing'')"

definition roles_status :: "jobject list \<Rightarrow> string" where
  "roles_status ledger =
     (if ledger = [] then ''missing''
      else let statuses = map (\<lambda>r. str_get r ''status'') ledger in
        if list_all (\<lambda>s. s = ''completed'') statuses then ''completed''
        else if list_ex (\<lambda>s. s \<in> {''failed'', ''error'', ''invalid_response'', ''timed_out'', ''missing''}) statuses then ''partial''
        else ''recorded'')"

definition verification_status :: "jobject \<Rightarrow> string" where
  "verification_status md =
     (case jget md ''verification_attestations'' of
        JList (v # vs) \<Rightarrow>
          (let statuses = map (\<lambda>i. py_str (jget i ''status''))
             (filter (\<lambda>i. truthy (jget i ''status'')) (objects_in (JList (v # vs))))
           in if statuses \<noteq> [] \<and> list_all (\<lambda>s. s = ''accepted'') statuses then ''accepted''
              else if ''rejected'' \<in> set statuses then ''rejected''
              else if statuses \<noteq> [] then hd statuses else ''recorded'')
      | _ \<Rightarrow> ''not present'')"

definition slash_label :: "json list \<Rightarrow> string" where
  "slash_label values = join '' / '' (map py_str (filter truthy values))"

subsection \<open>Small cells\<close>

definition render_capability :: "string \<Rightarrow> string \<Rightarrow> string \<Rightarrow> string" where
  "render_capability label value status =
     ''<div class=\"capability cap-chip capability-'' @ escape status @ ''\"><span>'' @ escape label @ ''</span><strong>'' @
     escape value @ ''</strong></div>''"

definition status_span :: "string \<Rightarrow> string" where
  "status_span s = ''<span class=\"status status-'' @ escape (status_class s) @ ''\">'' @ escape s @ ''</span>''"

definition render_compact_id :: "nat \<Rightarrow> json \<Rightarrow> string" where
  "render_compact_id n value =
     (let t = py_str (py_or value (JStr [])) in
      if t = [] then []
      else ''<code class=\"id-chip compact-id\" title=\"'' @ escape t @ ''\">'' @ escape (short_text n t) @ ''</code>'')"

definition render_identity_stack :: "json \<Rightarrow> json \<Rightarrow> string" where
  "render_identity_stack peer_id wallet =
     ''<div class=\"identity-stack\"><div class=\"identity-line\"><span class=\"identity-label\">peer</span>'' @
     render_compact_id 24 peer_id @
     ''</div><div class=\"identity-line\"><span class=\"identity-label\">wallet</span>'' @
     render_compact_id 24 wallet @ ''</div></div>''"

definition render_ree_cell :: "jobject \<Rightarrow> jobject \<Rightarrow> string" where
  "render_ree_cell attestation receipt =
     (let ree_hash = py_or (jget receipt ''ree_receipt_hash'') (jget attestation ''ree_receipt_hash'');
          ree_state = py_or (jget receipt ''ree_status'') (jget attestation ''receipt_status'')
      in if \<not> truthy ree_hash \<and> \<not> truthy ree_state then []
         else ''<span>'' @ escape (py_str (py_or ree_state (JStr ''present''))) @ ''</span> <code>'' @
           escape (short_text 18 (py_str (py_or ree_hash (JStr [])))) @ ''</code>'')"

definition render_tx_cell :: "jobject \<Rightarrow> string" where
  "render_tx_cell receipt =
     (let tx_hash = jget receipt ''tx_hash''; explorer_url = jget receipt ''explorer_url'';
          chip = ''<code class=\"hash-chip\" title=\"'' @ escape (py_str tx_hash) @ ''\">'' @
            escape (short_text 18 (py_str tx_hash)) @ ''</code>''
      in if \<not> truthy tx_hash then []
         else if truthy explorer_url then ''<a href=\"'' @ escape (py_str explorer_url) @ ''\">'' @ chip @ ''</a>''
         else chip)"

definition render_proof_detail_line :: "string \<Rightarrow> string \<Rightarrow> json \<Rightarrow> string" where
  "render_proof_detail_line role key value =
     ''<li><span>'' @ escape (if role \<noteq> [] then role else ''run'') @ '' / '' @ escape key @ ''</span><code class=\"hash-chip\">'' @
     escape (py_str value) @ ''</code></li>''"

definition render_proof_detail_lines :: "string \<Rightarrow> (string \<times> json) list \<Rightarrow> string list" where
  "render_proof_detail_lines role details =
     map (\<lambda>(key, value). render_proof_detail_line role key value) (filter (\<lambda>(_, value). truthy value) details)"

lemma small_cells [simp]:
  "fragment (render_capability label value status)" "fragment (status_span s)" "fragment (render_compact_id n v)"
  "fragment (render_identity_stack p w)" "fragment (render_ree_cell a r)" "fragment (render_tx_cell r)"
  "fragment (render_proof_detail_line role key v)"
proof -
  show c: "fragment (render_compact_id n v)" for n v
    by (rule fragmentI) (simp add: render_compact_id_def Let_def)
  show "fragment (render_capability label value status)" "fragment (status_span s)" "fragment (render_identity_stack p w)"
    "fragment (render_ree_cell a r)" "fragment (render_tx_cell r)" "fragment (render_proof_detail_line role key v)"
    using c by (intro fragmentI; simp add: render_capability_def status_span_def render_identity_stack_def
        render_ree_cell_def render_tx_cell_def render_proof_detail_line_def Let_def)+
qed

end
