(* ===== verification/Synthesis.thy ===== *)
theory Synthesis
  imports Coordinator Chain_Events PyFloat
begin

section \<open>Writing the memo (app/coordinator/synthesis.py, app/observability/metrics.py)\<close>

text \<open>
  The final memo of a run: the language model's JSON with the facts of the run written over it, or a memo
  put together from the answers when the model fails. The model is a function of its name and the messages
  and \<open>loads\<close> is \<^verbatim>\<open>json.loads\<close>, which raises \<^verbatim>\<open>ValueError\<close> on other text. The counters and
  histograms are event lists, threaded through.

  Shown: whatever the model writes, the job, thesis, provenance, attestations, evidence sources and the
  partial flag of the memo are those of the run, and its opposing evidence is a list of at most eight
  distinct texts; a run of valid answers gets a memo when the model answers or fails in one of the four
  ways that are caught; and an answer that opens a code fence and has no second line is not one of them.
\<close>

subsection \<open>Metrics\<close>

record metric_event =
  mt_name :: string
  mt_value :: float64
  mt_labels :: "(string \<times> string) list"

record metrics =
  mx_counter_events :: "metric_event list"
  mx_histogram_events :: "metric_event list"

definition counter_add :: "string \<Rightarrow> float64 \<Rightarrow> (string \<times> string) list \<Rightarrow> metrics \<Rightarrow> metrics" where
  "counter_add name v labels m =
     m\<lparr>mx_counter_events := mx_counter_events m @ [\<lparr>mt_name = name, mt_value = v, mt_labels = labels\<rparr>]\<rparr>"

definition histogram_record :: "string \<Rightarrow> float64 \<Rightarrow> (string \<times> string) list \<Rightarrow> metrics \<Rightarrow> metrics" where
  "histogram_record name v labels m =
     m\<lparr>mx_histogram_events := mx_histogram_events m @ [\<lparr>mt_name = name, mt_value = v, mt_labels = labels\<rparr>]\<rparr>"

definition synthesis_elapsed_ms :: "float64 \<Rightarrow> float64 \<Rightarrow> float64" where
  "synthesis_elapsed_ms started_at now = py_round 3 (fmul (fsub now started_at) 1000)"

subsection \<open>Compact JSON text\<close>

text \<open>\<^verbatim>\<open>json.dumps(v, separators=(",", ":"))\<close>: insertion order, ASCII only, NaN allowed.\<close>

definition ascii_json_char :: "char \<Rightarrow> string" where
  "ascii_json_char c =
     (let n = char_code c in
      if n < 127 then json_char c
      else [char_of (92::nat), CHR ''u'', CHR ''0'', CHR ''0'', hex_digit (n div 16), hex_digit (n mod 16)])"

definition ascii_json_string :: "string \<Rightarrow> string" where
  "ascii_json_string s = [char_of (34::nat)] @ concat (map ascii_json_char s) @ [char_of (34::nat)]"

definition dumps_float :: "pyfloat \<Rightarrow> string" where
  "dumps_float f = (case f of Fin x \<Rightarrow> float_repr x | PosInf \<Rightarrow> ''Infinity'' | NegInf \<Rightarrow> ''-Infinity'' | NaN \<Rightarrow> ''NaN'')"

fun dumps :: "json \<Rightarrow> string" and dumps_items :: "json list \<Rightarrow> string list" and dumps_fields :: "(string \<times> json) list \<Rightarrow> string list" where
  "dumps JNull = ''null''"
| "dumps (JBool b) = (if b then ''true'' else ''false'')"
| "dumps (JInt i) = str_of_int i"
| "dumps (JFloat f) = dumps_float f"
| "dumps (JStr s) = ascii_json_string s"
| "dumps (JList xs) = ''['' @ join '','' (dumps_items xs) @ '']''"
| "dumps (JObj d) = ''{'' @ join '','' (dumps_fields d) @ ''}''"
| "dumps_items [] = []"
| "dumps_items (v # vs) = dumps v # dumps_items vs"
| "dumps_fields [] = []"
| "dumps_fields ((k, v) # d) = (ascii_json_string k @ '':'' @ dumps v) # dumps_fields d"

subsection \<open>Parts of the memo\<close>

definition make_provenance :: "provenance_record \<Rightarrow> provenance_record res" where
  "make_provenance = checked ''ProvenanceRecord'' valid_provenance"

definition make_memo_source :: "memo_evidence_source \<Rightarrow> memo_evidence_source res" where
  "make_memo_source = checked ''MemoEvidenceSource'' valid_memo_source"

definition make_final_memo :: "final_memo \<Rightarrow> final_memo res" where
  "make_final_memo = checked ''FinalMemo'' valid_final_memo"

definition response_provenance :: "specialist_response \<Rightarrow> provenance_record" where
  "response_provenance r = \<lparr>pr_node_role = sr_node_role r, pr_peer_id = sr_peer_id r, pr_timestamp = sr_timestamp r\<rparr>"

definition build_provenance :: "specialist_response list \<Rightarrow> provenance_record list res" where
  "build_provenance rs = map_res (\<lambda>r. make_provenance (response_provenance r)) rs"

definition normalize_forecast_question :: "thesis_request \<Rightarrow> string" where
  "normalize_forecast_question q =
     ''Will '' @ tr_asset q @ '' validate this thesis over '' @ str_of_int (tr_horizon_days q) @ '' days: '' @ tr_thesis q"

fun compact_loop :: "string list \<Rightarrow> json list \<Rightarrow> string list" where
  "compact_loop compacted [] = compacted"
| "compact_loop compacted (v # vs) =
     (case v of
        JStr s \<Rightarrow>
          (let item = strip s in
           if item = [] \<or> item \<in> set compacted then compact_loop compacted vs
           else compact_loop (compacted @ [item]) vs)
      | _ \<Rightarrow> compact_loop compacted vs)"

definition compact_unique :: "json list \<Rightarrow> string list" where
  "compact_unique vs = take 8 (compact_loop [] vs)"

definition average_scenarios :: "specialist_response list \<Rightarrow> scenario_view" where
  "average_scenarios rs =
     (if rs = [] then \<lparr>sv_bull = Fin 0, sv_base = Fin 0, sv_bear = Fin 0\<rparr>
      else \<lparr>sv_bull = pf_mean (map (\<lambda>r. sv_bull (sr_scenario_view r)) rs),
            sv_base = pf_mean (map (\<lambda>r. sv_base (sr_scenario_view r)) rs),
            sv_bear = pf_mean (map (\<lambda>r. sv_bear (sr_scenario_view r)) rs)\<rparr>)"

definition supporting_evidence :: "specialist_response list \<Rightarrow> string list" where
  "supporting_evidence rs = compact_unique (map JStr (concat (map (\<lambda>r. sr_summary r # sr_signals r)
     (filter (\<lambda>r. sr_node_role r \<in> {''regime'', ''narrative''}) rs))))"

definition opposing_evidence :: "specialist_response list \<Rightarrow> string list" where
  "opposing_evidence rs = compact_unique (map JStr (concat (map (\<lambda>r. sr_summary r # sr_risks r)
     (filter (\<lambda>r. sr_node_role r = ''risk'' \<or> sr_risks r \<noteq> []) rs))))"

definition run_input_sources :: "dispatch_result \<Rightarrow> jobject list" where
  "run_input_sources d =
     (if dr_input_sources d \<noteq> [] then dr_input_sources d else objects_in (jget (dr_run_metadata d) ''input_sources''))"

fun first_by_role :: "(string, jobject) pydict \<Rightarrow> jobject list \<Rightarrow> (string, jobject) pydict" where
  "first_by_role by_role [] = by_role"
| "first_by_role by_role (source # sources) =
     (case as_str (jget source ''input_role'') of
        Some role \<Rightarrow> first_by_role (if dget by_role role = None then dset by_role role source else by_role) sources
      | None \<Rightarrow> first_by_role by_role sources)"

definition input_source_by_role :: "dispatch_result \<Rightarrow> (string, jobject) pydict" where
  "input_source_by_role d = first_by_role [] (run_input_sources d)"

definition optional_str :: "json \<Rightarrow> string option" where
  "optional_str v = (case v of JStr s \<Rightarrow> if s \<noteq> [] then Some s else None | _ \<Rightarrow> None)"

definition source_of :: "specialist_response \<Rightarrow> string \<Rightarrow> jobject \<Rightarrow> string \<Rightarrow> memo_evidence_source" where
  "source_of r digest input_source item =
     \<lparr>me_text = item, me_source_role = sr_node_role r, me_peer_id = sr_peer_id r, me_output_hash = Some digest,
      me_source_url = optional_str (jget input_source ''source_url''),
      me_retrieved_at = optional_str (jget input_source ''retrieved_at''),
      me_source_hash = optional_str (jget input_source ''source_hash''),
      me_source_quality = optional_str (jget input_source ''source_quality'')\<rparr>"

definition response_sources ::
    "crypto \<Rightarrow> (string, jobject) pydict \<Rightarrow> specialist_response \<Rightarrow> memo_evidence_source list res" where
  "response_sources c by_role r =
     res_bind (output_hash c r) (\<lambda>digest.
       map_res (\<lambda>item. make_memo_source (source_of r digest (dget_or by_role (sr_node_role r) []) item))
         (filter (\<lambda>item. strip item \<noteq> []) (sr_summary r # sr_signals r @ sr_risks r)))"

definition evidence_sources ::
    "crypto \<Rightarrow> specialist_response list \<Rightarrow> dispatch_result \<Rightarrow> memo_evidence_source list res" where
  "evidence_sources c rs d =
     res_bind (map_res (response_sources c (input_source_by_role d)) rs) (\<lambda>sss. Inr (concat sss))"

definition confidence_rationale :: "specialist_response list \<Rightarrow> bool \<Rightarrow> string" where
  "confidence_rationale rs partial =
     (if rs = [] then ''No specialist responses were available, so confidence is minimal.''
      else ''Average specialist confidence is '' @
        fmt_fixed 2 (fdiv (foldl fadd 0 (map sr_confidence rs)) (of_nat (length rs))) @ '' with '' @
        (if partial then ''partial specialist coverage'' else ''all specialist roles'') @ '' represented in the memo.'')"

definition rejected_evidence :: "dispatch_result \<Rightarrow> string list" where
  "rejected_evidence d =
     (let by_role = dict_of (map (\<lambda>a. (va_node_role a, a)) (dr_verification_attestations d)) in
      some_values (map (\<lambda>r. map_option (\<lambda>a.
          ''Rejected '' @ sr_node_role r @ '' output from '' @ sr_peer_id r @ '': '' @ sr_summary r @ '' (score='' @
          fmt_fixed 2 (va_score a) @ ''; reasons='' @ join '', '' (va_reasons a) @ '')'')
        (dget by_role (sr_node_role r))) (dr_rejected_responses d)))"

definition build_partial_reason :: "dispatch_result \<Rightarrow> string option" where
  "build_partial_reason d =
     (let missing = dr_missing_roles d; rejected = map sr_node_role (dr_rejected_responses d) in
      if missing = [] \<and> rejected = [] then None
      else Some (join ''; ''
        ((if missing \<noteq> [] then [''Missing specialist roles: '' @ join '', '' missing] else []) @
         (if rejected \<noteq> [] then [''Rejected specialist roles: '' @ join '', '' rejected] else []))))"

subsection \<open>Asking the model\<close>

definition prompt_response :: "specialist_response \<Rightarrow> json" where
  "prompt_response r = JObj
     [(''node_role'', JStr (sr_node_role r)), (''summary'', JStr (sr_summary r)),
      (''scenario_view'', scenario_json (sr_scenario_view r)), (''signals'', str_list (sr_signals r)),
      (''risks'', str_list (sr_risks r)), (''confidence'', num (sr_confidence r)), (''citations'', str_list (sr_citations r))]"

definition newline :: string where "newline = [char_of (10::nat)]"

definition build_messages ::
    "string \<Rightarrow> thesis_request \<Rightarrow> specialist_response list \<Rightarrow> string \<Rightarrow> dispatch_result \<Rightarrow> (string \<times> string) list" where
  "build_messages job_id q rs normalized_thesis d =
     [(''system'', ''You are the Signal Count final memo synthesizer. Return compact JSON only that conforms to the FinalMemo schema. Preserve material disagreement between specialists.''),
      (''user'', ''Synthesize one final memo from these specialist outputs. Use concise bullets for catalysts, risks, and invalidation triggers. Explicitly preserve counter-thesis or disagreement. Label evidence quality as live source, fixture source, stale source, or missing source. Return keys: job_id, normalized_thesis, scenarios, supporting_evidence, opposing_evidence, catalysts, risks, invalidation_triggers, confidence_rationale, provenance, partial, partial_reason. The scenarios object must contain bull, base, and bear numeric weights.'' @ newline @
        ''job_id: '' @ job_id @ newline @ ''asset: '' @ tr_asset q @ newline @
        ''horizon_days: '' @ str_of_int (tr_horizon_days q) @ newline @
        ''normalized_thesis: '' @ normalized_thesis @ newline @
        ''specialist_outputs:'' @ newline @ dumps (JList (map prompt_response rs)) @ newline @
        ''input_sources:'' @ newline @ dumps (JList (map JObj (run_input_sources d))))]"

fun after_first :: "string \<Rightarrow> string \<Rightarrow> string option" where
  "after_first p [] = (if p = [] then Some [] else None)"
| "after_first p (c # s) = (if starts_with p (c # s) then Some (drop (length p) (c # s)) else after_first p s)"

text \<open>\<^verbatim>\<open>s.rsplit(p, 1)[0]\<close>\<close>

definition before_last :: "string \<Rightarrow> string \<Rightarrow> string" where
  "before_last p s = (case after_first (rev p) (rev s) of None \<Rightarrow> s | Some t \<Rightarrow> rev t)"

definition fence :: string where "fence = replicate 3 (CHR 0x60)"

text \<open>The text inside a code fence, or the text itself\<close>

definition unfence :: "string \<Rightarrow> string res" where
  "unfence llm_text =
     (let t = strip llm_text in
      if starts_with fence t then
        (if char_of (10::nat) \<in> set t then Inr (strip (before_last fence (snd (split1 (char_of (10::nat)) t))))
         else Inl IndexError)
      else Inr t)"

definition load_json_object :: "(string \<Rightarrow> json res) \<Rightarrow> string \<Rightarrow> jobject res" where
  "load_json_object loads llm_text =
     res_bind (unfence llm_text) (\<lambda>json_text.
     res_bind (loads json_text) (\<lambda>v.
       case v of JObj d \<Rightarrow> Inr d | _ \<Rightarrow> Inl (ValueError ''LLM memo response must be a JSON object'')))"

text \<open>\<^verbatim>\<open>[*v]\<close>\<close>

definition unpack :: "json \<Rightarrow> json list res" where
  "unpack v =
     (case v of
        JList xs \<Rightarrow> Inr xs
      | JStr s \<Rightarrow> Inr (map (\<lambda>ch. JStr [ch]) s)
      | JObj d \<Rightarrow> Inr (map (\<lambda>(k, _). JStr k) d)
      | _ \<Rightarrow> Inl (TypeError ''Value after * must be an iterable''))"

subsection \<open>Validating the model's memo\<close>

definition text_field_or :: "string \<Rightarrow> jobject \<Rightarrow> string \<Rightarrow> string res" where
  "text_field_or fallback d k = (case dget d k of None \<Rightarrow> Inr fallback | Some _ \<Rightarrow> str_field d k)"

definition obj_list_field :: "(jobject \<Rightarrow> 'a res) \<Rightarrow> jobject \<Rightarrow> string \<Rightarrow> 'a list res" where
  "obj_list_field f d k =
     (case dget d k of None \<Rightarrow> Inr []
      | Some (JList vs) \<Rightarrow> map_res (\<lambda>v. case v of JObj b \<Rightarrow> f b | _ \<Rightarrow> invalid k) vs
      | _ \<Rightarrow> invalid k)"

text \<open>A bool field takes a bool, the numbers 0 and 1 and the words pydantic reads as one.\<close>

definition lax_bool :: "json \<Rightarrow> bool option" where
  "lax_bool v =
     (case v of
        JBool b \<Rightarrow> Some b
      | JInt i \<Rightarrow> if i = 0 then Some False else if i = 1 then Some True else None
      | JFloat f \<Rightarrow> if f = Fin 0 then Some False else if f = Fin 1 then Some True else None
      | JStr s \<Rightarrow>
          (let t = to_lower s in
           if t \<in> {''0'', ''off'', ''f'', ''false'', ''n'', ''no''} then Some False
           else if t \<in> {''1'', ''on'', ''t'', ''true'', ''y'', ''yes''} then Some True else None)
      | _ \<Rightarrow> None)"

definition bool_field :: "jobject \<Rightarrow> string \<Rightarrow> bool res" where
  "bool_field d k =
     (case dget d k of None \<Rightarrow> Inr False
      | Some v \<Rightarrow> (case lax_bool v of Some b \<Rightarrow> Inr b | None \<Rightarrow> invalid k))"

definition provenance_of_json :: "jobject \<Rightarrow> provenance_record res" where
  "provenance_of_json d =
     res_bind (str_field d ''node_role'') (\<lambda>role.
     res_bind (str_field d ''peer_id'') (\<lambda>peer.
     res_bind (str_field d ''timestamp'') (\<lambda>t.
       make_provenance \<lparr>pr_node_role = role, pr_peer_id = peer, pr_timestamp = t\<rparr>)))"

definition memo_source_of_json :: "jobject \<Rightarrow> memo_evidence_source res" where
  "memo_source_of_json d =
     res_bind (str_field d ''text'') (\<lambda>text.
     res_bind (str_field d ''source_role'') (\<lambda>role.
     res_bind (str_field d ''peer_id'') (\<lambda>peer.
     res_bind (opt_str_field d ''output_hash'') (\<lambda>digest.
     res_bind (opt_str_field d ''source_url'') (\<lambda>url.
     res_bind (opt_str_field d ''retrieved_at'') (\<lambda>retrieved.
     res_bind (opt_str_field d ''source_hash'') (\<lambda>sh.
     res_bind (opt_str_field d ''source_quality'') (\<lambda>quality.
       make_memo_source \<lparr>me_text = text, me_source_role = role, me_peer_id = peer, me_output_hash = digest,
         me_source_url = url, me_retrieved_at = retrieved, me_source_hash = sh, me_source_quality = quality\<rparr>))))))))"

definition final_memo_of_json :: "jobject \<Rightarrow> final_memo res" where
  "final_memo_of_json d =
     res_bind (str_field d ''job_id'') (\<lambda>job.
     res_bind (str_field d ''normalized_thesis'') (\<lambda>thesis.
     res_bind (scenario_field d ''scenarios'') (\<lambda>scenarios.
     res_bind (str_list_field d ''supporting_evidence'') (\<lambda>supporting.
     res_bind (str_list_field d ''opposing_evidence'') (\<lambda>opposing.
     res_bind (str_list_field d ''catalysts'') (\<lambda>catalysts.
     res_bind (str_list_field d ''risks'') (\<lambda>risks.
     res_bind (str_list_field d ''invalidation_triggers'') (\<lambda>triggers.
     res_bind (text_field_or [] d ''confidence_rationale'') (\<lambda>rationale.
     res_bind (obj_list_field provenance_of_json d ''provenance'') (\<lambda>provenance.
     res_bind (obj_list_field memo_source_of_json d ''evidence_sources'') (\<lambda>sources.
     res_bind (obj_list_field attestation_of_json d ''verification_attestations'') (\<lambda>attestations.
     res_bind (bool_field d ''partial'') (\<lambda>partial.
     res_bind (opt_str_field d ''partial_reason'') (\<lambda>reason.
       make_final_memo
         \<lparr>fm_job_id = job, fm_normalized_thesis = thesis, fm_scenarios = scenarios, fm_supporting_evidence = supporting,
          fm_opposing_evidence = opposing, fm_catalysts = catalysts, fm_risks = risks, fm_invalidation_triggers = triggers,
          fm_confidence_rationale = rationale, fm_provenance = provenance, fm_evidence_sources = sources,
          fm_verification_attestations = attestations, fm_partial = partial, fm_partial_reason = reason\<rparr>))))))))))))))"

definition memo_payload ::
    "string \<Rightarrow> string \<Rightarrow> provenance_record list \<Rightarrow> bool \<Rightarrow> string option \<Rightarrow> memo_evidence_source list \<Rightarrow> json list \<Rightarrow>
     dispatch_result \<Rightarrow> jobject \<Rightarrow> jobject" where
  "memo_payload job_id thesis provenance partial reason sources opposing d payload =
     dset (dset (dset (dset (dset (dset (dset (dset payload
       ''job_id'' (JStr job_id))
       ''normalized_thesis'' (JStr thesis))
       ''provenance'' (JList (map provenance_json provenance)))
       ''verification_attestations'' (JList (map attestation_json (dr_verification_attestations d))))
       ''evidence_sources'' (JList (map memo_source_json sources)))
       ''opposing_evidence'' (str_list (compact_unique (opposing @ map JStr (rejected_evidence d)))))
       ''partial'' (JBool partial))
       ''partial_reason'' (opt_str reason)"

definition parse_llm_memo ::
    "crypto \<Rightarrow> (string \<Rightarrow> json res) \<Rightarrow> string \<Rightarrow> string \<Rightarrow> string \<Rightarrow> provenance_record list \<Rightarrow> bool \<Rightarrow> string option \<Rightarrow>
     dispatch_result \<Rightarrow> final_memo res" where
  "parse_llm_memo c loads llm_text job_id thesis provenance partial reason d =
     res_bind (load_json_object loads llm_text) (\<lambda>payload.
     res_bind (evidence_sources c (dr_responses d) d) (\<lambda>sources.
     res_bind (case dget payload ''opposing_evidence'' of None \<Rightarrow> Inr [] | Some v \<Rightarrow> unpack v) (\<lambda>opposing.
       final_memo_of_json (memo_payload job_id thesis provenance partial reason sources opposing d payload))))"

definition fallback_memo ::
    "crypto \<Rightarrow> string \<Rightarrow> string \<Rightarrow> provenance_record list \<Rightarrow> bool \<Rightarrow> string option \<Rightarrow> dispatch_result \<Rightarrow> final_memo res" where
  "fallback_memo c job_id thesis provenance partial reason d =
     (let rs = dr_responses d in
      res_bind (evidence_sources c rs d) (\<lambda>sources.
        make_final_memo
          \<lparr>fm_job_id = job_id, fm_normalized_thesis = thesis, fm_scenarios = average_scenarios rs,
           fm_supporting_evidence = supporting_evidence rs,
           fm_opposing_evidence = compact_unique (map JStr (opposing_evidence rs @ rejected_evidence d)),
           fm_catalysts = compact_unique (map JStr (concat (map sr_signals rs))),
           fm_risks = compact_unique (map JStr (concat (map sr_risks rs))),
           fm_invalidation_triggers = map sr_summary (filter (\<lambda>r. sr_node_role r = ''risk'') rs),
           fm_confidence_rationale = confidence_rationale rs partial, fm_provenance = provenance,
           fm_evidence_sources = sources, fm_verification_attestations = dr_verification_attestations d,
           fm_partial = partial, fm_partial_reason = reason\<rparr>))"

record memo_service =
  ms_complete :: "string \<Rightarrow> (string \<times> string) list \<Rightarrow> string res"
  ms_model :: string
  ms_loads :: "string \<Rightarrow> json res"

text \<open>\<^verbatim>\<open>except (ValidationError, ValueError, TypeError, RuntimeError)\<close>\<close>

definition synthesis_caught :: "py_error \<Rightarrow> bool" where
  "synthesis_caught e =
     (case e of ValueError _ \<Rightarrow> True | TypeError _ \<Rightarrow> True | RuntimeError _ \<Rightarrow> True | ValidationError _ \<Rightarrow> True
      | InvalidSpecialistResponse _ \<Rightarrow> True | _ \<Rightarrow> False)"

definition count_outcome :: "string \<Rightarrow> metrics \<Rightarrow> metrics" where
  "count_outcome outcome = counter_add ''memo_synthesis_requests_total'' 1
     [(''operation'', ''memo.synthesize''), (''outcome'', outcome)]"

definition synthesize_within ::
    "crypto \<Rightarrow> memo_service \<Rightarrow> string \<Rightarrow> thesis_request \<Rightarrow> dispatch_result \<Rightarrow> provenance_record list \<Rightarrow> metrics \<Rightarrow>
     final_memo res \<times> metrics" where
  "synthesize_within c sv job_id q d provenance m =
     (let thesis = normalize_forecast_question q; partial = (dr_partial d \<or> dr_rejected_responses d \<noteq> []);
          reason = build_partial_reason d
      in case res_bind (ms_complete sv (ms_model sv) (build_messages job_id q (dr_responses d) thesis d)) (\<lambda>llm_text.
            parse_llm_memo c (ms_loads sv) llm_text job_id thesis provenance partial reason d) of
           Inr memo \<Rightarrow> (Inr memo, count_outcome ''success'' m)
         | Inl e \<Rightarrow>
             if synthesis_caught e then
               (case fallback_memo c job_id thesis provenance partial reason d of
                  Inr memo \<Rightarrow> (Inr memo, count_outcome ''fallback'' m)
                | Inl e' \<Rightarrow> (Inl e', m))
             else (Inl e, count_outcome ''error'' m))"

definition synthesize ::
    "crypto \<Rightarrow> memo_service \<Rightarrow> float64 \<Rightarrow> float64 \<Rightarrow> string \<Rightarrow> thesis_request \<Rightarrow> dispatch_result \<Rightarrow> metrics \<Rightarrow>
     final_memo res \<times> metrics" where
  "synthesize c sv started_at now job_id q d m =
     (case build_provenance (dr_responses d) of
        Inl e \<Rightarrow> (Inl e, m)
      | Inr provenance \<Rightarrow>
          (case synthesize_within c sv job_id q d provenance m of
             (r, m') \<Rightarrow> (r, histogram_record ''memo_synthesis_latency_ms'' (synthesis_elapsed_ms started_at now)
               [(''operation'', ''memo.synthesize'')] m')))"

subsection \<open>Compact lists\<close>

lemma last_dropWhile: "dropWhile P xs \<noteq> [] \<Longrightarrow> last (dropWhile P xs) = last xs"
  by (induction xs) auto

lemma strip_strip [simp]: "strip (strip s) = strip s"
  using strip_no_space [of s] by (auto simp: strip_id_iff)

definition compact_ok :: "string list \<Rightarrow> bool" where
  "compact_ok xs \<longleftrightarrow> distinct xs \<and> (\<forall>s \<in> set xs. s \<noteq> [] \<and> strip s = s)"

lemma compact_loop_ok: "compact_ok acc \<Longrightarrow> compact_ok (compact_loop acc vs)"
proof (induction vs arbitrary: acc)
  case (Cons v vs)
  show ?case
  proof (cases v)
    case (JStr s)
    have "compact_ok (acc @ [strip s])" if "strip s \<noteq> []" "strip s \<notin> set acc"
      using Cons.prems that by (simp add: compact_ok_def)
    with JStr Cons show ?thesis by (simp add: Let_def)
  qed (use Cons in simp_all)
qed simp

lemma compact_unique_ok:
  "distinct (compact_unique vs)" "length (compact_unique vs) \<le> 8"
  "s \<in> set (compact_unique vs) \<Longrightarrow> s \<noteq> [] \<and> strip s = s"
  using compact_loop_ok [of "[]" vs] by (auto simp: compact_ok_def compact_unique_def dest: in_set_takeD)

subsection \<open>What the service writes over the model's JSON reads back as written\<close>

lemma obj_list_fieldI:
  assumes "dget d k = Some (JList (map (\<lambda>x. JObj (enc x)) xs))" "\<And>x. x \<in> set xs \<Longrightarrow> dec (enc x) = Inr x"
  shows "obj_list_field dec d k = Inr xs"
proof -
  have "map_res (\<lambda>v. case v of JObj b \<Rightarrow> dec b | _ \<Rightarrow> invalid k) (map (\<lambda>x. JObj (enc x)) xs) = Inr xs"
    using assms(2) by (induction xs) simp_all
  with assms(1) show ?thesis by (simp add: obj_list_field_def)
qed

definition provenance_fields :: "provenance_record \<Rightarrow> jobject" where
  "provenance_fields p = (case provenance_json p of JObj d \<Rightarrow> d | _ \<Rightarrow> [])"

definition memo_source_fields :: "memo_evidence_source \<Rightarrow> jobject" where
  "memo_source_fields s = (case memo_source_json s of JObj d \<Rightarrow> d | _ \<Rightarrow> [])"

lemma written_json:
  "provenance_json = (\<lambda>p. JObj (provenance_fields p))" "memo_source_json = (\<lambda>s. JObj (memo_source_fields s))"
  "attestation_json = (\<lambda>a. JObj (attestation_fields a))"
  by (auto simp: provenance_fields_def provenance_json_def memo_source_fields_def memo_source_json_def attestation_json_def)

lemma provenance_roundtrip: "valid_provenance p \<Longrightarrow> provenance_of_json (provenance_fields p) = Inr p"
  by (cases p) (simp add: provenance_fields_def provenance_json_def provenance_of_json_def make_provenance_def)

lemma memo_source_roundtrip: "valid_memo_source s \<Longrightarrow> memo_source_of_json (memo_source_fields s) = Inr s"
  by (cases s) (simp add: memo_source_fields_def memo_source_json_def memo_source_of_json_def make_memo_source_def)

lemma memo_payload_get:
  assumes "payload' = memo_payload job_id thesis provenance partial reason sources opposing d payload"
  shows "dget payload' ''job_id'' = Some (JStr job_id)" "dget payload' ''normalized_thesis'' = Some (JStr thesis)"
    "dget payload' ''provenance'' = Some (JList (map (\<lambda>p. JObj (provenance_fields p)) provenance))"
    "dget payload' ''verification_attestations'' =
       Some (JList (map (\<lambda>a. JObj (attestation_fields a)) (dr_verification_attestations d)))"
    "dget payload' ''evidence_sources'' = Some (JList (map (\<lambda>s. JObj (memo_source_fields s)) sources))"
    "dget payload' ''opposing_evidence'' = Some (str_list (compact_unique (opposing @ map JStr (rejected_evidence d))))"
    "dget payload' ''partial'' = Some (JBool partial)" "dget payload' ''partial_reason'' = Some (opt_str reason)"
  unfolding assms memo_payload_def written_json by simp_all

lemma memo_of_payload:
  assumes memo: "final_memo_of_json (memo_payload job_id thesis provenance partial reason sources opposing d payload) = Inr memo"
    and valid: "list_all valid_provenance provenance" "list_all valid_memo_source sources"
      "list_all valid_attestation (dr_verification_attestations d)"
  shows "fm_job_id memo = job_id" "fm_normalized_thesis memo = thesis" "fm_provenance memo = provenance"
    "fm_evidence_sources memo = sources" "fm_verification_attestations memo = dr_verification_attestations d"
    "fm_opposing_evidence memo = compact_unique (opposing @ map JStr (rejected_evidence d))"
    "fm_partial memo = partial" "fm_partial_reason memo = reason" "valid_final_memo memo"
proof -
  define p where "p = memo_payload job_id thesis provenance partial reason sources opposing d payload"
  note get = memo_payload_get [OF p_def]
  have f: "str_field p ''job_id'' = Inr job_id" "str_field p ''normalized_thesis'' = Inr thesis"
      "str_list_field p ''opposing_evidence'' = Inr (compact_unique (opposing @ map JStr (rejected_evidence d)))"
      "bool_field p ''partial'' = Inr partial" "opt_str_field p ''partial_reason'' = Inr reason"
    using get by (auto simp: bool_field_def lax_bool_def)
  have l: "obj_list_field provenance_of_json p ''provenance'' = Inr provenance"
      "obj_list_field memo_source_of_json p ''evidence_sources'' = Inr sources"
      "obj_list_field attestation_of_json p ''verification_attestations'' = Inr (dr_verification_attestations d)"
    by (rule obj_list_fieldI, rule get,
        use valid in \<open>auto simp: list_all_iff intro: provenance_roundtrip memo_source_roundtrip attestation_roundtrip\<close>)+
  from memo show "fm_job_id memo = job_id" "fm_normalized_thesis memo = thesis" "fm_provenance memo = provenance"
    "fm_evidence_sources memo = sources" "fm_verification_attestations memo = dr_verification_attestations d"
    "fm_opposing_evidence memo = compact_unique (opposing @ map JStr (rejected_evidence d))"
    "fm_partial memo = partial" "fm_partial_reason memo = reason" "valid_final_memo memo"
    unfolding final_memo_of_json_def p_def [symmetric] f l
    by (auto simp: res_bind_Inr_iff make_final_memo_def checked_Inr_iff)
qed

subsection \<open>The facts of the run\<close>

lemma build_provenance_Inr:
  "build_provenance rs = Inr ps \<longleftrightarrow> ps = map response_provenance rs \<and> list_all valid_provenance ps"
  unfolding build_provenance_def map_res_Inr_iff make_provenance_def checked_Inr_iff list_all2_conv_all_nth list_all_length
  by (auto intro: nth_equalityI)

definition source_stands_for :: "crypto \<Rightarrow> memo_evidence_source \<Rightarrow> specialist_response \<Rightarrow> bool" where
  "source_stands_for c s r \<longleftrightarrow>
     me_source_role s = sr_node_role r \<and> me_peer_id s = sr_peer_id r \<and>
     me_text s \<in> set (sr_summary r # sr_signals r @ sr_risks r) \<and> strip (me_text s) \<noteq> [] \<and>
     (\<exists>h. output_hash c r = Inr h \<and> me_output_hash s = Some h)"

lemma map_res_member: "map_res f xs = Inr ys \<Longrightarrow> y \<in> set ys \<Longrightarrow> \<exists>x \<in> set xs. f x = Inr y"
  unfolding map_res_Inr_iff by (induction rule: list_all2_induct) auto

lemma response_sources_stand:
  assumes "response_sources c by_role r = Inr ss" "s \<in> set ss"
  shows "valid_memo_source s \<and> source_stands_for c s r"
proof -
  obtain h where h: "output_hash c r = Inr h" and all: "map_res (\<lambda>item. make_memo_source (source_of r h (dget_or by_role (sr_node_role r) []) item))
      (filter (\<lambda>item. strip item \<noteq> []) (sr_summary r # sr_signals r @ sr_risks r)) = Inr ss"
    using assms(1) unfolding response_sources_def res_bind_Inr_iff by blast
  from map_res_member [OF all assms(2)] obtain item where
      "item \<in> set (sr_summary r # sr_signals r @ sr_risks r)" "strip item \<noteq> []"
      "s = source_of r h (dget_or by_role (sr_node_role r) []) item" "valid_memo_source s"
    unfolding make_memo_source_def checked_Inr_iff set_filter by blast
  then show ?thesis using h by (simp add: source_stands_for_def source_of_def)
qed

lemma evidence_sources_stand:
  assumes "evidence_sources c rs d = Inr ss"
  shows "list_all valid_memo_source ss \<and> (\<forall>s \<in> set ss. \<exists>r \<in> set rs. source_stands_for c s r)"
proof -
  obtain sss where sss: "map_res (response_sources c (input_source_by_role d)) rs = Inr sss" "ss = concat sss"
    using assms unfolding evidence_sources_def res_bind_Inr_iff by blast
  have "\<exists>r \<in> set rs. valid_memo_source s \<and> source_stands_for c s r" if s: "s \<in> set ss" for s
  proof -
    obtain part where "part \<in> set sss" "s \<in> set part" using s sss(2) by auto
    with map_res_member [OF sss(1)] response_sources_stand show ?thesis by blast
  qed
  then show ?thesis by (auto simp: list_all_iff)
qed

definition carries_run :: "crypto \<Rightarrow> string \<Rightarrow> thesis_request \<Rightarrow> dispatch_result \<Rightarrow> final_memo \<Rightarrow> bool" where
  "carries_run c job_id q d memo \<longleftrightarrow>
     fm_job_id memo = job_id \<and> fm_normalized_thesis memo = normalize_forecast_question q \<and>
     fm_provenance memo = map response_provenance (dr_responses d) \<and>
     fm_verification_attestations memo = dr_verification_attestations d \<and>
     (\<forall>s \<in> set (fm_evidence_sources memo). \<exists>r \<in> set (dr_responses d). source_stands_for c s r) \<and>
     (fm_partial memo \<longleftrightarrow> dr_partial d \<or> dr_rejected_responses d \<noteq> []) \<and>
     (fm_partial_reason memo = None \<longleftrightarrow> dr_missing_roles d = [] \<and> dr_rejected_responses d = []) \<and>
     compact_ok (fm_opposing_evidence memo) \<and> length (fm_opposing_evidence memo) \<le> 8"

lemma partial_reason_None: "build_partial_reason d = None \<longleftrightarrow> dr_missing_roles d = [] \<and> dr_rejected_responses d = []"
  by (simp add: build_partial_reason_def Let_def)

lemma compact_unique_compact: "compact_ok (compact_unique vs)"
  by (simp add: compact_ok_def compact_unique_ok)

lemma parsed_carries_run:
  assumes memo: "parse_llm_memo c loads t job_id (normalize_forecast_question q) ps
      (dr_partial d \<or> dr_rejected_responses d \<noteq> []) (build_partial_reason d) d = Inr memo"
    and ps: "ps = map response_provenance (dr_responses d)" "list_all valid_provenance ps"
    and att: "list_all valid_attestation (dr_verification_attestations d)"
  shows "carries_run c job_id q d memo \<and> valid_final_memo memo"
proof -
  obtain payload sources opposing where ev: "evidence_sources c (dr_responses d) d = Inr sources"
    and m: "final_memo_of_json (memo_payload job_id (normalize_forecast_question q) ps
      (dr_partial d \<or> dr_rejected_responses d \<noteq> []) (build_partial_reason d) sources opposing d payload) = Inr memo"
    using memo unfolding parse_llm_memo_def res_bind_Inr_iff by blast
  have valid: "list_all valid_memo_source sources" using evidence_sources_stand [OF ev] ..
  from memo_of_payload [OF m ps(2) valid att] evidence_sources_stand [OF ev] show ?thesis
    unfolding carries_run_def by (simp add: ps(1) partial_reason_None compact_unique_compact compact_unique_ok(2))
qed

lemma fallback_carries_run:
  assumes memo: "fallback_memo c job_id (normalize_forecast_question q) (map response_provenance (dr_responses d))
      (dr_partial d \<or> dr_rejected_responses d \<noteq> []) (build_partial_reason d) d = Inr memo"
  shows "carries_run c job_id q d memo \<and> valid_final_memo memo"
proof -
  obtain sources where ev: "evidence_sources c (dr_responses d) d = Inr sources"
    using memo unfolding fallback_memo_def Let_def res_bind_Inr_iff by blast
  with memo evidence_sources_stand [OF ev] show ?thesis
    unfolding carries_run_def fallback_memo_def Let_def make_final_memo_def
    by (auto simp: checked_Inr_iff partial_reason_None compact_unique_compact compact_unique_ok(2))
qed

lemma synthesized_carries_run:
  assumes memo: "fst (synthesize c sv t0 t1 job_id q d m) = Inr memo"
    and att: "list_all valid_attestation (dr_verification_attestations d)"
  shows "carries_run c job_id q d memo \<and> valid_final_memo memo"
proof -
  obtain ps where ps: "build_provenance (dr_responses d) = Inr ps"
    and within: "fst (synthesize_within c sv job_id q d ps m) = Inr memo"
    using memo by (auto simp: synthesize_def split: sum.splits prod.splits)
  then have ps: "ps = map response_provenance (dr_responses d)" "list_all valid_provenance ps"
    unfolding build_provenance_Inr by blast+
  define asked where "asked = ms_complete sv (ms_model sv)
    (build_messages job_id q (dr_responses d) (normalize_forecast_question q) d)"
  from within consider (parsed) t where "parse_llm_memo c (ms_loads sv) t job_id (normalize_forecast_question q) ps
      (dr_partial d \<or> dr_rejected_responses d \<noteq> []) (build_partial_reason d) d = Inr memo"
    | (fallback) "fallback_memo c job_id (normalize_forecast_question q) ps
      (dr_partial d \<or> dr_rejected_responses d \<noteq> []) (build_partial_reason d) d = Inr memo"
    unfolding synthesize_within_def Let_def asked_def [symmetric]
    by (cases asked) (auto split: sum.splits if_splits)
  then show ?thesis
  proof cases
    case parsed
    then show ?thesis using parsed_carries_run [OF _ ps att] by blast
  next
    case fallback
    then show ?thesis unfolding ps(1) by (rule fallback_carries_run)
  qed
qed

subsection \<open>Which failures are caught\<close>

definition only_caught :: "'a res \<Rightarrow> bool" where
  "only_caught r \<longleftrightarrow> (\<forall>e. r = Inl e \<longrightarrow> synthesis_caught e)"

named_theorems caught "results whose errors the service catches"

lemma only_caught_basic [caught]:
  "only_caught (Inr x)" "only_caught (invalid k)" "only_caught (checked k p x)"
  "only_caught (Inl (ValueError t))" "only_caught (Inl (TypeError t))"
  by (auto simp: only_caught_def invalid_def checked_def synthesis_caught_def)

lemma only_caught_bind [caught]:
  "only_caught r \<Longrightarrow> (\<And>x. r = Inr x \<Longrightarrow> only_caught (f x)) \<Longrightarrow> only_caught (res_bind r f)"
  by (cases r) (auto simp: only_caught_def)

lemma only_caught_map [caught]: "(\<And>x. x \<in> set xs \<Longrightarrow> only_caught (f x)) \<Longrightarrow> only_caught (map_res f xs)"
proof (induction xs)
  case (Cons x xs)
  then have "only_caught (f x)" "only_caught (map_res f xs)" by simp_all
  then show ?case by (cases "f x"; cases "map_res f xs") (simp_all add: only_caught_def)
qed (simp add: caught)

lemma only_caught_fields [caught]:
  "only_caught (str_field d k)" "only_caught (opt_str_field d k)" "only_caught (opt_obj_field d k)"
  "only_caught (str_list_field d k)" "only_caught (float_field d k)" "only_caught (bool_field d k)"
  "only_caught (text_field_or t d k)"
  unfolding str_field_def opt_str_field_def opt_obj_field_def str_list_field_def float_field_def bool_field_def text_field_or_def
  by (auto intro!: caught split: option.split json.split sum.split bool.split)

lemma only_caught_unit [caught]: "only_caught (unit_field d k)"
  unfolding unit_field_def by (auto intro!: caught split: pyfloat.split)

lemma only_caught_scenario [caught]: "only_caught (scenario_field d k)"
  unfolding scenario_field_def scenario_of_json_def by (auto intro!: caught split: option.split json.split)

lemma only_caught_objects [caught]: "(\<And>b. only_caught (f b)) \<Longrightarrow> only_caught (obj_list_field f d k)"
  unfolding obj_list_field_def by (auto intro!: caught split: option.split json.split)

lemma only_caught_if [caught]: "only_caught x \<Longrightarrow> only_caught y \<Longrightarrow> only_caught (if b then x else y)"
  by simp

lemma only_caught_provenance [caught]: "only_caught (provenance_of_json d)"
  unfolding provenance_of_json_def make_provenance_def by (intro caught)

lemma only_caught_source [caught]: "only_caught (memo_source_of_json d)"
  unfolding memo_source_of_json_def make_memo_source_def by (intro caught)

lemma only_caught_attestation [caught]: "only_caught (attestation_of_json d)"
  unfolding attestation_of_json_def make_attestation_def by (intro caught)

lemma only_caught_memo [caught]: "only_caught (final_memo_of_json d)"
  unfolding final_memo_of_json_def make_final_memo_def by (intro caught)

lemma only_caught_unpack [caught]: "only_caught (unpack v)"
  unfolding unpack_def by (auto intro!: caught split: json.split)

subsection \<open>The memo carries the run, and is written whenever the failure is caught\<close>

text \<open>C24: Whatever the language model answers, a memo that comes back is valid and carries the facts of the
  run: its job id, its question, one provenance record per response in order, the verifier's attestations,
  evidence sources each of which quotes a non-blank text of a response together with that response's peer
  and canonical output hash, the partial flag, a reason when a role is missing or rejected and none
  otherwise, and at most eight distinct stripped opposing texts. The attestations are pydantic values, so
  they satisfy their own model.\<close>

theorem memo_carries_the_run:
  assumes "fst (synthesize c sv t0 t1 job_id q d m) = Inr memo"
    and "list_all valid_attestation (dr_verification_attestations d)"
  shows "carries_run c job_id q d memo \<and> valid_final_memo memo"
  using assms by (rule synthesized_carries_run)

definition bare_fence :: "string \<Rightarrow> bool" where
  "bare_fence t \<longleftrightarrow> starts_with fence (strip t) \<and> char_of (10::nat) \<notin> set (strip t)"

definition answer_handled :: "string res \<Rightarrow> bool" where
  "answer_handled r = (case r of Inl e \<Rightarrow> synthesis_caught e | Inr t \<Rightarrow> \<not> bare_fence t)"

definition good_run :: "string \<Rightarrow> dispatch_result \<Rightarrow> bool" where
  "good_run job_id d \<longleftrightarrow>
     job_id \<noteq> [] \<and> list_all valid_attestation (dr_verification_attestations d) \<and>
     list_all (\<lambda>r. valid_specialist_response r \<and> finite_json (specialist_response_json r)) (dr_responses d)"

lemma good_run_provenance:
  "good_run job_id d \<Longrightarrow> build_provenance (dr_responses d) = Inr (map response_provenance (dr_responses d)) \<and>
     list_all valid_provenance (map response_provenance (dr_responses d))"
  unfolding build_provenance_Inr
  by (auto simp: good_run_def list_all_iff response_provenance_def valid_provenance_def valid_specialist_response_def)

lemma response_sources_defined:
  assumes "valid_specialist_response r" "finite_json (specialist_response_json r)"
  shows "\<exists>ss. response_sources c by_role r = Inr ss"
proof -
  obtain h where h: "output_hash c r = Inr h" using output_hash_total [OF assms(2)] by blast
  have "make_memo_source (source_of r h src item) = Inr (source_of r h src item)" if "strip item \<noteq> []" for src item
    using assms(1) that
    by (auto simp: make_memo_source_def valid_memo_source_def source_of_def valid_specialist_response_def strip_empty
        intro!: checked_ok)
  then have "map_res (\<lambda>item. make_memo_source (source_of r h src item)) (filter (\<lambda>item. strip item \<noteq> []) xs) =
      Inr (map (source_of r h src) (filter (\<lambda>item. strip item \<noteq> []) xs))" for src xs
    by (intro map_res_pure) simp
  then show ?thesis unfolding response_sources_def h res_bind_simps by blast
qed

lemma good_run_sources:
  assumes "good_run job_id d"
  shows "\<exists>ss. evidence_sources c (dr_responses d) d = Inr ss"
proof -
  have "\<forall>r \<in> set (dr_responses d). \<exists>ss. response_sources c (input_source_by_role d) r = Inr ss"
    using assms response_sources_defined by (auto simp: good_run_def list_all_iff)
  then obtain g where "\<And>r. r \<in> set (dr_responses d) \<Longrightarrow> response_sources c (input_source_by_role d) r = Inr (g r)"
    by metis
  then have "map_res (response_sources c (input_source_by_role d)) (dr_responses d) = Inr (map g (dr_responses d))"
    by (rule map_res_pure)
  then show ?thesis by (simp add: evidence_sources_def)
qed

lemma good_run_fallback:
  assumes "good_run job_id d"
  shows "\<exists>memo. fallback_memo c job_id (normalize_forecast_question q) (map response_provenance (dr_responses d))
    partial reason d = Inr memo"
proof -
  obtain ss where ss: "evidence_sources c (dr_responses d) d = Inr ss" using good_run_sources [OF assms] by blast
  have "list_all valid_memo_source ss" using evidence_sources_stand [OF ss] ..
  moreover have "normalize_forecast_question q \<noteq> []" by (simp add: normalize_forecast_question_def)
  ultimately show ?thesis
    using ss assms good_run_provenance [OF assms]
    unfolding fallback_memo_def Let_def make_final_memo_def checked_def
    by (simp add: valid_final_memo_def good_run_def)
qed

lemma load_json_only_caught:
  assumes "\<And>t. only_caught (loads t)" "\<not> bare_fence t"
  shows "only_caught (load_json_object loads t)"
  unfolding load_json_object_def unfence_def Let_def
  using assms by (auto simp: bare_fence_def intro!: caught split: json.split)

lemma parse_only_caught:
  assumes "\<And>t. only_caught (loads t)" "\<not> bare_fence t" "good_run job_id d"
  shows "only_caught (parse_llm_memo c loads t job_id thesis ps partial reason d)"
proof -
  have "only_caught (evidence_sources c (dr_responses d) d)"
    using good_run_sources [OF assms(3), of c] by (auto intro: caught)
  then show ?thesis
    unfolding parse_llm_memo_def
    by (intro caught load_json_only_caught assms) (auto intro: caught split: option.split)
qed

lemma bare_fence_raises:
  "bare_fence t \<Longrightarrow> parse_llm_memo c loads t job_id thesis ps partial reason d = Inl IndexError"
  by (simp add: parse_llm_memo_def load_json_object_def unfence_def Let_def bare_fence_def)

lemma synthesize_answers:
  assumes run: "good_run job_id d" and loads: "\<And>t. only_caught (ms_loads sv t)"
  shows "(\<exists>memo. fst (synthesize c sv t0 t1 job_id q d m) = Inr memo) \<longleftrightarrow>
    answer_handled (ms_complete sv (ms_model sv)
      (build_messages job_id q (dr_responses d) (normalize_forecast_question q) d))"
proof -
  define ps where "ps = map response_provenance (dr_responses d)"
  define asked where "asked = ms_complete sv (ms_model sv)
    (build_messages job_id q (dr_responses d) (normalize_forecast_question q) d)"
  define parse where "parse t = parse_llm_memo c (ms_loads sv) t job_id (normalize_forecast_question q) ps
    (dr_partial d \<or> dr_rejected_responses d \<noteq> []) (build_partial_reason d) d" for t
  obtain memo where fb: "fallback_memo c job_id (normalize_forecast_question q) ps
      (dr_partial d \<or> dr_rejected_responses d \<noteq> []) (build_partial_reason d) d = Inr memo"
    using good_run_fallback [OF run] unfolding ps_def by blast
  have fst: "fst (synthesize c sv t0 t1 job_id q d m) = fst (synthesize_within c sv job_id q d ps m)"
    using good_run_provenance [OF run] by (simp add: synthesize_def ps_def split: prod.split)
  have within: "(\<exists>memo. fst (synthesize_within c sv job_id q d ps m) = Inr memo) \<longleftrightarrow> only_caught (res_bind asked parse)"
    unfolding synthesize_within_def Let_def asked_def [symmetric] parse_def [symmetric] fb
    by (simp add: only_caught_def split: sum.split)
  have "only_caught (res_bind asked parse) \<longleftrightarrow> answer_handled asked"
  proof (cases asked)
    case (Inl e)
    then show ?thesis by (simp add: only_caught_def answer_handled_def)
  next
    case (Inr t)
    have "bare_fence t \<Longrightarrow> \<not> only_caught (parse t)"
      by (simp add: parse_def bare_fence_raises only_caught_def synthesis_caught_def)
    moreover have "\<not> bare_fence t \<Longrightarrow> only_caught (parse t)"
      unfolding parse_def by (rule parse_only_caught [OF loads _ run])
    ultimately show ?thesis using Inr by (auto simp: answer_handled_def)
  qed
  with fst within show ?thesis by (simp add: asked_def)
qed

text \<open>C25: A run of valid, finite answers gets its memo exactly when the model's reply is handled: the call
  fails with one of the four errors that are caught, or it returns a text, whatever the text says, that is
  not a code fence with everything on one line; \<^verbatim>\<open>json.loads\<close> is taken to raise only errors that are caught.
  On the one-line fence the split has no second part, the \<^verbatim>\<open>IndexError\<close> passes the handler, and the run is
  lost although the fallback memo needs nothing from the model.\<close>

theorem memo_written_iff_handled:
  assumes "good_run job_id d" and "\<And>t. only_caught (ms_loads sv t)"
  shows "(\<exists>memo. fst (synthesize c sv t0 t1 job_id q d m) = Inr memo) \<longleftrightarrow>
    answer_handled (ms_complete sv (ms_model sv)
      (build_messages job_id q (dr_responses d) (normalize_forecast_question q) d))"
  using assms by (rule synthesize_answers)

subsection \<open>Examples\<close>

definition demo_result :: dispatch_result where
  "demo_result =
     \<lparr>dr_responses = [demo_response], dr_topology_snapshot = [], dr_market_snapshot = [], dr_news_headlines = [],
      dr_input_sources = [], dr_rejected_responses = [], dr_verification_attestations = [], dr_run_metadata = [],
      dr_node_execution_records = [], dr_partial = False, dr_missing_roles = []\<rparr>"

definition demo_memo_service :: "string res \<Rightarrow> memo_service" where
  "demo_memo_service reply =
     \<lparr>ms_complete = (\<lambda>_ _. reply), ms_model = ''gpt-4o'',
      ms_loads = (\<lambda>_. Inr (JObj [(''job_id'', JStr ''another job''), (''scenarios'', scenario_json (sr_scenario_view demo_response))]))\<rparr>"

definition no_metrics :: metrics where "no_metrics = \<lparr>mx_counter_events = [], mx_histogram_events = []\<rparr>"

lemma demo_good_run: "good_run ''job-1'' demo_result"
  by (simp add: good_run_def demo_result_def demo_response_valid demo_response_finite)

lemma demo_loads_caught: "only_caught (ms_loads (demo_memo_service reply) t)"
  by (simp add: demo_memo_service_def caught)

lemma demo_replies: "\<not> bare_fence ''{}''" "bare_fence (fence @ ''json {}'' @ fence)"
proof -
  have l: "char_of (10::nat) = CHR 0x0A" by (simp add: char_of_def bit_iff_odd)
  have "strip ''{}'' = ''{}''" "strip (fence @ ''json {}'' @ fence) = fence @ ''json {}'' @ fence"
    by (simp_all add: strip_id_iff fence_def is_space_def char_code_def numeral_3_eq_3)
  then show "\<not> bare_fence ''{}''" "bare_fence (fence @ ''json {}'' @ fence)"
    by (simp_all add: bare_fence_def starts_with_def fence_def l numeral_3_eq_3)
qed

lemma memo_carries_the_run_witness:
  "\<exists>memo. fst (synthesize demo_crypto (demo_memo_service (Inr ''{}'')) 0 1 ''job-1'' demo_request demo_result no_metrics) = Inr memo \<and>
     fm_job_id memo = ''job-1''"
proof -
  have "answer_handled (ms_complete (demo_memo_service (Inr ''{}'')) (ms_model (demo_memo_service (Inr ''{}'')))
      (build_messages ''job-1'' demo_request (dr_responses demo_result) (normalize_forecast_question demo_request) demo_result))"
    by (simp add: demo_memo_service_def answer_handled_def demo_replies)
  then obtain memo where memo: "fst (synthesize demo_crypto (demo_memo_service (Inr ''{}'')) 0 1 ''job-1'' demo_request demo_result no_metrics) = Inr memo"
    using synthesize_answers [OF demo_good_run demo_loads_caught] by blast
  have "list_all valid_attestation (dr_verification_attestations demo_result)" by (simp add: demo_result_def)
  from memo_carries_the_run [OF memo this] memo show ?thesis by (auto simp: carries_run_def)
qed

lemma memo_written_iff_handled_witness:
  "(\<exists>memo. fst (synthesize demo_crypto (demo_memo_service (Inl (RuntimeError ''no model''))) 0 1 ''job-1'' demo_request
      demo_result no_metrics) = Inr memo) \<and>
   (\<nexists>memo. fst (synthesize demo_crypto (demo_memo_service (Inr (fence @ ''json {}'' @ fence))) 0 1 ''job-1'' demo_request
      demo_result no_metrics) = Inr memo)"
  unfolding memo_written_iff_handled [OF demo_good_run demo_loads_caught]
  using demo_replies(2) by (simp add: demo_memo_service_def answer_handled_def synthesis_caught_def)

end
