(* ===== verification/Pages.thy ===== *)
theory Pages
  imports Page_Parts Synthesis
begin

section \<open>The operator page (app/api/pages.py, app/demo/fixtures.py)\<close>

text \<open>
  The panels of the operator page built from the parts of \<open>Page_Parts\<close>, and its three routes over the
  modelled store: the page itself, the submission of a form and the replay of a fixture. The page is a
  template text, an argument here, with three placeholders; \<open>safe_substitute\<close> is that method of
  \<^verbatim>\<open>string.Template\<close>. The form is what \<^verbatim>\<open>parse_qs\<close> returns for the body. A stored record that is not a
  dictionary makes the page raise, as do reputation points that are no number and a memo that is not valid.

  Shown: whatever is stored in a job and in the index, the three texts put into the template are fragments
  with all their elements closed, so no stored value reaches the page as markup; a page is answered when the
  memo is valid and the points are numbers; and the evidence column of the REE check does not depend on its outcome.
\<close>

subsection \<open>Verification panel\<close>

definition dict_items :: "jobject \<Rightarrow> jobject list" where
  "dict_items check = objects_in (jget check ''items'')"

definition evidence_label :: "string \<Rightarrow> jobject \<Rightarrow> string" where
  "evidence_label label check =
     (let items = dict_items check;
          having = (\<lambda>k. length (filter (\<lambda>i. truthy (jget i k)) items))
      in if items = [] then ''missing''
         else if label = ''output_hashes'' then
           (if str_get check ''status'' = ''failed'' then ''stored specialist payload verification failed''
            else if str_get check ''status'' = ''verified'' \<and> having ''recomputed_output_hash'' = length items
              then ''verified from stored specialist payload''
            else if having ''recomputed_output_hash'' > 0 then ''mixed: stored payload and present only''
            else ''present only'')
         else if label = ''ree'' then
           (if having ''validation_source'' = length items
              then ''validated from receipt '' @ join ''/'' (sort (remdups
                (map (\<lambda>i. str_get i ''validation_source'') (filter (\<lambda>i. truthy (jget i ''validation_source'')) items))))
            else if having ''validation_source'' > 0 then ''mixed: receipt material and present only''
            else ''present only'')
         else if label = ''chain'' then
           (if length (filter (\<lambda>i. jget i ''rpc_status'' = JStr ''confirmed'') items) = length items then ''verified by RPC''
            else if having ''rpc_status'' > 0 then ''checked by RPC''
            else ''present only'')
         else if label = ''attestations'' then
           (if py_str (jget check ''status'') = ''verified'' then ''verified signature'' else ''present only'')
         else ''present only'')"

definition check_row :: "string \<Rightarrow> jobject \<Rightarrow> string" where
  "check_row label check =
     (let check_status = (case dget check ''status'' of None \<Rightarrow> ''missing'' | Some v \<Rightarrow> py_str v);
          count = (case dget check ''items'' of Some (JList xs) \<Rightarrow> length xs | _ \<Rightarrow> 0)
      in ''<tr><td>'' @ escape label @ ''</td><td>'' @ status_span check_status @ ''</td><td>'' @
         escape (str_of_int (int count)) @ ''</td><td>'' @ escape (evidence_label label check) @ ''</td></tr>'')"

definition label_row :: "jobject \<Rightarrow> string \<Rightarrow> string option" where
  "label_row checks label = (case jget checks label of JObj check \<Rightarrow> Some (check_row label check) | _ \<Rightarrow> None)"

definition check_rows :: "jobject \<Rightarrow> string list" where
  "check_rows v =
     some_values (map (label_row (as_dict (jget v ''checks''))) [''output_hashes'', ''attestations'', ''ree'', ''chain''])"

definition render_verification_panel :: "crypto \<Rightarrow> (string \<Rightarrow> jobject res) \<Rightarrow> job_record \<Rightarrow> string res" where
  "render_verification_panel c load job =
     res_bind (build_job_verification_bundle c load None (as_dict (job_record_json job))) (\<lambda>v.
     let bundle = as_dict v; rows = check_rows bundle;
         status_value = (case dget bundle ''status'' of None \<Rightarrow> ''missing'' | Some s \<Rightarrow> py_str s)
     in Inr (''<section class=\"verification-panel\"><h3>Verify Run</h3><div class=\"job-id-group\">'' @
          status_span status_value @
          ''<a class=\"hash-chip\" href=\"/jobs/'' @ escape (jb_job_id job) @ ''/verify\">open proof bundle</a></div>'' @
          ''<table class=\"ledger-table compact-table\"><thead><tr><th>Check</th><th>Status</th><th>Items</th><th>Evidence</th></tr></thead><tbody>'' @
          concat (if rows \<noteq> [] then rows else [''<tr><td colspan=\"4\">No verification checks available.</td></tr>'']) @
          ''</tbody></table></section>''))"

subsection \<open>Trace, registry and proofs\<close>

definition timeline_step :: "string \<Rightarrow> string \<Rightarrow> string" where
  "timeline_step label status =
     ''<li class=\"timeline-step status-border-'' @ escape (status_class status) @ ''\"><span>'' @ escape label @
     ''</span><strong class=\"status status-'' @ escape (status_class status) @ ''\">'' @ escape status @ ''</strong></li>''"

definition render_run_timeline :: "jobject list \<Rightarrow> jobject \<Rightarrow> string" where
  "render_run_timeline ledger md =
     (let items =
        [(''Task Created'', str_or md ''receipt_status'' ''recorded''),
         (''Specialists'', roles_status ledger),
         (''Verifier'', verification_status md),
         (''REE Receipt'', if has_ree_evidence md then ''present'' else ''not present''),
         (''Chain Receipt'', str_or md ''receipt_status'' ''not configured''),
         (''Final Memo'', ''rendered'')]
      in ''<section class=\"run-timeline\"><h3>Run Timeline</h3><ol>'' @
         concat (map (\<lambda>(label, status). timeline_step label status) items) @ ''</ol></section>'')"

definition trace_row :: "jobject \<Rightarrow> jobject \<Rightarrow> jobject \<Rightarrow> jobject \<Rightarrow> string" where
  "trace_row attestation contribution reputation record =
     (let receipt = (if contribution \<noteq> [] then contribution else reputation);
          status = py_str (py_or (py_or (py_or (jget receipt ''status'') (jget attestation ''status'')) (jget record ''status'')) (JStr []));
          output = str_get attestation ''output_hash''
      in ''<tr><td>'' @ escape (str_get record ''node_role'') @ ''</td><td>'' @
         render_compact_id 22 (jget record ''peer_id'') @ ''</td><td>'' @
         render_compact_id 22 (jget attestation ''agent_wallet'') @
         ''</td><td><code class=\"hash-chip\" title=\"'' @ escape output @ ''\">'' @ escape (short_text 18 output) @
         ''</code></td><td>'' @ render_ree_cell attestation contribution @ ''</td><td>'' @ status_span status @
         ''</td><td>'' @ render_tx_cell receipt @ ''</td></tr>'')"

definition render_trace_rows :: "jobject list \<Rightarrow> jobject \<Rightarrow> string" where
  "render_trace_rows ledger md =
     (let attestations = by_role (jget md ''verification_attestations'');
          contributions = chain_receipts_by_role (jget md ''chain_receipts'') ''contribution'';
          reputations = chain_receipts_by_role (jget md ''chain_receipts'') ''reputation''
      in concat (map (\<lambda>record. let role = str_get record ''node_role'' in
           trace_row (dget_or attestations role []) (dget_or contributions role []) (dget_or reputations role []) record) ledger))"

definition render_trace_ledger :: "jobject list \<Rightarrow> jobject \<Rightarrow> string" where
  "render_trace_ledger ledger md =
     (let rows = render_trace_rows ledger md in join_lines
        [''<section class=\"trace-ledger\">'', ''<h3>Task Trace</h3>'', ''<table class=\"ledger-table trace-table\">'',
         ''<thead><tr><th>Role</th><th>AXL Peer</th><th>Wallet</th><th>Output Hash</th><th>REE Receipt</th><th>Status</th><th>Tx</th></tr></thead>'',
         ''<tbody>'' @ (if rows \<noteq> [] then rows else ''<tr><td colspan=\"7\">No trace evidence recorded for this job.</td></tr>'') @ ''</tbody>'',
         ''</table>'', ''</section>''])"

definition hero_row :: "string \<Rightarrow> json \<Rightarrow> string" where
  "hero_row label value = ''<tr><th>'' @ escape label @ ''</th><td><code class=\"hash-chip\">'' @ escape (py_str value) @ ''</code></td></tr>''"

definition hero_rows :: "(string \<times> json) list \<Rightarrow> string" where
  "hero_rows values = concat (map (\<lambda>(label, value). hero_row label value) (filter (\<lambda>(_, value). truthy value) values))"

definition render_risk_ree_hero :: "jobject \<Rightarrow> string" where
  "render_risk_ree_hero md =
     (let attestation = dget_or (by_role (jget md ''verification_attestations'')) ''risk'' [];
          receipt = dget_or (chain_receipts_by_role (jget md ''chain_receipts'') ''contribution'') ''risk'' [];
          values =
            [(''model'', jget attestation ''ree_model_name''), (''prompt_hash'', jget attestation ''ree_prompt_hash''),
             (''tokens_hash'', jget attestation ''ree_tokens_hash''),
             (''receipt_hash'', py_or (jget receipt ''ree_receipt_hash'') (jget attestation ''ree_receipt_hash'')),
             (''output_hash'', jget attestation ''output_hash''), (''tx'', jget receipt ''tx_hash'')];
          rows = hero_rows values;
          status_value = py_str (py_or (py_or (jget receipt ''ree_status'') (jget attestation ''receipt_status'')) (JStr ''missing''))
      in ''<section class=\"risk-ree-proof\"><h3>Risk REE Proof</h3>'' @ status_span status_value @
         ''<table class=\"ledger-table compact-table\"><tbody>'' @
         (if rows \<noteq> [] then rows else ''<tr><td colspan=\"2\">No risk REE proof metadata recorded.</td></tr>'') @
         ''</tbody></table></section>'')"

definition registry_row :: "(string, jobject) pydict \<Rightarrow> (string, string) pydict \<Rightarrow> jobject \<Rightarrow> string" where
  "registry_row attestations reputation record =
     (let role = str_get record ''node_role'' in
      ''<tr><td>'' @ escape role @ ''</td><td>'' @ escape (str_get record ''service_name'') @ ''</td><td>'' @
      render_identity_stack (jget record ''peer_id'') (jget (dget_or attestations role []) ''agent_wallet'') @
      ''</td><td>'' @ status_span (str_get record ''status'') @ ''</td><td>'' @ escape (dget_or reputation role []) @ ''</td></tr>'')"

definition render_agent_registry :: "jobject list \<Rightarrow> jobject \<Rightarrow> string res" where
  "render_agent_registry ledger md =
     res_bind (if ledger = [] then Inr ''<tr><td colspan=\"5\">No agent registry evidence recorded.</td></tr>''
       else res_bind (reputation_by_role (jget md ''reputation_updates'')) (\<lambda>reputation.
         Inr (concat (map (registry_row (by_role (jget md ''verification_attestations'')) reputation) ledger)))) (\<lambda>rows.
     Inr (''<section class=\"agent-registry\"><h3>Agent Registry</h3>'' @
       ''<table class=\"ledger-table compact-table agent-registry-table\"><thead><tr><th>Role</th><th>Service</th><th>Identity</th>'' @
       ''<th>Status</th><th>Rep.</th></tr></thead><tbody>'' @ rows @ ''</tbody></table></section>''))"

definition attestation_details :: "jobject \<Rightarrow> string list" where
  "attestation_details item = render_proof_detail_lines (str_get item ''node_role'')
     (map (\<lambda>k. (k, jget item k)) [''output_hash'', ''attestation_hash'', ''verifier_signature'', ''ree_receipt_hash'',
       ''ree_prompt_hash'', ''ree_tokens_hash'', ''ree_model_name'', ''receipt_status''])"

definition receipt_details :: "jobject \<Rightarrow> string list" where
  "receipt_details receipt = render_proof_detail_lines
     (py_str (py_or (py_or (jget receipt ''role'') (jget receipt ''kind'')) (JStr [])))
     (map (\<lambda>k. (k, jget receipt k)) [''tx_hash'', ''explorer_url'', ''ree_receipt_hash'', ''native_test_payout_wei''])"

definition render_proof_details :: "jobject \<Rightarrow> string" where
  "render_proof_details md =
     (let found = concat (map attestation_details (objects_in (jget md ''verification_attestations''))) @
            concat (map receipt_details (objects_in (jget md ''chain_receipts'')))
      in ''<section class=\"proof-details\" id=\"proof-details\"><h3>Proof Details</h3><ul>'' @
         concat (if found \<noteq> [] then found else [''<li>No full proof metadata recorded for this run.</li>'']) @
         ''</ul></section>'')"

definition update_row :: "jobject \<Rightarrow> string" where
  "update_row update =
     ''<tr><td>'' @ escape (str_get update ''node_role'') @ ''</td><td>'' @ render_compact_id 26 (jget update ''peer_id'') @
     ''</td><td>'' @ escape (str_get update ''verifier_status'') @ ''</td><td>'' @
     escape (str_get update ''reputation_points'') @ ''</td></tr>''"

definition leaderboard_row :: "agent_entry \<Rightarrow> string" where
  "leaderboard_row entry =
     ''<tr><td>'' @ escape (ag_node_role entry) @ ''</td><td>'' @ render_compact_id 26 (JStr (ag_agent_wallet entry)) @
     ''</td><td>indexed_chain</td><td>'' @ fmt_fixed 2 (ag_reputation_points entry) @ ''</td></tr>''"

definition render_reputation_panel :: "jobject \<Rightarrow> chain_projection \<Rightarrow> string" where
  "render_reputation_panel md projection =
     (let rows = map update_row (objects_in (jget md ''reputation_updates'')) @
            map leaderboard_row (agent_leaderboard (pj_reputations projection))
      in ''<section class=\"reputation-panel\"><h3>Reputation Ledger</h3>'' @
         ''<table class=\"ledger-table compact-table reputation-table\"><thead><tr><th>Role</th><th>Peer / Wallet</th><th>Status</th>'' @
         ''<th>Points</th></tr></thead><tbody>'' @
         concat (if rows \<noteq> [] then rows else [''<tr><td colspan=\"4\">No reputation evidence recorded.</td></tr>'']) @
         ''</tbody></table></section>'')"

definition render_indexed_events_panel :: "chain_projection \<Rightarrow> string" where
  "render_indexed_events_panel projection =
     ''<section class=\"indexed-events-panel\"><h3>Indexed Events</h3><dl class=\"metric-grid\"><div><dt>Tasks</dt><dd>'' @
     str_of_int (int (length (pj_tasks projection))) @ ''</dd></div><div><dt>Contributions</dt><dd>'' @
     str_of_int (int (length (pj_contributions projection))) @ ''</dd></div><div><dt>Verifications</dt><dd>'' @
     str_of_int (int (length (pj_verifications projection))) @ ''</dd></div><div><dt>Reputation</dt><dd>'' @
     str_of_int (int (length (pj_reputations projection))) @ ''</dd></div></dl></section>''"

subsection \<open>Run metadata\<close>

definition graph_node_label :: "jobject \<Rightarrow> string" where
  "graph_node_label node =
     (let label = slash_label [jget node ''id'', jget node ''type'', jget node ''status'']
      in if truthy (jget node ''optional'') then label @ '' / optional'' else label)"

definition render_graph_state :: "json \<Rightarrow> string" where
  "render_graph_state graph_state =
     (case graph_state of
        JObj d \<Rightarrow>
          (let parts = filter (\<lambda>l. l \<noteq> []) (map graph_node_label (objects_in (jget d ''nodes'')))
           in if parts = [] then []
              else ''<tr><th>graph_state</th><td><code>'' @ escape (join '', '' parts) @ ''</code></td></tr>'')
      | _ \<Rightarrow> [])"

definition render_reputation_updates :: "json \<Rightarrow> string res" where
  "render_reputation_updates v =
     res_bind (map_res (\<lambda>update. res_bind (points_text update) (\<lambda>t. Inr
         (slash_label [jget update ''node_role'', jget update ''peer_id'', jget update ''verifier_status'', JStr (t @ '' reputation'')])))
       (objects_in v)) (\<lambda>labels.
     let parts = filter (\<lambda>l. l \<noteq> []) labels
     in Inr (if parts = [] then []
         else ''<tr><th>reputation_updates</th><td><code>'' @ escape (join '', '' parts) @ ''</code></td></tr>''))"

definition chain_receipt_line :: "jobject \<Rightarrow> string option" where
  "chain_receipt_line receipt =
     (let label = slash_label [jget receipt ''kind'', jget receipt ''role'', jget receipt ''status''];
          tx_hash = jget receipt ''tx_hash''; explorer_url = jget receipt ''explorer_url''; error = jget receipt ''error'';
          ree_hash = jget receipt ''ree_receipt_hash''; payout = jget receipt ''native_test_payout_wei''
      in if truthy explorer_url \<and> truthy tx_hash then
           Some (escape label @ '': <a href=\"'' @ escape (py_str explorer_url) @ ''\"><code>'' @ escape (py_str tx_hash) @ ''</code></a>'' @
             (if truthy ree_hash
              then '' &middot; REE <span class=\"ree-status\">'' @ escape (py_str (py_or (jget receipt ''ree_status'') (JStr ''ree''))) @
                ''</span> <code title=\"'' @ escape (py_str ree_hash) @ ''\">'' @ escape (take 18 (py_str ree_hash) @ ''...'') @ ''</code>''
              else []) @
             (if truthy payout then '' &middot; native test payout <code>'' @ escape (py_str payout) @ '' wei</code>'' else []))
         else if truthy error then Some (escape label @ '': '' @ escape (py_str error))
         else None)"

definition render_chain_receipts :: "json \<Rightarrow> string" where
  "render_chain_receipts v =
     (let found = some_values (map chain_receipt_line (objects_in v))
      in if found = [] then [] else ''<tr><th>chain_receipts</th><td>'' @ join ''<br>'' found @ ''</td></tr>'')"

definition metadata_keys :: "string list" where
  "metadata_keys = [''run_mode'', ''transport'', ''axl_local_base_url'', ''axl_topology_path'', ''axl_mcp_router_url'', ''receipt_status'']"

definition metadata_row :: "jobject \<Rightarrow> string \<Rightarrow> string" where
  "metadata_row md key = ''<tr><th>'' @ escape key @ ''</th><td><code>'' @ escape (str_get md key) @ ''</code></td></tr>''"

definition metadata_rows :: "jobject \<Rightarrow> string" where
  "metadata_rows md =
     concat (map (metadata_row md) (filter (\<lambda>key. truthy (jget md key)) metadata_keys)) @
     (case jget md ''dispatch_targets'' of
        JList (v # vs) \<Rightarrow> ''<tr><th>dispatch_targets</th><td><code>'' @ escape (join '', '' (map py_str (v # vs))) @ ''</code></td></tr>''
      | _ \<Rightarrow> [])"

definition render_run_metadata :: "jobject \<Rightarrow> string res" where
  "render_run_metadata md =
     (if md = [] then Inr ''<section class=\"run-metadata\"><h3>Run Metadata</h3><p>No run metadata recorded.</p></section>''
      else res_bind (render_reputation_updates (jget md ''reputation_updates'')) (\<lambda>updates. Inr
        (''<section class=\"run-metadata\"><h3>Run Metadata</h3><table class=\"ledger-table\"><tbody>'' @ metadata_rows md @
         render_graph_state (jget md ''graph_state'') @ updates @ render_chain_receipts (jget md ''chain_receipts'') @
         ''</tbody></table></section>'')))"

subsection \<open>Participation and topology\<close>

definition format_attempted_peers :: "jobject \<Rightarrow> string" where
  "format_attempted_peers record =
     (case jget record ''attempted_peer_ids'' of JList xs \<Rightarrow> join '' -> '' (map py_str xs) | _ \<Rightarrow> [])"

definition node_row :: "jobject \<Rightarrow> string" where
  "node_row record =
     ''<tr><td>'' @ escape (str_get record ''node_role'') @ ''</td><td>'' @ escape (str_get record ''peer_id'') @
     ''</td><td>'' @ escape (str_get record ''service_name'') @ ''</td><td>'' @ escape (str_get record ''transport'') @
     ''</td><td>'' @ escape (str_get record ''status'') @ ''</td><td>'' @ escape (str_get record ''latency_ms'') @
     ''</td><td>'' @ escape (str_get record ''selection_reason'') @ ''</td><td>'' @ escape (format_attempted_peers record) @
     ''</td><td><code>'' @ escape (str_get record ''dispatch_target'') @ ''</code></td></tr>''"

definition render_node_rows :: "jobject list \<Rightarrow> string" where
  "render_node_rows ledger =
     (if ledger = [] then ''<tr><td colspan=\"4\">No node participation recorded for this job.</td></tr>''
      else concat (map node_row ledger))"

definition render_topology :: "jobject option \<Rightarrow> string" where
  "render_topology topology =
     (case topology of
        None \<Rightarrow> ''<section class=\"topology-panel\"><h3>Topology Snapshot</h3><p>No topology snapshot recorded.</p></section>''
      | Some t \<Rightarrow>
          (let peers = (case jget t ''peers'' of JList xs \<Rightarrow> some_values (map as_str xs) | _ \<Rightarrow> []);
               local_peer = py_str (py_or (py_or (jget t ''local_peer_id'') (jget t ''our_public_key'')) (JStr []));
               mode = (case dget t ''mode'' of None \<Rightarrow> ''live-axl'' | Some v \<Rightarrow> py_str v)
           in ''<section class=\"topology-panel\"><h3>Topology Snapshot</h3><p>Mode: <code>'' @ escape mode @
              ''</code></p><p>Local peer: <code>'' @ escape local_peer @ ''</code></p><ul>'' @
              concat (map (\<lambda>peer. ''<li>'' @ escape peer @ ''</li>'') peers) @ ''</ul><ul>'' @
              concat (map (\<lambda>node. ''<li><code>'' @ escape (str_get node ''public_key'') @ ''</code></li>'') (objects_in (jget t ''tree''))) @
              ''</ul></section>''))"

subsection \<open>The latest job\<close>

text \<open>\<^verbatim>\<open>v.get\<close> of a stored value that is no dictionary raises.\<close>

definition stored_dict :: "json \<Rightarrow> jobject res" where
  "stored_dict v = (case v of JObj d \<Rightarrow> Inr d | _ \<Rightarrow> Inl (OtherError ''AttributeError''))"

definition stored_option :: "json option \<Rightarrow> json option" where
  "stored_option v = (case v of Some JNull \<Rightarrow> None | _ \<Rightarrow> v)"

definition stored_memo :: "json \<Rightarrow> final_memo res" where
  "stored_memo v = (case v of JObj d \<Rightarrow> final_memo_of_json d | _ \<Rightarrow> invalid ''FinalMemo'')"

definition stored_topology :: "json option \<Rightarrow> jobject option res" where
  "stored_topology v = (case stored_option v of None \<Rightarrow> Inr None | Some t \<Rightarrow> res_bind (stored_dict t) (\<lambda>d. Inr (Some d)))"

definition no_job_panel :: string where
  "no_job_panel = ''<section class=\"job-panel empty\"><h2>Latest Job</h2>'' @
     ''<p>No completed jobs yet. Submit a thesis to generate the first memo.</p></section>''"

definition job_panel ::
    "job_record \<Rightarrow> jobject \<Rightarrow> jobject list \<Rightarrow> jobject option \<Rightarrow> chain_projection \<Rightarrow> string \<Rightarrow> string \<Rightarrow> string \<Rightarrow> string \<Rightarrow> string" where
  "job_panel job payload ledger topology projection memo_html verification registry metadata =
     (let thesis = escape (str_get payload ''thesis''); asset = escape (str_get payload ''asset'');
          horizon_days = escape (str_get payload ''horizon_days''); md = jb_run_metadata job
      in join_lines
     [''<section class=\"job-panel\">'', ''<div class=\"job-panel-topbar\">'', ''<div class=\"job-id-group\">'',
      ''<span class=\"job-id-label\">Latest Job</span>'',
      ''<span class=\"job-id-val\">Job ID: <code>'' @ escape (jb_job_id job) @ ''</code></span>'',
      ''</div>'', ''<div class=\"job-id-group\">'',
      ''<span class=\"job-meta\">'' @ asset @ '' / '' @ horizon_days @ '' days</span>'',
      ''<span class=\"status-pill status status-'' @ escape (status_class (jb_status job)) @ ''\">'' @ escape (jb_status job) @ ''</span>'',
      ''</div>'', ''</div>'', ''<div class=\"tab-bar\">'',
      ''<button class=\"tab-btn active\" type=\"button\" onclick=\"switchTab('' @ [CHR 0x27] @ ''ledger'' @ [CHR 0x27] @ '', this)\">Verify Run</button>'',
      ''<button class=\"tab-btn\" type=\"button\" onclick=\"switchTab('' @ [CHR 0x27] @ ''memo'' @ [CHR 0x27] @ '', this)\">Risk Memo</button>'',
      ''<button class=\"tab-btn\" type=\"button\" onclick=\"switchTab('' @ [CHR 0x27] @ ''timeline'' @ [CHR 0x27] @ '', this)\">Run Timeline</button>'',
      ''</div>'', ''<div class=\"tab-pane\" id=\"tab-timeline\">'', ''<div class=\"job-request\">'',
      ''<h3>Submitted Thesis</h3>'', ''<p>'' @ thesis @ ''</p>'',
      ''<p class=\"job-meta\">Asset: <strong>'' @ asset @ ''</strong> &middot; Horizon: <strong>'' @ horizon_days @ '' days</strong></p>'',
      ''</div>'', render_run_timeline ledger md, ''</div>'',
      ''<div class=\"tab-pane\" id=\"tab-memo\">'', ''<div class=\"job-memo\">'', memo_html, ''</div>'', ''</div>'',
      ''<div class=\"tab-pane active\" id=\"tab-ledger\">'', ''<section class=\"proof-console-layout\">'',
      ''<div class=\"proof-column primary-proof\">'', render_trace_ledger ledger md, verification,
      render_risk_ree_hero md, render_proof_details md, ''</div>'',
      ''<div class=\"proof-column support-proof\">'', registry, render_reputation_panel md projection,
      render_indexed_events_panel projection, ''</div>'', ''</section>'', metadata,
      ''<section class=\"node-participation\">'', ''<h3>Run Evidence</h3>'', ''<table class=\"ledger-table\">'',
      ''<thead><tr><th>Role</th><th>Peer</th><th>Service</th><th>Transport</th><th>Status</th><th>Latency (ms)</th>'' @
      ''<th>Selection</th><th>Attempts</th><th>Dispatch target</th></tr></thead>'',
      ''<tbody>'' @ render_node_rows ledger @ ''</tbody>'', ''</table>'', ''</section>'', render_topology topology,
      ''</div>'', ''</section>''])"

definition render_latest_job_panel ::
    "crypto \<Rightarrow> (string \<Rightarrow> jobject res) \<Rightarrow> job_record option \<Rightarrow> chain_projection \<Rightarrow> string res" where
  "render_latest_job_panel c load latest_job projection =
     (case latest_job of None \<Rightarrow> Inr no_job_panel
      | Some job \<Rightarrow>
     (case stored_option (jb_memo job) of None \<Rightarrow> Inr no_job_panel
      | Some stored \<Rightarrow>
          res_bind (stored_memo stored) (\<lambda>memo.
          res_bind (stored_dict (jb_payload job)) (\<lambda>payload.
          res_bind (map_res stored_dict (jb_provenance_ledger job)) (\<lambda>ledger.
          res_bind (render_verification_panel c load job) (\<lambda>verification.
          res_bind (render_agent_registry ledger (jb_run_metadata job)) (\<lambda>registry.
          res_bind (render_run_metadata (jb_run_metadata job)) (\<lambda>metadata.
          res_bind (stored_topology (jb_topology_snapshot job)) (\<lambda>topology.
            Inr (job_panel job payload ledger topology projection (render_memo_html memo) verification registry metadata))))))))))"

definition render_capability_strip :: "job_record option \<Rightarrow> chain_projection \<Rightarrow> string" where
  "render_capability_strip latest_job projection =
     (let md = (case latest_job of None \<Rightarrow> [] | Some job \<Rightarrow> jb_run_metadata job);
          mode = str_or md ''run_mode'' ''no-run''; transport = str_or md ''transport'' []
      in join_lines
        [''<section class=\"capability-strip\" aria-label=\"Proof capabilities\">'',
         render_capability ''Mode'' mode (status_for_mode mode),
         render_capability ''AXL'' (if transport \<noteq> [] then transport else ''not recorded'')
           (if transport = ''axl-mcp'' then ''confirmed'' else ''missing''),
         render_capability ''REE'' (if has_ree_evidence md then ''receipt present'' else ''not present'')
           (if has_ree_evidence md then ''confirmed'' else ''missing''),
         render_capability ''Chain'' (str_or md ''receipt_status'' ''not configured'') (status_for_receipts md),
         render_capability ''Indexer'' (str_of_int (int (length (pj_contributions projection))) @ '' contributions indexed'')
           (if pj_contributions projection \<noteq> [] then ''confirmed'' else ''missing''),
         ''</section>''])"

subsection \<open>Fixtures\<close>

record demo_fixture =
  df_fixture_id :: string
  df_title :: string
  df_thesis :: string
  df_asset :: string
  df_horizon_days :: int

definition demo_fixture_json :: "demo_fixture \<Rightarrow> json" where
  "demo_fixture_json f = JObj
     [(''fixture_id'', JStr (df_fixture_id f)), (''title'', JStr (df_title f)), (''thesis'', JStr (df_thesis f)),
      (''asset'', JStr (df_asset f)), (''horizon_days'', JInt (df_horizon_days f))]"

definition demo_fixtures :: "demo_fixture list" where
  "demo_fixtures =
     [\<lparr>df_fixture_id = ''eth-etf-flow'', df_title = ''ETH ETF Flow Case'',
       df_thesis = ''ETH can rally on improving ETF flows and stable liquidity.'',
       df_asset = ''ETH'', df_horizon_days = 30\<rparr>,
      \<lparr>df_fixture_id = ''eth-liquidity-vs-support-break'', df_title = ''ETH Liquidity vs Support Break'',
       df_thesis = ''ETH upside depends on liquidity staying constructive, but the thesis fails if support breaks while headline momentum remains mixed.'',
       df_asset = ''ETH'', df_horizon_days = 21\<rparr>]"

definition get_demo_fixture :: "string \<Rightarrow> demo_fixture res" where
  "get_demo_fixture fixture_id =
     (case List.find (\<lambda>f. df_fixture_id f = fixture_id) demo_fixtures of
        Some f \<Rightarrow> Inr f
      | None \<Rightarrow> Inl (KeyError (''Unknown demo fixture: '' @ fixture_id)))"

definition fixture_card :: "nat \<Rightarrow> demo_fixture \<Rightarrow> string" where
  "fixture_card index f =
     (let role_class = [''regime'', ''narrative'', ''risk''] ! (index mod 3) in join_lines
        [''<article class=\"fixture-card agent-card '' @ role_class @ '' done\">'', ''<div class=\"card-header\">'', ''<div>'',
         ''<div class=\"agent-name\">'' @ escape (df_title f) @ ''</div>'',
         ''<div class=\"agent-role\">Replayable market thesis fixture</div>'', ''</div>'',
         ''<div class=\"status-ring\" aria-hidden=\"true\">ok</div>'', ''</div>'',
         ''<p>'' @ escape (df_thesis f) @ ''</p>'', ''<dl class=\"fixture-meta\">'',
         ''<div><dt>Asset</dt><dd>'' @ escape (df_asset f) @ ''</dd></div>'',
         ''<div><dt>Horizon</dt><dd>'' @ str_of_int (df_horizon_days f) @ '' days</dd></div>'', ''</dl>'',
         ''<form action=\"/demo/replay/'' @ escape (df_fixture_id f) @ ''\" method=\"post\">'',
         ''<button type=\"submit\">Replay Fixture</button>'', ''</form>'', ''</article>''])"

definition render_fixture_cards :: string where
  "render_fixture_cards = join_lines (map (\<lambda>(index, f). fixture_card index f) (enumerate 0 demo_fixtures))"

definition fixture_to_request :: "demo_fixture \<Rightarrow> thesis_request" where
  "fixture_to_request f = \<lparr>tr_thesis = df_thesis f, tr_asset = df_asset f, tr_horizon_days = df_horizon_days f\<rparr>"

subsection \<open>The page and its routes\<close>

definition ident_char :: "char \<Rightarrow> bool" where
  "ident_char c \<longleftrightarrow> is_digit c \<or> c = CHR ''_'' \<or> (let l = char_code (lower_char c) in 97 \<le> l \<and> l \<le> 122)"

definition ident_prefix :: "string \<Rightarrow> string" where
  "ident_prefix s = (if s \<noteq> [] \<and> is_digit (hd s) then [] else takeWhile ident_char s)"

function safe_substitute :: "(string \<Rightarrow> string option) \<Rightarrow> string \<Rightarrow> string" where
  "safe_substitute m [] = []"
| "safe_substitute m (c # s) =
     (if c \<noteq> CHR ''$'' then c # safe_substitute m s
      else if starts_with ''$'' s then CHR ''$'' # safe_substitute m (drop 1 s)
      else if ident_prefix s \<noteq> [] then
        (case m (ident_prefix s) of Some v \<Rightarrow> v | None \<Rightarrow> CHR ''$'' # ident_prefix s) @ safe_substitute m (drop (length (ident_prefix s)) s)
      else if starts_with ''{'' s \<and> ident_prefix (drop 1 s) \<noteq> [] \<and>
          starts_with ''}'' (drop (1 + length (ident_prefix (drop 1 s))) s) then
        (case m (ident_prefix (drop 1 s)) of Some v \<Rightarrow> v | None \<Rightarrow> ''${'' @ ident_prefix (drop 1 s) @ ''}'') @
          safe_substitute m (drop (2 + length (ident_prefix (drop 1 s))) s)
      else CHR ''$'' # safe_substitute m s)"
  by pat_completeness auto
termination by (relation "measure (\<lambda>(_, s). length s)") auto

definition home_page ::
    "crypto \<Rightarrow> (string \<Rightarrow> jobject res) \<Rightarrow> string \<Rightarrow> job_store \<Rightarrow> string res \<times> job_store" where
  "home_page c load template s =
     (case get_latest_job s of
        (Inl e, s1) \<Rightarrow> (Inl e, s1)
      | (Inr latest_job, s1) \<Rightarrow>
     (case get_indexed_chain_projection s1 of
        (Inl e, s2) \<Rightarrow> (Inl e, s2)
      | (Inr projection, s2) \<Rightarrow>
          (res_bind (render_latest_job_panel c load latest_job projection) (\<lambda>panel. Inr (safe_substitute
             (map_of [(''fixture_cards'', render_fixture_cards),
                      (''capability_strip'', render_capability_strip latest_job projection),
                      (''latest_job_panel'', panel)]) template)), s2)))"

text \<open>The form as \<^verbatim>\<open>parse_qs\<close> returns it; each field's first value counts.\<close>

definition first_values :: "(string, string list) pydict \<Rightarrow> (string, string) pydict" where
  "first_values parsed = map (\<lambda>(k, vs). (k, case vs of [] \<Rightarrow> [] | v # _ \<Rightarrow> v)) parsed"

definition build_thesis_request :: "(string, string) pydict \<Rightarrow> thesis_request res" where
  "build_thesis_request form =
     (case thesis_request_of_json (map (\<lambda>k. (k, JStr (dget_or form k []))) [''thesis'', ''asset'', ''horizon_days'']) of
        Inr r \<Rightarrow> Inr r
      | Inl e \<Rightarrow> Inl (HTTPException 422 (error_text e)))"

text \<open>The pages submit without a chain recorder and answer with a redirect to the page.\<close>

definition submit_from_page ::
    "app_state \<Rightarrow> string \<Rightarrow> string \<Rightarrow> thesis_request \<Rightarrow> job_store \<Rightarrow> string res \<times> job_store" where
  "submit_from_page app new_id now payload s =
     (case create_job_route (app\<lparr>ap_recorder := None\<rparr>) new_id now payload s of
        (Inl e, s') \<Rightarrow> (Inl e, s')
      | (Inr _, s') \<Rightarrow> (Inr ''/'', s'))"

definition submit_demo_job ::
    "app_state \<Rightarrow> string \<Rightarrow> string \<Rightarrow> (string, string list) pydict \<Rightarrow> job_store \<Rightarrow> string res \<times> job_store" where
  "submit_demo_job app new_id now parsed s =
     (case build_thesis_request (first_values parsed) of
        Inl e \<Rightarrow> (Inl e, s)
      | Inr payload \<Rightarrow> submit_from_page app new_id now payload s)"

definition replay_demo_fixture ::
    "app_state \<Rightarrow> string \<Rightarrow> string \<Rightarrow> string \<Rightarrow> job_store \<Rightarrow> string res \<times> job_store" where
  "replay_demo_fixture app new_id now fixture_id s =
     (case get_demo_fixture fixture_id of
        Inl e \<Rightarrow> (Inl (HTTPException 404 (error_text e)), s)
      | Inr f \<Rightarrow> submit_from_page app new_id now (fixture_to_request f) s)"

subsection \<open>Every part is a fragment\<close>

lemma concat_map_run [simp]: "(\<And>x. fragment (f x)) \<Longrightarrow> html_run (Text, st) (concat (map f xs)) = (Text, st)"
  by (induction xs) simp_all

lemma concat_run: "(\<And>x. x \<in> set xss \<Longrightarrow> fragment x) \<Longrightarrow> html_run (Text, st) (concat xss) = (Text, st)"
  using fragment_concat [of xss] by auto

lemma fragment_join: "fragment sep \<Longrightarrow> (\<And>x. x \<in> set xs \<Longrightarrow> fragment x) \<Longrightarrow> fragment (join sep xs)"
  by (induction sep xs rule: join.induct) (auto intro!: fragmentI)

lemma some_values_set: "x \<in> set (some_values xs) \<longleftrightarrow> Some x \<in> set xs"
  by (auto simp: some_values_def image_iff)

lemma check_row_fragment [simp]: "fragment (check_row label check)"
  by (rule fragmentI) (simp add: check_row_def Let_def)

lemma label_row_fragment: "label_row checks label = Some row \<Longrightarrow> fragment row"
  by (auto simp: label_row_def split: json.splits)

lemma check_rows_fragment: "row \<in> set (check_rows v) \<Longrightarrow> fragment row"
  using label_row_fragment by (simp add: check_rows_def some_values_set) metis

lemma verification_panel_fragment: "render_verification_panel c load job = Inr html \<Longrightarrow> fragment html"
proof -
  have "html_run (Text, st) (concat (check_rows b)) = (Text, st)" for b st
    by (rule concat_run) (rule check_rows_fragment)
  then show "render_verification_panel c load job = Inr html \<Longrightarrow> fragment html"
    by (auto simp: render_verification_panel_def Let_def res_bind_Inr_iff intro!: fragmentI)
qed

lemma pair_map_run: "(\<And>a b. fragment (f a b)) \<Longrightarrow> html_run (Text, st) (concat (map (\<lambda>(a, b). f a b) xs)) = (Text, st)"
  by (rule concat_map_run) (simp split: prod.split)

lemma timeline_fragment [simp]: "fragment (render_run_timeline ledger md)"
proof -
  have "fragment (timeline_step label status)" for label status
    by (rule fragmentI) (simp add: timeline_step_def)
  then have "html_run (Text, st) (concat (map (\<lambda>(label, status). timeline_step label status) items)) = (Text, st)" for st items
    by (rule pair_map_run)
  then show ?thesis by (intro fragmentI) (simp add: render_run_timeline_def Let_def del: list.map concat.simps)
qed

lemma trace_row_fragment [simp]: "fragment (trace_row a c r record)"
  by (rule fragmentI) (simp add: trace_row_def Let_def del: if_split)

lemma trace_fragment [simp]: "fragment (render_trace_ledger ledger md)"
proof -
  have "html_run (Text, st) (render_trace_rows ledger md) = (Text, st)" for st
    by (simp add: render_trace_rows_def Let_def)
  then show ?thesis by (intro fragmentI) (simp add: render_trace_ledger_def Let_def)
qed

lemma hero_rows_fragment [simp]: "fragment (hero_rows values)"
proof -
  have "fragment (hero_row label v)" for label v by (rule fragmentI) (simp add: hero_row_def)
  then show ?thesis by (intro fragmentI) (simp add: hero_rows_def pair_map_run)
qed

lemma hero_fragment [simp]: "fragment (render_risk_ree_hero md)"
  by (rule fragmentI) (simp add: render_risk_ree_hero_def Let_def)

lemma registry_row_fragment [simp]: "fragment (registry_row a r record)"
  by (rule fragmentI) (simp add: registry_row_def Let_def)

lemma registry_fragment: "render_agent_registry ledger md = Inr html \<Longrightarrow> fragment html"
  by (auto simp: render_agent_registry_def res_bind_Inr_iff intro!: fragmentI split: if_splits)

lemma detail_lines_fragment: "line \<in> set (render_proof_detail_lines role details) \<Longrightarrow> fragment line"
  by (auto simp: render_proof_detail_lines_def)

lemma proof_details_fragment [simp]: "fragment (render_proof_details md)"
proof -
  have "html_run (Text, st) (concat (concat (map attestation_details xs) @ concat (map receipt_details ys))) = (Text, st)" for st xs ys
    by (rule concat_run) (auto simp: attestation_details_def receipt_details_def intro: detail_lines_fragment)
  then show ?thesis by (intro fragmentI) (simp add: render_proof_details_def Let_def)
qed

lemma reputation_rows_fragment [simp]: "fragment (update_row u)" "fragment (leaderboard_row e)"
  by (rule fragmentI, simp add: update_row_def leaderboard_row_def)+

lemma reputation_panel_fragment [simp]: "fragment (render_reputation_panel md projection)"
  by (rule fragmentI) (simp add: render_reputation_panel_def Let_def)

lemma events_panel_fragment [simp]: "fragment (render_indexed_events_panel projection)"
  by (rule fragmentI) (simp add: render_indexed_events_panel_def)

lemma graph_state_fragment [simp]: "fragment (render_graph_state v)"
  by (rule fragmentI) (simp add: render_graph_state_def Let_def split: json.split)

lemma updates_fragment: "render_reputation_updates v = Inr html \<Longrightarrow> fragment html"
  by (auto simp: render_reputation_updates_def res_bind_Inr_iff Let_def intro!: fragmentI)

lemma receipt_line_fragment: "chain_receipt_line receipt = Some line \<Longrightarrow> fragment line"
  by (auto simp: chain_receipt_line_def Let_def intro!: fragmentI split: if_splits)

lemma receipts_fragment [simp]: "fragment (render_chain_receipts v)"
proof -
  have "fragment ''<br>''" by (rule fragmentI) simp
  then have "fragment (join ''<br>'' (some_values (map chain_receipt_line xs)))" for xs
    by (rule fragment_join) (auto simp: some_values_set intro: receipt_line_fragment [OF sym])
  then show ?thesis by (intro fragmentI) (simp add: render_chain_receipts_def Let_def)
qed

lemma metadata_rows_fragment [simp]: "fragment (metadata_rows md)"
proof -
  have "fragment (metadata_row md key)" for key by (rule fragmentI) (simp add: metadata_row_def)
  then show ?thesis by (intro fragmentI) (simp add: metadata_rows_def split: json.split list.split)
qed

lemma metadata_fragment: "render_run_metadata md = Inr html \<Longrightarrow> fragment html"
  using updates_fragment by (auto simp: render_run_metadata_def res_bind_Inr_iff intro!: fragmentI split: if_splits)

lemma node_row_fragment [simp]: "fragment (node_row record)"
  by (rule fragmentI) (simp add: node_row_def)

lemma node_rows_fragment [simp]: "fragment (render_node_rows ledger)"
  by (rule fragmentI) (simp add: render_node_rows_def)

lemma item_fragment [simp]: "fragment (''<li>'' @ escape x @ ''</li>'')" "fragment (''<li><code>'' @ escape x @ ''</code></li>'')"
  by (rule fragmentI, simp)+

lemma topology_fragment [simp]: "fragment (render_topology t)"
proof -
  have "html_run (Text, st) (concat (map (\<lambda>peer. ''<li>'' @ escape peer @ ''</li>'') xs)) = (Text, st)"
    "html_run (Text, st) (concat (map (\<lambda>node. ''<li><code>'' @ escape (str_get node ''public_key'') @ ''</code></li>'') ys)) = (Text, st)" for st xs ys
    by (rule concat_map_run, rule item_fragment)+
  then show ?thesis by (intro fragmentI) (simp add: render_topology_def Let_def split: option.split)
qed

lemma no_job_fragment [simp]: "fragment no_job_panel"
  by (rule fragmentI) (simp add: no_job_panel_def)

lemma job_panel_fragment:
  assumes "fragment memo_html" "fragment verification" "fragment registry" "fragment metadata"
  shows "fragment (job_panel job payload ledger topology projection memo_html verification registry metadata)"
  by (rule fragmentI) (simp add: job_panel_def Let_def assms)

lemma latest_job_fragment: "render_latest_job_panel c load latest_job projection = Inr html \<Longrightarrow> fragment html"
  by (auto simp: render_latest_job_panel_def res_bind_Inr_iff memo_fragment
      dest!: verification_panel_fragment registry_fragment metadata_fragment intro!: job_panel_fragment split: option.splits)

lemma capability_fragment: "fragment (render_capability_strip latest_job projection)"
  by (rule fragmentI) (simp add: render_capability_strip_def Let_def)

lemma fixtures_fragment: "fragment render_fixture_cards"
proof -
  have "fragment (fixture_card 0 f)" "fragment (fixture_card (Suc 0) f)" for f
    by (rule fragmentI, simp add: fixture_card_def)+
  then show ?thesis by (intro fragmentI) (simp add: render_fixture_cards_def demo_fixtures_def)
qed

subsection \<open>No stored value reaches the page as markup\<close>

text \<open>C26: Whatever the store holds, the page answered is the template with its three placeholders replaced
  by fragments: reading each of them opens and closes its own elements, all from the fixed list, and ends
  between two tags with the elements open that were open before, so no thesis, node answer, peer id,
  receipt or memo text acts as markup.\<close>

theorem page_is_inert:
  assumes "home_page c load template s = (Inr html, s')"
  shows "\<exists>strip panel. fragment render_fixture_cards \<and> fragment strip \<and> fragment panel \<and>
    html = safe_substitute (map_of [(''fixture_cards'', render_fixture_cards), (''capability_strip'', strip),
      (''latest_job_panel'', panel)]) template"
proof -
  obtain latest_job projection panel where panel: "render_latest_job_panel c load latest_job projection = Inr panel"
    and html: "html = safe_substitute (map_of [(''fixture_cards'', render_fixture_cards),
      (''capability_strip'', render_capability_strip latest_job projection), (''latest_job_panel'', panel)]) template"
    using assms unfolding home_page_def by (auto simp: res_bind_Inr_iff split: prod.splits sum.splits)
  from html latest_job_fragment [OF panel] capability_fragment fixtures_fragment show ?thesis by blast
qed

subsection \<open>The memo of a job reads back and is shown\<close>

definition final_memo_fields :: "final_memo \<Rightarrow> jobject" where
  "final_memo_fields m = (case final_memo_json m of JObj d \<Rightarrow> d | _ \<Rightarrow> [])"

lemma stored_memo_reads_back:
  assumes "valid_final_memo m"
  shows "stored_memo (final_memo_json m) = Inr m"
proof -
  define d where "d = final_memo_fields m"
  have json: "final_memo_json m = JObj d" by (simp add: d_def final_memo_fields_def final_memo_json_def)
  have get: "dget d ''provenance'' = Some (JList (map (\<lambda>p. JObj (provenance_fields p)) (fm_provenance m)))"
    "dget d ''evidence_sources'' = Some (JList (map (\<lambda>s. JObj (memo_source_fields s)) (fm_evidence_sources m)))"
    "dget d ''verification_attestations'' = Some (JList (map (\<lambda>a. JObj (attestation_fields a)) (fm_verification_attestations m)))"
    "dget d ''confidence_rationale'' = Some (JStr (fm_confidence_rationale m))" "dget d ''partial'' = Some (JBool (fm_partial m))"
    unfolding d_def final_memo_fields_def final_memo_json_def written_json by simp_all
  have l: "obj_list_field provenance_of_json d ''provenance'' = Inr (fm_provenance m)"
    "obj_list_field memo_source_of_json d ''evidence_sources'' = Inr (fm_evidence_sources m)"
    "obj_list_field attestation_of_json d ''verification_attestations'' = Inr (fm_verification_attestations m)"
    by (rule obj_list_fieldI, rule get, use assms in
        \<open>auto simp: valid_final_memo_def list_all_iff intro: provenance_roundtrip memo_source_roundtrip attestation_roundtrip\<close>)+
  have f: "str_field d ''job_id'' = Inr (fm_job_id m)" "str_field d ''normalized_thesis'' = Inr (fm_normalized_thesis m)"
    "scenario_field d ''scenarios'' = Inr (fm_scenarios m)" "str_list_field d ''supporting_evidence'' = Inr (fm_supporting_evidence m)"
    "str_list_field d ''opposing_evidence'' = Inr (fm_opposing_evidence m)" "str_list_field d ''catalysts'' = Inr (fm_catalysts m)"
    "str_list_field d ''risks'' = Inr (fm_risks m)" "str_list_field d ''invalidation_triggers'' = Inr (fm_invalidation_triggers m)"
    "opt_str_field d ''partial_reason'' = Inr (fm_partial_reason m)"
    unfolding d_def final_memo_fields_def final_memo_json_def by simp_all
  have b: "bool_field d ''partial'' = Inr (fm_partial m)" "text_field_or [] d ''confidence_rationale'' = Inr (fm_confidence_rationale m)"
    using get by (simp_all add: bool_field_def lax_bool_def text_field_or_def)
  show ?thesis
    unfolding json stored_memo_def json.case final_memo_of_json_def f l b res_bind_simps
    using assms by (cases m) (simp add: make_final_memo_def)
qed

lemma join_lines_part: "m \<in> set xs \<Longrightarrow> \<exists>pre post. join_lines xs = pre @ m @ post"
proof (induction xs)
  case (Cons x xs)
  show ?case
  proof (cases "m = x")
    case True
    show ?thesis using True by (cases xs) (auto simp: join_lines_def intro: exI [of _ "[]"])
  next
    case False
    with Cons.prems have "m \<in> set xs" by simp
    with Cons.IH obtain pre post where part: "join_lines xs = pre @ m @ post" by blast
    from \<open>m \<in> set xs\<close> obtain y ys where "xs = y # ys" by (cases xs) auto
    then have "join_lines (x # xs) = (x @ [CHR 0x0A] @ pre) @ m @ post" using part by (simp add: join_lines_def)
    then show ?thesis by blast
  qed
qed simp

text \<open>The panel of a job whose stored memo is the dump of a valid one shows that memo: the stored JSON
  validates to the memo it was dumped from, and its HTML is a part of the panel.\<close>

theorem completed_memo_is_shown:
  assumes "jb_memo job = Some (final_memo_json memo)" "valid_final_memo memo"
    and "render_latest_job_panel c load (Some job) projection = Inr html"
  shows "stored_memo (final_memo_json memo) = Inr memo \<and> (\<exists>pre post. html = pre @ render_memo_html memo @ post)"
proof -
  have "stored_option (jb_memo job) = Some (final_memo_json memo)"
    by (simp add: assms(1) stored_option_def final_memo_json_def)
  with assms(3) obtain payload ledger topology verification registry metadata where
      html: "html = job_panel job payload ledger topology projection (render_memo_html memo) verification registry metadata"
    unfolding render_latest_job_panel_def
    by (auto simp: stored_memo_reads_back [OF assms(2)] res_bind_Inr_iff)
  have "\<exists>pre post. html = pre @ render_memo_html memo @ post"
    unfolding html job_panel_def Let_def by (rule join_lines_part) simp
  with stored_memo_reads_back [OF assms(2)] show ?thesis by blast
qed

text \<open>The evidence column of the REE check looks only at whether an item had a receipt to validate: a
  receipt body that cannot even be parsed makes the check fail, and its row still reads as validated from
  the receipt body.\<close>

theorem failed_ree_check_reads_as_validated:
  assumes "jget d ''ree_receipt_body'' = JObj body" "body \<noteq> []" and "validate_source c load (JObj body) = Inl e"
  shows "\<exists>check. verify_ree_evidence c load [d] [] = JObj check \<and> str_get check ''status'' = ''failed'' \<and>
    evidence_label ''ree'' check = ''validated from receipt body''"
proof -
  have has: "has_ree_metadata d" using assms(1,2) by (simp add: has_ree_metadata_def)
  define item where "item = (''role'', JStr (str_get d ''node_role'')) # verify_ree_receipt_metadata c load d"
  have item: "str_get item ''status'' = ''failed''" "str_get item ''validation_source'' = ''body''"
      "truthy (jget item ''validation_source'')"
    using assms by (simp_all add: item_def verify_ree_receipt_metadata_def Let_def py_or_def str_get_def jget_def
        ree_validation_source_def is_obj_def)
  have check: "verify_ree_evidence c load [d] [] = check_result [item]"
    using has by (simp add: verify_ree_evidence_def add_evidence_def Let_def item_def choose_ree_item_def)
  have "rollup_status [''failed''] = ''failed''" by (simp add: rollup_status_def status_words Let_def)
  then have "items_status [item] = ''failed''" by (simp add: items_status_def item)
  moreover have "dict_items [(''status'', JStr t), (''items'', JList [JObj item])] = [item]" for t
    by (simp add: dict_items_def jget_def objects_in_def some_values_def)
  ultimately show ?thesis
    unfolding check check_result_def by (simp add: evidence_label_def item Let_def) (simp add: str_get_def)
qed

subsection \<open>Examples\<close>

definition demo_memo :: final_memo where
  "demo_memo = \<lparr>fm_job_id = ''job-1'', fm_normalized_thesis = ''Will ETH <b>rally</b>'',
     fm_scenarios = sr_scenario_view demo_response, fm_supporting_evidence = [], fm_opposing_evidence = [],
     fm_catalysts = [], fm_risks = [], fm_invalidation_triggers = [], fm_confidence_rationale = [],
     fm_provenance = [], fm_evidence_sources = [], fm_verification_attestations = [], fm_partial = False,
     fm_partial_reason = None\<rparr>"

definition demo_page_job :: job_record where
  "demo_page_job = \<lparr>jb_job_id = ''job-1'', jb_status = ''completed'', jb_payload = JObj [],
     jb_memo = Some (final_memo_json demo_memo), jb_provenance_ledger = [], jb_topology_snapshot = None,
     jb_run_metadata = [], jb_created_at = ''2026-01-01T00:00:00+00:00''\<rparr>"

lemma demo_memo_valid: "valid_final_memo demo_memo"
  by (simp add: valid_final_memo_def demo_memo_def)

lemma demo_page_bundle: "\<exists>b. build_job_verification_bundle c load None (as_dict (job_record_json demo_page_job)) = Inr b"
  by (simp add: build_job_verification_bundle_def Let_def as_dict_def job_record_json_def demo_page_job_def jget_def
      objects_in_def verify_output_hashes_def output_hash_items_def verify_attestations_def group_by_def)

lemma demo_panel: "\<exists>html. render_latest_job_panel c load (Some demo_page_job) empty_projection = Inr html"
proof -
  obtain b where b: "build_job_verification_bundle c load None (as_dict (job_record_json demo_page_job)) = Inr b"
    using demo_page_bundle by blast
  have j: "jb_memo demo_page_job = Some (final_memo_json demo_memo)" "jb_payload demo_page_job = JObj []"
      "jb_provenance_ledger demo_page_job = []" "jb_topology_snapshot demo_page_job = None" "jb_run_metadata demo_page_job = []"
    by (simp_all add: demo_page_job_def)
  have "stored_option (Some (final_memo_json demo_memo)) = Some (final_memo_json demo_memo)"
    by (simp add: stored_option_def final_memo_json_def)
  then show ?thesis
    by (simp add: render_latest_job_panel_def j stored_memo_reads_back [OF demo_memo_valid] stored_dict_def
        render_verification_panel_def b Let_def render_agent_registry_def render_run_metadata_def stored_topology_def
        stored_option_def)
qed

lemma completed_memo_is_shown_witness:
  "\<exists>html pre post. render_latest_job_panel demo_crypto (\<lambda>_. Inr []) (Some demo_page_job) empty_projection = Inr html \<and>
     html = pre @ render_memo_html demo_memo @ post"
proof -
  obtain html where html: "render_latest_job_panel demo_crypto (\<lambda>_. Inr []) (Some demo_page_job) empty_projection = Inr html"
    using demo_panel by blast
  have "jb_memo demo_page_job = Some (final_memo_json demo_memo)" by (simp add: demo_page_job_def)
  from completed_memo_is_shown [OF this demo_memo_valid html] html show ?thesis by blast
qed

lemma failed_ree_check_reads_as_validated_witness:
  "\<exists>check. verify_ree_evidence demo_crypto (\<lambda>_. Inr []) [[(''ree_receipt_body'', JObj [(''x'', JNull)])]] [] = JObj check \<and>
     str_get check ''status'' = ''failed'' \<and> evidence_label ''ree'' check = ''validated from receipt body''"
proof -
  have "isl (parse_ree_receipt [(''x'', JNull)])" by code_simp
  then obtain e where "parse_ree_receipt [(''x'', JNull)] = Inl e" by (auto simp: isl_def)
  then have "validate_source demo_crypto (\<lambda>_. Inr []) (JObj [(''x'', JNull)]) = Inl e"
    by (simp add: validate_source_def)
  from failed_ree_check_reads_as_validated [OF _ _ this] show ?thesis by (simp add: jget_def)
qed

lemma page_of_panel:
  "safe_substitute (map_of [(''fixture_cards'', f), (''capability_strip'', g), (''latest_job_panel'', h)])
     ''<main>$latest_job_panel</main>'' = ''<main>'' @ h @ ''</main>''"
  by (simp add: ident_prefix_def starts_with_def ident_char_def is_digit_def char_code_def lower_char_def)

lemma blank_page: "\<exists>html. fst (home_page c load template blank_store) = Inr html"
proof -
  have db: "js_db (opened_store blank_store) = all_columns (all_tables blank_db)" by (simp add: opened_first blank_store_def)
  have rows: "db_jobs (js_db (opened_store blank_store)) = []" "db_events (js_db (opened_store blank_store)) = []"
    by (simp_all add: db migrated_rows has_table_def blank_db_def)
  have ready: "schema_ready (js_db (opened_store blank_store))" unfolding db by (rule initialize_ready [OF blank_earlier])
  have job: "get_latest_job blank_store = (Inr None, opened_store blank_store)"
    unfolding get_latest_job_def
    by (subst run_sync_ready [where d = "js_db (opened_store blank_store)"])
      (simp_all add: get_latest_job_sync_def on_table_ready ready rows jobs_by_time_def)
  have cols: "set (removeAll ''indexed_at'' (removeAll ''event_id'' events_columns)) \<subseteq> set events_columns" by auto
  have "\<exists>p. fst (get_indexed_chain_projection (opened_store blank_store)) = Inr p"
    by (simp add: get_indexed_chain_projection_def run_sync_def initialize_eq(1) get_indexed_chain_projection_sync_def
        on_table_ready(2) [OF ready cols] rows build_chain_events_projection_def)
  then show ?thesis
    by (auto simp: home_page_def job render_latest_job_panel_def split: prod.split)
qed

lemma page_is_inert_witness:
  "\<exists>html panel. fst (home_page demo_crypto (\<lambda>_. Inr []) ''<main>$latest_job_panel</main>'' blank_store) = Inr html \<and>
     fragment panel \<and> html = ''<main>'' @ panel @ ''</main>''"
proof -
  obtain html s' where page: "home_page demo_crypto (\<lambda>_. Inr []) ''<main>$latest_job_panel</main>'' blank_store = (Inr html, s')"
    using blank_page by (metis prod.collapse)
  from page_is_inert [OF page] obtain panel where "fragment panel" "html = ''<main>'' @ panel @ ''</main>''"
    unfolding page_of_panel by blast
  with page show ?thesis by auto
qed

end
