(* ===== verification/Specialists.thy ===== *)
theory Specialists
  imports Synthesis
begin

section \<open>The specialist nodes (app/nodes/regime, narrative, risk)\<close>

text \<open>
  How a node turns its input into a response. The regime node computes weights from a price return and a
  volatility by fixed thresholds; the narrative and the risk node read the JSON of a language model, whose
  numbers may be infinite or not numbers, since \<^verbatim>\<open>json.loads\<close> and \<^verbatim>\<open>float\<close> accept both. \<open>loads\<close> is
  \<^verbatim>\<open>json.loads\<close>; a \<open>ValueError\<close> of it is its decode error. The time stamp is an argument.

  Shown: for every snapshot, even of infinities, the regime response is valid, hashable and its weights lie
  between 0 and 1; the answer of a model node has such weights exactly when the sum of the weights it was
  given is finite; one infinite weight makes every scenario number a NaN, which the schema accepts and the
  verifier cannot hash, so the whole batch fails; and a regime node whose price return is no number reports
  full confidence.
\<close>

subsection \<open>Common\<close>

definition node_wallet :: "settings \<Rightarrow> string option" where
  "node_wallet s = (if cfg_node_wallet_address s \<noteq> [] then Some (cfg_node_wallet_address s) else None)"

text \<open>The confidence is passed as a float; the schema wants a number between 0 and 1.\<close>

definition respond ::
    "(float64 \<Rightarrow> specialist_response) \<Rightarrow> pyfloat \<Rightarrow> specialist_response res" where
  "respond build confidence =
     (case confidence of Fin x \<Rightarrow> make_specialist_response (build x) | _ \<Rightarrow> invalid ''SpecialistResponse'')"

text \<open>\<^verbatim>\<open>v.get\<close> of a decoded value that is no object raises.\<close>

definition attributes :: "json \<Rightarrow> jobject res" where
  "attributes v = (case v of JObj d \<Rightarrow> Inr d | _ \<Rightarrow> Inl (OtherError ''AttributeError''))"

definition weights_over :: "pyfloat \<Rightarrow> pyfloat \<Rightarrow> pyfloat \<Rightarrow> pyfloat \<Rightarrow> scenario_view res" where
  "weights_over weight bull base bear =
     res_bind (pf_ratio bull weight) (\<lambda>a. res_bind (pf_ratio base weight) (\<lambda>b. res_bind (pf_ratio bear weight) (\<lambda>c.
       Inr \<lparr>sv_bull = a, sv_base = b, sv_bear = c\<rparr>)))"

subsection \<open>Regime\<close>

record regime_snapshot =
  rs_price_return :: pyfloat
  rs_volatility :: pyfloat

definition classify_market_state :: "regime_snapshot \<Rightarrow> string" where
  "classify_market_state s =
     (if pf_le (lit (5/100)) (rs_price_return s) then ''risk-on''
      else if pf_le (rs_price_return s) (pf_neg (lit (5/100))) then ''risk-off'' else ''range-bound'')"

definition classify_volatility :: "pyfloat \<Rightarrow> string" where
  "classify_volatility v =
     (if pf_le (lit (35/100)) v then ''high'' else if pf_le (lit (20/100)) v then ''moderate'' else ''contained'')"

definition trend_strength :: "regime_snapshot \<Rightarrow> pyfloat" where
  "trend_strength s = pf_max (pf_min (pf_div (rs_price_return s) (lit (10/100))) (Fin 1)) (Fin (- 1))"

definition volatility_pressure :: "regime_snapshot \<Rightarrow> pyfloat" where
  "volatility_pressure s =
     pf_max (pf_min (pf_div (pf_sub (rs_volatility s) (lit (20/100))) (lit (20/100))) (Fin 1)) (Fin 0)"

definition bull_score :: "regime_snapshot \<Rightarrow> pyfloat" where
  "bull_score s = pf_max (lit (5/100))
     (pf_sub (pf_add (Fin 1) (pf_mul (lit (7/10)) (trend_strength s))) (pf_mul (lit (4/10)) (volatility_pressure s)))"

definition base_score :: "regime_snapshot \<Rightarrow> pyfloat" where
  "base_score s = pf_max (lit (5/100))
     (pf_sub (pf_sub (lit (12/10)) (pf_mul (lit (2/10)) (pf_abs (trend_strength s)))) (pf_mul (lit (3/10)) (volatility_pressure s)))"

definition bear_score :: "regime_snapshot \<Rightarrow> pyfloat" where
  "bear_score s = pf_max (lit (5/100))
     (pf_add (pf_sub (Fin 1) (pf_mul (lit (7/10)) (trend_strength s))) (pf_mul (lit (5/10)) (volatility_pressure s)))"

definition regime_scenario_view :: "regime_snapshot \<Rightarrow> scenario_view res" where
  "regime_scenario_view s =
     weights_over (pf_add (pf_add (bull_score s) (base_score s)) (bear_score s)) (bull_score s) (base_score s) (bear_score s)"

definition regime_confidence :: "regime_snapshot \<Rightarrow> pyfloat" where
  "regime_confidence s = pf_max (Fin 0) (pf_min (Fin 1)
     (pf_add (pf_add (lit (5/10)) (pf_abs (rs_price_return s)))
       (pf_max (Fin 0) (pf_sub (lit (30/100)) (rs_volatility s)))))"

definition regime_analyze ::
    "settings \<Rightarrow> axl_registry \<Rightarrow> string \<Rightarrow> string \<Rightarrow> regime_snapshot \<Rightarrow> specialist_response res" where
  "regime_analyze cfg reg now job_id s =
     res_bind (regime_scenario_view s) (\<lambda>view.
     let market_state = classify_market_state s; volatility_state = classify_volatility (rs_volatility s) in
     res_bind (get_service_for_role reg ''regime'') (\<lambda>peer.
       respond (\<lambda>confidence.
         \<lparr>sr_job_id = job_id, sr_node_role = ''regime'', sr_peer_id = ps_peer_id peer,
          sr_summary = ''Price action is '' @ market_state @ '' with '' @ volatility_state @
            '' volatility. Base case remains the anchor while regime risk reflects the latest move.'',
          sr_scenario_view = view,
          sr_signals =
            [''price_return='' @ fmt_float 2 (pf_mul (rs_price_return s) (Fin 100)) @ ''%'',
             ''volatility='' @ fmt_float 2 (rs_volatility s), ''market_state='' @ market_state,
             ''volatility_state='' @ volatility_state],
          sr_risks =
            [''Trend can reverse quickly when realized volatility expands.'',
             ''Scenario weights are based on deterministic thresholds, not forward-looking news.''],
          sr_confidence = confidence, sr_citations = [], sr_timestamp = now, sr_agent_wallet = node_wallet cfg,
          sr_ree_receipt_hash = None, sr_receipt_status = None, sr_ree_prompt_hash = None, sr_ree_tokens_hash = None,
          sr_ree_model_name = None, sr_ree_receipt_body = None, sr_ree_receipt_path = None\<rparr>)
       (regime_confidence s)))"

subsection \<open>Reading a model's JSON\<close>

definition coerce_list :: "json \<Rightarrow> string list" where
  "coerce_list v = (case v of
      JList xs \<Rightarrow> filter (\<lambda>t. t \<noteq> []) (map strip (some_values (map as_str xs)))
    | _ \<Rightarrow> [])"

definition coerce_text :: "json \<Rightarrow> string \<Rightarrow> string" where
  "coerce_text v fallback = (case v of JStr s \<Rightarrow> if strip s \<noteq> [] then strip s else fallback | _ \<Rightarrow> fallback)"

definition coerce_non_negative :: "json \<Rightarrow> pyfloat \<Rightarrow> pyfloat res" where
  "coerce_non_negative v fallback =
     (case py_float_of v of
        Inr f \<Rightarrow> Inr (pf_max (Fin 0) f)
      | Inl (TypeError _) \<Rightarrow> Inr fallback
      | Inl (ValueError _) \<Rightarrow> Inr fallback
      | Inl e \<Rightarrow> Inl e)"

definition coerce_confidence :: "json \<Rightarrow> pyfloat res" where
  "coerce_confidence v =
     (case py_float_of v of
        Inr f \<Rightarrow> Inr (pf_min (Fin 1) (pf_max (Fin 0) f))
      | Inl (TypeError _) \<Rightarrow> Inr (lit (5/10))
      | Inl (ValueError _) \<Rightarrow> Inr (lit (5/10))
      | Inl e \<Rightarrow> Inl e)"

text \<open>The three weights, the defaults when their sum is 0, and the division by the sum.\<close>

definition normalized_weights :: "pyfloat \<Rightarrow> pyfloat \<Rightarrow> pyfloat \<Rightarrow> json \<Rightarrow> scenario_view res" where
  "normalized_weights dbull dbase dbear raw =
     res_bind (attributes raw) (\<lambda>view.
     res_bind (coerce_non_negative (jget view ''bull'') dbull) (\<lambda>bull.
     res_bind (coerce_non_negative (jget view ''base'') dbase) (\<lambda>base.
     res_bind (coerce_non_negative (jget view ''bear'') dbear) (\<lambda>bear.
     let weight = pf_add (pf_add bull base) bear in
       if weight = Fin 0 then weights_over (Fin 1) dbull dbase dbear
       else weights_over weight bull base bear))))"

text \<open>The model's answer as a JSON object: a decode error is reported as \<open>decode_error\<close> says.\<close>

definition loaded_answer :: "(string \<Rightarrow> json res) \<Rightarrow> string \<Rightarrow> json option res" where
  "loaded_answer loads llm_text =
     res_bind (unfence llm_text) (\<lambda>t.
       case loads t of Inr v \<Rightarrow> Inr (Some v) | Inl (ValueError _) \<Rightarrow> Inr None | Inl e \<Rightarrow> Inl e)"

definition not_json :: py_error where "not_json = ValueError ''LLM response is not valid JSON''"

subsection \<open>Narrative\<close>

record model_node =
  mn_complete :: "string \<Rightarrow> (string \<times> string) list \<Rightarrow> string res"
  mn_loads :: "string \<Rightarrow> json res"
  mn_settings :: settings
  mn_registry :: axl_registry
  mn_model :: string

definition narrative_messages :: "string list \<Rightarrow> (string \<times> string) list" where
  "narrative_messages headlines =
     (let listed = join newline (map (\<lambda>h. ''- '' @ h) headlines); block = (if listed \<noteq> [] then listed else ''- none'') in
      [(''system'', ''You are the narrative specialist for Signal Count. Return compact JSON only.''),
       (''user'', ''Summarize the narrative implied by these headlines. Return JSON with keys: summary, catalysts, unknowns, scenario_framing, scenario_view, confidence. scenario_view must include bull, base, bear numeric weights.'' @
          newline @ ''Headlines:'' @ newline @ block)])"

record narrative_answer =
  na_summary :: string
  na_catalysts :: "string list"
  na_unknowns :: "string list"
  na_scenario_framing :: "string list"
  na_scenario_view :: json
  na_confidence :: json

definition parse_narrative :: "(string \<Rightarrow> json res) \<Rightarrow> string \<Rightarrow> narrative_answer res" where
  "parse_narrative loads llm_text =
     res_bind (loaded_answer loads llm_text) (\<lambda>answer.
       case answer of
         None \<Rightarrow> Inl not_json
       | Some v \<Rightarrow> res_bind (attributes v) (\<lambda>payload. Inr
           \<lparr>na_summary = coerce_text (jget payload ''summary'') ''Narrative context is mixed.'',
            na_catalysts = coerce_list (jget payload ''catalysts''), na_unknowns = coerce_list (jget payload ''unknowns''),
            na_scenario_framing = coerce_list (jget payload ''scenario_framing''),
            na_scenario_view = (case dget payload ''scenario_view'' of None \<Rightarrow> JObj [] | Some w \<Rightarrow> w),
            na_confidence = jget payload ''confidence''\<rparr>))"

definition narrative_scenario_view :: "json \<Rightarrow> scenario_view res" where
  "narrative_scenario_view = normalized_weights (lit (30/100)) (lit (40/100)) (lit (30/100))"

definition narrative_analyze ::
    "model_node \<Rightarrow> string \<Rightarrow> string \<Rightarrow> string \<Rightarrow> string list \<Rightarrow> specialist_response res" where
  "narrative_analyze node now job_id peer_id headlines =
     res_bind (mn_complete node (mn_model node) (narrative_messages headlines)) (\<lambda>llm_text.
     res_bind (parse_narrative (mn_loads node) llm_text) (\<lambda>parsed.
     res_bind (narrative_scenario_view (na_scenario_view parsed)) (\<lambda>view.
     res_bind (get_service_for_role (mn_registry node) ''narrative'') (\<lambda>registry_peer.
     res_bind (coerce_confidence (na_confidence parsed)) (\<lambda>confidence.
       respond (\<lambda>x.
         \<lparr>sr_job_id = job_id, sr_node_role = ''narrative'',
          sr_peer_id = (if peer_id \<noteq> [] then peer_id else ps_peer_id registry_peer),
          sr_summary = na_summary parsed, sr_scenario_view = view,
          sr_signals = map (\<lambda>i. ''catalyst: '' @ i) (na_catalysts parsed) @ map (\<lambda>i. ''scenario_frame: '' @ i) (na_scenario_framing parsed),
          sr_risks = map (\<lambda>i. ''unknown: '' @ i) (na_unknowns parsed), sr_confidence = x, sr_citations = headlines,
          sr_timestamp = now, sr_agent_wallet = node_wallet (mn_settings node),
          sr_ree_receipt_hash = None, sr_receipt_status = None, sr_ree_prompt_hash = None, sr_ree_tokens_hash = None,
          sr_ree_model_name = None, sr_ree_receipt_body = None, sr_ree_receipt_path = None\<rparr>) confidence)))))"

subsection \<open>Risk\<close>

text \<open>What a risk node keeps of a REE run\<close>

record ree_evidence =
  re_text :: string
  re_receipt_hash :: string
  re_receipt_status :: string
  re_prompt_hash :: string
  re_tokens_hash :: string
  re_model_name :: string
  re_receipt_body :: jobject
  re_receipt_path :: string

definition risk_messages :: "string \<Rightarrow> (string \<times> string) list" where
  "risk_messages thesis =
     [(''system'', ''You are the risk specialist for Signal Count. Return compact JSON only.''),
      (''user'', ''Generate the strongest opposing case for this thesis. Return JSON with keys: summary, counter_thesis, risks, invalidation_triggers, scenario_view, confidence. scenario_view must include bull, base, bear numeric weights.'' @
         newline @ ''Thesis:'' @ newline @ thesis)]"

definition render_ree_prompt :: "(string \<times> string) list \<Rightarrow> string" where
  "render_ree_prompt messages = join (newline @ newline) (map (\<lambda>(role, content). ''['' @ role @ '']'' @ newline @ content) messages)"

record risk_answer =
  ra_summary :: string
  ra_counter_thesis :: string
  ra_risks :: "string list"
  ra_invalidation_triggers :: "string list"
  ra_scenario_view :: json
  ra_confidence :: json

definition default_counter_thesis :: string where
  "default_counter_thesis = ''The thesis can fail if the expected catalyst does not arrive.''"

definition fallback_from_text :: "string \<Rightarrow> risk_answer" where
  "fallback_from_text t =
     \<lparr>ra_summary = take 800 (coerce_text (JStr t) ''REE-backed risk output was produced but not structured as JSON.''),
      ra_counter_thesis = default_counter_thesis,
      ra_risks = [''REE output was unstructured, so risk extraction used a conservative fallback.''],
      ra_invalidation_triggers = [''Structured REE JSON is required before treating the risk view as high confidence.''],
      ra_scenario_view = JObj [(''bull'', num (fl (25/100))), (''base'', num (fl (35/100))), (''bear'', num (fl (40/100)))],
      ra_confidence = num (fl (35/100))\<rparr>"

definition parse_risk :: "(string \<Rightarrow> json res) \<Rightarrow> bool \<Rightarrow> string \<Rightarrow> risk_answer res" where
  "parse_risk loads allow_text_fallback llm_text =
     res_bind (loaded_answer loads llm_text) (\<lambda>answer.
       case answer of
         None \<Rightarrow> if allow_text_fallback then Inr (fallback_from_text llm_text) else Inl not_json
       | Some v \<Rightarrow> res_bind (attributes v) (\<lambda>payload. Inr
           \<lparr>ra_summary = coerce_text (jget payload ''summary'') ''Risk conditions remain unresolved.'',
            ra_counter_thesis = coerce_text (jget payload ''counter_thesis'') default_counter_thesis,
            ra_risks = coerce_list (jget payload ''risks''),
            ra_invalidation_triggers = coerce_list (jget payload ''invalidation_triggers''),
            ra_scenario_view = (case dget payload ''scenario_view'' of None \<Rightarrow> JObj [] | Some w \<Rightarrow> w),
            ra_confidence = jget payload ''confidence''\<rparr>))"

definition risk_scenario_view :: "json \<Rightarrow> scenario_view res" where
  "risk_scenario_view = normalized_weights (lit (25/100)) (lit (35/100)) (lit (40/100))"

text \<open>\<open>run_ree\<close> is the runner of the node, if it has one, on a model name and a prompt.\<close>

definition ask_risk ::
    "model_node \<Rightarrow> (string \<Rightarrow> string \<Rightarrow> ree_evidence res) option \<Rightarrow> string \<Rightarrow> (string \<times> ree_evidence option) res" where
  "ask_risk node run_ree thesis =
     (case run_ree of
        Some run \<Rightarrow>
          res_bind (run (if cfg_ree_model (mn_settings node) \<noteq> [] then cfg_ree_model (mn_settings node) else ''Qwen/Qwen3-0.6B'')
            (render_ree_prompt (risk_messages thesis))) (\<lambda>ev. Inr (re_text ev, Some ev))
      | None \<Rightarrow> res_bind (mn_complete node (mn_model node) (risk_messages thesis)) (\<lambda>t. Inr (t, None)))"

definition risk_analyze ::
    "model_node \<Rightarrow> (string \<Rightarrow> string \<Rightarrow> ree_evidence res) option \<Rightarrow> string \<Rightarrow> string \<Rightarrow> string \<Rightarrow> string \<Rightarrow> specialist_response res" where
  "risk_analyze node run_ree now job_id peer_id thesis =
     res_bind (ask_risk node run_ree thesis) (\<lambda>(response_text, evidence).
     res_bind (parse_risk (mn_loads node) (case evidence of Some ev \<Rightarrow> re_receipt_hash ev \<noteq> [] | None \<Rightarrow> False) response_text) (\<lambda>parsed.
     res_bind (risk_scenario_view (ra_scenario_view parsed)) (\<lambda>view.
     res_bind (get_service_for_role (mn_registry node) ''risk'') (\<lambda>registry_peer.
     res_bind (coerce_confidence (ra_confidence parsed)) (\<lambda>confidence.
       respond (\<lambda>x.
         \<lparr>sr_job_id = job_id, sr_node_role = ''risk'',
          sr_peer_id = (if peer_id \<noteq> [] then peer_id else ps_peer_id registry_peer),
          sr_summary = ra_summary parsed, sr_scenario_view = view,
          sr_signals = (''counter_thesis: '' @ ra_counter_thesis parsed) #
            map (\<lambda>i. ''invalidation: '' @ i) (ra_invalidation_triggers parsed),
          sr_risks = map (\<lambda>i. ''risk: '' @ i) (ra_risks parsed), sr_confidence = x, sr_citations = [],
          sr_timestamp = now, sr_agent_wallet = node_wallet (mn_settings node),
          sr_ree_receipt_hash = map_option re_receipt_hash evidence, sr_receipt_status = map_option re_receipt_status evidence,
          sr_ree_prompt_hash = map_option re_prompt_hash evidence, sr_ree_tokens_hash = map_option re_tokens_hash evidence,
          sr_ree_model_name = map_option re_model_name evidence, sr_ree_receipt_body = map_option re_receipt_body evidence,
          sr_ree_receipt_path = map_option re_receipt_path evidence\<rparr>) confidence)))))"

subsection \<open>Doubles\<close>

definition double :: "pyfloat \<Rightarrow> bool" where
  "double e = (case e of Fin x \<Rightarrow> fl x = x | _ \<Rightarrow> True)"

lemma double_simps [simp]: "double NaN" "double PosInf" "double NegInf" "double (Fin x) \<longleftrightarrow> fl x = x"
  by (simp_all add: double_def)

lemma double_of_rat [simp]: "double (pyfloat_of_rat x)"
  by (simp add: pyfloat_of_rat_def)

lemma double_add [simp]: "double (pf_add a b)"
  by (cases a; cases b) (simp_all add: pf_add_def)

lemma double_sub [simp]: "double (pf_sub a b)"
  by (simp add: pf_sub_def)

lemma double_max: "double a \<Longrightarrow> double b \<Longrightarrow> double (pf_max a b)"
  by (simp add: pf_max_def)

definition unit_view :: "scenario_view \<Rightarrow> bool" where
  "unit_view v \<longleftrightarrow> (\<forall>e \<in> {sv_bull v, sv_base v, sv_bear v}. \<exists>x. e = Fin x \<and> 0 \<le> x \<and> x \<le> 1)"

lemma share_unit:
  assumes "0 \<le> x" "x \<le> t" "0 < t"
  shows "\<exists>y. pf_div (Fin x) (Fin t) = Fin y \<and> 0 \<le> y \<and> y \<le> 1"
proof -
  have q: "0 \<le> x / t" "x / t \<le> 1" using assms by simp_all
  then have "pyfloat_of_rat (x / t) = Fin (fl (x / t))" using pyfloat_of_rat_within(1) [of "x / t" 1] by simp
  moreover have "0 \<le> fl (x / t)" "fl (x / t) \<le> 1" using fl_nonneg q fl_mono [OF q(2)] by simp_all
  ultimately show ?thesis by (simp add: pf_div_def)
qed

text \<open>A finite sum of doubles that are not negative is at least each of them.\<close>

lemma sum_weight:
  assumes sum: "pf_add (pf_add (Fin x) (Fin y)) (Fin z) = Fin t"
    and "0 \<le> x" "0 \<le> y" "0 \<le> z" "fl x = x" "fl y = y" "fl z = z"
  shows "x \<le> t" "y \<le> t" "z \<le> t"
proof -
  obtain u where u: "pf_add (Fin x) (Fin y) = Fin u" using sum by (cases "pf_add (Fin x) (Fin y)") (auto simp: pf_add_def)
  then have "u = fl (x + y)" by (auto simp: pf_add_def pyfloat_of_rat_def split: if_splits)
  moreover have "t = fl (u + z)" using sum u by (auto simp: pf_add_def pyfloat_of_rat_def split: if_splits)
  ultimately have "fl u = u" and m: "\<And>w. w \<le> x + y \<Longrightarrow> fl w \<le> u" "\<And>w. w \<le> u + z \<Longrightarrow> fl w \<le> t"
    by (simp_all add: fl_mono)
  have "x \<le> u" "y \<le> u" using m(1) [of x] m(1) [of y] assms by simp_all
  moreover have "u \<le> t" "z \<le> t" using m(2) [of u] m(2) [of z] assms \<open>fl u = u\<close> \<open>x \<le> u\<close> by simp_all
  ultimately show "x \<le> t" "y \<le> t" "z \<le> t" by simp_all
qed

lemma weights_unit:
  assumes sum: "pf_add (pf_add (Fin x) (Fin y)) (Fin z) = Fin t" and "t \<noteq> 0"
    and "0 \<le> x" "0 \<le> y" "0 \<le> z" "fl x = x" "fl y = y" "fl z = z"
  shows "\<exists>v. weights_over (Fin t) (Fin x) (Fin y) (Fin z) = Inr v \<and> unit_view v"
proof -
  note le = sum_weight [OF sum assms(3-8)]
  then have "0 < t" using assms by linarith
  then obtain a b c where "pf_div (Fin x) (Fin t) = Fin a" "pf_div (Fin y) (Fin t) = Fin b" "pf_div (Fin z) (Fin t) = Fin c"
      "0 \<le> a" "a \<le> 1" "0 \<le> b" "b \<le> 1" "0 \<le> c" "c \<le> 1"
    using share_unit [OF assms(3) le(1)] share_unit [OF assms(4) le(2)] share_unit [OF assms(5) le(3)] by blast
  then show ?thesis using assms(2) by (simp add: weights_over_def pf_ratio_def unit_view_def)
qed

lemma respond_valid: "respond build e = Inr r \<Longrightarrow> \<exists>x. e = Fin x \<and> r = build x \<and> valid_specialist_response r"
  by (auto simp: respond_def make_specialist_response_def checked_Inr_iff invalid_def split: pyfloat.splits)

lemma unit_view_finite: "unit_view v \<Longrightarrow> finite_json (scenario_json v)"
  by (cases v) (auto simp: unit_view_def scenario_json_def)

lemma response_finite:
  "finite_json (specialist_response_json r) \<longleftrightarrow>
     finite_json (scenario_json (sr_scenario_view r)) \<and> finite_json (opt_obj (sr_ree_receipt_body r))"
  by (auto simp: specialist_response_json_def specialist_response_fields_def)

subsection \<open>Regime responses\<close>

lemma regime_terms_bounded: "bounded_by 1 (trend_strength s)" "bounded_by 1 (volatility_pressure s)"
  by (simp_all only: trend_strength_def volatility_pressure_def clamp_within)

lemma score_bounds:
  assumes "bounded_by 4 e" "double e" "score = pf_max (lit (5/100)) e"
  shows "\<exists>x. score = Fin x \<and> 0 < x \<and> x \<le> 4 \<and> fl x = x"
proof -
  obtain x where x: "pf_max (lit (5/100)) e = Fin x" "fl (5/100) \<le> x" "x \<le> max (fl (5/100)) 4"
    using at_least [OF assms(1), of "fl (5/100)"] by auto
  have pos: "0 < fl (5/100)" using fl_mono [of "1/2^10" "5/100"] by code_simp
  have small: "fl (5/100) \<le> 4" using fl_mono [of "5/100" 4] fl_of_int [of 4] by simp
  have "double (pf_max (lit (5/100)) e)" by (rule double_max) (use assms(2) in simp_all)
  with x pos small assms(3) show ?thesis by auto
qed

lemma regime_scores:
  "\<exists>x. bull_score s = Fin x \<and> 0 < x \<and> x \<le> 4 \<and> fl x = x"
  "\<exists>x. base_score s = Fin x \<and> 0 < x \<and> x \<le> 4 \<and> fl x = x"
  "\<exists>x. bear_score s = Fin x \<and> 0 < x \<and> x \<le> 4 \<and> fl x = x"
proof -
  note t = regime_terms_bounded(1) [of s] and p = regime_terms_bounded(2) [of s]
  have l: "bounded_by 1 (lit r)" if "0 \<le> r" "r \<le> 1" for r using within_lit [of r 1] that by simp
  have m: "bounded_by 1 (pf_mul (lit r) e)" if "0 \<le> r" "r \<le> 1" "bounded_by 1 e" for r e
    using within_mul [OF l [OF that(1,2)] that(3)] by simp
  have one: "bounded_by 1 (Fin 1)" and two: "bounded_by 2 (lit (12/10))" using within_lit [of "12/10" 2] by simp_all
  have "bounded_by (1 + 1 + 1) (pf_sub (pf_add (Fin 1) (pf_mul (lit (7/10)) (trend_strength s))) (pf_mul (lit (4/10)) (volatility_pressure s)))"
    by (intro within_sub within_add one m t p) simp_all
  from score_bounds [OF within_mono [OF this] _ bull_score_def]
  show "\<exists>x. bull_score s = Fin x \<and> 0 < x \<and> x \<le> 4 \<and> fl x = x" by simp
  have "bounded_by (2 + 1 + 1) (pf_sub (pf_sub (lit (12/10)) (pf_mul (lit (2/10)) (pf_abs (trend_strength s)))) (pf_mul (lit (3/10)) (volatility_pressure s)))"
    by (intro within_sub two m within_abs t p) simp_all
  from score_bounds [OF within_mono [OF this] _ base_score_def]
  show "\<exists>x. base_score s = Fin x \<and> 0 < x \<and> x \<le> 4 \<and> fl x = x" by simp
  have "bounded_by (1 + 1 + 1) (pf_add (pf_sub (Fin 1) (pf_mul (lit (7/10)) (trend_strength s))) (pf_mul (lit (5/10)) (volatility_pressure s)))"
    by (intro within_sub within_add one m t p) simp_all
  from score_bounds [OF within_mono [OF this] _ bear_score_def]
  show "\<exists>x. bear_score s = Fin x \<and> 0 < x \<and> x \<le> 4 \<and> fl x = x" by simp
qed

lemma regime_view: "\<exists>v. regime_scenario_view s = Inr v \<and> unit_view v"
proof -
  obtain x y z where x: "bull_score s = Fin x" "0 < x" "x \<le> 4" "fl x = x" and y: "base_score s = Fin y" "0 < y" "y \<le> 4" "fl y = y"
      and z: "bear_score s = Fin z" "0 < z" "z \<le> 4" "fl z = z"
    using regime_scores [of s] by blast
  have "bounded_by 12 (pf_add (pf_add (Fin x) (Fin y)) (Fin z))"
    using within_add [OF within_add [of 4 "Fin x" 4 "Fin y"], of 4 "Fin z"] x y z by simp
  moreover have "pf_add (pf_add (Fin x) (Fin y)) (Fin z) \<noteq> NaN"
    by (simp add: pf_add_def pyfloat_of_rat_def split: pyfloat.split)
  ultimately obtain t where t: "pf_add (pf_add (Fin x) (Fin y)) (Fin z) = Fin t"
    by (cases "pf_add (pf_add (Fin x) (Fin y)) (Fin z)") auto
  then have "x \<le> t" using sum_weight [OF t] x y z by simp
  then have "\<exists>v. weights_over (Fin t) (Fin x) (Fin y) (Fin z) = Inr v \<and> unit_view v"
    using weights_unit [OF t] x y z by simp
  then show ?thesis by (simp add: regime_scenario_view_def x y z t)
qed

lemma regime_confidence_unit: "\<exists>x. regime_confidence s = Fin x \<and> 0 \<le> x \<and> x \<le> 1"
  unfolding regime_confidence_def by (rule clamp_unit')

lemma confident_without_a_price: "rs_price_return s = NaN \<Longrightarrow> regime_confidence s = Fin 1"
  by (simp add: regime_confidence_def pf_abs_def pf_add_def pf_max_def pf_min_def)

definition wallet_ok :: "settings \<Rightarrow> bool" where
  "wallet_ok s \<longleftrightarrow> cfg_node_wallet_address s = [] \<or> address_ok (cfg_node_wallet_address s)"

lemma wallet_ok: "wallet_ok s \<Longrightarrow> opt_ok address_ok (node_wallet s)"
  by (auto simp: wallet_ok_def node_wallet_def opt_ok_def)

lemma regime_response:
  assumes "get_service_for_role reg ''regime'' = Inr peer" "ps_peer_id peer \<noteq> []" "job_id \<noteq> []" "now \<noteq> []" "wallet_ok cfg"
  shows "\<exists>r. regime_analyze cfg reg now job_id s = Inr r \<and> valid_specialist_response r \<and> unit_view (sr_scenario_view r) \<and>
    finite_json (specialist_response_json r) \<and>
    sr_job_id r = job_id \<and> sr_node_role r = ''regime'' \<and> sr_peer_id r = ps_peer_id peer"
proof -
  obtain v where v: "regime_scenario_view s = Inr v" "unit_view v" using regime_view [of s] by blast
  obtain x where x: "regime_confidence s = Fin x" "0 \<le> x" "x \<le> 1" using regime_confidence_unit [of s] by blast
  then show ?thesis
    unfolding regime_analyze_def v(1) assms(1) res_bind_simps Let_def x(1) respond_def pyfloat.case
      make_specialist_response_def checked_def
    using assms wallet_ok [OF assms(5)] v(2) unit_view_finite [OF v(2)]
    by (simp add: valid_specialist_response_def unit_ok_def response_finite opt_obj_def)
qed

text \<open>C27: The regime node answers every snapshot, also one whose numbers are infinite or not numbers: the
  response is valid, it names its job, role and peer, its three weights lie between 0 and 1, and it can be
  hashed, so the verifier can score it.\<close>

theorem regime_answers:
  assumes "get_service_for_role reg ''regime'' = Inr peer" "ps_peer_id peer \<noteq> []" "job_id \<noteq> []" "now \<noteq> []" "wallet_ok cfg"
  shows "\<exists>r. regime_analyze cfg reg now job_id s = Inr r \<and> valid_specialist_response r \<and> unit_view (sr_scenario_view r) \<and>
    finite_json (specialist_response_json r) \<and>
    sr_job_id r = job_id \<and> sr_node_role r = ''regime'' \<and> sr_peer_id r = ps_peer_id peer"
  using assms by (rule regime_response)

subsection \<open>Weights a model gives\<close>

definition infinite_weight :: "json \<Rightarrow> bool" where
  "infinite_weight raw = (case raw of
      JObj d \<Rightarrow> list_ex (\<lambda>k. py_float_of (jget d k) = Inr PosInf) [''bull'', ''base'', ''bear''] | _ \<Rightarrow> False)"

text \<open>The floats of a JSON document are doubles.\<close>

definition double_json :: "json \<Rightarrow> bool" where
  "double_json v = (case v of JFloat f \<Rightarrow> double f | _ \<Rightarrow> True)"

definition double_weights :: "json \<Rightarrow> bool" where
  "double_weights raw = (case raw of
      JObj d \<Rightarrow> list_all (\<lambda>k. double_json (jget d k)) [''bull'', ''base'', ''bear''] | _ \<Rightarrow> True)"

lemma py_float_double: "py_float_of v = Inr f \<Longrightarrow> double_json v \<Longrightarrow> double f"
  by (auto simp: py_float_of_def double_json_def pyfloat_of_str_def Let_def split: json.splits if_splits option.splits)

lemma coerced_weight:
  assumes "coerce_non_negative v (lit d) = Inr e" "0 \<le> d" "double_json v"
  shows "e = PosInf \<and> py_float_of v = Inr PosInf \<or>
    py_float_of v \<noteq> Inr PosInf \<and> (\<exists>x. e = Fin x \<and> 0 \<le> x \<and> fl x = x)"
proof (cases "py_float_of v")
  case (Inl err)
  then show ?thesis using assms(1) fl_nonneg [OF assms(2)] by (cases err) (auto simp: coerce_non_negative_def)
next
  case (Inr f)
  then have "double f" using py_float_double assms(3) by blast
  then show ?thesis using assms(1) Inr by (cases f) (auto simp: coerce_non_negative_def pf_max_def)
qed

lemma add_weights:
  assumes "0 \<le> x" "0 \<le> y"
  shows "pf_add (Fin x) (Fin y) = PosInf \<or> (\<exists>u. pf_add (Fin x) (Fin y) = Fin u \<and> 0 \<le> u)"
proof -
  have "(0 :: rat) < float_max" by (simp add: float_max_def)
  then have "\<not> x + y \<le> - float_max" using assms by linarith
  then show ?thesis using assms fl_nonneg [of "x + y"] by (simp add: pf_add_def pyfloat_of_rat_def)
qed

definition weight_ok :: "pyfloat \<Rightarrow> bool" where
  "weight_ok e \<longleftrightarrow> e = PosInf \<or> (\<exists>x. e = Fin x \<and> 0 \<le> x)"

lemma weight_ok_add: "weight_ok a \<Longrightarrow> weight_ok b \<Longrightarrow> weight_ok (pf_add a b)"
  using add_weights by (auto simp: weight_ok_def) (auto simp: pf_add_def)

lemma weight_add_inf: "weight_ok a \<Longrightarrow> weight_ok b \<Longrightarrow> a = PosInf \<or> b = PosInf \<Longrightarrow> pf_add a b = PosInf"
  by (auto simp: weight_ok_def pf_add_def)

lemma infinite_total:
  assumes "weights_over PosInf a b c = Inr v" "weight_ok a" "weight_ok b" "weight_ok c"
  shows "if PosInf \<in> {a, b, c} then \<not> finite_json (scenario_json v) else unit_view v"
  using assms
  by (auto simp: weights_over_def pf_ratio_def weight_ok_def pf_div_def scenario_json_def unit_view_def)

lemma normalized_weights_spec:
  assumes norm: "normalized_weights (lit a) (lit b) (lit c) raw = Inr v" and doubles: "double_weights raw"
    and range: "0 \<le> a" "a \<le> 1" "0 \<le> b" "b \<le> 1" "0 \<le> c" "c \<le> 1"
  shows "if infinite_weight raw then \<not> finite_json (scenario_json v) else unit_view v"
proof -
  obtain d bull base bear where raw: "raw = JObj d" and parts:
      "coerce_non_negative (jget d ''bull'') (lit a) = Inr bull" "coerce_non_negative (jget d ''base'') (lit b) = Inr base"
      "coerce_non_negative (jget d ''bear'') (lit c) = Inr bear"
    and v: "(if pf_add (pf_add bull base) bear = Fin 0 then weights_over (Fin 1) (lit a) (lit b) (lit c)
       else weights_over (pf_add (pf_add bull base) bear) bull base bear) = Inr v"
    using norm by (auto simp: normalized_weights_def attributes_def res_bind_Inr_iff Let_def split: json.splits)
  have dj: "double_json (jget d ''bull'')" "double_json (jget d ''base'')" "double_json (jget d ''bear'')"
    using doubles by (simp_all add: double_weights_def raw)
  note w = coerced_weight [OF parts(1) range(1) dj(1)] coerced_weight [OF parts(2) range(3) dj(2)]
    coerced_weight [OF parts(3) range(5) dj(3)]
  have inf: "infinite_weight raw \<longleftrightarrow> PosInf \<in> {bull, base, bear}"
    using w by (auto simp: infinite_weight_def raw)
  have ok: "weight_ok bull" "weight_ok base" "weight_ok bear" using w by (auto simp: weight_ok_def)
  consider (inf) "pf_add (pf_add bull base) bear = PosInf" | (zero) "pf_add (pf_add bull base) bear = Fin 0"
    | (pos) t where "pf_add (pf_add bull base) bear = Fin t" "t \<noteq> 0"
    using weight_ok_add [OF weight_ok_add [OF ok(1,2)] ok(3)] unfolding weight_ok_def by blast
  then show ?thesis
  proof cases
    case inf
    with v infinite_total [OF _ ok] show ?thesis unfolding \<open>infinite_weight raw \<longleftrightarrow> PosInf \<in> {bull, base, bear}\<close> by simp
  next
    case zero
    have le: "fl a \<le> 1" "fl b \<le> 1" "fl c \<le> 1" using range fl_mono [of _ 1] by simp_all
    then have "unit_view v"
      using v zero share_unit [OF fl_nonneg [OF range(1)] le(1)] share_unit [OF fl_nonneg [OF range(3)] le(2)]
        share_unit [OF fl_nonneg [OF range(5)] le(3)]
      by (auto simp: weights_over_def pf_ratio_def unit_view_def)
    moreover have "PosInf \<notin> {bull, base, bear}"
      using zero weight_add_inf [OF ok(1,2)] weight_add_inf [OF weight_ok_add [OF ok(1,2)] ok(3)] by auto
    ultimately show ?thesis using inf by simp
  next
    case (pos t)
    have no: "PosInf \<notin> {bull, base, bear}"
      using pos weight_add_inf [OF ok(1,2)] weight_add_inf [OF weight_ok_add [OF ok(1,2)] ok(3)] by auto
    then obtain x y z where "bull = Fin x" "base = Fin y" "bear = Fin z" "0 \<le> x" "0 \<le> y" "0 \<le> z" "fl x = x" "fl y = y" "fl z = z"
      using w by auto
    with pos v weights_unit [of x y z t] have "unit_view v" by auto
    with no inf show ?thesis by simp
  qed
qed

lemma narrative_response:
  assumes "narrative_analyze node now job_id peer_id headlines = Inr r"
    and "mn_complete node (mn_model node) (narrative_messages headlines) = Inr llm_text"
    and "parse_narrative (mn_loads node) llm_text = Inr parsed"
  shows "narrative_scenario_view (na_scenario_view parsed) = Inr (sr_scenario_view r)" "valid_specialist_response r"
    "sr_job_id r = job_id" "sr_ree_receipt_body r = None"
  using assms unfolding narrative_analyze_def
  by (auto simp: res_bind_Inr_iff dest!: respond_valid)

lemma narrative_finite:
  assumes "narrative_analyze node now job_id peer_id headlines = Inr r"
    and "mn_complete node (mn_model node) (narrative_messages headlines) = Inr llm_text"
    and "parse_narrative (mn_loads node) llm_text = Inr parsed" and "double_weights (na_scenario_view parsed)"
  shows "if infinite_weight (na_scenario_view parsed) then \<not> finite_json (specialist_response_json r)
    else unit_view (sr_scenario_view r) \<and> finite_json (specialist_response_json r)"
proof -
  note r = narrative_response [OF assms(1-3)]
  from r(1) have "normalized_weights (lit (30/100)) (lit (40/100)) (lit (30/100)) (na_scenario_view parsed) = Inr (sr_scenario_view r)"
    by (simp add: narrative_scenario_view_def)
  from normalized_weights_spec [OF this assms(4)] show ?thesis
    using unit_view_finite r(4) by (auto simp: response_finite opt_obj_def split: if_splits)
qed

text \<open>A narrative answer whose weights are finite gives a valid response with three weights between 0 and
  1 that can be hashed, whatever else the model wrote: missing or unreadable weights take their defaults,
  negative ones and NaN count as zero, and a sum of zero falls back to the defaults.\<close>

theorem narrative_weights_normalized:
  assumes "narrative_analyze node now job_id peer_id headlines = Inr r"
    and "mn_complete node (mn_model node) (narrative_messages headlines) = Inr llm_text"
    and "parse_narrative (mn_loads node) llm_text = Inr parsed"
    and "double_weights (na_scenario_view parsed)" "\<not> infinite_weight (na_scenario_view parsed)"
  shows "valid_specialist_response r \<and> unit_view (sr_scenario_view r) \<and> finite_json (specialist_response_json r)"
  using narrative_finite [OF assms(1-4)] narrative_response(2) [OF assms(1-3)] assms(5) by simp

text \<open>One infinite weight in the model's answer, which \<^verbatim>\<open>json.loads\<close> and \<^verbatim>\<open>float\<close> accept, is divided by an
  infinite sum: the response is still valid for the schema, and verifying any batch that contains it
  raises, so the model's answer fails the run.\<close>

theorem infinite_weight_fails_batch:
  assumes "narrative_analyze node now job_id peer_id headlines = Inr r"
    and "mn_complete node (mn_model node) (narrative_messages headlines) = Inr llm_text"
    and "parse_narrative (mn_loads node) llm_text = Inr parsed"
    and "double_weights (na_scenario_view parsed)" "infinite_weight (na_scenario_view parsed)"
    and "r \<in> set rs" "ts_job_id task = job_id"
  shows "valid_specialist_response r \<and> (\<exists>e. verify_responses c v task rs = Inl e)"
proof -
  have "\<not> finite_json (specialist_response_json r)" using narrative_finite [OF assms(1-4)] assms(5) by simp
  moreover have "ts_job_id task = sr_job_id r" using narrative_response(3) [OF assms(1-3)] assms(7) by simp
  ultimately obtain e where "verify_response c v task r = Inl e" using nonfinite_response_raises by blast
  then show ?thesis
    using narrative_response(2) [OF assms(1-3)] map_res_error [OF assms(6)] unfolding verify_responses_def by blast
qed

lemma normalized_total:
  assumes "coerce_non_negative (jget d ''bull'') x = Inr bull" "coerce_non_negative (jget d ''base'') y = Inr base"
    "coerce_non_negative (jget d ''bear'') z = Inr bear"
  shows "\<exists>v. normalized_weights x y z (JObj d) = Inr v"
  using assms by (simp add: normalized_weights_def attributes_def Let_def weights_over_def pf_ratio_def)

subsection \<open>REE text\<close>

definition risk_default_weights :: json where
  "risk_default_weights = JObj [(''bull'', num (fl (25/100))), (''base'', num (fl (35/100))), (''bear'', num (fl (40/100)))]"

lemma risk_default_view: "\<exists>v. risk_scenario_view risk_default_weights = Inr v \<and> unit_view v"
proof -
  obtain v where v: "risk_scenario_view risk_default_weights = Inr v"
    using normalized_total unfolding risk_scenario_view_def risk_default_weights_def
    by (fastforce simp: coerce_non_negative_def jget_def num_def py_float_of_def)
  have "double_weights risk_default_weights" "\<not> infinite_weight risk_default_weights"
    by (simp_all add: risk_default_weights_def double_weights_def double_json_def infinite_weight_def num_def py_float_of_def jget_def)
  with normalized_weights_spec [OF v [unfolded risk_scenario_view_def]] v show ?thesis by simp
qed

lemma unstructured_answer:
  assumes "run (if cfg_ree_model (mn_settings node) \<noteq> [] then cfg_ree_model (mn_settings node) else ''Qwen/Qwen3-0.6B'')
      (render_ree_prompt (risk_messages thesis)) = Inr ev"
    and "re_receipt_hash ev \<noteq> []" "unfence (re_text ev) = Inr t" "mn_loads node t = Inl (ValueError m)"
    and "get_service_for_role (mn_registry node) ''risk'' = Inr peer" "ps_peer_id peer \<noteq> []"
    and "job_id \<noteq> []" "now \<noteq> []" "wallet_ok (mn_settings node)"
  shows "\<exists>r. risk_analyze node (Some run) now job_id peer_id thesis = Inr r \<and> valid_specialist_response r \<and>
    sr_ree_receipt_hash r = Some (re_receipt_hash ev) \<and> sr_ree_receipt_body r = Some (re_receipt_body ev) \<and>
    sr_receipt_status r = Some (re_receipt_status ev) \<and> sr_confidence r = fl (35/100) \<and>
    length (sr_summary r) \<le> 800 \<and> unit_view (sr_scenario_view r)"
proof -
  have ask: "ask_risk node (Some run) thesis = Inr (re_text ev, Some ev)" using assms(1) by (simp add: ask_risk_def)
  have parse: "parse_risk (mn_loads node) True (re_text ev) = Inr (fallback_from_text (re_text ev))"
    using assms(3,4) by (simp add: parse_risk_def loaded_answer_def)
  have "\<exists>v. risk_scenario_view (ra_scenario_view (fallback_from_text (re_text ev))) = Inr v \<and> unit_view v"
    using risk_default_view by (simp add: fallback_from_text_def risk_default_weights_def)
  then obtain v where v: "risk_scenario_view (ra_scenario_view (fallback_from_text (re_text ev))) = Inr v" "unit_view v" by blast
  have unit: "0 \<le> fl (35/100)" "fl (35/100) \<le> 1" using fl_nonneg [of "35/100"] fl_mono [of "35/100" 1] by simp_all
  then have conf: "coerce_confidence (ra_confidence (fallback_from_text (re_text ev))) = Inr (lit (35/100))"
    by (simp add: fallback_from_text_def coerce_confidence_def num_def py_float_of_def pf_max_def pf_min_def)
  have summary: "ra_summary (fallback_from_text (re_text ev)) \<noteq> []" "length (ra_summary (fallback_from_text (re_text ev))) \<le> 800"
    by (simp_all add: fallback_from_text_def coerce_text_def)
  show ?thesis
    unfolding risk_analyze_def ask res_bind_simps split_conv option.case v(1) conf
    using assms parse v summary unit wallet_ok [OF assms(9)]
    by (simp add: v(1) conf respond_def make_specialist_response_def valid_specialist_response_def checked_def unit_ok_def)
qed

text \<open>A risk node with a REE runner answers even when the attested text is no JSON: the response carries
  the receipt of the run, a summary cut to 800 characters from the text, a low confidence and finite
  weights, and it is valid.\<close>

theorem unstructured_ree_text_is_answered:
  assumes "run (if cfg_ree_model (mn_settings node) \<noteq> [] then cfg_ree_model (mn_settings node) else ''Qwen/Qwen3-0.6B'')
      (render_ree_prompt (risk_messages thesis)) = Inr ev"
    and "re_receipt_hash ev \<noteq> []" "unfence (re_text ev) = Inr t" "mn_loads node t = Inl (ValueError m)"
    and "get_service_for_role (mn_registry node) ''risk'' = Inr peer" "ps_peer_id peer \<noteq> []"
    and "job_id \<noteq> []" "now \<noteq> []" "wallet_ok (mn_settings node)"
  shows "\<exists>r. risk_analyze node (Some run) now job_id peer_id thesis = Inr r \<and> valid_specialist_response r \<and>
    sr_ree_receipt_hash r = Some (re_receipt_hash ev) \<and> sr_ree_receipt_body r = Some (re_receipt_body ev) \<and>
    sr_receipt_status r = Some (re_receipt_status ev) \<and> sr_confidence r = fl (35/100) \<and>
    length (sr_summary r) \<le> 800 \<and> unit_view (sr_scenario_view r)"
  using assms by (rule unstructured_answer)

subsection \<open>Examples\<close>

definition demo_nodes :: axl_registry where
  "demo_nodes = \<lparr>reg_services = map (\<lambda>role. (role, \<lparr>ps_peer_id = ''peer-1'', ps_service_name = role\<rparr>)) [''regime'', ''narrative'', ''risk''],
     reg_candidates = []\<rparr>"

definition demo_node :: "settings \<Rightarrow> json res \<Rightarrow> model_node" where
  "demo_node cfg answer = \<lparr>mn_complete = (\<lambda>_ _. Inr ''{}''), mn_loads = (\<lambda>_. answer), mn_settings = cfg,
     mn_registry = demo_nodes, mn_model = ''gpt-4o-mini''\<rparr>"

lemma demo_service: "role \<in> {''regime'', ''narrative'', ''risk''} \<Longrightarrow>
    get_service_for_role demo_nodes role = Inr \<lparr>ps_peer_id = ''peer-1'', ps_service_name = role\<rparr>"
  by (auto simp: get_service_for_role_def demo_nodes_def)

lemma demo_cfg: "\<exists>cfg :: settings. wallet_ok cfg"
proof -
  obtain cfg where "settings_from_env (\<lambda>_. None) = Inr cfg" using default_settings_exist by blast
  then show ?thesis by (intro exI [of _ "cfg\<lparr>cfg_node_wallet_address := []\<rparr>"]) (simp add: wallet_ok_def)
qed

lemma regime_answers_witness:
  "\<exists>cfg r. regime_analyze cfg demo_nodes ''2026-01-01T00:00:00Z'' ''job-1'' \<lparr>rs_price_return = NaN, rs_volatility = PosInf\<rparr> = Inr r \<and>
     unit_view (sr_scenario_view r)"
proof -
  obtain cfg :: settings where cfg: "wallet_ok cfg" using demo_cfg by blast
  have svc: "get_service_for_role demo_nodes ''regime'' = Inr \<lparr>ps_peer_id = ''peer-1'', ps_service_name = ''regime''\<rparr>"
    by (rule demo_service) simp
  from regime_answers [OF svc _ _ _ cfg, of "''job-1''" "''2026-01-01T00:00:00Z''" "\<lparr>rs_price_return = NaN, rs_volatility = PosInf\<rparr>"]
  show ?thesis by auto
qed

definition demo_weights :: "pyfloat \<Rightarrow> json" where
  "demo_weights bull = JObj [(''bull'', JFloat bull), (''base'', JFloat (Fin 1)), (''bear'', JFloat (Fin 1))]"

lemma unfence_demo: "unfence ''{}'' = Inr ''{}''"
  by code_simp

lemma demo_narrative_parse:
  "parse_narrative (mn_loads (demo_node cfg (Inr (JObj [(''scenario_view'', demo_weights bull)])))) ''{}'' =
    Inr \<lparr>na_summary = ''Narrative context is mixed.'', na_catalysts = [], na_unknowns = [], na_scenario_framing = [],
      na_scenario_view = demo_weights bull, na_confidence = JNull\<rparr>"
  by (simp add: parse_narrative_def loaded_answer_def unfence_demo demo_node_def attributes_def jget_def coerce_text_def coerce_list_def)

lemma demo_narrative:
  assumes "wallet_ok cfg"
  shows "\<exists>r. narrative_analyze (demo_node cfg (Inr (JObj [(''scenario_view'', demo_weights bull)]))) ''2026-01-01T00:00:00Z'' ''job-1'' [] [] = Inr r"
proof -
  obtain v where v: "narrative_scenario_view (demo_weights bull) = Inr v"
    using normalized_total unfolding narrative_scenario_view_def demo_weights_def
    by (fastforce simp: coerce_non_negative_def jget_def py_float_of_def)
  have conf: "coerce_confidence JNull = Inr (lit (5/10))" by (simp add: coerce_confidence_def py_float_of_def)
  have unit: "0 \<le> fl (5/10)" "fl (5/10) \<le> 1" using fl_nonneg [of "5/10"] fl_mono [of "5/10" 1] by simp_all
  have ask: "mn_complete (demo_node cfg a) k msgs = Inr ''{}''" "mn_registry (demo_node cfg a) = demo_nodes"
      "mn_settings (demo_node cfg a) = cfg" for a k msgs
    by (simp_all add: demo_node_def)
  show ?thesis
    unfolding narrative_analyze_def ask res_bind_simps demo_narrative_parse
    using wallet_ok [OF assms(1)] unit
    by (simp add: v conf demo_service respond_def make_specialist_response_def checked_def valid_specialist_response_def unit_ok_def)
qed

lemma narrative_weights_normalized_witness:
  "\<exists>cfg r. narrative_analyze (demo_node cfg (Inr (JObj [(''scenario_view'', demo_weights (Fin 1))]))) ''2026-01-01T00:00:00Z'' ''job-1'' [] [] = Inr r \<and>
     unit_view (sr_scenario_view r)"
proof -
  obtain cfg :: settings where cfg: "wallet_ok cfg" using demo_cfg by blast
  obtain r where r: "narrative_analyze (demo_node cfg (Inr (JObj [(''scenario_view'', demo_weights (Fin 1))]))) ''2026-01-01T00:00:00Z'' ''job-1'' [] [] = Inr r"
    using demo_narrative [OF cfg] by blast
  have ask: "mn_complete (demo_node cfg a) k msgs = Inr ''{}''" for a k msgs by (simp add: demo_node_def)
  have w: "double_weights (demo_weights (Fin 1))" "\<not> infinite_weight (demo_weights (Fin 1))"
    by (simp_all add: double_weights_def double_json_def demo_weights_def infinite_weight_def py_float_of_def jget_def)
  from narrative_weights_normalized [OF r ask demo_narrative_parse] w r show ?thesis by auto
qed

lemma infinite_weight_fails_batch_witness:
  "\<exists>cfg r e. narrative_analyze (demo_node cfg (Inr (JObj [(''scenario_view'', demo_weights PosInf)]))) ''2026-01-01T00:00:00Z'' ''job-1'' [] [] = Inr r \<and>
     verify_responses demo_crypto (demo_verifier [] False) demo_task [r] = Inl e"
proof -
  obtain cfg :: settings where cfg: "wallet_ok cfg" using demo_cfg by blast
  obtain r where r: "narrative_analyze (demo_node cfg (Inr (JObj [(''scenario_view'', demo_weights PosInf)]))) ''2026-01-01T00:00:00Z'' ''job-1'' [] [] = Inr r"
    using demo_narrative [OF cfg] by blast
  have ask: "mn_complete (demo_node cfg a) k msgs = Inr ''{}''" for a k msgs by (simp add: demo_node_def)
  have w: "double_weights (demo_weights PosInf)" "infinite_weight (demo_weights PosInf)"
    by (simp_all add: double_weights_def double_json_def demo_weights_def infinite_weight_def py_float_of_def jget_def)
  have "ts_job_id demo_task = ''job-1''" by (simp add: demo_task_def)
  with infinite_weight_fails_batch [OF r ask demo_narrative_parse, of "[r]" demo_task demo_crypto "demo_verifier [] False"] w r
  show ?thesis by auto
qed

definition demo_evidence :: ree_evidence where
  "demo_evidence = \<lparr>re_text = ''{}'', re_receipt_hash = ''h'', re_receipt_status = ''validated'', re_prompt_hash = ''p'',
     re_tokens_hash = ''t'', re_model_name = ''m'', re_receipt_body = [], re_receipt_path = ''r.json''\<rparr>"

lemma unstructured_ree_text_is_answered_witness:
  "\<exists>cfg r. risk_analyze (demo_node cfg (Inl (ValueError []))) (Some (\<lambda>_ _. Inr demo_evidence)) ''2026-01-01T00:00:00Z'' ''job-1'' [] ''thesis'' = Inr r \<and>
     sr_ree_receipt_hash r = Some ''h''"
proof -
  obtain cfg :: settings where cfg: "wallet_ok cfg" using demo_cfg by blast
  have node: "mn_loads (demo_node cfg a) t = a" "mn_registry (demo_node cfg a) = demo_nodes" "mn_settings (demo_node cfg a) = cfg" for a t
    by (simp_all add: demo_node_def)
  have ev: "re_receipt_hash demo_evidence \<noteq> []" "unfence (re_text demo_evidence) = Inr ''{}''" by (simp_all add: demo_evidence_def unfence_demo)
  have svc: "get_service_for_role (mn_registry (demo_node cfg (Inl (ValueError [])))) ''risk'' = Inr \<lparr>ps_peer_id = ''peer-1'', ps_service_name = ''risk''\<rparr>"
    unfolding node by (rule demo_service) simp
  have wal: "wallet_ok (mn_settings (demo_node cfg (Inl (ValueError []))))" unfolding node by (rule cfg)
  from unstructured_ree_text_is_answered [OF refl ev node(1) svc _ _ _ wal, of "''job-1''" "''2026-01-01T00:00:00Z''"]
  show ?thesis by (fastforce simp: demo_evidence_def)
qed

end
