(* ===== verification/MCP_Router.thy ===== *)
theory MCP_Router
  imports PyJson
begin

section \<open>The MCP router (src/mcp_routing/mcp_router.py)\<close>

text \<open>
  The process that nodes register with and that forwards requests to them. Its state is the dictionary of
  services; a handler is a function of it. Forwarding awaits the answer of the service, and other handlers
  run meanwhile, so \<open>handle_route\<close> is two functions: \<open>route_start\<close> up to the call and \<open>route_finish\<close> with the
  outcome of the call and the dictionary as it then is. Service names are the JSON values the bodies give; a
  list or an object cannot be a key (1, 1.0 and true, one key for the language, are kept apart). A reply is a status and a JSON body; an exception that leaves a handler
  is a value of \<open>py_error\<close>. The web framework, the HTTP client and the clock are outside.

  \<open>router_step\<close> interleaves the handlers of any number of requests. Shown: names stay unique and every
  service and every request under way has an endpoint; a finished request raises exactly when its service
  was deregistered while it was under way and the answer was not 204, even when the service answered; and
  otherwise it changes the health of its own service only.
\<close>

subsection \<open>State and handlers\<close>

record service_entry =
  sv_endpoint :: json
  sv_registered_at :: string
  sv_healthy :: bool

type_synonym services = "(json, service_entry) pydict"

record reply =
  rp_status :: nat
  rp_body :: json

definition hashable :: "json \<Rightarrow> bool" where
  "hashable v = (case v of JList _ \<Rightarrow> False | JObj _ \<Rightarrow> False | _ \<Rightarrow> True)"

definition unhashable :: "'a res" where "unhashable = Inl (TypeError ''unhashable type'')"

definition get_attribute :: "json \<Rightarrow> jobject res" where
  "get_attribute v = (case v of JObj d \<Rightarrow> Inr d | _ \<Rightarrow> Inl (OtherError ''AttributeError''))"

definition field_or :: "jobject \<Rightarrow> string \<Rightarrow> string \<Rightarrow> json" where
  "field_or d k fallback = (case dget d k of None \<Rightarrow> JStr fallback | Some v \<Rightarrow> v)"

definition error_reply :: "nat \<Rightarrow> string \<Rightarrow> reply" where
  "error_reply code m = \<lparr>rp_status = code, rp_body = JObj [(''error'', JStr m)]\<rparr>"

definition route_error :: "nat \<Rightarrow> string \<Rightarrow> reply" where
  "route_error code m = \<lparr>rp_status = code, rp_body = JObj [(''response'', JNull), (''error'', JStr m)]\<rparr>"

definition route_answer :: "json \<Rightarrow> reply" where
  "route_answer v = \<lparr>rp_status = 200, rp_body = JObj [(''response'', v), (''error'', JNull)]\<rparr>"

record routed_request =
  rq_service :: json
  rq_endpoint :: json
  rq_request :: json
  rq_from_peer_id :: json

text \<open>Left: the reply that ends the handler before the call.\<close>

definition route_start :: "services \<Rightarrow> json res \<Rightarrow> (reply + routed_request) res" where
  "route_start services body =
     (case body of
        Inl e \<Rightarrow> Inr (Inl (route_error 400 (''Invalid JSON: '' @ error_text e)))
      | Inr v \<Rightarrow>
          res_bind (get_attribute v) (\<lambda>d.
          let name = field_or d ''service'' [] in
          if \<not> truthy name then Inr (Inl (route_error 400 (''Missing '' @ [CHR 0x27] @ ''service'' @ [CHR 0x27] @ '' field'')))
          else if \<not> hashable name then unhashable
          else (case dget services name of
             None \<Rightarrow> Inr (Inl (route_error 404 (''Service not found: '' @ py_str name)))
           | Some s \<Rightarrow> Inr (Inr \<lparr>rq_service = name, rq_endpoint = sv_endpoint s, rq_request = jget d ''request'',
               rq_from_peer_id = field_or d ''from_peer_id'' ''unknown''\<rparr>))))"

text \<open>What the call came to: an HTTP answer with the result of decoding its body, or an exception.\<close>

datatype call_outcome =
    Answered nat "json res"
  | Raised py_error

definition set_health :: "json \<Rightarrow> bool \<Rightarrow> services \<Rightarrow> services res" where
  "set_health name b services =
     (case dget services name of
        None \<Rightarrow> Inl (KeyError (py_str name))
      | Some s \<Rightarrow> Inr (dset services name (s\<lparr>sv_healthy := b\<rparr>)))"

text \<open>The two \<^verbatim>\<open>except\<close> clauses: a timeout, and anything else. Each marks the service first.\<close>

definition route_failed :: "json \<Rightarrow> py_error \<Rightarrow> services \<Rightarrow> reply res \<times> services" where
  "route_failed name e services =
     (case set_health name False services of
        Inl e' \<Rightarrow> (Inl e', services)
      | Inr services' \<Rightarrow>
          (Inr (case e of TimeoutError _ \<Rightarrow> route_error 504 ''Service timeout''
                | _ \<Rightarrow> route_error 502 (''Forward error: '' @ error_text e)), services'))"

definition route_finish :: "routed_request \<Rightarrow> call_outcome \<Rightarrow> services \<Rightarrow> reply res \<times> services" where
  "route_finish rq outcome services =
     (let name = rq_service rq in
      case outcome of
        Raised e \<Rightarrow> route_failed name e services
      | Answered status body \<Rightarrow>
          if status = 204 then (Inr (route_answer JNull), services)
          else if status \<noteq> 200 then
            (case set_health name False services of
               Inl e \<Rightarrow> route_failed name e services
             | Inr services' \<Rightarrow> (Inr (route_error 502 (''Service error: '' @ str_of_int (int status))), services'))
          else
            (case body of
               Inl e \<Rightarrow> route_failed name e services
             | Inr v \<Rightarrow>
                 (case set_health name True services of
                    Inl e \<Rightarrow> route_failed name e services
                  | Inr services' \<Rightarrow> (Inr (route_answer v), services'))))"

definition handle_register :: "string \<Rightarrow> json res \<Rightarrow> services \<Rightarrow> reply res \<times> services" where
  "handle_register now body services =
     (case body of
        Inl e \<Rightarrow> (Inr (error_reply 400 (''Invalid JSON: '' @ error_text e)), services)
      | Inr v \<Rightarrow>
     (case get_attribute v of
        Inl e \<Rightarrow> (Inl e, services)
      | Inr d \<Rightarrow>
          (let name = field_or d ''service'' []; endpoint = field_or d ''endpoint'' [] in
           if \<not> truthy name \<or> \<not> truthy endpoint then
             (Inr (error_reply 400 (''Both '' @ [CHR 0x27] @ ''service'' @ [CHR 0x27] @ '' and '' @ [CHR 0x27] @ ''endpoint'' @
                [CHR 0x27] @ '' are required'')), services)
           else if \<not> hashable name then (unhashable, services)
           else (Inr \<lparr>rp_status = 200, rp_body = JObj [(''status'', JStr ''registered''), (''service'', name)]\<rparr>,
                 dset services name \<lparr>sv_endpoint = endpoint, sv_registered_at = now, sv_healthy = True\<rparr>))))"

definition handle_deregister :: "string \<Rightarrow> services \<Rightarrow> reply res \<times> services" where
  "handle_deregister name services =
     (if name = [] then (Inr (error_reply 400 ''Service name required''), services)
      else if dget services (JStr name) = None then (Inr (error_reply 404 (''Service not found: '' @ name)), services)
      else (Inr \<lparr>rp_status = 200, rp_body = JObj [(''status'', JStr ''deregistered''), (''service'', JStr name)]\<rparr>,
            AList.delete (JStr name) services))"

definition service_json :: "service_entry \<Rightarrow> json" where
  "service_json s = JObj [(''endpoint'', sv_endpoint s), (''registered_at'', JStr (sv_registered_at s)), (''healthy'', JBool (sv_healthy s))]"

text \<open>A key as \<^verbatim>\<open>json.dumps\<close> writes it\<close>

definition json_key :: "json \<Rightarrow> string" where
  "json_key v = (case v of JNull \<Rightarrow> ''null'' | JBool b \<Rightarrow> if b then ''true'' else ''false'' | _ \<Rightarrow> py_str v)"

definition handle_services :: "services \<Rightarrow> reply" where
  "handle_services services =
     \<lparr>rp_status = 200, rp_body = JObj (map (\<lambda>(name, s). (json_key name, service_json s)) services)\<rparr>"

definition handle_health :: "services \<Rightarrow> reply" where
  "handle_health services =
     \<lparr>rp_status = 200, rp_body = JObj [(''status'', JStr ''ok''), (''service_count'', JInt (int (length services)))]\<rparr>"

subsection \<open>Interleaved requests\<close>

record router =
  ro_services :: services
  ro_under_way :: "(nat \<times> routed_request) list"

inductive router_step :: "router \<Rightarrow> router \<Rightarrow> bool" where
  register: "handle_register now body (ro_services r) = (answer, s) \<Longrightarrow> router_step r (r\<lparr>ro_services := s\<rparr>)"
| deregister: "handle_deregister name (ro_services r) = (answer, s) \<Longrightarrow> router_step r (r\<lparr>ro_services := s\<rparr>)"
| start: "route_start (ro_services r) body = Inr (Inr rq) \<Longrightarrow> i \<notin> fst ` set (ro_under_way r) \<Longrightarrow>
    router_step r (r\<lparr>ro_under_way := (i, rq) # ro_under_way r\<rparr>)"
| finish: "(i, rq) \<in> set (ro_under_way r) \<Longrightarrow> route_finish rq outcome (ro_services r) = (answer, s) \<Longrightarrow>
    router_step r (r\<lparr>ro_services := s, ro_under_way := filter (\<lambda>(j, _). j \<noteq> i) (ro_under_way r)\<rparr>)"

inductive router_reachable :: "router \<Rightarrow> bool" where
  booted: "router_reachable \<lparr>ro_services = [], ro_under_way = []\<rparr>"
| stepped: "router_reachable r \<Longrightarrow> router_step r r' \<Longrightarrow> router_reachable r'"

inductive_cases router_stepE: "router_step r r'"

definition entry_ok :: "json \<times> service_entry \<Rightarrow> bool" where
  "entry_ok p \<longleftrightarrow> truthy (fst p) \<and> hashable (fst p) \<and> truthy (sv_endpoint (snd p))"

definition router_ok :: "router \<Rightarrow> bool" where
  "router_ok r \<longleftrightarrow>
     distinct (dkeys (ro_services r)) \<and> list_all entry_ok (ro_services r) \<and>
     distinct (map fst (ro_under_way r)) \<and>
     list_all (\<lambda>(_, rq). truthy (rq_service rq) \<and> truthy (rq_endpoint rq)) (ro_under_way r)"

subsection \<open>Invariants\<close>

lemma set_health_Inr:
  "set_health name b services = Inr s \<longleftrightarrow>
     (\<exists>e. dget services name = Some e \<and> s = dset services name (e\<lparr>sv_healthy := b\<rparr>))"
  by (auto simp: set_health_def split: option.splits)

lemma entries_dset: "list_all entry_ok d \<Longrightarrow> entry_ok (k, v) \<Longrightarrow> list_all entry_ok (dset d k v)"
  by (induction d) auto

lemma entry_found: "list_all entry_ok d \<Longrightarrow> dget d k = Some e \<Longrightarrow> entry_ok (k, e)"
  by (auto simp: list_all_iff dest: map_of_SomeD)

definition services_ok :: "services \<Rightarrow> bool" where
  "services_ok d \<longleftrightarrow> distinct (dkeys d) \<and> list_all entry_ok d"

lemma set_health_ok: "set_health name b d = Inr d' \<Longrightarrow> services_ok d \<Longrightarrow> services_ok d'"
  unfolding set_health_Inr services_ok_def
  by (auto intro!: entries_dset distinct_dset dest: entry_found) (auto simp: entry_ok_def dest: entry_found)

lemma route_failed_ok: "route_failed name e d = (answer, d') \<Longrightarrow> services_ok d \<Longrightarrow> services_ok d'"
  by (auto simp: route_failed_def split: sum.splits intro: set_health_ok)

lemma route_finish_ok: "route_finish rq outcome d = (answer, d') \<Longrightarrow> services_ok d \<Longrightarrow> services_ok d'"
  by (auto simp: route_finish_def Let_def split: call_outcome.splits if_splits sum.splits
      intro: set_health_ok route_failed_ok)

lemma register_ok: "handle_register now body d = (answer, d') \<Longrightarrow> services_ok d \<Longrightarrow> services_ok d'"
  by (auto simp: handle_register_def Let_def services_ok_def entry_ok_def split: sum.splits if_splits
      intro!: entries_dset distinct_dset)

lemma deregister_ok: "handle_deregister name d = (answer, d') \<Longrightarrow> services_ok d \<Longrightarrow> services_ok d'"
  by (auto simp: handle_deregister_def services_ok_def AList.delete_eq list_all_iff distinct_map_filter split: if_splits)

lemma route_start_ok: "route_start d body = Inr (Inr rq) \<Longrightarrow> services_ok d \<Longrightarrow> truthy (rq_service rq) \<and> truthy (rq_endpoint rq)"
  by (auto simp: route_start_def Let_def res_bind_Inr_iff services_ok_def unhashable_def entry_ok_def
      split: sum.splits if_splits option.splits dest: entry_found)

lemma router_step_ok: "router_step r r' \<Longrightarrow> router_ok r \<Longrightarrow> router_ok r'"
proof (induction rule: router_step.induct)
  case (finish i rq r outcome answer s)
  then have "services_ok s" using route_finish_ok by (auto simp: router_ok_def services_ok_def)
  with finish show ?case by (auto simp: router_ok_def services_ok_def list_all_iff distinct_map_filter)
qed (auto simp: router_ok_def services_ok_def image_iff dest: register_ok [unfolded services_ok_def]
    deregister_ok [unfolded services_ok_def] route_start_ok [unfolded services_ok_def])

lemma router_reachable_ok: "router_reachable r \<Longrightarrow> router_ok r"
proof (induction rule: router_reachable.induct)
  case booted
  show ?case by (simp add: router_ok_def)
qed (rule router_step_ok)

subsection \<open>Finishing a request\<close>

lemma route_failed_raises: "fst (route_failed name e d) = Inl e' \<longleftrightarrow> dget d name = None \<and> e' = KeyError (py_str name)"
  by (auto simp: route_failed_def set_health_def split: option.splits)

definition no_content :: "call_outcome \<Rightarrow> bool" where
  "no_content outcome \<longleftrightarrow> (case outcome of Answered status _ \<Rightarrow> status = 204 | Raised _ \<Rightarrow> False)"

definition answered_well :: "call_outcome \<Rightarrow> bool" where
  "answered_well outcome \<longleftrightarrow> (case outcome of Answered status (Inr _) \<Rightarrow> status = 200 | _ \<Rightarrow> False)"

lemma finish_raises:
  "fst (route_finish rq outcome d) = Inl e \<longleftrightarrow>
     dget d (rq_service rq) = None \<and> \<not> no_content outcome \<and> e = KeyError (py_str (rq_service rq))"
  by (cases outcome)
    (auto simp: route_finish_def Let_def no_content_def route_failed_raises set_health_def split: sum.splits option.splits)

lemma finish_registered:
  assumes "dget d (rq_service rq) = Some s"
  shows "\<exists>reply. route_finish rq outcome d = (Inr reply, if no_content outcome then d
      else dset d (rq_service rq) (s\<lparr>sv_healthy := answered_well outcome\<rparr>)) \<and>
    (rp_status reply = 200 \<longleftrightarrow> no_content outcome \<or> answered_well outcome)"
proof (cases outcome)
  case (Answered status body)
  then show ?thesis
    using assms
    by (cases body; auto simp: route_finish_def Let_def no_content_def answered_well_def route_failed_def set_health_def
        route_answer_def route_error_def split: py_error.splits)
next
  case (Raised e)
  then show ?thesis
    using assms
    by (cases e) (simp_all add: route_finish_def Let_def no_content_def answered_well_def route_failed_def set_health_def
        route_error_def)
qed

lemma finish_missing: "dget d (rq_service rq) = None \<Longrightarrow> snd (route_finish rq outcome d) = d"
  by (cases outcome) (auto simp: route_finish_def Let_def route_failed_def set_health_def split: sum.splits)

subsection \<open>Properties\<close>

text \<open>Whatever registrations, deregistrations and interleaved requests the router has served, every
  service has one entry under a non-empty key that can be a key, every entry and every request under way
  holds an endpoint, and the requests under way are told apart.\<close>

theorem router_invariant:
  assumes "router_reachable r"
  shows "router_ok r"
  using assms by (rule router_reachable_ok)

text \<open>C28: The end of a forwarded request. It raises exactly when its service was deregistered while the
  call was under way and the answer was not 204, so even a good answer of the service is then lost, and the
  services are as they were. When the service is still registered there is a reply, which is a success
  exactly for a 204 and for a 200 whose body decodes, and the only change is the health of that service.\<close>

theorem finished_request:
  "(fst (route_finish rq outcome d) = Inl e \<longleftrightarrow>
      dget d (rq_service rq) = None \<and> \<not> no_content outcome \<and> e = KeyError (py_str (rq_service rq))) \<and>
   (case dget d (rq_service rq) of
      None \<Rightarrow> snd (route_finish rq outcome d) = d
    | Some s \<Rightarrow> \<exists>reply. route_finish rq outcome d = (Inr reply, if no_content outcome then d
          else dset d (rq_service rq) (s\<lparr>sv_healthy := answered_well outcome\<rparr>)) \<and>
        (rp_status reply = 200 \<longleftrightarrow> no_content outcome \<or> answered_well outcome))"
proof (cases "dget d (rq_service rq)")
  case None
  then show ?thesis by (simp add: finish_raises finish_missing)
next
  case (Some s)
  from finish_registered [OF this] show ?thesis unfolding finish_raises Some option.case by (rule conjI [OF refl])
qed

subsection \<open>Witnesses\<close>

definition demo_body :: json where
  "demo_body = JObj [(''service'', JStr ''weather''), (''endpoint'', JStr ''http://127.0.0.1:9100'')]"

definition demo_services :: services where
  "demo_services = snd (handle_register ''2026-01-01T00:00:00+00:00'' (Inr demo_body) [])"

definition demo_request :: routed_request where
  "demo_request = \<lparr>rq_service = JStr ''weather'', rq_endpoint = JStr ''http://127.0.0.1:9100'', rq_request = JNull,
     rq_from_peer_id = JStr ''unknown''\<rparr>"

lemma demo_started: "route_start demo_services (Inr demo_body) = Inr (Inr demo_request)"
  by code_simp

lemma router_invariant_witness:
  "router_ok \<lparr>ro_services = demo_services, ro_under_way = [(0, demo_request)]\<rparr>"
proof (rule router_invariant)
  have "router_reachable \<lparr>ro_services = demo_services, ro_under_way = []\<rparr>"
    using stepped [OF booted register [of _ "Inr demo_body" _ _ demo_services]]
    by (force simp: demo_services_def intro: prod_eqI)
  from stepped [OF this start [of _ "Inr demo_body" demo_request 0]]
  show "router_reachable \<lparr>ro_services = demo_services, ro_under_way = [(0, demo_request)]\<rparr>"
    by (simp add: demo_started)
qed

lemma finished_request_witness:
  "fst (route_finish demo_request (Answered 200 (Inr JNull)) (snd (handle_deregister ''weather'' demo_services)))
     = Inl (KeyError ''weather'') \<and>
   (\<exists>reply. route_finish demo_request (Answered 200 (Inr JNull)) demo_services = (Inr reply, demo_services) \<and>
     rp_status reply = 200)"
proof (intro conjI)
  show "fst (route_finish demo_request (Answered 200 (Inr JNull)) (snd (handle_deregister ''weather'' demo_services)))
     = Inl (KeyError ''weather'')"
    unfolding finished_request [THEN conjunct1] by code_simp
  have found: "dget demo_services (rq_service demo_request)
      = Some \<lparr>sv_endpoint = JStr ''http://127.0.0.1:9100'', sv_registered_at = ''2026-01-01T00:00:00+00:00'', sv_healthy = True\<rparr>"
    by code_simp
  have same: "dset demo_services (rq_service demo_request) (\<lparr>sv_endpoint = JStr ''http://127.0.0.1:9100'',
      sv_registered_at = ''2026-01-01T00:00:00+00:00'', sv_healthy = True\<rparr>\<lparr>sv_healthy := True\<rparr>) = demo_services"
    by code_simp
  have good: "\<not> no_content (Answered 200 (Inr JNull))" "answered_well (Answered 200 (Inr JNull))"
    by (simp_all add: no_content_def answered_well_def)
  show "\<exists>reply. route_finish demo_request (Answered 200 (Inr JNull)) demo_services = (Inr reply, demo_services) \<and>
     rp_status reply = 200"
    using finished_request [where d = demo_services and rq = demo_request and outcome = "Answered 200 (Inr JNull)", THEN conjunct2]
      found good same by auto
qed

end
