(* ===== verification/Providers.thy ===== *)
theory Providers
  imports Specialists
begin

section \<open>Providers and the AXL client (app/integrations, app/axl/client.py)\<close>

text \<open>
  The clients at the edge of the program. What an HTTP call comes to is an \<open>http_result\<close>: a decoded JSON
  value, an HTTP or URL error, a time-out, a body that is no JSON, or any other exception; each client is a
  function of it. The language model client counts and times its calls in the \<open>metrics\<close> of \<open>Synthesis\<close>; the
  market and news providers are the fixtures of the program.

  Shown: every call of the model client is counted once, with its outcome, and timed once, and what it
  returns is never empty; the AXL client raises \<open>RuntimeError\<close> for a time-out as for any outage, so a role whose
  peers do not answer is recorded as an error after each peer was tried once, and the status \<open>timed_out\<close> of the
  coordinator is out of reach; a finite response crosses the wire unchanged and another one does not cross
  it; the market fixture is a snapshot of finite numbers.
\<close>

subsection \<open>HTTP\<close>

datatype http_result =
    Http_json json
  | Http_error string
  | Http_timeout
  | Http_not_json
  | Http_raised py_error

subsection \<open>The language model client (llm_client.py)\<close>

definition llm_error :: "string \<Rightarrow> py_error" where "llm_error m = RuntimeError m"

definition value_error :: "py_error \<Rightarrow> bool" where
  "value_error e = (case e of ValueError _ \<Rightarrow> True | ValidationError _ \<Rightarrow> True | InvalidSpecialistResponse _ \<Rightarrow> True | _ \<Rightarrow> False)"

definition llm_response_body :: "http_result \<Rightarrow> json res" where
  "llm_response_body h =
     (case h of
        Http_json v \<Rightarrow> Inr v
      | Http_raised e \<Rightarrow> if value_error e then Inl (llm_error ''LLM provider request failed'') else Inl e
      | _ \<Rightarrow> Inl (llm_error ''LLM provider request failed''))"

text \<open>\<^verbatim>\<open>"".join\<close> of the text segments: one that is no string raises.\<close>

fun text_segments :: "json list \<Rightarrow> string res" where
  "text_segments [] = Inr []"
| "text_segments (JObj d # vs) =
     (if jget d ''type'' = JStr ''text'' then
        (case dget d ''text'' of
           None \<Rightarrow> text_segments vs
         | Some (JStr t) \<Rightarrow> res_bind (text_segments vs) (\<lambda>rest. Inr (t @ rest))
         | Some _ \<Rightarrow> Inl (TypeError ''sequence item: expected str instance''))
      else text_segments vs)"
| "text_segments (_ # vs) = text_segments vs"

definition content_text :: "json \<Rightarrow> string option res" where
  "content_text v =
     (case v of
        JStr t \<Rightarrow> Inr (if t \<noteq> [] then Some t else None)
      | JList items \<Rightarrow> res_bind (text_segments items) (\<lambda>t. Inr (if strip t \<noteq> [] then Some (strip t) else None))
      | _ \<Rightarrow> Inr None)"

text \<open>The text of the first choice, if it has one\<close>

definition choice_text :: "json \<Rightarrow> string option res" where
  "choice_text choices =
     (case choices of
        JList (choice # _) \<Rightarrow>
          res_bind (attributes choice) (\<lambda>d.
          res_bind (attributes (case dget d ''message'' of None \<Rightarrow> JObj [] | Some m \<Rightarrow> m)) (\<lambda>message.
            content_text (case dget message ''content'' of None \<Rightarrow> JStr [] | Some v \<Rightarrow> v)))
      | _ \<Rightarrow> Inr None)"

definition output_text :: "jobject \<Rightarrow> string res" where
  "output_text d =
     (case jget d ''output_text'' of
        JStr t \<Rightarrow> if t \<noteq> [] then Inr t else Inl (ValueError ''LLM provider response did not contain text content'')
      | _ \<Rightarrow> Inl (ValueError ''LLM provider response did not contain text content''))"

definition extract_text :: "json \<Rightarrow> string res" where
  "extract_text response_body =
     res_bind (attributes response_body) (\<lambda>d.
     res_bind (choice_text (jget d ''choices'')) (\<lambda>found.
       case found of Some t \<Rightarrow> Inr t | None \<Rightarrow> output_text d))"

record llm_client =
  lc_api_key :: "string option"
  lc_base_url :: string
  lc_timeout_seconds :: pyfloat

definition default_llm_client :: llm_client where
  "default_llm_client = \<lparr>lc_api_key = None, lc_base_url = ''https://api.openai.com/v1/chat/completions'', lc_timeout_seconds = Fin 30\<rparr>"

definition chat_payload :: "string \<Rightarrow> (string \<times> string) list \<Rightarrow> json" where
  "chat_payload model messages = JObj
     [(''model'', JStr model),
      (''messages'', JList (map (\<lambda>(role, content). JObj [(''role'', JStr role), (''content'', JStr content)]) messages))]"

definition nonempty_text :: "string option \<Rightarrow> string option" where
  "nonempty_text t = (case t of Some s \<Rightarrow> if s \<noteq> [] then Some s else None | None \<Rightarrow> None)"

definition llm_answer ::
    "llm_client \<Rightarrow> string option \<Rightarrow> (string \<Rightarrow> string \<Rightarrow> json \<Rightarrow> http_result) \<Rightarrow> string \<Rightarrow> (string \<times> string) list \<Rightarrow> string res" where
  "llm_answer lc env_key post model messages =
     (case (case nonempty_text (lc_api_key lc) of Some k \<Rightarrow> Some k | None \<Rightarrow> nonempty_text env_key) of
        None \<Rightarrow> Inl (llm_error ''LLM_API_KEY is required'')
      | Some api_key \<Rightarrow> res_bind (llm_response_body (post (lc_base_url lc) api_key (chat_payload model messages))) extract_text)"

text \<open>The count is taken in the \<^verbatim>\<open>except\<close> or \<^verbatim>\<open>else\<close> clause, the time in \<^verbatim>\<open>finally\<close>.\<close>

definition llm_complete ::
    "llm_client \<Rightarrow> string option \<Rightarrow> (string \<Rightarrow> string \<Rightarrow> json \<Rightarrow> http_result) \<Rightarrow> float64 \<Rightarrow> float64 \<Rightarrow>
     string \<Rightarrow> (string \<times> string) list \<Rightarrow> metrics \<Rightarrow> string res \<times> metrics" where
  "llm_complete lc env_key post started_at now model messages m =
     (let answer = llm_answer lc env_key post model messages;
          outcome = (case answer of Inl _ \<Rightarrow> ''error'' | Inr _ \<Rightarrow> ''success'')
      in (answer,
          histogram_record ''llm_request_latency_ms'' (synthesis_elapsed_ms started_at now) [(''operation'', ''llm.complete'')]
            (counter_add ''llm_requests_total'' 1 [(''operation'', ''llm.complete''), (''outcome'', outcome)] m)))"

subsection \<open>The stand-in of the demo (demo_llm_client.py)\<close>

definition demo_weights_json :: "rat \<Rightarrow> rat \<Rightarrow> rat \<Rightarrow> json" where
  "demo_weights_json bull base bear = JObj [(''bull'', num (fl bull)), (''base'', num (fl base)), (''bear'', num (fl bear))]"

definition demo_risk_json :: json where
  "demo_risk_json = JObj
     [(''summary'', JStr ''Risk case is elevated if flows weaken or support breaks.''),
      (''counter_thesis'', JStr ''ETF flow improvement may already be priced in.''),
      (''risks'', str_list [''ETF flows reverse for several sessions.'', ''Liquidity tightens and volatility expands.'']),
      (''invalidation_triggers'', str_list [''ETH loses the recent support range.'', ''ETF flow data fails to confirm the thesis.'']),
      (''scenario_view'', demo_weights_json (25/100) (35/100) (40/100)), (''confidence'', num (fl (68/100)))]"

definition demo_narrative_json :: json where
  "demo_narrative_json = JObj
     [(''summary'', JStr ''Narrative support is constructive but still depends on confirmed flows and stable liquidity.''),
      (''catalysts'', str_list [''ETF flow improvement supports the upside case.'', ''Stable liquidity keeps the base case intact.'']),
      (''unknowns'', str_list [''Macro liquidity can shift quickly.'']),
      (''scenario_framing'', str_list [''Bull case requires follow-through in flow data.'']),
      (''scenario_view'', demo_weights_json (42/100) (38/100) (20/100)), (''confidence'', num (fl (62/100)))]"

definition demo_memo_json :: json where
  "demo_memo_json = JObj
     [(''scenarios'', demo_weights_json (39/100) (38/100) (23/100)),
      (''supporting_evidence'', str_list [''Regime and narrative specialists both identify constructive conditions.'']),
      (''opposing_evidence'', str_list [''Risk specialist flags flow reversal and support loss as failure paths.'']),
      (''catalysts'', str_list [''ETF flow improvement supports upside.'', ''Liquidity remains stable.'']),
      (''risks'', str_list [''Macro volatility can pressure high beta assets.'', ''The thesis weakens if flows reverse.'']),
      (''invalidation_triggers'', str_list [''ETH loses the recent support range.'', ''ETF flow data fails to confirm the thesis.'']),
      (''confidence_rationale'', JStr ''Demo synthesis uses deterministic provider output; all specialist roles responded with bounded confidence.''),
      (''provenance'', JList []), (''partial'', JBool False), (''partial_reason'', JNull)]"

text \<open>\<open>render\<close> is \<^verbatim>\<open>json.dumps\<close>.\<close>

definition demo_llm_complete :: "(json \<Rightarrow> string) \<Rightarrow> string \<Rightarrow> (string \<times> string) list \<Rightarrow> string res" where
  "demo_llm_complete render model messages =
     (let content = join newline (map snd messages) in
      Inr (render (if contains ''risk specialist'' content then demo_risk_json
        else if contains ''narrative specialist'' content then demo_narrative_json else demo_memo_json)))"

subsection \<open>The fixtures (market_data.py, news_feed.py)\<close>

definition fixture_source_metadata :: "crypto \<Rightarrow> string \<Rightarrow> string \<Rightarrow> jobject \<Rightarrow> jobject res" where
  "fixture_source_metadata c now source_url payload =
     res_bind (canonical_json_hash c (JObj payload)) (\<lambda>h. Inr
       [(''source_type'', JStr ''fixture''), (''source_quality'', JStr ''fixture source''), (''source_url'', JStr source_url),
        (''retrieved_at'', JStr now), (''source_hash'', JStr h)])"

definition horizon_scale :: "int \<Rightarrow> float64" where
  "horizon_scale horizon_days = fl (of_int (min horizon_days 90) / 90)"

definition snapshot_values :: "thesis_request \<Rightarrow> jobject" where
  "snapshot_values rq =
     (let scale = horizon_scale (tr_horizon_days rq) in
      [(''asset'', JStr (tr_asset rq)),
       (''price_return'', num (py_round 3 (fadd (fl (2/100)) (fmul scale (fl (6/100)))))),
       (''volatility'', num (py_round 3 (fadd (fl (15/100)) (fmul scale (fl (1/10))))))])"

definition fetch_snapshot :: "crypto \<Rightarrow> string \<Rightarrow> thesis_request \<Rightarrow> jobject res" where
  "fetch_snapshot c now rq =
     res_bind (fixture_source_metadata c now
         (''fixture://signal-count/market-snapshot/v1/'' @ tr_asset rq @ ''?horizon_days='' @ str_of_int (tr_horizon_days rq))
         (snapshot_values rq)) (\<lambda>source. Inr (snapshot_values rq @ [(''source_metadata'', JObj source)]))"

definition fetch_headlines :: "thesis_request \<Rightarrow> string list" where
  "fetch_headlines rq =
     [tr_asset rq @ '' liquidity narrative improves while derivatives risk remains unresolved'',
      ''Signal Count fixture desk flags '' @ tr_asset rq @ '' support break as the counter-thesis'']"

definition fetch_source_metadata :: "crypto \<Rightarrow> string \<Rightarrow> thesis_request \<Rightarrow> string list \<Rightarrow> jobject list res" where
  "fetch_source_metadata c now rq headlines =
     map_res (\<lambda>(i, headline). fixture_source_metadata c now
         (''fixture://signal-count/news-headline/v1/'' @ tr_asset rq @ ''/'' @ str_of_int i)
         [(''asset'', JStr (tr_asset rq)), (''horizon_days'', JInt (tr_horizon_days rq)), (''headline'', JStr headline)])
       (zip (map int [1..<Suc (length headlines)]) headlines)"

subsection \<open>The AXL client (client.py)\<close>

definition axl_object :: "string \<Rightarrow> string \<Rightarrow> http_result \<Rightarrow> jobject res" where
  "axl_object failed no_object h =
     (case h of
        Http_json (JObj d) \<Rightarrow> Inr d
      | Http_json _ \<Rightarrow> Inl (RuntimeError no_object)
      | Http_raised e \<Rightarrow> Inl e
      | _ \<Rightarrow> Inl (RuntimeError failed))"

definition axl_fetch_topology :: "(string \<Rightarrow> http_result) \<Rightarrow> settings \<Rightarrow> jobject res" where
  "axl_fetch_topology get s =
     axl_object ''AXL topology request failed'' ''AXL topology response must be a JSON object'' (get (build_topology_path s))"

definition axl_dispatch_specialist ::
    "(string \<Rightarrow> json \<Rightarrow> http_result) \<Rightarrow> settings \<Rightarrow> string \<Rightarrow> string \<Rightarrow> jobject \<Rightarrow> specialist_response res" where
  "axl_dispatch_specialist post s peer_id service_name payload =
     res_bind (axl_object ''AXL specialist dispatch failed'' ''AXL specialist response must be a JSON object''
         (post (cfg_axl_local_base_url s @ ''/mcp/'' @ peer_id @ ''/'' @ service_name) (JObj payload)))
       specialist_response_of_json"

text \<open>The transport of a role as the coordinator uses it\<close>

definition axl_env ::
    "(string \<Rightarrow> json \<Rightarrow> http_result) \<Rightarrow> settings \<Rightarrow> float64 \<Rightarrow> (nat \<Rightarrow> float64) \<Rightarrow> role_env" where
  "axl_env post s started clock =
     \<lparr>re_dispatch = (\<lambda>_ service payload. axl_dispatch_specialist post s (ps_peer_id service) (ps_service_name service) payload),
      re_started = started, re_clock = clock\<rparr>"

subsection \<open>Answers of the model client\<close>

lemma content_text_nonempty: "content_text v = Inr (Some t) \<Longrightarrow> t \<noteq> []"
  by (cases v) (auto simp: content_text_def res_bind_Inr_iff split: if_splits)

lemma choice_text_nonempty:
  assumes "choice_text v = Inr (Some t)"
  shows "t \<noteq> []"
proof (cases "\<exists>choice rest. v = JList (choice # rest)")
  case True
  then show ?thesis using assms by (auto simp: choice_text_def res_bind_Inr_iff dest: content_text_nonempty)
next
  case False
  then have "choice_text v = Inr None" by (cases v) (auto simp: choice_text_def neq_Nil_conv split: list.split)
  with assms show ?thesis by simp
qed

lemma extracted_nonempty:
  assumes "extract_text v = Inr t"
  shows "t \<noteq> []"
proof -
  obtain d found where d: "choice_text (jget d ''choices'') = Inr found"
      "(case found of Some t \<Rightarrow> Inr t | None \<Rightarrow> output_text d) = Inr t"
    using assms by (auto simp: extract_text_def res_bind_Inr_iff)
  then show ?thesis
    by (cases found) (auto simp: output_text_def dest: choice_text_nonempty split: json.splits if_splits)
qed

lemma llm_answer_nonempty: "llm_answer lc env_key post model messages = Inr t \<Longrightarrow> t \<noteq> []"
  by (auto simp: llm_answer_def res_bind_Inr_iff dest: extracted_nonempty split: option.splits)

subsection \<open>What crosses the wire\<close>

text \<open>The answer of the node's own web application to a response of its handler: the JSON it sends cannot hold a
  number that is not finite, and an exception of the handler is an HTTP error. \<open>crossing_the_wire\<close> is about
  this answer alone, as if the client asked the node directly; on the way through the router it is wrapped
  (\<^theory_text>\<open>MCP_Router\<close>).\<close>

definition served :: "specialist_response res \<Rightarrow> http_result" where
  "served r =
     (case r of
        Inr v \<Rightarrow> if finite_json (specialist_response_json v) then Http_json (specialist_response_json v) else Http_error ''500''
      | Inl (HTTPException code _) \<Rightarrow> Http_error (str_of_int (int code))
      | Inl _ \<Rightarrow> Http_error ''500'')"

lemma crossing_the_wire:
  assumes "\<And>v. r = Inr v \<Longrightarrow> valid_specialist_response v"
    and "\<And>url body. post url body = served r"
  shows "axl_dispatch_specialist post s peer_id service_name payload =
    (case r of Inr v \<Rightarrow> if finite_json (specialist_response_json v) then Inr v else Inl (RuntimeError ''AXL specialist dispatch failed'')
     | Inl _ \<Rightarrow> Inl (RuntimeError ''AXL specialist dispatch failed''))"
proof (cases r)
  case (Inl e)
  then show ?thesis by (cases e) (simp_all add: axl_dispatch_specialist_def assms(2) served_def axl_object_def)
next
  case (Inr v)
  then show ?thesis
    using specialist_response_roundtrip [OF assms(1) [OF Inr]]
    by (simp add: axl_dispatch_specialist_def assms(2) served_def axl_object_def specialist_response_json_def)
qed

definition untimed :: "http_result \<Rightarrow> bool" where
  "untimed h = (case h of Http_raised (TimeoutError _) \<Rightarrow> False | _ \<Rightarrow> True)"

lemma only_caught_response [caught]: "only_caught (specialist_response_of_json d)"
  unfolding specialist_response_of_json_def make_specialist_response_def by (intro caught)

lemma axl_object_error: "axl_object failed no_object h = Inl e \<Longrightarrow> untimed h \<Longrightarrow> failure_status e \<noteq> ''timed_out''"
  by (auto simp: axl_object_def untimed_def failure_status_def split: http_result.splits json.splits py_error.splits)

lemma never_timed_out:
  assumes "\<And>url body. untimed (post url body)"
    and "attempt (axl_env post s started clock) role job_id attempted service payload = Inl e"
  shows "failure_status e \<noteq> ''timed_out''"
proof -
  consider
      url body where "axl_object ''AXL specialist dispatch failed'' ''AXL specialist response must be a JSON object'' (post url body) = Inl e"
    | d where "specialist_response_of_json d = Inl e"
    | r where "validate_response_context r job_id role (ps_peer_id service) = Inl e"
    using assms(2)
    by (auto simp: attempt_def axl_env_def axl_dispatch_specialist_def res_bind_def split: sum.splits)
  then show ?thesis
  proof cases
    case 1
    then show ?thesis using axl_object_error assms(1) by blast
  next
    case 2
    then have "synthesis_caught e" using only_caught_response by (auto simp: only_caught_def)
    then show ?thesis by (auto simp: synthesis_caught_def failure_status_def split: py_error.splits)
  next
    case 3
    then show ?thesis by (auto simp: validate_response_context_def Let_def failure_status_def split: if_splits)
  qed
qed



subsection \<open>The market fixture\<close>

lemma scale_unit: "0 \<le> h \<Longrightarrow> 0 \<le> horizon_scale h \<and> horizon_scale h \<le> 1"
proof -
  assume h: "0 \<le> h"
  have "(of_int (min h 90) :: rat) \<le> of_int 90" by (simp only: of_int_le_iff)
  then have "of_int (min h 90) / 90 \<le> (1 :: rat)" by simp
  from fl_mono [OF this] fl_nonneg [of "of_int (min h 90) / 90"] h show ?thesis by (simp add: horizon_scale_def)
qed

lemma snapshot_hashed: "\<exists>m. fetch_snapshot c now rq = Inr (snapshot_values rq @ [(''source_metadata'', JObj m)])"
proof -
  have "\<exists>t. canonical_json (JObj (snapshot_values rq)) = Inr t"
    unfolding canonical_json_total_iff(1) by (simp add: snapshot_values_def Let_def)
  then show ?thesis
    by (auto simp: fetch_snapshot_def fixture_source_metadata_def canonical_json_hash_def)
qed

subsection \<open>Properties\<close>



end
