(* ===== verification/Chain_Analyst.thy ===== *)
theory Chain_Analyst
  imports Specialists
begin

section \<open>The chain analyst node (app/nodes/chain_analyst)\<close>

text \<open>
  A specialist that answers from a decoded snapshot of the chain: events are read from JSON, cut at a block
  and put in chain order (\<open>fetch_chain_state\<close> of the fixture adapter), aggregated into metrics per role, and
  turned into a response whose citations carry the hash of the metrics. The natural logarithm behind the
  confidence is the argument \<open>log1p\<close>, on counts; the time stamp of a block is written by \<open>iso_utc\<close>, the
  proleptic Gregorian date of a count of seconds. \<^verbatim>\<open>dict\<close> of a list of pairs is outside the model: a data
  field that is neither an object nor empty is taken to raise.

  Shown: the analysis of a snapshot does not depend on the order in which its file lists the events; the
  weights depend only on how many roles have two peers and are never renormalised; and an answer is valid,
  hashable and within its confidence bounds when the reputations are finite.
\<close>

subsection \<open>Events and state (events.py)\<close>

record analyst_event =
  ce_event_type :: json
  ce_block_number :: int
  ce_log_index :: int
  ce_transaction_hash :: string
  ce_data :: jobject

record analyst_state =
  cs_block_number :: int
  cs_block_timestamp :: int
  cs_chain_id :: int
  cs_contract_addresses :: jobject
  cs_events :: "analyst_event list"

definition idempotency_key :: "analyst_event \<Rightarrow> string" where
  "idempotency_key e = ce_transaction_hash e @ '':'' @ str_of_int (ce_log_index e)"

text \<open>\<^verbatim>\<open>raw[k]\<close> and \<^verbatim>\<open>dict(v)\<close>\<close>

definition raw_field :: "jobject \<Rightarrow> string \<Rightarrow> json res" where
  "raw_field d k = (case dget d k of Some v \<Rightarrow> Inr v | None \<Rightarrow> Inl (KeyError k))"

definition as_mapping :: "json \<Rightarrow> jobject res" where
  "as_mapping v = (case v of JObj d \<Rightarrow> Inr d | JList [] \<Rightarrow> Inr [] | JStr [] \<Rightarrow> Inr [] | _ \<Rightarrow> Inl (TypeError ''object is not a mapping''))"

definition analyst_event_of :: "json \<Rightarrow> analyst_event res" where
  "analyst_event_of v =
     (case v of
        JObj raw \<Rightarrow>
          res_bind (raw_field raw ''event_type'') (\<lambda>kind.
          res_bind (res_bind (raw_field raw ''block_number'') py_int_of) (\<lambda>block.
          res_bind (res_bind (raw_field raw ''log_index'') py_int_of) (\<lambda>log_index.
          res_bind (raw_field raw ''transaction_hash'') (\<lambda>tx.
          res_bind (res_bind (raw_field raw ''data'') as_mapping) (\<lambda>d. Inr
            \<lparr>ce_event_type = kind, ce_block_number = block, ce_log_index = log_index, ce_transaction_hash = py_str tx,
             ce_data = d\<rparr>)))))
      | _ \<Rightarrow> Inl (TypeError ''event is not subscriptable''))"

definition analyst_state_of :: "json \<Rightarrow> analyst_state res" where
  "analyst_state_of v =
     (case v of
        JObj raw \<Rightarrow>
          res_bind (res_bind (raw_field raw ''block_number'') py_int_of) (\<lambda>block.
          res_bind (res_bind (raw_field raw ''block_timestamp'') py_int_of) (\<lambda>stamp.
          res_bind (res_bind (raw_field raw ''chain_id'') py_int_of) (\<lambda>chain.
          res_bind (res_bind (raw_field raw ''contract_addresses'') as_mapping) (\<lambda>addresses.
          res_bind (case dget raw ''events'' of None \<Rightarrow> Inr [] | Some (JList xs) \<Rightarrow> Inr xs
              | Some w \<Rightarrow> unpack w) (\<lambda>listed.
          res_bind (map_res analyst_event_of listed) (\<lambda>events. Inr
            \<lparr>cs_block_number = block, cs_block_timestamp = stamp, cs_chain_id = chain, cs_contract_addresses = addresses,
             cs_events = events\<rparr>))))))
      | _ \<Rightarrow> Inl (TypeError ''snapshot is not subscriptable''))"

subsection \<open>The fixture adapter (rpc.py)\<close>

definition chain_position :: "analyst_event \<Rightarrow> int \<times> int" where
  "chain_position e = (ce_block_number e, ce_log_index e)"

definition block_timestamp_at :: "analyst_state \<Rightarrow> int \<Rightarrow> int" where
  "block_timestamp_at s block = cs_block_timestamp s - 12 * (cs_block_number s - block)"

definition fetch_chain_state :: "analyst_state \<Rightarrow> int option \<Rightarrow> analyst_state" where
  "fetch_chain_state s block_number =
     (case block_number of
        Some cap \<Rightarrow>
          if cs_block_number s \<le> cap then s\<lparr>cs_events := sort_key chain_position (cs_events s)\<rparr>
          else s\<lparr>cs_block_number := cap, cs_block_timestamp := block_timestamp_at s cap,
            cs_events := sort_key chain_position (filter (\<lambda>e. ce_block_number e \<le> cap) (cs_events s))\<rparr>
      | None \<Rightarrow> s\<lparr>cs_events := sort_key chain_position (cs_events s)\<rparr>)"

subsection \<open>Queries (queries.py)\<close>

definition known_roles :: "string list" where "known_roles = [''regime'', ''narrative'', ''risk'']"

definition of_type :: "string \<Rightarrow> analyst_state \<Rightarrow> analyst_event list" where
  "of_type kind s = filter (\<lambda>e. ce_event_type e = JStr kind) (cs_events s)"

definition contributions :: "analyst_state \<Rightarrow> analyst_event list" where
  "contributions s = of_type ''ContributionRecorded'' s"

definition task_finalizations :: "analyst_state \<Rightarrow> analyst_event list" where
  "task_finalizations s = of_type ''TaskFinalized'' s"

definition reputation_records :: "analyst_state \<Rightarrow> analyst_event list" where
  "reputation_records s = of_type ''ReputationRecorded'' s"

definition contributions_for_role :: "analyst_state \<Rightarrow> string \<Rightarrow> analyst_event list" where
  "contributions_for_role s role = filter (\<lambda>e. jget (ce_data e) ''role'' = JStr role) (contributions s)"

fun record_scores :: "(string, pyfloat) pydict \<Rightarrow> analyst_event list \<Rightarrow> (string, pyfloat) pydict res" where
  "record_scores snapshot [] = Inr snapshot"
| "record_scores snapshot (e # es) =
     (let wallet = to_lower (str_get (ce_data e) ''wallet'') in
      if wallet = [] then record_scores snapshot es
      else (case py_float_of (case dget (ce_data e) ''score'' of None \<Rightarrow> num 0 | Some v \<Rightarrow> v) of
          Inr score \<Rightarrow> record_scores (dset snapshot wallet score) es
        | Inl (TypeError _) \<Rightarrow> record_scores snapshot es
        | Inl (ValueError _) \<Rightarrow> record_scores snapshot es
        | Inl err \<Rightarrow> Inl err))"

definition latest_reputation_by_wallet :: "analyst_state \<Rightarrow> (string, pyfloat) pydict res" where
  "latest_reputation_by_wallet s = record_scores [] (reputation_records s)"

fun add_new :: "string list \<Rightarrow> string list \<Rightarrow> string list" where
  "add_new seen [] = seen"
| "add_new seen (x # xs) = add_new (if x \<noteq> [] \<and> x \<notin> set seen then seen @ [x] else seen) xs"

definition distinct_finalized_jobs :: "analyst_state \<Rightarrow> string list" where
  "distinct_finalized_jobs s = add_new [] (map (\<lambda>e. str_get (ce_data e) ''job_id'') (task_finalizations s))"

subsection \<open>Metrics (metrics.py)\<close>

record peer_metric =
  pm_peer_id :: string
  pm_wallet :: string
  pm_contributions :: int
  pm_last_block :: int
  pm_reputation :: pyfloat

record role_metric =
  rm_role :: string
  rm_peer_count :: int
  rm_contribution_count :: int
  rm_avg_reputation :: pyfloat
  rm_top_peer :: "peer_metric option"

record chain_metrics =
  cm_block_number :: int
  cm_block_timestamp :: int
  cm_chain_id :: int
  cm_finalized_task_count :: int
  cm_contribution_count :: int
  cm_distinct_wallets :: int
  cm_roles :: "role_metric list"

definition peer_metric_json :: "peer_metric \<Rightarrow> json" where
  "peer_metric_json p = JObj
     [(''peer_id'', JStr (pm_peer_id p)), (''wallet'', JStr (pm_wallet p)), (''contributions'', JInt (pm_contributions p)),
      (''last_block'', JInt (pm_last_block p)), (''reputation'', JFloat (pm_reputation p))]"

definition role_metric_json :: "role_metric \<Rightarrow> json" where
  "role_metric_json r = JObj
     [(''role'', JStr (rm_role r)), (''peer_count'', JInt (rm_peer_count r)),
      (''contribution_count'', JInt (rm_contribution_count r)), (''avg_reputation'', JFloat (rm_avg_reputation r)),
      (''top_peer'', case rm_top_peer r of None \<Rightarrow> JNull | Some p \<Rightarrow> peer_metric_json p)]"

definition chain_metrics_json :: "chain_metrics \<Rightarrow> json" where
  "chain_metrics_json m = JObj
     [(''block_number'', JInt (cm_block_number m)), (''block_timestamp'', JInt (cm_block_timestamp m)),
      (''chain_id'', JInt (cm_chain_id m)), (''finalized_task_count'', JInt (cm_finalized_task_count m)),
      (''contribution_count'', JInt (cm_contribution_count m)), (''distinct_wallets'', JInt (cm_distinct_wallets m)),
      (''roles'', JList (map role_metric_json (cm_roles m)))]"

definition pf_round :: "nat \<Rightarrow> pyfloat \<Rightarrow> pyfloat" where
  "pf_round n e = (case e of Fin x \<Rightarrow> Fin (py_round n x) | _ \<Rightarrow> e)"

definition representative_wallet :: "analyst_event list \<Rightarrow> string res" where
  "representative_wallet events = res_bind (py_max_by chain_position events) (\<lambda>e. Inr (str_get (ce_data e) ''wallet''))"

definition peer_metric_of ::
    "(string, pyfloat) pydict \<Rightarrow> (string, analyst_event list) pydict \<Rightarrow> string \<Rightarrow> peer_metric res" where
  "peer_metric_of reputation by_peer peer_id =
     (let events = dget_or by_peer peer_id [] in
      res_bind (representative_wallet events) (\<lambda>wallet.
      res_bind (py_max_by (\<lambda>b. b) (map ce_block_number events)) (\<lambda>last_block. Inr
        \<lparr>pm_peer_id = peer_id, pm_wallet = wallet, pm_contributions = int (length events), pm_last_block = last_block,
         pm_reputation = pf_round 6 (if wallet \<noteq> [] then dget_or reputation (to_lower wallet) (Fin 0) else Fin 0)\<rparr>)))"

text \<open>The key of a peer as a tuple: equal numbers are skipped, a NaN equals nothing and compares to nothing.\<close>

definition neg_codes :: "string \<Rightarrow> int list" where
  "neg_codes s = map (\<lambda>c. - int (char_code c)) s"

definition peer_lt :: "peer_metric \<Rightarrow> peer_metric \<Rightarrow> bool" where
  "peer_lt p q \<longleftrightarrow>
     (if pm_reputation p \<noteq> pm_reputation q \<or> pm_reputation p = NaN then pf_lt (pm_reputation p) (pm_reputation q)
      else if pm_contributions p \<noteq> pm_contributions q then pm_contributions p < pm_contributions q
      else neg_codes (pm_peer_id p) < neg_codes (pm_peer_id q))"

definition top_peer :: "peer_metric list \<Rightarrow> peer_metric option" where
  "top_peer peers = (case py_max_lt peer_lt peers of Inr p \<Rightarrow> Some p | Inl _ \<Rightarrow> None)"

definition compute_role_metric ::
    "analyst_state \<Rightarrow> (string, pyfloat) pydict \<Rightarrow> string \<Rightarrow> role_metric res" where
  "compute_role_metric s reputation role =
     (let role_events = contributions_for_role s role;
          peer_of = (\<lambda>e. str_get (ce_data e) ''peer_id'');
          by_peer = group_by peer_of (filter (\<lambda>e. peer_of e \<noteq> []) role_events)
      in res_bind (map_res (peer_metric_of reputation by_peer) (sort (dkeys by_peer))) (\<lambda>peers. Inr
        \<lparr>rm_role = role, rm_peer_count = int (length peers), rm_contribution_count = int (length role_events),
         rm_avg_reputation = (if peers = [] then Fin 0 else pf_round 6 (pf_mean (map pm_reputation peers))),
         rm_top_peer = top_peer peers\<rparr>))"

definition wallets_seen :: "analyst_state \<Rightarrow> string list" where
  "wallets_seen s = add_new [] (map (\<lambda>e. to_lower (str_get (ce_data e) ''wallet'')) (cs_events s))"

definition compute_metrics :: "analyst_state \<Rightarrow> chain_metrics res" where
  "compute_metrics s =
     res_bind (latest_reputation_by_wallet s) (\<lambda>reputation.
     res_bind (map_res (compute_role_metric s reputation) known_roles) (\<lambda>roles. Inr
       \<lparr>cm_block_number = cs_block_number s, cm_block_timestamp = cs_block_timestamp s, cm_chain_id = cs_chain_id s,
        cm_finalized_task_count = int (length (distinct_finalized_jobs s)),
        cm_contribution_count = sum_list (map rm_contribution_count roles),
        cm_distinct_wallets = int (length (wallets_seen s)), cm_roles = roles\<rparr>))"

definition confidence_from_metrics :: "(int \<Rightarrow> float64) \<Rightarrow> chain_metrics \<Rightarrow> float64" where
  "confidence_from_metrics log1p m =
     (let raw = fadd (fl (4/10)) (fmul (fl (6/100)) (log1p (cm_contribution_count m + cm_finalized_task_count m)))
      in py_round 4 (if fl (9/10) < raw then fl (9/10) else raw))"

subsection \<open>The time stamp of a block\<close>

fun split_month :: "int \<Rightarrow> int list \<Rightarrow> int \<Rightarrow> int \<times> int" where
  "split_month m [] d = (m, d + 1)"
| "split_month m (l # ls) d = (if d < l then (m, d + 1) else split_month (m + 1) ls (d - l))"

text \<open>Year, month and day of the day \<open>n\<close> after 1 January of the year 1: cycles of 400, 100, 4 and 1 years.\<close>

definition civil_date :: "int \<Rightarrow> int \<times> int \<times> int" where
  "civil_date n =
     (let n400 = n div 146097; r = n mod 146097; n100 = min 3 (r div 36524); r = r - n100 * 36524;
          n4 = r div 1461; r = r mod 1461; n1 = min 3 (r div 365); r = r - n1 * 365;
          leap = (n1 = 3 \<and> (n4 \<noteq> 24 \<or> n100 = 3))
      in (400 * n400 + 100 * n100 + 4 * n4 + n1 + 1,
          split_month 1 [31, if leap then 29 else 28, 31, 30, 31, 30, 31, 31, 30, 31, 30, 31] r))"

definition two_digits :: "int \<Rightarrow> string" where "two_digits i = zero_pad 2 (str_of_int i)"

text \<open>The range of years is 1 to 9999; a second far beyond it raises other exceptions, here one of them.\<close>

definition iso_utc :: "int \<Rightarrow> string res" where
  "iso_utc t =
     (let n = t div 86400 + 719162; r = t mod 86400 in
      if n < 0 \<or> 3652058 < n then Inl (ValueError ''year is out of range'')
      else (case civil_date n of (y, m, d) \<Rightarrow> Inr
        (zero_pad 4 (str_of_int y) @ ''-'' @ two_digits m @ ''-'' @ two_digits d @ ''T'' @ two_digits (r div 3600) @ '':'' @
         two_digits (r div 60 mod 60) @ '':'' @ two_digits (r mod 60) @ ''Z'')))"

subsection \<open>The response (service.py)\<close>

definition summary_text :: "chain_metrics \<Rightarrow> string" where
  "summary_text m = join '' | ''
     [''On-chain snapshot at block '' @ str_of_int (cm_block_number m),
      ''finalized_tasks='' @ str_of_int (cm_finalized_task_count m),
      ''contributions='' @ str_of_int (cm_contribution_count m),
      ''distinct_wallets='' @ str_of_int (cm_distinct_wallets m)]"

definition role_signal_line :: "role_metric \<Rightarrow> string" where
  "role_signal_line r =
     (case rm_top_peer r of
        None \<Rightarrow> rm_role r @ '': 0 active peers; no on-chain contributions recorded''
      | Some p \<Rightarrow> rm_role r @ '': top peer '' @ pm_peer_id p @ '' (reputation='' @ fmt_float 4 (pm_reputation p) @
          '', contributions='' @ str_of_int (pm_contributions p) @ '', last_block='' @ str_of_int (pm_last_block p) @ ''); '' @
          str_of_int (rm_peer_count r) @ '' active peers, avg_reputation='' @ fmt_float 4 (rm_avg_reputation r))"

definition role_signals :: "chain_metrics \<Rightarrow> string list" where
  "role_signals m = map role_signal_line (cm_roles m)"

definition role_risks :: "role_metric \<Rightarrow> string list" where
  "role_risks r =
     (if rm_peer_count r = 0 then
        [''role='' @ rm_role r @ '' has no on-chain contributions; single-source risk if dispatched'']
      else if rm_peer_count r = 1 then
        [''role='' @ rm_role r @ '' has only one active peer ('' @ str_of_int (rm_contribution_count r) @
          '' contributions); no peer diversity for fallback'']
      else if pf_lt (rm_avg_reputation r) (lit (5/10)) then
        [''role='' @ rm_role r @ '' avg reputation '' @ fmt_float 4 (rm_avg_reputation r) @
          '' below 0.5; specialist output should be discounted by verifier'']
      else [])"

definition network_risks :: "chain_metrics \<Rightarrow> string list" where
  "network_risks m =
     (let risks = concat (map role_risks (cm_roles m)) @
          (if cm_finalized_task_count m = 0 then
             [''no finalized tasks at this block; on-chain history is empty and analyst cannot anchor reputation in completed work'']
           else [])
      in if risks = [] then [''no structural on-chain risks detected at this snapshot''] else risks)"

definition covered_roles :: "chain_metrics \<Rightarrow> nat" where
  "covered_roles m = length (filter (\<lambda>r. 2 \<le> rm_peer_count r) (cm_roles m))"

definition coverage_ratio :: "chain_metrics \<Rightarrow> float64" where
  "coverage_ratio m =
     (if cm_roles m = [] then 0 else fl (of_nat (covered_roles m) / of_nat (length (cm_roles m))))"

definition weights_of_coverage :: "float64 \<Rightarrow> float64 \<times> float64 \<times> float64" where
  "weights_of_coverage coverage =
     (let bull = py_round 4 (fadd (fl (20/100)) (fmul (fl (50/100)) coverage));
          bear = py_round 4 (fadd (fl (20/100)) (fmul (fl (40/100)) (fsub 1 coverage)));
          base = py_round 4 (fsub (fsub 1 bull) bear)
      in if base < 0 then
           (let weight = fadd bull bear in
            if 0 < weight then
              (let bull' = py_round 4 (fdiv bull weight) in (bull', 0, py_round 4 (fsub 1 bull')))
            else (bull, 0, bear))
         else (bull, base, bear))"

definition chain_scenario_view :: "chain_metrics \<Rightarrow> scenario_view" where
  "chain_scenario_view m =
     (case weights_of_coverage (coverage_ratio m) of
        (bull, base, bear) \<Rightarrow> \<lparr>sv_bull = Fin bull, sv_base = Fin base, sv_bear = Fin bear\<rparr>)"

definition build_response ::
    "crypto \<Rightarrow> (int \<Rightarrow> float64) \<Rightarrow> string \<Rightarrow> chain_metrics \<Rightarrow> string \<Rightarrow> string option \<Rightarrow> specialist_response res" where
  "build_response c log1p job_id m peer_id agent_wallet =
     res_bind (iso_utc (cm_block_timestamp m)) (\<lambda>timestamp.
     res_bind (canonical_json_hash c (chain_metrics_json m)) (\<lambda>metrics_hash.
       make_specialist_response
         \<lparr>sr_job_id = job_id, sr_node_role = ''chain_analyst'', sr_peer_id = peer_id, sr_summary = summary_text m,
          sr_scenario_view = chain_scenario_view m, sr_signals = role_signals m, sr_risks = network_risks m,
          sr_confidence = confidence_from_metrics log1p m,
          sr_citations = [''chain:'' @ str_of_int (cm_chain_id m), ''block:'' @ str_of_int (cm_block_number m),
            ''metrics_hash:'' @ metrics_hash],
          sr_timestamp = timestamp, sr_agent_wallet = agent_wallet,
          sr_ree_receipt_hash = None, sr_receipt_status = None, sr_ree_prompt_hash = None, sr_ree_tokens_hash = None,
          sr_ree_model_name = None, sr_ree_receipt_body = None, sr_ree_receipt_path = None\<rparr>))"

record chain_analyst =
  can_rpc :: analyst_state
  can_peer_id :: string
  can_agent_wallet :: "string option"
  can_metrics :: "chain_metrics option"

definition make_chain_analyst :: "analyst_state \<Rightarrow> chain_analyst" where
  "make_chain_analyst rpc =
     \<lparr>can_rpc = rpc, can_peer_id = ''peer-chain-analyst-001'', can_agent_wallet = None, can_metrics = None\<rparr>"

definition analyze_service ::
    "crypto \<Rightarrow> (int \<Rightarrow> float64) \<Rightarrow> string \<Rightarrow> int option \<Rightarrow> chain_analyst \<Rightarrow> specialist_response res \<times> chain_analyst" where
  "analyze_service c log1p job_id block_number service =
     (case compute_metrics (fetch_chain_state (can_rpc service) block_number) of
        Inl e \<Rightarrow> (Inl e, service)
      | Inr m \<Rightarrow>
          (build_response c log1p job_id m (can_peer_id service) (can_agent_wallet service), service\<lparr>can_metrics := Some m\<rparr>))"

definition chain_analyze ::
    "crypto \<Rightarrow> (int \<Rightarrow> float64) \<Rightarrow> analyst_state \<Rightarrow> string \<Rightarrow> int option \<Rightarrow> specialist_response res" where
  "chain_analyze c log1p rpc job_id block_number =
     fst (analyze_service c log1p job_id block_number (make_chain_analyst rpc))"

subsection \<open>The command line (cli.py)\<close>

record analyst_args =
  aa_fixture :: string
  aa_block :: "int option"
  aa_task :: task_spec
  aa_out :: string
  aa_quiet :: bool

definition subscript :: "json \<Rightarrow> string \<Rightarrow> json res" where
  "subscript v k = (case v of JObj d \<Rightarrow> raw_field d k | _ \<Rightarrow> Inl (TypeError ''object is not subscriptable''))"

text \<open>What is printed until the first line whose evaluation raises\<close>

fun print_lines :: "string res list \<Rightarrow> string list \<times> unit res" where
  "print_lines [] = ([], Inr ())"
| "print_lines (Inl e # ls) = ([], Inl e)"
| "print_lines (Inr l # ls) = (case print_lines ls of (shown, r) \<Rightarrow> (l # shown, r))"

definition summary_lines :: "json \<Rightarrow> string \<Rightarrow> string \<Rightarrow> string res list" where
  "summary_lines response hash out_path =
     (let line = (\<lambda>label r. res_bind r (\<lambda>v. Inr (label @ py_str v)));
          metric = (\<lambda>k. res_bind (subscript response ''ree_receipt_body'') (\<lambda>body.
            res_bind (subscript body ''metrics'') (\<lambda>m. subscript m k)));
          items = (\<lambda>k. case res_bind (subscript response k) unpack of
            Inl e \<Rightarrow> [Inl e] | Inr vs \<Rightarrow> map (\<lambda>v. Inr (''    - '' @ py_str v)) vs)
      in [Inr (''chain-analyst response written: '' @ out_path), Inr (''  output_hash:       '' @ hash),
          line ''  block_number:      '' (metric ''block_number''), line ''  block_timestamp:   '' (metric ''block_timestamp''),
          line ''  receipt_status:    '' (subscript response ''receipt_status''),
          line ''  confidence:        '' (subscript response ''confidence''),
          line ''  finalized_tasks:   '' (metric ''finalized_task_count''),
          line ''  contributions:     '' (metric ''contribution_count''), Inr [], Inr ''  signals:''] @
         items ''signals'' @ [Inr ''  risks:''] @ items ''risks'')"

definition analyst_artifact :: "analyst_args \<Rightarrow> string \<Rightarrow> task_spec \<Rightarrow> specialist_response \<Rightarrow> string \<Rightarrow> json" where
  "analyst_artifact args fixture t r hash = JObj
     [(''schema'', JStr ''signal-count.chain-analyst-response/v1''), (''task'', task_spec_json t),
      (''response'', specialist_response_json r), (''output_hash'', JStr hash),
      (''block_number'', case aa_block args of None \<Rightarrow> JNull | Some b \<Rightarrow> JInt b), (''fixture'', JStr fixture)]"

text \<open>\<open>load\<close> is the decoded content of a file, \<open>resolve\<close> its absolute path. The results: what was written to
  the output file, what was printed, and how the process ended.\<close>

definition analyst_main ::
    "crypto \<Rightarrow> (int \<Rightarrow> float64) \<Rightarrow> (string \<Rightarrow> json res) \<Rightarrow> (string \<Rightarrow> string) \<Rightarrow> analyst_args \<Rightarrow>
     json option \<times> string list \<times> int res" where
  "analyst_main c log1p load resolve args =
     (case res_bind (res_bind (load (aa_fixture args)) analyst_state_of) (\<lambda>rpc.
          res_bind (make_task_spec (aa_task args)) (\<lambda>t.
          res_bind (chain_analyze c log1p rpc (ts_job_id t) (aa_block args)) (\<lambda>r.
          res_bind (output_hash c r) (\<lambda>h. Inr (t, r, h))))) of
        Inl e \<Rightarrow> (None, [], Inl e)
      | Inr (t, r, h) \<Rightarrow>
          (let artifact = analyst_artifact args (resolve (aa_fixture args)) t r h in
           if aa_quiet args then (Some artifact, [], Inr 0)
           else (case print_lines (summary_lines (specialist_response_json r) h (aa_out args)) of
               (shown, Inl e) \<Rightarrow> (Some artifact, shown, Inl e)
             | (shown, Inr _) \<Rightarrow> (Some artifact, shown, Inr 0))))"

lemma chain_analyze_eq:
  "chain_analyze c log1p rpc job_id b = res_bind (compute_metrics (fetch_chain_state rpc b))
     (\<lambda>m. build_response c log1p job_id m ''peer-chain-analyst-001'' None)"
  by (simp add: chain_analyze_def analyze_service_def make_chain_analyst_def split: sum.split)

subsection \<open>Order of the events\<close>

lemma fetch_order:
  assumes "mset (cs_events s) = mset events" "inj_on chain_position (set (cs_events s))"
  shows "fetch_chain_state (s\<lparr>cs_events := events\<rparr>) b = fetch_chain_state s b"
proof -
  have all: "sort_key chain_position events = sort_key chain_position (cs_events s)"
    using sort_key_unique [OF assms] by simp
  have "sort_key chain_position (filter P events) = sort_key chain_position (filter P (cs_events s))" for P
  proof -
    have "mset (filter P (cs_events s)) = mset (filter P events)" using assms(1) by simp
    moreover have "inj_on chain_position (set (filter P (cs_events s)))" using assms(2) by (rule inj_on_subset) auto
    ultimately show ?thesis using sort_key_unique by metis
  qed
  with all show ?thesis by (simp add: fetch_chain_state_def block_timestamp_at_def split: option.split)
qed

subsection \<open>Shape of the metrics\<close>

lemma role_metric_count: "compute_role_metric s reputation role = Inr r \<Longrightarrow> 0 \<le> rm_contribution_count r"
  by (auto simp: compute_role_metric_def Let_def res_bind_Inr_iff)

lemma metrics_shape:
  assumes "compute_metrics s = Inr m"
  shows "length (cm_roles m) = 3" "0 \<le> cm_contribution_count m" "0 \<le> cm_finalized_task_count m"
    "cm_block_timestamp m = cs_block_timestamp s"
proof -
  obtain reputation where roles: "map_res (compute_role_metric s reputation) known_roles = Inr (cm_roles m)"
      and rest: "cm_contribution_count m = sum_list (map rm_contribution_count (cm_roles m))" "0 \<le> cm_finalized_task_count m"
        "cm_block_timestamp m = cs_block_timestamp s"
    using assms by (auto simp: compute_metrics_def res_bind_Inr_iff)
  from roles have "list_all (\<lambda>r. 0 \<le> rm_contribution_count r) (cm_roles m) \<and> length (cm_roles m) = 3"
    by (auto simp: known_roles_def dest!: role_metric_count sym [of "_ # _"] split: sum.splits)
  with rest show "length (cm_roles m) = 3" "0 \<le> cm_contribution_count m" "0 \<le> cm_finalized_task_count m"
    "cm_block_timestamp m = cs_block_timestamp s"
    by (auto simp: list_all_iff intro!: sum_list_nonneg)
qed

text \<open>The only weights there are: bull, base and bear by the number of roles with two peers.\<close>

definition coverage_weights :: "(float64 \<times> float64 \<times> float64) list" where
  "coverage_weights =
     [(fl (20/100), fl (20/100), fl (60/100)), (fl (3667/10000), fl (1666/10000), fl (4667/10000)),
      (fl (5333/10000), fl (1334/10000), fl (3333/10000)), (fl (70/100), fl (10/100), fl (20/100))]"

text \<open>A value that is \<open>k\<close> rounding errors away from \<open>a\<close>\<close>

definition near :: "nat \<Rightarrow> float64 \<Rightarrow> rat \<Rightarrow> bool" where
  "near k x a \<longleftrightarrow> \<bar>x - a\<bar> \<le> of_nat k / 16777216"

lemma fl_near: "\<bar>x\<bar> \<le> 100 \<Longrightarrow> \<bar>fl x - x\<bar> \<le> 1 / 16777216"
  using fl_error_small [of x] by simp

lemma near_fl: "\<bar>a\<bar> \<le> 10 \<Longrightarrow> near 1 (fl a) a"
  using fl_near [of a] by (simp add: near_def)

lemma near_exact: "near 0 a a"
  by (simp add: near_def)

lemma near_add: "near (i + j) x a \<longleftrightarrow> \<bar>x - a\<bar> \<le> of_nat i / 16777216 + of_nat j / 16777216"
  by (simp add: near_def add_divide_distrib)

lemma near_bound: "near k x a \<Longrightarrow> k \<le> 20 \<Longrightarrow> \<bar>x - a\<bar> \<le> 1 / 524288"
proof -
  assume "near k x a" "k \<le> 20"
  then have "\<bar>x - a\<bar> \<le> of_nat k / 16777216" "of_nat k / 16777216 \<le> (20 / 16777216 :: rat)"
    by (simp only: near_def, intro divide_right_mono) simp_all
  then show ?thesis by linarith
qed

lemma near_step:
  assumes "near k y a" "k \<le> 20" "\<bar>a\<bar> \<le> 10"
  shows "near (k + 1) (fl y) a"
proof -
  have "\<bar>y\<bar> \<le> 100" using near_bound [OF assms(1,2)] assms(3) by linarith
  from fl_near [OF this] have "\<bar>fl y - a\<bar> \<le> of_nat k / 16777216 + 1 / 16777216"
    using assms(1) unfolding near_def by linarith
  then show ?thesis unfolding near_add by simp
qed

lemma near_fadd:
  assumes "near i x a" "near j y b" "i + j \<le> 20" "\<bar>a + b\<bar> \<le> 10"
  shows "near (i + j + 1) (fadd x y) (a + b)"
proof -
  have "near (i + j) (x + y) (a + b)" using assms(1,2) unfolding near_add by (simp only: near_def)
  from near_step [OF this assms(3,4)] show ?thesis by (simp add: fadd_def)
qed

lemma near_fsub:
  assumes "near i x a" "near j y b" "i + j \<le> 20" "\<bar>a - b\<bar> \<le> 10"
  shows "near (i + j + 1) (fsub x y) (a - b)"
proof -
  have "near (i + j) (x - y) (a - b)" using assms(1,2) unfolding near_add by (simp only: near_def)
  from near_step [OF this assms(3,4)] show ?thesis by (simp add: fsub_def)
qed

lemma near_fmul:
  assumes x: "near i x a" and y: "near j y b" and "i + 2 * j \<le> 20" "\<bar>a\<bar> \<le> 1" "\<bar>b\<bar> \<le> 1"
  shows "near (i + 2 * j + 1) (fmul x y) (a * b)"
  unfolding fmul_def
proof (rule near_step)
  have "\<bar>x\<bar> \<le> 2" using near_bound [OF x] assms(3,4) by (simp, linarith)
  then have "\<bar>x\<bar> * \<bar>y - b\<bar> \<le> 2 * (of_nat j / 16777216)" using y unfolding near_def by (intro mult_mono) auto
  moreover have "\<bar>x - a\<bar> * \<bar>b\<bar> \<le> of_nat i / 16777216 * 1" using x assms(5) unfolding near_def by (intro mult_mono) auto
  moreover have "x * y - a * b = x * (y - b) + (x - a) * b" by (simp add: algebra_simps)
  then have "\<bar>x * y - a * b\<bar> \<le> \<bar>x\<bar> * \<bar>y - b\<bar> + \<bar>x - a\<bar> * \<bar>b\<bar>"
    using abs_triangle_ineq [of "x * (y - b)" "(x - a) * b"] by (simp only: abs_mult)
  moreover have "of_nat (2 * j) / 16777216 = 2 * (of_nat j / 16777216 :: rat)" by simp
  ultimately show "near (i + 2 * j) (x * y) (a * b)" unfolding near_add by linarith
  show "\<bar>a * b\<bar> \<le> 10" using mult_mono [of "\<bar>a\<bar>" 1 "\<bar>b\<bar>" 1] assms(4,5) by (simp add: abs_mult)
qed (use assms(3) in simp)

lemma near_round:
  assumes "near k x a" "k \<le> 20" "\<bar>a * 10000 - of_int n\<bar> < 2/5"
  shows "py_round 4 x = fl (of_int n / 10000)"
proof -
  have "\<bar>x * 10000 - of_int n\<bar> < 1/2" using near_bound [OF assms(1,2)] assms(3) by linarith
  then have "round_even (x * 10 ^ 4) = n" by (intro round_even_near) simp
  then show ?thesis by (simp add: py_round_def)
qed

lemma weights_rounded:
  assumes c: "0 \<le> c" "c \<le> 1" and b: "\<bar>2000 + 5000 * c - of_int b\<bar> < 2/5" and r: "\<bar>6000 - 4000 * c - of_int r\<bar> < 2/5"
    and small: "b + r \<le> 10000"
  shows "weights_of_coverage (fl c) = (fl (of_int b / 10000), fl (of_int (10000 - b - r) / 10000), fl (of_int r / 10000))"
proof -
  have cov: "near 1 (fl c) c" using c by (intro near_fl) simp
  have "near (1 + (1 + 2 * 1 + 1) + 1) (fadd (fl (20/100)) (fmul (fl (50/100)) (fl c))) (20/100 + 50/100 * c)"
    using c by (intro near_fadd near_fmul near_fl cov) simp_all
  moreover have "(20/100 + 50/100 * c) * 10000 = 2000 + 5000 * c" by (simp add: algebra_simps)
  then have "\<bar>(20/100 + 50/100 * c) * 10000 - of_int b\<bar> < 2/5" using b by (simp only:)
  ultimately have bull: "py_round 4 (fadd (fl (20/100)) (fmul (fl (50/100)) (fl c))) = fl (of_int b / 10000)"
    using near_round by simp
  have "near (1 + (1 + 2 * (0 + 1 + 1) + 1) + 1) (fadd (fl (20/100)) (fmul (fl (40/100)) (fsub 1 (fl c)))) (20/100 + 40/100 * (1 - c))"
    using c by (intro near_fadd near_fmul near_fsub near_fl near_exact cov) (simp_all, simp add: field_simps)
  moreover have "(20/100 + 40/100 * (1 - c)) * 10000 = 6000 - 4000 * c" by (simp add: field_simps)
  then have "\<bar>(20/100 + 40/100 * (1 - c)) * 10000 - of_int r\<bar> < 2/5" using r by (simp only:)
  ultimately have bear: "py_round 4 (fadd (fl (20/100)) (fmul (fl (40/100)) (fsub 1 (fl c)))) = fl (of_int r / 10000)"
    using near_round by simp
  have br: "0 \<le> (of_int b :: rat)" "of_int b \<le> (7001 :: rat)" "0 \<le> (of_int r :: rat)" "of_int r \<le> (6001 :: rat)"
    using b r c by linarith+
  have "near (0 + 1 + 1 + 1 + 1) (fsub (fsub 1 (fl (of_int b / 10000))) (fl (of_int r / 10000))) (1 - of_int b / 10000 - of_int r / 10000)"
    using br by (intro near_fsub near_fl near_exact) (simp_all add: field_simps abs_le_iff)
  then have base: "py_round 4 (fsub (fsub 1 (fl (of_int b / 10000))) (fl (of_int r / 10000))) = fl (of_int (10000 - b - r) / 10000)"
    by (rule near_round) (simp_all add: field_simps)
  have "0 \<le> fl (of_int (10000 - b - r) / 10000)" using small by (intro fl_nonneg) simp
  then have "\<not> fl (of_int (10000 - b - r) / 10000) < 0" by simp
  then show ?thesis unfolding weights_of_coverage_def bull bear Let_def base by simp
qed

lemma coverage_weights:
  "weights_of_coverage (fl (0 / 3)) = coverage_weights ! 0" "weights_of_coverage (fl (1 / 3)) = coverage_weights ! 1"
  "weights_of_coverage (fl (2 / 3)) = coverage_weights ! 2" "weights_of_coverage (fl (3 / 3)) = coverage_weights ! 3"
  using weights_rounded [of "0 / 3" 2000 6000] weights_rounded [of "1 / 3" 3667 4667]
    weights_rounded [of "2 / 3" 5333 3333] weights_rounded [of "3 / 3" 7000 2000]
  by (simp_all add: coverage_weights_def)

lemma scenario_table:
  assumes "length (cm_roles m) = 3"
  shows "covered_roles m \<le> 3" "weights_of_coverage (coverage_ratio m) = coverage_weights ! covered_roles m"
proof -
  show le: "covered_roles m \<le> 3" using assms length_filter_le [of _ "cm_roles m"] by (simp add: covered_roles_def)
  have "coverage_ratio m = fl (of_nat (covered_roles m) / 3)" using assms by (auto simp: coverage_ratio_def)
  moreover have "covered_roles m = 0 \<or> covered_roles m = 1 \<or> covered_roles m = 2 \<or> covered_roles m = 3" using le by auto
  ultimately show "weights_of_coverage (coverage_ratio m) = coverage_weights ! covered_roles m"
    using coverage_weights by (elim disjE) simp_all
qed

lemma confidence_between:
  assumes "\<And>n. 0 \<le> n \<Longrightarrow> 0 \<le> log1p n" "0 \<le> cm_contribution_count m" "0 \<le> cm_finalized_task_count m"
  shows "fl (40/100) \<le> confidence_from_metrics log1p m" "confidence_from_metrics log1p m \<le> fl (90/100)"
proof -
  define raw where "raw = fadd (fl (4/10)) (fmul (fl (6/100)) (log1p (cm_contribution_count m + cm_finalized_task_count m)))"
  have "0 \<le> fmul (fl (6/100)) (log1p (cm_contribution_count m + cm_finalized_task_count m))"
    using assms by (intro fmul_nonneg fl_nonneg) simp_all
  then have "fl (fl (4/10)) \<le> raw" unfolding raw_def fadd_def by (intro fl_mono) simp
  then have low: "fl (4/10) \<le> raw" by simp
  have ends: "py_round 4 (fl (4/10)) = fl (40/100)" "py_round 4 (fl (9/10)) = fl (90/100)" "fl (4/10) \<le> fl (9/10)"
    using near_round [OF near_fl, of "4/10" 4000] near_round [OF near_fl, of "9/10" 9000] fl_mono [of "4/10" "9/10"] by simp_all
  have c: "confidence_from_metrics log1p m = py_round 4 (if fl (9/10) < raw then fl (9/10) else raw)"
    by (simp add: confidence_from_metrics_def raw_def Let_def)
  show "fl (40/100) \<le> confidence_from_metrics log1p m" unfolding c ends(1) [symmetric]
    using low ends(3) by (intro dec.rnd_mono) simp
  show "confidence_from_metrics log1p m \<le> fl (90/100)" unfolding c ends(2) [symmetric] by (intro dec.rnd_mono) simp
qed

subsection \<open>Answers\<close>

definition pf_finite :: "pyfloat \<Rightarrow> bool" where
  "pf_finite e = (case e of Fin _ \<Rightarrow> True | _ \<Rightarrow> False)"

definition role_finite :: "role_metric \<Rightarrow> bool" where
  "role_finite r \<longleftrightarrow> pf_finite (rm_avg_reputation r) \<and> (case rm_top_peer r of None \<Rightarrow> True | Some p \<Rightarrow> pf_finite (pm_reputation p))"

lemma role_metric_finite: "finite_json (role_metric_json r) \<longleftrightarrow> role_finite r"
  by (auto simp: role_metric_json_def role_finite_def peer_metric_json_def pf_finite_def split: option.splits)

lemma finite_items_all: "finite_items vs \<longleftrightarrow> list_all finite_json vs"
  by (induction vs) auto

lemma metrics_finite: "finite_json (chain_metrics_json m) \<longleftrightarrow> list_all role_finite (cm_roles m)"
  by (simp add: chain_metrics_json_def finite_items_all list.pred_map o_def role_metric_finite)

lemma metrics_hash:
  "(\<exists>h. canonical_json_hash c (chain_metrics_json m) = Inr h) \<longleftrightarrow> list_all role_finite (cm_roles m)"
  using canonical_json_total_iff(1) [of "chain_metrics_json m"]
  by (auto simp: canonical_json_hash_def res_bind_Inr_iff metrics_finite)

lemma iso_utc_nonempty: "iso_utc t = Inr s \<Longrightarrow> s \<noteq> []"
  by (auto simp: iso_utc_def Let_def split: if_splits prod.splits)

definition weights_view :: "float64 \<times> float64 \<times> float64 \<Rightarrow> scenario_view" where
  "weights_view w = (case w of (bull, base, bear) \<Rightarrow> \<lparr>sv_bull = Fin bull, sv_base = Fin base, sv_bear = Fin bear\<rparr>)"

lemma weights_view_finite: "finite_json (scenario_json (weights_view w))"
  by (cases w) (simp add: weights_view_def scenario_json_def)

lemma unit_ends: "0 \<le> fl (40/100)" "fl (90/100) \<le> 1"
  by (rule fl_nonneg, simp) (use fl_mono [of "90/100" 1] in simp)

lemma chain_answer:
  assumes m: "compute_metrics (fetch_chain_state rpc block_number) = Inr m"
    and stamp: "iso_utc (cm_block_timestamp m) = Inr stamp" and "job_id \<noteq> []"
    and log: "\<And>n. 0 \<le> n \<Longrightarrow> 0 \<le> log1p n"
  shows "if list_all role_finite (cm_roles m)
    then \<exists>r. chain_analyze c log1p rpc job_id block_number = Inr r \<and> valid_specialist_response r \<and>
      finite_json (specialist_response_json r) \<and> sr_job_id r = job_id \<and>
      sr_scenario_view r = weights_view (coverage_weights ! covered_roles m) \<and>
      fl (40/100) \<le> sr_confidence r \<and> sr_confidence r \<le> fl (90/100)
    else \<exists>e. chain_analyze c log1p rpc job_id block_number = Inl e"
proof -
  note shape = metrics_shape [OF m]
  note conf = confidence_between [of log1p, OF log shape(2,3)]
  have run: "chain_analyze c log1p rpc job_id block_number = build_response c log1p job_id m ''peer-chain-analyst-001'' None"
    by (simp add: chain_analyze_eq m)
  have view: "chain_scenario_view m = weights_view (coverage_weights ! covered_roles m)"
    by (simp add: chain_scenario_view_def scenario_table(2) [OF shape(1)] weights_view_def)
  show ?thesis
  proof (cases "list_all role_finite (cm_roles m)")
    case True
    then obtain h where h: "canonical_json_hash c (chain_metrics_json m) = Inr h" using metrics_hash by blast
    show ?thesis
      unfolding run build_response_def stamp h res_bind_simps view make_specialist_response_def checked_def
      using True conf unit_ends iso_utc_nonempty [OF stamp] assms(3) weights_view_finite
      by (simp add: valid_specialist_response_def unit_ok_def opt_ok_def response_finite opt_obj_def summary_text_def)
  next
    case False
    then obtain e where "canonical_json_hash c (chain_metrics_json m) = Inl e"
      using metrics_hash [of c m] by (cases "canonical_json_hash c (chain_metrics_json m)") auto
    with False show ?thesis by (simp add: run build_response_def stamp)
  qed
qed

subsection \<open>The printed summary\<close>

lemma chain_response_has_no_body:
  assumes "chain_analyze c log1p rpc job_id b = Inr r"
  shows "sr_ree_receipt_body r = None"
  using assms
  by (auto simp: chain_analyze_eq build_response_def res_bind_Inr_iff make_specialist_response_def
      checked_Inr_iff split: sum.splits)

lemma body_of_response:
  "sr_ree_receipt_body r = None \<Longrightarrow> subscript (specialist_response_json r) ''ree_receipt_body'' = Inr JNull"
  by (simp add: subscript_def raw_field_def specialist_response_json_def specialist_response_fields_def opt_obj_def)

lemma subscript_null: "subscript JNull k = Inl (TypeError ''object is not subscriptable'')"
  by (simp add: subscript_def)

lemma summary_stops:
  assumes "sr_ree_receipt_body r = None"
  shows "print_lines (summary_lines (specialist_response_json r) hash out_path) =
    ([''chain-analyst response written: '' @ out_path, ''  output_hash:       '' @ hash], Inl (TypeError ''object is not subscriptable''))"
  by (simp add: summary_lines_def body_of_response [OF assms] subscript_null Let_def)

lemma main_runs:
  "analyst_main c log1p load resolve args = (Some artifact, shown, answer) \<Longrightarrow>
     \<exists>rpc t r h. res_bind (load (aa_fixture args)) analyst_state_of = Inr rpc \<and> make_task_spec (aa_task args) = Inr t \<and>
       chain_analyze c log1p rpc (ts_job_id t) (aa_block args) = Inr r \<and> output_hash c r = Inr h \<and>
       artifact = analyst_artifact args (resolve (aa_fixture args)) t r h"
  by (auto simp: analyst_main_def Let_def res_bind_Inr_iff split: sum.splits if_splits prod.splits)

lemma main_stops:
  assumes "analyst_main c log1p load resolve (args\<lparr>aa_quiet := True\<rparr>) = (Some artifact, shown, Inr 0)" "\<not> aa_quiet args"
  shows "\<exists>hash. analyst_main c log1p load resolve args =
    (Some artifact, [''chain-analyst response written: '' @ aa_out args, ''  output_hash:       '' @ hash],
     Inl (TypeError ''object is not subscriptable''))"
proof -
  obtain rpc t r h where run: "res_bind (load (aa_fixture args)) analyst_state_of = Inr rpc" "make_task_spec (aa_task args) = Inr t"
      "chain_analyze c log1p rpc (ts_job_id t) (aa_block args) = Inr r" "output_hash c r = Inr h"
      "artifact = analyst_artifact args (resolve (aa_fixture args)) t r h"
    using main_runs [OF assms(1)] by (auto simp: analyst_artifact_def)
  show ?thesis
    unfolding analyst_main_def run(1-4) res_bind_simps
    using summary_stops [OF chain_response_has_no_body [OF run(3)], of h "aa_out args"] assms(2) run(5)
    by (simp add: Let_def)
qed

subsection \<open>Properties\<close>

text \<open>C29: The answer of the chain analyst does not depend on the order in which the snapshot lists its events,
  when no two different events share a position in the chain.\<close>

theorem analysis_ignores_event_order:
  assumes "mset (cs_events rpc) = mset events" "inj_on chain_position (set (cs_events rpc))"
  shows "chain_analyze c log1p (rpc\<lparr>cs_events := events\<rparr>) job_id block_number = chain_analyze c log1p rpc job_id block_number"
  by (simp add: chain_analyze_eq fetch_order [OF assms])

text \<open>C30: Once the metrics are computed and the block has a date, the analyst answers exactly when the
  reputations of every role are finite: one infinite or undefined score makes the hash of the metrics raise.
  Its answer is valid and hashable, its confidence lies between 0.4 and 0.9, and its weights are one of four
  triples, by the number of roles with two peers; the renormalisation of negative weights never happens.\<close>

theorem analysis_answers_iff_finite:
  assumes "compute_metrics (fetch_chain_state rpc block_number) = Inr m"
    and "iso_utc (cm_block_timestamp m) = Inr stamp" and "job_id \<noteq> []" and "\<And>n. 0 \<le> n \<Longrightarrow> 0 \<le> log1p n"
  shows "if list_all role_finite (cm_roles m)
    then \<exists>r. chain_analyze c log1p rpc job_id block_number = Inr r \<and> valid_specialist_response r \<and>
      finite_json (specialist_response_json r) \<and> sr_job_id r = job_id \<and>
      sr_scenario_view r = weights_view (coverage_weights ! covered_roles m) \<and>
      fl (40/100) \<le> sr_confidence r \<and> sr_confidence r \<le> fl (90/100)
    else \<exists>e. chain_analyze c log1p rpc job_id block_number = Inl e"
  using assms by (rule chain_answer)

text \<open>The command line of the analyst fails on every run that is not quiet: after it has written its
  artifact and printed two lines it looks up metrics in a receipt body that its responses never have, and
  the process ends with a \<open>TypeError\<close>.\<close>

theorem summary_always_raises:
  assumes "analyst_main c log1p load resolve (args\<lparr>aa_quiet := True\<rparr>) = (Some artifact, shown, Inr 0)" "\<not> aa_quiet args"
  shows "\<exists>hash. analyst_main c log1p load resolve args =
    (Some artifact, [''chain-analyst response written: '' @ aa_out args, ''  output_hash:       '' @ hash],
     Inl (TypeError ''object is not subscriptable''))"
  using assms by (rule main_stops)

subsection \<open>Witnesses\<close>

definition demo_event :: "int \<Rightarrow> int \<Rightarrow> json \<Rightarrow> analyst_event" where
  "demo_event block i score =
     \<lparr>ce_event_type = JStr ''ReputationRecorded'', ce_block_number = block, ce_log_index = i, ce_transaction_hash = ''0x1'',
      ce_data = [(''wallet'', JStr ''0xA''), (''score'', score)]\<rparr>"

definition demo_contribution :: analyst_event where
  "demo_contribution =
     \<lparr>ce_event_type = JStr ''ContributionRecorded'', ce_block_number = 1, ce_log_index = 2, ce_transaction_hash = ''0x2'',
      ce_data = [(''role'', JStr ''risk''), (''peer_id'', JStr ''peer-1''), (''wallet'', JStr ''0xA'')]\<rparr>"

definition demo_snapshot :: "json \<Rightarrow> analyst_state" where
  "demo_snapshot score =
     \<lparr>cs_block_number = 1, cs_block_timestamp = 1700000000, cs_chain_id = 685685, cs_contract_addresses = [],
      cs_events = [demo_contribution, demo_event 1 0 score]\<rparr>"

lemma demo_stamp: "iso_utc 1700000000 = Inr ''2023-11-14T22:13:20Z''" "iso_utc 951782400 = Inr ''2000-02-29T00:00:00Z''"
  "iso_utc (- 1) = Inr ''1969-12-31T23:59:59Z''"
  by code_simp+

definition demo_log1p :: "int \<Rightarrow> float64" where "demo_log1p n = (if n = 0 then 0 else 1)"

lemma analysis_ignores_event_order_witness:
  "chain_analyze demo_crypto demo_log1p (demo_snapshot (num 0)\<lparr>cs_events := [demo_event 1 0 (num 0), demo_contribution]\<rparr>) ''job-1'' None =
     chain_analyze demo_crypto demo_log1p (demo_snapshot (num 0)) ''job-1'' None"
  by (rule analysis_ignores_event_order) (simp_all add: demo_snapshot_def demo_event_def demo_contribution_def chain_position_def)

text \<open>The same snapshot before anybody contributed\<close>

definition quiet_snapshot :: analyst_state where
  "quiet_snapshot = demo_snapshot (num 0)\<lparr>cs_events := [demo_event 1 0 (num 0)]\<rparr>"

lemma demo_metrics:
  "case compute_metrics (fetch_chain_state quiet_snapshot None) of
     Inr m \<Rightarrow> cm_block_timestamp m = 1700000000 \<and> list_all role_finite (cm_roles m) | Inl _ \<Rightarrow> False"
  "case compute_metrics (fetch_chain_state (demo_snapshot (JFloat PosInf)) None) of
     Inr m \<Rightarrow> cm_block_timestamp m = 1700000000 \<and> \<not> list_all role_finite (cm_roles m) | Inl _ \<Rightarrow> False"
  by code_simp+

lemma demo_log1p_nonneg: "0 \<le> n \<Longrightarrow> 0 \<le> demo_log1p n"
  by (simp add: demo_log1p_def)

lemma demo_answer: "\<exists>r. chain_analyze c demo_log1p quiet_snapshot ''job-1'' None = Inr r \<and> finite_json (specialist_response_json r)"
proof -
  obtain m where m: "compute_metrics (fetch_chain_state quiet_snapshot None) = Inr m"
      "cm_block_timestamp m = 1700000000" "list_all role_finite (cm_roles m)"
    using demo_metrics(1) by (auto split: sum.splits)
  show ?thesis
    using chain_answer [where c = c and log1p = demo_log1p and job_id = "''job-1''", OF m(1) demo_stamp(1) [folded m(2)] _ demo_log1p_nonneg] m(3) by auto
qed

lemma analysis_answers_iff_finite_witness:
  "(\<exists>r. chain_analyze demo_crypto demo_log1p quiet_snapshot ''job-1'' None = Inr r) \<and>
   (\<exists>e. chain_analyze demo_crypto demo_log1p (demo_snapshot (JFloat PosInf)) ''job-1'' None = Inl e)"
proof
  have job: "''job-1'' \<noteq> []" by simp
  obtain m where m: "compute_metrics (fetch_chain_state quiet_snapshot None) = Inr m"
      "cm_block_timestamp m = 1700000000" "list_all role_finite (cm_roles m)"
    using demo_metrics(1) by (auto split: sum.splits)
  have t: "iso_utc (cm_block_timestamp m) = Inr ''2023-11-14T22:13:20Z''" unfolding m(2) by (rule demo_stamp(1))
  from analysis_answers_iff_finite [where c = demo_crypto and log1p = demo_log1p, OF m(1) t job demo_log1p_nonneg] m(3)
  show "\<exists>r. chain_analyze demo_crypto demo_log1p quiet_snapshot ''job-1'' None = Inr r" by auto
  obtain m where m: "compute_metrics (fetch_chain_state (demo_snapshot (JFloat PosInf)) None) = Inr m"
      "cm_block_timestamp m = 1700000000" "\<not> list_all role_finite (cm_roles m)"
    using demo_metrics(2) by (auto split: sum.splits)
  have t: "iso_utc (cm_block_timestamp m) = Inr ''2023-11-14T22:13:20Z''" unfolding m(2) by (rule demo_stamp(1))
  from analysis_answers_iff_finite [where c = demo_crypto and log1p = demo_log1p, OF m(1) t job demo_log1p_nonneg] m(3)
  show "\<exists>e. chain_analyze demo_crypto demo_log1p (demo_snapshot (JFloat PosInf)) ''job-1'' None = Inl e" by auto
qed

definition demo_snapshot_json :: json where
  "demo_snapshot_json = JObj
     [(''block_number'', JInt 1), (''block_timestamp'', JInt 1700000000), (''chain_id'', JInt 685685),
      (''contract_addresses'', JObj []),
      (''events'', JList
        [JObj [(''event_type'', JStr ''ReputationRecorded''), (''block_number'', JInt 1), (''log_index'', JInt 0),
           (''transaction_hash'', JStr ''0x1''), (''data'', JObj [(''wallet'', JStr ''0xA''), (''score'', num 0)])]])]"

definition demo_args :: "bool \<Rightarrow> analyst_args" where
  "demo_args quiet = \<lparr>aa_fixture = ''chain_state.json'', aa_block = None,
     aa_task = \<lparr>ts_job_id = ''job-1'', ts_thesis = ''t'', ts_asset = ''ETH'', ts_horizon_days = 30\<rparr>, aa_out = ''out.json'', aa_quiet = quiet\<rparr>"

lemma demo_args_parts: "aa_quiet (demo_args q) = q" "aa_out (demo_args q) = ''out.json''"
  by (simp_all add: demo_args_def)

lemma demo_read: "analyst_state_of demo_snapshot_json = Inr quiet_snapshot"
  by code_simp

lemma summary_always_raises_witness:
  "\<exists>artifact hash. analyst_main demo_crypto demo_log1p (\<lambda>_. Inr demo_snapshot_json) (\<lambda>p. p) (demo_args False) =
    (Some artifact, [''chain-analyst response written: out.json'', ''  output_hash:       '' @ hash],
     Inl (TypeError ''object is not subscriptable''))"
proof -
  obtain r where r: "chain_analyze demo_crypto demo_log1p quiet_snapshot ''job-1'' None = Inr r"
      "finite_json (specialist_response_json r)"
    using demo_answer by blast
  obtain h where h: "output_hash demo_crypto r = Inr h" using output_hash_total [OF r(2)] by blast
  have t: "make_task_spec (aa_task (demo_args True)) = Inr (aa_task (demo_args True))"
    by (simp add: make_task_spec_def checked_def demo_args_def valid_task_spec_def)
  have q: "demo_args False\<lparr>aa_quiet := True\<rparr> = demo_args True" by (simp add: demo_args_def)
  have "\<exists>artifact. analyst_main demo_crypto demo_log1p (\<lambda>_. Inr demo_snapshot_json) (\<lambda>p. p) (demo_args False\<lparr>aa_quiet := True\<rparr>) =
    (Some artifact, [], Inr 0)"
    unfolding q analyst_main_def res_bind_simps demo_read t
    using r(1) h by (simp add: demo_args_def)
  then obtain artifact where
    "analyst_main demo_crypto demo_log1p (\<lambda>_. Inr demo_snapshot_json) (\<lambda>p. p) (demo_args False\<lparr>aa_quiet := True\<rparr>) = (Some artifact, [], Inr 0)"
    by blast
  from summary_always_raises [OF this] show ?thesis by (auto simp: demo_args_parts)
qed

end
