(* ===== verification/Ree_Runner.thy ===== *)
theory Ree_Runner
  imports Specialists
begin

section \<open>Running REE (app/ree/runner.py)\<close>

text \<open>
  The runner of a risk node: it starts the REE script on a prompt file and takes the one new receipt in the
  cache that belongs to its request. The files of the cache are a dictionary from paths to contents; the
  script is the function \<open>exec\<close> from its arguments and the prompt file to how it ended and the files it left,
  which may be anything: other programs write there too. Paths are strings, \<open>loads\<close> is \<^verbatim>\<open>json.loads\<close>; the
  temporary directory, its modes and the file lock that keeps two runners of a cache apart are not modelled.

  Shown: the receipt of a run is new, parses, belongs to the request and is the only one that does; a run
  with another matching receipt, or with none, raises; and a risk node with a runner answers with a receipt
  claim that the verifier finds valid.
\<close>

subsection \<open>Lines\<close>

definition line_end :: "char \<Rightarrow> bool" where
  "line_end ch \<longleftrightarrow> (let n = char_code ch in 10 \<le> n \<and> n \<le> 13 \<or> 28 \<le> n \<and> n \<le> 30 \<or> n = 133)"

text \<open>A carriage return and the line feed after it are one end of line.\<close>

definition after_line_end :: "char \<Rightarrow> string \<Rightarrow> string" where
  "after_line_end ch rest = (if char_code ch = 13 then (case rest of d # ds \<Rightarrow> if char_code d = 10 then ds else rest | [] \<Rightarrow> []) else rest)"

lemma after_line_end_length: "length (after_line_end ch rest) \<le> length rest"
  by (cases rest) (auto simp: after_line_end_def)

function lines_from :: "string \<Rightarrow> string \<Rightarrow> string list" where
  "lines_from line [] = (if line = [] then [] else [line])"
| "lines_from line (ch # rest) =
     (if line_end ch then line # lines_from [] (after_line_end ch rest) else lines_from (line @ [ch]) rest)"
  by pat_completeness auto
termination
  by (relation "measure (\<lambda>(_, s). length s)") (auto simp: less_Suc_eq_le after_line_end_length)

definition splitlines :: "string \<Rightarrow> string list" where "splitlines s = lines_from [] s"

lemma splitlines_points:
  "splitlines (''a'' @ [char_of (13::nat), char_of (10::nat), char_of (10::nat)] @ ''b'') = [''a'', [], ''b'']"
  "splitlines (''a'' @ [char_of (10::nat)]) = [''a'']" "splitlines [] = []"
  by code_simp+

subsection \<open>Requests and outcomes\<close>

record ree_request =
  rq_model_name :: string
  rq_prompt :: string
  rq_max_new_tokens :: int
  rq_cpu_only :: bool

definition make_ree_request :: "string \<Rightarrow> string \<Rightarrow> ree_request" where
  "make_ree_request model prompt =
     \<lparr>rq_model_name = model, rq_prompt = prompt, rq_max_new_tokens = 300, rq_cpu_only = False\<rparr>"

record ree_outcome =
  oc_receipt :: ree_receipt
  oc_validation :: ree_validation
  oc_receipt_path :: string
  oc_receipt_status :: string

type_synonym receipt_files = "(string, string) pydict"

text \<open>\<open>CalledProcessError\<close> with its code and outputs, \<open>FileNotFoundError\<close>, anything else\<close>

datatype process_end =
    Process_ok
  | Process_failed int string string
  | Process_missing
  | Process_raised py_error

record ree_runner =
  rn_command :: string
  rn_cache_dir :: string
  rn_cpu_only :: bool

definition make_ree_runner :: "string \<Rightarrow> string \<Rightarrow> bool \<Rightarrow> ree_runner res" where
  "make_ree_runner command cache_dir cpu_only =
     (if command = [] then Inl (ValueError ''REE runner command must be a non-empty string'')
      else Inr \<lparr>rn_command = command, rn_cache_dir = cache_dir, rn_cpu_only = cpu_only\<rparr>)"

definition build_args :: "ree_runner \<Rightarrow> ree_request \<Rightarrow> string \<Rightarrow> string list res" where
  "build_args rn rq prompt_path =
     (if rq_model_name rq = [] then Inl (ValueError ''ReeRunRequest.model_name must be a non-empty string'')
      else Inr ([rn_command rn, ''--model-name'', rq_model_name rq, ''--prompt-file'', prompt_path, ''--max-new-tokens'',
          str_of_int (rq_max_new_tokens rq)] @
        (if rn_cpu_only rn \<or> rq_cpu_only rq then [''--cpu-only''] else [])))"

definition prompt_line :: "string \<Rightarrow> string" where
  "prompt_line prompt = ''{'' @ json_string ''prompt'' @ '': '' @ json_string prompt @ ''}'' @ newline"

subsection \<open>Receipts of the cache\<close>

definition gensyn_cache :: "ree_runner \<Rightarrow> string" where
  "gensyn_cache rn = rn_cache_dir rn @ ''/gensyn''"

text \<open>The pattern \<^verbatim>\<open>**/receipt_*.json\<close> below the cache\<close>

definition ends_with :: "string \<Rightarrow> string \<Rightarrow> bool" where
  "ends_with p s \<longleftrightarrow> starts_with (rev p) (rev s)"

definition receipt_path :: "ree_runner \<Rightarrow> string \<Rightarrow> bool" where
  "receipt_path rn p \<longleftrightarrow>
     starts_with (gensyn_cache rn @ ''/'') p \<and>
     (let name = drop (length ''receipt_'') (last (split_on (CHR 0x2F) p)) in
      starts_with ''receipt_'' (last (split_on (CHR 0x2F) p)) \<and> ends_with ''.json'' name)"

definition snapshot_receipts :: "ree_runner \<Rightarrow> receipt_files \<Rightarrow> string list" where
  "snapshot_receipts rn files = filter (receipt_path rn) (dkeys files)"

definition receipt_matches_request :: "ree_receipt \<Rightarrow> ree_request \<Rightarrow> bool \<Rightarrow> bool" where
  "receipt_matches_request receipt rq cpu_only =
     (if rr_model_name receipt \<noteq> rq_model_name rq \<or> rr_prompt receipt \<noteq> rq_prompt rq \<or>
         jget (rr_parameters receipt) ''max_new_tokens'' \<noteq> JInt (rq_max_new_tokens rq) then False
      else (let recorded = jget (rr_parameters receipt) ''cpu_only'' in
        if recorded \<noteq> JNull \<and> recorded \<noteq> JBool cpu_only then False
        else \<not> cpu_only \<or> to_lower (strip (rr_device_type receipt)) = ''cpu''))"

definition read_receipt :: "(string \<Rightarrow> json res) \<Rightarrow> receipt_files \<Rightarrow> string \<Rightarrow> ree_receipt res" where
  "read_receipt loads files p =
     (case dget files p of
        None \<Rightarrow> Inl (OtherError ''FileNotFoundError'')
      | Some content \<Rightarrow>
          res_bind (loads content) (\<lambda>v. case v of JObj d \<Rightarrow> parse_ree_receipt d | _ \<Rightarrow> invalid ''ReeReceipt''))"

text \<open>The paths are compared part by part.\<close>

definition new_receipts :: "ree_runner \<Rightarrow> string list \<Rightarrow> receipt_files \<Rightarrow> string list" where
  "new_receipts rn before files =
     sort_key (split_on (CHR 0x2F)) (filter (\<lambda>p. p \<notin> set before) (snapshot_receipts rn files))"

definition matching_receipt ::
    "(string \<Rightarrow> json res) \<Rightarrow> ree_runner \<Rightarrow> receipt_files \<Rightarrow> ree_request \<Rightarrow> string \<Rightarrow> (string \<times> ree_receipt) option" where
  "matching_receipt loads rn files rq p =
     (case read_receipt loads files p of
        Inl _ \<Rightarrow> None
      | Inr receipt \<Rightarrow>
          if receipt_matches_request receipt rq (rn_cpu_only rn \<or> rq_cpu_only rq) then Some (p, receipt) else None)"

definition ambiguous :: py_error where
  "ambiguous = RuntimeError ''REE produced multiple new receipts matching this invocation; receipt attribution is ambiguous.''"

definition find_new_receipt ::
    "(string \<Rightarrow> json res) \<Rightarrow> ree_runner \<Rightarrow> string list \<Rightarrow> receipt_files \<Rightarrow> ree_request \<Rightarrow> (string \<times> ree_receipt) res" where
  "find_new_receipt loads rn before files rq =
     (let fresh = new_receipts rn before files; found = some_values (map (matching_receipt loads rn files rq) fresh) in
      case found of
        [m] \<Rightarrow> Inr m
      | _ # _ # _ \<Rightarrow> Inl ambiguous
      | [] \<Rightarrow> Inl (RuntimeError (''REE did not produce exactly one new receipt bound to this invocation in '' @
          gensyn_cache rn @ ''; observed '' @ str_of_int (int (length fresh)) @ '' new receipt file(s).'')))"

subsection \<open>One run\<close>

definition output_tail :: "string \<Rightarrow> string \<Rightarrow> string list" where
  "output_tail label out =
     (let t = strip out; lines = splitlines t in
      if t = [] then [] else [label @ '':'' @ newline @ join newline (drop (length lines - 20) lines)])"

definition format_subprocess_output :: "string \<Rightarrow> string \<Rightarrow> string" where
  "format_subprocess_output out err =
     (let parts = output_tail ''stdout'' out @ output_tail ''stderr'' err in
      if parts = [] then [] else newline @ join newline parts)"

definition process_error :: "process_end \<Rightarrow> py_error option" where
  "process_error e =
     (case e of
        Process_ok \<Rightarrow> None
      | Process_failed code out err \<Rightarrow>
          Some (RuntimeError (''REE subprocess failed with exit code '' @ str_of_int code @ format_subprocess_output out err))
      | Process_missing \<Rightarrow>
          Some (RuntimeError ''REE command was not found. Clone github.com/gensyn-ai/ree and set GENSYN_SDK_COMMAND to the full path of ree.sh.'')
      | Process_raised e \<Rightarrow> Some e)"

definition ree_run ::
    "crypto \<Rightarrow> (string \<Rightarrow> json res) \<Rightarrow> (string list \<Rightarrow> string \<Rightarrow> receipt_files \<Rightarrow> process_end \<times> receipt_files) \<Rightarrow>
     ree_runner \<Rightarrow> string \<Rightarrow> ree_request \<Rightarrow> receipt_files \<Rightarrow> ree_outcome res \<times> receipt_files" where
  "ree_run c loads exec rn workspace rq files =
     (case build_args rn rq (workspace @ ''/prompt.jsonl'') of
        Inl e \<Rightarrow> (Inl e, files)
      | Inr args \<Rightarrow>
          (case exec args (prompt_line (rq_prompt rq)) files of (ended, files') \<Rightarrow>
             (case process_error ended of
                Some e \<Rightarrow> Inl e
              | None \<Rightarrow>
                  res_bind (find_new_receipt loads rn (snapshot_receipts rn files) files' rq) (\<lambda>(p, receipt).
                  res_bind (validate_ree_receipt c receipt) (\<lambda>v. Inr
                    \<lparr>oc_receipt = receipt, oc_validation = v, oc_receipt_path = p,
                     oc_receipt_status = (if rv_matches v then ''validated'' else ''parsed'')\<rparr>)),
              files')))"

text \<open>The runner as a risk node uses it\<close>

definition ree_evidence_of :: "ree_outcome \<Rightarrow> ree_evidence" where
  "ree_evidence_of oc =
     (let r = oc_receipt oc in
      \<lparr>re_text = rr_text_output r, re_receipt_hash = rr_receipt_hash r, re_receipt_status = oc_receipt_status oc,
       re_prompt_hash = rr_prompt_hash r, re_tokens_hash = rr_tokens_hash r, re_model_name = rr_model_name r,
       re_receipt_body = receipt_fields r, re_receipt_path = oc_receipt_path oc\<rparr>)"

definition node_ree ::
    "crypto \<Rightarrow> (string \<Rightarrow> json res) \<Rightarrow> (string list \<Rightarrow> string \<Rightarrow> receipt_files \<Rightarrow> process_end \<times> receipt_files) \<Rightarrow>
     ree_runner \<Rightarrow> string \<Rightarrow> receipt_files \<Rightarrow> string \<Rightarrow> string \<Rightarrow> ree_evidence res" where
  "node_ree c loads exec rn workspace files model prompt =
     res_bind (fst (ree_run c loads exec rn workspace (make_ree_request model prompt) files)) (\<lambda>oc. Inr (ree_evidence_of oc))"

subsection \<open>The receipt of a run\<close>

lemma some_values_map: "set (some_values (map f xs)) = {y. \<exists>x \<in> set xs. f x = Some y}"
  by (auto simp: some_values_def image_iff) (metis option.sel)+

lemma matching_receipt_Some:
  "matching_receipt loads rn files rq p = Some m \<longleftrightarrow>
     (\<exists>receipt. m = (p, receipt) \<and> read_receipt loads files p = Inr receipt \<and>
        receipt_matches_request receipt rq (rn_cpu_only rn \<or> rq_cpu_only rq))"
  by (auto simp: matching_receipt_def split: sum.splits)

lemma new_receipts_set:
  "set (new_receipts rn (snapshot_receipts rn files) files') =
     {p. receipt_path rn p \<and> p \<in> set (dkeys files') \<and> p \<notin> set (dkeys files)}"
  by (auto simp: new_receipts_def snapshot_receipts_def)

lemma found_receipt:
  assumes "find_new_receipt loads rn before files rq = Inr (p, receipt)"
  shows "p \<in> set (new_receipts rn before files)" "read_receipt loads files p = Inr receipt"
    "receipt_matches_request receipt rq (rn_cpu_only rn \<or> rq_cpu_only rq)"
    "q \<in> set (new_receipts rn before files) \<Longrightarrow> q \<noteq> p \<Longrightarrow> matching_receipt loads rn files rq q = None"
proof -
  have one: "some_values (map (matching_receipt loads rn files rq) (new_receipts rn before files)) = [(p, receipt)]"
    using assms by (auto simp: find_new_receipt_def Let_def split: list.splits)
  then have all: "{m. \<exists>x \<in> set (new_receipts rn before files). matching_receipt loads rn files rq x = Some m} = {(p, receipt)}"
    using some_values_map [of "matching_receipt loads rn files rq" "new_receipts rn before files"] by simp
  then have "\<exists>x \<in> set (new_receipts rn before files). matching_receipt loads rn files rq x = Some (p, receipt)" by blast
  then show "p \<in> set (new_receipts rn before files)" "read_receipt loads files p = Inr receipt"
      "receipt_matches_request receipt rq (rn_cpu_only rn \<or> rq_cpu_only rq)"
    by (auto simp: matching_receipt_Some)
  show "matching_receipt loads rn files rq q = None" if "q \<in> set (new_receipts rn before files)" "q \<noteq> p"
  proof (rule ccontr)
    assume "matching_receipt loads rn files rq q \<noteq> None"
    then obtain m where m: "matching_receipt loads rn files rq q = Some m" by blast
    with all that(1) have "m = (p, receipt)" by blast
    with m that(2) show False by (simp add: matching_receipt_Some)
  qed
qed

lemma read_receipt_valid: "read_receipt loads files p = Inr receipt \<Longrightarrow> valid_receipt receipt"
proof -
  assume "read_receipt loads files p = Inr receipt"
  then obtain v where "(case v of JObj d \<Rightarrow> parse_ree_receipt d | _ \<Rightarrow> invalid ''ReeReceipt'') = Inr receipt"
    by (auto simp: read_receipt_def res_bind_Inr_iff split: option.splits)
  then show ?thesis by (cases v) (simp_all add: invalid_def parse_receipt_valid)
qed

definition bound_to_request :: "ree_receipt \<Rightarrow> ree_request \<Rightarrow> bool" where
  "bound_to_request receipt rq \<longleftrightarrow>
     rr_model_name receipt = rq_model_name rq \<and> rr_prompt receipt = rq_prompt rq \<and>
     jget (rr_parameters receipt) ''max_new_tokens'' = JInt (rq_max_new_tokens rq)"

lemma matches_bound: "receipt_matches_request receipt rq cpu \<Longrightarrow> bound_to_request receipt rq"
  by (simp add: receipt_matches_request_def bound_to_request_def split: if_splits)

lemma run_steps:
  assumes "ree_run c loads exec rn workspace rq files = (Inr oc, files')"
  shows "\<exists>v. find_new_receipt loads rn (snapshot_receipts rn files) files' rq = Inr (oc_receipt_path oc, oc_receipt oc) \<and>
    validate_ree_receipt c (oc_receipt oc) = Inr v \<and>
    oc_receipt_status oc = (if rv_matches v then ''validated'' else ''parsed'')"
  using assms
  by (auto simp: ree_run_def res_bind_Inr_iff split: sum.splits prod.splits option.splits)

lemma run_receipt:
  assumes "ree_run c loads exec rn workspace rq files = (Inr oc, files')"
  shows "valid_receipt (oc_receipt oc)" "bound_to_request (oc_receipt oc) rq"
proof -
  have "find_new_receipt loads rn (snapshot_receipts rn files) files' rq = Inr (oc_receipt_path oc, oc_receipt oc)"
    using run_steps [OF assms] by blast
  from found_receipt [OF this] show "valid_receipt (oc_receipt oc)" "bound_to_request (oc_receipt oc) rq"
    by (auto intro: read_receipt_valid matches_bound)
qed

subsection \<open>The claim of a risk node\<close>

lemma risk_answer_evidence:
  assumes "risk_analyze node (Some run) now job_id peer_id claim = Inr r"
  shows "\<exists>ev. run (if cfg_ree_model (mn_settings node) \<noteq> [] then cfg_ree_model (mn_settings node) else ''Qwen/Qwen3-0.6B'')
      (render_ree_prompt (risk_messages claim)) = Inr ev \<and>
    sr_ree_receipt_hash r = Some (re_receipt_hash ev) \<and> sr_receipt_status r = Some (re_receipt_status ev) \<and>
    sr_ree_prompt_hash r = Some (re_prompt_hash ev) \<and> sr_ree_tokens_hash r = Some (re_tokens_hash ev) \<and>
    sr_ree_model_name r = Some (re_model_name ev) \<and> sr_ree_receipt_body r = Some (re_receipt_body ev)"
  using assms unfolding risk_analyze_def ask_risk_def
  by (auto simp: res_bind_Inr_iff dest!: respond_valid)

lemma run_statuses: "to_lower (strip ''parsed'') = ''parsed''" "to_lower (strip ''validated'') = ''validated''"
  by code_simp+

lemma evidence_claim:
  assumes valid: "valid_receipt receipt" and v: "validate_ree_receipt c receipt = Inr v"
    and status: "sr_receipt_status r = Some (if rv_matches v then ''validated'' else ''parsed'')"
    and meta: "sr_ree_receipt_hash r = Some (rr_receipt_hash receipt)" "sr_ree_prompt_hash r = Some (rr_prompt_hash receipt)"
      "sr_ree_tokens_hash r = Some (rr_tokens_hash receipt)" "sr_ree_model_name r = Some (rr_model_name receipt)"
    and body: "sr_ree_receipt_body r = Some (receipt_fields receipt)"
  shows "\<exists>k. check_receipt_claim c r = Inr k \<and> rc_valid k \<and>
    rc_status k = (if rv_matches v then ''validated'' else ''parsed'')"
proof -
  have st: "claim_status r = (if rv_matches v then ''validated'' else ''parsed'')"
    using run_statuses by (simp add: claim_status_def status opt_text_def)
  have reasons: "metadata_reasons r receipt = []"
    using valid by (simp add: metadata_reasons_def binding_reason_def nonblank_def meta valid_receipt_def)
  have ne: "rr_receipt_hash receipt \<noteq> []" using valid by (simp add: valid_receipt_def)
  show ?thesis
    unfolding check_receipt_claim_def st Let_def body option.case parse_receipt_fields [OF valid] sum.case v res_bind_simps
    using reasons ne validation_matches_reasons [OF v] by (simp add: meta opt_text_def)
qed

lemma risk_claim:
  assumes "risk_analyze node (Some (node_ree c loads exec rn workspace files)) now job_id peer_id claim = Inr r"
  shows "\<exists>receipt k. sr_ree_receipt_body r = Some (receipt_fields receipt) \<and>
    rr_prompt receipt = render_ree_prompt (risk_messages claim) \<and>
    check_receipt_claim c r = Inr k \<and> rc_valid k"
proof -
  define model where "model = (if cfg_ree_model (mn_settings node) \<noteq> [] then cfg_ree_model (mn_settings node) else ''Qwen/Qwen3-0.6B'')"
  obtain ev where ev: "node_ree c loads exec rn workspace files model (render_ree_prompt (risk_messages claim)) = Inr ev"
      and r: "sr_ree_receipt_hash r = Some (re_receipt_hash ev)" "sr_receipt_status r = Some (re_receipt_status ev)"
        "sr_ree_prompt_hash r = Some (re_prompt_hash ev)" "sr_ree_tokens_hash r = Some (re_tokens_hash ev)"
        "sr_ree_model_name r = Some (re_model_name ev)" "sr_ree_receipt_body r = Some (re_receipt_body ev)"
    using risk_answer_evidence [OF assms, folded model_def] by blast
  obtain oc files' where run: "ree_run c loads exec rn workspace (make_ree_request model (render_ree_prompt (risk_messages claim))) files = (Inr oc, files')"
      and e: "ev = ree_evidence_of oc"
    using ev by (auto simp: node_ree_def res_bind_Inr_iff prod_eq_iff)
  obtain v where v: "validate_ree_receipt c (oc_receipt oc) = Inr v"
      "oc_receipt_status oc = (if rv_matches v then ''validated'' else ''parsed'')"
    using run_steps [OF run] by blast
  have p: "rr_prompt (oc_receipt oc) = render_ree_prompt (risk_messages claim)"
    using run_receipt(2) [OF run] by (simp add: bound_to_request_def make_ree_request_def)
  have "\<exists>k. check_receipt_claim c r = Inr k \<and> rc_valid k"
    using evidence_claim [OF run_receipt(1) [OF run] v(1), of r] r e v(2) by (auto simp: ree_evidence_of_def Let_def)
  with p show ?thesis using r(6) e by (auto simp: ree_evidence_of_def Let_def)
qed

subsection \<open>Properties\<close>

text \<open>C31: A run of REE that returns has found its own receipt: a file of the cache that was not there before,
  that parses to a valid receipt of the model, the prompt and the length asked for, and that is the only
  new file of which this holds. Its status is validated exactly when all its hashes recompute.\<close>

theorem ree_run_binds_request:
  assumes "ree_run c loads exec rn workspace rq files = (Inr oc, files')"
  shows "receipt_path rn (oc_receipt_path oc) \<and> oc_receipt_path oc \<in> set (dkeys files') - set (dkeys files) \<and>
    read_receipt loads files' (oc_receipt_path oc) = Inr (oc_receipt oc) \<and> valid_receipt (oc_receipt oc) \<and>
    bound_to_request (oc_receipt oc) rq \<and>
    (\<forall>q \<in> set (dkeys files') - set (dkeys files). receipt_path rn q \<longrightarrow> q \<noteq> oc_receipt_path oc \<longrightarrow>
       matching_receipt loads rn files' rq q = None) \<and>
    (oc_receipt_status oc = ''validated'' \<longleftrightarrow> (\<exists>v. validate_ree_receipt c (oc_receipt oc) = Inr v \<and> rv_matches v))"
proof -
  obtain v where f: "find_new_receipt loads rn (snapshot_receipts rn files) files' rq = Inr (oc_receipt_path oc, oc_receipt oc)"
      and v: "validate_ree_receipt c (oc_receipt oc) = Inr v" "oc_receipt_status oc = (if rv_matches v then ''validated'' else ''parsed'')"
    using run_steps [OF assms] by blast
  from found_receipt [OF f] run_receipt [OF assms] v show ?thesis
    by (auto simp: new_receipts_set)
qed

text \<open>C32: A risk node with a REE runner and the verifier agree: whatever the script left in the cache, if the node
  answers, its receipt is one for the prompt of this thesis, and the claim check of the verifier returns and
  finds the claim of the response valid.\<close>

theorem ree_claim_of_risk_node_is_valid:
  assumes "risk_analyze node (Some (node_ree c loads exec rn workspace files)) now job_id peer_id claim = Inr r"
  shows "\<exists>receipt k. sr_ree_receipt_body r = Some (receipt_fields receipt) \<and>
    rr_prompt receipt = render_ree_prompt (risk_messages claim) \<and>
    check_receipt_claim c r = Inr k \<and> rc_valid k"
  using assms by (rule risk_claim)

subsection \<open>Witnesses\<close>

text \<open>A script that leaves one receipt for its request; the file holds a mark that \<open>loads\<close> reads as it.\<close>

definition run_receipt_for :: "string \<Rightarrow> string \<Rightarrow> ree_receipt" where
  "run_receipt_for model prompt =
     demo_receipt [(''max_new_tokens'', JInt 300)]\<lparr>rr_model_name := model, rr_prompt := prompt, rr_text_output := ''{}''\<rparr>"

definition run_loads :: "string \<Rightarrow> string \<Rightarrow> string \<Rightarrow> json res" where
  "run_loads model prompt _ = Inr (JObj (receipt_fields (run_receipt_for model prompt)))"

definition run_exec :: "string list \<Rightarrow> string \<Rightarrow> receipt_files \<Rightarrow> process_end \<times> receipt_files" where
  "run_exec _ _ files = (Process_ok, dset files ''c/gensyn/t/receipt_1.json'' ''mark'')"

definition run_runner :: ree_runner where
  "run_runner = \<lparr>rn_command = ''ree.sh'', rn_cache_dir = ''c'', rn_cpu_only = False\<rparr>"

lemma run_receipt_valid: "model \<noteq> [] \<Longrightarrow> valid_receipt (run_receipt_for model prompt)"
  using demo_receipt_valid by (simp add: run_receipt_for_def valid_receipt_def)

lemma run_read:
  "model \<noteq> [] \<Longrightarrow> read_receipt (run_loads model prompt) [(''c/gensyn/t/receipt_1.json'', ''mark'')] ''c/gensyn/t/receipt_1.json''
     = Inr (run_receipt_for model prompt)"
  by (simp add: read_receipt_def run_loads_def parse_receipt_fields run_receipt_valid)

lemma run_matches: "receipt_matches_request (run_receipt_for model prompt) (make_ree_request model prompt) False"
  by (simp add: receipt_matches_request_def run_receipt_for_def make_ree_request_def demo_receipt_def Let_def jget_def)

lemma run_paths: "new_receipts run_runner (snapshot_receipts run_runner []) [(''c/gensyn/t/receipt_1.json'', ''mark'')]
    = [''c/gensyn/t/receipt_1.json'']"
  by code_simp

lemma run_found:
  assumes "model \<noteq> []"
  shows "find_new_receipt (run_loads model prompt) run_runner (snapshot_receipts run_runner []) [(''c/gensyn/t/receipt_1.json'', ''mark'')]
      (make_ree_request model prompt) = Inr (''c/gensyn/t/receipt_1.json'', run_receipt_for model prompt)"
  unfolding find_new_receipt_def run_paths Let_def
  by (simp add: matching_receipt_def run_read [OF assms] run_matches [unfolded make_ree_request_def] make_ree_request_def
      run_runner_def some_values_def)

lemma run_validates: "\<exists>v. validate_ree_receipt c (run_receipt_for model prompt) = Inr v"
proof -
  have "\<exists>t. canonical_json (JObj (rr_parameters (run_receipt_for model prompt))) = Inr t"
    unfolding canonical_json_total_iff(1) by (simp add: run_receipt_for_def demo_receipt_def Let_def)
  then show ?thesis by (auto simp: validate_ree_receipt_def Let_def)
qed

lemma run_succeeds:
  assumes "model \<noteq> []"
  shows "\<exists>oc. ree_run c (run_loads model prompt) run_exec run_runner ''w'' (make_ree_request model prompt) []
      = (Inr oc, [(''c/gensyn/t/receipt_1.json'', ''mark'')]) \<and> oc_receipt oc = run_receipt_for model prompt"
proof -
  obtain v where v: "validate_ree_receipt c (run_receipt_for model prompt) = Inr v" using run_validates by blast
  have args: "\<exists>args. build_args run_runner (make_ree_request model prompt) path = Inr args" for path
    using assms by (simp add: build_args_def make_ree_request_def)
  then obtain args where args: "build_args run_runner (make_ree_request model prompt) (''w'' @ ''/prompt.jsonl'') = Inr args" by blast
  show ?thesis
    unfolding ree_run_def args run_exec_def using run_found [OF assms, of prompt] v by (simp add: process_error_def)
qed

lemma ree_run_binds_request_witness:
  "\<exists>oc. ree_run demo_crypto (run_loads ''m'' ''p'') run_exec run_runner ''w'' (make_ree_request ''m'' ''p'') []
      = (Inr oc, [(''c/gensyn/t/receipt_1.json'', ''mark'')]) \<and> bound_to_request (oc_receipt oc) (make_ree_request ''m'' ''p'')"
proof -
  obtain oc where oc: "ree_run demo_crypto (run_loads ''m'' ''p'') run_exec run_runner ''w'' (make_ree_request ''m'' ''p'') []
      = (Inr oc, [(''c/gensyn/t/receipt_1.json'', ''mark'')])"
    using run_succeeds [of "''m''" demo_crypto "''p''"] by auto
  with ree_run_binds_request [OF this] show ?thesis by blast
qed

definition run_model :: "settings \<Rightarrow> string" where
  "run_model cfg = (if cfg_ree_model cfg \<noteq> [] then cfg_ree_model cfg else ''Qwen/Qwen3-0.6B'')"

lemma ree_claim_of_risk_node_is_valid_witness:
  "\<exists>cfg loads r k. risk_analyze (demo_node cfg (Inl (ValueError [])))
      (Some (node_ree demo_crypto loads run_exec run_runner ''w'' [])) ''2026-01-01T00:00:00Z'' ''job-1'' [] ''thesis'' = Inr r \<and>
     check_receipt_claim demo_crypto r = Inr k \<and> rc_valid k"
proof -
  obtain cfg :: settings where cfg: "wallet_ok cfg" using demo_cfg by blast
  have node: "mn_loads (demo_node cfg a) t = a" "mn_registry (demo_node cfg a) = demo_nodes" "mn_settings (demo_node cfg a) = cfg" for a t
    by (simp_all add: demo_node_def)
  define prompt where "prompt = render_ree_prompt (risk_messages ''thesis'')"
  define run where "run = node_ree demo_crypto (run_loads (run_model cfg) prompt) run_exec run_runner ''w'' []"
  have "run_model cfg \<noteq> []" by (simp add: run_model_def)
  from run_succeeds [OF this] obtain oc where
    "fst (ree_run demo_crypto (run_loads (run_model cfg) prompt) run_exec run_runner ''w'' (make_ree_request (run_model cfg) prompt) []) = Inr oc"
    and oc: "oc_receipt oc = run_receipt_for (run_model cfg) prompt"
    by (metis fst_conv)
  then have "run (run_model cfg) prompt = Inr (ree_evidence_of oc)" by (simp add: run_def node_ree_def)
  then have ran: "run (if cfg_ree_model (mn_settings (demo_node cfg a)) \<noteq> [] then cfg_ree_model (mn_settings (demo_node cfg a)) else ''Qwen/Qwen3-0.6B'')
      (render_ree_prompt (risk_messages ''thesis'')) = Inr (ree_evidence_of oc)" for a
    by (simp only: node run_model_def [symmetric] prompt_def [symmetric])
  have ev: "re_receipt_hash (ree_evidence_of oc) \<noteq> []" "unfence (re_text (ree_evidence_of oc)) = Inr ''{}''"
    by (simp_all add: ree_evidence_of_def oc run_receipt_for_def unfence_demo demo_receipt_def Let_def compute_receipt_hash_def)
  have svc: "get_service_for_role (mn_registry (demo_node cfg (Inl (ValueError [])))) ''risk'' = Inr \<lparr>ps_peer_id = ''peer-1'', ps_service_name = ''risk''\<rparr>"
    unfolding node by (rule demo_service) simp
  have wal: "wallet_ok (mn_settings (demo_node cfg (Inl (ValueError []))))" unfolding node by (rule cfg)
  obtain r where r: "risk_analyze (demo_node cfg (Inl (ValueError []))) (Some run) ''2026-01-01T00:00:00Z'' ''job-1'' [] ''thesis'' = Inr r"
    using unstructured_answer [where node = "demo_node cfg (Inl (ValueError []))" and run = run and job_id = "''job-1''"
      and now = "''2026-01-01T00:00:00Z''" and peer_id = "[]", OF ran ev node(1) svc _ _ _ wal] by auto
  with ree_claim_of_risk_node_is_valid [OF r [unfolded run_def]] show ?thesis unfolding run_def by blast
qed

end
