(* ===== verification/Node_Server.thy ===== *)
theory Node_Server
  imports Providers Ree_Runner Chain_Analyst MCP_Router Chain_Receipts
begin

section \<open>The node server (app/nodes/server.py)\<close>

text \<open>
  The process around a specialist: \<open>analyze_payload\<close> turns the JSON a coordinator sends into the answer of
  the service for its role, and a node registers with the router when it starts and deregisters when it
  stops. \<open>node\<close> holds what the process is built from. HTTP to the router is a function of the method, the URL
  and the body over a world; \<open>router_http\<close> is the router of \<open>MCP_Router\<close> behind its route table.

  Shown: an answer of a node carries the job of the payload, the role, and the peer its registry has for the
  role, and so it passes the context check of the coordinator exactly when the selected peer is that one;
  the client errors are those of a missing job, an unknown role and a wrong shape; a regime request goes
  through the router to the node and back in the member \<open>response\<close> of the router's reply, which the client
  decodes and accepts, while it refuses the reply as a whole; and the life of a node at the router: it is
  routable while it runs, but stopping a node that was replaced takes its successor away.
\<close>

subsection \<open>A node\<close>

record node =
  nd_crypto :: crypto
  nd_settings :: settings
  nd_registry :: axl_registry
  nd_complete :: "string \<Rightarrow> (string \<times> string) list \<Rightarrow> string res"
  nd_loads :: "string \<Rightarrow> json res"
  nd_ree :: "ree_runner \<Rightarrow> string \<Rightarrow> string \<Rightarrow> ree_evidence res"
  nd_cache_dir :: string
  nd_read_json :: "string \<Rightarrow> json res"
  nd_fixture :: string
  nd_log1p :: "int \<Rightarrow> float64"
  nd_now :: string

text \<open>The services make their own registry from the same settings.\<close>

definition service_node :: "node \<Rightarrow> model_node" where
  "service_node nd = \<lparr>mn_complete = nd_complete nd, mn_loads = nd_loads nd, mn_settings = nd_settings nd,
     mn_registry = init_registry (nd_settings nd), mn_model = ''gpt-4o-mini''\<rparr>"

definition unprocessable :: "string \<Rightarrow> py_error" where "unprocessable detail = HTTPException 422 detail"

definition regime_request :: "node \<Rightarrow> string \<Rightarrow> jobject \<Rightarrow> specialist_response res" where
  "regime_request nd job_id payload =
     (case jget_or payload ''snapshot'' (JObj []) of
        JObj snapshot \<Rightarrow>
          res_bind (py_float_of (jget_or snapshot ''price_return'' (num 0))) (\<lambda>price_return.
          res_bind (py_float_of (jget_or snapshot ''volatility'' (num (fl (20/100))))) (\<lambda>volatility.
            regime_analyze (nd_settings nd) (init_registry (nd_settings nd)) (nd_now nd) job_id
              \<lparr>rs_price_return = price_return, rs_volatility = volatility\<rparr>))
      | _ \<Rightarrow> Inl (unprocessable ''snapshot must be an object''))"

definition narrative_request :: "node \<Rightarrow> string \<Rightarrow> string \<Rightarrow> jobject \<Rightarrow> specialist_response res" where
  "narrative_request nd job_id peer_id payload =
     (case jget_or payload ''headlines'' (JList []) of
        JList headlines \<Rightarrow> narrative_analyze (service_node nd) (nd_now nd) job_id peer_id (map py_str headlines)
      | _ \<Rightarrow> Inl (unprocessable ''headlines must be a list''))"

definition risk_request :: "node \<Rightarrow> string \<Rightarrow> string \<Rightarrow> jobject \<Rightarrow> specialist_response res" where
  "risk_request nd job_id peer_id payload =
     res_bind (if cfg_signal_count_ree_enabled (nd_settings nd)
         then res_bind (make_ree_runner (cfg_gensyn_sdk_command (nd_settings nd)) (nd_cache_dir nd) (cfg_ree_cpu_only (nd_settings nd)))
           (\<lambda>rn. Inr (Some (nd_ree nd rn)))
         else Inr None) (\<lambda>run_ree.
       risk_analyze (service_node nd) run_ree (nd_now nd) job_id peer_id (str_get payload ''thesis''))"

text \<open>The task and the block that a request for the chain analyst names\<close>

definition analyst_task :: "string \<Rightarrow> string \<Rightarrow> jobject \<Rightarrow> task_spec res" where
  "analyst_task job_id asset payload =
     res_bind (py_int_of (jget_or payload ''horizon_days'' (JInt 30))) (\<lambda>horizon.
       make_task_spec \<lparr>ts_job_id = job_id, ts_thesis = str_get payload ''thesis'', ts_asset = asset, ts_horizon_days = horizon\<rparr>)"

definition asked_block :: "jobject \<Rightarrow> int option res" where
  "asked_block payload =
     (if jget payload ''block_number'' = JNull then Inr None
      else res_bind (py_int_of (jget payload ''block_number'')) (\<lambda>b. Inr (Some b)))"

definition analyst_service :: "settings \<Rightarrow> string \<Rightarrow> analyst_state \<Rightarrow> chain_analyst" where
  "analyst_service s peer_id rpc =
     \<lparr>can_rpc = rpc, can_peer_id = peer_id,
      can_agent_wallet = (if cfg_chain_analyst_wallet s \<noteq> [] then Some (cfg_chain_analyst_wallet s) else None),
      can_metrics = None\<rparr>"

definition analyst_fixture :: "settings \<Rightarrow> string \<Rightarrow> string" where
  "analyst_fixture s bundled =
     (if cfg_chain_analyst_fixture_path s \<noteq> [] then cfg_chain_analyst_fixture_path s else bundled)"

definition analyst_request :: "node \<Rightarrow> string \<Rightarrow> string \<Rightarrow> jobject \<Rightarrow> specialist_response res" where
  "analyst_request nd job_id peer_id payload =
     res_bind (res_bind (nd_read_json nd (analyst_fixture (nd_settings nd) (nd_fixture nd))) analyst_state_of) (\<lambda>rpc.
     res_bind (analyst_task job_id (if str_get payload ''asset'' \<noteq> [] then str_get payload ''asset'' else ''ETH'') payload) (\<lambda>t.
     res_bind (asked_block payload) (\<lambda>block.
       fst (analyze_service (nd_crypto nd) (nd_log1p nd) (ts_job_id t) block (analyst_service (nd_settings nd) peer_id rpc)))))"

definition asked_role :: "settings \<Rightarrow> jobject \<Rightarrow> string" where
  "asked_role s payload = (if truthy (jget payload ''role'') then py_str (jget payload ''role'') else cfg_node_role s)"

definition asked_job :: "jobject \<Rightarrow> string" where
  "asked_job payload = (if truthy (jget payload ''job_id'') then py_str (jget payload ''job_id'') else [])"

definition analyze_payload :: "node \<Rightarrow> jobject \<Rightarrow> specialist_response res" where
  "analyze_payload nd payload =
     (let role = asked_role (nd_settings nd) payload; job_id = asked_job payload in
      if job_id = [] then Inl (unprocessable ''job_id is required'')
      else (case get_service_for_role (nd_registry nd) role of
         Inl e \<Rightarrow> Inl (unprocessable (error_text e))
       | Inr service \<Rightarrow>
           if role = ''regime'' then regime_request nd job_id payload
           else if role = ''narrative'' then narrative_request nd job_id (ps_peer_id service) payload
           else if role = ''risk'' then risk_request nd job_id (ps_peer_id service) payload
           else if role = ''chain_analyst'' then analyst_request nd job_id (ps_peer_id service) payload
           else Inl (unprocessable (''Unsupported node role: '' @ role))))"

definition resolve_service_name :: "settings \<Rightarrow> axl_registry \<Rightarrow> string res" where
  "resolve_service_name s reg =
     (if cfg_node_service_name s \<noteq> [] then Inr (cfg_node_service_name s)
      else res_bind (get_service_for_role reg (cfg_node_role s)) (\<lambda>service. Inr (ps_service_name service)))"

definition node_health :: "settings \<Rightarrow> string \<Rightarrow> json" where
  "node_health s service_name = JObj
     [(''status'', JStr ''ok''), (''role'', JStr (cfg_node_role s)), (''service'', JStr service_name)]"

subsection \<open>At the router\<close>

definition service_endpoint :: "settings \<Rightarrow> string" where
  "service_endpoint s = rstrip_char (CHR ''/'') (cfg_node_public_url s) @ ''/mcp''"

type_synonym 'w http = "string \<Rightarrow> string \<Rightarrow> json option \<Rightarrow> 'w \<Rightarrow> http_result \<times> 'w"

text \<open>The body of the answer is not read: an answer that is no error is enough.\<close>

definition request_json :: "'w http \<Rightarrow> string \<Rightarrow> string \<Rightarrow> json option \<Rightarrow> 'w \<Rightarrow> unit res \<times> 'w" where
  "request_json http url verb payload w =
     (case http verb url payload w of (h, w') \<Rightarrow>
        (case h of
           Http_json _ \<Rightarrow> Inr ()
         | Http_not_json \<Rightarrow> Inr ()
         | Http_raised e \<Rightarrow> Inl e
         | _ \<Rightarrow> Inl (RuntimeError (''AXL MCP router '' @ verb @ '' failed: '' @ url)), w'))"

definition register_with_router :: "'w http \<Rightarrow> string \<Rightarrow> string \<Rightarrow> string \<Rightarrow> 'w \<Rightarrow> unit res \<times> 'w" where
  "register_with_router http router_url service_name endpoint =
     request_json http (rstrip_char (CHR ''/'') router_url @ ''/register'') ''POST''
       (Some (JObj [(''service'', JStr service_name), (''endpoint'', JStr endpoint)]))"

definition deregister_from_router :: "'w http \<Rightarrow> string \<Rightarrow> string \<Rightarrow> 'w \<Rightarrow> unit res \<times> 'w" where
  "deregister_from_router http router_url service_name w =
     (case request_json http (rstrip_char (CHR ''/'') router_url @ ''/register/'' @ service_name) ''DELETE'' None w of
        (Inl (RuntimeError _), w') \<Rightarrow> (Inr (), w')
      | r \<Rightarrow> r)"

definition start_node :: "'w http \<Rightarrow> settings \<Rightarrow> string \<Rightarrow> 'w \<Rightarrow> unit res \<times> 'w" where
  "start_node http s service_name =
     register_with_router http (cfg_axl_mcp_router_url s) service_name (service_endpoint s)"

definition stop_node :: "'w http \<Rightarrow> settings \<Rightarrow> string \<Rightarrow> 'w \<Rightarrow> unit res \<times> 'w" where
  "stop_node http s service_name = deregister_from_router http (cfg_axl_mcp_router_url s) service_name"

text \<open>The route table of \<^verbatim>\<open>run_router\<close> for these two requests. A name of letters, digits, dashes, dots and
  underscores is the same in a URL path; other names are outside the model.\<close>

definition plain_name :: "string \<Rightarrow> bool" where
  "plain_name s \<longleftrightarrow> s \<noteq> [] \<and> list_all (\<lambda>ch. is_digit ch \<or> ch \<in> set ''abcdefghijklmnopqrstuvwxyzABCDEFGHIJKLMNOPQRSTUVWXYZ_-.'') s"

definition reply_result :: "reply res \<Rightarrow> http_result" where
  "reply_result r =
     (case r of
        Inr p \<Rightarrow> if rp_status p = 200 then Http_json (rp_body p) else Http_error (str_of_int (int (rp_status p)))
      | Inl _ \<Rightarrow> Http_error ''500'')"

definition router_http :: "string \<Rightarrow> string \<Rightarrow> services http" where
  "router_http base now verb url payload services =
     (if verb = ''POST'' \<and> url = base @ ''/register'' then
        (case payload of
           None \<Rightarrow> (Http_error ''400'', services)
         | Some v \<Rightarrow> (case handle_register now (Inr v) services of (r, services') \<Rightarrow> (reply_result r, services')))
      else if verb = ''DELETE'' \<and> starts_with (base @ ''/register/'') url \<and> plain_name (drop (length (base @ ''/register/'')) url) then
        (case handle_deregister (drop (length (base @ ''/register/'')) url) services of (r, services') \<Rightarrow> (reply_result r, services'))
      else (Http_error ''404'', services))"

subsection \<open>An answer is about the request\<close>

lemma regime_context:
  "regime_analyze cfg reg now job_id s = Inr r \<Longrightarrow> get_service_for_role reg ''regime'' = Inr peer \<Longrightarrow>
    (sr_job_id r, sr_node_role r, sr_peer_id r) = (job_id, ''regime'', ps_peer_id peer)"
  by (auto simp: regime_analyze_def Let_def res_bind_Inr_iff dest!: respond_valid)

lemma narrative_context:
  "narrative_analyze node now job_id peer_id headlines = Inr r \<Longrightarrow> get_service_for_role (mn_registry node) ''narrative'' = Inr peer \<Longrightarrow>
    (sr_job_id r, sr_node_role r, sr_peer_id r) = (job_id, ''narrative'', if peer_id \<noteq> [] then peer_id else ps_peer_id peer)"
  by (auto simp: narrative_analyze_def res_bind_Inr_iff dest!: respond_valid)

lemma risk_context:
  "risk_analyze node run_ree now job_id peer_id th = Inr r \<Longrightarrow> get_service_for_role (mn_registry node) ''risk'' = Inr peer \<Longrightarrow>
    (sr_job_id r, sr_node_role r, sr_peer_id r) = (job_id, ''risk'', if peer_id \<noteq> [] then peer_id else ps_peer_id peer)"
  by (auto simp: risk_analyze_def res_bind_Inr_iff dest!: respond_valid)

lemma analyst_context:
  "fst (analyze_service c log1p job_id block service) = Inr r \<Longrightarrow>
    (sr_job_id r, sr_node_role r, sr_peer_id r) = (job_id, ''chain_analyst'', can_peer_id service)"
  by (auto simp: analyze_service_def build_response_def res_bind_Inr_iff make_specialist_response_def checked_def
      split: sum.splits if_splits)

definition node_ok :: "node \<Rightarrow> bool" where
  "node_ok nd \<longleftrightarrow> nd_registry nd = init_registry (nd_settings nd)"

lemma answered_service:
  "analyze_payload nd payload = Inr r \<Longrightarrow>
    \<exists>service. get_service_for_role (nd_registry nd) (asked_role (nd_settings nd) payload) = Inr service"
  by (auto simp: analyze_payload_def Let_def split: sum.splits if_splits)

lemma answer_context:
  assumes "analyze_payload nd payload = Inr r" "node_ok nd"
    and service: "get_service_for_role (nd_registry nd) (asked_role (nd_settings nd) payload) = Inr service"
  shows "(sr_job_id r, sr_node_role r, sr_peer_id r) =
    (asked_job payload, asked_role (nd_settings nd) payload, ps_peer_id service)"
proof -
  have reg: "nd_registry nd = init_registry (nd_settings nd)" "mn_registry (service_node nd) = init_registry (nd_settings nd)"
    using assms(2) by (simp_all add: node_ok_def service_node_def)
  consider
      (regime) "asked_role (nd_settings nd) payload = ''regime''" "regime_request nd (asked_job payload) payload = Inr r"
    | (narrative) "asked_role (nd_settings nd) payload = ''narrative''"
        "narrative_request nd (asked_job payload) (ps_peer_id service) payload = Inr r"
    | (risk) "asked_role (nd_settings nd) payload = ''risk''"
        "risk_request nd (asked_job payload) (ps_peer_id service) payload = Inr r"
    | (analyst) "asked_role (nd_settings nd) payload = ''chain_analyst''"
        "analyst_request nd (asked_job payload) (ps_peer_id service) payload = Inr r"
    using assms(1) service by (auto simp: analyze_payload_def Let_def split: if_splits)
  then show ?thesis
  proof cases
    case regime
    then have "\<exists>s. regime_analyze (nd_settings nd) (init_registry (nd_settings nd)) (nd_now nd) (asked_job payload) s = Inr r"
      by (auto simp: regime_request_def res_bind_Inr_iff split: json.splits)
    with regime(1) service reg show ?thesis by (auto dest: regime_context)
  next
    case narrative
    then have "\<exists>hs. narrative_analyze (service_node nd) (nd_now nd) (asked_job payload) (ps_peer_id service) hs = Inr r"
      by (auto simp: narrative_request_def split: json.splits)
    with narrative(1) service reg show ?thesis by (auto dest: narrative_context split: if_splits)
  next
    case risk
    then have "\<exists>run th. risk_analyze (service_node nd) run (nd_now nd) (asked_job payload) (ps_peer_id service) th = Inr r"
      by (auto simp: risk_request_def res_bind_Inr_iff)
    with risk(1) service reg show ?thesis by (auto dest: risk_context split: if_splits)
  next
    case analyst
    then have "\<exists>block rpc. fst (analyze_service (nd_crypto nd) (nd_log1p nd) (asked_job payload) block
        (analyst_service (nd_settings nd) (ps_peer_id service) rpc)) = Inr r"
      by (auto simp: analyst_request_def analyst_task_def make_task_spec_def checked_def res_bind_Inr_iff split: if_splits)
    with analyst(1) show ?thesis by (auto dest!: analyst_context simp: analyst_service_def)
  qed
qed

text \<open>Requests that are turned down\<close>

lemma turned_down:
  "asked_job payload = [] \<Longrightarrow> analyze_payload nd payload = Inl (unprocessable ''job_id is required'')"
  "asked_job payload \<noteq> [] \<Longrightarrow> node_ok nd \<Longrightarrow>
    asked_role (nd_settings nd) payload \<notin> {''regime'', ''narrative'', ''risk'', ''chain_analyst''} \<Longrightarrow>
    analyze_payload nd payload = Inl (unprocessable (error_text (unknown_role (asked_role (nd_settings nd) payload))))"
  by (simp_all add: analyze_payload_def Let_def node_ok_def get_service_for_role_def init_registry_def)

text \<open>What the coordinator asks for\<close>

lemma payload_asks [simp]:
  "role \<noteq> [] \<Longrightarrow> asked_role s (build_payload role job_id rq market headlines) = role"
  "asked_job (build_payload role job_id rq market headlines) = job_id"
  by (simp_all add: asked_role_def asked_job_def build_payload_def jget_def)

lemma context_passes:
  "sr_job_id r = job_id \<Longrightarrow> sr_node_role r = role \<Longrightarrow> validate_response_context r job_id role peer_id = Inr r \<longleftrightarrow> sr_peer_id r = peer_id"
  by (simp add: validate_response_context_def)


lemma accepted_from_primary:
  assumes "analyze_payload nd (build_payload role job_id rq market headlines) = Inr r" "node_ok nd" "role \<noteq> []"
  shows "validate_response_context r job_id role peer_id = Inr r \<longleftrightarrow>
    (\<exists>service. get_service_for_role (init_registry (nd_settings nd)) role = Inr service \<and> ps_peer_id service = peer_id)"
proof -
  obtain service where service: "get_service_for_role (nd_registry nd) role = Inr service"
    using answered_service [OF assms(1)] assms(3) by auto
  have "(sr_job_id r, sr_node_role r, sr_peer_id r) = (job_id, role, ps_peer_id service)"
    using answer_context [OF assms(1,2)] service assms(3) by simp
  moreover have "get_service_for_role (init_registry (nd_settings nd)) role = Inr service"
    using service assms(2) by (simp add: node_ok_def)
  ultimately show ?thesis by (simp add: context_passes)
qed

subsection \<open>A round of the regime role\<close>

lemma snapshot_field:
  "jget_or (snapshot_values rq @ m) ''price_return'' v =
     num (py_round 3 (fadd (fl (2/100)) (fmul (horizon_scale (tr_horizon_days rq)) (fl (6/100)))))"
  "jget_or (snapshot_values rq @ m) ''volatility'' v =
     num (py_round 3 (fadd (fl (15/100)) (fmul (horizon_scale (tr_horizon_days rq)) (fl (1/10)))))"
  by (simp_all add: snapshot_values_def Let_def jget_or_def)

lemma py_float_num [simp]: "py_float_of (num x) = Inr (Fin x)"
  by (simp add: py_float_of_def num_def)

definition primary_ok :: "settings \<Rightarrow> bool" where
  "primary_ok s \<longleftrightarrow> cfg_regime_peer_id s \<noteq> [] \<and> wallet_ok s"

lemma regime_service: "get_service_for_role (init_registry s) ''regime'' =
    Inr \<lparr>ps_peer_id = cfg_regime_peer_id s, ps_service_name = cfg_regime_service_name s\<rparr>"
  by (simp add: get_service_for_role_def init_registry_def Let_def)

lemma regime_node_answers:
  assumes "node_ok nd" "primary_ok (nd_settings nd)" "job_id \<noteq> []" "nd_now nd \<noteq> []"
    and market: "fetch_snapshot c now rq = Inr market"
  shows "\<exists>r. analyze_payload nd (build_payload ''regime'' job_id rq market headlines) = Inr r \<and> valid_specialist_response r \<and>
    finite_json (specialist_response_json r) \<and> sr_job_id r = job_id \<and> sr_node_role r = ''regime'' \<and>
    sr_peer_id r = cfg_regime_peer_id (nd_settings nd)"
proof -
  obtain m where m: "market = snapshot_values rq @ [(''source_metadata'', JObj m)]"
    using snapshot_hashed [of c now rq] market by auto
  have req: "analyze_payload nd (build_payload ''regime'' job_id rq market headlines) =
      regime_request nd job_id (build_payload ''regime'' job_id rq market headlines)"
    using assms(1,3) by (simp add: analyze_payload_def Let_def node_ok_def regime_service)
  have "jget_or (build_payload ''regime'' job_id rq market headlines) ''snapshot'' (JObj []) = JObj market"
    by (simp add: build_payload_def jget_or_def)
  then have "regime_request nd job_id (build_payload ''regime'' job_id rq market headlines) =
      regime_analyze (nd_settings nd) (init_registry (nd_settings nd)) (nd_now nd) job_id
        \<lparr>rs_price_return = Fin (py_round 3 (fadd (fl (2/100)) (fmul (horizon_scale (tr_horizon_days rq)) (fl (6/100))))),
         rs_volatility = Fin (py_round 3 (fadd (fl (15/100)) (fmul (horizon_scale (tr_horizon_days rq)) (fl (1/10)))))\<rparr>"
    by (simp add: regime_request_def m snapshot_field)
  then show ?thesis
    using regime_response [OF regime_service, of "nd_settings nd" job_id "nd_now nd"] assms(2-4) req
    by (auto simp: primary_ok_def)
qed

subsection \<open>A node at the router\<close>

lemma starts_with_same [simp]:
  "starts_with (p @ s) (p @ t) \<longleftrightarrow> starts_with s t" "starts_with [] t"
  "starts_with (ch # s) (ch' # t) \<longleftrightarrow> ch = ch' \<and> starts_with s t"
  by (auto simp: starts_with_def)

lemma delete_absent: "dget d k = None \<Longrightarrow> AList.delete k d = d"
  by (induction d) (auto split: if_splits)

lemma endpoint_nonempty: "service_endpoint s \<noteq> []"
  by (simp add: service_endpoint_def)

definition entry_of :: "string \<Rightarrow> settings \<Rightarrow> service_entry" where
  "entry_of now s = \<lparr>sv_endpoint = JStr (service_endpoint s), sv_registered_at = now, sv_healthy = True\<rparr>"

lemma start_registers:
  assumes "rstrip_char (CHR ''/'') (cfg_axl_mcp_router_url s) = base" "name \<noteq> []"
  shows "start_node (router_http base now) s name d = (Inr (), dset d (JStr name) (entry_of now s))"
  using assms endpoint_nonempty [of s]
  by (simp add: start_node_def register_with_router_def request_json_def router_http_def handle_register_def Let_def
      get_attribute_def field_or_def reply_result_def entry_of_def hashable_def)

lemma stop_deregisters:
  assumes "rstrip_char (CHR ''/'') (cfg_axl_mcp_router_url s) = base" "plain_name name"
  shows "stop_node (router_http base now) s name d = (Inr (), AList.delete (JStr name) d)"
proof -
  have n: "name \<noteq> []" using assms(2) by (simp add: plain_name_def)
  show ?thesis
    using assms n
    by (cases "dget d (JStr name)")
      (simp_all add: stop_node_def deregister_from_router_def request_json_def router_http_def handle_deregister_def
        reply_result_def error_reply_def delete_absent)
qed

text \<open>A request for a service of this name, and what the router makes of it\<close>

definition route_to :: "string \<Rightarrow> services \<Rightarrow> (reply + routed_request) res" where
  "route_to name d = route_start d (Inr (JObj [(''service'', JStr name)]))"

lemma route_to_cases:
  "name \<noteq> [] \<Longrightarrow> dget d (JStr name) = None \<Longrightarrow> route_to name d = Inr (Inl (route_error 404 (''Service not found: '' @ name)))"
  "name \<noteq> [] \<Longrightarrow> dget d (JStr name) = Some e \<Longrightarrow> \<exists>rq. route_to name d = Inr (Inr rq) \<and> rq_endpoint rq = sv_endpoint e"
  by (auto simp: route_to_def route_start_def get_attribute_def field_or_def hashable_def Let_def)

lemma delete_dget: "dget (AList.delete k d) k' = (if k' = k then None else dget d k')"
  by (simp add: delete_conv')

lemma node_life:
  assumes "rstrip_char (CHR ''/'') (cfg_axl_mcp_router_url s) = base" "plain_name name"
    and "start_node (router_http base now) s name d = (a, d1)"
    and "stop_node (router_http base now) s name d2 = (a', d3)"
  shows "a = Inr () \<and> a' = Inr () \<and> (\<exists>rq. route_to name d1 = Inr (Inr rq) \<and> rq_endpoint rq = JStr (service_endpoint s)) \<and>
    route_to name d3 = Inr (Inl (route_error 404 (''Service not found: '' @ name))) \<and>
    (\<forall>k. k \<noteq> JStr name \<longrightarrow> dget d1 k = dget d k \<and> dget d3 k = dget d2 k)"
proof -
  have n: "name \<noteq> []" using assms(2) by (simp add: plain_name_def)
  have d1: "a = Inr ()" "d1 = dset d (JStr name) (entry_of now s)"
    using assms(3) start_registers [OF assms(1) n] by auto
  have d3: "a' = Inr ()" "d3 = AList.delete (JStr name) d2"
    using assms(4) stop_deregisters [OF assms(1,2)] by auto
  have "dget d1 (JStr name) = Some (entry_of now s)" "dget d3 (JStr name) = None"
    by (simp_all add: d1 d3 update_conv' delete_dget)
  note at_router = this
  obtain routed where "route_to name d1 = Inr (Inr routed)" "rq_endpoint routed = JStr (service_endpoint s)"
    using route_to_cases(2) [OF n at_router(1)] by (auto simp: entry_of_def)
  moreover have "dget d1 k = dget d k \<and> dget d3 k = dget d2 k" if "k \<noteq> JStr name" for k
    using that by (simp add: d1 d3 update_conv' delete_dget)
  ultimately show ?thesis using route_to_cases(1) [OF n at_router(2)] d1(1) d3(1) by blast
qed

text \<open>The request that reaches the router for a payload of the coordinator, and the node's answer on its way
  back. What the AXL bridge between the client and the router makes of either is not part of the repository.\<close>

definition bridged :: "string \<Rightarrow> string \<Rightarrow> jobject \<Rightarrow> json" where
  "bridged name from_peer payload =
     JObj [(''service'', JStr name), (''request'', JObj payload), (''from_peer_id'', JStr from_peer)]"

lemma wrapped_is_refused: "\<exists>e. specialist_response_of_json [(''response'', v), (''error'', w)] = Inl e"
  by (simp add: specialist_response_of_json_def str_field_def invalid_def)

lemma routed_round:
  assumes base: "rstrip_char (CHR ''/'') (cfg_axl_mcp_router_url (nd_settings nd)) = base" and name: "name \<noteq> []"
    and start: "start_node (router_http base now) (nd_settings nd) name d = (a, d1)"
    and node: "node_ok nd" "primary_ok (nd_settings nd)" "nd_now nd \<noteq> []" and job: "job_id \<noteq> []"
    and market: "fetch_snapshot c now' rq = Inr market"
    and payload: "payload = build_payload ''regime'' job_id rq market headlines"
  shows "\<exists>routed r body wrapped d2.
     route_start d1 (Inr (bridged name from_peer payload)) = Inr (Inr routed) \<and>
     rq_endpoint routed = JStr (service_endpoint (nd_settings nd)) \<and> rq_request routed = JObj payload \<and>
     analyze_payload nd payload = Inr r \<and> valid_specialist_response r \<and> served (Inr r) = Http_json (JObj body) \<and>
     route_finish routed (Answered 200 (Inr (JObj body))) d1 = (Inr \<lparr>rp_status = 200, rp_body = JObj wrapped\<rparr>, d2) \<and>
     jget wrapped ''response'' = JObj body \<and> jget wrapped ''error'' = JNull \<and>
     (\<exists>e. specialist_response_of_json wrapped = Inl e) \<and> specialist_response_of_json body = Inr r \<and>
     (\<forall>peer_id. validate_response_context r job_id ''regime'' peer_id = Inr r \<longleftrightarrow> peer_id = cfg_regime_peer_id (nd_settings nd))"
proof -
  obtain r where r: "analyze_payload nd payload = Inr r" "valid_specialist_response r" "finite_json (specialist_response_json r)"
      "sr_job_id r = job_id" "sr_node_role r = ''regime''" "sr_peer_id r = cfg_regime_peer_id (nd_settings nd)"
    using regime_node_answers [OF node(1,2) job node(3) market, of headlines] payload by blast
  have d1: "dget d1 (JStr name) = Some (entry_of now (nd_settings nd))"
    using start start_registers [OF base name, of now d] by (auto simp: update_conv')
  define routed where "routed = \<lparr>rq_service = JStr name, rq_endpoint = JStr (service_endpoint (nd_settings nd)),
    rq_request = JObj payload, rq_from_peer_id = JStr from_peer\<rparr>"
  have "route_start d1 (Inr (bridged name from_peer payload)) = Inr (Inr routed)"
    using name d1 by (simp add: route_start_def bridged_def get_attribute_def field_or_def hashable_def Let_def entry_of_def
        routed_def jget_def)
  moreover have "\<exists>d2. route_finish routed (Answered 200 (Inr v)) d1 = (Inr (route_answer v), d2)" for v
    using d1 by (simp add: route_finish_def set_health_def routed_def Let_def)
  then obtain d2 where "route_finish routed (Answered 200 (Inr (specialist_response_json r))) d1 =
      (Inr \<lparr>rp_status = 200, rp_body = JObj [(''response'', specialist_response_json r), (''error'', JNull)]\<rparr>, d2)"
    by (auto simp: route_answer_def)
  moreover have "served (Inr r) = Http_json (JObj (specialist_response_fields r))"
    using r(3) by (simp add: served_def specialist_response_json_def)
  moreover have "specialist_response_of_json (specialist_response_fields r) = Inr r"
    using specialist_response_roundtrip [OF r(2)] by (simp add: specialist_response_json_def)
  moreover have "validate_response_context r job_id ''regime'' peer_id = Inr r \<longleftrightarrow> peer_id = sr_peer_id r" for peer_id
    using r by (auto simp: validate_response_context_def Let_def)
  ultimately show ?thesis
    using r wrapped_is_refused
    by (intro exI [of _ routed] exI [of _ r] exI [of _ "specialist_response_fields r"]
        exI [of _ "[(''response'', specialist_response_json r), (''error'', JNull)]"] exI [of _ d2])
      (simp add: routed_def jget_def specialist_response_json_def)
qed

subsection \<open>Properties\<close>

text \<open>C34: A node that answers a payload of the coordinator is believed exactly when the coordinator asked the
  peer that the settings of the node name for the role: the answer carries the job and the role of the
  payload, for all four roles, and this one peer id.\<close>

theorem node_answer_accepted:
  assumes "analyze_payload nd (build_payload role job_id rq market headlines) = Inr r" "node_ok nd" "role \<noteq> []"
  shows "validate_response_context r job_id role peer_id = Inr r \<longleftrightarrow>
    (\<exists>service. get_service_for_role (init_registry (nd_settings nd)) role = Inr service \<and> ps_peer_id service = peer_id)"
  using assms by (rule accepted_from_primary)

text \<open>C35: A round of the regime role, up to the bridge: once a node has started, a request with the payload
  that the coordinator builds from the market fixture is routed to the endpoint of the node, the node
  answers it and can serialise the answer, and the router returns it with status 200 as the member
  response beside a null error. The client decodes that member to the very response of the node and
  accepts it from the configured peer only; the whole reply of the router it would refuse, so the AXL
  bridge has to hand on the member.\<close>

theorem regime_round_through_router:
  assumes base: "rstrip_char (CHR ''/'') (cfg_axl_mcp_router_url (nd_settings nd)) = base" and name: "name \<noteq> []"
    and start: "start_node (router_http base now) (nd_settings nd) name d = (a, d1)"
    and node: "node_ok nd" "primary_ok (nd_settings nd)" "nd_now nd \<noteq> []" and job: "job_id \<noteq> []"
    and market: "fetch_snapshot c now' rq = Inr market"
    and payload: "payload = build_payload ''regime'' job_id rq market headlines"
  shows "\<exists>routed r body wrapped d2.
     route_start d1 (Inr (bridged name from_peer payload)) = Inr (Inr routed) \<and>
     rq_endpoint routed = JStr (service_endpoint (nd_settings nd)) \<and> rq_request routed = JObj payload \<and>
     analyze_payload nd payload = Inr r \<and> valid_specialist_response r \<and> served (Inr r) = Http_json (JObj body) \<and>
     route_finish routed (Answered 200 (Inr (JObj body))) d1 = (Inr \<lparr>rp_status = 200, rp_body = JObj wrapped\<rparr>, d2) \<and>
     jget wrapped ''response'' = JObj body \<and> jget wrapped ''error'' = JNull \<and>
     (\<exists>e. specialist_response_of_json wrapped = Inl e) \<and> specialist_response_of_json body = Inr r \<and>
     (\<forall>peer_id. validate_response_context r job_id ''regime'' peer_id = Inr r \<longleftrightarrow> peer_id = cfg_regime_peer_id (nd_settings nd))"
  using assms by (rule routed_round)

text \<open>C36: A node that starts is routable under its name at its own endpoint, and once a node that stops has
  deregistered the name is not found, whatever ran under it in between; no other service is touched. So a node
  that stops after its replacement has started takes the replacement out of the router.\<close>

theorem stopping_deregisters_whoever_runs:
  assumes "rstrip_char (CHR ''/'') (cfg_axl_mcp_router_url s) = base" "plain_name name"
    and "start_node (router_http base now) s name d = (a, d1)"
    and "stop_node (router_http base now) s name d2 = (a', d3)"
  shows "a = Inr () \<and> a' = Inr () \<and> (\<exists>rq. route_to name d1 = Inr (Inr rq) \<and> rq_endpoint rq = JStr (service_endpoint s)) \<and>
    route_to name d3 = Inr (Inl (route_error 404 (''Service not found: '' @ name))) \<and>
    (\<forall>k. k \<noteq> JStr name \<longrightarrow> dget d1 k = dget d k \<and> dget d3 k = dget d2 k)"
  using assms by (rule node_life)

subsection \<open>Examples\<close>

definition demo_node_server :: "settings \<Rightarrow> node" where
  "demo_node_server cfg =
     (let s = cfg\<lparr>cfg_node_wallet_address := [], cfg_regime_peer_id := ''peer-1''\<rparr> in
      \<lparr>nd_crypto = demo_crypto, nd_settings = s, nd_registry = init_registry s,
       nd_complete = demo_llm_complete (\<lambda>_. ''{}''), nd_loads = (\<lambda>_. Inl (ValueError [])), nd_ree = (\<lambda>_ _ _. Inl (RuntimeError [])),
       nd_cache_dir = ''/root/.cache/gensyn'', nd_read_json = (\<lambda>_. Inl (OtherError ''FileNotFoundError'')), nd_fixture = ''chain_state.json'',
       nd_log1p = (\<lambda>_. 0), nd_now = ''2026-01-01T00:00:00Z''\<rparr>)"

lemma demo_node_server [simp]:
  "node_ok (demo_node_server cfg)" "primary_ok (nd_settings (demo_node_server cfg))"
  "nd_now (demo_node_server cfg) \<noteq> []" "cfg_regime_peer_id (nd_settings (demo_node_server cfg)) = ''peer-1''"
  by (simp_all add: demo_node_server_def node_ok_def primary_ok_def wallet_ok_def Let_def)

lemma node_answer_accepted_witness:
  "\<exists>cfg market r. analyze_payload (demo_node_server cfg) (build_payload ''regime'' ''job-1'' Dispatch.demo_request market []) = Inr r \<and>
     validate_response_context r ''job-1'' ''regime'' ''peer-1'' = Inr r \<and>
     validate_response_context r ''job-1'' ''regime'' ''peer-2'' \<noteq> Inr r"
proof -
  obtain cfg :: settings where "wallet_ok cfg" using demo_cfg by blast
  obtain m where m: "fetch_snapshot demo_crypto ''2026-01-01T00:00:00Z'' Dispatch.demo_request = Inr m"
    using snapshot_hashed by blast
  obtain r where r: "analyze_payload (demo_node_server cfg) (build_payload ''regime'' ''job-1'' Dispatch.demo_request m []) = Inr r"
    using regime_node_answers [OF demo_node_server(1,2) _ demo_node_server(3) m, of "''job-1''" cfg "[]"] by auto
  from node_answer_accepted [OF r demo_node_server(1)] r show ?thesis
    by (intro exI [of _ cfg] exI [of _ m] exI [of _ r]) (simp add: regime_service)
qed

lemma regime_round_through_router_witness:
  "\<exists>cfg market r body. analyze_payload (demo_node_server cfg) (build_payload ''regime'' ''job-1'' Dispatch.demo_request market []) = Inr r \<and>
     specialist_response_of_json body = Inr r \<and> validate_response_context r ''job-1'' ''regime'' ''peer-1'' = Inr r"
proof -
  obtain cfg :: settings where "wallet_ok cfg" using demo_cfg by blast
  obtain m where m: "fetch_snapshot demo_crypto ''2026-01-01T00:00:00Z'' Dispatch.demo_request = Inr m"
    using snapshot_hashed by blast
  obtain r body where "analyze_payload (demo_node_server cfg) (build_payload ''regime'' ''job-1'' Dispatch.demo_request m []) = Inr r"
      "specialist_response_of_json body = Inr r" "validate_response_context r ''job-1'' ''regime'' ''peer-1'' = Inr r"
    using regime_round_through_router [where name = "''regime_analyst''" and job_id = "''job-1''" and headlines = "[]"
        and from_peer = "''peer-0''" and d = "[]" and now = "''2026-01-01T00:00:00+00:00''",
        OF refl _ prod.collapse [symmetric] demo_node_server(1-3) _ m refl, of cfg]
    by auto
  then show ?thesis by blast
qed

definition demo_router :: "settings \<Rightarrow> string \<Rightarrow> settings" where
  "demo_router cfg url = cfg\<lparr>cfg_axl_mcp_router_url := ''http://router:9003/'', cfg_node_public_url := url\<rparr>"

lemma stopping_deregisters_whoever_runs_witness:
  "\<exists>cfg. let http = router_http ''http://router:9003'' ''2026-01-01T00:00:00+00:00'';
       d1 = snd (start_node http (demo_router cfg ''http://old:7101'') ''risk_analyst'' []);
       d2 = snd (start_node http (demo_router cfg ''http://new:7101'') ''risk_analyst'' d1);
       d3 = snd (stop_node http (demo_router cfg ''http://old:7101'') ''risk_analyst'' d2)
     in route_to ''risk_analyst'' d3 = Inr (Inl (route_error 404 ''Service not found: risk_analyst''))"
proof -
  obtain cfg :: settings where "wallet_ok cfg" using demo_cfg by blast
  have url: "rstrip_char (CHR ''/'') (cfg_axl_mcp_router_url (demo_router cfg ''http://old:7101'')) = ''http://router:9003''"
    by (simp add: demo_router_def rstrip_char_def)
  have name: "plain_name ''risk_analyst''" by (simp add: plain_name_def)
  show ?thesis
    using stopping_deregisters_whoever_runs [OF url name prod.collapse [symmetric] prod.collapse [symmetric]]
    by (intro exI [of _ cfg]) (simp add: Let_def)
qed

end
