(* ===== verification/Offline_Demo.thy ===== *)
theory Offline_Demo
  imports Node_Server
begin

section \<open>The offline transport (app/demo/offline_transport.py)\<close>

text \<open>
  The transport a coordinator uses in place of the AXL client when the offline demo is on. It answers inside
  the process: the regime and the chain analyst compute, the narrative and the risk specialist are canned
  texts, and one role of the settings is forced to time out. The surroundings (settings, registry, clock,
  files) are those of a \<open>node\<close>.

  Shown: for a payload of the coordinator the three market roles answer with a valid response that the
  context check accepts, unless the role is the forced one, which reads as a time-out, or the asked regime
  peer is not the primary one of the settings: the regime answer ignores the asked peer.
\<close>

definition offline_fetch_topology :: "node \<Rightarrow> jobject res" where
  "offline_fetch_topology nd =
     res_bind (map_res (get_service_for_role (nd_registry nd)) [''regime'', ''narrative'', ''risk'', ''chain_analyst'']) (\<lambda>services. Inr
       [(''mode'', JStr ''offline-demo-preview''), (''local_peer_id'', JStr ''offline-coordinator-preview''),
        (''peers'', str_list (map ps_peer_id services))])"

definition offline_run_metadata :: "settings \<Rightarrow> jobject" where
  "offline_run_metadata s =
     [(''transport'', JStr ''offline-preview''), (''run_mode'', JStr ''offline-demo-preview''),
      (''axl_local_base_url'', JStr (cfg_axl_local_base_url s)), (''axl_mcp_router_url'', JStr (cfg_axl_mcp_router_url s))]"

definition job_of_payload :: "jobject \<Rightarrow> string res" where
  "job_of_payload payload = res_bind (raw_field payload ''job_id'') (\<lambda>v. Inr (py_str v))"

definition canned_view :: "rat \<Rightarrow> rat \<Rightarrow> rat \<Rightarrow> scenario_view" where
  "canned_view bull base bear = \<lparr>sv_bull = Fin (fl bull), sv_base = Fin (fl base), sv_bear = Fin (fl bear)\<rparr>"

definition canned_response ::
    "string \<Rightarrow> string \<Rightarrow> string \<Rightarrow> string \<Rightarrow> string \<Rightarrow> scenario_view \<Rightarrow> string list \<Rightarrow> string list \<Rightarrow> rat \<Rightarrow> string list \<Rightarrow> specialist_response" where
  "canned_response now job_id role peer_id summary view signals risks confidence citations =
     \<lparr>sr_job_id = job_id, sr_node_role = role, sr_peer_id = peer_id, sr_summary = summary, sr_scenario_view = view,
      sr_signals = signals, sr_risks = risks, sr_confidence = fl confidence, sr_citations = citations, sr_timestamp = now,
      sr_agent_wallet = None, sr_ree_receipt_hash = None, sr_receipt_status = None, sr_ree_prompt_hash = None,
      sr_ree_tokens_hash = None, sr_ree_model_name = None, sr_ree_receipt_body = None, sr_ree_receipt_path = None\<rparr>"

text \<open>A string of headlines iterates over its characters.\<close>

definition offline_headlines :: "jobject \<Rightarrow> string list res" where
  "offline_headlines payload =
     (case jget_or payload ''headlines'' (JList []) of
        JList items \<Rightarrow> Inr (concat (map (\<lambda>v. case v of JStr s \<Rightarrow> if strip s \<noteq> [] then [s] else [] | _ \<Rightarrow> []) items))
      | JStr s \<Rightarrow> Inr (filter (\<lambda>w. strip w \<noteq> []) (map (\<lambda>ch. [ch]) s))
      | JObj d \<Rightarrow> Inr (filter (\<lambda>w. strip w \<noteq> []) (dkeys d))
      | _ \<Rightarrow> Inl (TypeError ''object is not iterable''))"

definition offline_narrative :: "string \<Rightarrow> string \<Rightarrow> string \<Rightarrow> jobject \<Rightarrow> specialist_response res" where
  "offline_narrative now peer_id service_name payload =
     res_bind (offline_headlines payload) (\<lambda>headlines.
     res_bind (job_of_payload payload) (\<lambda>job_id.
       make_specialist_response (canned_response now job_id ''narrative'' peer_id
         ''Narrative support is constructive but not decisive; the thesis still depends on flow confirmation and stable liquidity.''
         (canned_view (42/100) (38/100) (20/100))
         [''catalyst: ETF flow improvement would support the upside case.'',
          ''scenario_frame: stable liquidity keeps the base case intact.'', ''service: '' @ service_name]
         [''unknown: headline context is limited in offline preview mode.'']
         (62/100) headlines)))"

definition offline_risk :: "string \<Rightarrow> string \<Rightarrow> string \<Rightarrow> jobject \<Rightarrow> specialist_response res" where
  "offline_risk now peer_id service_name payload =
     res_bind (job_of_payload payload) (\<lambda>job_id.
       make_specialist_response (canned_response now job_id ''risk'' peer_id
         ''The thesis fails if flow data weakens, liquidity deteriorates, or ETH loses support while volatility expands.''
         (canned_view (25/100) (35/100) (40/100))
         [''counter_thesis: improving flows may already be priced in.'',
          ''invalidation: ETF flows turn negative for several sessions.'',
          ''invalidation: liquidity conditions tighten materially.'', ''service: '' @ service_name]
         [''risk: macro volatility can pressure high beta assets.'',
          ''risk: a support break would weaken the thesis setup.'',
          ''risk: single-thesis analysis should not be treated as advice.'']
         (68/100) []))"

definition offline_regime :: "node \<Rightarrow> jobject \<Rightarrow> specialist_response res" where
  "offline_regime nd payload =
     res_bind (job_of_payload payload) (\<lambda>job_id.
     res_bind (attributes (jget_or payload ''snapshot'' (JObj []))) (\<lambda>snapshot.
     res_bind (py_float_of (jget_or snapshot ''price_return'' (num 0))) (\<lambda>price_return.
     res_bind (py_float_of (jget_or snapshot ''volatility'' (num (fl (20/100))))) (\<lambda>volatility.
       regime_analyze (nd_settings nd) (init_registry (nd_settings nd)) (nd_now nd) job_id
         \<lparr>rs_price_return = price_return, rs_volatility = volatility\<rparr>))))"

definition offline_analyst :: "node \<Rightarrow> string \<Rightarrow> jobject \<Rightarrow> specialist_response res" where
  "offline_analyst nd peer_id payload =
     res_bind (res_bind (nd_read_json nd (analyst_fixture (nd_settings nd) (nd_fixture nd))) analyst_state_of) (\<lambda>rpc.
     res_bind (job_of_payload payload) (\<lambda>job_id.
     res_bind (analyst_task job_id (py_str (jget_or payload ''asset'' (JStr ''ETH''))) payload) (\<lambda>t.
     res_bind (asked_block payload) (\<lambda>block.
       fst (analyze_service (nd_crypto nd) (nd_log1p nd) (ts_job_id t) block (analyst_service (nd_settings nd) peer_id rpc))))))"

definition offline_dispatch :: "node \<Rightarrow> string \<Rightarrow> string \<Rightarrow> jobject \<Rightarrow> specialist_response res" where
  "offline_dispatch nd peer_id service_name payload =
     res_bind (raw_field payload ''role'') (\<lambda>v.
     let role = py_str v in
       if role = cfg_signal_count_offline_fail_role (nd_settings nd)
         then Inl (TimeoutError (''offline preview forced '' @ role @ '' timeout''))
       else if role = ''regime'' then offline_regime nd payload
       else if role = ''narrative'' then offline_narrative (nd_now nd) peer_id service_name payload
       else if role = ''risk'' then offline_risk (nd_now nd) peer_id service_name payload
       else if role = ''chain_analyst'' then offline_analyst nd peer_id payload
       else Inl (ValueError (''Unknown offline demo role: '' @ role)))"

definition offline_env :: "node \<Rightarrow> float64 \<Rightarrow> (nat \<Rightarrow> float64) \<Rightarrow> role_env" where
  "offline_env nd started clock =
     \<lparr>re_dispatch = (\<lambda>_ service payload. offline_dispatch nd (ps_peer_id service) (ps_service_name service) payload),
      re_started = started, re_clock = clock\<rparr>"

subsection \<open>Answers\<close>

lemma payload_fields [simp]:
  "raw_field (build_payload role job_id rq market headlines) ''role'' = Inr (JStr role)"
  "job_of_payload (build_payload role job_id rq market headlines) = Inr job_id"
  by (simp_all add: raw_field_def job_of_payload_def build_payload_def)

lemma canned_fields [simp]:
  "sr_job_id (canned_response now job_id role peer_id summary view signals risks confidence citations) = job_id"
  "sr_node_role (canned_response now job_id role peer_id summary view signals risks confidence citations) = role"
  "sr_peer_id (canned_response now job_id role peer_id summary view signals risks confidence citations) = peer_id"
  "sr_citations (canned_response now job_id role peer_id summary view signals risks confidence citations) = citations"
  "job_id \<noteq> [] \<Longrightarrow> role \<noteq> [] \<Longrightarrow> peer_id \<noteq> [] \<Longrightarrow> summary \<noteq> [] \<Longrightarrow> now \<noteq> [] \<Longrightarrow> 0 \<le> confidence \<Longrightarrow> confidence \<le> 1 \<Longrightarrow>
    valid_specialist_response (canned_response now job_id role peer_id summary view signals risks confidence citations)"
  using fl_nonneg [of confidence] fl_mono [of confidence 1]
  by (simp_all add: canned_response_def valid_specialist_response_def unit_ok_def opt_ok_def)

lemma valid_accepted: "valid_specialist_response r \<Longrightarrow> make_specialist_response r = Inr r"
  by (simp add: make_specialist_response_def checked_def)

lemma offline_risk_answers:
  "job_id \<noteq> [] \<Longrightarrow> peer_id \<noteq> [] \<Longrightarrow> now \<noteq> [] \<Longrightarrow>
    \<exists>r. offline_risk now peer_id service_name (build_payload role job_id rq market headlines) = Inr r \<and>
      valid_specialist_response r \<and> sr_job_id r = job_id \<and> sr_node_role r = ''risk'' \<and> sr_peer_id r = peer_id"
  by (simp add: offline_risk_def valid_accepted)

lemma kept_headlines:
  "concat (map (\<lambda>v. case v of JStr s \<Rightarrow> if strip s \<noteq> [] then [s] else [] | _ \<Rightarrow> []) (map JStr hs)) = filter (\<lambda>w. strip w \<noteq> []) hs"
  by (induction hs) auto

lemma offline_narrative_answers:
  "job_id \<noteq> [] \<Longrightarrow> peer_id \<noteq> [] \<Longrightarrow> now \<noteq> [] \<Longrightarrow>
    \<exists>r. offline_narrative now peer_id service_name (build_payload ''narrative'' job_id rq market headlines) = Inr r \<and>
      valid_specialist_response r \<and> sr_job_id r = job_id \<and> sr_node_role r = ''narrative'' \<and> sr_peer_id r = peer_id \<and>
      sr_citations r = filter (\<lambda>w. strip w \<noteq> []) headlines"
proof -
  have "offline_headlines (build_payload ''narrative'' job_id rq market headlines) = Inr (filter (\<lambda>w. strip w \<noteq> []) headlines)"
    using kept_headlines [of headlines] by (simp add: offline_headlines_def build_payload_def jget_or_def str_list_def)
  then show "job_id \<noteq> [] \<Longrightarrow> peer_id \<noteq> [] \<Longrightarrow> now \<noteq> [] \<Longrightarrow> ?thesis"
    by (simp add: offline_narrative_def valid_accepted)
qed

lemma offline_regime_answers:
  assumes "node_ok nd" "primary_ok (nd_settings nd)" "job_id \<noteq> []" "nd_now nd \<noteq> []"
    and "fetch_snapshot c now rq = Inr market"
  shows "\<exists>r. offline_regime nd (build_payload ''regime'' job_id rq market headlines) = Inr r \<and> valid_specialist_response r \<and>
    sr_job_id r = job_id \<and> sr_node_role r = ''regime'' \<and> sr_peer_id r = cfg_regime_peer_id (nd_settings nd)"
proof -
  obtain m where m: "market = snapshot_values rq @ [(''source_metadata'', JObj m)]"
    using snapshot_hashed [of c now rq] assms(5) by auto
  have "jget_or (build_payload ''regime'' job_id rq market headlines) ''snapshot'' (JObj []) = JObj market"
    by (simp add: build_payload_def jget_or_def)
  then have "offline_regime nd (build_payload ''regime'' job_id rq market headlines) =
      regime_analyze (nd_settings nd) (init_registry (nd_settings nd)) (nd_now nd) job_id
        \<lparr>rs_price_return = Fin (py_round 3 (fadd (fl (2/100)) (fmul (horizon_scale (tr_horizon_days rq)) (fl (6/100))))),
         rs_volatility = Fin (py_round 3 (fadd (fl (15/100)) (fmul (horizon_scale (tr_horizon_days rq)) (fl (1/10)))))\<rparr>"
    by (simp add: offline_regime_def m snapshot_field attributes_def)
  then show ?thesis
    using regime_response [OF regime_service, of "nd_settings nd" job_id "nd_now nd"] assms(2-4)
    by (auto simp: primary_ok_def)
qed

definition offline_peer_ok :: "node \<Rightarrow> string \<Rightarrow> string \<Rightarrow> bool" where
  "offline_peer_ok nd role peer_id \<longleftrightarrow> (if role = ''regime'' then peer_id = cfg_regime_peer_id (nd_settings nd) else peer_id \<noteq> [])"

lemma offline_answer:
  assumes "node_ok nd" "primary_ok (nd_settings nd)" "job_id \<noteq> []" "nd_now nd \<noteq> []" "ps_peer_id service \<noteq> []"
    and "fetch_snapshot c now rq = Inr market" "role \<in> {''regime'', ''narrative'', ''risk''}"
    and "role \<noteq> cfg_signal_count_offline_fail_role (nd_settings nd)"
  shows "\<exists>r. offline_dispatch nd (ps_peer_id service) (ps_service_name service) (build_payload role job_id rq market headlines) = Inr r \<and>
    valid_specialist_response r \<and> sr_job_id r = job_id \<and> sr_node_role r = role \<and>
    sr_peer_id r = (if role = ''regime'' then cfg_regime_peer_id (nd_settings nd) else ps_peer_id service)"
proof -
  have eq: "offline_dispatch nd (ps_peer_id service) (ps_service_name service) (build_payload role job_id rq market headlines) =
      (if role = ''regime'' then offline_regime nd (build_payload role job_id rq market headlines)
       else if role = ''narrative'' then
         offline_narrative (nd_now nd) (ps_peer_id service) (ps_service_name service) (build_payload role job_id rq market headlines)
       else offline_risk (nd_now nd) (ps_peer_id service) (ps_service_name service) (build_payload role job_id rq market headlines))"
    using assms(7,8) by (auto simp: offline_dispatch_def Let_def)
  consider "role = ''regime''" | "role = ''narrative''" | "role = ''risk''" using assms(7) by blast
  then show ?thesis
  proof cases
    case 1
    with offline_regime_answers [OF assms(1-4,6)] show ?thesis unfolding eq by simp
  next
    case 2
    with offline_narrative_answers [OF assms(3,5,4)] show ?thesis unfolding eq by fastforce
  next
    case 3
    with offline_risk_answers [OF assms(3,5,4)] show ?thesis unfolding eq by simp
  qed
qed

lemma offline_attempt:
  assumes "node_ok nd" "primary_ok (nd_settings nd)" "job_id \<noteq> []" "nd_now nd \<noteq> []" "ps_peer_id service \<noteq> []"
    and "fetch_snapshot c now rq = Inr market" "role \<in> {''regime'', ''narrative'', ''risk''}"
  shows "case attempt (offline_env nd started clock) role job_id attempted service (build_payload role job_id rq market headlines) of
      Inr r \<Rightarrow> valid_specialist_response r \<and> role \<noteq> cfg_signal_count_offline_fail_role (nd_settings nd) \<and>
        (role = ''regime'' \<longrightarrow> ps_peer_id service = cfg_regime_peer_id (nd_settings nd))
    | Inl e \<Rightarrow> failure_status e = (if role = cfg_signal_count_offline_fail_role (nd_settings nd) then ''timed_out'' else ''invalid_response'')
        \<and> (role = cfg_signal_count_offline_fail_role (nd_settings nd) \<or>
           role = ''regime'' \<and> ps_peer_id service \<noteq> cfg_regime_peer_id (nd_settings nd))"
proof (cases "role = cfg_signal_count_offline_fail_role (nd_settings nd)")
  case True
  then show ?thesis by (simp add: attempt_def offline_env_def offline_dispatch_def failure_status_def)
next
  case False
  from offline_answer [OF assms False] obtain r where r:
      "offline_dispatch nd (ps_peer_id service) (ps_service_name service) (build_payload role job_id rq market headlines) = Inr r"
      "valid_specialist_response r" "sr_job_id r = job_id" "sr_node_role r = role"
      "sr_peer_id r = (if role = ''regime'' then cfg_regime_peer_id (nd_settings nd) else ps_peer_id service)"
    by blast
  have "attempt (offline_env nd started clock) role job_id attempted service (build_payload role job_id rq market headlines) =
      validate_response_context r job_id role (ps_peer_id service)"
    by (simp add: attempt_def offline_env_def r(1))
  then show ?thesis
    using r False by (simp add: validate_response_context_def failure_status_def)
qed

subsection \<open>Properties\<close>

text \<open>C37: An attempt of the coordinator over the offline transport ends in a valid response unless the role is
  the one the settings force to fail, which reads as timed_out, or the role is the regime and another peer than
  the primary one was asked, which reads as an invalid response; nothing else happens to the three roles.\<close>

theorem offline_attempt_outcome:
  assumes "node_ok nd" "primary_ok (nd_settings nd)" "job_id \<noteq> []" "nd_now nd \<noteq> []" "ps_peer_id service \<noteq> []"
    and "fetch_snapshot c now rq = Inr market" "role \<in> {''regime'', ''narrative'', ''risk''}"
  shows "case attempt (offline_env nd started clock) role job_id attempted service (build_payload role job_id rq market headlines) of
      Inr r \<Rightarrow> valid_specialist_response r \<and> role \<noteq> cfg_signal_count_offline_fail_role (nd_settings nd) \<and>
        (role = ''regime'' \<longrightarrow> ps_peer_id service = cfg_regime_peer_id (nd_settings nd))
    | Inl e \<Rightarrow> failure_status e = (if role = cfg_signal_count_offline_fail_role (nd_settings nd) then ''timed_out'' else ''invalid_response'')
        \<and> (role = cfg_signal_count_offline_fail_role (nd_settings nd) \<or>
           role = ''regime'' \<and> ps_peer_id service \<noteq> cfg_regime_peer_id (nd_settings nd))"
  using assms by (rule offline_attempt)

lemma case_error: "(case x of Inl e \<Rightarrow> P e | Inr r \<Rightarrow> Q r) \<Longrightarrow> (\<And>r. \<not> Q r) \<Longrightarrow> \<exists>e. x = Inl e"
  by (cases x) auto

lemma offline_attempt_outcome_witness:
  "\<exists>cfg market e. attempt (offline_env (demo_node_server cfg) 0 (\<lambda>_. 0)) ''regime'' ''job-1'' [] \<lparr>ps_peer_id = ''peer-2'', ps_service_name = ''regime_analyst''\<rparr>
      (build_payload ''regime'' ''job-1'' Dispatch.demo_request market []) = Inl e"
proof -
  obtain cfg :: settings where "wallet_ok cfg" using demo_cfg by blast
  obtain m where m: "fetch_snapshot demo_crypto ''2026-01-01T00:00:00Z'' Dispatch.demo_request = Inr m"
    using snapshot_hashed by blast
  note outcome = offline_attempt_outcome [OF demo_node_server(1,2) _ demo_node_server(3) _ m, where job_id = "''job-1''" and
      service = "\<lparr>ps_peer_id = ''peer-2'', ps_service_name = ''regime_analyst''\<rparr>" and role = "''regime''"]
  show ?thesis
    by (intro exI [of _ cfg] exI [of _ m], rule case_error, rule outcome) simp_all
qed

end
