(* ===== verification/Public_Evidence.thy ===== *)
theory Public_Evidence
  imports Ree_Runner Chain_Analyst Chain_Receipts Providers
begin

section \<open>The public evidence (app/evidence/public_fixture.py, scripts/build_public_evidence.py)\<close>

text \<open>
  The builder of the public evidence runs the program's own parts over a fixture: it registers the candidates
  of each role, selects a peer, signs the response of the fixture with a key derived from the role, lets the
  verifier judge it and checks every signature and receipt claim again. A bundle is three files: the evidence,
  the environment record and a manifest with the checksums of the sources. The files of the repository are a
  \<open>repository\<close> (bytes by path, with the decoder and the JSON reader), an output directory is a dictionary of
  entries, and the JSON text of the files is written out by \<open>pretty_json\<close>.

  Shown: the evidence does not depend on the settings of the environment; when it is built, every signature
  verifies, every attestation is accepted with a score at the threshold and every receipt claim is valid; a
  written bundle verifies, and a directory verifies only when it holds the same three files.
\<close>

subsection \<open>JSON text with indentation\<close>

text \<open>\<^verbatim>\<open>json.dumps(v, indent=2, sort_keys=True)\<close>: characters outside the printable ASCII range are escaped, and
  the floats that are no numbers have names.\<close>

definition ascii_char :: "char \<Rightarrow> string" where
  "ascii_char ch = (let n = char_code ch in
     if 127 \<le> n then [char_of (92::nat), CHR ''u'', CHR ''0'', CHR ''0'', hex_digit (n div 16), hex_digit (n mod 16)]
     else json_char ch)"

definition ascii_string :: "string \<Rightarrow> string" where
  "ascii_string s = [char_of (34::nat)] @ concat (map ascii_char s) @ [char_of (34::nat)]"

definition pretty_float :: "pyfloat \<Rightarrow> string" where
  "pretty_float f = (case f of Fin x \<Rightarrow> float_repr x | NaN \<Rightarrow> ''NaN'' | PosInf \<Rightarrow> ''Infinity'' | NegInf \<Rightarrow> ''-Infinity'')"

definition line_of :: "nat \<Rightarrow> string" where
  "line_of level = newline @ replicate (2 * level) (CHR '' '')"

definition block :: "string \<Rightarrow> string \<Rightarrow> nat \<Rightarrow> string list \<Rightarrow> string" where
  "block opening closing level items =
     (if items = [] then opening @ closing
      else opening @ join '','' (map (\<lambda>t. line_of (Suc level) @ t) items) @ line_of level @ closing)"

fun pretty_json :: "nat \<Rightarrow> json \<Rightarrow> string" and pretty_items :: "nat \<Rightarrow> json list \<Rightarrow> string list"
  and pretty_fields :: "nat \<Rightarrow> (string \<times> json) list \<Rightarrow> (string \<times> string) list" where
  "pretty_json level JNull = ''null''"
| "pretty_json level (JBool b) = (if b then ''true'' else ''false'')"
| "pretty_json level (JInt i) = str_of_int i"
| "pretty_json level (JFloat f) = pretty_float f"
| "pretty_json level (JStr s) = ascii_string s"
| "pretty_json level (JList vs) = block ''['' '']'' level (pretty_items (Suc level) vs)"
| "pretty_json level (JObj d) = block ''{'' ''}'' level
     (map (\<lambda>(k, t). ascii_string k @ '': '' @ t) (sort_key fst (pretty_fields (Suc level) d)))"
| "pretty_items level [] = []"
| "pretty_items level (v # vs) = pretty_json level v # pretty_items level vs"
| "pretty_fields level [] = []"
| "pretty_fields level ((k, v) # d) = (k, pretty_json level v) # pretty_fields level d"

definition render_json :: "json \<Rightarrow> string" where
  "render_json v = pretty_json 0 v @ newline"

subsection \<open>The repository\<close>

record repository =
  rp_bytes :: "string \<Rightarrow> string res"
  rp_decode :: "string \<Rightarrow> string res"
  rp_loads :: "string \<Rightarrow> json res"

definition fixture_path :: string where "fixture_path = ''app/evidence/fixtures/public_signed_run.json''"
definition ree_receipt_path :: string where "ree_receipt_path = ''app/ree/fixtures/synthetic_public_receipt.json''"
definition testnet_source_path :: string where "testnet_source_path = ''docs/gensyn-contracts.md''"
definition lock_path :: string where "lock_path = ''requirements-lock.txt''"
definition evidence_explorer_url :: string where "evidence_explorer_url = ''https://gensyn-testnet.explorer.alchemy.com''"

definition read_text :: "repository \<Rightarrow> string \<Rightarrow> string res" where
  "read_text rp path = res_bind (rp_bytes rp path) (rp_decode rp)"

definition read_json :: "repository \<Rightarrow> string \<Rightarrow> json res" where
  "read_json rp path = res_bind (read_text rp path) (rp_loads rp)"

definition sha256_file :: "crypto \<Rightarrow> repository \<Rightarrow> string \<Rightarrow> string res" where
  "sha256_file c rp path = res_bind (rp_bytes rp path) (\<lambda>b. Inr (sha256_digest c b))"

definition fixture_private_key :: "crypto \<Rightarrow> string \<Rightarrow> string" where
  "fixture_private_key c label = ''0x'' @ sha256_digest c (''signal-count-public-fixture-key:'' @ label)"

subsection \<open>The documented deployments\<close>

definition expect :: "string \<Rightarrow> string \<Rightarrow> string option" where
  "expect p s = (if starts_with p s then Some (drop (length p) s) else None)"

text \<open>A cell of the table: a bar, the body between two marks, and the white space around\<close>

definition table_cell :: "char \<Rightarrow> char \<Rightarrow> string \<Rightarrow> (string \<times> string) option" where
  "table_cell opening closing s =
     Option.bind (expect ''|'' s) (\<lambda>s.
     Option.bind (expect [opening] (lstrip s)) (\<lambda>s.
     Option.bind (expect [closing] (dropWhile (\<lambda>ch. ch \<noteq> closing) s)) (\<lambda>rest.
       Some (takeWhile (\<lambda>ch. ch \<noteq> closing) s, lstrip rest))))"

definition reference_ok :: "string \<Rightarrow> string \<Rightarrow> string \<Rightarrow> string \<Rightarrow> bool" where
  "reference_ok contract address tx url \<longleftrightarrow>
     contract \<noteq> [] \<and> hex_pattern 40 address \<and> hex_pattern 64 tx \<and> starts_with ''https://'' url \<and>
     length url > 8 \<and> \<not> list_ex is_space url"

definition reference_row :: "string \<Rightarrow> (string \<times> jobject) option" where
  "reference_row line =
     Option.bind (table_cell (CHR 0x60) (CHR 0x60) line) (\<lambda>(contract, s).
     Option.bind (table_cell (CHR 0x60) (CHR 0x60) s) (\<lambda>(address, s).
     Option.bind (table_cell (CHR 0x60) (CHR 0x60) s) (\<lambda>(tx, s).
     Option.bind (table_cell (CHR ''<'') (CHR ''>'') s) (\<lambda>(url, s).
       if s = ''|'' \<and> reference_ok contract address tx url
         then Some (contract, [(''address'', JStr address), (''deployment_transaction'', JStr tx), (''explorer_url'', JStr url)])
         else None))))"

fun documented_rows :: "string list \<Rightarrow> (string, jobject) pydict \<Rightarrow> (string, jobject) pydict res" where
  "documented_rows [] rows = Inr rows"
| "documented_rows (line # lines) rows =
     (case reference_row line of
        None \<Rightarrow> documented_rows lines rows
      | Some (contract, row) \<Rightarrow>
          if dget rows contract \<noteq> None then Inl (ValueError (''duplicate testnet contract row: '' @ contract))
          else documented_rows lines (dset rows contract row))"

definition testnet_reference :: "(string, jobject) pydict \<Rightarrow> json \<Rightarrow> json res" where
  "testnet_reference rows reference =
     res_bind (subscript reference ''contract'') (\<lambda>contract.
     res_bind (subscript reference ''deployment_transaction'') (\<lambda>tx.
     res_bind (subscript reference ''address'') (\<lambda>address.
     let url = explorer_tx_url (py_str tx) evidence_explorer_url in
       if dget rows (py_str contract) \<noteq>
           Some [(''address'', JStr (py_str address)), (''deployment_transaction'', JStr (py_str tx)), (''explorer_url'', JStr url)]
         then Inl (ValueError ''testnet reference does not match its exact structured row in docs/gensyn-contracts.md'')
       else res_bind (as_mapping reference) (\<lambda>d. Inr (JObj (dmerge d
         [(''explorer_url'', JStr url), (''status'', JStr ''documented_historical_reference''),
          (''rpc_receipt_reverified'', JBool False)]))))))"

definition build_testnet_references :: "repository \<Rightarrow> json list \<Rightarrow> json list res" where
  "build_testnet_references rp references =
     res_bind (read_text rp testnet_source_path) (\<lambda>source_text.
     res_bind (documented_rows (splitlines source_text) []) (\<lambda>rows.
       map_res (testnet_reference rows) references))"

subsection \<open>The settings of the roles\<close>

definition set_role :: "string \<Rightarrow> string \<Rightarrow> string \<Rightarrow> string \<Rightarrow> settings \<Rightarrow> settings" where
  "set_role role peer_id service_name candidates s =
     (if role = ''regime'' then s\<lparr>cfg_regime_peer_id := peer_id, cfg_regime_service_name := service_name, cfg_regime_peer_candidates := candidates\<rparr>
      else if role = ''narrative'' then
        s\<lparr>cfg_narrative_peer_id := peer_id, cfg_narrative_service_name := service_name, cfg_narrative_peer_candidates := candidates\<rparr>
      else s\<lparr>cfg_risk_peer_id := peer_id, cfg_risk_service_name := service_name, cfg_risk_peer_candidates := candidates\<rparr>)"

text \<open>What a loop goes through: items, keys or characters\<close>

definition json_items :: "json \<Rightarrow> json list res" where
  "json_items v =
     (case v of JList vs \<Rightarrow> Inr vs | JObj d \<Rightarrow> Inr (map JStr (dkeys d)) | JStr s \<Rightarrow> Inr (map (\<lambda>ch. JStr [ch]) s)
      | _ \<Rightarrow> Inl (TypeError ''object is not iterable''))"

definition role_settings :: "settings \<Rightarrow> json \<Rightarrow> settings res" where
  "role_settings s role_fixture =
     res_bind (subscript role_fixture ''role'') (\<lambda>r.
     let role = py_str r in
     if role \<notin> {''regime'', ''narrative'', ''risk''} then Inl (KeyError role)
     else
     res_bind (subscript role_fixture ''service_name'') (\<lambda>n.
     res_bind (res_bind (subscript role_fixture ''candidates'') json_items) (\<lambda>vs.
       case map py_str vs of
         [] \<Rightarrow> Inl IndexError
       | peer_id # others \<Rightarrow>
           Inr (set_role role peer_id (py_str n)
             (join '','' (map (\<lambda>p. p @ ''|'' @ py_str n) (peer_id # others))) s))))"

text \<open>
  \<^verbatim>\<open>Settings(**values)\<close>: a field that \<open>values\<close> names has that value, every other field the one that the
  class reads from the environment. The argument is the settings of the environment alone, and every role
  overrides its three fields of it; a later role of the same name overrides an earlier one, as in the
  dictionary.
\<close>

fun settings_for_roles :: "settings \<Rightarrow> json list \<Rightarrow> settings res" where
  "settings_for_roles s [] = Inr s"
| "settings_for_roles s (role_fixture # roles) = res_bind (role_settings s role_fixture) (\<lambda>s. settings_for_roles s roles)"

subsection \<open>One role\<close>

record evidence_row =
  er_role :: string
  er_candidates :: "peer_capability list"
  er_selection :: peer_selection
  er_execution :: signed_agent_execution
  er_attestation :: verification_attestation
  er_execution_valid :: bool
  er_attestation_valid :: bool
  er_receipt_check :: receipt_claim_check

text \<open>Keyword arguments: a field that is given twice is a \<open>TypeError\<close>.\<close>

definition given_fields :: "(string \<times> json) list \<Rightarrow> jobject \<Rightarrow> jobject res" where
  "given_fields args values =
     (if list_ex (\<lambda>k. k \<in> set (dkeys args)) (dkeys values)
        then Inl (TypeError ''got multiple values for keyword argument'')
      else Inr (args @ values))"

definition receipt_claim_fields :: "json \<Rightarrow> jobject res" where
  "receipt_claim_fields receipt_body =
     res_bind (subscript receipt_body ''receipt_hash'') (\<lambda>receipt_hash.
     res_bind (subscript receipt_body ''prompt_hash'') (\<lambda>prompt_hash.
     res_bind (subscript receipt_body ''tokens_hash'') (\<lambda>tokens_hash.
     res_bind (subscript receipt_body ''model_name'') (\<lambda>model_name.
       Inr [(''ree_receipt_hash'', receipt_hash), (''receipt_status'', JStr ''validated''), (''ree_prompt_hash'', prompt_hash),
            (''ree_tokens_hash'', tokens_hash), (''ree_model_name'', model_name), (''ree_receipt_body'', receipt_body)]))))"

definition fixture_response ::
    "json \<Rightarrow> json \<Rightarrow> string \<Rightarrow> string \<Rightarrow> string \<Rightarrow> string \<Rightarrow> specialist_response res" where
  "fixture_response receipt_body role_fixture job_id role peer_id wallet =
     res_bind (res_bind (subscript role_fixture ''response'') as_mapping) (\<lambda>response_values.
     res_bind (if role = ''risk'' then res_bind (receipt_claim_fields receipt_body) (\<lambda>fs. Inr (dmerge response_values fs))
               else Inr response_values) (\<lambda>values.
     res_bind (given_fields
         [(''job_id'', JStr job_id), (''node_role'', JStr role), (''peer_id'', JStr peer_id), (''agent_wallet'', JStr wallet)] values)
       specialist_response_of_json))"

definition evidence_row_of ::
    "crypto \<Rightarrow> verifier \<Rightarrow> axl_registry \<Rightarrow> jobject option \<Rightarrow> task_spec \<Rightarrow> json \<Rightarrow> json \<Rightarrow> evidence_row res" where
  "evidence_row_of c v reg topology task receipt_body role_fixture =
     res_bind (subscript role_fixture ''role'') (\<lambda>r.
     let role = py_str r; private_key = fixture_private_key c role in
     res_bind (list_candidates reg role topology [] {}) (\<lambda>candidates.
     res_bind (select_for_role reg role topology [] {}) (\<lambda>selection.
     let peer_id = ps_peer_id (sel_service selection) in
     res_bind (wallet_address_from_private_key c private_key) (\<lambda>wallet.
     res_bind (fixture_response receipt_body role_fixture (ts_job_id task) role peer_id wallet) (\<lambda>response.
     res_bind (sign_agent_execution c task response \<lparr>ai_role = role, ai_peer_id = peer_id, ai_wallet = wallet\<rparr> private_key) (\<lambda>execution.
     res_bind (verify_execution c v execution) (\<lambda>attestation.
     res_bind (verify_signed_execution c execution) (\<lambda>execution_valid.
     res_bind (verify_verification_attestation c attestation) (\<lambda>attestation_valid.
     res_bind (check_receipt_claim c response) (\<lambda>receipt_check. Inr
       \<lparr>er_role = role, er_candidates = candidates, er_selection = selection, er_execution = execution,
        er_attestation = attestation, er_execution_valid = execution_valid, er_attestation_valid = attestation_valid,
        er_receipt_check = receipt_check\<rparr>))))))))))"

definition route_json :: "evidence_row \<Rightarrow> json" where
  "route_json row =
     (let service = sel_service (er_selection row) in JObj
       [(''role'', JStr (er_role row)),
        (''candidates'', JList (map (\<lambda>p. JObj
           [(''peer_id'', JStr (pc_peer_id p)), (''service_name'', JStr (pc_service_name p)), (''health'', JStr (pc_health p)),
            (''reputation_score'', JFloat (pc_reputation_score p))]) (er_candidates row))),
        (''selected_peer_id'', JStr (ps_peer_id service)), (''selected_service_name'', JStr (ps_service_name service)),
        (''selection_reason'', JStr (sel_reason (er_selection row))),
        (''dispatch_target'', JStr (''/mcp/'' @ ps_peer_id service @ ''/'' @ ps_service_name service)),
        (''dispatch_executed'', JBool False)])"

definition receipt_check_json :: "evidence_row \<Rightarrow> json" where
  "receipt_check_json row =
     (case claim_check_json (er_receipt_check row) of JObj d \<Rightarrow> JObj ((''role'', JStr (er_role row)) # d) | v \<Rightarrow> v)"

definition row_checked :: "evidence_row \<Rightarrow> bool" where
  "row_checked row \<longleftrightarrow> er_execution_valid row \<and> er_attestation_valid row \<and> va_status (er_attestation row) = ''accepted'' \<and>
     rc_valid (er_receipt_check row)"

subsection \<open>The document\<close>

definition claim_boundaries :: "string list" where
  "claim_boundaries =
     [''All thesis, topology, responses, identities, and keys are public synthetic fixtures.'',
      ''Routing selection used the repository application capability registry; no AXL dispatch or live network call ran.'',
      ''The REE-shaped receipt is synthetic; validated binds its prompt, parameters, and text output to component hashes and the component hashes to the master commitment, but is not model inference or external re-execution.'',
      ''Commit/config source bytes and non-content receipt metadata are not locally reconstructed; the signed fixture envelope binds the serialized response, not a real REE identity.'',
      ''No testnet transaction was submitted or queried; deployment transactions are historical documentation references only.'',
      ''This artifact is not evidence of users, production operation, trading performance, economic security, or protocol security.'']"

definition build_command :: string where
  "build_command = ''python scripts/build_public_evidence.py --out evidence/public-fixture-v1''"

definition verify_command :: string where
  "verify_command = ''python scripts/build_public_evidence.py --verify evidence/public-fixture-v1''"

definition reproduction_json :: "string \<Rightarrow> json" where
  "reproduction_json lock_hash = JObj
     [(''install_commands'', str_list
        [''python -m pip install --require-hashes --only-binary=:all: -r requirements-lock.txt'',
         ''python -m pip install --no-deps --no-build-isolation -e .'']),
      (''build_command'', JStr build_command), (''verify_command'', JStr verify_command),
      (''credentials_required'', JList []), (''dependency_lock'', JStr lock_path), (''dependency_lock_sha256'', JStr lock_hash)]"

definition testnet_provenance_json :: "string \<Rightarrow> json list \<Rightarrow> json" where
  "testnet_provenance_json source_hash references = JObj
     [(''network'', JStr ''Gensyn Testnet''), (''chain_id'', JInt 685685), (''source'', JStr testnet_source_path),
      (''source_sha256'', JStr source_hash), (''network_lookup_performed'', JBool False), (''references'', JList references)]"

definition summary_json :: "evidence_row list \<Rightarrow> bool \<Rightarrow> json" where
  "summary_json rows all_checks_passed = JObj
     [(''signed_executions'', JInt (int (length rows))),
      (''valid_execution_signatures'', JInt (int (length (filter er_execution_valid rows)))),
      (''signed_verifier_attestations'', JInt (int (length rows))),
      (''valid_verifier_signatures'', JInt (int (length (filter er_attestation_valid rows)))),
      (''all_attestations_accepted'', JBool (list_all (\<lambda>row. va_status (er_attestation row) = ''accepted'') rows)),
      (''all_receipt_claims_valid'', JBool (list_all (\<lambda>row. rc_valid (er_receipt_check row)) rows)),
      (''all_checks_passed'', JBool all_checks_passed)]"

definition all_checks :: "nat \<Rightarrow> evidence_row list \<Rightarrow> bool" where
  "all_checks n rows \<longleftrightarrow>
     length (filter er_execution_valid rows) = n \<and> length (filter er_attestation_valid rows) = n \<and>
     list_all (\<lambda>row. va_status (er_attestation row) = ''accepted'') rows \<and>
     list_all (\<lambda>row. rc_valid (er_receipt_check row)) rows"

definition topology_argument :: "json \<Rightarrow> jobject option res" where
  "topology_argument v =
     (case v of JObj d \<Rightarrow> Inr (Some d) | _ \<Rightarrow> if truthy v then Inl (OtherError ''AttributeError'') else Inr None)"

definition public_verifier :: "crypto \<Rightarrow> verifier res" where
  "public_verifier c = make_verifier (1/2) (fixture_private_key c ''verifier'') ''risk-only-ree'' True"

definition evidence_document ::
    "json \<Rightarrow> string \<Rightarrow> string \<Rightarrow> string \<Rightarrow> task_spec \<Rightarrow> json list \<Rightarrow> evidence_row list \<Rightarrow> json" where
  "evidence_document topology fixture_hash source_hash lock_hash task references rows = JObj
     [(''schema'', JStr ''signal-count.public-signed-run-evidence/v1''),
      (''mode'', JStr ''credential-free-deterministic-fixture''),
      (''source_fixture'', JObj [(''path'', JStr fixture_path), (''sha256'', JStr fixture_hash)]),
      (''task'', task_spec_json task), (''topology'', topology), (''routing_selection'', JList (map route_json rows)),
      (''signed_executions'', JList (map (\<lambda>row. signed_execution_json (er_execution row)) rows)),
      (''verifier_attestations'', JList (map (\<lambda>row. attestation_json (er_attestation row)) rows)),
      (''receipt_claim_checks'', JList (map receipt_check_json rows)),
      (''historical_testnet_provenance'', testnet_provenance_json source_hash references),
      (''verification_summary'', summary_json rows True), (''claim_boundaries'', str_list claim_boundaries),
      (''reproduction'', reproduction_json lock_hash)]"

definition as_task :: "json \<Rightarrow> task_spec res" where
  "as_task v = (case v of JObj d \<Rightarrow> task_spec_of_json d | _ \<Rightarrow> invalid ''TaskSpec'')"

text \<open>What the fixture gives: the task, the topology, the roles and the references\<close>

definition fixture_parts :: "repository \<Rightarrow> (json \<times> task_spec \<times> json \<times> json list) res" where
  "fixture_parts rp =
     res_bind (read_json rp fixture_path) (\<lambda>fixture.
     res_bind (read_json rp ree_receipt_path) (\<lambda>receipt_body.
     res_bind (res_bind (subscript fixture ''task'') as_task) (\<lambda>task.
     res_bind (subscript fixture ''topology'') (\<lambda>topology.
     res_bind (res_bind (subscript fixture ''roles'') json_items) (\<lambda>roles.
       Inr (receipt_body, task, topology, roles))))))"

definition evidence_rows ::
    "crypto \<Rightarrow> settings \<Rightarrow> json \<Rightarrow> task_spec \<Rightarrow> json \<Rightarrow> json list \<Rightarrow> evidence_row list res" where
  "evidence_rows c s receipt_body task topology roles =
     res_bind (settings_for_roles s roles) (\<lambda>s.
     res_bind (public_verifier c) (\<lambda>v.
       map_res (\<lambda>role_fixture. res_bind (topology_argument topology) (\<lambda>topo.
         evidence_row_of c v (init_registry s) topo task receipt_body role_fixture)) roles))"

definition historical_references :: "repository \<Rightarrow> json list res" where
  "historical_references rp =
     res_bind (read_json rp fixture_path) (\<lambda>fixture.
     res_bind (res_bind (subscript fixture ''historical_testnet_references'') json_items) (build_testnet_references rp))"

definition build_public_evidence :: "crypto \<Rightarrow> settings \<Rightarrow> repository \<Rightarrow> json res" where
  "build_public_evidence c s rp =
     res_bind (fixture_parts rp) (\<lambda>(receipt_body, task, topology, roles).
     res_bind (evidence_rows c s receipt_body task topology roles) (\<lambda>rows.
     res_bind (historical_references rp) (\<lambda>references.
       if \<not> all_checks (length roles) rows
         then Inl (ValueError ''public fixture failed one or more verification checks'')
       else
       res_bind (sha256_file c rp fixture_path) (\<lambda>fixture_hash.
       res_bind (sha256_file c rp testnet_source_path) (\<lambda>source_hash.
       res_bind (sha256_file c rp lock_path) (\<lambda>lock_hash.
         Inr (evidence_document topology fixture_hash source_hash lock_hash task references rows)))))))"

subsection \<open>The environment record and the manifest\<close>

definition locked_version :: "string list \<Rightarrow> string \<Rightarrow> json res" where
  "locked_version lock_lines package =
     (case map (takeWhile (\<lambda>ch. \<not> is_space ch)) (filter (starts_with (package @ ''=='')) lock_lines) of
        [requirement] \<Rightarrow> Inr (JStr (remove_prefix (package @ ''=='') requirement))
      | _ \<Rightarrow> Inl (ValueError (''expected exactly one locked '' @ package @ '' requirement'')))"

definition locked_build_toolchain :: "repository \<Rightarrow> json res" where
  "locked_build_toolchain rp =
     res_bind (read_text rp lock_path) (\<lambda>t.
     res_bind (map_res (\<lambda>package. res_bind (locked_version (splitlines t) package) (\<lambda>v. Inr (package, v)))
        [''pip'', ''setuptools'', ''wheel'']) (\<lambda>versions. Inr (JObj versions)))"

definition build_environment_record :: "crypto \<Rightarrow> repository \<Rightarrow> json res" where
  "build_environment_record c rp =
     res_bind (sha256_file c rp lock_path) (\<lambda>lock_hash.
     res_bind (locked_build_toolchain rp) (\<lambda>toolchain. Inr (JObj
       [(''schema'', JStr ''signal-count.evidence-environment/v1''),
        (''canonical_generation_environment'', JObj
           [(''operating_system'', JStr ''Ubuntu 24.04''), (''kernel'', JStr ''Linux 6.17.0-35-generic''),
            (''architecture'', JStr ''x86_64''), (''python'', JStr ''CPython 3.12.3''), (''dependency_lock'', JStr lock_path),
            (''dependency_lock_sha256'', JStr lock_hash), (''dependency_lock_mode'', JStr ''version-and-sha256''),
            (''build_toolchain'', toolchain)]),
        (''runtime_contract'', JObj
           [(''python'', JStr ''>=3.11''), (''network_required'', JBool False), (''credentials_required'', JList [])]),
        (''limitations'', str_list
           [''This environment record is provenance for the canonical bytes, not a remote attestation.'',
            ''Semantic verification is expected to remain deterministic on supported Python versions with the locked dependencies.''])])))"

definition source_paths :: "string list" where
  "source_paths =
     [fixture_path, ree_receipt_path, testnet_source_path, lock_path, ''app/axl/registry.py'', ''app/chain/explorer.py'',
      ''app/config/settings.py'', ''app/evidence/public_fixture.py'', ''app/evaluation/attestations.py'',
      ''app/evaluation/scoring.py'', ''app/identity/canonical.py'', ''app/identity/hashing.py'', ''app/identity/signing.py'',
      ''app/nodes/verifier/service.py'', ''app/ree/claims.py'', ''app/ree/receipts.py'', ''app/ree/validator.py'',
      ''app/schemas/contracts.py'', ''.github/workflows/ci.yml'', ''pyproject.toml'', ''requirements-dev.txt'',
      ''requirements.txt'', ''scripts/build_public_evidence.py'']"

definition build_manifest :: "crypto \<Rightarrow> repository \<Rightarrow> string \<Rightarrow> string \<Rightarrow> json res" where
  "build_manifest c rp evidence_bytes environment_bytes =
     res_bind (map_res (\<lambda>path. res_bind (sha256_file c rp path) (\<lambda>h. Inr (path, JStr h))) source_paths) (\<lambda>sources. Inr (JObj
       [(''schema'', JStr ''signal-count.public-evidence-manifest/v1''),
        (''artifact'', JObj
           [(''path'', JStr ''evidence.json''), (''sha256'', JStr (sha256_digest c evidence_bytes)),
            (''content_address'', JStr (''sha256:'' @ sha256_digest c evidence_bytes))]),
        (''environment'', JObj [(''path'', JStr ''environment.json''), (''sha256'', JStr (sha256_digest c environment_bytes))]),
        (''sources'', JObj sources), (''verification_command'', JStr verify_command)]))"

subsection \<open>The bundle\<close>

datatype entry = File string | Directory

type_synonym directory = "(string, entry) pydict"

definition bundle_files :: "crypto \<Rightarrow> settings \<Rightarrow> repository \<Rightarrow> (json \<times> (string \<times> string) list) res" where
  "bundle_files c s rp =
     res_bind (build_public_evidence c s rp) (\<lambda>evidence.
     res_bind (build_environment_record c rp) (\<lambda>environment.
     res_bind (build_manifest c rp (render_json evidence) (render_json environment)) (\<lambda>manifest.
       Inr (manifest, [(''evidence.json'', render_json evidence), (''environment.json'', render_json environment),
         (''manifest.json'', render_json manifest)]))))"

fun write_files :: "(string \<times> string) list \<Rightarrow> directory \<Rightarrow> unit res \<times> directory" where
  "write_files [] d = (Inr (), d)"
| "write_files ((name, bytes) # files) d =
     (if dget d name = Some Directory then (Inl (OtherError ''IsADirectoryError''), d)
      else write_files files (dset d name (File bytes)))"

text \<open>\<open>None\<close> is an output directory that does not exist; \<^verbatim>\<open>mkdir\<close> makes it once the files are known.\<close>

definition write_bundle :: "crypto \<Rightarrow> settings \<Rightarrow> repository \<Rightarrow> directory option \<Rightarrow> json res \<times> directory option" where
  "write_bundle c s rp target =
     (case bundle_files c s rp of
        Inl e \<Rightarrow> (Inl e, target)
      | Inr (manifest, files) \<Rightarrow>
          (let d = (case target of None \<Rightarrow> [] | Some d \<Rightarrow> d) in
           if \<not> set (dkeys d) \<subseteq> set (dkeys files) then (Inl (ValueError ''unexpected evidence bundle entries''), Some d)
           else (case write_files files d of
               (Inl e, d') \<Rightarrow> (Inl e, Some d')
             | (Inr _, d') \<Rightarrow> (Inr manifest, Some d'))))"

fun check_files :: "(string \<times> string) list \<Rightarrow> directory \<Rightarrow> unit res" where
  "check_files [] d = Inr ()"
| "check_files ((name, expected) # files) d =
     (case dget d name of
        Some (File bytes) \<Rightarrow>
          if bytes \<noteq> expected then Inl (ValueError (''evidence bundle file does not reproduce: '' @ name)) else check_files files d
      | _ \<Rightarrow> Inl (ValueError (''missing evidence bundle file: '' @ name)))"

definition verify_bundle :: "crypto \<Rightarrow> settings \<Rightarrow> repository \<Rightarrow> directory option \<Rightarrow> json res" where
  "verify_bundle c s rp target =
     res_bind (bundle_files c s rp) (\<lambda>(manifest, files).
       case target of
         None \<Rightarrow> Inl (OtherError ''FileNotFoundError'')
       | Some d \<Rightarrow>
           if set (dkeys d) \<noteq> set (dkeys files) then Inl (ValueError ''evidence bundle file set differs'')
           else res_bind (check_files files d) (\<lambda>_. Inr manifest))"

subsection \<open>The command line (build_public_evidence.py)\<close>

text \<open>\<^verbatim>\<open>OSError\<close>, \<^verbatim>\<open>TypeError\<close> and \<^verbatim>\<open>ValueError\<close> end in exit code 1; any other exception leaves the command.\<close>

definition evidence_caught :: "py_error \<Rightarrow> bool" where
  "evidence_caught e \<longleftrightarrow> value_error e \<or> (case e of
     TypeError _ \<Rightarrow> True | TimeoutError _ \<Rightarrow> True
   | OtherError m \<Rightarrow> m \<in> {''FileNotFoundError'', ''IsADirectoryError'', ''NotADirectoryError'', ''PermissionError''} | _ \<Rightarrow> False)"

datatype evidence_args = Verify string | Out string

definition content_address :: "json \<Rightarrow> string res" where
  "content_address manifest =
     res_bind (subscript manifest ''artifact'') (\<lambda>artifact. res_bind (subscript artifact ''content_address'') (\<lambda>v. Inr (py_str v)))"

definition evidence_report :: "crypto \<Rightarrow> string \<Rightarrow> string \<Rightarrow> json \<Rightarrow> directory option \<Rightarrow> (nat \<times> string list) res" where
  "evidence_report c action shown manifest target =
     (case Option.bind target (\<lambda>d. dget d ''manifest.json'') of
        Some (File bytes) \<Rightarrow> res_bind (content_address manifest) (\<lambda>address. Inr (0,
          [''OK '' @ action @ '' public evidence: '' @ shown, ''OK evidence content address: '' @ address,
           ''OK manifest content address: sha256:'' @ sha256_digest c bytes]))
      | _ \<Rightarrow> Inl (OtherError ''FileNotFoundError''))"

definition evidence_failure :: "py_error \<Rightarrow> (nat \<times> string list) res" where
  "evidence_failure e = (if evidence_caught e then Inr (1, [''FAIL public evidence: '' @ error_text e]) else Inl e)"

definition evidence_main ::
    "crypto \<Rightarrow> settings \<Rightarrow> repository \<Rightarrow> evidence_args \<Rightarrow> directory option \<Rightarrow> (nat \<times> string list) res \<times> directory option" where
  "evidence_main c s rp args target =
     (case args of
        Verify dir \<Rightarrow>
          (case verify_bundle c s rp target of
             Inl e \<Rightarrow> (evidence_failure e, target)
           | Inr manifest \<Rightarrow> (evidence_report c ''verified'' dir manifest target, target))
      | Out dir \<Rightarrow>
          (case write_bundle c s rp target of
             (Inl e, target') \<Rightarrow> (evidence_failure e, target')
           | (Inr manifest, target') \<Rightarrow> (evidence_report c ''wrote'' dir manifest target', target')))"

subsection \<open>The settings of the environment\<close>

definition role_fields :: "settings \<Rightarrow> string \<Rightarrow> string \<times> string \<times> string" where
  "role_fields s role =
     (if role = ''regime'' then (cfg_regime_peer_id s, cfg_regime_service_name s, cfg_regime_peer_candidates s)
      else if role = ''narrative'' then (cfg_narrative_peer_id s, cfg_narrative_service_name s, cfg_narrative_peer_candidates s)
      else (cfg_risk_peer_id s, cfg_risk_service_name s, cfg_risk_peer_candidates s))"

abbreviation evidence_roles :: "string set" where "evidence_roles \<equiv> {''regime'', ''narrative'', ''risk''}"

lemma role_fields_set:
  "role \<in> evidence_roles \<Longrightarrow> r \<in> evidence_roles \<Longrightarrow>
    role_fields (set_role r p n cs s) role = (if role = r then (p, n, cs) else role_fields s role)"
  by (auto simp: role_fields_def set_role_def)

definition named_role :: "json \<Rightarrow> string" where
  "named_role role_fixture = (case subscript role_fixture ''role'' of Inr r \<Rightarrow> py_str r | Inl _ \<Rightarrow> [])"

lemma role_settings_cases:
  obtains (raised) e where "\<And>s. role_settings s role_fixture = Inl e"
  | (set) p n cs where "named_role role_fixture \<in> evidence_roles"
      "\<And>s. role_settings s role_fixture = Inr (set_role (named_role role_fixture) p n cs s)"
proof (cases "subscript role_fixture ''role''")
  case (Inl e)
  then have "role_settings s role_fixture = Inl e" for s by (simp add: role_settings_def)
  then show ?thesis by (rule raised)
next
  case (Inr r)
  then have name: "named_role role_fixture = py_str r" by (simp add: named_role_def)
  show ?thesis
  proof (cases "py_str r \<in> evidence_roles")
    case False
    then have "role_settings s role_fixture = Inl (KeyError (py_str r))" for s by (auto simp: role_settings_def Inr)
    then show ?thesis by (rule raised)
  next
    case True
    note role = this
    show ?thesis
    proof (cases "subscript role_fixture ''service_name''")
      case (Inl e)
      then have "role_settings s role_fixture = Inl e" for s using role by (auto simp: role_settings_def Inr)
      then show ?thesis by (rule raised)
    next
      case (Inr n)
      note service = this
      show ?thesis
      proof (cases "res_bind (subscript role_fixture ''candidates'') json_items")
        case (Inl e)
        then have "role_settings s role_fixture = Inl e" for s
          using role service \<open>subscript role_fixture ''role'' = Inr r\<close> by (auto simp: role_settings_def)
        then show ?thesis by (rule raised)
      next
        case (Inr vs)
        note eq = role service \<open>subscript role_fixture ''role'' = Inr r\<close> Inr
        show ?thesis
        proof (cases vs)
          case Nil
          then have "role_settings s role_fixture = Inl IndexError" for s using eq by (auto simp: role_settings_def)
          then show ?thesis by (rule raised)
        next
          case (Cons v others)
          then have "role_settings s role_fixture = Inr (set_role (named_role role_fixture) (py_str v) (py_str n)
              (join '','' (map (\<lambda>p. p @ ''|'' @ py_str n) (map py_str vs))) s)" for s
            using eq unfolding name by (auto simp: role_settings_def)
          then show ?thesis using set role unfolding name by blast
        qed
      qed
    qed
  qed
qed

definition agree_on :: "string set \<Rightarrow> settings \<Rightarrow> settings \<Rightarrow> bool" where
  "agree_on X s t \<longleftrightarrow> (\<forall>role \<in> X \<inter> evidence_roles. role_fields s role = role_fields t role)"

lemma settings_agree:
  "agree_on X s t \<Longrightarrow>
    (\<exists>e. settings_for_roles s roles = Inl e \<and> settings_for_roles t roles = Inl e) \<or>
    (\<exists>s' t'. settings_for_roles s roles = Inr s' \<and> settings_for_roles t roles = Inr t' \<and>
       named_role ` set roles \<subseteq> evidence_roles \<and> agree_on (X \<union> named_role ` set roles) s' t')"
proof (induction roles arbitrary: X s t)
  case (Cons role_fixture roles)
  show ?case
  proof (cases rule: role_settings_cases [of role_fixture])
    case (raised e)
    then show ?thesis by simp
  next
    case (set p n cs)
    have "agree_on (insert (named_role role_fixture) X) (set_role (named_role role_fixture) p n cs s) (set_role (named_role role_fixture) p n cs t)"
      using Cons.prems set(1) unfolding agree_on_def by (metis IntE insertE IntI role_fields_set)
    from Cons.IH [OF this] set show ?thesis by auto
  qed
qed simp

lemma same_candidates:
  assumes "role_fields s role = role_fields t role" "role \<in> evidence_roles"
  shows "list_candidates (init_registry s) role = list_candidates (init_registry t) role"
    and "select_for_role (init_registry s) role = select_for_role (init_registry t) role"
proof -
  have "get_candidates_for_role (init_registry s) role = get_candidates_for_role (init_registry t) role"
    using assms(2,1)
    by (elim insertE emptyE) (simp_all add: get_candidates_for_role_def init_registry_def Let_def role_fields_def)
  then show eq: "list_candidates (init_registry s) role = list_candidates (init_registry t) role"
    by (intro ext) (simp add: list_candidates_def)
  show "select_for_role (init_registry s) role = select_for_role (init_registry t) role"
    by (intro ext) (simp add: select_for_role_def eq)
qed

lemma same_row:
  assumes "agree_on X s t" "named_role role_fixture \<in> X" "named_role role_fixture \<in> evidence_roles"
  shows "evidence_row_of c v (init_registry s) topology task receipt_body role_fixture =
    evidence_row_of c v (init_registry t) topology task receipt_body role_fixture"
proof (cases "subscript role_fixture ''role''")
  case (Inr r)
  then have "named_role role_fixture = py_str r" by (simp add: named_role_def)
  then have "role_fields s (py_str r) = role_fields t (py_str r)" "py_str r \<in> evidence_roles"
    using assms by (auto simp: agree_on_def)
  from same_candidates [OF this] show ?thesis by (simp add: evidence_row_of_def Inr Let_def)
qed (simp add: evidence_row_of_def)

lemma map_res_same: "(\<And>x. x \<in> set xs \<Longrightarrow> f x = g x) \<Longrightarrow> map_res f xs = map_res g xs"
  by (induction xs) (simp_all cong: sum.case_cong)

lemma same_rows: "evidence_rows c s receipt_body task topology roles = evidence_rows c t receipt_body task topology roles"
proof -
  have "agree_on {} s t" by (simp add: agree_on_def)
  from settings_agree [OF this, of roles] show ?thesis
  proof (elim disjE exE conjE)
    fix s' t' assume eq: "settings_for_roles s roles = Inr s'" "settings_for_roles t roles = Inr t'"
      and names: "named_role ` set roles \<subseteq> evidence_roles" and agree: "agree_on ({} \<union> named_role ` set roles) s' t'"
    have "res_bind (topology_argument topology) (\<lambda>topo. evidence_row_of c v (init_registry s') topo task receipt_body x) =
        res_bind (topology_argument topology) (\<lambda>topo. evidence_row_of c v (init_registry t') topo task receipt_body x)"
      if "x \<in> set roles" for v x
      using same_row [OF agree, of x] names that by (cases "topology_argument topology") auto
    then show ?thesis unfolding evidence_rows_def eq by (auto intro!: res_bind_cong map_res_same)
  qed (simp add: evidence_rows_def)
qed

lemma environment_ignored: "build_public_evidence c s rp = build_public_evidence c t rp"
  unfolding build_public_evidence_def by (simp only: same_rows [of c s _ _ _ _ t])

subsection \<open>The bundle\<close>

lemma check_files_Inr:
  "check_files files d = Inr () \<longleftrightarrow> (\<forall>(name, bytes) \<in> set files. dget d name = Some (File bytes))"
  by (induction files d rule: check_files.induct) (auto split: option.splits entry.splits)

lemma write_files_keeps: "write_files files d = (a, d') \<Longrightarrow> name \<notin> fst ` set files \<Longrightarrow> dget d' name = dget d name"
  by (induction files d rule: write_files.induct) (auto simp: update_conv' split: if_splits)

lemma write_files_done:
  "write_files files d = (Inr (), d') \<Longrightarrow> distinct (dkeys files) \<Longrightarrow>
    dget d' name = (case dget files name of Some bytes \<Rightarrow> Some (File bytes) | None \<Rightarrow> dget d name)"
proof (induction files d rule: write_files.induct)
  case (2 n b files d)
  then have d': "write_files files (dset d n (File b)) = (Inr (), d')" "n \<notin> fst ` set files" "distinct (dkeys files)"
    by (auto split: if_splits)
  with 2 show ?case using write_files_keeps [OF d'(1,2)]
    by (cases "name = n") (auto simp: update_conv' split: option.splits if_splits)
qed simp

lemma bundle_names:
  "bundle_files c s rp = Inr (manifest, files) \<Longrightarrow> dkeys files = [''evidence.json'', ''environment.json'', ''manifest.json'']"
  by (auto simp: bundle_files_def res_bind_Inr_iff)

lemma key_absent: "name \<notin> set (dkeys d) \<Longrightarrow> dget d name = None"
  by (simp add: map_of_eq_None_iff)

lemma written_directory:
  assumes "write_bundle c s rp target = (Inr manifest, written)"
  shows "\<exists>files d. bundle_files c s rp = Inr (manifest, files) \<and> written = Some d \<and>
    (\<forall>name. dget d name = map_option File (dget files name))"
proof -
  obtain files where files: "bundle_files c s rp = Inr (manifest, files)"
    using assms by (auto simp: write_bundle_def Let_def split: sum.splits prod.splits if_splits)
  define d where "d = (case target of None \<Rightarrow> [] | Some d \<Rightarrow> d)"
  obtain d' where d': "set (dkeys d) \<subseteq> set (dkeys files)" "write_files files d = (Inr (), d')" "written = Some d'"
    using assms files by (auto simp: write_bundle_def d_def Let_def split: sum.splits prod.splits if_splits)
  have names: "distinct (dkeys files)" using bundle_names [OF files] by simp
  have "dget d' name = map_option File (dget files name)" for name
  proof (cases "dget files name")
    case None
    then have "name \<notin> set (dkeys d)" using d'(1) by (auto simp: map_of_eq_None_iff)
    then show ?thesis using write_files_done [OF d'(2) names, of name] None key_absent by simp
  qed (use write_files_done [OF d'(2) names, of name] in simp)
  with files d'(3) show ?thesis by blast
qed

lemma verified_directory:
  assumes files: "bundle_files c s rp = Inr (manifest, files)"
  shows "verify_bundle c s rp (Some d) = Inr manifest \<longleftrightarrow> (\<forall>name. dget d name = map_option File (dget files name))"
proof -
  have names: "distinct (dkeys files)" using bundle_names [OF files] by simp
  have "verify_bundle c s rp (Some d) = Inr manifest \<longleftrightarrow>
      set (dkeys d) = set (dkeys files) \<and> (\<forall>(name, bytes) \<in> set files. dget d name = Some (File bytes))"
    using check_files_Inr [of files d] by (auto simp: verify_bundle_def files res_bind_Inr_iff)
  also have "\<dots> \<longleftrightarrow> (\<forall>name. dget d name = map_option File (dget files name))"
  proof
    assume l: "set (dkeys d) = set (dkeys files) \<and> (\<forall>(name, bytes) \<in> set files. dget d name = Some (File bytes))"
    show "\<forall>name. dget d name = map_option File (dget files name)"
    proof
      fix name show "dget d name = map_option File (dget files name)"
      proof (cases "dget files name")
        case None
        then have "name \<notin> set (dkeys d)" using l by (auto simp: map_of_eq_None_iff)
        then show ?thesis using None key_absent by simp
      next
        case (Some bytes)
        then show ?thesis using l by (auto dest: map_of_SomeD)
      qed
    qed
  next
    assume r: "\<forall>name. dget d name = map_option File (dget files name)"
    have "name \<in> set (dkeys d) \<longleftrightarrow> name \<in> set (dkeys files)" for name
    proof -
      have "dget d name = None \<longleftrightarrow> dget files name = None" using r by simp
      then show ?thesis by (simp add: map_of_eq_None_iff)
    qed
    then show "set (dkeys d) = set (dkeys files) \<and> (\<forall>(name, bytes) \<in> set files. dget d name = Some (File bytes))"
      using r names by auto
  qed
  finally show ?thesis .
qed

lemma bundle_reproduces:
  assumes "write_bundle c s rp target = (Inr manifest, Some d)"
  shows "verify_bundle c t rp (Some d') = Inr manifest \<longleftrightarrow> (\<forall>name. dget d' name = dget d name)"
proof -
  obtain files where files: "bundle_files c s rp = Inr (manifest, files)" "\<And>name. dget d name = map_option File (dget files name)"
    using written_directory [OF assms] by blast
  have "bundle_files c t rp = Inr (manifest, files)"
    using files(1) environment_ignored [of c s rp t] by (simp add: bundle_files_def)
  from verified_directory [OF this] show ?thesis by (simp add: files(2))
qed

subsection \<open>What the evidence attests\<close>

definition row_sound :: "crypto \<Rightarrow> task_spec \<Rightarrow> evidence_row \<Rightarrow> bool" where
  "row_sound c task row \<longleftrightarrow>
     verify_signed_execution c (er_execution row) = Inr True \<and> sx_task (er_execution row) = task \<and>
     sr_node_role (sx_response (er_execution row)) = er_role row \<and>
     sr_peer_id (sx_response (er_execution row)) \<in> pc_peer_id ` set (er_candidates row) \<and>
     verify_verification_attestation c (er_attestation row) = Inr True \<and>
     1/2 \<le> score_total (score_specialist_response (sx_response (er_execution row)) task) \<and>
     (\<exists>k. check_receipt_claim c (sx_response (er_execution row)) = Inr k \<and> rc_valid k)"

lemma public_verifier_fields:
  "public_verifier c = Inr v \<Longrightarrow> vf_acceptance_threshold v = 1/2 \<and> vf_private_key v = fixture_private_key c ''verifier'' \<and>
    vf_ree_policy v = ''risk-only-ree'' \<and> vf_enforce_ree_policy v"
  by (auto simp: public_verifier_def make_verifier_def res_bind_Inr_iff)

lemma selected_candidate:
  "list_candidates reg role topology updates failed = Inr cs \<Longrightarrow> select_for_role reg role topology updates failed = Inr sel \<Longrightarrow>
    ps_peer_id (sel_service sel) \<in> pc_peer_id ` set cs"
  by (auto simp: select_for_role_def res_bind_Inr_iff dest!: py_max_lt_in)

lemma response_fields_read:
  assumes "specialist_response_of_json d = Inr r"
  shows "str_field d ''node_role'' = Inr (sr_node_role r) \<and> str_field d ''peer_id'' = Inr (sr_peer_id r)"
proof -
  have read: "make_specialist_response x = Inr r \<Longrightarrow> r = x" for x
    by (auto simp: make_specialist_response_def checked_def split: if_splits)
  show ?thesis
    using assms unfolding specialist_response_of_json_def by (auto simp: res_bind_Inr_iff dest!: read)
qed

lemma fixture_response_role:
  assumes "fixture_response receipt_body role_fixture job_id role peer_id wallet = Inr r"
  shows "sr_node_role r = role \<and> sr_peer_id r = peer_id"
proof -
  obtain given where "specialist_response_of_json ([(''job_id'', JStr job_id), (''node_role'', JStr role),
      (''peer_id'', JStr peer_id), (''agent_wallet'', JStr wallet)] @ given) = Inr r"
    using assms by (auto simp: fixture_response_def given_fields_def res_bind_Inr_iff split: if_splits)
  from response_fields_read [OF this] show ?thesis by (simp add: str_field_def)
qed

lemma checked_row_sound:
  assumes row: "evidence_row_of c v reg topology task receipt_body role_fixture = Inr row"
    and v: "public_verifier c = Inr v" and checked: "row_checked row"
  shows "row_sound c task row" "er_role row = named_role role_fixture"
proof -
  obtain r cs sel wallet response x a e_ok a_ok k where p: "subscript role_fixture ''role'' = Inr r"
      "list_candidates reg (py_str r) topology [] {} = Inr cs" "select_for_role reg (py_str r) topology [] {} = Inr sel"
      "fixture_response receipt_body role_fixture (ts_job_id task) (py_str r) (ps_peer_id (sel_service sel)) wallet = Inr response"
      "sign_agent_execution c task response \<lparr>ai_role = py_str r, ai_peer_id = ps_peer_id (sel_service sel), ai_wallet = wallet\<rparr>
         (fixture_private_key c (py_str r)) = Inr x"
      "verify_execution c v x = Inr a" "verify_signed_execution c x = Inr e_ok" "verify_verification_attestation c a = Inr a_ok"
      "check_receipt_claim c response = Inr k"
      "row = \<lparr>er_role = py_str r, er_candidates = cs, er_selection = sel, er_execution = x, er_attestation = a,
        er_execution_valid = e_ok, er_attestation_valid = a_ok, er_receipt_check = k\<rparr>"
    using row unfolding evidence_row_of_def Let_def by (auto simp: res_bind_Inr_iff)
  have x: "sx_task x = task" "sx_response x = response"
    using p(5) by (auto elim!: sign_agent_execution_cases)
  have ok: "e_ok" "a_ok" "va_status a = ''accepted''" "rc_valid k"
    using checked by (simp_all add: row_checked_def p(10))
  note resp = fixture_response_role [OF p(4)]
  have with_key: "verify_response_with c v task response (Some (se_signer (sx_signature x))) (Some (se_output_hash (sx_signature x))) = Inr a"
    using p(6,7) ok(1) x by (simp add: verify_execution_def Let_def)
  have "vf_acceptance_threshold v = 1/2" using public_verifier_fields [OF v] by simp
  with acceptance_cases [OF with_key] ok(3) have "1/2 \<le> score_total (score_specialist_response response task)" by simp
  with p ok x resp selected_candidate [OF p(2,3)] show "row_sound c task row" by (simp add: row_sound_def)
  show "er_role row = named_role role_fixture" using p(1,10) by (simp add: named_role_def)
qed

lemma filter_full: "length (filter P xs) = length xs \<longleftrightarrow> list_all P xs"
  by (induction xs) (simp_all, metis Suc_n_not_le_n length_filter_le)

lemma all_checks_rows: "length rows = n \<Longrightarrow> all_checks n rows \<longleftrightarrow> list_all row_checked rows"
  using filter_full [of er_execution_valid rows] filter_full [of er_attestation_valid rows]
  by (auto simp: all_checks_def row_checked_def list_all_iff)

lemma evidence_sound:
  assumes "build_public_evidence c s rp = Inr doc"
  shows "\<exists>receipt_body task topology roles rows references fixture_hash source_hash lock_hash.
    fixture_parts rp = Inr (receipt_body, task, topology, roles) \<and>
    doc = evidence_document topology fixture_hash source_hash lock_hash task references rows \<and>
    map er_role rows = map named_role roles \<and> list_all (row_sound c task) rows"
proof -
  obtain receipt_body task topology roles rows references fixture_hash source_hash lock_hash where
      parts: "fixture_parts rp = Inr (receipt_body, task, topology, roles)"
    and rows: "evidence_rows c s receipt_body task topology roles = Inr rows" and checks: "all_checks (length roles) rows"
    and doc: "doc = evidence_document topology fixture_hash source_hash lock_hash task references rows"
    using assms by (auto simp: build_public_evidence_def res_bind_Inr_iff split: if_splits prod.splits)
  obtain s' v where v: "public_verifier c = Inr v"
    and mapped: "list_all2 (\<lambda>x row. res_bind (topology_argument topology) (\<lambda>topo.
      evidence_row_of c v (init_registry s') topo task receipt_body x) = Inr row) roles rows"
    using rows by (auto simp: evidence_rows_def res_bind_Inr_iff map_res_Inr_iff)
  from checks all_checks_rows have checked: "list_all row_checked rows"
    using list_all2_lengthD [OF mapped] by simp
  have row: "row_sound c task (rows ! i) \<and> er_role (rows ! i) = named_role (roles ! i)" if "i < length rows" for i
    using that mapped checked checked_row_sound [OF _ v, of _ _ task receipt_body "roles ! i" "rows ! i"]
    by (auto simp: list_all2_conv_all_nth list_all_length res_bind_Inr_iff)
  have "map er_role rows = map named_role roles"
    using row list_all2_lengthD [OF mapped] by (auto intro: nth_equalityI)
  moreover have "list_all (row_sound c task) rows" using row by (simp add: list_all_length)
  ultimately show ?thesis using parts doc by blast
qed

subsection \<open>Properties\<close>

text \<open>C38: The public evidence does not depend on the settings of the environment: for any two settings the build
  gives the same document or raises the same error, because the fixture sets every field that it reads.\<close>

theorem evidence_ignores_environment: "build_public_evidence c s rp = build_public_evidence c t rp"
  by (rule environment_ignored)

text \<open>C39: When the public evidence is built, its rows are the roles of the fixture in their order, and for each
  row the signature over the task and the response of a listed candidate verifies, the signature of the
  attestation verifies, the response scores at least one half, and its receipt claim is valid.\<close>

theorem public_evidence_is_sound:
  assumes "build_public_evidence c s rp = Inr doc"
  shows "\<exists>receipt_body task topology roles rows references fixture_hash source_hash lock_hash.
    fixture_parts rp = Inr (receipt_body, task, topology, roles) \<and>
    doc = evidence_document topology fixture_hash source_hash lock_hash task references rows \<and>
    map er_role rows = map named_role roles \<and> list_all (row_sound c task) rows"
  using assms by (rule evidence_sound)

text \<open>C40: A bundle that was written verifies, under any settings, and a directory verifies as this bundle exactly
  when it has the same entries with the same bytes: a changed, missing or additional file is found.\<close>

theorem written_bundle_verifies:
  assumes "write_bundle c s rp target = (Inr manifest, Some d)"
  shows "verify_bundle c t rp (Some d') = Inr manifest \<longleftrightarrow> (\<forall>name. dget d' name = dget d name)"
  using assms by (rule bundle_reproduces)

subsection \<open>Examples\<close>

abbreviation demo_claimed :: specialist_response where
  "demo_claimed \<equiv> receipt_response ''validated'' (demo_receipt [])"

lemma claimed_fields:
  "valid_specialist_response demo_claimed" "finite_json (specialist_response_json demo_claimed)"
  "ts_job_id demo_task = sr_job_id demo_claimed" "sr_node_role demo_claimed = ''risk''" "sr_peer_id demo_claimed = ''peer-r''"
  "sr_agent_wallet demo_claimed = Some demo_address" "sr_ree_receipt_body demo_claimed = Some (receipt_fields (demo_receipt []))"
  using demo_response_valid demo_response_finite demo_ids
  by (simp_all add: receipt_response_def valid_specialist_response_def specialist_response_json_def demo_response_def
      specialist_response_fields_def opt_obj_def receipt_fields_def demo_receipt_def sample_response_def Let_def)

lemma claimed_signs: "\<exists>x. sign_agent_execution demo_crypto demo_task demo_claimed demo_identity k = Inr x"
proof -
  obtain th where th: "task_hash demo_crypto demo_task = Inr th" using task_hash_total by blast
  obtain oh where oh: "output_hash demo_crypto demo_claimed = Inr oh" using output_hash_total claimed_fields(2) by blast
  have hashes: "hash_ok th" "hash_ok oh"
    using th oh canonical_json_hash_ok [OF demo_crypto_ok] by (auto simp: task_hash_def output_hash_def)
  have sig: "hex_pattern 130 (''0x'' @ replicate 130 (CHR ''0''))"
    by (simp add: hex_pattern_def starts_with_def list_all_iff hex_value_def char_code_def)
  have cs: "to_checksum demo_crypto demo_address = Inr demo_address"
    using demo_address_ok by (simp add: demo_crypto_def)
  have norm: "normalize_identity demo_crypto demo_identity = Inr demo_identity"
    by (simp add: normalize_identity_def demo_identity_def cs)
  have wallet: "response_wallet_matches_identity demo_crypto demo_claimed demo_identity = Inr True"
    using claimed_fields(6) by (simp add: response_wallet_matches_identity_def demo_identity_def cs)
  obtain m where "signable_message demo_crypto demo_identity demo_address th oh = Inr m"
    by (simp add: signable_message_def cs)
  moreover have "key_address demo_crypto k = Inr demo_address" "sign_text demo_crypto k m = Inr (replicate 130 (CHR ''0''))"
    by (simp_all add: demo_crypto_def)
  moreover have "sr_node_role demo_claimed = ai_role demo_identity"
    "sr_peer_id demo_claimed = ai_peer_id demo_identity" "ai_wallet demo_identity = demo_address"
    using claimed_fields by (simp_all add: demo_identity_def)
  ultimately show ?thesis
    using hashes sig th oh norm wallet demo_address_ok claimed_fields(3)
    by (simp add: sign_agent_execution_def wallet_address_from_private_key_def make_envelope_def valid_signature_envelope_def)
qed

text \<open>A verdict with a key is the verdict without one, signed.\<close>

lemma signed_verdict:
  assumes "verify_response_with c (v\<lparr>vf_private_key := []\<rparr>) task r signer oh = Inr a" "ts_job_id task = sr_job_id r"
  shows "verify_response_with c v task r signer oh = sign_if_configured c v a \<and>
    (\<exists>k. check_receipt_claim c r = Inr k \<and> canonical_validated_receipt_body c r (Some k) = Inr (va_ree_receipt_body a))"
proof -
  have same: "receipt_gate (v\<lparr>vf_private_key := []\<rparr>) = receipt_gate v" "policy_gate (v\<lparr>vf_private_key := []\<rparr>) = policy_gate v"
    "required_ree_failure (v\<lparr>vf_private_key := []\<rparr>) = required_ree_failure v"
    by (auto simp: fun_eq_iff receipt_gate_def policy_gate_def gate_score_def required_ree_failure_def split: option.splits)
  have bare: "attest c (v\<lparr>vf_private_key := []\<rparr>) x = make_attestation x" for x
    by (cases "make_attestation x") (simp_all add: attest_def sign_if_configured_def)
  have made: "make_attestation x = Inr a \<longleftrightarrow> a = x \<and> valid_attestation x" for x
    by (auto simp: make_attestation_def checked_def)
  have valid: "valid_attestation x \<Longrightarrow> make_attestation x = Inr x" for x
    by (simp add: make_attestation_def checked_def)
  let ?s = "score_total (score_specialist_response r task)"
  obtain k where k: "check_receipt_claim c r = Inr k"
    using assms by (cases "check_receipt_claim c r") (simp_all add: verify_response_with_def Let_def)
  obtain f where f: "required_ree_failure v r (rc_status k) (rc_valid k) = Inr f"
    using assms k same by (cases "required_ree_failure v r (rc_status k) (rc_valid k)") (simp_all add: verify_response_with_def Let_def)
  obtain score reasons where p: "policy_gate v f (receipt_gate v k (?s, score_reasons r ?s)) = (score, reasons)"
    by (cases "policy_gate v f (receipt_gate v k (?s, score_reasons r ?s))")
  obtain body where b: "canonical_validated_receipt_body c r (Some k) = Inr body"
    using assms k f p same
    by (cases "canonical_validated_receipt_body c r (Some k)") (simp_all add: verify_response_with_def Let_def)
  obtain h where h: "(if nonblank oh then Inr (opt_text oh) else canonical_json_hash c (specialist_response_json r)) = Inr h"
    using assms k f p b same
    by (cases "if nonblank oh then Inr (opt_text oh) else canonical_json_hash c (specialist_response_json r)")
      (simp_all add: verify_response_with_def Let_def)
  show ?thesis
    using assms k f p b h same bare by (auto simp: verify_response_with_def Let_def made valid attest_def)
qed

definition demo_public_verifier :: verifier where
  "demo_public_verifier = demo_verifier (fixture_private_key demo_crypto ''verifier'') True"

lemma demo_public_verifier: "public_verifier demo_crypto = Inr demo_public_verifier"
  by (simp add: public_verifier_def make_verifier_def demo_public_verifier_def demo_verifier_def risk_policy)

lemma claimed_verdict:
  "\<exists>a. verify_response_with demo_crypto demo_public_verifier demo_task demo_claimed (Some demo_address) oh = Inr a \<and>
     va_status a = ''accepted'' \<and> verify_verification_attestation demo_crypto a = Inr True"
proof -
  let ?r = demo_claimed and ?v = "demo_verifier [] True"
  have v: "demo_public_verifier\<lparr>vf_private_key := []\<rparr> = ?v" by (simp add: demo_public_verifier_def demo_verifier_def)
  obtain k where k: "check_receipt_claim demo_crypto ?r = Inr k" "rc_valid k" "rc_status k = ''validated''"
    using demo_check_valid by blast
  have ree: "required_ree_failure ?v ?r (rc_status k) True = Inr None"
    using k by (simp add: required_ree_failure_def demo_verifier_def risk_policy)
  have t: "fl (1/100) \<le> vf_acceptance_threshold ?v" "vf_acceptance_threshold ?v \<le> 1" "vf_private_key ?v = []"
    "0 \<le> vf_acceptance_threshold ?v"
    using demo_threshold by (simp_all add: demo_verifier_def)
  have ok: "opt_ok address_ok (Some demo_address)" using demo_address_ok by (simp add: opt_ok_def)
  obtain a where a: "verify_response_with demo_crypto ?v demo_task ?r (Some demo_address) oh = Inr a"
    using verdict_defined [OF claimed_fields(1-3) k(1) _ t(1-3) ok, of None oh] ree k(2) by auto
  have "vf_acceptance_threshold ?v \<le> score_total (score_specialist_response ?r demo_task)"
    using score_at_least_half [of ?r demo_task] claimed_fields by (simp add: demo_verifier_def)
  then have acc: "va_status a = ''accepted''"
    using acceptance_cases [OF a t(4,2)] claimed_fields k ree by auto
  obtain k' where signed: "verify_response_with demo_crypto demo_public_verifier demo_task ?r (Some demo_address) oh =
        sign_if_configured demo_crypto demo_public_verifier a"
      and body: "canonical_validated_receipt_body demo_crypto ?r (Some k') = Inr (va_ree_receipt_body a)"
    using signed_verdict [of demo_crypto demo_public_verifier demo_task ?r "Some demo_address" oh a] a claimed_fields(3) unfolding v by blast
  have "va_ree_receipt_body a \<in> {None, Some (receipt_fields (demo_receipt []))}"
    using body demo_parses [of "[]"] claimed_fields(7) by (auto simp: canonical_validated_receipt_body_def split: if_splits)
  moreover have "finite_json (JObj (receipt_fields (demo_receipt [])))"
    by (simp add: receipt_fields_def demo_receipt_def Let_def)
  ultimately have "finite_json (opt_obj (va_ree_receipt_body a))" by (auto simp: opt_obj_def)
  then have "finite_json (JObj (attestation_verdict_fields a))" by (simp add: attestation_verdict_fields_def)
  then obtain h where "verification_attestation_hash demo_crypto a = Inr h"
    using canonical_json_total_iff(1) [of "JObj (attestation_verdict_fields a)"]
    by (auto simp: verification_attestation_hash_def canonical_json_hash_def)
  moreover obtain m where "verification_attestation_message h = Inr m" using message_total by blast
  moreover have key: "vf_private_key demo_public_verifier \<noteq> []"
    by (simp add: demo_public_verifier_def demo_verifier_def fixture_private_key_def)
  ultimately obtain b where b: "sign_if_configured demo_crypto demo_public_verifier a = Inr b"
    by (simp add: sign_if_configured_def demo_crypto_def)
  from signed_attestation_verifies [OF demo_crypto_ok key b] sign_keeps_verdict [OF b] acc signed b
  show ?thesis by (auto simp: attestation_verdict_fields_def)
qed

definition demo_role_fixture :: json where
  "demo_role_fixture = JObj
     [(''role'', JStr ''risk''), (''service_name'', JStr ''risk_analyst''), (''candidates'', str_list [''peer-r'']),
      (''response'', JObj
         [(''summary'', JStr (sr_summary demo_response)), (''scenario_view'', scenario_json (sr_scenario_view demo_response)),
          (''signals'', str_list (sr_signals demo_response)), (''risks'', str_list (sr_risks demo_response)),
          (''confidence'', num (sr_confidence demo_response)), (''citations'', str_list (sr_citations demo_response)),
          (''timestamp'', JStr (sr_timestamp demo_response))])]"

abbreviation demo_receipt_json :: json where
  "demo_receipt_json \<equiv> JObj (Ree.receipt_fields (demo_receipt []))"

lemma demo_fixture_response:
  "fixture_response demo_receipt_json demo_role_fixture ''job-1'' ''risk'' ''peer-r'' demo_address = Inr demo_claimed"
proof -
  let ?R = demo_claimed
  have claim: "receipt_claim_fields demo_receipt_json = Inr
      [(''ree_receipt_hash'', JStr (rr_receipt_hash (demo_receipt []))), (''receipt_status'', JStr ''validated''),
       (''ree_prompt_hash'', JStr (rr_prompt_hash (demo_receipt []))), (''ree_tokens_hash'', JStr (rr_tokens_hash (demo_receipt []))),
       (''ree_model_name'', JStr (rr_model_name (demo_receipt []))), (''ree_receipt_body'', demo_receipt_json)]"
    by (simp add: receipt_claim_fields_def subscript_def raw_field_def receipt_fields_def)
  let ?d = "[(''job_id'', JStr ''job-1''), (''node_role'', JStr ''risk''), (''peer_id'', JStr ''peer-r''), (''agent_wallet'', JStr demo_address),
      (''summary'', JStr (sr_summary demo_response)), (''scenario_view'', scenario_json (sr_scenario_view demo_response)),
      (''signals'', str_list (sr_signals demo_response)), (''risks'', str_list (sr_risks demo_response)),
      (''confidence'', num (sr_confidence demo_response)), (''citations'', str_list (sr_citations demo_response)),
      (''timestamp'', JStr (sr_timestamp demo_response)),
      (''ree_receipt_hash'', JStr (rr_receipt_hash (demo_receipt []))), (''receipt_status'', JStr ''validated''),
      (''ree_prompt_hash'', JStr (rr_prompt_hash (demo_receipt []))), (''ree_tokens_hash'', JStr (rr_tokens_hash (demo_receipt []))),
      (''ree_model_name'', JStr (rr_model_name (demo_receipt []))), (''ree_receipt_body'', demo_receipt_json)]"
  have "fixture_response demo_receipt_json demo_role_fixture ''job-1'' ''risk'' ''peer-r'' demo_address = specialist_response_of_json ?d"
    by (simp add: fixture_response_def claim demo_role_fixture_def subscript_def raw_field_def as_mapping_def given_fields_def dmerge_def)
  also have "\<dots> = specialist_response_of_json (specialist_response_fields ?R)"
  proof -
    have R: "sr_job_id ?R = ''job-1''" "sr_peer_id ?R = ''peer-r''" "sr_node_role ?R = ''risk''"
      "sr_summary ?R = sr_summary demo_response" "sr_scenario_view ?R = sr_scenario_view demo_response"
      "sr_signals ?R = sr_signals demo_response" "sr_risks ?R = sr_risks demo_response" "sr_confidence ?R = sr_confidence demo_response"
      "sr_citations ?R = sr_citations demo_response" "sr_timestamp ?R = sr_timestamp demo_response"
      "sr_agent_wallet ?R = Some demo_address" "sr_ree_receipt_hash ?R = Some (rr_receipt_hash (demo_receipt []))"
      "sr_receipt_status ?R = Some ''validated''" "sr_ree_prompt_hash ?R = Some (rr_prompt_hash (demo_receipt []))"
      "sr_ree_tokens_hash ?R = Some (rr_tokens_hash (demo_receipt []))" "sr_ree_model_name ?R = Some (rr_model_name (demo_receipt []))"
      "sr_ree_receipt_body ?R = Some (Ree.receipt_fields (demo_receipt []))" "sr_ree_receipt_path ?R = None"
      by (simp_all add: receipt_response_def demo_response_def sample_response_def)
    show ?thesis
      unfolding specialist_response_of_json_def specialist_response_fields_def R opt_str_def opt_obj_def option.case
      by (simp add: str_field_def opt_str_field_def opt_obj_field_def scenario_field_def str_list_field_def unit_field_def float_field_def)
  qed
  also have "\<dots> = Inr ?R" using specialist_response_roundtrip claimed_fields(1) by blast
  finally show ?thesis .
qed

definition demo_settings :: "settings \<Rightarrow> settings" where
  "demo_settings s = set_role ''risk'' ''peer-r'' ''risk_analyst'' ''peer-r|risk_analyst'' s"

lemma demo_settings: "settings_for_roles s [demo_role_fixture] = Inr (demo_settings s)"
  by (simp add: role_settings_def demo_role_fixture_def subscript_def raw_field_def json_items_def str_list_def demo_settings_def)

lemma demo_candidates:
  "\<exists>p. list_candidates (init_registry (demo_settings s)) ''risk'' topology [] {} = Inr [p] \<and> pc_peer_id p = ''peer-r'' \<and>
    pc_reputation_score p = Fin 0"
proof -
  have "strip ''peer-r|risk_analyst'' \<noteq> []" by (simp add: text_eval)
  moreover have "parse_candidate \<lparr>ps_peer_id = ''peer-r'', ps_service_name = ''risk_analyst''\<rparr> ''peer-r|risk_analyst'' =
      \<lparr>ps_peer_id = ''peer-r'', ps_service_name = ''risk_analyst''\<rparr>" by code_simp
  moreover have "filter (\<lambda>item. item \<noteq> []) (map strip (split_on (CHR '','') ''peer-r|risk_analyst'')) = [''peer-r|risk_analyst'']"
    by code_simp
  ultimately have "parse_peer_candidates ''peer-r|risk_analyst'' \<lparr>ps_peer_id = ''peer-r'', ps_service_name = ''risk_analyst''\<rparr> =
      [\<lparr>ps_peer_id = ''peer-r'', ps_service_name = ''risk_analyst''\<rparr>]"
    by (simp add: parse_peer_candidates_def)
  then show ?thesis
    by (simp add: list_candidates_def get_candidates_for_role_def init_registry_def Let_def demo_settings_def set_role_def
        peer_reputation_score_def)
qed

lemma demo_row:
  "\<exists>row. evidence_row_of demo_crypto demo_public_verifier (init_registry (demo_settings s)) topology demo_task demo_receipt_json demo_role_fixture
      = Inr row \<and> row_checked row"
proof -
  obtain p where p: "list_candidates (init_registry (demo_settings s)) ''risk'' topology [] {} = Inr [p]" "pc_peer_id p = ''peer-r''"
    using demo_candidates by blast
  obtain sel where sel: "select_for_role (init_registry (demo_settings s)) ''risk'' topology [] {} = Inr sel"
      "ps_peer_id (sel_service sel) = ''peer-r''"
    using p by (simp add: select_for_role_def)
  have identity: "\<lparr>ai_role = ''risk'', ai_peer_id = ''peer-r'', ai_wallet = demo_address\<rparr> = demo_identity" by (simp add: demo_identity_def)
  obtain x where x: "sign_agent_execution demo_crypto demo_task demo_claimed demo_identity (fixture_private_key demo_crypto ''risk'') = Inr x"
    using claimed_signs by blast
  have ok: "verify_signed_execution demo_crypto x = Inr True"
    using signed_execution_verifies [OF demo_crypto_ok _ x] demo_address_ok by (simp add: demo_identity_def)
  have parts: "sx_task x = demo_task" "sx_response x = demo_claimed"
    using x by (auto elim!: sign_agent_execution_cases)
  have signer: "se_signer (sx_signature x) = demo_address"
    using signed_by_key [OF x] by (simp add: demo_crypto_def)
  obtain a where a: "verify_execution demo_crypto demo_public_verifier x = Inr a" "va_status a = ''accepted''"
      "verify_verification_attestation demo_crypto a = Inr True"
    using claimed_verdict [of "Some (se_output_hash (sx_signature x))"] ok parts signer by (auto simp: verify_execution_def Let_def)
  obtain k where k: "check_receipt_claim demo_crypto demo_claimed = Inr k" "rc_valid k" using demo_check_valid by blast
  have role: "subscript demo_role_fixture ''role'' = Inr (JStr ''risk'')"
    by (simp add: demo_role_fixture_def subscript_def raw_field_def)
  have key: "wallet_address_from_private_key demo_crypto key = Inr demo_address" for key
    by (simp add: wallet_address_from_private_key_def demo_crypto_def)
  have job: "ts_job_id demo_task = ''job-1''" by (simp add: demo_task_def)
  show ?thesis
    by (simp add: evidence_row_of_def Let_def role p(1) sel key job demo_fixture_response identity x a ok k row_checked_def)
qed

definition demo_lock :: string where
  "demo_lock = ''pip==1'' @ newline @ ''setuptools==2'' @ newline @ ''wheel==3''"

definition demo_evidence_fixture :: json where
  "demo_evidence_fixture = JObj
     [(''task'', task_spec_json demo_task), (''topology'', JObj []), (''roles'', JList [demo_role_fixture]),
      (''historical_testnet_references'', JList [])]"

definition demo_repository :: repository where
  "demo_repository =
     \<lparr>rp_bytes = (\<lambda>path. Inr (if path = lock_path then demo_lock else path)), rp_decode = Inr,
      rp_loads = (\<lambda>t. if t = fixture_path then Inr demo_evidence_fixture else if t = ree_receipt_path then Inr demo_receipt_json
        else Inl (ValueError ''Expecting value''))\<rparr>"

lemma demo_reads:
  "read_json demo_repository fixture_path = Inr demo_evidence_fixture" "read_json demo_repository ree_receipt_path = Inr demo_receipt_json"
  "read_text demo_repository testnet_source_path = Inr testnet_source_path" "read_text demo_repository lock_path = Inr demo_lock"
  "\<exists>h. sha256_file c demo_repository path = Inr h"
  by (simp_all add: read_json_def read_text_def sha256_file_def demo_repository_def lock_path_def fixture_path_def
      ree_receipt_path_def testnet_source_path_def)

lemma demo_parts: "fixture_parts demo_repository = Inr (demo_receipt_json, demo_task, JObj [], [demo_role_fixture])"
proof -
  have "valid_task_spec demo_task" by (simp add: demo_task_def valid_task_spec_def)
  then have "as_task (task_spec_json demo_task) = Inr demo_task"
    using task_spec_roundtrip by (simp add: as_task_def task_spec_json_def)
  then show ?thesis
    by (simp add: fixture_parts_def demo_reads demo_evidence_fixture_def subscript_def raw_field_def json_items_def)
qed

lemma demo_evidence: "\<exists>doc. build_public_evidence demo_crypto s demo_repository = Inr doc"
proof -
  obtain row where row: "evidence_row_of demo_crypto demo_public_verifier (init_registry (demo_settings s)) (Some []) demo_task
      demo_receipt_json demo_role_fixture = Inr row" "row_checked row"
    using demo_row by blast
  have "documented_rows (splitlines testnet_source_path) [] = Inr []" unfolding testnet_source_path_def by code_simp
  then have "historical_references demo_repository = Inr []"
    by (simp add: historical_references_def demo_reads demo_evidence_fixture_def subscript_def raw_field_def json_items_def
        build_testnet_references_def)
  moreover have "evidence_rows demo_crypto s demo_receipt_json demo_task (JObj []) [demo_role_fixture] = Inr [row]"
    unfolding evidence_rows_def demo_settings demo_public_verifier using row by (simp add: topology_argument_def)
  moreover have "all_checks (length [demo_role_fixture]) [row]" using row(2) by (simp add: all_checks_rows)
  moreover obtain h1 where "sha256_file demo_crypto demo_repository fixture_path = Inr h1" using demo_reads(5) by blast
  moreover obtain h2 where "sha256_file demo_crypto demo_repository testnet_source_path = Inr h2" using demo_reads(5) by blast
  moreover obtain h3 where "sha256_file demo_crypto demo_repository lock_path = Inr h3" using demo_reads(5) by blast
  ultimately show ?thesis by (simp add: build_public_evidence_def demo_parts)
qed

lemma demo_written: "\<exists>manifest d. write_bundle demo_crypto s demo_repository None = (Inr manifest, Some d)"
proof -
  obtain doc where doc: "build_public_evidence demo_crypto s demo_repository = Inr doc" using demo_evidence by blast
  have "map_res (\<lambda>package. res_bind (locked_version (splitlines demo_lock) package) (\<lambda>v. Inr (package, v))) [''pip'', ''setuptools'', ''wheel''] =
      Inr [(''pip'', JStr ''1''), (''setuptools'', JStr ''2''), (''wheel'', JStr ''3'')]"
    unfolding demo_lock_def by code_simp
  then have "\<exists>j. locked_build_toolchain demo_repository = Inr j" by (simp add: locked_build_toolchain_def demo_reads)
  moreover obtain h where "sha256_file demo_crypto demo_repository lock_path = Inr h" using demo_reads(5) by blast
  ultimately obtain environment where env: "build_environment_record demo_crypto demo_repository = Inr environment"
    by (auto simp: build_environment_record_def)
  define g where "g path = (path, JStr (sha256_digest demo_crypto (if path = lock_path then demo_lock else path)))" for path
  have "res_bind (sha256_file demo_crypto demo_repository path) (\<lambda>h. Inr (path, JStr h)) = Inr (g path)" for path
    by (simp add: sha256_file_def demo_repository_def g_def)
  then have "map_res (\<lambda>path. res_bind (sha256_file demo_crypto demo_repository path) (\<lambda>h. Inr (path, JStr h))) source_paths =
      Inr (map g source_paths)" by (intro map_res_pure)
  then have "\<exists>m. build_manifest demo_crypto demo_repository (render_json doc) (render_json environment) = Inr m"
    by (simp add: build_manifest_def)
  then show ?thesis by (auto simp: write_bundle_def bundle_files_def doc env Let_def)
qed

lemma public_evidence_is_sound_witness:
  "\<exists>s references fixture_hash source_hash lock_hash row. row_sound demo_crypto demo_task row \<and>
     build_public_evidence demo_crypto s demo_repository =
       Inr (evidence_document (JObj []) fixture_hash source_hash lock_hash demo_task references [row])"
proof -
  obtain s :: settings where "wallet_ok s" using demo_cfg by blast
  obtain doc where doc: "build_public_evidence demo_crypto s demo_repository = Inr doc" using demo_evidence by blast
  from public_evidence_is_sound [OF doc] obtain rows references fixture_hash source_hash lock_hash where
      "doc = evidence_document (JObj []) fixture_hash source_hash lock_hash demo_task references rows"
      "map er_role rows = map named_role [demo_role_fixture]" "list_all (row_sound demo_crypto demo_task) rows"
    unfolding demo_parts by auto
  moreover from this(2) obtain row where "rows = [row]" by auto
  ultimately have "row_sound demo_crypto demo_task row \<and> build_public_evidence demo_crypto s demo_repository =
      Inr (evidence_document (JObj []) fixture_hash source_hash lock_hash demo_task references [row])"
    using doc by simp
  then show ?thesis by blast
qed

lemma written_bundle_verifies_witness:
  "\<exists>s manifest d. write_bundle demo_crypto s demo_repository None = (Inr manifest, Some d) \<and>
     verify_bundle demo_crypto s demo_repository (Some d) = Inr manifest \<and>
     verify_bundle demo_crypto s demo_repository (Some (dset d ''evidence.json'' Directory)) \<noteq> Inr manifest"
proof -
  obtain s :: settings where "wallet_ok s" using demo_cfg by blast
  obtain manifest d where w: "write_bundle demo_crypto s demo_repository None = (Inr manifest, Some d)" using demo_written by blast
  then obtain files where "bundle_files demo_crypto s demo_repository = Inr (manifest, files)"
      "dget d ''evidence.json'' = map_option File (dget files ''evidence.json'')"
    using written_directory [OF w] by auto
  then have "dget d ''evidence.json'' \<noteq> Some Directory" by (cases "dget files ''evidence.json''") auto
  then have "\<exists>name. dget (dset d ''evidence.json'' Directory) name \<noteq> dget d name"
    by (intro exI [of _ "''evidence.json''"]) (simp add: update_conv')
  with written_bundle_verifies [OF w, of s] w show ?thesis by blast
qed

end
