(* ===== verification/Entry_Points.thy ===== *)
theory Entry_Points
  imports Tamper Chain_Client Public_Evidence
begin

section \<open>Entry points (app/main.py, app/api/health.py, app/tamper/cli.py)\<close>

text \<open>
  The wiring of the service and the command line of the tamper demo. \<open>create_app\<close> gives the choices that the
  settings make: the transport, the model client, the verifier, and which chain parts exist. The command line
  runs the harness of \<open>Tamper\<close>, writes its artifact, prints a summary and turns the verdict into an exit code;
  the argument parser and the file system are left to the library.

  Shown: the offline demo never has a part that talks to the chain, and a recorder exists exactly when receipts
  are on, the demo is off and there is a key; the printed summary never raises, and the exit code is 0 exactly
  when every attack was caught and the honest run is clean.
\<close>

subsection \<open>The wiring\<close>

datatype transport_choice = Offline_preview | Axl_bridge

record app_parts =
  ap_demo_llm :: bool
  ap_transport :: transport_choice
  ap_verifier :: verifier
  ap_tx_verifier :: "chain_config option"
  ap_recorder :: "chain_config option"

definition chain_part :: "crypto \<Rightarrow> settings \<Rightarrow> bool \<Rightarrow> chain_config option res" where
  "chain_part c s wanted = (if wanted then res_bind (chain_config_from_settings c s) (\<lambda>cfg. Inr (Some cfg)) else Inr None)"

definition create_app :: "crypto \<Rightarrow> settings \<Rightarrow> app_parts res" where
  "create_app c s =
     (let chain = cfg_signal_count_chain_receipts s \<and> \<not> cfg_signal_count_offline_demo s in
      res_bind (make_verifier (1/2) (cfg_verifier_private_key s) (cfg_signal_count_ree_policy s) (cfg_signal_count_ree_enabled s)) (\<lambda>v.
      res_bind (chain_part c s chain) (\<lambda>tx_verifier.
      res_bind (chain_part c s (chain \<and> cfg_chain_writer_private_key s \<noteq> [])) (\<lambda>recorder. Inr
        \<lparr>ap_demo_llm = cfg_signal_count_demo_llm s,
         ap_transport = (if cfg_signal_count_offline_demo s then Offline_preview else Axl_bridge),
         ap_verifier = v, ap_tx_verifier = tx_verifier, ap_recorder = recorder\<rparr>))))"

definition health_json :: json where "health_json = JObj [(''status'', JStr ''ok'')]"

lemma chain_parts:
  assumes "create_app c s = Inr a"
  shows "ap_recorder a \<noteq> None \<longleftrightarrow>
      cfg_signal_count_chain_receipts s \<and> \<not> cfg_signal_count_offline_demo s \<and> cfg_chain_writer_private_key s \<noteq> []"
    and "ap_recorder a \<noteq> None \<Longrightarrow> ap_tx_verifier a = ap_recorder a"
    and "ap_transport a = Offline_preview \<Longrightarrow> ap_tx_verifier a = None \<and> ap_recorder a = None"
  using assms by (auto simp: create_app_def chain_part_def Let_def res_bind_Inr_iff split: if_splits)

subsection \<open>The tamper demo\<close>

fun path_of :: "json \<Rightarrow> string list \<Rightarrow> json res" where
  "path_of v [] = Inr v"
| "path_of v (k # ks) = res_bind (subscript v k) (\<lambda>w. path_of w ks)"

definition text_at :: "json \<Rightarrow> string list \<Rightarrow> string res" where
  "text_at v ks = res_bind (path_of v ks) (\<lambda>w. Inr (py_str w))"

definition items_at :: "json \<Rightarrow> string list \<Rightarrow> json list res" where
  "items_at v ks = res_bind (path_of v ks) json_items"

definition pad_left :: "nat \<Rightarrow> string \<Rightarrow> string" where
  "pad_left n s = replicate (n - length s) (CHR '' '') @ s"

definition string_items :: "json list \<Rightarrow> string list res" where
  "string_items = map_res (\<lambda>v. case v of JStr s \<Rightarrow> Inr s | _ \<Rightarrow> Inl (TypeError ''sequence item: expected str instance''))"

definition attack_line :: "json \<Rightarrow> string res" where
  "attack_line scenario =
     res_bind (text_at scenario [''attack'', ''name'']) (\<lambda>name.
     res_bind (text_at scenario [''detection'', ''status'']) (\<lambda>status.
     res_bind (res_bind (items_at scenario [''detection'', ''failed_check_names'']) string_items) (\<lambda>failed.
     let names = join '','' failed in
       Inr (''    ['' @ pad_left 8 status @ ''] '' @ name @ ''  (failed: '' @ (if names \<noteq> [] then names else ''-'') @ '')''))))"

definition tamper_lines :: "json \<Rightarrow> string \<Rightarrow> string res list" where
  "tamper_lines artifact out_path =
     [Inr (''tamper-evidence written: '' @ out_path),
      res_bind (text_at artifact [''honest'', ''detection'', ''status'']) (\<lambda>t. Inr (''  honest run:        '' @ t)),
      res_bind (text_at artifact [''summary'', ''attack_count'']) (\<lambda>t. Inr (''  attacks attempted: '' @ t)),
      res_bind (items_at artifact [''summary'', ''attacks_caught'']) (\<lambda>vs. Inr (''  attacks caught:    '' @ str_of_int (int (length vs))))] @
     (case path_of artifact [''summary'', ''attacks_missed''] of
        Inl e \<Rightarrow> [Inl e]
      | Inr missed \<Rightarrow> if truthy missed then [Inr (''  attacks missed:    '' @ py_str missed)] else []) @
     (case items_at artifact [''attacks''] of Inl e \<Rightarrow> [Inl e] | Inr scenarios \<Rightarrow> map attack_line scenarios)"

definition tamper_exit :: "json \<Rightarrow> nat res" where
  "tamper_exit artifact =
     res_bind (path_of artifact [''summary'', ''all_attacks_caught'']) (\<lambda>caught_all.
       if \<not> truthy caught_all then Inr 1
       else res_bind (path_of artifact [''honest'', ''detection'', ''status'']) (\<lambda>status.
         Inr (if status \<noteq> JStr ''clean'' then 2 else 0)))"

text \<open>The artifact that was written, the lines that were printed, and the exit code\<close>

definition tamper_main :: "crypto \<Rightarrow> jobject \<Rightarrow> string \<Rightarrow> bool \<Rightarrow> json option \<times> string list \<times> nat res" where
  "tamper_main c receipt_body out_path quiet =
     (case run_side_by_side c receipt_body of
        Inl e \<Rightarrow> (None, [], Inl e)
      | Inr artifact \<Rightarrow>
          (case (if quiet then ([], Inr ()) else print_lines (tamper_lines artifact out_path)) of
             (shown, Inl e) \<Rightarrow> (Some artifact, shown, Inl e)
           | (shown, Inr _) \<Rightarrow> (Some artifact, shown, tamper_exit artifact)))"

text \<open>The verdicts that the artifact holds\<close>

lemma artifact_parts:
  assumes "run_side_by_side c receipt_body = Inr artifact"
  obtains honest_result :: detection_result and scenarios :: "attack_run list" where
    "path_of artifact [''honest'', ''detection'', ''status''] = Inr (JStr (dt_status honest_result))"
    "path_of artifact [''summary'', ''attack_count''] = Inr (JInt (int (length scenarios)))"
    "path_of artifact [''summary'', ''all_attacks_caught''] = Inr (JBool (list_all caught scenarios))"
    "path_of artifact [''summary'', ''attacks_caught''] = Inr (str_list (map (\<lambda>s. at_name (sn_attack s)) (filter caught scenarios)))"
    "path_of artifact [''summary'', ''attacks_missed''] = Inr (str_list (map (\<lambda>s. at_name (sn_attack s)) (filter (\<lambda>s. \<not> caught s) scenarios)))"
    "path_of artifact [''attacks''] = Inr (JList (map attack_run_json scenarios))"
proof -
  obtain honest d scenarios where "artifact = JObj
      [(''schema'', JStr ''signal-count.tamper-evidence/v1''),
       (''honest'', JObj [(''execution'', signed_execution_json honest), (''detection'', detection_result_json d)]),
       (''attacks'', JList (map attack_run_json scenarios)),
       (''summary'', JObj
         [(''honest_status'', JStr (dt_status d)), (''attack_count'', JInt (int (length scenarios))),
          (''all_attacks_caught'', JBool (list_all caught scenarios)),
          (''attacks_caught'', str_list (map (\<lambda>s. at_name (sn_attack s)) (filter caught scenarios))),
          (''attacks_missed'', str_list (map (\<lambda>s. at_name (sn_attack s)) (filter (\<lambda>s. \<not> caught s) scenarios)))])]"
    using assms by (auto simp: run_side_by_side_def res_bind_Inr_iff)
  then show ?thesis
    by (intro that [of d scenarios]) (simp_all add: subscript_def raw_field_def detection_result_json_def)
qed

lemma print_all: "list_all (\<lambda>l. \<exists>t. l = Inr t) ls \<Longrightarrow> \<exists>shown. print_lines ls = (shown, Inr ())"
  by (induction ls rule: print_lines.induct) (auto split: prod.splits)

lemma attack_line_shown: "\<exists>t. attack_line (attack_run_json s) = Inr t"
proof -
  have "map_res (\<lambda>v. case v of JStr t \<Rightarrow> Inr t | _ \<Rightarrow> Inl (TypeError ''sequence item: expected str instance'')) (map JStr ts) = Inr ts" for ts
    by (induction ts) simp_all
  then show ?thesis
    by (simp add: attack_line_def text_at_def items_at_def string_items_def attack_run_json_def detection_result_json_def
        subscript_def raw_field_def json_items_def str_list_def Let_def)
qed

lemma tamper_exit_code:
  assumes "run_side_by_side c receipt_body = Inr artifact"
  shows "\<exists>shown (honest_result :: detection_result) (scenarios :: attack_run list) code. tamper_main c receipt_body out_path quiet = (Some artifact, shown, Inr code) \<and>
    path_of artifact [''honest'', ''detection'', ''status''] = Inr (JStr (dt_status honest_result)) \<and>
    path_of artifact [''attacks''] = Inr (JList (map attack_run_json scenarios)) \<and>
    code = (if \<not> list_all caught scenarios then 1 else if dt_status honest_result \<noteq> ''clean'' then 2 else 0)"
proof -
  obtain honest_result :: detection_result and scenarios :: "attack_run list" where parts:
    "path_of artifact [''honest'', ''detection'', ''status''] = Inr (JStr (dt_status honest_result))"
    "path_of artifact [''summary'', ''attack_count''] = Inr (JInt (int (length scenarios)))"
    "path_of artifact [''summary'', ''all_attacks_caught''] = Inr (JBool (list_all caught scenarios))"
    "path_of artifact [''summary'', ''attacks_caught''] = Inr (str_list (map (\<lambda>s. at_name (sn_attack s)) (filter caught scenarios)))"
    "path_of artifact [''summary'', ''attacks_missed''] = Inr (str_list (map (\<lambda>s. at_name (sn_attack s)) (filter (\<lambda>s. \<not> caught s) scenarios)))"
    "path_of artifact [''attacks''] = Inr (JList (map attack_run_json scenarios))"
    using artifact_parts [OF assms] by metis
  note [simp del] = path_of.simps
  have "list_all (\<lambda>l. \<exists>t. l = Inr t) (tamper_lines artifact out_path)"
    by (auto simp: tamper_lines_def text_at_def items_at_def parts json_items_def str_list_def list_all_iff attack_line_shown)
  then obtain shown where "print_lines (tamper_lines artifact out_path) = (shown, Inr ())" using print_all by blast
  then have "\<exists>shown. tamper_main c receipt_body out_path quiet = (Some artifact, shown,
      Inr (if \<not> list_all caught scenarios then 1 else if dt_status honest_result \<noteq> ''clean'' then 2 else 0))"
    using assms parts by (simp add: tamper_main_def tamper_exit_def)
  with parts(1,6) show ?thesis by blast
qed

end
