(* ===== verification/Authenticity.thy ===== *)
theory Authenticity
  imports Identity
begin

section \<open>What a verified signature proves (app/identity/signing.py, app/identity/canonical.py)\<close>

text \<open>
  \<^theory_text>\<open>Identity\<close> shows that what an agent signs verifies. Here is the converse: what verifies was
  signed. The signed text is canonical JSON, and canonical JSON strings are a prefix code
  (\<open>json_string_inj\<close>, by a decoder \<open>next_char\<close> of the escapes), so the text determines the role, the
  peer, the wallet and the two digests (\<open>signable_message_inj\<close>), a task determines its text and
  conversely (\<open>task_text_inj\<close>), and the text of an execution is never the text of an attestation
  (\<open>message_domains_differ\<close>): a verifier's signature cannot pass as an agent's.

  Unforgeability is the assumption on the signature scheme that the code relies on. It is a
  hypothesis about one signature: whatever text it recovers to the wallet from is one that the
  holder of the key signed, as an execution through \<open>sign_agent_execution\<close> or as an attestation.
  Collisions of the hash are not excluded; the theorem names the pair that would have to collide.
\<close>

subsection \<open>Canonical JSON strings are a prefix code\<close>

definition digit_of :: "char \<Rightarrow> nat" where
  "digit_of c = (if char_code c < 58 then char_code c - 48 else char_code c - 87)"

fun next_char :: "string \<Rightarrow> char \<times> string" where
  "next_char [] = (CHR 0x00, [])"
| "next_char (c # r) =
     (if char_code c \<noteq> 92 then (c, r)
      else case r of
        [] \<Rightarrow> (c, [])
      | e # r \<Rightarrow>
         (if e = CHR ''n'' then (char_of (10::nat), r)
          else if e = CHR ''r'' then (char_of (13::nat), r)
          else if e = CHR ''t'' then (char_of (9::nat), r)
          else if e = CHR ''b'' then (char_of (8::nat), r)
          else if e = CHR ''f'' then (char_of (12::nat), r)
          else if e = CHR ''u'' then (char_of (16 * digit_of (r ! 2) + digit_of (r ! 3)), drop 4 r)
          else (e, r)))"

lemma digit_of_hex: "d < 16 \<Longrightarrow> digit_of (hex_digit d) = d"
  by (simp add: digit_of_def hex_digit_def)

lemma char_code_eq: "char_code c = n \<Longrightarrow> c = char_of n"
  by (auto simp: char_code_def)

lemma next_json_char: "next_char (json_char c @ s) = (c, s)"
proof -
  consider "char_code c = 34" | "char_code c = 92" | "char_code c = 10" | "char_code c = 13" | "char_code c = 9"
    | "char_code c = 8" | "char_code c = 12"
    | "char_code c < 32" "char_code c \<noteq> 10" "char_code c \<noteq> 13" "char_code c \<noteq> 9" "char_code c \<noteq> 8" "char_code c \<noteq> 12"
    | "32 \<le> char_code c" "char_code c \<noteq> 34" "char_code c \<noteq> 92"
    by linarith
  then show ?thesis
  proof cases
    case 8
    define n where "n = char_code c"
    have n: "n < 32" "n div 16 < 16" "16 * (n div 16) + n mod 16 = n" "char_of n = c"
      using 8 by (auto simp: n_def char_code_def)
    have j: "json_char c = [char_of (92::nat), CHR ''u'', CHR ''0'', CHR ''0'', hex_digit (n div 16), hex_digit (n mod 16)]"
      using 8 by (simp add: json_char_def n_def Let_def)
    show ?thesis unfolding j using n by (simp add: digit_of_hex)
  next
    case 9
    then show ?thesis by (simp add: json_char_def)
  qed (drule char_code_eq, simp add: json_char_def char_code_def char_of_def bit_0)+
qed

lemma json_char_inj: "json_char c @ s = json_char d @ t \<Longrightarrow> c = d \<and> s = t"
  by (metis next_json_char prod.inject)

lemma json_char_open: "\<exists>e r. json_char c = e # r \<and> char_code e \<noteq> 34"
  by (auto simp: json_char_def Let_def)

lemma json_chars_inj:
  "concat (map json_char s) @ char_of (34::nat) # r = concat (map json_char t) @ char_of (34::nat) # q \<Longrightarrow> s = t \<and> r = q"
proof (induction s arbitrary: t)
  case Nil
  show ?case
  proof (cases t)
    case (Cons d u)
    obtain e v where "json_char d = e # v" "char_code e \<noteq> 34" using json_char_open by blast
    with Nil Cons show ?thesis by auto
  qed (use Nil in simp)
next
  case (Cons c s)
  obtain e v where e: "json_char c = e # v" "char_code e \<noteq> 34" using json_char_open by blast
  show ?case
  proof (cases t)
    case Nil
    with Cons.prems e show ?thesis by auto
  next
    case (Cons d u)
    with Cons.prems json_char_inj have "c = d"
      "concat (map json_char s) @ char_of (34::nat) # r = concat (map json_char u) @ char_of (34::nat) # q"
      by fastforce+
    with Cons.IH Cons show ?thesis by simp
  qed
qed

lemma json_string_inj: "json_string s @ r = json_string t @ q \<longleftrightarrow> s = t \<and> r = q"
  using json_chars_inj [of s r t q] unfolding json_string_def by auto

lemma json_string_inj': "json_string s = json_string t \<longleftrightarrow> s = t"
  using json_string_inj [of s "[]" t "[]"] by (simp only: append_Nil2 simp_thms)

subsection \<open>Signed texts determine what they cover\<close>

lemma signable_message_text:
  "signable_message c i signer th oh = Inr m \<longleftrightarrow>
     (\<exists>w. to_checksum c signer = Inr w \<and>
       m = ''{'' @ json_string ''domain'' @ '':'' @ json_string signature_domain @
         '','' @ json_string ''output_hash'' @ '':'' @ json_string oh @
         '','' @ json_string ''peer_id'' @ '':'' @ json_string (ai_peer_id i) @
         '','' @ json_string ''role'' @ '':'' @ json_string (ai_role i) @
         '','' @ json_string ''task_hash'' @ '':'' @ json_string th @
         '','' @ json_string ''version'' @ '':'' @ str_of_int signature_version @
         '','' @ json_string ''wallet'' @ '':'' @ json_string w @ ''}'')"
  by (auto simp: signable_message_def res_simps)

lemma attestation_message_text:
  "verification_attestation_message h =
     Inr (''{'' @ json_string ''attestation_hash'' @ '':'' @ json_string h @
       '','' @ json_string ''domain'' @ '':'' @ json_string attestation_domain @ ''}'')"
  by (simp add: verification_attestation_message_def)

lemma signable_message_inj:
  assumes "signable_message c i s th oh = Inr m" "signable_message c' i' s' th' oh' = Inr m"
  shows "ai_role i = ai_role i' \<and> ai_peer_id i = ai_peer_id i' \<and> to_checksum c s = to_checksum c' s' \<and>
     th = th' \<and> oh = oh'"
  using assms by (auto simp: signable_message_text json_string_inj json_string_inj')

lemma message_domains_differ:
  "signable_message c i s th oh = Inr m \<Longrightarrow> verification_attestation_message h \<noteq> Inr m"
  by (auto simp: signable_message_text attestation_message_text json_string_inj)

lemma task_spec_text:
  "canonical_json (task_spec_json t) = Inr (''{'' @ json_string ''asset'' @ '':'' @ json_string (ts_asset t) @
     '','' @ json_string ''horizon_days'' @ '':'' @ str_of_int (ts_horizon_days t) @
     '','' @ json_string ''job_id'' @ '':'' @ json_string (ts_job_id t) @
     '','' @ json_string ''thesis'' @ '':'' @ json_string (ts_thesis t) @ ''}'')"
  by (simp add: task_spec_json_def)

lemma int_text_inj:
  assumes "str_of_int i @ '','' @ s = str_of_int j @ '','' @ t"
  shows "i = j \<and> s = t"
proof -
  have free: "CHR '','' \<notin> set (str_of_int n)" for n
    using str_of_int_chars [of "CHR '',''" n] by (auto simp: is_digit_def char_code_def)
  have "split1 (CHR '','') (str_of_int i @ CHR '','' # s) = split1 (CHR '','') (str_of_int j @ CHR '','' # t)"
    using assms by (simp only: append_Cons append_Nil)
  then have "str_of_int i = str_of_int j" "s = t"
    unfolding split1_at [OF free [of i]] split1_at [OF free [of j]] by (simp_all only: prod.inject)
  then show ?thesis using str_of_int_inj by blast
qed

lemma task_text_inj:
  assumes "canonical_json (task_spec_json t) = canonical_json (task_spec_json u)"
  shows "t = u"
proof -
  have "ts_asset t = ts_asset u"
    and rest: "str_of_int (ts_horizon_days t) @ '','' @ json_string ''job_id'' @ '':'' @ json_string (ts_job_id t) @
      '','' @ json_string ''thesis'' @ '':'' @ json_string (ts_thesis t) @ ''}'' =
     str_of_int (ts_horizon_days u) @ '','' @ json_string ''job_id'' @ '':'' @ json_string (ts_job_id u) @
      '','' @ json_string ''thesis'' @ '':'' @ json_string (ts_thesis u) @ ''}''"
    using assms by (auto simp: task_spec_text json_string_inj)
  moreover from int_text_inj [OF rest] have "ts_horizon_days t = ts_horizon_days u"
    "ts_job_id t = ts_job_id u" "ts_thesis t = ts_thesis u"
    by (auto simp: json_string_inj json_string_inj')
  ultimately show ?thesis by simp
qed

subsection \<open>A verified execution was signed\<close>

definition execution_message :: "crypto \<Rightarrow> signed_agent_execution \<Rightarrow> string res" where
  "execution_message c y =
     signable_message c (sx_identity y) (se_signer (sx_signature y)) (se_task_hash (sx_signature y))
       (se_output_hash (sx_signature y))"

definition hashes_collide :: "crypto \<Rightarrow> json \<Rightarrow> json \<Rightarrow> bool" where
  "hashes_collide c v w \<longleftrightarrow>
     (case (canonical_json v, canonical_json w) of
        (Inr s, Inr t) \<Rightarrow> s \<noteq> t \<and> keccak_digest c s = keccak_digest c t
      | _ \<Rightarrow> False)"

lemma same_hash:
  assumes "canonical_json_hash c v = Inr h" "canonical_json_hash c w = Inr h"
  shows "canonical_json v = canonical_json w \<or> hashes_collide c v w"
proof -
  from assms obtain s t where "canonical_json v = Inr s" "canonical_json w = Inr t"
    "keccak_digest c s = keccak_digest c t"
    unfolding canonical_json_hash_def keccak256_hex_def res_bind_Inr_iff by fastforce
  then show ?thesis by (simp add: hashes_collide_def)
qed

lemma signed_fields:
  assumes "sign_agent_execution c task response identity k = Inr y"
  shows "key_address c k = Inr (se_signer (sx_signature y)) \<and>
    task_hash c (sx_task y) = Inr (se_task_hash (sx_signature y)) \<and>
    output_hash c (sx_response y) = Inr (se_output_hash (sx_signature y)) \<and>
    sr_node_role (sx_response y) = ai_role (sx_identity y) \<and>
    sr_peer_id (sx_response y) = ai_peer_id (sx_identity y)"
  by (rule sign_agent_execution_cases [OF assms]) (metis signature_envelope.select_convs(1))

lemma verified_message:
  assumes "verify_signed_execution c x = Inr True"
  obtains m a b signer where
    "recover_text c m (se_signature (sx_signature x)) = Inr a" "to_checksum c a = Inr b"
    "to_lower b = to_lower (se_signer (sx_signature x))"
    "to_checksum c (se_signer (sx_signature x)) = Inr signer"
    "\<exists>i. ai_role i = ai_role (sx_identity x) \<and> ai_peer_id i = ai_peer_id (sx_identity x) \<and>
       signable_message c i signer (se_task_hash (sx_signature x)) (se_output_hash (sx_signature x)) = Inr m"
  using assms unfolding verify_signed_execution_iff recover_execution_signer_def Let_def res_bind_Inr_iff
  by (metis normalize_identity_simps)

lemma verified_was_signed:
  assumes key: "key_address c k = Inr wallet"
    and signed: "\<forall>y \<in> E. \<exists>task response identity. sign_agent_execution c task response identity k = Inr y"
    and unforged: "\<forall>m a b. recover_text c m (se_signature (sx_signature x)) = Inr a \<and>
        to_checksum c a = Inr b \<and> to_lower b = to_lower wallet \<longrightarrow>
        (\<exists>y \<in> E. execution_message c y = Inr m) \<or> (\<exists>h \<in> A. verification_attestation_message h = Inr m)"
    and verified: "verify_signed_execution c x = Inr True"
    and signer: "to_lower (se_signer (sx_signature x)) = to_lower wallet"
  shows "\<exists>y \<in> E. se_signer (sx_signature y) = wallet \<and>
      sr_node_role (sx_response x) = sr_node_role (sx_response y) \<and>
      sr_peer_id (sx_response x) = sr_peer_id (sx_response y) \<and>
      task_hash c (sx_task x) = task_hash c (sx_task y) \<and>
      output_hash c (sx_response x) = output_hash c (sx_response y) \<and>
      (sx_task x = sx_task y \<or> hashes_collide c (task_spec_json (sx_task x)) (task_spec_json (sx_task y))) \<and>
      (canonical_json (specialist_response_json (sx_response x)) =
         canonical_json (specialist_response_json (sx_response y)) \<or>
       hashes_collide c (specialist_response_json (sx_response x)) (specialist_response_json (sx_response y)))"
  using verified
proof (rule verified_message)
  fix m a b s
  assume rec: "recover_text c m (se_signature (sx_signature x)) = Inr a" "to_checksum c a = Inr b"
      "to_lower b = to_lower (se_signer (sx_signature x))"
    and "\<exists>i. ai_role i = ai_role (sx_identity x) \<and> ai_peer_id i = ai_peer_id (sx_identity x) \<and>
       signable_message c i s (se_task_hash (sx_signature x)) (se_output_hash (sx_signature x)) = Inr m"
  then obtain i where i: "ai_role i = ai_role (sx_identity x)" "ai_peer_id i = ai_peer_id (sx_identity x)"
      "signable_message c i s (se_task_hash (sx_signature x)) (se_output_hash (sx_signature x)) = Inr m"
    by blast
  from unforged rec signer message_domains_differ [OF i(3)] obtain y where
    y: "y \<in> E" "execution_message c y = Inr m" by metis
  then obtain task response identity where
    "sign_agent_execution c task response identity k = Inr y" using signed by blast
  note f = signed_fields [OF this]
  note e = signable_message_inj [OF i(3) y(2) [unfolded execution_message_def]]
  have v: "task_hash c (sx_task x) = Inr (se_task_hash (sx_signature x))"
    "output_hash c (sx_response x) = Inr (se_output_hash (sx_signature x))"
    "sr_node_role (sx_response x) = ai_role (sx_identity x)" "sr_peer_id (sx_response x) = ai_peer_id (sx_identity x)"
    using verified unfolding verify_signed_execution_iff by (auto dest: normalize_identity_simps)
  have "task_hash c (sx_task x) = task_hash c (sx_task y)" "output_hash c (sx_response x) = output_hash c (sx_response y)"
    using v f e by simp_all
  moreover from this v f have
    "canonical_json (task_spec_json (sx_task x)) = canonical_json (task_spec_json (sx_task y)) \<or>
       hashes_collide c (task_spec_json (sx_task x)) (task_spec_json (sx_task y))"
    "canonical_json (specialist_response_json (sx_response x)) =
         canonical_json (specialist_response_json (sx_response y)) \<or>
       hashes_collide c (specialist_response_json (sx_response x)) (specialist_response_json (sx_response y))"
    unfolding task_hash_def output_hash_def using same_hash by metis+
  ultimately show ?thesis
    using y(1) key f v(3,4) e i task_text_inj by (intro bexI [of _ y]) auto
qed

text \<open>C5: A verified execution was signed: if an execution verifies under a wallet whose signature is
  not forged (every text the signature recovers to that wallet from is the text of an execution the
  holder of the key signed with \<^verbatim>\<open>sign_agent_execution\<close>, or of an attestation it signed), then the
  holder signed an execution of the same role and peer, whose task and response have the same
  digests, hence the same task and the same canonical response unless the two texts collide under
  the hash. A signature over an attestation never counts.\<close>

theorem verified_execution_was_signed:
  assumes key: "key_address c k = Inr wallet"
    and signed: "\<forall>y \<in> E. \<exists>task response identity. sign_agent_execution c task response identity k = Inr y"
    and unforged: "\<forall>m a b. recover_text c m (se_signature (sx_signature x)) = Inr a \<and>
        to_checksum c a = Inr b \<and> to_lower b = to_lower wallet \<longrightarrow>
        (\<exists>y \<in> E. execution_message c y = Inr m) \<or> (\<exists>h \<in> A. verification_attestation_message h = Inr m)"
    and verified: "verify_signed_execution c x = Inr True"
    and signer: "to_lower (se_signer (sx_signature x)) = to_lower wallet"
  shows "\<exists>y \<in> E. se_signer (sx_signature y) = wallet \<and>
      sr_node_role (sx_response x) = sr_node_role (sx_response y) \<and>
      sr_peer_id (sx_response x) = sr_peer_id (sx_response y) \<and>
      task_hash c (sx_task x) = task_hash c (sx_task y) \<and>
      output_hash c (sx_response x) = output_hash c (sx_response y) \<and>
      (sx_task x = sx_task y \<or> hashes_collide c (task_spec_json (sx_task x)) (task_spec_json (sx_task y))) \<and>
      (canonical_json (specialist_response_json (sx_response x)) =
         canonical_json (specialist_response_json (sx_response y)) \<or>
       hashes_collide c (specialist_response_json (sx_response x)) (specialist_response_json (sx_response y)))"
  using assms by (rule verified_was_signed)

subsection \<open>A concrete input\<close>

definition exact_sig :: "string \<Rightarrow> string \<Rightarrow> string" where
  "exact_sig m0 m = replicate 130 (if m = m0 then CHR ''0'' else CHR ''1'')"

definition exact_crypto :: "string \<Rightarrow> crypto" where
  "exact_crypto m0 = demo_crypto
     \<lparr>sign_text := (\<lambda>k m. Inr (exact_sig m0 m)),
      recover_text := (\<lambda>m s. if s = ''0x'' @ exact_sig m0 m then Inr demo_address
                             else Inl (ValueError ''bad signature''))\<rparr>"

definition demo_message :: string where
  "demo_message = projr (signable_message demo_crypto demo_identity demo_address
     (projr (task_hash demo_crypto demo_task)) (projr (output_hash demo_crypto demo_response)))"

lemma exact_same:
  "key_address (exact_crypto m0) = key_address demo_crypto"
  "keccak_digest (exact_crypto m0) = keccak_digest demo_crypto"
  "to_checksum (exact_crypto m0) = to_checksum demo_crypto"
  "task_hash (exact_crypto m0) = task_hash demo_crypto"
  "output_hash (exact_crypto m0) = output_hash demo_crypto"
  "signable_message (exact_crypto m0) = signable_message demo_crypto"
  by (simp_all add: exact_crypto_def fun_eq_iff task_hash_def output_hash_def canonical_json_hash_def
      keccak256_hex_def signable_message_def)

lemma exact_sig_ok: "hex_pattern 130 (''0x'' @ exact_sig m0 m)"
  by (simp add: exact_sig_def hex_pattern_def starts_with_def list_all_iff hex_value_def char_code_def)

lemma exact_crypto_ok: "crypto_ok (exact_crypto m0)"
  unfolding crypto_ok_def exact_same
proof (intro conjI allI impI)
  show "\<exists>s. sign_text (exact_crypto m0) k m = Inr s \<and> hex_pattern 130 (''0x'' @ s) \<and>
      recover_text (exact_crypto m0) m (''0x'' @ s) = Inr a" if "key_address demo_crypto k = Inr a" for k a m
    using that exact_sig_ok by (simp add: exact_crypto_def demo_crypto_def)
qed (use crypto_parts [OF demo_crypto_ok] in blast)+

lemma demo_output_hashed: "\<exists>oh. output_hash c demo_response = Inr oh"
  by (rule output_hash_total) (simp add: specialist_response_json_def specialist_response_fields_def
      demo_response_def sample_response_def scenario_json_def opt_obj_def)

lemma exact_signs:
  "\<exists>y. sign_agent_execution (exact_crypto demo_message) demo_task demo_response demo_identity k = Inr y \<and>
     execution_message (exact_crypto demo_message) y = Inr demo_message \<and>
     se_signature (sx_signature y) = ''0x'' @ exact_sig demo_message demo_message"
proof -
  let ?c = "exact_crypto demo_message"
  obtain th oh where h: "task_hash demo_crypto demo_task = Inr th" "output_hash demo_crypto demo_response = Inr oh"
    using task_hash_total demo_output_hashed by blast
  then have hashes: "hash_ok th" "hash_ok oh"
    using canonical_json_hash_ok [OF demo_crypto_ok] by (auto simp: task_hash_def output_hash_def)
  have cs: "to_checksum demo_crypto demo_address = Inr demo_address"
    using demo_address_ok by (simp add: demo_crypto_def)
  have norm: "normalize_identity ?c demo_identity = Inr demo_identity"
    by (simp add: normalize_identity_def demo_identity_def cs exact_same)
  have wallet: "response_wallet_matches_identity ?c demo_response demo_identity = Inr True"
    by (simp add: response_wallet_matches_identity_def demo_response_def demo_identity_def cs exact_same)
  have msg: "signable_message demo_crypto demo_identity demo_address th oh = Inr demo_message"
    by (simp add: demo_message_def h signable_message_def cs)
  have "sign_text ?c k demo_message = Inr (exact_sig demo_message demo_message)"
    "key_address demo_crypto k = Inr demo_address"
    by (simp_all add: exact_crypto_def demo_crypto_def)
  moreover have "ts_job_id demo_task = sr_job_id demo_response" "sr_node_role demo_response = ai_role demo_identity"
    "sr_peer_id demo_response = ai_peer_id demo_identity" "ai_wallet demo_identity = demo_address"
    by (simp_all add: demo_task_def demo_response_def sample_response_def demo_identity_def)
  ultimately show ?thesis
    using hashes exact_sig_ok h norm wallet msg demo_address_ok
    by (simp add: sign_agent_execution_def wallet_address_from_private_key_def make_envelope_def
        valid_signature_envelope_def execution_message_def exact_same)
qed

lemma verified_execution_was_signed_witness:
  "\<exists>x y. sign_agent_execution (exact_crypto demo_message) demo_task demo_response demo_identity ''k'' = Inr y \<and>
     verify_signed_execution (exact_crypto demo_message) x = Inr True \<and>
     output_hash (exact_crypto demo_message) (sx_response x) = output_hash (exact_crypto demo_message) (sx_response y)"
proof -
  let ?c = "exact_crypto demo_message"
  obtain y where y: "sign_agent_execution ?c demo_task demo_response demo_identity ''k'' = Inr y"
      "execution_message ?c y = Inr demo_message"
      "se_signature (sx_signature y) = ''0x'' @ exact_sig demo_message demo_message"
    using exact_signs by blast
  have v: "verify_signed_execution ?c y = Inr True"
    by (rule signed_execution_verifies [OF exact_crypto_ok _ y(1)]) (simp add: demo_identity_def demo_address_ok)
  have key: "key_address ?c ''k'' = Inr demo_address" by (simp add: exact_same demo_crypto_def)
  have signer: "se_signer (sx_signature y) = demo_address" using signed_fields [OF y(1)] key by simp
  have only: "m = demo_message" if "recover_text ?c m (se_signature (sx_signature y)) = Inr a" for m a
    using that unfolding y(3) by (auto simp: exact_crypto_def exact_sig_def split: if_split_asm)
  have "\<exists>z \<in> {y}. se_signer (sx_signature z) = demo_address \<and>
      sr_node_role (sx_response y) = sr_node_role (sx_response z) \<and>
      sr_peer_id (sx_response y) = sr_peer_id (sx_response z) \<and>
      task_hash ?c (sx_task y) = task_hash ?c (sx_task z) \<and>
      output_hash ?c (sx_response y) = output_hash ?c (sx_response z) \<and>
      (sx_task y = sx_task z \<or> hashes_collide ?c (task_spec_json (sx_task y)) (task_spec_json (sx_task z))) \<and>
      (canonical_json (specialist_response_json (sx_response y)) =
         canonical_json (specialist_response_json (sx_response z)) \<or>
       hashes_collide ?c (specialist_response_json (sx_response y)) (specialist_response_json (sx_response z)))"
    by (rule verified_execution_was_signed [where A = "{}", OF key _ _ v]) (use y only signer in auto)
  with y(1) v show ?thesis by blast
qed

end
