(* ===== verification/Spec2Isabelle.thy ===== *)
theory Spec2Isabelle
  imports Payouts Indexer Job_Api Chain_Recorder Tamper Pages Specialists MCP_Router Providers Chain_Analyst Ree_Runner Offline_Demo Public_Evidence Entry_Points Authenticity
begin

text \<open>
  \<^bold>\<open>A model of Signal Count\<close>, the service that turns a market thesis into an auditable memo: a coordinator
  asks specialist nodes (regime, narrative, risk) over a peer network, a verifier scores and signs their
  answers, a synthesizer writes the memo, the job store keeps it, and contracts on a test chain record the
  task, the contributions and the reputation, which an indexer reads back.

  \<^bold>\<open>How a job runs.\<close> \<open>Job_Api.submit_job\<close> (app/api/jobs.py) stores a pending job, lets the coordinator
  dispatch (\<open>Coordinator.coordinator_dispatch\<close>, app/coordinator/service.py: plan of roles from
  \<open>Orchestration\<close>, one \<open>Dispatch.dispatch_role\<close> per role over the peers that \<open>AXL_Registry\<close> ranks, then
  \<open>Verifier\<close> over the answers, then \<open>Reputation\<close> over the attestations), has the memo written, records
  receipts on the chain (\<open>Chain_Recorder\<close>) and completes the row of the \<open>Job_Store\<close>. \<open>Indexer\<close> polls the
  chain with \<open>Chain_Events\<close>, repairs reorganisations and keeps the events that \<open>Chain_Projection\<close> replays.

  \<^bold>\<open>Theories and sources.\<close>
  \<^item> \<open>Prelude\<close>: errors as values (\<open>res\<close>), insertion-ordered dictionaries, \<^verbatim>\<open>max\<close> and \<^verbatim>\<open>sorted\<close> as the
    language has them. \<open>Binary64\<close>: rounding to doubles over exact rationals. \<open>PyText\<close>, \<open>PyJson\<close>: strings,
    number parsing, JSON values and the canonical text (app/identity/canonical.py).
  \<^item> \<open>Contracts\<close> (app/schemas/contracts.py): the pydantic models as records, their constraints, their
    dumps and their validation. \<open>App_Settings\<close> (app/config/settings.py).
  \<^item> \<open>AXL_Registry\<close> (app/axl/registry.py), \<open>Dispatch\<close>, \<open>Orchestration\<close> (app/orchestration),
    \<open>Coordinator\<close>: candidates, the retry loop of a role, the workflow graph, a run.
  \<^item> \<open>Identity\<close> and \<open>Authenticity\<close> (app/identity), \<open>Ree\<close> (app/ree/receipts.py, validator.py, claims.py), \<open>Scoring\<close>,
    \<open>Payouts\<close>, \<open>Reputation\<close> (app/evaluation), \<open>Verifier\<close> (app/nodes/verifier/service.py): signatures,
    receipts, scores, the payout curve, the ledger, the verdict.
  \<^item> \<open>Job_Store\<close> (app/store/jobs.py), \<open>Job_Api\<close> (app/api/jobs.py): tables, migrations, rows, the
    submission and the verification bundle.
  \<^item> \<open>Chain_Events\<close>, \<open>Chain_Projection\<close>, \<open>Indexer\<close> (app/indexer); \<open>Chain_Receipts\<close>, \<open>Chain_Client\<close>,
    \<open>Chain_Recorder\<close> (app/chain): logs, projections, the scheduler; receipts, calls, broadcasting.
  \<^item> \<open>Tamper\<close> (app/tamper): the detector, the attacks and the harness.
  \<^item> \<open>Synthesis\<close> (app/coordinator/synthesis.py, app/observability/metrics.py): the prompt, the model's JSON
    with the facts of the run written over it, the fallback memo.
  \<^item> \<open>Html\<close> (\<^verbatim>\<open>html.escape\<close> and a reader of elements), \<open>Memo_Render\<close> (app/rendering/memo.py), \<open>Page_Parts\<close>
    and \<open>Pages\<close> (app/api/pages.py, app/demo/fixtures.py): the operator page and its routes.
  \<^item> \<open>Specialists\<close> (app/nodes/regime, narrative, risk), \<open>Chain_Analyst\<close> (app/nodes/chain_analyst): what the four
    specialists answer. \<open>Ree_Runner\<close> (app/ree/runner.py): the reproducible run behind the risk node.
  \<^item> \<open>Providers\<close> (app/integrations, app/axl/client.py), \<open>MCP_Router\<close> (mcp_routing/mcp_router.py), \<open>Node_Server\<close>
    (app/nodes/server.py), \<open>Offline_Demo\<close> (app/demo/offline_transport.py): the clients, the router, the process
    around a specialist, and the transport that replaces all of these in the demo.
  \<^item> \<open>Public_Evidence\<close> (app/evidence/public_fixture.py, scripts/build_public_evidence.py) and \<open>Entry_Points\<close>
    (app/main.py, app/api/health.py, app/tamper/cli.py): the signed fixture and its bundle, the wiring.

  \<^bold>\<open>State.\<close> Records carry the state under the source's names with a short prefix; an operation takes the
  state and returns it with the result. The store is a \<open>job_store\<close> around a \<open>db\<close> of rows; a coordinator
  run returns its record of everything it decided; a chain recording threads the calls it has made, and
  the node's answer may depend on all of them. Every exception is a value of \<open>py_error\<close>.

  \<^bold>\<open>What the lemmas show.\<close> Dispatch: a role ends when its peers are distinct and loops for ever when one is
  listed twice; an accepted answer names its job, role and peer; every role of a run is answered, missing
  or rejected, exactly one of these. Identity: what is signed verifies, and what verifies under a wallet
  whose signature is not forged was signed by its key, with this task and response up to collisions of the
  hash: the signed texts are a prefix code, and those of executions and attestations differ. Receipts and verdicts: claims fail closed, the digest of a body is bound, credit needs a
  verified signature, acceptance is equivalent to its conditions. Ledger: the floating-point leaderboard is
  the exact sum, in any order; scores survive the chain. Store: a file of an earlier release is
  migrated without an error and its rows read back with the declared defaults, the life of a job, the stored
  leaderboard; the locale \<open>chain_index\<close> states what the scheduler needs of a store and is interpreted on it.
  Indexer: a run repairs a shallow reorganisation and replays exactly the new chain, a failed repair loses
  events, and a loop of runs over a chain that does not reorganise leaves no gap, whatever fails in between.
  Bundle: a job that does not fail binds every
  attestation to its one response. Recorder: one signed transaction per receipt, consecutive nonces, capped
  values. Tamper: what verifies with a valid receipt claim is what the detector calls clean, up to the two
  comparisons the detector leaves out. Memo: whatever the model
  writes, the memo carries the facts of the run, and it is written unless the failure is one of those that
  are not caught. Pages: every text put into the page is a fragment, so no stored value acts as markup.
  Specialists: the regime node answers every snapshot with weights in the unit interval; the chain analyst
  does not depend on the order of events and answers exactly when the reputations are finite; a REE run that
  returns found the one new receipt of its request, so the risk node's claim is valid. Transport: an answer of
  a node passes the context check exactly for the peer of its settings, a regime request from the market
  fixture goes through the router to the node and its answer comes back inside the router's reply, an outage
  is recorded as an error and never as a time-out, and a stopping node deregisters
  whoever runs under its name; the router keeps its entries well formed and answers every request whose
  service is still there. Evidence: the build depends on the repository only, what it writes has been verified
  row by row, and a bundle verifies exactly when it is the same three files.

  \<^bold>\<open>Bounds and fuel.\<close> No fuel is used. The two loops that may not end, dispatching to a role and waiting for a
  transaction, are partial functions with results in \<open>option\<close>, and their termination is proved under the
  condition it needs. Amounts of wei, block numbers and database integers are integers; what SQLite stores
  is checked against 64 bits where it is bound to a statement.

  \<^bold>\<open>Parameters.\<close> Keccak, SHA-256, addresses, keys and signatures (\<open>crypto\<close>, with the promises \<open>crypto_ok\<close>);
  ABI encoding and decoding; what an HTTP call comes to (\<open>http_result\<close>) and the clock; the chain node and its
  clock; \<^verbatim>\<open>json.loads\<close>, \<^verbatim>\<open>log1p\<close> and the REE process; the bytes of files; new identifiers and times. An instance
  (\<open>demo_crypto\<close>) shows that the promises can hold together.

  \<^bold>\<open>Limits.\<close> Strings are of 8-bit characters, with case and white space as in ASCII. Doubles are finite
  rationals; operations on scores do not overflow, and conversions that could are checked. Concurrent calls
  of one run are gathered in the order of the plan. Coercions of pydantic between strings and numbers are
  modelled for the fields that are read. The language version is 3.11, as in the CI.

  \<^bold>\<open>Not modelled.\<close> Tracing, whose spans do nothing; the payout command line, which prints the simulation of
  \<open>Payouts\<close> over a file; the manual script around \<open>Ree_Runner\<close>; the AXL bridge between the client and the router,
  which is not part of the repository; argument parsers, the web framework, locks and
  temporary directories, which belong to the libraries.
\<close>

end
